(* ===== verification/Pse_Prelude.thy ===== *)
theory Pse_Prelude
  imports Main "HOL-Library.Word" "HOL-Library.Monad_Syntax" "HOL-Library.Sublist"
begin

text \<open>
  Shared vocabulary of the development: the machine-integer types of the
  firmware, the representation of C undefined behaviour, byte buffers and the
  little-endian layout of integers in them, and the search loops that the
  components write as \<^verbatim>\<open>for (...) if (...) break;\<close>.
\<close>

unbundle bit_operations_syntax

section \<open>Machine integers\<close>

type_synonym u8 = "8 word"
type_synonym u16 = "16 word"
type_synonym u32 = "32 word"
type_synonym u64 = "64 word"

lemma unat_u8_less: "unat (w :: u8) < 256"
  using unsigned_less [where 'a = nat, of w] by simp

named_theorems ok_rules \<open>decomposition of \<open>ok\<close> over the program combinators\<close>
named_theorems codec_simps \<open>layout of structs in byte buffers\<close>

section \<open>Executions that may have undefined behaviour\<close>

text \<open>
  An operation of type \<open>'s option\<close> is \<open>None\<close> exactly where the C code would
  dereference a null pointer or leave the bounds of an object.  \<open>ok m P\<close> says that
  the execution \<open>m\<close> is free of such behaviour and ends in a state satisfying \<open>P\<close>.
\<close>

definition ok :: "'a option \<Rightarrow> ('a \<Rightarrow> bool) \<Rightarrow> bool" where
  "ok m P = (case m of None \<Rightarrow> False | Some x \<Rightarrow> P x)"

lemma ok_Some [simp]: "ok (Some x) P = P x"
  by (simp add: ok_def)

lemma ok_None [simp]: "\<not> ok None P"
  by (simp add: ok_def)

lemma ok_bind [ok_rules]: "ok (m \<bind> f) P = ok m (\<lambda>x. ok (f x) P)"
  by (cases m) auto

lemma ok_if [ok_rules]: "ok (if b then m else n) P = ((b \<longrightarrow> ok m P) \<and> (\<not> b \<longrightarrow> ok n P))"
  by simp

lemma ok_mono: "ok m P \<Longrightarrow> (\<And>x. P x \<Longrightarrow> Q x) \<Longrightarrow> ok m Q"
  by (cases m) auto

lemma ok_iff: "ok m P = (\<exists>x. m = Some x \<and> P x)"
  by (cases m) auto

lemma okE: "ok m P \<Longrightarrow> (\<And>x. m = Some x \<Longrightarrow> P x \<Longrightarrow> R) \<Longrightarrow> R"
  by (auto simp: ok_iff)

section \<open>Search loops\<close>

text \<open>\<open>find_idx P xs\<close> is the index at which a loop over \<open>xs\<close> that stops at the first
  element satisfying \<open>P\<close> stops; \<open>None\<close> when the loop runs to the end.\<close>

fun find_idx :: "('a \<Rightarrow> bool) \<Rightarrow> 'a list \<Rightarrow> nat option" where
  "find_idx P [] = None"
| "find_idx P (x # xs) = (if P x then Some 0 else map_option Suc (find_idx P xs))"

lemma find_idx_None: "find_idx P xs = None \<longleftrightarrow> (\<forall>x \<in> set xs. \<not> P x)"
  by (induction xs) auto

lemma find_idx_Some:
  "find_idx P xs = Some i \<longleftrightarrow> i < length xs \<and> P (xs ! i) \<and> (\<forall>j < i. \<not> P (xs ! j))"
proof (induction xs arbitrary: i)
  case Nil
  then show ?case by simp
next
  case (Cons x xs)
  show ?case
  proof (cases i)
    case 0
    then show ?thesis by auto
  next
    case (Suc k)
    with Cons.IH show ?thesis by (auto simp: All_less_Suc2)
  qed
qed

lemma find_idx_SomeD:
  assumes "find_idx P xs = Some i"
  shows "i < length xs" "P (xs ! i)" "\<And>j. j < i \<Longrightarrow> \<not> P (xs ! j)"
  using assms by (auto simp: find_idx_Some)

section \<open>Byte buffers\<close>

text \<open>\<open>memcpy_at dst off src\<close> overwrites \<open>length src\<close> bytes of \<open>dst\<close> from offset \<open>off\<close> on.\<close>

definition memcpy_at :: "'a list \<Rightarrow> nat \<Rightarrow> 'a list \<Rightarrow> 'a list" where
  "memcpy_at dst off src = take off dst @ src @ drop (off + length src) dst"

lemma length_memcpy_at [simp]:
  "off + length src \<le> length dst \<Longrightarrow> length (memcpy_at dst off src) = length dst"
  by (simp add: memcpy_at_def)

lemma take_memcpy_at:
  "off \<le> length dst \<Longrightarrow> take (off + length src) (memcpy_at dst off src) = take off dst @ src"
  by (simp add: memcpy_at_def)

lemma nth_memcpy_at:
  assumes "off + length src \<le> length dst" and "i < length dst"
  shows "memcpy_at dst off src ! i
         = (if off \<le> i \<and> i < off + length src then src ! (i - off) else dst ! i)"
  using assms by (auto simp: memcpy_at_def nth_append min_def)

lemma memcpy_at_nil [simp]: "memcpy_at dst off [] = dst"
  by (simp add: memcpy_at_def)

lemma memcpy_at_read_back:
  "off + length src \<le> length dst \<Longrightarrow> take (length src) (drop off (memcpy_at dst off src)) = src"
  by (simp add: memcpy_at_def)

text \<open>The offset of a member in a structure given by the sizes of its members.\<close>

fun offset_in :: "string \<Rightarrow> nat \<Rightarrow> (string \<times> nat) list \<Rightarrow> nat" where
  "offset_in f n [] = n"
| "offset_in f n ((g, k) # l) = (if f = g then n else offset_in f (n + k) l)"

section \<open>Little-endian integers in byte buffers\<close>

definition le16 :: "u16 \<Rightarrow> u8 list" where
  "le16 w = [ucast w, ucast (drop_bit 8 w)]"

definition le32 :: "u32 \<Rightarrow> u8 list" where
  "le32 w = [ucast w, ucast (drop_bit 8 w), ucast (drop_bit 16 w), ucast (drop_bit 24 w)]"

definition le64 :: "u64 \<Rightarrow> u8 list" where
  "le64 w = le32 (ucast w) @ le32 (ucast (drop_bit 32 w))"

definition get16 :: "u8 list \<Rightarrow> nat \<Rightarrow> u16" where
  "get16 bs i = ucast (bs ! i) OR push_bit 8 (ucast (bs ! (i + 1)))"

definition get32 :: "u8 list \<Rightarrow> nat \<Rightarrow> u32" where
  "get32 bs i = ucast (bs ! i) OR push_bit 8 (ucast (bs ! (i + 1)))
     OR push_bit 16 (ucast (bs ! (i + 2))) OR push_bit 24 (ucast (bs ! (i + 3)))"

definition get64 :: "u8 list \<Rightarrow> nat \<Rightarrow> u64" where
  "get64 bs i = ucast (get32 bs i) OR push_bit 32 (ucast (get32 bs (i + 4)))"

lemma length_le [simp]: "length (le16 a) = 2" "length (le32 b) = 4" "length (le64 c) = 8"
  by (simp_all add: le16_def le32_def le64_def)

lemma get16_le16 [simp, codec_simps]: "get16 (le16 w @ xs) 0 = w"
  by (rule bit_word_eqI) (auto simp: get16_def le16_def bit_simps)

lemma get32_le32 [simp, codec_simps]: "get32 (le32 w @ xs) 0 = w"
proof (rule bit_word_eqI)
  fix n :: nat
  assume "n < LENGTH(32)"
  then show "bit (get32 (le32 w @ xs) 0) n = bit w n"
    by (cases "n < 24"; cases "n < 16") (auto simp: get32_def le32_def bit_simps)
qed

lemma get16_skip: "i = n + length pre \<Longrightarrow> get16 (pre @ xs) i = get16 xs n"
  by (simp add: get16_def nth_append)

lemma get32_skip: "i = n + length pre \<Longrightarrow> get32 (pre @ xs) i = get32 xs n"
  by (simp add: get32_def nth_append)

lemma get64_le64 [simp, codec_simps]: "get64 (le64 w @ xs) 0 = w"
proof -
  have "get32 (le64 w @ xs) 4 = ucast (drop_bit 32 w)"
    using get32_skip [of 4 0 "le32 (ucast w)" "le32 (ucast (drop_bit 32 w)) @ xs"]
    by (simp add: le64_def)
  moreover have "get32 (le64 w @ xs) 0 = ucast w"
    by (simp add: le64_def)
  ultimately show ?thesis
    by (intro bit_word_eqI) (auto simp: get64_def bit_simps)
qed

section \<open>Single bits\<close>

text \<open>\<^verbatim>\<open>BIT(n)\<close> of the kernel headers.\<close>

definition BIT :: "nat \<Rightarrow> 'a::len word" where
  "BIT n = push_bit n 1"

lemma bit_BIT [simp]: "bit (BIT n :: 'a::len word) k \<longleftrightarrow> k = n \<and> n < LENGTH('a)"
  by (auto simp: BIT_def bit_simps)

lemma and_BIT_eq_0: "(w AND BIT n = 0) \<longleftrightarrow> \<not> bit w n" for w :: "'a::len word"
proof
  assume "w AND BIT n = 0"
  then have "\<not> bit (w AND BIT n) n" by simp
  then show "\<not> bit w n" by (auto simp: bit_and_iff dest: bit_imp_le_length)
next
  assume "\<not> bit w n"
  then show "w AND BIT n = 0" by (intro bit_word_eqI) (auto simp: bit_and_iff)
qed

end
