(* ===== verification/Kernel_Env.thy ===== *)
theory Kernel_Env
  imports Pse_Prelude
begin

text \<open>
  The boundary of the host service: what the firmware tells the outside world
  (a log of I/O events), what it is told by code that is not part of the
  repository (the Zephyr kernel, the SEDI drivers), and the doorbell layout of
  \<^verbatim>\<open>host_service/include/ipc_helper.h\<close>.
\<close>

section \<open>Events the firmware emits\<close>

datatype fw_status = ILUP_HOST | HECI_READY

datatype pm_host_event = SEDI_PM_HOSTIPC_D0_NOTIFY | SEDI_PM_HOSTIPC_RTD3_NOTIFY

datatype pmc_notification = PMC_SRT_WAKEUP | PMC_SRT_SHUTDOWN

text \<open>Client callbacks are function pointers; a pointer is a number.\<close>

type_synonym cb_ptr = nat

text \<open>Messages of the out-of-band service to the cloud and power actions it requests (\<^verbatim>\<open>common/utils.h\<close>).\<close>

datatype app_message_type = STATIC | DYNAMIC | EVENT | API

datatype pmc_messages = PMC_ACTION_REBOOT_HOST | PMC_ACTION_REBOOT_PLATFORM | PMC_ACTION_POWERON | PMC_ACTION_POWEROFF

text \<open>Calls of the MQTT library that deliver events to the client.\<close>

datatype mqtt_call = MqttConnect | MqttSubscribe "string list" | MqttInput | MqttLive | MqttAbort | MqttRelease u16

datatype io_event =
    IpcWrite u32 "u8 list"          \<comment> \<open>\<^verbatim>\<open>ipc_write_msg\<close>: doorbell and bytes\<close>
  | IpcAck u32                      \<comment> \<open>\<^verbatim>\<open>ipc_send_ack\<close>\<close>
  | FwstSet fw_status int           \<comment> \<open>\<^verbatim>\<open>sedi_fwst_set\<close>\<close>
  | ClientEvent cb_ptr u32 nat      \<comment> \<open>\<^verbatim>\<open>conn->event_cb(event, conn->param)\<close>\<close>
  | TriggerPme                      \<comment> \<open>\<^verbatim>\<open>power_trigger_pme(PSE_DEV_LHIPC)\<close>\<close>
  | HostIpcEvent pm_host_event      \<comment> \<open>\<^verbatim>\<open>sedi_pm_set_hostipc_event\<close>\<close>
  | ClockSet u64 u64                \<comment> \<open>\<^verbatim>\<open>clock_settime(CLOCK_REALTIME, ..)\<close>: sec, nsec\<close>
  | TsyncSync                       \<comment> \<open>\<^verbatim>\<open>sedi_tsync_sync\<close>\<close>
  | AccessGrant nat                 \<comment> \<open>\<^verbatim>\<open>k_thread_access_grant\<close> to one thread\<close>
  | DmaSetup bool                   \<comment> \<open>\<^verbatim>\<open>sedi_dma_init\<close>, power on, memory types; DRAM to SRAM\<close>
  | DcacheClean u32                 \<comment> \<open>\<^verbatim>\<open>sedi_core_clean_dcache_by_addr\<close>\<close>
  | DcacheInv u32                   \<comment> \<open>\<^verbatim>\<open>sedi_core_inv_dcache_by_addr\<close>\<close>
  | DmaStart "u8 list" u64 u32      \<comment> \<open>\<^verbatim>\<open>sedi_dma_start_transfer\<close>: source bytes, target, length\<close>
  | DmaAbort                        \<comment> \<open>\<^verbatim>\<open>sedi_dma_abort_transfer\<close>\<close>
  | DmaPowerLow                     \<comment> \<open>\<^verbatim>\<open>sedi_dma_set_power(.., SEDI_POWER_LOW)\<close>\<close>
  | SysReboot                       \<comment> \<open>\<^verbatim>\<open>sys_reboot(0)\<close>\<close>
  | PmcPowerState pmc_notification  \<comment> \<open>\<^verbatim>\<open>pmc_command(SEND_POWER_STATE_CHANGE, ..)\<close>\<close>
  | PmcGetTjMax                     \<comment> \<open>\<^verbatim>\<open>pmc_command(GET_TJ_MAX, ..)\<close>\<close>
  | ThermalWrite nat u16            \<comment> \<open>\<^verbatim>\<open>write_data\<close> of a thermal driver: device, value\<close>
  | ChargeEnable nat                \<comment> \<open>\<^verbatim>\<open>enable_charging\<close> of a charger driver\<close>
  | ChargeDisable nat               \<comment> \<open>\<^verbatim>\<open>disable_charging\<close>\<close>
  | BatteryTripPoint nat u16        \<comment> \<open>\<^verbatim>\<open>battery_trip_point\<close> of a fuel gauge driver\<close>
  | GpioConfigure u32               \<comment> \<open>\<^verbatim>\<open>eclite_gpio_configure\<close> of the charger pin\<close>
  | GpioInterrupt u32               \<comment> \<open>\<^verbatim>\<open>gpio_pin_interrupt_configure\<close> of the charger pin\<close>
  | GpioReenable u32 u32            \<comment> \<open>\<^verbatim>\<open>eclite_gpio_pin_enable_callback\<close>: pin, flags\<close>
  | IsrCall nat                     \<comment> \<open>\<^verbatim>\<open>isr\<close> of a device\<close>
  | UcsiFn nat                      \<comment> \<open>\<^verbatim>\<open>ucsi_fn\<close> of a USB-C driver\<close>
  | TimerStart                      \<comment> \<open>\<^verbatim>\<open>k_timer_start(&dispatcher_timer, ..)\<close>\<close>
  | TimerStop                       \<comment> \<open>\<^verbatim>\<open>k_timer_stop(&dispatcher_timer)\<close>\<close>
  | OobPmControl bool               \<comment> \<open>\<^verbatim>\<open>sedi_pm_set_control(SEDI_PM_IOCTL_OOB_SUPPORT, ..)\<close>\<close>
  | SidebandRead u32                \<comment> \<open>\<^verbatim>\<open>sedi_sideband_send\<close> of a read: register address\<close>
  | DrbgRandom nat                  \<comment> \<open>\<^verbatim>\<open>mbedtls_ctr_drbg_seed\<close>, \<^verbatim>\<open>mbedtls_ctr_drbg_random\<close>: number of bytes\<close>
  | UptimeGet                       \<comment> \<open>\<^verbatim>\<open>k_uptime_get\<close>\<close>
  | KYield                          \<comment> \<open>\<^verbatim>\<open>k_yield\<close> and \<^verbatim>\<open>k_sleep\<close>\<close>
  | ThreadAbort                     \<comment> \<open>\<^verbatim>\<open>k_thread_abort\<close> of the own thread\<close>
  | PowerTimer bool                 \<comment> \<open>start or stop of \<^verbatim>\<open>oob_power_trans_timer\<close>\<close>
  | PingTimer bool                  \<comment> \<open>start or stop of \<^verbatim>\<open>ping_req_timer\<close>\<close>
  | MqttPublish string string       \<comment> \<open>\<^verbatim>\<open>mqtt_publish\<close>: topic, payload\<close>
  | MqttCall mqtt_call              \<comment> \<open>the other calls of the MQTT library\<close>
  | NetPoll                         \<comment> \<open>\<^verbatim>\<open>zsock_poll\<close>\<close>
  | DnsQuery string string          \<comment> \<open>\<^verbatim>\<open>zsock_getaddrinfo\<close>: host, port\<close>
  | DnsFree                         \<comment> \<open>\<^verbatim>\<open>zsock_freeaddrinfo\<close>\<close>
  | TlsCredDelete                   \<comment> \<open>\<^verbatim>\<open>tls_credential_delete\<close>\<close>
  | TlsCredAdd string               \<comment> \<open>\<^verbatim>\<open>tls_credential_add\<close>\<close>
  | RandGet                         \<comment> \<open>\<^verbatim>\<open>sys_rand32_get\<close>\<close>
  | DhcpStart                       \<comment> \<open>\<^verbatim>\<open>net_dhcpv4_start\<close>\<close>
  | NetCallback                     \<comment> \<open>\<^verbatim>\<open>net_mgmt_add_event_callback\<close>\<close>
  | TlsTimer bool                   \<comment> \<open>start or stop of \<^verbatim>\<open>oob_tls_session_timer\<close>\<close>
  | I2cConfigure nat                \<comment> \<open>\<^verbatim>\<open>i2c_configure\<close>: controller\<close>
  | I2cRead nat u16 "u8 list" nat   \<comment> \<open>a write of the register address and a read: controller, slave, register, bytes\<close>
  | I2cWrite nat u16 "u8 list" "u8 list"  \<comment> \<open>controller, slave, register, data\<close>
  | GpioPinConfigure nat u32 u32    \<comment> \<open>\<^verbatim>\<open>gpio_pin_configure\<close>: controller, pin, flags\<close>
  | GpioAddCallback nat u32         \<comment> \<open>\<^verbatim>\<open>gpio_add_callback\<close>\<close>
  | GpioPinInterrupt nat u32 u32    \<comment> \<open>\<^verbatim>\<open>gpio_pin_interrupt_configure\<close>\<close>
  | GpioPinSet nat u32 u32          \<comment> \<open>\<^verbatim>\<open>gpio_pin_set_raw\<close>\<close>
  | GpioPinGet nat u32              \<comment> \<open>\<^verbatim>\<open>gpio_pin_get_raw\<close>\<close>
  | PwmSet nat u32 u32 u32          \<comment> \<open>\<^verbatim>\<open>pwm_pin_set_cycles\<close>: controller, pin, period, pulse\<close>
  | TgpioCount nat                  \<comment> \<open>\<^verbatim>\<open>tgpio_pin_count_events\<close>\<close>
  | KSleep nat                      \<comment> \<open>\<^verbatim>\<open>k_sleep\<close>: milliseconds\<close>
  | WakeSource u32                  \<comment> \<open>\<^verbatim>\<open>sedi_pm_configure_wake_source\<close> of a pin\<close>
  | PmRegister                      \<comment> \<open>\<^verbatim>\<open>sedi_pm_register_...\<close>\<close>
  | PmcWrite u32 "u8 list"          \<comment> \<open>\<^verbatim>\<open>ipc_write_msg\<close> to the power management controller\<close>
  | PmcRead nat                     \<comment> \<open>\<^verbatim>\<open>ipc_read_msg\<close> from it: bytes at most\<close>
  | PmcAck                          \<comment> \<open>\<^verbatim>\<open>ipc_send_ack\<close> to it\<close>
  | PmcWait                         \<comment> \<open>a wait for its interrupt\<close>
  | SidebandRaw bool "u8 list"      \<comment> \<open>\<^verbatim>\<open>sideband_write_raw\<close> or \<^verbatim>\<open>sideband_read_raw\<close>\<close>
  | GlobalReset                     \<comment> \<open>\<^verbatim>\<open>sedi_pm_enable_global_reset\<close>\<close>
  | ThreadStart nat                 \<comment> \<open>\<^verbatim>\<open>k_thread_create\<close>, \<^verbatim>\<open>k_thread_start\<close>\<close>

type_synonym io_log = "io_event list"

section \<open>Code outside the repository\<close>

text \<open>
  The Zephyr kernel and the SEDI drivers are a parameter of the model.  Results
  that the outside decides (whether a write succeeds, what a register holds, who
  wins a wait) are functions of the log of everything emitted so far, so that
  successive calls may answer differently.
\<close>

datatype d3_event = RTD3_ENTRY | RTD3_EXIT | SX_ENTRY | D0_NOTIFIED

record kenv =
  ipc_write_ret :: "io_log \<Rightarrow> int"             \<comment> \<open>return code of \<^verbatim>\<open>ipc_write_msg\<close>\<close>
  ipc_read_ret :: "io_log \<Rightarrow> int"              \<comment> \<open>return code of \<^verbatim>\<open>ipc_read_msg\<close>\<close>
  ipc_read_data :: "io_log \<Rightarrow> nat \<Rightarrow> u8 list"  \<comment> \<open>the bytes it delivers, at most that many\<close>
  mutex_ret :: "io_log \<Rightarrow> int"                 \<comment> \<open>return code of \<^verbatim>\<open>k_mutex_lock\<close> with a timeout\<close>
  sem_given :: "io_log \<Rightarrow> bool"                \<comment> \<open>whether a blocked \<^verbatim>\<open>k_sem_take\<close> is served in time\<close>
  k_sem_take :: "nat \<Rightarrow> bool \<Rightarrow> int \<times> nat"     \<comment> \<open>count, served while waiting; code, new count\<close>
  k_sem_give :: "nat \<Rightarrow> nat \<Rightarrow> nat"            \<comment> \<open>limit, count; new count\<close>
  find_lsb_set :: "u32 \<Rightarrow> nat"
  d3_while_waiting :: "io_log \<Rightarrow> d3_event list" \<comment> \<open>power events during a wait for \<^verbatim>\<open>sem_d3\<close>\<close>
  rtc_us :: "io_log \<Rightarrow> u64"                    \<comment> \<open>\<^verbatim>\<open>sedi_rtc_get_us\<close>\<close>
  rtc_get :: "io_log \<Rightarrow> u64"                   \<comment> \<open>\<^verbatim>\<open>sedi_rtc_get\<close>\<close>
  tsync_time :: "io_log \<Rightarrow> u64"                \<comment> \<open>\<^verbatim>\<open>sedi_tsync_get_time\<close>\<close>
  tsync_multi :: u64                           \<comment> \<open>\<^verbatim>\<open>TSYNC_PMC_LOCAL_MULTI\<close>\<close>
  tsync_freq :: u64                            \<comment> \<open>\<^verbatim>\<open>TSYNC_DEFAULT_FREQ\<close>\<close>
  dma_timeout :: "io_log \<Rightarrow> bool"              \<comment> \<open>the DMA completion never arrives\<close>
  host_comm_reg :: "io_log \<Rightarrow> u32"             \<comment> \<open>\<^verbatim>\<open>read32(HOST_COMM_REG)\<close>\<close>
  config_heci_use_dma :: bool
  config_userspace :: bool

text \<open>
  Documented behaviour of the kernel primitives, as hypotheses: a semaphore is a
  counter bounded by its limit, taking it succeeds when the count is positive or
  somebody gives it in time, and \<open>find_lsb_set\<close> returns the position of the least
  significant set bit counted from 1, and 0 for the word 0; error codes are negative.
\<close>

definition zephyr_sem :: "kenv \<Rightarrow> bool" where
  "zephyr_sem e \<longleftrightarrow>
     (\<forall>c g. fst (k_sem_take e c g) \<le> 0) \<and>
     (\<forall>c g. fst (k_sem_take e c g) = 0 \<longleftrightarrow> 0 < c \<or> g) \<and>
     (\<forall>c g. snd (k_sem_take e c g) = c - 1) \<and>
     (\<forall>l c. k_sem_give e l c = min l (c + 1))"

definition zephyr_lsb :: "kenv \<Rightarrow> bool" where
  "zephyr_lsb e \<longleftrightarrow> find_lsb_set e 0 = 0 \<and>
     (\<forall>w n. bit w n \<longrightarrow> (\<forall>m < n. \<not> bit w m) \<longrightarrow> find_lsb_set e w = n + 1)"

definition zephyr_env :: "kenv \<Rightarrow> bool" where
  "zephyr_env e \<longleftrightarrow> zephyr_sem e \<and> zephyr_lsb e \<and> (\<forall>l. mutex_ret e l \<le> 0)"

lemma zephyr_envD:
  assumes "zephyr_env e"
  shows "fst (k_sem_take e c g) \<le> 0"
    and "fst (k_sem_take e c g) = 0 \<longleftrightarrow> 0 < c \<or> g"
    and "snd (k_sem_take e c g) = c - 1"
    and "k_sem_give e l c = min l (c + 1)"
    and "find_lsb_set e 0 = 0"
    and "bit w n \<Longrightarrow> (\<And>m. m < n \<Longrightarrow> \<not> bit w m) \<Longrightarrow> find_lsb_set e w = n + 1"
    and "mutex_ret e lg \<le> 0"
  using assms by (auto simp: zephyr_env_def zephyr_sem_def zephyr_lsb_def)

section \<open>State shared by all parts of the host service\<close>

record kstate =
  io :: io_log

definition emit :: "io_event \<Rightarrow> 'a kstate_scheme \<Rightarrow> 'a kstate_scheme" where
  "emit ev s = s\<lparr>io := io s @ [ev]\<rparr>"

lemma io_emit [simp]: "io (emit ev s) = io s @ [ev]"
  by (simp add: emit_def)

text \<open>\<^verbatim>\<open>ipc_write_msg(dev, drbl, buf, len, NULL, NULL, 0)\<close>\<close>

definition ipc_write_msg :: "kenv \<Rightarrow> u32 \<Rightarrow> u8 list \<Rightarrow> 'a kstate_scheme \<Rightarrow> int \<times> 'a kstate_scheme" where
  "ipc_write_msg e drbl bs s =
     (let s' = emit (IpcWrite drbl bs) s in (ipc_write_ret e (io s'), s'))"

section \<open>Doorbells (\<^verbatim>\<open>ipc_helper.h\<close>)\<close>

definition MNG_CAP_SUPPORTED :: u16 where "MNG_CAP_SUPPORTED = 1"
definition IPC_PROTOCOL_BOOT :: nat where "IPC_PROTOCOL_BOOT = 0"
definition IPC_PROTOCOL_HECI :: nat where "IPC_PROTOCOL_HECI = 1"
definition IPC_PROTOCOL_MCTP :: nat where "IPC_PROTOCOL_MCTP = 2"
definition IPC_PROTOCOL_MNG :: nat where "IPC_PROTOCOL_MNG = 3"
definition IPC_DATA_LEN_MAX :: nat where "IPC_DATA_LEN_MAX = 128"
definition IPC_DRBL_BUSY_OFFS :: nat where "IPC_DRBL_BUSY_OFFS = 31"

definition IPC_HEADER_GET_LENGTH :: "u32 \<Rightarrow> nat" where
  "IPC_HEADER_GET_LENGTH drbl = unat (drop_bit 0 drbl AND 0x03FF)"

definition IPC_HEADER_GET_PROTOCOL :: "u32 \<Rightarrow> nat" where
  "IPC_HEADER_GET_PROTOCOL drbl = unat (drop_bit 10 drbl AND 0x0F)"

definition IPC_HEADER_GET_MNG_CMD :: "u32 \<Rightarrow> nat" where
  "IPC_HEADER_GET_MNG_CMD drbl = unat (drop_bit 16 drbl AND 0x0F)"

definition IPC_BUILD_DRBL :: "nat \<Rightarrow> nat \<Rightarrow> u32" where
  "IPC_BUILD_DRBL len protocol =
     BIT IPC_DRBL_BUSY_OFFS OR push_bit 10 (of_nat protocol) OR push_bit 0 (of_nat len)"

definition IPC_BUILD_MNG_DRBL :: "nat \<Rightarrow> nat \<Rightarrow> u32" where
  "IPC_BUILD_MNG_DRBL cmd len =
     BIT IPC_DRBL_BUSY_OFFS OR push_bit 10 (of_nat IPC_PROTOCOL_MNG)
       OR push_bit 16 (of_nat cmd) OR push_bit 0 (of_nat len)"

text \<open>The acknowledge doorbell: \<^verbatim>\<open>drbl & (~BIT(IPC_DRBL_BUSY_OFFS))\<close>.\<close>

definition drbl_ack_of :: "u32 \<Rightarrow> u32" where
  "drbl_ack_of drbl = drbl AND NOT (BIT IPC_DRBL_BUSY_OFFS)"

lemma and_0x3FF: "(w :: u32) AND 0x3FF = take_bit 10 w"
  by (simp add: take_bit_eq_mask mask_numeral)

lemma and_0xF: "(w :: u32) AND 0xF = take_bit 4 w"
  by (simp add: take_bit_eq_mask mask_numeral)

lemma bit_nat_small: "n < 2 ^ k \<Longrightarrow> bit n i \<Longrightarrow> i < k" for n :: nat
  by (metis bit_take_bit_iff take_bit_nat_eq_self)

lemmas drbl_defs = IPC_HEADER_GET_LENGTH_def IPC_HEADER_GET_PROTOCOL_def
  IPC_HEADER_GET_MNG_CMD_def IPC_BUILD_DRBL_def IPC_BUILD_MNG_DRBL_def
  IPC_DRBL_BUSY_OFFS_def IPC_PROTOCOL_MNG_def and_0x3FF and_0xF

lemma drbl_length_field:
  assumes "len < 2 ^ 10"
  shows "IPC_HEADER_GET_LENGTH (IPC_BUILD_DRBL len protocol) = len"
proof -
  have "take_bit 10 (BIT 31 OR push_bit 10 (of_nat protocol) OR of_nat len :: u32) = of_nat len"
    by (intro bit_word_eqI) (auto simp: bit_simps dest: bit_nat_small [OF assms])
  then show ?thesis
    using assms by (simp add: drbl_defs unat_of_nat take_bit_nat_eq_self)
qed

lemma drbl_protocol_field:
  assumes "len < 2 ^ 10" and "protocol < 2 ^ 4"
  shows "IPC_HEADER_GET_PROTOCOL (IPC_BUILD_DRBL len protocol) = protocol"
proof -
  have "take_bit 4 (drop_bit 10 (BIT 31 OR push_bit 10 (of_nat protocol) OR of_nat len :: u32))
        = of_nat protocol"
    by (intro bit_word_eqI)
      (auto simp: bit_simps dest: bit_nat_small [OF assms(1)] bit_nat_small [OF assms(2)])
  then show ?thesis
    using assms by (simp add: drbl_defs unat_of_nat take_bit_nat_eq_self)
qed

lemma mng_drbl_fields:
  assumes "len < 2 ^ 10" and "cmd < 2 ^ 4"
  shows "IPC_HEADER_GET_LENGTH (IPC_BUILD_MNG_DRBL cmd len) = len"
    and "IPC_HEADER_GET_PROTOCOL (IPC_BUILD_MNG_DRBL cmd len) = IPC_PROTOCOL_MNG"
    and "IPC_HEADER_GET_MNG_CMD (IPC_BUILD_MNG_DRBL cmd len) = cmd"
proof -
  let ?d = "BIT 31 OR push_bit 10 3 OR push_bit 16 (of_nat cmd) OR of_nat len :: u32"
  note small = bit_nat_small [OF assms(1)] bit_nat_small [OF assms(2)]
  have three: "bit (3 :: u32) i \<Longrightarrow> i < 2" for i
    using bit_nat_small [of 3 2 i] bit_of_nat_iff [of 3 i, where 'a = "32 word"] by simp
  have "take_bit 10 ?d = of_nat len"
    by (intro bit_word_eqI) (auto simp: bit_simps dest: small)
  then show "IPC_HEADER_GET_LENGTH (IPC_BUILD_MNG_DRBL cmd len) = len"
    using assms by (simp add: drbl_defs unat_of_nat take_bit_nat_eq_self)
  have "take_bit 4 (drop_bit 10 ?d) = 3"
    by (intro bit_word_eqI) (auto simp: bit_simps dest: small three)
  then show "IPC_HEADER_GET_PROTOCOL (IPC_BUILD_MNG_DRBL cmd len) = IPC_PROTOCOL_MNG"
    by (simp add: drbl_defs)
  have "take_bit 4 (drop_bit 16 ?d) = of_nat cmd"
    by (intro bit_word_eqI) (auto simp: bit_simps dest: small three)
  then show "IPC_HEADER_GET_MNG_CMD (IPC_BUILD_MNG_DRBL cmd len) = cmd"
    using assms by (simp add: drbl_defs unat_of_nat take_bit_nat_eq_self)
qed

end
