(* ===== verification/Host_Access.thy ===== *)
theory Host_Access
  imports Kernel_Env
begin

text \<open>
  Host access arbitration of \<^verbatim>\<open>sys_mng.c\<close>: before the firmware touches host memory or
  the host doorbell it requests access (\<^verbatim>\<open>host_access_req\<close>) and gives it back
  (\<^verbatim>\<open>host_access_dereq\<close>).  The first request takes \<^verbatim>\<open>sem_rtd3\<close>, the last release
  gives it; the host may enter RTD3 only while the semaphore is free.  The power
  state decides which function \<^verbatim>\<open>mng_host_access_req\<close> points to.

  Timeouts are not part of the model: whether a blocked call is served in time is
  decided by the environment.
\<close>

section \<open>State\<close>

text \<open>The targets of the function pointer \<^verbatim>\<open>mng_host_access_req\<close>.\<close>

datatype access_fn = Req_d0 | Req_rtd3 | Req_sx | Req_rtd3_notified

record mng_state = kstate +
  rx_complete_enabled :: bool
  rx_complete_changed :: bool
  last_reset_notify_time :: u64
  sem_d3 :: nat
  sem_rtd3 :: nat
  is_waiting_d3 :: nat
  rtd3_req_map :: u32
  mng_host_access_req :: access_fn
  rtd3_map_lock :: nat      \<comment> \<open>calls of \<^verbatim>\<open>k_mutex_lock(&rtd3_map_lock)\<close> not yet unlocked\<close>

definition RTD3_NOTIFIED_STUCK :: int where "RTD3_NOTIFIED_STUCK = -1"
definition RTD3_SWITCH_TO_SX :: int where "RTD3_SWITCH_TO_SX = -2"

abbreviation lock_map :: "'a mng_state_scheme \<Rightarrow> 'a mng_state_scheme" where
  "lock_map s \<equiv> s\<lparr>rtd3_map_lock := rtd3_map_lock s + 1\<rparr>"

abbreviation unlock_map :: "'a mng_state_scheme \<Rightarrow> 'a mng_state_scheme" where
  "unlock_map s \<equiv> s\<lparr>rtd3_map_lock := rtd3_map_lock s - 1\<rparr>"

text \<open>The semaphores of \<^verbatim>\<open>K_SEM_DEFINE(sem_d3, 0, 1)\<close> and \<^verbatim>\<open>K_SEM_DEFINE(sem_rtd3, 1, 1)\<close>.\<close>

definition give_rtd3 :: "kenv \<Rightarrow> 'a mng_state_scheme \<Rightarrow> 'a mng_state_scheme" where
  "give_rtd3 e s = s\<lparr>sem_rtd3 := k_sem_give e 1 (sem_rtd3 s)\<rparr>"

definition give_d3 :: "kenv \<Rightarrow> 'a mng_state_scheme \<Rightarrow> 'a mng_state_scheme" where
  "give_d3 e s = s\<lparr>sem_d3 := k_sem_give e 1 (sem_d3 s)\<rparr>"

definition take_rtd3 :: "kenv \<Rightarrow> bool \<Rightarrow> 'a mng_state_scheme \<Rightarrow> int \<times> 'a mng_state_scheme" where
  "take_rtd3 e g s = (fst (k_sem_take e (sem_rtd3 s) g),
                      s\<lparr>sem_rtd3 := snd (k_sem_take e (sem_rtd3 s) g)\<rparr>)"

section \<open>Power events\<close>

definition mng_sx_entry :: "kenv \<Rightarrow> 'a mng_state_scheme \<Rightarrow> 'a mng_state_scheme" where
  "mng_sx_entry e s =
     (let old = is_waiting_d3 s; s1 = s\<lparr>is_waiting_d3 := 0\<rparr>;
          s2 = (if old \<noteq> 0 then give_d3 e (s1\<lparr>mng_host_access_req := Req_sx\<rparr>)
                else s1\<lparr>mng_host_access_req := Req_d0\<rparr>)
      in give_rtd3 e s2)"

text \<open>\<^verbatim>\<open>PM_EVENT_HOST_RTD3_ENTRY\<close> and \<^verbatim>\<open>PM_EVENT_HOST_RTD3_EXIT\<close>; other events are ignored.\<close>

fun mng_d3_proc :: "kenv \<Rightarrow> d3_event \<Rightarrow> 'a mng_state_scheme \<Rightarrow> 'a mng_state_scheme" where
  "mng_d3_proc e RTD3_ENTRY s =
     (let s1 = s\<lparr>mng_host_access_req := Req_rtd3\<rparr>; old = is_waiting_d3 s1;
          s2 = s1\<lparr>is_waiting_d3 := 0\<rparr>
      in if old \<noteq> 0 then give_d3 e s2 else s2)"
| "mng_d3_proc e RTD3_EXIT s = s\<lparr>mng_host_access_req := Req_d0\<rparr>"
| "mng_d3_proc e _ s = s"

section \<open>Receive completion and the D0 notification\<close>

definition MNG_RX_CMPL_INDICATION :: nat where "MNG_RX_CMPL_INDICATION = 2"
definition MNG_D0_NOTIFY :: nat where "MNG_D0_NOTIFY = 9"

definition send_rx_complete :: "kenv \<Rightarrow> 'a mng_state_scheme \<Rightarrow> int \<times> 'a mng_state_scheme" where
  "send_rx_complete e s =
     (if rx_complete_enabled s
      then ipc_write_msg e (IPC_BUILD_MNG_DRBL MNG_RX_CMPL_INDICATION 0) [] s
      else (0, s))"

definition MNG_D0_NOTIFY_ACK :: nat where "MNG_D0_NOTIFY_ACK = 10"

text \<open>The \<^verbatim>\<open>MNG_D0_NOTIFY\<close> case of \<^verbatim>\<open>sys_mng_handler\<close>.\<close>

definition mng_d0_notify :: "kenv \<Rightarrow> 'a mng_state_scheme \<Rightarrow> 'a mng_state_scheme" where
  "mng_d0_notify e s =
     (let s1 = emit (HostIpcEvent SEDI_PM_HOSTIPC_D0_NOTIFY) (s\<lparr>mng_host_access_req := Req_d0\<rparr>)
      in snd (ipc_write_msg e (IPC_BUILD_MNG_DRBL MNG_D0_NOTIFY_ACK 0) [] s1))"

text \<open>
  What other contexts can do while a thread waits for \<^verbatim>\<open>sem_d3\<close>: power management
  callbacks, or the host announcing D0, where \<^verbatim>\<open>ipc_rx_handler\<close> gives \<^verbatim>\<open>sem_rtd3\<close> and
  \<^verbatim>\<open>sys_mng_handler\<close> acknowledges the doorbell and handles the message.
\<close>

fun d3_interference :: "kenv \<Rightarrow> d3_event \<Rightarrow> 'a mng_state_scheme \<Rightarrow> 'a mng_state_scheme" where
  "d3_interference e SX_ENTRY s = mng_sx_entry e s"
| "d3_interference e D0_NOTIFIED s =
     (let s1 = emit (IpcAck (drbl_ack_of (IPC_BUILD_MNG_DRBL MNG_D0_NOTIFY 0))) (give_rtd3 e s)
      in mng_d0_notify e (snd (send_rx_complete e s1)))"
| "d3_interference e ev s = mng_d3_proc e ev s"

section \<open>Access functions\<close>

definition mng_host_req_d0 :: "kenv \<Rightarrow> 'a mng_state_scheme \<Rightarrow> int \<times> 'a mng_state_scheme" where
  "mng_host_req_d0 e s = take_rtd3 e (sem_given e (io s)) s"

definition mng_host_req_rtd3 :: "kenv \<Rightarrow> 'a mng_state_scheme \<Rightarrow> int \<times> 'a mng_state_scheme" where
  "mng_host_req_rtd3 e s =
     (let s1 = emit TriggerPme s in take_rtd3 e (sem_given e (io s1)) s1)"

definition mng_host_req_sx :: "'a mng_state_scheme \<Rightarrow> int \<times> 'a mng_state_scheme" where
  "mng_host_req_sx s = (RTD3_SWITCH_TO_SX, s\<lparr>mng_host_access_req := Req_d0\<rparr>)"

text \<open>
  \<^verbatim>\<open>mng_host_req_rtd3_notified\<close> waits for \<^verbatim>\<open>sem_d3\<close>; when it wakes up and the pointer
  has moved on, it calls the new target, which is not itself.
\<close>

definition mng_host_req_rtd3_notified ::
    "kenv \<Rightarrow> 'a mng_state_scheme \<Rightarrow> int \<times> 'a mng_state_scheme" where
  "mng_host_req_rtd3_notified e s =
     (let s1 = s\<lparr>is_waiting_d3 := is_waiting_d3 s + 1\<rparr>;
          s2 = (if sem_d3 s1 > 0 then s1
                else fold (d3_interference e) (d3_while_waiting e (io s1)) s1);
          s3 = s2\<lparr>sem_d3 := snd (k_sem_take e (sem_d3 s2) False)\<rparr>
      in case mng_host_access_req s3 of
           Req_rtd3_notified \<Rightarrow> (RTD3_NOTIFIED_STUCK, s3\<lparr>is_waiting_d3 := 0\<rparr>)
         | Req_d0 \<Rightarrow> mng_host_req_d0 e s3
         | Req_rtd3 \<Rightarrow> mng_host_req_rtd3 e s3
         | Req_sx \<Rightarrow> mng_host_req_sx s3)"

text \<open>The call through the pointer.\<close>

definition call_mng_host_access_req :: "kenv \<Rightarrow> 'a mng_state_scheme \<Rightarrow> int \<times> 'a mng_state_scheme" where
  "call_mng_host_access_req e s =
     (case mng_host_access_req s of
        Req_d0 \<Rightarrow> mng_host_req_d0 e s
      | Req_rtd3 \<Rightarrow> mng_host_req_rtd3 e s
      | Req_sx \<Rightarrow> mng_host_req_sx s
      | Req_rtd3_notified \<Rightarrow> mng_host_req_rtd3_notified e s)"

definition mng_host_access_dereq :: "kenv \<Rightarrow> 'a mng_state_scheme \<Rightarrow> 'a mng_state_scheme" where
  "mng_host_access_dereq e s = give_rtd3 e s"

section \<open>Requesting and releasing access\<close>

text \<open>\<^verbatim>\<open>BIT(32)\<close> of a handle out of range is 0, the result of the shift on the target.\<close>

definition host_access_req :: "kenv \<Rightarrow> 'a mng_state_scheme \<Rightarrow> int \<times> 'a mng_state_scheme" where
  "host_access_req e s =
     (let ret = mutex_ret e (io s)
      in if ret \<noteq> 0 then (ret, s)
         else let s1 = lock_map s
              in if rtd3_req_map s1 = - 1 then (-1, unlock_map s1)
                 else let (ret2, s2) = (if rtd3_req_map s1 = 0 then call_mng_host_access_req e s1
                                        else (0, s1))
                      in if ret2 \<noteq> 0 then (ret2, unlock_map s2)
                         else let h = find_lsb_set e (rtd3_req_map s2)
                              in (int h, unlock_map
                                    (s2\<lparr>rtd3_req_map := rtd3_req_map s2 OR BIT h\<rparr>)))"

definition host_access_dereq :: "kenv \<Rightarrow> int \<Rightarrow> 'a mng_state_scheme \<Rightarrow> int \<times> 'a mng_state_scheme" where
  "host_access_dereq e handler s =
     (let s1 = lock_map s
      in if 0 \<le> handler \<and> handler \<le> 31 \<and> rtd3_req_map s1 AND BIT (nat handler) \<noteq> 0
         then let s2 = s1\<lparr>rtd3_req_map := rtd3_req_map s1 AND NOT (BIT (nat handler))\<rparr>;
                  s3 = (if rtd3_req_map s2 = 0 then mng_host_access_dereq e s2 else s2)
              in (0, unlock_map s3)
         else (-1, unlock_map s1))"

section \<open>Frame properties\<close>

text \<open>The part of the state the arbitration depends on.\<close>

definition gate_view :: "'a mng_state_scheme \<Rightarrow> u32 \<times> nat" where
  "gate_view s = (rtd3_req_map s, rtd3_map_lock s)"

definition gate_idle :: "u32 \<times> nat \<Rightarrow> bool" where
  "gate_idle v \<longleftrightarrow> v = (0, 0)"

lemmas gate_prims = give_rtd3_def give_d3_def take_rtd3_def mng_sx_entry_def mng_d0_notify_def
  send_rx_complete_def ipc_write_msg_def emit_def mng_host_access_dereq_def
  mng_host_req_d0_def mng_host_req_rtd3_def mng_host_req_sx_def Let_def

lemma gate_view_interference [simp]: "gate_view (d3_interference e ev s) = gate_view s"
  by (cases ev) (auto simp: gate_view_def gate_prims)

lemma gate_view_interferences [simp]: "gate_view (fold (d3_interference e) evs s) = gate_view s"
  by (induction evs arbitrary: s) simp_all

lemma gate_view_simps [simp]:
  "gate_view (s\<lparr>is_waiting_d3 := n\<rparr>) = gate_view s"
  "gate_view (s\<lparr>sem_d3 := n\<rparr>) = gate_view s"
  "gate_view (s\<lparr>mng_host_access_req := f\<rparr>) = gate_view s"
  "gate_view (snd (mng_host_req_d0 e s)) = gate_view s"
  "gate_view (snd (mng_host_req_rtd3 e s)) = gate_view s"
  "gate_view (snd (mng_host_req_sx s)) = gate_view s"
  by (simp_all add: gate_view_def gate_prims)

lemma gate_view_notified [simp]:
  "gate_view (snd (mng_host_req_rtd3_notified e s)) = gate_view s"
  by (auto simp: mng_host_req_rtd3_notified_def Let_def split: access_fn.splits)

lemma gate_view_call [simp]: "gate_view (snd (call_mng_host_access_req e s)) = gate_view s"
  by (simp add: call_mng_host_access_req_def split: access_fn.splits)

lemma access_fn_ret_le_0 [simp]:
  assumes "zephyr_env e"
  shows "fst (mng_host_req_d0 e s) \<le> 0"
    and "fst (mng_host_req_rtd3 e s) \<le> 0"
    and "fst (mng_host_req_sx s) \<le> 0"
    and "fst (mng_host_req_rtd3_notified e s) \<le> 0"
  using zephyr_envD(1) [OF assms]
  by (simp_all add: mng_host_req_rtd3_notified_def RTD3_NOTIFIED_STUCK_def
      RTD3_SWITCH_TO_SX_def gate_prims split: access_fn.splits)

lemma call_ret_le_0: "zephyr_env e \<Longrightarrow> fst (call_mng_host_access_req e s) \<le> 0"
  by (simp add: call_mng_host_access_req_def split: access_fn.splits)

section \<open>One user of the gate\<close>

lemma host_access_req_idle:
  assumes "zephyr_env e" and "gate_idle (gate_view s)"
  shows "fst (host_access_req e s) < 0 \<and> gate_idle (gate_view (snd (host_access_req e s)))
         \<or> fst (host_access_req e s) = 0 \<and> gate_view (snd (host_access_req e s)) = (1, 0)"
proof -
  let ?c = "call_mng_host_access_req e (lock_map s)"
  have m: "rtd3_req_map s = 0" "rtd3_map_lock s = 0"
    using assms(2) by (auto simp: gate_idle_def gate_view_def)
  have c: "rtd3_req_map (snd ?c) = 0" "rtd3_map_lock (snd ?c) = 1"
    using gate_view_call [of e "lock_map s"] m by (simp_all add: gate_view_def)
  have z: "mutex_ret e (io s) \<le> 0" "fst ?c \<le> 0" "find_lsb_set e 0 = 0"
    using assms(1) zephyr_envD(5,7) call_ret_le_0 by blast+
  show ?thesis
    using m c z
    by (auto simp: host_access_req_def Let_def gate_idle_def gate_view_def BIT_def
        split: prod.splits)
qed

lemma host_access_dereq_last:
  assumes "gate_view s = (1, 0)"
  shows "fst (host_access_dereq e 0 s) = 0" "gate_idle (gate_view (snd (host_access_dereq e 0 s)))"
  using assms by (auto simp: host_access_dereq_def Let_def gate_view_def gate_idle_def BIT_def
      mng_host_access_dereq_def give_rtd3_def)

section \<open>The gate as an interface\<close>

text \<open>
  What a user of the gate relies on, with the gate's state seen through \<open>view\<close>: a
  refused request leaves an idle gate idle, and a granted one is undone by releasing
  the handle it returned, whatever happened in between to the rest of the state.
\<close>

locale host_gate =
  fixes good :: "'e \<Rightarrow> bool"
    and req :: "'e \<Rightarrow> 's \<Rightarrow> int \<times> 's"
    and dereq :: "'e \<Rightarrow> int \<Rightarrow> 's \<Rightarrow> int \<times> 's"
    and view :: "'s \<Rightarrow> 'v"
    and idle :: "'v \<Rightarrow> bool"
  assumes refused: "good e \<Longrightarrow> idle (view s) \<Longrightarrow> fst (req e s) < 0 \<Longrightarrow> idle (view (snd (req e s)))"
    and bracket: "good e \<Longrightarrow> idle (view s) \<Longrightarrow> 0 \<le> fst (req e s) \<Longrightarrow>
      view t = view (snd (req e s)) \<Longrightarrow>
      fst (dereq e (fst (req e s)) t) = 0 \<and> idle (view (snd (dereq e (fst (req e s)) t)))"
begin

text \<open>An operation that runs its body between a request and its release.\<close>

definition guarded :: "'e \<Rightarrow> ('s \<Rightarrow> 's) \<Rightarrow> 's \<Rightarrow> 's" where
  "guarded e body s =
     (if fst (req e s) < 0 then snd (req e s)
      else snd (dereq e (fst (req e s)) (body (snd (req e s)))))"

lemma guarded_idle:
  assumes "good e" and "idle (view s)" and "\<And>t. view (body t) = view t"
  shows "idle (view (guarded e body s))"
  using assms refused bracket [of e s "body (snd (req e s))"]
  by (cases "fst (req e s) < 0") (auto simp: guarded_def)

lemma guarded_many_idle:
  assumes "good e" and "idle (view s)"
    and "\<And>body t. body \<in> set bodies \<Longrightarrow> view (body t) = view t"
  shows "idle (view (fold (guarded e) bodies s))"
  using assms(2,3)
proof (induction bodies arbitrary: s)
  case Nil
  then show ?case by simp
next
  case (Cons b bs)
  then show ?case using guarded_idle [OF assms(1), of s b] by simp
qed

end

interpretation access_gate: host_gate zephyr_env host_access_req host_access_dereq gate_view gate_idle
proof unfold_locales
  fix e :: kenv and s :: "'a mng_state_scheme"
  assume "zephyr_env e" "gate_idle (gate_view s)" "fst (host_access_req e s) < 0"
  then show "gate_idle (gate_view (snd (host_access_req e s)))"
    using host_access_req_idle [of e s] by auto
next
  fix e :: kenv and s t :: "'a mng_state_scheme"
  assume a: "zephyr_env e" "gate_idle (gate_view s)" "0 \<le> fst (host_access_req e s)"
    and t: "gate_view t = gate_view (snd (host_access_req e s))"
  then have "fst (host_access_req e s) = 0" "gate_view t = (1, 0)"
    using host_access_req_idle [of e s] by auto
  then show "fst (host_access_dereq e (fst (host_access_req e s)) t) = 0 \<and>
      gate_idle (gate_view (snd (host_access_dereq e (fst (host_access_req e s)) t)))"
    using host_access_dereq_last [of t e] by simp
qed

section \<open>Several users of the gate\<close>

text \<open>
  The handle of a further request is the position after the lowest outstanding one.
  Where that position is already taken, the new user is handed a handle that
  another user holds, and the map does not change.
\<close>

lemma host_access_req_further:
  assumes "zephyr_env e" and "mutex_ret e (io s) = 0" and "rtd3_req_map s \<noteq> - 1"
    and "bit (rtd3_req_map s) n" and "\<And>m. m < n \<Longrightarrow> \<not> bit (rtd3_req_map s) m"
  shows "host_access_req e s =
           (int (n + 1), s\<lparr>rtd3_req_map := rtd3_req_map s OR BIT (n + 1)\<rparr>)"
proof -
  have "find_lsb_set e (rtd3_req_map s) = n + 1"
    using zephyr_envD(6) [OF assms(1)] assms(4,5) by blast
  moreover have "rtd3_req_map s \<noteq> 0"
    using assms(4) by auto
  ultimately show ?thesis
    using assms(2,3) by (simp add: host_access_req_def Let_def)
qed

lemma or_BIT_absorb: "bit w n \<Longrightarrow> w OR BIT n = w" for w :: "'a::len word"
  by (rule bit_word_eqI) (auto simp: bit_simps)

lemma host_access_req_alias:
  assumes "zephyr_env e" and "mutex_ret e (io s) = 0" and "rtd3_req_map s \<noteq> - 1"
    and "bit (rtd3_req_map s) n" and "\<And>m. m < n \<Longrightarrow> \<not> bit (rtd3_req_map s) m"
    and "bit (rtd3_req_map s) (n + 1)"
  shows "host_access_req e s = (int (n + 1), s)"
  using host_access_req_further [OF assms(1-5)] or_BIT_absorb [OF assms(6)] by simp

end
