(* ===== verification/Heci_Types.thy ===== *)
theory Heci_Types
  imports Host_Access
begin

text \<open>
  Data model of the HECI stack: constants and structures of
  \<^verbatim>\<open>sys_service/include/heci.h\<close> and \<^verbatim>\<open>host_service/heci/heci_internal.h\<close>, with the packed
  layout of every bus message.  A struct is a record; \<open>enc_*\<close> gives the bytes the
  compiler lays out for it (little endian, packed), \<open>dec_*\<close> is the cast of a buffer.
\<close>

section \<open>Constants\<close>

definition BITS_PER_DW :: nat where "BITS_PER_DW = 32"
definition HECI_IPC_PACKET_SIZE :: nat where "HECI_IPC_PACKET_SIZE = 128"
definition SIZEOF_HDR :: nat where "SIZEOF_HDR = 4"
definition HECI_MAX_PAYLOAD_SIZE :: nat where
  "HECI_MAX_PAYLOAD_SIZE = HECI_IPC_PACKET_SIZE - SIZEOF_HDR"
definition HECI_MAX_MSG_SIZE :: nat where "HECI_MAX_MSG_SIZE = 4096"
definition PAGE_BITMAP_NUM :: nat where "PAGE_BITMAP_NUM = 10"
definition CONFIG_HECI_PAGE_SIZE :: nat where "CONFIG_HECI_PAGE_SIZE = 4096"
definition CONFIG_HECI_DMA_THRESHOLD :: nat where "CONFIG_HECI_DMA_THRESHOLD = 372"
definition MAX_HOST_SIZE :: nat where
  "MAX_HOST_SIZE = PAGE_BITMAP_NUM * BITS_PER_DW * CONFIG_HECI_PAGE_SIZE"
definition HECI_FIXED_CLIENT_NUM :: nat where "HECI_FIXED_CLIENT_NUM = 32"
definition HECI_MAX_NUM_OF_CLIENTS :: nat where "HECI_MAX_NUM_OF_CLIENTS = 8"
definition HECI_MAX_NUM_OF_CONNECTIONS :: nat where
  "HECI_MAX_NUM_OF_CONNECTIONS = HECI_MAX_NUM_OF_CLIENTS"
definition HECI_DRIVER_MAJOR_VERSION :: u8 where "HECI_DRIVER_MAJOR_VERSION = 1"
definition HECI_DRIVER_MINOR_VERSION :: u8 where "HECI_DRIVER_MINOR_VERSION = 0"
definition HECI_DRIVER_ADDRESS :: u8 where "HECI_DRIVER_ADDRESS = 0"
definition HECI_SYSTEM_STATE_CLIENT_ADDR :: u8 where "HECI_SYSTEM_STATE_CLIENT_ADDR = 13"
definition HECI_FW_STATE_CLIENT_ADDR :: u8 where "HECI_FW_STATE_CLIENT_ADDR = 14"

text \<open>\<^verbatim>\<open>GEN_RESP\<close> and the commands of the bus protocol.\<close>

definition GEN_RESP :: "u8 \<Rightarrow> u8" where "GEN_RESP cmd = 0x80 OR cmd"

definition HECI_BUS_MSG_VERSION_REQ :: u8 where "HECI_BUS_MSG_VERSION_REQ = 0x01"
definition HECI_BUS_MSG_HOST_STOP_REQ :: u8 where "HECI_BUS_MSG_HOST_STOP_REQ = 0x02"
definition HECI_BUS_MSG_HOST_ENUM_REQ :: u8 where "HECI_BUS_MSG_HOST_ENUM_REQ = 0x04"
definition HECI_BUS_MSG_HOST_CLIENT_PROP_REQ :: u8 where "HECI_BUS_MSG_HOST_CLIENT_PROP_REQ = 0x05"
definition HECI_BUS_MSG_CLIENT_CONNECT_REQ :: u8 where "HECI_BUS_MSG_CLIENT_CONNECT_REQ = 0x06"
definition HECI_BUS_MSG_CLIENT_DISCONNECT_REQ :: u8 where "HECI_BUS_MSG_CLIENT_DISCONNECT_REQ = 0x07"
definition HECI_BUS_MSG_FLOW_CONTROL :: u8 where "HECI_BUS_MSG_FLOW_CONTROL = 0x08"
definition HECI_BUS_MSG_RESET_REQ :: u8 where "HECI_BUS_MSG_RESET_REQ = 0x09"
definition HECI_BUS_MSG_ADD_CLIENT_REQ :: u8 where "HECI_BUS_MSG_ADD_CLIENT_REQ = 0x0a"
definition HECI_BUS_MSG_DMA_ALLOC_NOTIFY_REQ :: u8 where "HECI_BUS_MSG_DMA_ALLOC_NOTIFY_REQ = 0x11"
definition HECI_BUS_MSG_DMA_XFER_REQ :: u8 where "HECI_BUS_MSG_DMA_XFER_REQ = 0x12"

lemmas heci_cmd_defs = GEN_RESP_def HECI_BUS_MSG_VERSION_REQ_def HECI_BUS_MSG_HOST_STOP_REQ_def
  HECI_BUS_MSG_HOST_ENUM_REQ_def HECI_BUS_MSG_HOST_CLIENT_PROP_REQ_def
  HECI_BUS_MSG_CLIENT_CONNECT_REQ_def HECI_BUS_MSG_CLIENT_DISCONNECT_REQ_def
  HECI_BUS_MSG_FLOW_CONTROL_def HECI_BUS_MSG_RESET_REQ_def HECI_BUS_MSG_ADD_CLIENT_REQ_def
  HECI_BUS_MSG_DMA_ALLOC_NOTIFY_REQ_def HECI_BUS_MSG_DMA_XFER_REQ_def

lemmas heci_size_defs = BITS_PER_DW_def HECI_IPC_PACKET_SIZE_def SIZEOF_HDR_def
  HECI_MAX_PAYLOAD_SIZE_def HECI_MAX_MSG_SIZE_def PAGE_BITMAP_NUM_def CONFIG_HECI_PAGE_SIZE_def
  CONFIG_HECI_DMA_THRESHOLD_def MAX_HOST_SIZE_def HECI_FIXED_CLIENT_NUM_def
  HECI_MAX_NUM_OF_CLIENTS_def HECI_MAX_NUM_OF_CONNECTIONS_def

text \<open>\<^verbatim>\<open>HECI_CONN_STATE\<close>: a set of flags.\<close>

definition HECI_CONN_STATE_UNUSED :: u8 where "HECI_CONN_STATE_UNUSED = 0"
definition HECI_CONN_STATE_OPEN :: u8 where "HECI_CONN_STATE_OPEN = BIT 0"
definition HECI_CONN_STATE_PROCESSING_MSG :: u8 where "HECI_CONN_STATE_PROCESSING_MSG = BIT 1"
definition HECI_CONN_STATE_DISCONNECTING :: u8 where "HECI_CONN_STATE_DISCONNECTING = BIT 2"
definition HECI_CONN_STATE_CONNECTION_REQUEST :: u8 where
  "HECI_CONN_STATE_CONNECTION_REQUEST = BIT 3"
definition HECI_CONN_STATE_SEND_DISCONNECT_RESP :: u8 where
  "HECI_CONN_STATE_SEND_DISCONNECT_RESP = BIT 4"

lemmas conn_state_defs = HECI_CONN_STATE_UNUSED_def HECI_CONN_STATE_OPEN_def
  HECI_CONN_STATE_PROCESSING_MSG_def HECI_CONN_STATE_DISCONNECTING_def
  HECI_CONN_STATE_CONNECTION_REQUEST_def HECI_CONN_STATE_SEND_DISCONNECT_RESP_def

text \<open>\<^verbatim>\<open>HECI_BUS_MSG_STATUS\<close>.\<close>

definition HECI_CONNECT_STATUS_SUCCESS :: u8 where "HECI_CONNECT_STATUS_SUCCESS = 0"
definition HECI_CONNECT_STATUS_CLIENT_NOT_FOUND :: u8 where "HECI_CONNECT_STATUS_CLIENT_NOT_FOUND = 1"
definition HECI_CONNECT_STATUS_REJECTED :: u8 where "HECI_CONNECT_STATUS_REJECTED = 3"
definition HECI_CONNECT_STATUS_INACTIVE_CLIENT :: u8 where "HECI_CONNECT_STATUS_INACTIVE_CLIENT = 5"

lemmas conn_status_defs = HECI_CONNECT_STATUS_SUCCESS_def HECI_CONNECT_STATUS_CLIENT_NOT_FOUND_def
  HECI_CONNECT_STATUS_REJECTED_def HECI_CONNECT_STATUS_INACTIVE_CLIENT_def

text \<open>\<^verbatim>\<open>MSG_TYPE\<close> and the events of \<^verbatim>\<open>heci.h\<close>.\<close>

definition HECI_REQUEST :: u8 where "HECI_REQUEST = 0"
definition HECI_CONNECT :: u8 where "HECI_CONNECT = 1"
definition HECI_EVENT_NEW_MSG :: u32 where "HECI_EVENT_NEW_MSG = BIT 0"
definition HECI_EVENT_DISCONN :: u32 where "HECI_EVENT_DISCONN = BIT 1"

section \<open>Clients, connections and the device\<close>

record heci_guid =
  data1 :: u32
  data2 :: u16
  data3 :: u16
  data4 :: "u8 list"

definition enc_guid :: "heci_guid \<Rightarrow> u8 list" where
  "enc_guid g = le32 (data1 g) @ le16 (data2 g) @ le16 (data3 g) @ data4 g"

definition guid_zero :: heci_guid where
  "guid_zero = \<lparr>data1 = 0, data2 = 0, data3 = 0, data4 = replicate 8 0\<rparr>"

text \<open>One fragment of an outgoing message; a chain \<^verbatim>\<open>mrd_t *\<close> is a list, \<^verbatim>\<open>NULL\<close> the empty one.\<close>

record mrd =
  mrd_buf :: "u8 list option"
  mrd_len :: u32

text \<open>Receive descriptors belong to the clients and are passed by pointer.\<close>

type_synonym rx_ptr = nat

record heci_rx_msg =
  rx_type :: u8
  rx_connection_id :: "7 word"
  rx_locked :: bool           \<comment> \<open>the bit \<^verbatim>\<open>msg_lock\<close>: \<^verbatim>\<open>MSG_LOCKED\<close> is 1\<close>
  rx_length :: u16
  rx_bytes :: "u8 list option"  \<comment> \<open>\<^verbatim>\<open>buffer\<close>\<close>

record heci_client =
  protocol_id :: heci_guid
  max_msg_size :: u32
  protocol_ver :: u8
  max_n_of_connections :: u8
  dma_header_length :: "7 word"
  dma_enabled :: bool
  rx_buffer_len :: u32
  rx_msg :: "rx_ptr option"
  event_cb :: "cb_ptr option"
  param :: nat
  thread_handle_list :: "nat option list"
  num_of_threads :: u8

record heci_client_ctrl =
  client_addr :: u8
  n_of_conns :: u8
  active :: bool
  properties :: heci_client

record heci_conn =
  conn_client :: "nat option"   \<comment> \<open>index into \<^verbatim>\<open>heci_dev.clients\<close>\<close>
  state :: u8
  fw_addr :: u8
  host_addr :: u8
  wait_thread_count :: u8
  rx_buffer :: "rx_ptr option"
  conn_event_cb :: "cb_ptr option"
  conn_param :: nat
  host_buffers :: u32
  flow_ctrl_sem :: "nat option"  \<comment> \<open>index into \<^verbatim>\<open>flow_ctrl_sems\<close>\<close>
  connection_id :: u8

record host_rx_dma_info =
  dma_addr :: u64
  dma_size :: u32
  num_pages :: u32
  page_bitmap :: "u32 list"
  dma_sem :: nat
  dma_lock :: nat

record heci_state = mng_state +
  clients :: "heci_client_ctrl list"
  connections :: "heci_conn list"
  notify_new_clients :: bool
  registered_clients :: nat
  host_rx_dma :: host_rx_dma_info
  flow_ctrl_sems :: "nat list"
  rx_heap :: "rx_ptr \<Rightarrow> heci_rx_msg"
  dev_lock :: nat       \<comment> \<open>calls of \<^verbatim>\<open>k_mutex_lock(&dev_lock)\<close> not yet unlocked\<close>

text \<open>Zero-initialised objects, as of static storage and \<^verbatim>\<open>memset\<close>.\<close>

definition client_zero :: heci_client where
  "client_zero = \<lparr>protocol_id = guid_zero, max_msg_size = 0, protocol_ver = 0,
     max_n_of_connections = 0, dma_header_length = 0, dma_enabled = False, rx_buffer_len = 0,
     rx_msg = None, event_cb = None, param = 0, thread_handle_list = [], num_of_threads = 0\<rparr>"

definition client_ctrl_zero :: heci_client_ctrl where
  "client_ctrl_zero = \<lparr>client_addr = 0, n_of_conns = 0, active = False, properties = client_zero\<rparr>"

definition conn_zero :: heci_conn where
  "conn_zero = \<lparr>conn_client = None, state = 0, fw_addr = 0, host_addr = 0, wait_thread_count = 0,
     rx_buffer = None, conn_event_cb = None, conn_param = 0, host_buffers = 0,
     flow_ctrl_sem = None, connection_id = 0\<rparr>"

definition dma_info_zero :: host_rx_dma_info where
  "dma_info_zero = \<lparr>dma_addr = 0, dma_size = 0, num_pages = 0,
     page_bitmap = replicate BITS_PER_DW 0, dma_sem = 0, dma_lock = 0\<rparr>"

definition rx_msg_zero :: "u8 list \<Rightarrow> heci_rx_msg" where
  "rx_msg_zero buf = \<lparr>rx_type = 0, rx_connection_id = 0, rx_locked = False, rx_length = 0,
     rx_bytes = Some buf\<rparr>"

definition heci_boot :: heci_state where
  "heci_boot = \<lparr>io = [], rx_complete_enabled = True, rx_complete_changed = False,
     last_reset_notify_time = 0, sem_d3 = 0, sem_rtd3 = 1, is_waiting_d3 = 0, rtd3_req_map = 0,
     mng_host_access_req = Req_d0, rtd3_map_lock = 0,
     clients = replicate HECI_MAX_NUM_OF_CLIENTS client_ctrl_zero,
     connections = replicate HECI_MAX_NUM_OF_CONNECTIONS conn_zero,
     notify_new_clients = False, registered_clients = 0, host_rx_dma = dma_info_zero,
     flow_ctrl_sems = replicate HECI_MAX_NUM_OF_CONNECTIONS 0,
     rx_heap = (\<lambda>_. rx_msg_zero []), dev_lock = 0\<rparr>"

end
