(* ===== verification/Heci_Msgs.thy ===== *)
theory Heci_Msgs
  imports Heci_Types
begin

text \<open>
  The messages of the HECI bus protocol (\<^verbatim>\<open>heci_internal.h\<close>) and their packed layout.
  Every struct that is both built and read somewhere is shown to satisfy the
  interface \<open>byte_codec\<close>: encoding has the size of the struct, and the cast of a
  buffer that starts with an encoded value recovers the value.
\<close>

section \<open>Fixed-size layouts\<close>

locale byte_codec =
  fixes enc :: "'a \<Rightarrow> u8 list"
    and dec :: "u8 list \<Rightarrow> 'a"
    and size :: nat
  assumes length_enc: "length (enc x) = size"
    and dec_enc: "dec (enc x @ ys) = x"
begin

lemma dec_enc_exact: "dec (enc x) = x"
  using dec_enc [of x "[]"] by simp

lemma enc_prefix_free: "enc x @ ys = enc y @ zs \<Longrightarrow> x = y \<and> ys = zs"
  by (metis append_eq_append_conv dec_enc length_enc)

lemma enc_inj: "enc x = enc y \<Longrightarrow> x = y"
  by (metis dec_enc_exact)

lemma dec_in_buffer: "size \<le> length buf \<Longrightarrow> dec (memcpy_at buf 0 (enc x)) = x"
  by (simp add: memcpy_at_def dec_enc)

end

section \<open>The bus header\<close>

record heci_hdr =
  hdr_fw_addr :: u8
  hdr_host_addr :: u8
  hdr_len :: "9 word"
  hdr_reserved :: "5 word"
  hdr_secure :: bool
  hdr_last_frag :: bool

definition hdr_word :: "heci_hdr \<Rightarrow> u32" where
  "hdr_word h = ucast (hdr_fw_addr h) OR push_bit 8 (ucast (hdr_host_addr h))
     OR push_bit 16 (ucast (hdr_len h)) OR push_bit 25 (ucast (hdr_reserved h))
     OR (if hdr_secure h then BIT 30 else 0) OR (if hdr_last_frag h then BIT 31 else 0)"

definition enc_hdr :: "heci_hdr \<Rightarrow> u8 list" where
  "enc_hdr h = le32 (hdr_word h)"

definition dec_hdr :: "u8 list \<Rightarrow> heci_hdr" where
  "dec_hdr bs = (let w = get32 bs 0 in
     \<lparr>hdr_fw_addr = ucast w, hdr_host_addr = ucast (drop_bit 8 w), hdr_len = ucast (drop_bit 16 w),
      hdr_reserved = ucast (drop_bit 25 w), hdr_secure = bit w 30, hdr_last_frag = bit w 31\<rparr>)"

lemma hdr_word_fields:
  "ucast (hdr_word h) = hdr_fw_addr h"
  "ucast (drop_bit 8 (hdr_word h)) = hdr_host_addr h"
  "ucast (drop_bit 16 (hdr_word h)) = hdr_len h"
  "ucast (drop_bit 25 (hdr_word h)) = hdr_reserved h"
  "bit (hdr_word h) 30 = hdr_secure h"
  "bit (hdr_word h) 31 = hdr_last_frag h"
  by ((rule bit_word_eqI, force simp: hdr_word_def bit_simps dest: bit_imp_le_length)+)
    (force simp: hdr_word_def bit_simps dest: bit_imp_le_length)+

interpretation hdr_codec: byte_codec enc_hdr dec_hdr 4
  by unfold_locales (simp_all add: enc_hdr_def dec_hdr_def Let_def hdr_word_fields)

text \<open>A bus message in a receive buffer of \<^verbatim>\<open>HECI_IPC_PACKET_SIZE\<close> bytes.\<close>

record heci_bus_msg =
  hdr :: heci_hdr
  payload :: "u8 list"

definition dec_bus_msg :: "u8 list \<Rightarrow> heci_bus_msg" where
  "dec_bus_msg buf = \<lparr>hdr = dec_hdr buf, payload = drop SIZEOF_HDR buf\<rparr>"

section \<open>Requests of the host\<close>

record heci_version_req =
  vq_command :: u8
  vq_reserved :: u8
  vq_minor_ver :: u8
  vq_major_ver :: u8

definition enc_version_req :: "heci_version_req \<Rightarrow> u8 list" where
  "enc_version_req r = [vq_command r, vq_reserved r, vq_minor_ver r, vq_major_ver r]"

definition dec_version_req :: "u8 list \<Rightarrow> heci_version_req" where
  "dec_version_req bs = \<lparr>vq_command = bs ! 0, vq_reserved = bs ! 1,
     vq_minor_ver = bs ! 2, vq_major_ver = bs ! 3\<rparr>"

record heci_host_enum_req =
  eq_command :: u8
  eq_client_req_bits :: u8
  eq_reserved0 :: u8
  eq_reserved1 :: u8

definition enc_host_enum_req :: "heci_host_enum_req \<Rightarrow> u8 list" where
  "enc_host_enum_req r = [eq_command r, eq_client_req_bits r, eq_reserved0 r, eq_reserved1 r]"

definition dec_host_enum_req :: "u8 list \<Rightarrow> heci_host_enum_req" where
  "dec_host_enum_req bs = \<lparr>eq_command = bs ! 0, eq_client_req_bits = bs ! 1,
     eq_reserved0 = bs ! 2, eq_reserved1 = bs ! 3\<rparr>"

record heci_client_prop_req =
  pq_command :: u8
  pq_address :: u8
  pq_reserved0 :: u8
  pq_reserved1 :: u8

definition enc_client_prop_req :: "heci_client_prop_req \<Rightarrow> u8 list" where
  "enc_client_prop_req r = [pq_command r, pq_address r, pq_reserved0 r, pq_reserved1 r]"

definition dec_client_prop_req :: "u8 list \<Rightarrow> heci_client_prop_req" where
  "dec_client_prop_req bs = \<lparr>pq_command = bs ! 0, pq_address = bs ! 1,
     pq_reserved0 = bs ! 2, pq_reserved1 = bs ! 3\<rparr>"

text \<open>\<^verbatim>\<open>heci_conn_req_t\<close>, \<^verbatim>\<open>heci_disconn_req_t\<close> and \<^verbatim>\<open>heci_reset_req_t\<close> have one layout.\<close>

record heci_conn_req =
  cq_command :: u8
  cq_fw_addr :: u8
  cq_host_addr :: u8
  cq_reserved :: u8

definition enc_conn_req :: "heci_conn_req \<Rightarrow> u8 list" where
  "enc_conn_req r = [cq_command r, cq_fw_addr r, cq_host_addr r, cq_reserved r]"

definition dec_conn_req :: "u8 list \<Rightarrow> heci_conn_req" where
  "dec_conn_req bs = \<lparr>cq_command = bs ! 0, cq_fw_addr = bs ! 1,
     cq_host_addr = bs ! 2, cq_reserved = bs ! 3\<rparr>"

record heci_flow_ctrl =
  fc_command :: u8
  fc_fw_addr :: u8
  fc_host_addr :: u8
  fc_number_of_packets :: u8
  fc_reserved :: u32

definition enc_flow_ctrl :: "heci_flow_ctrl \<Rightarrow> u8 list" where
  "enc_flow_ctrl r = [fc_command r, fc_fw_addr r, fc_host_addr r, fc_number_of_packets r]
     @ le32 (fc_reserved r)"

definition dec_flow_ctrl :: "u8 list \<Rightarrow> heci_flow_ctrl" where
  "dec_flow_ctrl bs = \<lparr>fc_command = bs ! 0, fc_fw_addr = bs ! 1, fc_host_addr = bs ! 2,
     fc_number_of_packets = bs ! 3, fc_reserved = get32 bs 4\<rparr>"

record heci_add_client_resp =
  ar_command :: u8
  ar_client_addr :: u8
  ar_status :: u8

definition enc_add_client_resp :: "heci_add_client_resp \<Rightarrow> u8 list" where
  "enc_add_client_resp r = [ar_command r, ar_client_addr r, ar_status r]"

definition dec_add_client_resp :: "u8 list \<Rightarrow> heci_add_client_resp" where
  "dec_add_client_resp bs = \<lparr>ar_command = bs ! 0, ar_client_addr = bs ! 1, ar_status = bs ! 2\<rparr>"

record dma_msg_info =
  dm_msg_addr_in_host :: u64
  dm_msg_length :: u32
  dm_reserved :: u32

definition enc_dma_msg_info :: "dma_msg_info \<Rightarrow> u8 list" where
  "enc_dma_msg_info d = le64 (dm_msg_addr_in_host d) @ le32 (dm_msg_length d) @ le32 (dm_reserved d)"

definition dec_dma_msg_info :: "u8 list \<Rightarrow> dma_msg_info" where
  "dec_dma_msg_info bs = \<lparr>dm_msg_addr_in_host = get64 bs 0, dm_msg_length = get32 bs 8,
     dm_reserved = get32 bs 12\<rparr>"

record dma_buf_info =
  db_buf_size :: u32
  db_buf_address :: u64

definition enc_dma_buf_info :: "dma_buf_info \<Rightarrow> u8 list" where
  "enc_dma_buf_info d = le32 (db_buf_size d) @ le64 (db_buf_address d)"

definition dec_dma_buf_info :: "u8 list \<Rightarrow> dma_buf_info" where
  "dec_dma_buf_info bs = \<lparr>db_buf_size = get32 bs 0, db_buf_address = get64 bs 4\<rparr>"

interpretation version_req_codec: byte_codec enc_version_req dec_version_req 4
  by unfold_locales (simp_all add: enc_version_req_def dec_version_req_def)

interpretation host_enum_req_codec: byte_codec enc_host_enum_req dec_host_enum_req 4
  by unfold_locales (simp_all add: enc_host_enum_req_def dec_host_enum_req_def)

interpretation client_prop_req_codec: byte_codec enc_client_prop_req dec_client_prop_req 4
  by unfold_locales (simp_all add: enc_client_prop_req_def dec_client_prop_req_def)

interpretation conn_req_codec: byte_codec enc_conn_req dec_conn_req 4
  by unfold_locales (simp_all add: enc_conn_req_def dec_conn_req_def)

interpretation flow_ctrl_codec: byte_codec enc_flow_ctrl dec_flow_ctrl 8
proof unfold_locales
  fix x :: heci_flow_ctrl and ys
  show "dec_flow_ctrl (enc_flow_ctrl x @ ys) = x"
    using get32_skip [of 4 0 "take 4 (enc_flow_ctrl x)" "le32 (fc_reserved x) @ ys"]
    by (simp add: enc_flow_ctrl_def dec_flow_ctrl_def)
qed (simp add: enc_flow_ctrl_def)

interpretation add_client_resp_codec: byte_codec enc_add_client_resp dec_add_client_resp 3
  by unfold_locales (simp_all add: enc_add_client_resp_def dec_add_client_resp_def)

lemma get64_skip: "i = n + length pre \<Longrightarrow> get64 (pre @ xs) i = get64 xs n"
  by (simp add: get64_def get32_skip [of _ _ pre])

interpretation dma_msg_info_codec: byte_codec enc_dma_msg_info dec_dma_msg_info 16
proof unfold_locales
  fix x :: dma_msg_info and ys
  show "dec_dma_msg_info (enc_dma_msg_info x @ ys) = x"
    using get32_skip [of 8 0 "le64 (dm_msg_addr_in_host x)"
        "le32 (dm_msg_length x) @ le32 (dm_reserved x) @ ys"]
      get32_skip [of 12 0 "le64 (dm_msg_addr_in_host x) @ le32 (dm_msg_length x)"
        "le32 (dm_reserved x) @ ys"]
    by (simp add: enc_dma_msg_info_def dec_dma_msg_info_def)
qed (simp add: enc_dma_msg_info_def)

interpretation dma_buf_info_codec: byte_codec enc_dma_buf_info dec_dma_buf_info 12
proof unfold_locales
  fix x :: dma_buf_info and ys
  show "dec_dma_buf_info (enc_dma_buf_info x @ ys) = x"
    using get64_skip [of 4 0 "le32 (db_buf_size x)" "le64 (db_buf_address x) @ ys"]
    by (simp add: enc_dma_buf_info_def dec_dma_buf_info_def)
qed (simp add: enc_dma_buf_info_def)

section \<open>Messages of the firmware\<close>

record heci_version_resp =
  vr_command :: u8
  vr_supported :: u8
  vr_minor_ver :: u8
  vr_major_ver :: u8

definition enc_version_resp :: "heci_version_resp \<Rightarrow> u8 list" where
  "enc_version_resp r = [vr_command r, vr_supported r, vr_minor_ver r, vr_major_ver r]"

record heci_host_enum_resp =
  er_command :: u8
  er_valid_addresses :: "u32 list"

definition enc_host_enum_resp :: "heci_host_enum_resp \<Rightarrow> u8 list" where
  "enc_host_enum_resp r = [er_command r, 0, 0, 0] @ concat (map le32 (er_valid_addresses r))"

text \<open>The byte of the bit-fields \<^verbatim>\<open>dma_header_length : 7\<close> and \<^verbatim>\<open>dma_enabled : 1\<close>.\<close>

definition dma_byte :: "7 word \<Rightarrow> bool \<Rightarrow> u8" where
  "dma_byte len en = ucast len OR (if en then BIT 7 else 0)"

record heci_client_prop_resp =
  pr_command :: u8
  pr_address :: u8
  pr_status :: u8
  pr_protocol_id :: heci_guid
  pr_protocol_ver :: u8
  pr_max_n_of_conns :: u8
  pr_max_msg_size :: u32
  pr_dma_header_length :: "7 word"
  pr_dma_enabled :: bool

definition enc_client_prop_resp :: "heci_client_prop_resp \<Rightarrow> u8 list" where
  "enc_client_prop_resp r =
     [pr_command r, pr_address r, pr_status r, 0] @ enc_guid (pr_protocol_id r)
     @ [pr_protocol_ver r, pr_max_n_of_conns r, 0, 0] @ le32 (pr_max_msg_size r)
     @ [dma_byte (pr_dma_header_length r) (pr_dma_enabled r), 0, 0, 0]"

text \<open>\<^verbatim>\<open>heci_conn_resp_t\<close>, \<^verbatim>\<open>heci_disconn_resp_t\<close> and \<^verbatim>\<open>heci_reset_resp_t\<close> have one layout.\<close>

record heci_conn_resp =
  cr_command :: u8
  cr_fw_addr :: u8
  cr_host_addr :: u8
  cr_status :: u8

definition enc_conn_resp :: "heci_conn_resp \<Rightarrow> u8 list" where
  "enc_conn_resp r = [cr_command r, cr_fw_addr r, cr_host_addr r, cr_status r]"

record heci_client_properties =
  cp_protocol_id :: heci_guid
  cp_protocol_ver :: u8
  cp_max_n_of_connections :: u8
  cp_fixed_address :: u8
  cp_single_receive_buffer :: u8
  cp_max_msg_size :: u32
  cp_dma_header_length :: "7 word"
  cp_dma_enabled :: bool

definition enc_client_properties :: "heci_client_properties \<Rightarrow> u8 list" where
  "enc_client_properties p = enc_guid (cp_protocol_id p)
     @ [cp_protocol_ver p, cp_max_n_of_connections p, cp_fixed_address p, cp_single_receive_buffer p]
     @ le32 (cp_max_msg_size p) @ [dma_byte (cp_dma_header_length p) (cp_dma_enabled p), 0, 0, 0]"

record heci_add_client_req =
  aq_command :: u8
  aq_client_addr :: u8
  aq_client_properties :: heci_client_properties

definition enc_add_client_req :: "heci_add_client_req \<Rightarrow> u8 list" where
  "enc_add_client_req r = [aq_command r, aq_client_addr r, 0, 0]
     @ enc_client_properties (aq_client_properties r)"

record heci_bus_dma_xfer_req =
  xq_command :: u8
  xq_fw_addr :: u8
  xq_host_addr :: u8
  xq_msg_addr_in_host :: u64
  xq_msg_length :: u32

definition enc_dma_xfer_req :: "heci_bus_dma_xfer_req \<Rightarrow> u8 list" where
  "enc_dma_xfer_req r = [xq_command r, xq_fw_addr r, xq_host_addr r, 0]
     @ le64 (xq_msg_addr_in_host r) @ le32 (xq_msg_length r) @ [0, 0, 0, 0]"

record heci_bus_dma_alloc_resp =
  dr_command :: u8
  dr_status :: u8

definition enc_dma_alloc_resp :: "heci_bus_dma_alloc_resp \<Rightarrow> u8 list" where
  "enc_dma_alloc_resp r = [dr_command r, dr_status r, 0, 0]"

lemmas resp_defs = enc_version_resp_def enc_host_enum_resp_def enc_client_prop_resp_def
  enc_conn_resp_def enc_add_client_req_def enc_client_properties_def enc_dma_xfer_req_def
  enc_dma_alloc_resp_def enc_guid_def

text \<open>Every message fits into one IPC packet.\<close>

lemma length_concat_le32: "length (concat (map le32 ws)) = 4 * length ws"
  by (induction ws) auto

lemma resp_lengths [simp]:
  "length (enc_version_resp a) = 4"
  "length (enc_conn_resp b) = 4"
  "length (enc_dma_alloc_resp c) = 4"
  "length (enc_dma_xfer_req d) = 20"
  "length (enc_host_enum_resp f) = 4 + 4 * length (er_valid_addresses f)"
  "length (enc_client_prop_resp g) = 24 + length (data4 (pr_protocol_id g))"
  "length (enc_add_client_req h) = 24 + length (data4 (cp_protocol_id (aq_client_properties h)))"
  "length (enc_conn_req i) = 4"
  "length (enc_flow_ctrl j) = 8"
  by (simp_all add: resp_defs length_concat_le32 conn_req_codec.length_enc
      flow_ctrl_codec.length_enc)

end
