(* ===== verification/Heci_Proto.thy ===== *)
theory Heci_Proto
  imports Heci_Msgs
begin

text \<open>
  The two ways HECI data leaves the firmware through the host doorbell (\<^verbatim>\<open>heci.c\<close>):
  single-packet protocol messages (\<^verbatim>\<open>heci_send_proto_msg\<close>) and client messages, a chain
  of memory descriptors cut into packets (\<^verbatim>\<open>send_client_msg_ipc\<close>).
\<close>

section \<open>Protocol messages\<close>

text \<open>
  \<open>None\<close>: the assertion \<^verbatim>\<open>len <= HECI_MAX_PAYLOAD_SIZE\<close> fails and the copy leaves the
  packet buffer.  The packet is zero-initialised, so the bits the code does not set
  are 0.
\<close>

definition heci_send_proto_msg ::
    "kenv \<Rightarrow> u8 \<Rightarrow> u8 \<Rightarrow> bool \<Rightarrow> u8 list \<Rightarrow> 'a mng_state_scheme \<Rightarrow> (bool \<times> 'a mng_state_scheme) option"
where
  "heci_send_proto_msg e haddr faddr last_frag data s =
     (if HECI_MAX_PAYLOAD_SIZE < length data then None
      else let (host_req_handler, s1) = host_access_req e s
           in if host_req_handler < 0 then Some (False, s1)
              else let h = \<lparr>hdr_fw_addr = faddr, hdr_host_addr = haddr,
                            hdr_len = of_nat (length data), hdr_reserved = 0, hdr_secure = False,
                            hdr_last_frag = last_frag\<rparr>;
                       len = length data + SIZEOF_HDR;
                       outbound_drbl = IPC_BUILD_DRBL len IPC_PROTOCOL_HECI;
                       (ret, s2) = ipc_write_msg e outbound_drbl (enc_hdr h @ data) s1;
                       (_, s3) = host_access_dereq e host_req_handler s2
                   in Some (ret = 0, s3))"

section \<open>Client messages\<close>

text \<open>
  The inner loop of \<^verbatim>\<open>send_client_msg_ipc\<close>: fill the packet payload \<open>pl\<close> from position
  \<open>fragment_size\<close> on with the descriptors \<open>msg\<close>, of whose first \<open>done_bytes\<close> bytes are
  already sent.  \<open>None\<close>: a null or too short descriptor buffer is read, or
  \<^verbatim>\<open>msg->len - done_bytes\<close> wraps around.
\<close>

function copy_fragment ::
    "u8 list \<Rightarrow> nat \<Rightarrow> nat \<Rightarrow> mrd list \<Rightarrow> (u8 list \<times> nat \<times> nat \<times> mrd list) option" where
  "copy_fragment pl fragment_size done_bytes [] = Some (pl, fragment_size, done_bytes, [])"
| "copy_fragment pl fragment_size done_bytes (m # ms) =
     (if fragment_size < HECI_MAX_PAYLOAD_SIZE
      then (case mrd_buf m of
              None \<Rightarrow> None
            | Some buf \<Rightarrow>
                (let copy_size = min (unat (mrd_len m) - done_bytes)
                                     (HECI_MAX_PAYLOAD_SIZE - fragment_size)
                 in if unat (mrd_len m) < done_bytes \<or> length buf < done_bytes + copy_size then None
                    else let pl' = memcpy_at pl fragment_size (take copy_size (drop done_bytes buf))
                         in if done_bytes + copy_size = unat (mrd_len m)
                            then copy_fragment pl' (fragment_size + copy_size) 0 ms
                            else copy_fragment pl' (fragment_size + copy_size)
                                   (done_bytes + copy_size) (m # ms)))
      else Some (pl, fragment_size, done_bytes, m # ms))"
  by pat_completeness auto
termination
  by (relation "measures [\<lambda>(pl, fs, dn, ms). length ms,
        \<lambda>(pl, fs, dn, ms). HECI_MAX_PAYLOAD_SIZE - fs]") auto

declare copy_fragment.simps(2) [simp del]

text \<open>Each round of the outer loop consumes descriptors or bytes of the first one.\<close>

definition head_left :: "nat \<Rightarrow> mrd list \<Rightarrow> nat" where
  "head_left dn ms = (case ms of [] \<Rightarrow> 0 | m # _ \<Rightarrow>
     (case mrd_buf m of None \<Rightarrow> 0 | Some b \<Rightarrow> length b - dn))"

lemma copy_fragment_progress:
  "copy_fragment pl fs dn ms = Some (pl', fs', dn', ms') \<Longrightarrow>
     length ms' < length ms \<or>
     ms' = ms \<and> (dn' = dn \<and> (HECI_MAX_PAYLOAD_SIZE \<le> fs \<or> ms = []) \<or>
                 head_left dn' ms < head_left dn ms)"
proof (induction pl fs dn ms rule: copy_fragment.induct)
  case (1 pl fs dn)
  then show ?case by simp
next
  case (2 pl fs dn m ms)
  show ?case
  proof (cases "fs < HECI_MAX_PAYLOAD_SIZE")
    case False
    with "2.prems" show ?thesis by (simp add: copy_fragment.simps)
  next
    case True
    define cs where "cs = min (unat (mrd_len m) - dn) (HECI_MAX_PAYLOAD_SIZE - fs)"
    from True "2.prems" obtain buf where buf: "mrd_buf m = Some buf"
      and len: "dn \<le> unat (mrd_len m)" "dn + cs \<le> length buf"
      by (auto simp: copy_fragment.simps(2) [of pl] Let_def cs_def not_less
          split: option.splits if_splits)
    define pl1 where "pl1 = memcpy_at pl fs (take cs (drop dn buf))"
    have eq: "copy_fragment pl fs dn (m # ms) =
        (if dn + cs = unat (mrd_len m) then copy_fragment pl1 (fs + cs) 0 ms
         else copy_fragment pl1 (fs + cs) (dn + cs) (m # ms))"
      using True len by (simp add: copy_fragment.simps(2) [of pl] buf Let_def cs_def pl1_def)
    show ?thesis
    proof (cases "dn + cs = unat (mrd_len m)")
      case finish: True
      with "2.IH"(1) [OF True buf cs_def _ pl1_def] len eq "2.prems" show ?thesis
        by auto
    next
      case more: False
      then have "0 < cs" using True len by (simp add: cs_def)
      then have "head_left (dn + cs) (m # ms) < head_left dn (m # ms)"
        using len by (simp add: head_left_def buf)
      with "2.IH"(2) [OF True buf cs_def _ pl1_def] more len eq "2.prems" show ?thesis
        by auto
    qed
  qed
qed

function send_fragments ::
    "kenv \<Rightarrow> heci_hdr \<Rightarrow> u8 list \<Rightarrow> nat \<Rightarrow> mrd list \<Rightarrow> 'a kstate_scheme \<Rightarrow> (bool \<times> 'a kstate_scheme) option"
where
  "send_fragments e h pl dn ms s =
     (if ms = [] then Some (True, s)
      else case copy_fragment pl 0 dn ms of
             None \<Rightarrow> None
           | Some (pl', fs, dn', ms') \<Rightarrow>
               (let h' = h\<lparr>hdr_len := of_nat fs, hdr_last_frag := (if ms' = [] then True else hdr_last_frag h)\<rparr>;
                    fragment_size = fs + SIZEOF_HDR;
                    out_drbl = IPC_BUILD_DRBL fragment_size IPC_PROTOCOL_HECI;
                    (ret, s') = ipc_write_msg e out_drbl (enc_hdr h' @ take fs pl') s
                in if ret \<noteq> 0 then Some (False, s') else send_fragments e h' pl' dn' ms' s'))"
  by pat_completeness auto
termination
proof (relation "measures [\<lambda>(e, h, pl, dn, ms, s). length ms, \<lambda>(e, h, pl, dn, ms, s). head_left dn ms]")
  fix e :: kenv and h pl dn ms and s :: "'a kstate_scheme" and r pl' p fs p' dn' ms' h' n d q ret s'
  assume "ms \<noteq> []" "copy_fragment pl 0 dn ms = Some r" "(pl', p) = r" "(fs, p') = p" "(dn', ms') = p'"
  then have "length ms' < length ms \<or> ms' = ms \<and> head_left dn' ms < head_left dn ms"
    using copy_fragment_progress [of pl 0 dn ms pl' fs dn' ms'] by (auto simp: heci_size_defs)
  then show "((e, h', pl', dn', ms', s'), e, h, pl, dn, ms, s)
      \<in> measures [\<lambda>(e, h, pl, dn, ms, s). length ms, \<lambda>(e, h, pl, dn, ms, s). head_left dn ms]"
    by auto
qed simp

declare send_fragments.simps [simp del]

definition send_client_msg_ipc ::
    "kenv \<Rightarrow> heci_conn \<Rightarrow> mrd list \<Rightarrow> 'a mng_state_scheme \<Rightarrow> (bool \<times> 'a mng_state_scheme) option" where
  "send_client_msg_ipc e conn msg s =
     (let (host_req_handler, s1) = host_access_req e s
      in if host_req_handler < 0 then Some (False, s1)
         else let h = \<lparr>hdr_fw_addr = fw_addr conn, hdr_host_addr = host_addr conn, hdr_len = 0,
                       hdr_reserved = 0, hdr_secure = False, hdr_last_frag = False\<rparr>
              in case send_fragments e h (replicate HECI_MAX_PAYLOAD_SIZE 0) 0 msg s1 of
                   None \<Rightarrow> None
                 | Some (sent, s2) \<Rightarrow>
                     let (_, s3) = host_access_dereq e host_req_handler s2 in Some (sent, s3))"

section \<open>What the fragmentation loop sends\<close>

text \<open>Reference: cut the whole message into packets of at most \<open>n\<close> bytes.\<close>

function chunks :: "nat \<Rightarrow> 'a list \<Rightarrow> 'a list list" where
  "chunks n xs = (if xs = [] \<or> n = 0 then [] else take n xs # chunks n (drop n xs))"
  by pat_completeness auto
termination
  by (relation "measure (\<lambda>(n, xs). length xs)") auto

declare chunks.simps [simp del]

lemma concat_chunks: "0 < n \<Longrightarrow> concat (chunks n xs) = xs"
proof (induction n xs rule: chunks.induct)
  case (1 n xs)
  then show ?case by (cases "xs = []") (simp_all add: chunks.simps [of n])
qed

lemma chunks_bounded: "c \<in> set (chunks n xs) \<Longrightarrow> c \<noteq> [] \<and> length c \<le> n"
proof (induction n xs rule: chunks.induct)
  case (1 n xs)
  then show ?case by (cases "xs = [] \<or> n = 0") (auto simp: chunks.simps [of n xs])
qed

lemma chunks_eq_Nil: "0 < n \<Longrightarrow> chunks n xs = [] \<longleftrightarrow> xs = []"
  by (simp add: chunks.simps)

text \<open>The packets of a message: only the last one carries \<^verbatim>\<open>last_frag\<close>.\<close>

fun packets :: "heci_hdr \<Rightarrow> u8 list list \<Rightarrow> (u32 \<times> u8 list) list" where
  "packets h [] = []"
| "packets h (c # cs) =
     (IPC_BUILD_DRBL (length c + SIZEOF_HDR) IPC_PROTOCOL_HECI,
      enc_hdr (h\<lparr>hdr_len := of_nat (length c), hdr_last_frag := (cs = [])\<rparr>) @ c) # packets h cs"

text \<open>Write packets until one fails.\<close>

fun write_all :: "kenv \<Rightarrow> (u32 \<times> u8 list) list \<Rightarrow> 'a kstate_scheme \<Rightarrow> bool \<times> 'a kstate_scheme" where
  "write_all e [] s = (True, s)"
| "write_all e ((d, b) # ps) s =
     (let (ret, s') = ipc_write_msg e d b s
      in if ret \<noteq> 0 then (False, s') else write_all e ps s')"

text \<open>Descriptor chains as the callers build them: every descriptor names a buffer of its length.\<close>

definition mrd_ok :: "mrd \<Rightarrow> bool" where
  "mrd_ok m \<longleftrightarrow> (\<exists>b. mrd_buf m = Some b \<and> length b = unat (mrd_len m) \<and> b \<noteq> [])"

definition mrd_bytes :: "mrd list \<Rightarrow> u8 list" where
  "mrd_bytes ms = concat (map (\<lambda>m. the (mrd_buf m)) ms)"

lemma mrd_bytes_simps [simp]:
  "mrd_bytes [] = []" "mrd_bytes (m # ms) = the (mrd_buf m) @ mrd_bytes ms"
  by (simp_all add: mrd_bytes_def)

definition cursor_ok :: "nat \<Rightarrow> mrd list \<Rightarrow> bool" where
  "cursor_ok dn ms \<longleftrightarrow> list_all mrd_ok ms \<and>
     (case ms of [] \<Rightarrow> dn = 0 | m # _ \<Rightarrow> dn < unat (mrd_len m))"

lemma cursor_ok_start: "list_all mrd_ok ms \<Longrightarrow> cursor_ok 0 ms"
  by (auto simp: cursor_ok_def mrd_ok_def simp flip: length_greater_0_conv split: list.splits)

text \<open>A packet payload that had \<open>fs\<close> bytes and was filled up with the bytes \<open>rest\<close>.\<close>

definition filled :: "u8 list \<Rightarrow> nat \<Rightarrow> u8 list \<Rightarrow> u8 list \<times> nat \<times> nat \<times> mrd list \<Rightarrow> bool" where
  "filled pl fs rest r = (case r of (pl', fs', dn', ms') \<Rightarrow>
     length pl' = HECI_MAX_PAYLOAD_SIZE
     \<and> fs' = fs + min (HECI_MAX_PAYLOAD_SIZE - fs) (length rest)
     \<and> take fs' pl' = take fs pl @ take (HECI_MAX_PAYLOAD_SIZE - fs) rest
     \<and> cursor_ok dn' ms' \<and> drop dn' (mrd_bytes ms') = drop (HECI_MAX_PAYLOAD_SIZE - fs) rest)"

lemma filled_append:
  assumes "fs + length xs \<le> HECI_MAX_PAYLOAD_SIZE" and "take (fs + length xs) pl1 = take fs pl @ xs"
    and "filled pl1 (fs + length xs) rest r"
  shows "filled pl fs (xs @ rest) r"
  using assms by (auto simp: filled_def min_def diff_diff_eq split: prod.splits)

lemma copy_fragment_spec:
  assumes "cursor_ok dn ms" and "length pl = HECI_MAX_PAYLOAD_SIZE" and "fs \<le> HECI_MAX_PAYLOAD_SIZE"
  shows "ok (copy_fragment pl fs dn ms) (filled pl fs (drop dn (mrd_bytes ms)))"
  using assms
proof (induction pl fs dn ms rule: copy_fragment.induct)
  case (1 pl fs dn)
  then show ?case by (auto simp: cursor_ok_def filled_def)
next
  case (2 pl fs dn m ms)
  from "2.prems"(1) obtain buf where buf: "mrd_buf m = Some buf" "length buf = unat (mrd_len m)"
    and dn: "dn < length buf" and oks: "list_all mrd_ok ms"
    by (auto simp: cursor_ok_def mrd_ok_def)
  show ?case
  proof (cases "fs < HECI_MAX_PAYLOAD_SIZE")
    case False
    with "2.prems" have "fs = HECI_MAX_PAYLOAD_SIZE" by simp
    with "2.prems" show ?thesis by (simp add: copy_fragment.simps(2) [of pl] filled_def)
  next
    case True
    define cs where "cs = min (unat (mrd_len m) - dn) (HECI_MAX_PAYLOAD_SIZE - fs)"
    define xs where "xs = take cs (drop dn buf)"
    define pl1 where "pl1 = memcpy_at pl fs (take cs (drop dn buf))"
    have len: "\<not> (unat (mrd_len m) < dn \<or> length buf < dn + cs)"
      using dn buf(2) by (simp add: cs_def)
    have lxs: "length xs = cs" and fscs: "fs + length xs \<le> HECI_MAX_PAYLOAD_SIZE"
      using buf(2) dn True by (simp_all add: cs_def xs_def)
    have pl1: "length pl1 = HECI_MAX_PAYLOAD_SIZE" "take (fs + length xs) pl1 = take fs pl @ xs"
      using "2.prems"(2,3) fscs take_memcpy_at [of fs pl xs]
      by (simp_all only: pl1_def length_memcpy_at xs_def)
    have eq: "copy_fragment pl fs dn (m # ms) =
        (if dn + cs = unat (mrd_len m) then copy_fragment pl1 (fs + cs) 0 ms
         else copy_fragment pl1 (fs + cs) (dn + cs) (m # ms))"
      using True len by (simp add: copy_fragment.simps(2) [of pl] buf Let_def cs_def pl1_def)
    show ?thesis
    proof (cases "dn + cs = unat (mrd_len m)")
      case finish: True
      have rest: "drop dn (mrd_bytes (m # ms)) = xs @ mrd_bytes ms"
        using finish buf dn by (simp add: xs_def)
      have "ok (copy_fragment pl1 (fs + cs) 0 ms) (filled pl1 (fs + cs) (mrd_bytes ms))"
        using "2.IH"(1) [OF True buf(1) cs_def len pl1_def finish cursor_ok_start [OF oks] pl1(1)]
          fscs lxs by simp
      then show ?thesis
        unfolding eq rest using finish lxs by (auto elim!: ok_mono intro: filled_append [OF fscs pl1(2)])
    next
      case more: False
      then have "dn + cs < length buf"
        using buf(2) dn by (auto simp: cs_def min_def split: if_splits)
      moreover have "drop dn buf = xs @ drop (dn + cs) buf"
        unfolding xs_def by (metis add.commute append_take_drop_id drop_drop)
      ultimately have cur: "cursor_ok (dn + cs) (m # ms)"
        and rest: "drop dn (mrd_bytes (m # ms)) = xs @ drop (dn + cs) (mrd_bytes (m # ms))"
        using "2.prems"(1) buf by (simp_all add: cursor_ok_def)
      have "ok (copy_fragment pl1 (fs + cs) (dn + cs) (m # ms))
              (filled pl1 (fs + cs) (drop (dn + cs) (mrd_bytes (m # ms))))"
        using "2.IH"(2) [OF True buf(1) cs_def len pl1_def more cur pl1(1)] fscs lxs by simp
      then show ?thesis
        unfolding eq rest using more lxs by (auto elim!: ok_mono intro: filled_append [OF fscs pl1(2)])
    qed
  qed
qed

lemma mrd_bytes_eq_Nil: "cursor_ok dn ms \<Longrightarrow> drop dn (mrd_bytes ms) = [] \<longleftrightarrow> ms = []"
  by (cases ms) (auto simp: cursor_ok_def mrd_ok_def)

theorem send_fragments_eq:
  assumes "cursor_ok dn ms" and "length pl = HECI_MAX_PAYLOAD_SIZE" and "\<not> hdr_last_frag h"
  shows "send_fragments e h pl dn ms s =
           Some (write_all e (packets h (chunks HECI_MAX_PAYLOAD_SIZE (drop dn (mrd_bytes ms)))) s)"
  using assms
proof (induction e h pl dn ms s rule: send_fragments.induct)
  case (1 e h pl dn ms s)
  let ?M = HECI_MAX_PAYLOAD_SIZE
  define rest where "rest = drop dn (mrd_bytes ms)"
  show ?case
  proof (cases "ms = []")
    case True
    then show ?thesis
      using "1.prems"(1) by (simp add: send_fragments.simps [of _ _ _ _ "[]"] cursor_ok_def chunks.simps)
  next
    case False
    obtain pl' fs dn' ms' where c: "copy_fragment pl 0 dn ms = Some (pl', fs, dn', ms')"
      and f: "filled pl 0 rest (pl', fs, dn', ms')"
      using copy_fragment_spec [OF "1.prems"(1,2), of 0] by (auto simp: ok_iff rest_def)
    define h' where "h' = h\<lparr>hdr_len := of_nat fs,
      hdr_last_frag := (if ms' = [] then True else hdr_last_frag h)\<rparr>"
    define w where "w = ipc_write_msg e (IPC_BUILD_DRBL (fs + SIZEOF_HDR) IPC_PROTOCOL_HECI)
      (enc_hdr h' @ take fs pl') s"
    have cur: "cursor_ok dn' ms'" "length pl' = ?M" and rest': "drop dn' (mrd_bytes ms') = drop ?M rest"
      and pl': "take fs pl' = take ?M rest" and fs: "fs = length (take ?M rest)"
      using f unfolding filled_def by auto
    have nonempty: "rest \<noteq> []" "?M \<noteq> 0"
      using mrd_bytes_eq_Nil [OF "1.prems"(1)] False by (simp_all add: heci_size_defs rest_def)
    have last: "ms' = [] \<longleftrightarrow> chunks ?M (drop ?M rest) = []"
      using mrd_bytes_eq_Nil [OF cur(1)] rest' nonempty(2) chunks_eq_Nil [of ?M "drop ?M rest"] by simp
    have hdr: "h' = h\<lparr>hdr_len := of_nat (length (take ?M rest)),
        hdr_last_frag := chunks ?M (drop ?M rest) = []\<rparr>"
      using "1.prems"(3) last fs by (simp add: h'_def)
    have step: "send_fragments e h pl dn ms s =
      (if fst w \<noteq> 0 then Some (False, snd w) else send_fragments e h' pl' dn' ms' (snd w))"
      using False by (simp add: send_fragments.simps [of e h] c h'_def w_def Let_def case_prod_unfold)
    have chunk: "chunks ?M rest = take ?M rest # chunks ?M (drop ?M rest)"
      using nonempty by (simp add: chunks.simps [of _ rest])
    have wr: "write_all e (packets h (chunks ?M rest)) s =
      (if fst w \<noteq> 0 then (False, snd w)
       else write_all e (packets h (chunks ?M (drop ?M rest))) (snd w))"
      unfolding chunk w_def hdr fs pl' [unfolded fs] by (simp add: Let_def case_prod_unfold)
    show ?thesis
    proof (cases "ms' = []")
      case True
      then show ?thesis
        using wr last by (simp add: step send_fragments.simps [of _ _ _ _ "[]"] flip: rest_def)
    next
      case more: False
      have h': "packets h' cs = packets h cs" for cs
        by (induction cs) (simp_all add: h'_def)
      have "\<not> hdr_last_frag h'" using more "1.prems"(3) by (simp add: h'_def)
      then have "fst w = 0 \<Longrightarrow> send_fragments e h' pl' dn' ms' (snd w) =
          Some (write_all e (packets h (chunks ?M (drop ?M rest))) (snd w))"
        using "1.IH" [OF False c refl refl refl h'_def refl refl w_def prod.collapse]
          cur rest' h' by simp
      then show ?thesis using wr by (simp add: step flip: rest_def)
    qed
  qed
qed

section \<open>Consequences\<close>

lemma write_all_log:
  "\<exists>k \<le> length ps. write_all e ps s =
     (fst (write_all e ps s), s\<lparr>io := io s @ map (\<lambda>(d, b). IpcWrite d b) (take k ps)\<rparr>)
     \<and> (fst (write_all e ps s) \<longrightarrow> k = length ps)"
proof (induction ps arbitrary: s)
  case Nil
  then show ?case by simp
next
  case (Cons p ps)
  obtain d b where p: "p = (d, b)" by (cases p)
  let ?s' = "emit (IpcWrite d b) s"
  show ?case
  proof (cases "ipc_write_ret e (io ?s') = 0")
    case False
    then show ?thesis
      by (intro exI [of _ 1]) (simp add: p ipc_write_msg_def Let_def emit_def)
  next
    case True
    from Cons.IH [of ?s'] obtain k where k: "k \<le> length ps"
      "write_all e ps ?s' = (fst (write_all e ps ?s'),
         ?s'\<lparr>io := io ?s' @ map (\<lambda>(d, b). IpcWrite d b) (take k ps)\<rparr>)"
      "fst (write_all e ps ?s') \<longrightarrow> k = length ps"
      by blast
    have "write_all e (p # ps) s = write_all e ps ?s'"
      using True by (simp add: p ipc_write_msg_def Let_def)
    with k show ?thesis
      by (intro exI [of _ "Suc k"]) (simp add: p emit_def)
  qed
qed

lemma write_all_success:
  assumes "\<And>l. ipc_write_ret e l = 0"
  shows "write_all e ps s = (True, s\<lparr>io := io s @ map (\<lambda>(d, b). IpcWrite d b) ps\<rparr>)"
  using assms
  by (induction ps arbitrary: s) (auto simp: ipc_write_msg_def Let_def emit_def split: prod.splits)

lemma gate_view_io [simp]: "gate_view (s\<lparr>io := l\<rparr>) = gate_view s"
  by (simp add: gate_view_def)

lemma gate_view_write_all [simp]: "gate_view (snd (write_all e ps s)) = gate_view s"
  using write_all_log [of ps e s] by (metis gate_view_io snd_conv)

lemma gate_view_ipc_write [simp]: "gate_view (snd (ipc_write_msg e d b s)) = gate_view s"
  by (simp add: ipc_write_msg_def Let_def emit_def)

text \<open>Protocol messages and client messages are guarded users of the gate.\<close>

lemma heci_send_proto_msg_guarded:
  assumes "heci_send_proto_msg e ha fa lf data s = Some (b, s')"
  shows "\<exists>body. (\<forall>t. gate_view (body t) = gate_view t) \<and> s' = access_gate.guarded e body s"
proof -
  define wr :: "'a mng_state_scheme \<Rightarrow> 'a mng_state_scheme" where
    "wr = (\<lambda>t. snd (ipc_write_msg e (IPC_BUILD_DRBL (length data + SIZEOF_HDR) IPC_PROTOCOL_HECI)
       (enc_hdr \<lparr>hdr_fw_addr = fa, hdr_host_addr = ha, hdr_len = of_nat (length data),
          hdr_reserved = 0, hdr_secure = False, hdr_last_frag = lf\<rparr> @ data) t))"
  have "s' = access_gate.guarded e wr s"
    using assms
    by (auto simp: heci_send_proto_msg_def access_gate.guarded_def wr_def Let_def case_prod_unfold
        split: if_splits)
  then show ?thesis by (intro exI [of _ wr]) (simp add: wr_def)
qed

lemma send_client_msg_ipc_guarded:
  assumes "list_all mrd_ok ms"
  shows "\<exists>b body. (\<forall>t. gate_view (body t) = gate_view t) \<and>
           send_client_msg_ipc e conn ms s = Some (b, access_gate.guarded e body s)"
proof -
  define h where "h = \<lparr>hdr_fw_addr = fw_addr conn, hdr_host_addr = host_addr conn, hdr_len = 0,
    hdr_reserved = 0, hdr_secure = False, hdr_last_frag = False\<rparr>"
  define wr :: "'a mng_state_scheme \<Rightarrow> 'a mng_state_scheme" where
    "wr = (\<lambda>t. snd (write_all e (packets h (chunks HECI_MAX_PAYLOAD_SIZE (mrd_bytes ms))) t))"
  have sf: "send_fragments e h (replicate HECI_MAX_PAYLOAD_SIZE 0) 0 ms t =
      Some (write_all e (packets h (chunks HECI_MAX_PAYLOAD_SIZE (mrd_bytes ms))) t)"
    for t :: "'a mng_state_scheme"
    using send_fragments_eq [OF cursor_ok_start [OF assms], of "replicate HECI_MAX_PAYLOAD_SIZE 0" h]
    by (simp add: h_def)
  have "\<exists>b. send_client_msg_ipc e conn ms s = Some (b, access_gate.guarded e wr s)"
    by (auto simp: send_client_msg_ipc_def access_gate.guarded_def wr_def Let_def case_prod_unfold sf
        simp flip: h_def)
  then show ?thesis by (metis gate_view_write_all wr_def)
qed

end
