(* ===== verification/Heci_Dma.thy ===== *)
theory Heci_Dma
  imports Heci_Proto
begin

text \<open>
  Sending large client messages through host memory (\<^verbatim>\<open>heci_dma.c\<close>): the host announces a
  buffer, the firmware cuts it into pages and tracks their use in a bitmap, copies
  message blocks there by DMA and notifies the host, which acknowledges blocks to
  free their pages.  \<open>None\<close> marks an access outside the bitmap or the packet.
\<close>

section \<open>Pages\<close>

definition GET_NUM_PAGE_BITMAPS :: "u32 \<Rightarrow> u32" where
  "GET_NUM_PAGE_BITMAPS sz = (sz + of_nat BITS_PER_DW - 1) div of_nat BITS_PER_DW"

definition GET_NUM_PAGES :: "u32 \<Rightarrow> u32" where
  "GET_NUM_PAGES sz = (sz + of_nat CONFIG_HECI_PAGE_SIZE - 1) div of_nat CONFIG_HECI_PAGE_SIZE"

definition BITMAP_SLC :: "nat \<Rightarrow> nat" where "BITMAP_SLC idx = idx div BITS_PER_DW"
definition BITMAP_BIT :: "nat \<Rightarrow> nat" where "BITMAP_BIT idx = idx mod BITS_PER_DW"

definition test_page :: "u32 list \<Rightarrow> nat \<Rightarrow> bool option" where
  "test_page bm i = (if BITMAP_SLC i < length bm then Some (bit (bm ! BITMAP_SLC i) (BITMAP_BIT i))
                     else None)"

definition set_page :: "u32 list \<Rightarrow> nat \<Rightarrow> u32 list option" where
  "set_page bm i = (if BITMAP_SLC i < length bm
     then Some (bm[BITMAP_SLC i := bm ! BITMAP_SLC i OR BIT (BITMAP_BIT i)]) else None)"

definition clear_page :: "u32 list \<Rightarrow> nat \<Rightarrow> u32 list option" where
  "clear_page bm i = (if BITMAP_SLC i < length bm
     then Some (bm[BITMAP_SLC i := bm ! BITMAP_SLC i AND NOT (BIT (BITMAP_BIT i))]) else None)"

text \<open>The loops over \<open>k\<close> consecutive pages: the first used one, marking, clearing.\<close>

fun first_used :: "u32 list \<Rightarrow> nat \<Rightarrow> nat \<Rightarrow> nat option option" where
  "first_used bm j 0 = Some None"
| "first_used bm j (Suc k) =
     (case test_page bm j of None \<Rightarrow> None
      | Some True \<Rightarrow> Some (Some j)
      | Some False \<Rightarrow> first_used bm (j + 1) k)"

fun set_pages :: "u32 list \<Rightarrow> nat \<Rightarrow> nat \<Rightarrow> u32 list option" where
  "set_pages bm j 0 = Some bm"
| "set_pages bm j (Suc k) = set_page bm j \<bind> (\<lambda>bm'. set_pages bm' (j + 1) k)"

fun clear_pages :: "u32 list \<Rightarrow> nat \<Rightarrow> nat \<Rightarrow> u32 list option" where
  "clear_pages bm j 0 = Some bm"
| "clear_pages bm j (Suc k) = clear_page bm j \<bind> (\<lambda>bm'. clear_pages bm' (j + 1) k)"

lemma first_used_ge: "first_used bm i k = Some (Some j) \<Longrightarrow> i \<le> j"
  by (induction k arbitrary: i) (fastforce split: option.splits bool.splits)+

text \<open>
  The search of \<^verbatim>\<open>heci_dma_get_tx_buffer\<close>: \<open>lim\<close> is the unsigned bound
  \<^verbatim>\<open>num_pages - pages\<close>; after a used page \<open>j\<close> inside a run the loop goes on at \<open>j + 1\<close>.
\<close>

function scan_pages :: "u32 list \<Rightarrow> nat \<Rightarrow> nat \<Rightarrow> nat \<Rightarrow> nat option option" where
  "scan_pages bm lim pages i =
     (if i \<le> lim
      then (case test_page bm i of
              None \<Rightarrow> None
            | Some True \<Rightarrow> scan_pages bm lim pages (i + 1)
            | Some False \<Rightarrow>
                (case first_used bm i pages of
                   None \<Rightarrow> None
                 | Some None \<Rightarrow> Some (Some i)
                 | Some (Some j) \<Rightarrow> scan_pages bm lim pages (j + 1)))
      else Some None)"
  by pat_completeness auto
termination
proof (relation "measure (\<lambda>(bm, lim, pages, i). lim + 1 - i)")
  fix bm lim pages i b r j
  assume "i \<le> lim" "first_used bm i pages = Some r" "r = Some j"
  then show "((bm, lim, pages, j + 1), bm, lim, pages, i)
      \<in> measure (\<lambda>(bm, lim, pages, i). lim + 1 - i)"
    using first_used_ge [of bm i pages j] by simp
qed auto

declare scan_pages.simps [simp del]

section \<open>Operations\<close>

definition heci_dma_alloc_notification ::
    "kenv \<Rightarrow> heci_bus_msg \<Rightarrow> 'a heci_state_scheme \<Rightarrow> 'a heci_state_scheme option" where
  "heci_dma_alloc_notification e msg s =
     (let (status, s') =
        (if unat (hdr_len (hdr msg)) < 4 + 12 then (1, s)
         else let b = dec_dma_buf_info (drop 4 (payload msg));
                  info = dma_info_zero\<lparr>dma_addr := db_buf_address b, dma_size := db_buf_size b\<rparr>
              in if unat (dma_size info) mod CONFIG_HECI_PAGE_SIZE \<noteq> 0 \<or>
                    unat (dma_addr info) mod CONFIG_HECI_PAGE_SIZE \<noteq> 0
                 then (1, s\<lparr>host_rx_dma := info\<rparr>)
                 else let info1 = (if MAX_HOST_SIZE < unat (dma_size info)
                                   then info\<lparr>dma_size := of_nat MAX_HOST_SIZE\<rparr> else info);
                          info2 = info1\<lparr>dma_sem := 0, dma_lock := 0,
                                    num_pages := GET_NUM_PAGE_BITMAPS (dma_size info1)\<rparr>
                      in (0, s\<lparr>host_rx_dma := info2\<rparr>))
      in map_option snd
           (heci_send_proto_msg e HECI_DRIVER_ADDRESS HECI_DRIVER_ADDRESS True
             (enc_dma_alloc_resp \<lparr>dr_command = GEN_RESP HECI_BUS_MSG_DMA_ALLOC_NOTIFY_REQ,
                                  dr_status = status\<rparr>) s'))"

text \<open>The result is the host address of the block, or nothing when there is no room.\<close>

definition heci_dma_get_tx_buffer ::
    "u32 \<Rightarrow> 'a heci_state_scheme \<Rightarrow> (u64 option \<times> 'a heci_state_scheme) option" where
  "heci_dma_get_tx_buffer req_len s =
     (let info = host_rx_dma s; pages = GET_NUM_PAGES req_len
      in if num_pages info = 0 then Some (None, s)
         else if unat pages > PAGE_BITMAP_NUM * BITS_PER_DW then Some (None, s)
         else do {
           found \<leftarrow> scan_pages (page_bitmap info) (unat (num_pages info - pages)) (unat pages) 0;
           case found of
             None \<Rightarrow> Some (None, s)
           | Some i \<Rightarrow> do {
               bm \<leftarrow> set_pages (page_bitmap info) i (unat pages);
               Some (Some (dma_addr info + of_nat (i * CONFIG_HECI_PAGE_SIZE)),
                     s\<lparr>host_rx_dma := info\<lparr>page_bitmap := bm\<rparr>\<rparr>)
             }
         })"

definition heci_dma_free_tx_buffer ::
    "u64 \<Rightarrow> u32 \<Rightarrow> 'a heci_state_scheme \<Rightarrow> 'a heci_state_scheme option" where
  "heci_dma_free_tx_buffer addr len s =
     (let info = host_rx_dma s;
          page_index = ucast ((addr - dma_addr info) div of_nat CONFIG_HECI_PAGE_SIZE) :: u32;
          pages = GET_NUM_PAGES len
      in do {
        bm \<leftarrow> clear_pages (page_bitmap info) (unat page_index)
               (unat (page_index + pages) - unat page_index);
        Some (s\<lparr>host_rx_dma := info\<lparr>page_bitmap := bm\<rparr>\<rparr>)
      })"

definition dma_drvevent :: "kenv \<Rightarrow> 'a heci_state_scheme \<Rightarrow> 'a heci_state_scheme" where
  "dma_drvevent e s = s\<lparr>host_rx_dma := (host_rx_dma s)\<lparr>dma_sem :=
     k_sem_give e (2 ^ 32 - 1) (dma_sem (host_rx_dma s))\<rparr>\<rparr>"

text \<open>
  \<^verbatim>\<open>dma_copy\<close> releases \<^verbatim>\<open>dev_lock\<close> while the transfer runs; \<open>others\<close> is what the other
  threads do to the state in that time.  The completion interrupt gives \<^verbatim>\<open>dma_sem\<close>
  unless the transfer times out.
\<close>

definition dma_copy ::
    "kenv \<Rightarrow> ('a heci_state_scheme \<Rightarrow> 'a heci_state_scheme) \<Rightarrow> u8 list \<Rightarrow> u64 \<Rightarrow> u32 \<Rightarrow> bool
     \<Rightarrow> 'a heci_state_scheme \<Rightarrow> int \<times> 'a heci_state_scheme" where
  "dma_copy e others src dst_addr len is_ddr2sram s =
     (let s1 = s\<lparr>dev_lock := dev_lock s - 1\<rparr>;
          s2 = s1\<lparr>host_rx_dma := (host_rx_dma s1)\<lparr>dma_lock := dma_lock (host_rx_dma s1) + 1\<rparr>\<rparr>;
          s3 = emit (DmaSetup is_ddr2sram) s2;
          s4 = (if \<not> is_ddr2sram then emit (DcacheClean len) s3 else s3);
          s5 = others (emit (DmaStart src dst_addr len) s4);
          s6 = (if dma_timeout e (io s5) then s5 else dma_drvevent e s5);
          (ret, c) = k_sem_take e (dma_sem (host_rx_dma s6)) False;
          s7 = s6\<lparr>host_rx_dma := (host_rx_dma s6)\<lparr>dma_sem := c\<rparr>\<rparr>;
          s8 = (if ret \<noteq> 0 then emit DmaAbort s7
                else if is_ddr2sram then emit (DcacheInv len) s7 else s7);
          s9 = emit DmaPowerLow s8;
          s10 = s9\<lparr>host_rx_dma := (host_rx_dma s9)\<lparr>dma_lock := dma_lock (host_rx_dma s9) - 1\<rparr>\<rparr>
      in (ret, s10\<lparr>dev_lock := dev_lock s10 + 1\<rparr>))"

text \<open>\<^verbatim>\<open>heci_dma_xfer_ack\<close>: one record of 16 bytes per acknowledged block, of which 12 are read.\<close>

function dma_ack_loop ::
    "u8 list \<Rightarrow> nat \<Rightarrow> nat \<Rightarrow> 'a heci_state_scheme \<Rightarrow> 'a heci_state_scheme option" where
  "dma_ack_loop pl len off s =
     (if off < len
      then if length pl < off + 12 then None
           else (case heci_dma_free_tx_buffer (get64 pl off) (get32 pl (off + 8)) s of
                   None \<Rightarrow> None
                 | Some s' \<Rightarrow> dma_ack_loop pl len (off + 16) s')
      else Some s)"
  by pat_completeness auto
termination
  by (relation "measure (\<lambda>(pl, len, off, s). len - off)") auto

declare dma_ack_loop.simps [simp del]

definition heci_dma_xfer_ack ::
    "heci_bus_msg \<Rightarrow> 'a heci_state_scheme \<Rightarrow> 'a heci_state_scheme option" where
  "heci_dma_xfer_ack msg s =
     (if unat (hdr_len (hdr msg)) < 4 then Some s
      else dma_ack_loop (payload msg) (unat (hdr_len (hdr msg))) 4 s)"

text \<open>
  \<^verbatim>\<open>send_client_msg_dma\<close>: note the test \<^verbatim>\<open>if (host_req_handler)\<close>, which takes every
  handle other than 0 for a failure.  The addresses of the connection are read once, before the
  loop over the descriptors.
\<close>

fun dma_blocks ::
    "kenv \<Rightarrow> ('a heci_state_scheme \<Rightarrow> 'a heci_state_scheme) \<Rightarrow> u8 \<Rightarrow> u8 \<Rightarrow> mrd list
     \<Rightarrow> 'a heci_state_scheme \<Rightarrow> (bool \<times> 'a heci_state_scheme) option" where
  "dma_blocks e others fa ha [] s = Some (True, s)"
| "dma_blocks e others fa ha (m # ms) s =
     do {
       (dram, s1) \<leftarrow> heci_dma_get_tx_buffer (mrd_len m) s;
       case dram of
         None \<Rightarrow> Some (False, s1)
       | Some dram_addr \<Rightarrow>
           (let (h, s2) = host_access_req e s1
            in if h \<noteq> 0
               then do { s3 \<leftarrow> heci_dma_free_tx_buffer dram_addr (mrd_len m) s2; Some (False, s3) }
               else do {
                 src \<leftarrow> mrd_buf m;
                 let (ret, s3) = dma_copy e others (take (unat (mrd_len m)) src) dram_addr
                                   (mrd_len m) False s2;
                     s4 = snd (host_access_dereq e h s3)
                 in if ret \<noteq> 0
                    then do { s5 \<leftarrow> heci_dma_free_tx_buffer dram_addr (mrd_len m) s4; Some (False, s5) }
                    else do {
                      (sent, s5) \<leftarrow> heci_send_proto_msg e HECI_DRIVER_ADDRESS HECI_DRIVER_ADDRESS True
                        (enc_dma_xfer_req \<lparr>xq_command = HECI_BUS_MSG_DMA_XFER_REQ,
                           xq_fw_addr = fa, xq_host_addr = ha,
                           xq_msg_addr_in_host = dram_addr, xq_msg_length = mrd_len m\<rparr>) s4;
                      if \<not> sent
                      then do { s6 \<leftarrow> heci_dma_free_tx_buffer dram_addr (mrd_len m) s5; Some (False, s6) }
                      else dma_blocks e others fa ha ms s5
                    }
               })
     }"

definition send_client_msg_dma ::
    "kenv \<Rightarrow> ('a heci_state_scheme \<Rightarrow> 'a heci_state_scheme) \<Rightarrow> nat \<Rightarrow> mrd list
     \<Rightarrow> 'a heci_state_scheme \<Rightarrow> (bool \<times> 'a heci_state_scheme) option" where
  "send_client_msg_dma e others conn msg s =
     dma_blocks e others (fw_addr (connections s ! conn)) (host_addr (connections s ! conn)) msg s"

section \<open>The bitmap as a set of used pages\<close>

definition used_pages :: "u32 list \<Rightarrow> nat set" where
  "used_pages bm = {i. test_page bm i = Some True}"

lemma test_page_None: "test_page bm i = None \<longleftrightarrow> BITS_PER_DW * length bm \<le> i"
  by (auto simp: test_page_def BITMAP_SLC_def BITS_PER_DW_def not_less)

lemma page_coords: "i = j \<longleftrightarrow> BITMAP_SLC i = BITMAP_SLC j \<and> BITMAP_BIT i = BITMAP_BIT j"
  by (metis BITMAP_BIT_def BITMAP_SLC_def mod_mult_div_eq)

lemma BITMAP_BIT_less: "BITMAP_BIT i < 32"
  by (simp add: BITMAP_BIT_def BITS_PER_DW_def)

lemma set_page_test:
  assumes "set_page bm j = Some bm'"
  shows "length bm' = length bm" "test_page bm' i = (if i = j then Some True else test_page bm i)"
  using assms BITMAP_BIT_less [of j] page_coords [of i j]
  by (auto simp: set_page_def test_page_def nth_list_update bit_or_iff split: if_splits)

lemma clear_page_test:
  assumes "clear_page bm j = Some bm'"
  shows "length bm' = length bm" "test_page bm' i = (if i = j then Some False else test_page bm i)"
  using assms BITMAP_BIT_less [of i] page_coords [of i j]
  by (auto simp: clear_page_def test_page_def nth_list_update bit_and_iff bit_not_iff split: if_splits)

lemma set_pages_test:
  "set_pages bm j k = Some bm' \<Longrightarrow>
     length bm' = length bm \<and>
     test_page bm' i = (if j \<le> i \<and> i < j + k then Some True else test_page bm i)"
proof (induction k arbitrary: bm j)
  case 0
  then show ?case by auto
next
  case (Suc k)
  from Suc.prems obtain b where b: "set_page bm j = Some b" "set_pages b (j + 1) k = Some bm'"
    by (auto simp: bind_eq_Some_conv)
  show ?case
    using Suc.IH [OF b(2)] set_page_test [OF b(1)] by auto
qed

lemma clear_pages_test:
  "clear_pages bm j k = Some bm' \<Longrightarrow>
     length bm' = length bm \<and>
     test_page bm' i = (if j \<le> i \<and> i < j + k then Some False else test_page bm i)"
proof (induction k arbitrary: bm j)
  case 0
  then show ?case by auto
next
  case (Suc k)
  from Suc.prems obtain b where b: "clear_page bm j = Some b" "clear_pages b (j + 1) k = Some bm'"
    by (auto simp: bind_eq_Some_conv)
  show ?case
    using Suc.IH [OF b(2)] clear_page_test [OF b(1)] by auto
qed

lemma set_pages_defined: "j + k \<le> BITS_PER_DW * length bm \<Longrightarrow> set_pages bm j k \<noteq> None"
proof (induction k arbitrary: bm j)
  case 0
  then show ?case by simp
next
  case (Suc k)
  then obtain b where b: "set_page bm j = Some b"
    using test_page_None [of bm j] by (auto simp: set_page_def test_page_def split: if_splits)
  then show ?case
    using Suc.prems Suc.IH [of "j + 1" b] set_page_test(1) [OF b] by simp
qed

lemma clear_pages_defined: "j + k \<le> BITS_PER_DW * length bm \<Longrightarrow> clear_pages bm j k \<noteq> None"
proof (induction k arbitrary: bm j)
  case 0
  then show ?case by simp
next
  case (Suc k)
  then obtain b where b: "clear_page bm j = Some b"
    using test_page_None [of bm j] by (auto simp: clear_page_def test_page_def split: if_splits)
  then show ?case
    using Suc.prems Suc.IH [of "j + 1" b] clear_page_test(1) [OF b] by simp
qed

lemma clear_pages_out_of_bounds:
  "BITS_PER_DW * length bm \<le> j \<Longrightarrow> 0 < k \<Longrightarrow> clear_pages bm j k = None"
  using test_page_None [of bm j]
  by (cases k) (auto simp: clear_page_def test_page_def split: if_splits)

lemma first_used_free:
  "first_used bm j k = Some None \<Longrightarrow> j \<le> i \<Longrightarrow> i < j + k \<Longrightarrow> test_page bm i = Some False"
proof (induction k arbitrary: j)
  case 0
  then show ?case by simp
next
  case (Suc k)
  then show ?case
    by (cases "i = j") (auto split: option.splits bool.splits)
qed

lemma first_used_hit:
  "first_used bm j k = Some (Some i) \<Longrightarrow> j \<le> i \<and> i < j + k \<and> test_page bm i = Some True"
proof (induction k arbitrary: j)
  case 0
  then show ?case by simp
next
  case (Suc k)
  then show ?case by (fastforce split: option.splits bool.splits)
qed

text \<open>The search is sound, and it only gives up when no free run starts at or before the limit.\<close>

lemma scan_pages_sound:
  "scan_pages bm lim pages i = Some (Some r) \<Longrightarrow>
     i \<le> r \<and> r \<le> lim \<and> test_page bm r = Some False
     \<and> (\<forall>p. r \<le> p \<and> p < r + pages \<longrightarrow> test_page bm p = Some False)"
proof (induction bm lim pages i rule: scan_pages.induct)
  case (1 bm lim pages i)
  from "1.prems" obtain b where le: "i \<le> lim" and b: "test_page bm i = Some b"
    by (auto simp: scan_pages.simps [of bm lim pages i] split: if_splits option.splits)
  show ?case
  proof (cases b)
    case True
    with le b "1.prems" have "scan_pages bm lim pages (i + 1) = Some (Some r)"
      by (simp add: scan_pages.simps [of bm lim pages i])
    then show ?thesis using "1.IH"(1) [OF le b] True by auto
  next
    case False
    from le b False "1.prems" obtain u where u: "first_used bm i pages = Some u"
      by (auto simp: scan_pages.simps [of bm lim pages i] split: option.splits)
    show ?thesis
    proof (cases u)
      case None
      with le b False u "1.prems" have "r = i" by (simp add: scan_pages.simps [of bm lim pages i])
      with None u le b False show ?thesis by (auto intro: first_used_free)
    next
      case (Some j)
      with le b False u "1.prems" have "scan_pages bm lim pages (j + 1) = Some (Some r)"
        by (simp add: scan_pages.simps [of bm lim pages i])
      then show ?thesis
        using "1.IH"(2) [OF le b _ u Some] False first_used_ge [of bm i pages j] u Some by auto
    qed
  qed
qed

lemma scan_pages_complete:
  "scan_pages bm lim pages i = Some None \<Longrightarrow> i \<le> r \<Longrightarrow> r \<le> lim \<Longrightarrow> 0 < pages \<Longrightarrow>
     \<exists>p. r \<le> p \<and> p < r + pages \<and> test_page bm p = Some True"
proof (induction bm lim pages i rule: scan_pages.induct)
  case (1 bm lim pages i)
  from "1.prems" obtain b where b: "test_page bm i = Some b"
    by (auto simp: scan_pages.simps [of bm lim pages i] split: if_splits option.splits)
  show ?case
  proof (cases b)
    case True
    with b "1.prems" have "scan_pages bm lim pages (i + 1) = Some None"
      by (simp add: scan_pages.simps [of bm lim pages i])
    then show ?thesis
      using "1.IH"(1) b True "1.prems" by (cases "r = i") force+
  next
    case False
    with b "1.prems" obtain j where j: "first_used bm i pages = Some (Some j)"
      "scan_pages bm lim pages (j + 1) = Some None"
      by (auto simp: scan_pages.simps [of bm lim pages i] split: if_splits option.splits)
    then show ?thesis
      using "1.IH"(2) b False "1.prems" first_used_hit [OF j(1)]
      by (cases "r \<le> j") force+
  qed
qed

section \<open>The page pool as an interface\<close>

locale page_pool =
  fixes pool_ok :: "'s \<Rightarrow> bool"
    and used :: "'s \<Rightarrow> nat set"
    and block :: "'s \<Rightarrow> 'a \<Rightarrow> 'l \<Rightarrow> nat set"
    and valid :: "'s \<Rightarrow> 'a \<Rightarrow> 'l \<Rightarrow> bool"
    and get :: "'l \<Rightarrow> 's \<Rightarrow> ('a option \<times> 's) option"
    and free :: "'a \<Rightarrow> 'l \<Rightarrow> 's \<Rightarrow> 's option"
  assumes get_some: "pool_ok s \<Longrightarrow> get l s = Some (Some a, s') \<Longrightarrow>
      pool_ok s' \<and> valid s' a l \<and> block s a l \<inter> used s = {} \<and> used s' = used s \<union> block s a l
      \<and> block s' = block s"
    and get_none: "get l s = Some (None, s') \<Longrightarrow> s' = s"
    and free_valid: "pool_ok s \<Longrightarrow> valid s a l \<Longrightarrow>
      \<exists>s'. free a l s = Some s' \<and> pool_ok s' \<and> used s' = used s - block s a l \<and> block s' = block s"
begin

lemma get_free:
  assumes "pool_ok s" and "get l s = Some (Some a, s1)"
  shows "\<exists>s2. free a l s1 = Some s2 \<and> used s2 = used s"
  using get_some [OF assms] free_valid [of s1 a l] by fastforce

text \<open>Allocate a list of blocks, keeping the ones that are granted.\<close>

fun get_all :: "'l list \<Rightarrow> 's \<Rightarrow> (('a \<times> 'l) list \<times> 's) option" where
  "get_all [] s = Some ([], s)"
| "get_all (l # ls) s =
     (case get l s of
        None \<Rightarrow> None
      | Some (r, s') \<Rightarrow>
          (case get_all ls s' of
             None \<Rightarrow> None
           | Some (bs, s'') \<Rightarrow> Some ((case r of None \<Rightarrow> bs | Some a \<Rightarrow> (a, l) # bs), s'')))"

lemma get_all_used:
  "pool_ok s \<Longrightarrow> get_all ls s = Some (bs, s') \<Longrightarrow>
     block s' = block s \<and> (\<forall>(a, l) \<in> set bs. block s a l \<inter> used s = {}) \<and> used s \<subseteq> used s'
     \<and> (\<forall>(a, l) \<in> set bs. block s a l \<subseteq> used s')"
proof (induction ls arbitrary: s bs)
  case Nil
  then show ?case by simp
next
  case (Cons l ls)
  from Cons.prems(2) obtain r s1 bs1 where g: "get l s = Some (r, s1)"
    and ga: "get_all ls s1 = Some (bs1, s')" and bs: "bs = (case r of None \<Rightarrow> bs1 | Some a \<Rightarrow> (a, l) # bs1)"
    by (auto split: option.splits)
  show ?case
  proof (cases r)
    case None
    with g have "s1 = s" using get_none by blast
    then show ?thesis using Cons.IH [OF Cons.prems(1), of bs1] ga by (simp add: bs None)
  next
    case (Some a)
    with get_some [OF Cons.prems(1)] g have s1: "pool_ok s1" "block s a l \<inter> used s = {}"
      "used s1 = used s \<union> block s a l" "block s1 = block s" by blast+
    show ?thesis
      using Cons.IH [OF s1(1) ga] s1(2) unfolding s1(3,4) bs Some
      by (simp add: Int_Un_distrib split_beta)
  qed
qed

lemma get_all_disjoint:
  "pool_ok s \<Longrightarrow> get_all ls s = Some (bs, s') \<Longrightarrow> i < j \<Longrightarrow> j < length bs \<Longrightarrow>
     block s (fst (bs ! i)) (snd (bs ! i)) \<inter> block s (fst (bs ! j)) (snd (bs ! j)) = {}"
proof (induction ls arbitrary: s bs i j)
  case Nil
  then show ?case by simp
next
  case (Cons l ls)
  from Cons.prems(2) obtain r s1 bs1 where g: "get l s = Some (r, s1)"
    and ga: "get_all ls s1 = Some (bs1, s')" and bs: "bs = (case r of None \<Rightarrow> bs1 | Some a \<Rightarrow> (a, l) # bs1)"
    by (auto split: option.splits)
  show ?case
  proof (cases r)
    case None
    with g have "s1 = s" using get_none by blast
    then show ?thesis using Cons.IH [OF Cons.prems(1), of bs1] Cons.prems(3,4) ga by (simp add: bs None)
  next
    case (Some a)
    with get_some [OF Cons.prems(1)] g have s1: "pool_ok s1" "used s1 = used s \<union> block s a l"
      "block s1 = block s" by blast+
    obtain j' where j': "j = Suc j'" using Cons.prems(3) by (cases j) auto
    have "bs1 ! j' \<in> set bs1" using Cons.prems(4) j' by (simp add: bs Some)
    then have "block s (fst (bs1 ! j')) (snd (bs1 ! j')) \<inter> used s1 = {}"
      using get_all_used [OF s1(1) ga] s1(3) by fastforce
    then show ?thesis
      using Cons.IH [OF s1(1) ga] Cons.prems(3,4) s1 j' by (cases i) (auto simp: bs Some)
  qed
qed

end

definition tx_pool_ok :: "'a heci_state_scheme \<Rightarrow> bool" where
  "tx_pool_ok s \<longleftrightarrow> length (page_bitmap (host_rx_dma s)) = BITS_PER_DW"

definition tx_used :: "'a heci_state_scheme \<Rightarrow> nat set" where
  "tx_used s = used_pages (page_bitmap (host_rx_dma s))"

definition tx_page :: "'a heci_state_scheme \<Rightarrow> u64 \<Rightarrow> nat" where
  "tx_page s addr = unat (ucast ((addr - dma_addr (host_rx_dma s)) div of_nat CONFIG_HECI_PAGE_SIZE) :: u32)"

definition tx_block :: "'a heci_state_scheme \<Rightarrow> u64 \<Rightarrow> u32 \<Rightarrow> nat set" where
  "tx_block s addr len = {tx_page s addr ..< tx_page s addr + unat (GET_NUM_PAGES len)}"

definition tx_valid :: "'a heci_state_scheme \<Rightarrow> u64 \<Rightarrow> u32 \<Rightarrow> bool" where
  "tx_valid s addr len \<longleftrightarrow> tx_page s addr + unat (GET_NUM_PAGES len) \<le> BITS_PER_DW * BITS_PER_DW"

lemma tx_page_of_run:
  assumes "i < 2 ^ 32"
  shows "tx_page s (dma_addr (host_rx_dma s) + of_nat (i * CONFIG_HECI_PAGE_SIZE)) = i"
proof -
  have "unat (of_nat (i * 4096) :: u64) = i * 4096"
    using assms by (simp only: unat_of_nat) simp
  then have "unat ((of_nat (i * 4096) :: u64) div 4096) = i"
    by (simp add: unat_div)
  then show ?thesis
    using assms by (simp add: tx_page_def CONFIG_HECI_PAGE_SIZE_def unsigned_ucast_eq take_bit_nat_eq_self)
qed

lemma get_tx_buffer_SomeE:
  assumes "heci_dma_get_tx_buffer len s = Some (Some a, s')"
  obtains i bm where "scan_pages (page_bitmap (host_rx_dma s))
      (unat (num_pages (host_rx_dma s) - GET_NUM_PAGES len)) (unat (GET_NUM_PAGES len)) 0 = Some (Some i)"
    and "set_pages (page_bitmap (host_rx_dma s)) i (unat (GET_NUM_PAGES len)) = Some bm"
    and "a = dma_addr (host_rx_dma s) + of_nat (i * CONFIG_HECI_PAGE_SIZE)"
    and "s' = s\<lparr>host_rx_dma := (host_rx_dma s)\<lparr>page_bitmap := bm\<rparr>\<rparr>"
  using assms
  by (auto simp: heci_dma_get_tx_buffer_def Let_def bind_eq_Some_conv split: if_splits option.splits)

lemma get_tx_buffer_block:
  assumes "tx_pool_ok s" and "heci_dma_get_tx_buffer len s = Some (Some a, s')"
  shows "tx_pool_ok s' \<and> tx_valid s' a len \<and> tx_block s a len \<inter> tx_used s = {}
         \<and> tx_used s' = tx_used s \<union> tx_block s a len \<and> tx_block s' = tx_block s"
  using assms(2)
proof (rule get_tx_buffer_SomeE)
  let ?n = "unat (GET_NUM_PAGES len)"
  fix i bm
  assume sc: "scan_pages (page_bitmap (host_rx_dma s))
      (unat (num_pages (host_rx_dma s) - GET_NUM_PAGES len)) ?n 0 = Some (Some i)"
    and st: "set_pages (page_bitmap (host_rx_dma s)) i ?n = Some bm"
    and a: "a = dma_addr (host_rx_dma s) + of_nat (i * CONFIG_HECI_PAGE_SIZE)"
    and s': "s' = s\<lparr>host_rx_dma := (host_rx_dma s)\<lparr>page_bitmap := bm\<rparr>\<rparr>"
  note sound = scan_pages_sound [OF sc]
  have "unat (num_pages (host_rx_dma s) - GET_NUM_PAGES len) < 2 ^ 32"
    using unsigned_less [of "num_pages (host_rx_dma s) - GET_NUM_PAGES len"] by simp
  then have page: "tx_page s a = i" "tx_page s' a = i" "tx_block s' = tx_block s"
    using tx_page_of_run [of i s] tx_page_of_run [of i s'] sound
    by (auto simp: a s' tx_block_def tx_page_def fun_eq_iff)
  have inb: "p < BITS_PER_DW * BITS_PER_DW" if "test_page (page_bitmap (host_rx_dma s)) p = Some b" for p b
    using that test_page_None [of "page_bitmap (host_rx_dma s)" p] assms(1)
    by (cases "BITS_PER_DW * BITS_PER_DW \<le> p") (auto simp: tx_pool_ok_def)
  have "i + ?n \<le> BITS_PER_DW * BITS_PER_DW"
    using inb [of i False] inb [of "i + ?n - 1" False] sound by (cases "?n = 0") auto
  moreover have "tx_used s' = tx_used s \<union> tx_block s a len" "tx_pool_ok s'"
    using set_pages_test [OF st] assms(1) page(1)
    by (auto simp: tx_used_def used_pages_def s' tx_block_def tx_pool_ok_def split: if_splits)
  ultimately show ?thesis
    using sound page by (auto simp: tx_valid_def tx_block_def tx_used_def used_pages_def)
qed

lemma free_tx_buffer_block:
  assumes "tx_pool_ok s" and "tx_valid s a len"
  shows "\<exists>s'. heci_dma_free_tx_buffer a len s = Some s' \<and> tx_pool_ok s'
         \<and> tx_used s' = tx_used s - tx_block s a len \<and> tx_block s' = tx_block s"
proof -
  define pi where "pi = (ucast ((a - dma_addr (host_rx_dma s)) div of_nat CONFIG_HECI_PAGE_SIZE) :: u32)"
  let ?n = "unat (GET_NUM_PAGES len)"
  have le: "unat pi + ?n \<le> BITS_PER_DW * BITS_PER_DW"
    using assms(2) by (simp add: tx_valid_def tx_page_def pi_def)
  then have k: "unat (pi + GET_NUM_PAGES len) - unat pi = ?n"
    by (simp add: unat_word_ariths BITS_PER_DW_def)
  obtain bm where bm: "clear_pages (page_bitmap (host_rx_dma s)) (unat pi) ?n = Some bm"
    using clear_pages_defined [of "unat pi" ?n "page_bitmap (host_rx_dma s)"] le assms(1)
    by (auto simp: tx_pool_ok_def)
  let ?s' = "s\<lparr>host_rx_dma := (host_rx_dma s)\<lparr>page_bitmap := bm\<rparr>\<rparr>"
  have "heci_dma_free_tx_buffer a len s = Some ?s'"
    using bm k by (simp add: heci_dma_free_tx_buffer_def Let_def flip: pi_def)
  moreover have "tx_used ?s' = tx_used s - tx_block s a len" "tx_pool_ok ?s'" "tx_block ?s' = tx_block s"
    using clear_pages_test [OF bm] assms(1)
    by (auto simp: tx_used_def used_pages_def tx_block_def tx_page_def pi_def tx_pool_ok_def
        fun_eq_iff split: if_splits)
  ultimately show ?thesis by blast
qed

interpretation tx_pool: page_pool tx_pool_ok tx_used tx_block tx_valid
  heci_dma_get_tx_buffer heci_dma_free_tx_buffer
proof unfold_locales
  fix s s' :: "'a heci_state_scheme" and l a
  show "tx_pool_ok s' \<and> tx_valid s' a l \<and> tx_block s a l \<inter> tx_used s = {} \<and>
      tx_used s' = tx_used s \<union> tx_block s a l \<and> tx_block s' = tx_block s"
    if "tx_pool_ok s" "heci_dma_get_tx_buffer l s = Some (Some a, s')"
    using get_tx_buffer_block [OF that] .
  show "s' = s" if "heci_dma_get_tx_buffer l s = Some (None, s')"
    using that by (auto simp: heci_dma_get_tx_buffer_def Let_def bind_eq_Some_conv
        split: if_splits option.splits)
  show "\<exists>s'. heci_dma_free_tx_buffer a l s = Some s' \<and> tx_pool_ok s' \<and>
      tx_used s' = tx_used s - tx_block s a l \<and> tx_block s' = tx_block s"
    if "tx_pool_ok s" "tx_valid s a l"
    using free_tx_buffer_block [OF that] .
qed

end
