(* ===== verification/Heci_Core.thy ===== *)
theory Heci_Core
  imports Heci_Dma
begin

text \<open>
  The HECI driver (\<^verbatim>\<open>host_service/heci/heci.c\<close>): client registration, connections between
  host and firmware clients, flow control, and the dispatch of host messages.  A
  pointer to an element of \<^verbatim>\<open>heci_dev.connections\<close> or \<^verbatim>\<open>heci_dev.clients\<close> is its index, a
  pointer to a receive descriptor an address of \<open>rx_heap\<close>.  A result \<open>None\<close> is undefined
  behaviour: a null pointer dereferenced or an array bound left.  Callbacks of clients
  are events of the log, so a handler is modelled up to what the callbacks do.
\<close>

section \<open>Access to the device\<close>

abbreviation lock_dev :: "'a heci_state_scheme \<Rightarrow> 'a heci_state_scheme" where
  "lock_dev s \<equiv> s\<lparr>dev_lock := Suc (dev_lock s)\<rparr>"

abbreviation unlock_dev :: "'a heci_state_scheme \<Rightarrow> 'a heci_state_scheme" where
  "unlock_dev s \<equiv> s\<lparr>dev_lock := dev_lock s - Suc 0\<rparr>"

definition conn_at :: "'a heci_state_scheme \<Rightarrow> nat \<Rightarrow> heci_conn" where
  "conn_at s i = connections s ! i"

definition upd_conn :: "nat \<Rightarrow> (heci_conn \<Rightarrow> heci_conn) \<Rightarrow> 'a heci_state_scheme \<Rightarrow> 'a heci_state_scheme" where
  "upd_conn i f s = s\<lparr>connections := (connections s)[i := f (connections s ! i)]\<rparr>"

definition upd_client ::
    "nat \<Rightarrow> (heci_client_ctrl \<Rightarrow> heci_client_ctrl) \<Rightarrow> 'a heci_state_scheme \<Rightarrow> 'a heci_state_scheme" where
  "upd_client i f s = s\<lparr>clients := (clients s)[i := f (clients s ! i)]\<rparr>"

definition upd_rx ::
    "rx_ptr \<Rightarrow> (heci_rx_msg \<Rightarrow> heci_rx_msg) \<Rightarrow> 'a heci_state_scheme \<Rightarrow> 'a heci_state_scheme" where
  "upd_rx p f s = s\<lparr>rx_heap := (rx_heap s)(p := f (rx_heap s p))\<rparr>"

text \<open>A protocol message to the host whose success the caller does not look at.\<close>

definition send_bus :: "kenv \<Rightarrow> u8 list \<Rightarrow> 'a heci_state_scheme \<Rightarrow> 'a heci_state_scheme option" where
  "send_bus e data s =
     map_option snd (heci_send_proto_msg e HECI_DRIVER_ADDRESS HECI_DRIVER_ADDRESS True data s)"

section \<open>Sending client messages\<close>

text \<open>
  Waiting for flow control.  A round of the loop is one \<^verbatim>\<open>k_sem_take\<close>: \<open>w\<close> is what the other
  threads do to the state until that call returns, \<open>again\<close> the rounds that follow.
\<close>

definition fc_round ::
    "kenv \<Rightarrow> ('a heci_state_scheme \<Rightarrow> 'a heci_state_scheme)
     \<Rightarrow> ('a heci_state_scheme \<Rightarrow> (bool \<times> 'a heci_state_scheme) option) \<Rightarrow> nat \<Rightarrow> 'a heci_state_scheme
     \<Rightarrow> (bool \<times> 'a heci_state_scheme) option" where
  "fc_round e w again i s =
     (case flow_ctrl_sem (conn_at s i) of
        None \<Rightarrow> None
      | Some k \<Rightarrow>
          (let s1 = w s;
               (sem_ret, c) = k_sem_take e (flow_ctrl_sems s1 ! k) False;
               s2 = lock_dev (s1\<lparr>flow_ctrl_sems := (flow_ctrl_sems s1)[k := c]\<rparr>)
           in if sem_ret \<noteq> 0 then Some (False, unlock_dev s2)
              else if host_buffers (conn_at s2 i) \<noteq> 0
              then Some (True, unlock_dev
                     (upd_conn i (\<lambda>c. c\<lparr>wait_thread_count := wait_thread_count c - 1\<rparr>) s2))
              else again (unlock_dev s2)))"

text \<open>
  The rounds when no other thread runs any more: as many as the semaphore still counts, then
  the call that times out.
\<close>

primrec fc_alone :: "kenv \<Rightarrow> nat \<Rightarrow> nat \<Rightarrow> 'a heci_state_scheme \<Rightarrow> (bool \<times> 'a heci_state_scheme) option" where
  "fc_alone e 0 = (\<lambda>i s.
     if flow_ctrl_sem (conn_at s i) = None then None else Some (False, unlock_dev (lock_dev s)))"
| "fc_alone e (Suc n) = (\<lambda>i s. fc_round e id (fc_alone e n i) i s)"

fun heci_wait_for_flow_control ::
    "kenv \<Rightarrow> ('a heci_state_scheme \<Rightarrow> 'a heci_state_scheme) list \<Rightarrow> nat \<Rightarrow> 'a heci_state_scheme
     \<Rightarrow> (bool \<times> 'a heci_state_scheme) option" where
  "heci_wait_for_flow_control e [] i s =
     (case flow_ctrl_sem (conn_at s i) of None \<Rightarrow> None | Some k \<Rightarrow> fc_alone e (flow_ctrl_sems s ! k) i s)"
| "heci_wait_for_flow_control e (w # ws) i s = fc_round e w (heci_wait_for_flow_control e ws i) i s"

definition heci_wakeup_sender ::
    "kenv \<Rightarrow> nat \<Rightarrow> nat \<Rightarrow> 'a heci_state_scheme \<Rightarrow> 'a heci_state_scheme option" where
  "heci_wakeup_sender e i num_of_thread s =
     (if num_of_thread = 0 then Some s
      else do {
        k \<leftarrow> flow_ctrl_sem (conn_at s i);
        Some (s\<lparr>flow_ctrl_sems := (flow_ctrl_sems s)
          [k := (k_sem_give e (2 ^ 32 - 1) ^^ num_of_thread) (flow_ctrl_sems s ! k)]\<rparr>)
      })"

definition EPERM :: int where "EPERM = 1"
definition EINVAL :: int where "EINVAL = 22"
definition EBUSY :: int where "EBUSY = 16"

fun total_msg_len :: "u32 \<Rightarrow> u32 \<Rightarrow> mrd list \<Rightarrow> int" where
  "total_msg_len max_size total_len [] = uint total_len"
| "total_msg_len max_size total_len (m # ms) =
     (if mrd_len m = 0 \<or> mrd_buf m = None then -1
      else let total_len' = total_len + mrd_len m
           in if max_size < total_len' \<or> HECI_MAX_MSG_SIZE < unat total_len'
                 \<or> HECI_MAX_MSG_SIZE < unat (mrd_len m)
              then - EPERM
              else total_msg_len max_size total_len' ms)"

definition cal_send_msg_len ::
    "nat \<Rightarrow> mrd list \<Rightarrow> 'a heci_state_scheme \<Rightarrow> (int \<times> 'a heci_state_scheme) option" where
  "cal_send_msg_len conn_id msg s =
     (if HECI_MAX_NUM_OF_CONNECTIONS \<le> conn_id then None
      else let s1 = lock_dev s; conn = conn_at s1 conn_id
           in if state conn AND HECI_CONN_STATE_OPEN = 0 then Some (-1, unlock_dev s1)
              else do {
                c \<leftarrow> conn_client conn;
                let max_size = max_msg_size (properties (clients s1 ! c));
                Some (total_msg_len max_size 0 msg, unlock_dev s1)
              })"

text \<open>The points of \<^verbatim>\<open>heci_send\<close> at which other threads may run.\<close>

record 's send_sched =
  before_lock :: "'s \<Rightarrow> 's"
  fc_waits :: "('s \<Rightarrow> 's) list"
  before_relock :: "'s \<Rightarrow> 's"
  during_dma :: "'s \<Rightarrow> 's"

definition no_others :: "'s send_sched" where
  "no_others = \<lparr>before_lock = id, fc_waits = [], before_relock = id, during_dma = id\<rparr>"

text \<open>Whether \<^verbatim>\<open>heci_send\<close> may go on, with the lock held when it may.\<close>

definition send_credit ::
    "kenv \<Rightarrow> ('a heci_state_scheme) send_sched \<Rightarrow> nat \<Rightarrow> 'a heci_state_scheme
     \<Rightarrow> (bool \<times> 'a heci_state_scheme) option" where
  "send_credit e sch conn_id s =
     (if host_buffers (conn_at s conn_id) = 0
      then do {
        (ret, s') \<leftarrow> heci_wait_for_flow_control e (fc_waits sch) conn_id
          (unlock_dev (upd_conn conn_id (\<lambda>c. c\<lparr>wait_thread_count := wait_thread_count c + 1\<rparr>) s));
        Some (if ret then (True, lock_dev (before_relock sch s')) else (False, s'))
      }
      else Some (True, s))"

definition send_by_dma ::
    "kenv \<Rightarrow> ('a heci_state_scheme) send_sched \<Rightarrow> nat \<Rightarrow> int \<Rightarrow> mrd list \<Rightarrow> 'a heci_state_scheme
     \<Rightarrow> (bool \<times> 'a heci_state_scheme) option" where
  "send_by_dma e sch conn_id total_len msg s =
     (if config_heci_use_dma e \<and> int CONFIG_HECI_DMA_THRESHOLD < total_len
      then do {
        c \<leftarrow> conn_client (conn_at s conn_id);
        if dma_enabled (properties (clients s ! c))
        then send_client_msg_dma e (during_dma sch) conn_id msg s
        else Some (False, s)
      }
      else Some (False, s))"

definition heci_send ::
    "kenv \<Rightarrow> ('a heci_state_scheme) send_sched \<Rightarrow> nat \<Rightarrow> mrd list \<Rightarrow> 'a heci_state_scheme
     \<Rightarrow> (bool \<times> 'a heci_state_scheme) option" where
  "heci_send e sch conn_id msg s =
     do {
       (total_len, s1) \<leftarrow> cal_send_msg_len conn_id msg s;
       if total_len < 0 then Some (False, s1)
       else do {
         (go, s2) \<leftarrow> send_credit e sch conn_id (lock_dev (before_lock sch s1));
         if \<not> go then Some (False, s2)
         else do {
           (sent, s3) \<leftarrow> send_by_dma e sch conn_id total_len msg s2;
           (sent', s4) \<leftarrow> (if sent then Some (True, s3)
                          else send_client_msg_ipc e (conn_at s3 conn_id) msg s3);
           let s5 = (if sent' then upd_conn conn_id (\<lambda>c. c\<lparr>host_buffers := host_buffers c - 1\<rparr>) s4
                     else s4);
           Some (sent', unlock_dev s5)
         }
       }
     }"

definition heci_send_flow_control ::
    "kenv \<Rightarrow> nat \<Rightarrow> 'a heci_state_scheme \<Rightarrow> (bool \<times> 'a heci_state_scheme) option" where
  "heci_send_flow_control e conn_id s =
     (if HECI_MAX_NUM_OF_CONNECTIONS \<le> conn_id then Some (False, s)
      else let s1 = lock_dev s
           in if state (conn_at s1 conn_id) AND HECI_CONN_STATE_OPEN = 0 then Some (False, unlock_dev s1)
              else let s2 = (case rx_buffer (conn_at s1 conn_id) of
                               None \<Rightarrow> s1
                             | Some p \<Rightarrow>
                                 upd_conn conn_id (\<lambda>c. c\<lparr>rx_buffer := None\<rparr>)
                                   (upd_rx p (\<lambda>b. b\<lparr>rx_length := 0, rx_type := 0, rx_locked := False\<rparr>) s1));
                       conn = conn_at s2 conn_id
                   in do {
                     (ret, s3) \<leftarrow> heci_send_proto_msg e HECI_DRIVER_ADDRESS HECI_DRIVER_ADDRESS True
                       (enc_flow_ctrl \<lparr>fc_command = HECI_BUS_MSG_FLOW_CONTROL,
                          fc_fw_addr = fw_addr conn, fc_host_addr = host_addr conn,
                          fc_number_of_packets = 1, fc_reserved = 0\<rparr>) s2;
                     Some (ret, unlock_dev s3)
                   })"

section \<open>Connections\<close>

definition heci_notify_client :: "heci_conn \<Rightarrow> u32 \<Rightarrow> 'a heci_state_scheme \<Rightarrow> 'a heci_state_scheme" where
  "heci_notify_client conn event s =
     (case conn_event_cb conn of None \<Rightarrow> s | Some cb \<Rightarrow> emit (ClientEvent cb event (conn_param conn)) s)"

definition heci_find_conn :: "u8 \<Rightarrow> u8 \<Rightarrow> u8 \<Rightarrow> 'a heci_state_scheme \<Rightarrow> nat option" where
  "heci_find_conn faddr haddr st s =
     find_idx (\<lambda>c. state c AND st \<noteq> 0 \<and> fw_addr c = faddr \<and> host_addr c = haddr) (connections s)"

definition heci_connection_reset :: "nat \<Rightarrow> 'a heci_state_scheme \<Rightarrow> 'a heci_state_scheme" where
  "heci_connection_reset i s =
     (if conn_client (conn_at s i) = None then s
      else let s1 = upd_conn i (\<lambda>c. c\<lparr>state := HECI_CONN_STATE_DISCONNECTING\<rparr>) s
           in heci_notify_client (conn_at s1 i) HECI_EVENT_DISCONN s1)"

definition heci_version_resp ::
    "kenv \<Rightarrow> heci_bus_msg \<Rightarrow> 'a heci_state_scheme \<Rightarrow> 'a heci_state_scheme option" where
  "heci_version_resp e msg s =
     (let req = dec_version_req (payload msg)
      in if hdr_len (hdr msg) \<noteq> 4 then Some s
         else send_bus e (enc_version_resp
                \<lparr>vr_command = GEN_RESP HECI_BUS_MSG_VERSION_REQ,
                 vr_supported = (if vq_major_ver req = HECI_DRIVER_MAJOR_VERSION \<and>
                                    vq_minor_ver req = HECI_DRIVER_MINOR_VERSION then 1 else 0),
                 vr_minor_ver = HECI_DRIVER_MINOR_VERSION,
                 vr_major_ver = HECI_DRIVER_MAJOR_VERSION\<rparr>) s)"

definition reset_conn :: "nat \<Rightarrow> 'a heci_state_scheme \<Rightarrow> 'a heci_state_scheme" where
  "reset_conn i s =
     (if state (conn_at s i) AND HECI_CONN_STATE_OPEN \<noteq> 0 then heci_connection_reset i s
      else if state (conn_at s i) AND HECI_CONN_STATE_DISCONNECTING \<noteq> 0
      then upd_conn i (\<lambda>c. c\<lparr>state := HECI_CONN_STATE_DISCONNECTING\<rparr>) s
      else s)"

definition heci_reset :: "'a heci_state_scheme \<Rightarrow> 'a heci_state_scheme" where
  "heci_reset s = unlock_dev (fold reset_conn [0..<HECI_MAX_NUM_OF_CONNECTIONS] (lock_dev s))"

definition heci_stop_resp ::
    "kenv \<Rightarrow> heci_bus_msg \<Rightarrow> 'a heci_state_scheme \<Rightarrow> 'a heci_state_scheme option" where
  "heci_stop_resp e msg s =
     send_bus e (enc_version_resp \<lparr>vr_command = GEN_RESP HECI_BUS_MSG_HOST_STOP_REQ,
         vr_supported = 0, vr_minor_ver = 0, vr_major_ver = 0\<rparr>)
       (heci_reset (emit (FwstSet ILUP_HOST 0) s))"

text \<open>One round of the enumeration: the address bit of client \<open>i\<close>; \<^verbatim>\<open>None\<close> beyond the table.\<close>

fun enum_clients ::
    "nat \<Rightarrow> nat \<Rightarrow> u32 list \<Rightarrow> heci_client_ctrl list \<Rightarrow> (u32 list \<times> heci_client_ctrl list) option" where
  "enum_clients i 0 addrs cs = Some (addrs, cs)"
| "enum_clients i (Suc n) addrs cs =
     (if i < length cs
      then let a = unat (client_addr (cs ! i)); j = a div BITS_PER_DW
           in enum_clients (i + 1) n (addrs[j := addrs ! j OR BIT (a mod BITS_PER_DW)])
                (cs[i := (cs ! i)\<lparr>active := True\<rparr>])
      else None)"

definition heci_enum_resp ::
    "kenv \<Rightarrow> heci_bus_msg \<Rightarrow> 'a heci_state_scheme \<Rightarrow> 'a heci_state_scheme option" where
  "heci_enum_resp e msg s =
     (let req = dec_host_enum_req (payload msg)
      in if hdr_len (hdr msg) \<noteq> 4 then Some s
         else do {
           (addrs, cs) \<leftarrow> enum_clients 0 (registered_clients s) (replicate 8 0) (clients s);
           s1 \<leftarrow> send_bus e (enc_host_enum_resp \<lparr>er_command = GEN_RESP HECI_BUS_MSG_HOST_ENUM_REQ,
                    er_valid_addresses = addrs\<rparr>) (s\<lparr>clients := cs\<rparr>);
           Some (if eq_client_req_bits req \<noteq> 0 then s1\<lparr>notify_new_clients := True\<rparr> else s1)
         })"

definition client_prop_answer :: "u8 \<Rightarrow> 'a heci_state_scheme \<Rightarrow> heci_client_prop_resp" where
  "client_prop_answer address s =
     (case find_idx (\<lambda>c. client_addr c = address) (clients s) of
        None \<Rightarrow> \<lparr>pr_command = GEN_RESP HECI_BUS_MSG_HOST_CLIENT_PROP_REQ, pr_address = address,
                 pr_status = HECI_CONNECT_STATUS_CLIENT_NOT_FOUND, pr_protocol_id = guid_zero,
                 pr_protocol_ver = 0, pr_max_n_of_conns = 0, pr_max_msg_size = 0,
                 pr_dma_header_length = 0, pr_dma_enabled = False\<rparr>
      | Some i \<Rightarrow> let client = properties (clients s ! i) in
                \<lparr>pr_command = GEN_RESP HECI_BUS_MSG_HOST_CLIENT_PROP_REQ, pr_address = address,
                 pr_status = HECI_CONNECT_STATUS_SUCCESS, pr_protocol_id = protocol_id client,
                 pr_protocol_ver = protocol_ver client, pr_max_n_of_conns = max_n_of_connections client,
                 pr_max_msg_size = max_msg_size client,
                 pr_dma_header_length = dma_header_length client, pr_dma_enabled = dma_enabled client\<rparr>)"

definition heci_client_prop ::
    "kenv \<Rightarrow> heci_bus_msg \<Rightarrow> 'a heci_state_scheme \<Rightarrow> 'a heci_state_scheme option" where
  "heci_client_prop e msg s =
     (if hdr_len (hdr msg) \<noteq> 4 then Some s
      else send_bus e (enc_client_prop_resp
             (client_prop_answer (pq_address (dec_client_prop_req (payload msg))) s)) s)"

text \<open>The single receive buffer of a client; \<open>Some (None, _)\<close> is the result \<^verbatim>\<open>NULL\<close>.\<close>

definition heci_get_buffer_from_pool ::
    "nat option \<Rightarrow> 'a heci_state_scheme \<Rightarrow> (rx_ptr option \<times> 'a heci_state_scheme) option" where
  "heci_get_buffer_from_pool client s =
     (case client of
        None \<Rightarrow> Some (None, s)
      | Some c \<Rightarrow> do {
          p \<leftarrow> rx_msg (properties (clients s ! c));
          Some (if rx_locked (rx_heap s p) then (None, s)
                else (Some p, upd_rx p (\<lambda>b. b\<lparr>rx_locked := True\<rparr>) s))
        })"

text \<open>Granting kernel objects to the threads of a client.\<close>

definition grant_threads ::
    "kenv \<Rightarrow> heci_client \<Rightarrow> 'a heci_state_scheme \<Rightarrow> 'a heci_state_scheme option" where
  "grant_threads e client s =
     (if config_userspace e
      then if length (thread_handle_list client) < unat (num_of_threads client) then None
           else Some (s\<lparr>io := io s @ map AccessGrant
                  (List.map_filter id (take (unat (num_of_threads client)) (thread_handle_list client)))\<rparr>)
      else Some s)"

definition conn_resp :: "u8 \<Rightarrow> u8 \<Rightarrow> u8 \<Rightarrow> u8 \<Rightarrow> heci_conn_resp" where
  "conn_resp cmd faddr haddr status =
     \<lparr>cr_command = GEN_RESP cmd, cr_fw_addr = faddr, cr_host_addr = haddr, cr_status = status\<rparr>"

text \<open>The body of \<^verbatim>\<open>heci_connect_host\<close> once client and idle connection are known.\<close>

definition connect_open ::
    "kenv \<Rightarrow> heci_conn_req \<Rightarrow> nat \<Rightarrow> nat \<Rightarrow> 'a heci_state_scheme
     \<Rightarrow> (u8 \<times> 'a heci_state_scheme) option" where
  "connect_open e req client_id conn_id s =
     do {
       (buf, s1) \<leftarrow> heci_get_buffer_from_pool (Some client_id) s;
       let s2 = upd_conn conn_id (\<lambda>c. c\<lparr>rx_buffer := buf\<rparr>) s1;
       case buf of
         None \<Rightarrow> Some (HECI_CONNECT_STATUS_REJECTED, s2)
       | Some p \<Rightarrow> do {
           let s3 = upd_client client_id (\<lambda>c. c\<lparr>n_of_conns := n_of_conns c + 1\<rparr>) s2;
           let props = properties (clients s3 ! client_id);
           let s4 = upd_conn conn_id (\<lambda>c. c\<lparr>conn_client := Some client_id, wait_thread_count := 0,
                      host_addr := cq_host_addr req, fw_addr := cq_fw_addr req,
                      state := HECI_CONN_STATE_OPEN, flow_ctrl_sem := Some conn_id,
                      conn_event_cb := event_cb props, conn_param := param props\<rparr>) s3;
           s5 \<leftarrow> grant_threads e props (s4\<lparr>flow_ctrl_sems := (flow_ctrl_sems s4)[conn_id := 0]\<rparr>);
           let s6 = upd_rx p (\<lambda>b. b\<lparr>rx_type := HECI_CONNECT,
                      rx_connection_id := ucast (connection_id (conn_at s5 conn_id)),
                      rx_length := 0\<rparr>) s5;
           Some (HECI_CONNECT_STATUS_SUCCESS,
                 heci_notify_client (conn_at s6 conn_id) HECI_EVENT_NEW_MSG s6)
         }
     }"

text \<open>The checks before, each with the status it answers.\<close>

definition connect_try ::
    "kenv \<Rightarrow> heci_conn_req \<Rightarrow> 'a heci_state_scheme \<Rightarrow> (u8 \<times> 'a heci_state_scheme) option" where
  "connect_try e req s =
     (case find_idx (\<lambda>c. client_addr c = cq_fw_addr req) (clients s) of
        None \<Rightarrow> Some (HECI_CONNECT_STATUS_CLIENT_NOT_FOUND, s)
      | Some client_id \<Rightarrow>
          let client = clients s ! client_id
          in if cq_host_addr req = 0 then Some (HECI_CONNECT_STATUS_REJECTED, s)
             else if \<not> active client then Some (HECI_CONNECT_STATUS_INACTIVE_CLIENT, s)
             else if n_of_conns client = max_n_of_connections (properties client)
             then Some (HECI_CONNECT_STATUS_REJECTED, s)
             else (case find_idx (\<lambda>c. state c = HECI_CONN_STATE_UNUSED) (connections s) of
                     None \<Rightarrow> Some (HECI_CONNECT_STATUS_REJECTED, s)
                   | Some conn_id \<Rightarrow>
                       connect_open e req client_id conn_id
                         (upd_conn conn_id (\<lambda>c. c\<lparr>connection_id := of_nat conn_id\<rparr>) s)))"

definition heci_connect_host ::
    "kenv \<Rightarrow> heci_bus_msg \<Rightarrow> 'a heci_state_scheme \<Rightarrow> 'a heci_state_scheme option" where
  "heci_connect_host e msg s =
     (let req = dec_conn_req (payload msg)
      in if hdr_len (hdr msg) \<noteq> 4 then Some s
         else do {
           (status, s1) \<leftarrow> connect_try e req s;
           send_bus e (enc_conn_resp (conn_resp HECI_BUS_MSG_CLIENT_CONNECT_REQ
             (cq_fw_addr req) (cq_host_addr req) status)) s1
         })"

definition heci_disconnect ::
    "kenv \<Rightarrow> heci_bus_msg \<Rightarrow> 'a heci_state_scheme \<Rightarrow> 'a heci_state_scheme option" where
  "heci_disconnect e msg s =
     (let req = dec_conn_req (payload msg);
          closing = HECI_CONN_STATE_DISCONNECTING OR HECI_CONN_STATE_SEND_DISCONNECT_RESP
      in if hdr_len (hdr msg) \<noteq> 4 then Some s
         else case heci_find_conn (cq_fw_addr req) (cq_host_addr req)
                     (HECI_CONN_STATE_OPEN OR HECI_CONN_STATE_CONNECTION_REQUEST) s of
                Some i \<Rightarrow>
                  (if state (conn_at s i) AND HECI_CONN_STATE_DISCONNECTING \<noteq> 0
                   then Some (upd_conn i (\<lambda>c. c\<lparr>state := closing\<rparr>) s)
                   else let s1 = upd_conn i (\<lambda>c. c\<lparr>state := closing\<rparr>) s
                        in Some (heci_notify_client (conn_at s1 i) HECI_EVENT_DISCONN s1))
              | None \<Rightarrow>
                  send_bus e (enc_conn_resp (conn_resp HECI_BUS_MSG_CLIENT_DISCONNECT_REQ
                    (cq_fw_addr req) (cq_host_addr req) HECI_CONNECT_STATUS_CLIENT_NOT_FOUND)) s)"

definition heci_flow_control_recv ::
    "kenv \<Rightarrow> heci_bus_msg \<Rightarrow> 'a heci_state_scheme \<Rightarrow> 'a heci_state_scheme option" where
  "heci_flow_control_recv e msg s =
     (let fc = dec_flow_ctrl (payload msg)
      in if hdr_len (hdr msg) \<noteq> 8 then Some s
         else case heci_find_conn (fc_fw_addr fc) (fc_host_addr fc) HECI_CONN_STATE_OPEN s of
                None \<Rightarrow> Some s
              | Some i \<Rightarrow>
                  if fc_number_of_packets fc = 0
                  then let s1 = upd_conn i (\<lambda>c. c\<lparr>host_buffers := host_buffers c + 1\<rparr>) s
                       in heci_wakeup_sender e i (min 1 (unat (wait_thread_count (conn_at s1 i)))) s1
                  else let s1 = upd_conn i (\<lambda>c. c\<lparr>host_buffers :=
                                  host_buffers c + ucast (fc_number_of_packets fc)\<rparr>) s
                       in heci_wakeup_sender e i
                            (min (unat (fc_number_of_packets fc))
                                 (unat (wait_thread_count (conn_at s1 i)))) s1)"

definition heci_reset_resp ::
    "kenv \<Rightarrow> heci_bus_msg \<Rightarrow> 'a heci_state_scheme \<Rightarrow> 'a heci_state_scheme option" where
  "heci_reset_resp e msg s =
     (let req = dec_conn_req (payload msg)
      in if hdr_len (hdr msg) \<noteq> 4 then Some s
         else case heci_find_conn (cq_fw_addr req) (cq_host_addr req) HECI_CONN_STATE_OPEN s of
                None \<Rightarrow> Some s
              | Some i \<Rightarrow>
                  send_bus e (enc_conn_resp (conn_resp HECI_BUS_MSG_RESET_REQ
                      (cq_fw_addr req) (cq_host_addr req) HECI_CONNECT_STATUS_SUCCESS))
                    (upd_conn i (\<lambda>c. c\<lparr>host_buffers := 0\<rparr>) s))"

definition heci_add_client_resp :: "heci_bus_msg \<Rightarrow> 'a heci_state_scheme \<Rightarrow> 'a heci_state_scheme option" where
  "heci_add_client_resp msg s =
     (let resp = dec_add_client_resp (payload msg)
      in if hdr_len (hdr msg) \<noteq> 3 then Some s
         else if ar_status resp \<noteq> 0 then Some s
         else case find_idx (\<lambda>c. client_addr c = ar_client_addr resp) (clients s) of
                None \<Rightarrow> Some s
              | Some i \<Rightarrow> Some (upd_client i (\<lambda>c. c\<lparr>active := True\<rparr>) s))"

section \<open>Messages of the host to clients\<close>

definition heci_connection_error ::
    "kenv \<Rightarrow> heci_conn \<Rightarrow> 'a heci_state_scheme \<Rightarrow> 'a heci_state_scheme option" where
  "heci_connection_error e conn s =
     send_bus e (enc_conn_req \<lparr>cq_command = HECI_BUS_MSG_CLIENT_DISCONNECT_REQ,
       cq_fw_addr = fw_addr conn, cq_host_addr = host_addr conn, cq_reserved = 0\<rparr>) s"

definition heci_find_active_conn ::
    "u8 \<Rightarrow> u8 \<Rightarrow> 'a heci_state_scheme \<Rightarrow> (nat option \<times> 'a heci_state_scheme) option" where
  "heci_find_active_conn faddr haddr s =
     (case heci_find_conn faddr haddr (HECI_CONN_STATE_OPEN OR HECI_CONN_STATE_PROCESSING_MSG) s of
        None \<Rightarrow> Some (None, s)
      | Some i \<Rightarrow>
          if state (conn_at s i) AND HECI_CONN_STATE_PROCESSING_MSG = 0
          then do {
            (buf, s1) \<leftarrow> heci_get_buffer_from_pool (conn_client (conn_at s i)) s;
            let s2 = upd_conn i (\<lambda>c. c\<lparr>rx_buffer := buf\<rparr>) s1;
            Some (case buf of
                    None \<Rightarrow> (None, s2)
                  | Some p \<Rightarrow>
                      (Some i,
                       upd_rx p (\<lambda>b. b\<lparr>rx_length := 0, rx_type := HECI_REQUEST,
                                  rx_connection_id := ucast (connection_id (conn_at s2 i))\<rparr>)
                         (upd_conn i (\<lambda>c. c\<lparr>state := state c OR HECI_CONN_STATE_PROCESSING_MSG\<rparr>) s2)))
          }
          else Some (Some i, s))"

text \<open>\<open>src\<close> are the bytes at the source address, of which \<open>len\<close> are copied.\<close>

definition heci_copy_to_client_buf ::
    "kenv \<Rightarrow> nat \<Rightarrow> u8 list \<Rightarrow> nat \<Rightarrow> bool \<Rightarrow> 'a heci_state_scheme \<Rightarrow> 'a heci_state_scheme option" where
  "heci_copy_to_client_buf e i src len dma s =
     do {
       p \<leftarrow> rx_buffer (conn_at s i);
       c \<leftarrow> conn_client (conn_at s i);
       let rxmsg = rx_heap s p;
       let props = properties (clients s ! c);
       let cur = unat (rx_length rxmsg);
       if unat (rx_buffer_len props) < cur + len \<or> unat (max_msg_size props) < cur + len
       then do {
         s1 \<leftarrow> heci_connection_error e (conn_at s i) s;
         Some (upd_conn i (\<lambda>c. c\<lparr>state := state c AND NOT HECI_CONN_STATE_PROCESSING_MSG\<rparr>)
                 (upd_rx p (\<lambda>b. b\<lparr>rx_locked := False\<rparr>) s1))
       }
       else if dma then Some s
       else do {
         buf \<leftarrow> rx_bytes rxmsg;
         if length buf < cur + len \<or> length src < len then None
         else Some (upd_rx p (\<lambda>b. b\<lparr>rx_bytes := Some (memcpy_at buf cur (take len src)),
                     rx_length := rx_length b + of_nat len, rx_type := HECI_REQUEST,
                     rx_connection_id := ucast (connection_id (conn_at s i))\<rparr>) s)
       }
     }"

definition heci_process_client_message ::
    "kenv \<Rightarrow> heci_bus_msg \<Rightarrow> 'a heci_state_scheme \<Rightarrow> 'a heci_state_scheme option" where
  "heci_process_client_message e msg s =
     do {
       (conn, s1) \<leftarrow> heci_find_active_conn (hdr_fw_addr (hdr msg)) (hdr_host_addr (hdr msg)) s;
       case conn of
         None \<Rightarrow> Some s1
       | Some i \<Rightarrow> do {
           s2 \<leftarrow> heci_copy_to_client_buf e i (payload msg) (unat (hdr_len (hdr msg))) False s1;
           Some (if hdr_last_frag (hdr msg)
                 then let s3 = upd_conn i (\<lambda>c. c\<lparr>state :=
                                 state c AND NOT HECI_CONN_STATE_PROCESSING_MSG\<rparr>) s2
                      in heci_notify_client (conn_at s3 i) HECI_EVENT_NEW_MSG s3
                 else s2)
         }
     }"

definition heci_process_bus_message ::
    "kenv \<Rightarrow> heci_bus_msg \<Rightarrow> 'a heci_state_scheme \<Rightarrow> 'a heci_state_scheme option" where
  "heci_process_bus_message e msg s =
     (let cmd = payload msg ! 0
      in if cmd = HECI_BUS_MSG_VERSION_REQ then heci_version_resp e msg s
         else if cmd = HECI_BUS_MSG_HOST_STOP_REQ then heci_stop_resp e msg s
         else if cmd = HECI_BUS_MSG_HOST_ENUM_REQ then heci_enum_resp e msg s
         else if cmd = HECI_BUS_MSG_HOST_CLIENT_PROP_REQ then heci_client_prop e msg s
         else if cmd = HECI_BUS_MSG_CLIENT_CONNECT_REQ then heci_connect_host e msg s
         else if cmd = HECI_BUS_MSG_CLIENT_DISCONNECT_REQ then heci_disconnect e msg s
         else if cmd = HECI_BUS_MSG_FLOW_CONTROL then heci_flow_control_recv e msg s
         else if cmd = HECI_BUS_MSG_RESET_REQ then heci_reset_resp e msg s
         else if cmd = GEN_RESP HECI_BUS_MSG_ADD_CLIENT_REQ then heci_add_client_resp msg s
         else if config_heci_use_dma e \<and> cmd = HECI_BUS_MSG_DMA_ALLOC_NOTIFY_REQ
         then heci_dma_alloc_notification e msg s
         else if config_heci_use_dma e \<and> cmd = GEN_RESP HECI_BUS_MSG_DMA_XFER_REQ
         then heci_dma_xfer_ack msg s
         else Some s)"

section \<open>The client interface\<close>

definition heci_client_find :: "heci_client \<Rightarrow> 'a heci_state_scheme \<Rightarrow> bool" where
  "heci_client_find client s =
     (find_idx (\<lambda>c. enc_guid (protocol_id (properties c)) = enc_guid (protocol_id client)) (clients s) \<noteq> None)"

definition heci_send_new_client_msg ::
    "kenv \<Rightarrow> heci_client_ctrl \<Rightarrow> 'a heci_state_scheme \<Rightarrow> 'a heci_state_scheme option" where
  "heci_send_new_client_msg e client s =
     (if \<not> notify_new_clients s then Some s
      else let p = properties client
           in send_bus e (enc_add_client_req
                \<lparr>aq_command = HECI_BUS_MSG_ADD_CLIENT_REQ, aq_client_addr = client_addr client,
                 aq_client_properties =
                   \<lparr>cp_protocol_id = protocol_id p, cp_protocol_ver = protocol_ver p,
                    cp_max_n_of_connections = max_n_of_connections p,
                    cp_fixed_address = client_addr client, cp_single_receive_buffer = 0,
                    cp_max_msg_size = max_msg_size p, cp_dma_header_length = dma_header_length p,
                    cp_dma_enabled = dma_enabled p\<rparr>\<rparr>) s)"

definition heci_complete_disconnect ::
    "kenv \<Rightarrow> nat \<Rightarrow> 'a heci_state_scheme \<Rightarrow> (int \<times> 'a heci_state_scheme) option" where
  "heci_complete_disconnect e conn_id s =
     (if HECI_MAX_NUM_OF_CONNECTIONS \<le> conn_id then Some (- EINVAL, s)
      else let s1 = lock_dev s; conn = conn_at s1 conn_id
           in if state conn AND HECI_CONN_STATE_DISCONNECTING = 0 then Some (0, unlock_dev s1)
              else let s2 = (case rx_buffer conn of
                               None \<Rightarrow> s1
                             | Some p \<Rightarrow> upd_rx p (\<lambda>b. b\<lparr>rx_type := 0, rx_length := 0,
                                           rx_connection_id := 0, rx_locked := False\<rparr>) s1)
                   in do {
                     s3 \<leftarrow> (if state conn AND HECI_CONN_STATE_SEND_DISCONNECT_RESP \<noteq> 0
                            then send_bus e (enc_conn_resp (conn_resp HECI_BUS_MSG_CLIENT_DISCONNECT_REQ
                                   (fw_addr conn) (host_addr conn) HECI_CONNECT_STATUS_SUCCESS)) s2
                            else Some s2);
                     c \<leftarrow> conn_client conn;
                     let s4 = upd_client c (\<lambda>c. c\<lparr>n_of_conns := n_of_conns c - 1\<rparr>) s3;
                     Some (0, unlock_dev (upd_conn conn_id (\<lambda>_. conn_zero) s4))
                   })"

definition heci_register ::
    "kenv \<Rightarrow> heci_client option \<Rightarrow> 'a heci_state_scheme \<Rightarrow> (int \<times> 'a heci_state_scheme) option" where
  "heci_register e client s =
     (case client of
        None \<Rightarrow> Some (- EINVAL, s)
      | Some cl \<Rightarrow>
          if (case rx_msg cl of None \<Rightarrow> True | Some p \<Rightarrow> rx_bytes (rx_heap s p) = None)
          then Some (- EINVAL, s)
          else if HECI_MAX_MSG_SIZE < unat (max_msg_size cl) then Some (- EINVAL, s)
          else let s1 = lock_dev s
               in if heci_client_find cl s1 then Some (- EBUSY, unlock_dev s1)
                  else (case find_idx (\<lambda>c. client_addr c = 0) (clients s1) of
                          None \<Rightarrow> Some (-1, unlock_dev s1)
                        | Some i \<Rightarrow>
                            let cc = \<lparr>client_addr = of_nat (i + HECI_FIXED_CLIENT_NUM), n_of_conns = 0,
                                      active = False, properties = cl\<rparr>;
                                s2 = upd_client i (\<lambda>_. cc)
                                       (s1\<lparr>registered_clients := registered_clients s1 + 1\<rparr>)
                            in do {
                              s3 \<leftarrow> heci_send_new_client_msg e cc s2;
                              s4 \<leftarrow> grant_threads e cl s3;
                              Some (0, unlock_dev s4)
                            }))"

section \<open>Messages from the doorbell\<close>

definition heci_process_message ::
    "kenv \<Rightarrow> heci_bus_msg \<Rightarrow> 'a heci_state_scheme \<Rightarrow> 'a heci_state_scheme option" where
  "heci_process_message e msg s =
     do {
       s1 \<leftarrow> (if hdr_fw_addr (hdr msg) = HECI_DRIVER_ADDRESS then heci_process_bus_message e msg (lock_dev s)
              else if hdr_fw_addr (hdr msg) = HECI_SYSTEM_STATE_CLIENT_ADDR then Some (lock_dev s)
              else if hdr_fw_addr (hdr msg) = HECI_FW_STATE_CLIENT_ADDR then Some (lock_dev s)
              else heci_process_client_message e msg (lock_dev s));
       Some (unlock_dev s1)
     }"

definition ack_host :: "kenv \<Rightarrow> u32 \<Rightarrow> 'a heci_state_scheme \<Rightarrow> 'a heci_state_scheme" where
  "ack_host e drbl_ack s = snd (send_rx_complete e (emit (IpcAck drbl_ack) s))"

text \<open>The packet buffer after \<^verbatim>\<open>ipc_read_msg\<close> into a zero-initialised array.\<close>

definition read_packet :: "kenv \<Rightarrow> io_log \<Rightarrow> nat \<Rightarrow> u8 list" where
  "read_packet e l msg_len =
     memcpy_at (replicate HECI_IPC_PACKET_SIZE 0) 0 (take msg_len (ipc_read_data e l msg_len))"

definition ipc_heci_handler ::
    "kenv \<Rightarrow> u32 \<Rightarrow> 'a heci_state_scheme \<Rightarrow> (int \<times> 'a heci_state_scheme) option" where
  "ipc_heci_handler e drbl s =
     (let msg_len = IPC_HEADER_GET_LENGTH drbl; drbl_ack = drbl_ack_of drbl
      in if IPC_DATA_LEN_MAX < msg_len then Some (-1, ack_host e drbl_ack s)
         else let ret = ipc_read_ret e (io s);
                  heci_msg = dec_bus_msg (read_packet e (io s) msg_len);
                  s1 = ack_host e drbl_ack s
              in if ret \<noteq> 0 then Some (-1, s1)
                 else if unat (hdr_len (hdr heci_msg)) + SIZEOF_HDR = msg_len
                 then do { s2 \<leftarrow> heci_process_message e heci_msg s1; Some (0, s2) }
                 else Some (-1, s1))"

definition sx_heci_handler :: "kenv \<Rightarrow> d3_event \<Rightarrow> 'a heci_state_scheme \<Rightarrow> 'a heci_state_scheme" where
  "sx_heci_handler e event s =
     (if event = SX_ENTRY then heci_reset (emit (FwstSet ILUP_HOST 0) (mng_sx_entry e s)) else s)"

end
