(* ===== verification/Heci_Inv.thy ===== *)
theory Heci_Inv
  imports Heci_Core
begin

text \<open>
  The well-formedness invariant of the HECI device and its preservation by every
  operation.  \<open>dev_ok d\<close> says that the tables are consistent, that nobody holds host
  access, and that \<^verbatim>\<open>dev_lock\<close> is held \<open>d\<close> times; \<open>ok (f s) (dev_ok d)\<close> therefore says that
  \<open>f\<close> has no undefined behaviour, keeps the tables consistent, and releases what it took.
\<close>

section \<open>Host access leaves the HECI tables alone\<close>

lemma more_interference [simp]: "mng_state.more (d3_interference e ev s) = mng_state.more s"
  by (cases ev) (auto simp: gate_prims)

lemma more_interferences [simp]:
  "mng_state.more (fold (d3_interference e) evs s) = mng_state.more s"
  by (induction evs arbitrary: s) simp_all

lemma more_call [simp]: "mng_state.more (snd (call_mng_host_access_req e s)) = mng_state.more s"
  by (auto simp: call_mng_host_access_req_def mng_host_req_rtd3_notified_def gate_prims
      split: access_fn.splits)

lemma more_host_access [simp]:
  "mng_state.more (snd (host_access_req e s)) = mng_state.more s"
  "mng_state.more (snd (host_access_dereq e h s)) = mng_state.more s"
proof -
  show "mng_state.more (snd (host_access_req e s)) = mng_state.more s"
    by (simp add: host_access_req_def Let_def case_prod_unfold)
  show "mng_state.more (snd (host_access_dereq e h s)) = mng_state.more s"
    by (auto simp: host_access_dereq_def Let_def mng_host_access_dereq_def give_rtd3_def)
qed

lemma more_ipc_write [simp]: "mng_state.more (snd (ipc_write_msg e d b s)) = mng_state.more s"
  by (simp add: ipc_write_msg_def emit_def Let_def)

lemma more_fields:
  assumes "mng_state.more s = mng_state.more t"
  shows "clients s = clients t" "connections s = connections t"
    "registered_clients s = registered_clients t" "notify_new_clients s = notify_new_clients t"
    "host_rx_dma s = host_rx_dma t" "flow_ctrl_sems s = flow_ctrl_sems t" "rx_heap s = rx_heap t"
    "dev_lock s = dev_lock t"
  using assms by (cases s; cases t; simp)+

lemma proto_msg_more:
  assumes "heci_send_proto_msg e ha fa lf data s = Some (b, s')"
  shows "mng_state.more s' = mng_state.more s"
  using assms
  by (auto simp: heci_send_proto_msg_def Let_def case_prod_unfold split: if_splits)

lemma proto_msg_defined:
  "length data \<le> HECI_MAX_PAYLOAD_SIZE \<Longrightarrow> heci_send_proto_msg e ha fa lf data s \<noteq> None"
  by (cases "fst (host_access_req e s) < 0")
    (simp_all add: heci_send_proto_msg_def Let_def case_prod_unfold del: not_None_eq)

section \<open>The invariant\<close>

text \<open>What a client promises when it registers (and \<^verbatim>\<open>heci_register\<close> partly checks).\<close>

definition client_ok :: "(rx_ptr \<Rightarrow> heci_rx_msg) \<Rightarrow> heci_client \<Rightarrow> bool" where
  "client_ok h p \<longleftrightarrow>
     length (data4 (protocol_id p)) = 8 \<and>
     unat (num_of_threads p) \<le> length (thread_handle_list p) \<and>
     (case rx_msg p of
        None \<Rightarrow> False
      | Some q \<Rightarrow> (case rx_bytes (h q) of None \<Rightarrow> False | Some b \<Rightarrow> unat (rx_buffer_len p) \<le> length b))"

definition conn_count :: "heci_conn list \<Rightarrow> nat \<Rightarrow> nat" where
  "conn_count cns k = length (filter (\<lambda>c. state c \<noteq> 0 \<and> conn_client c = Some k) cns)"

definition slot_ok ::
    "(rx_ptr \<Rightarrow> heci_rx_msg) \<Rightarrow> nat \<Rightarrow> heci_conn list \<Rightarrow> nat \<Rightarrow> heci_client_ctrl \<Rightarrow> bool" where
  "slot_ok h n cns i cc \<longleftrightarrow>
     (if i < n then client_addr cc = of_nat (32 + i) \<and> client_ok h (properties cc)
      else client_addr cc = 0 \<and> properties cc = client_zero) \<and>
     unat (n_of_conns cc) = conn_count cns i \<and>
     n_of_conns cc \<le> max_n_of_connections (properties cc)"

text \<open>The states are unused, open, open with a message in progress, and the two closing ones.\<close>

definition conn_ok :: "heci_client_ctrl list \<Rightarrow> nat \<Rightarrow> nat \<Rightarrow> heci_conn \<Rightarrow> bool" where
  "conn_ok cs n i c \<longleftrightarrow>
     state c \<in> {0, 1, 3, 4, 20} \<and>
     (state c = 0 \<longrightarrow> rx_buffer c = None) \<and>
     (state c = 3 \<longrightarrow> rx_buffer c \<noteq> None) \<and>
     (state c \<noteq> 0 \<longrightarrow>
        host_addr c \<noteq> 0 \<and> connection_id c = of_nat i \<and> flow_ctrl_sem c = Some i \<and>
        (case conn_client c of
           None \<Rightarrow> False
         | Some k \<Rightarrow> k < n \<and> fw_addr c = of_nat (32 + k) \<and>
             (rx_buffer c \<noteq> None \<longrightarrow> rx_buffer c = rx_msg (properties (cs ! k)))))"

definition tables_ok :: "'a heci_state_scheme \<Rightarrow> bool" where
  "tables_ok s \<longleftrightarrow>
     length (clients s) = 8 \<and> length (connections s) = 8 \<and> length (flow_ctrl_sems s) = 8 \<and>
     registered_clients s \<le> 8 \<and> tx_pool_ok s \<and>
     (\<forall>i < 8. slot_ok (rx_heap s) (registered_clients s) (connections s) i (clients s ! i)) \<and>
     (\<forall>i < 8. conn_ok (clients s) (registered_clients s) i (connections s ! i))"

definition dev_ok :: "nat \<Rightarrow> 'a heci_state_scheme \<Rightarrow> bool" where
  "dev_ok d s \<longleftrightarrow> tables_ok s \<and> gate_idle (gate_view s) \<and> dev_lock s = d"

lemmas conn_state_nums = HECI_CONN_STATE_UNUSED_def
  HECI_CONN_STATE_OPEN_def [unfolded BIT_def, simplified]
  HECI_CONN_STATE_PROCESSING_MSG_def [unfolded BIT_def, simplified]
  HECI_CONN_STATE_DISCONNECTING_def [unfolded BIT_def, simplified]
  HECI_CONN_STATE_CONNECTION_REQUEST_def [unfolded BIT_def, simplified]
  HECI_CONN_STATE_SEND_DISCONNECT_RESP_def [unfolded BIT_def, simplified]

lemma dev_okD:
  assumes "dev_ok d s"
  shows "length (clients s) = 8" "length (connections s) = 8" "length (flow_ctrl_sems s) = 8"
    "registered_clients s \<le> 8" "tx_pool_ok s" "dev_lock s = d" "gate_idle (gate_view s)"
    "i < 8 \<Longrightarrow> slot_ok (rx_heap s) (registered_clients s) (connections s) i (clients s ! i)"
    "i < 8 \<Longrightarrow> conn_ok (clients s) (registered_clients s) i (connections s ! i)"
  using assms by (auto simp: dev_ok_def tables_ok_def)

lemma dev_ok_boot: "dev_ok 0 heci_boot"
  by (simp add: dev_ok_def tables_ok_def heci_boot_def slot_ok_def conn_ok_def conn_count_def
      client_ctrl_zero_def conn_zero_def client_zero_def heci_size_defs tx_pool_ok_def
      dma_info_zero_def gate_idle_def gate_view_def)

section \<open>Primitive updates\<close>

lemma dev_ok_frame:
  assumes "dev_ok d s" and "mng_state.more s' = mng_state.more s" and "gate_idle (gate_view s')"
  shows "dev_ok d s'"
  using assms more_fields [OF assms(2)] by (simp add: dev_ok_def tables_ok_def tx_pool_ok_def)

lemma dev_ok_io [simp]: "dev_ok d (s\<lparr>io := l\<rparr>) = dev_ok d s"
  by (simp add: dev_ok_def tables_ok_def tx_pool_ok_def)

lemma dev_ok_emit [simp]: "dev_ok d (emit ev s) = dev_ok d s"
  by (simp add: emit_def)

lemma dev_ok_notify_flag [simp]: "dev_ok d (s\<lparr>notify_new_clients := b\<rparr>) = dev_ok d s"
  by (simp add: dev_ok_def tables_ok_def tx_pool_ok_def gate_view_def)

lemma dev_ok_sems [simp]:
  "length xs = length (flow_ctrl_sems s) \<Longrightarrow> dev_ok d (s\<lparr>flow_ctrl_sems := xs\<rparr>) = dev_ok d s"
  by (simp add: dev_ok_def tables_ok_def tx_pool_ok_def gate_view_def)

lemma dev_ok_lock [simp]: "dev_ok (Suc d) (lock_dev s) = dev_ok d s"
  by (simp add: dev_ok_def tables_ok_def tx_pool_ok_def gate_view_def)

lemma dev_ok_unlock: "dev_ok (Suc d) s \<Longrightarrow> dev_ok d (unlock_dev s)"
  by (simp add: dev_ok_def tables_ok_def tx_pool_ok_def gate_view_def)

lemma dev_ok_notify [simp]: "dev_ok d (heci_notify_client c ev s) = dev_ok d s"
  by (simp add: heci_notify_client_def split: option.splits)

lemma length_filter_update:
  "i < length xs \<Longrightarrow>
     length (filter P (xs[i := y])) + of_bool (P (xs ! i)) = length (filter P xs) + of_bool (P y)"
proof (induction xs arbitrary: i)
  case Nil
  then show ?case by simp
next
  case (Cons x xs)
  then show ?case by (cases i) auto
qed

lemma conn_count_update:
  assumes "i < length cns"
  shows "conn_count (cns[i := c]) k + of_bool (state (cns ! i) \<noteq> 0 \<and> conn_client (cns ! i) = Some k)
         = conn_count cns k + of_bool (state c \<noteq> 0 \<and> conn_client c = Some k)"
  using length_filter_update [OF assms, of "\<lambda>c. state c \<noteq> 0 \<and> conn_client c = Some k" c]
  by (simp add: conn_count_def)

lemma conn_count_le: "conn_count cns k \<le> length cns"
  by (simp add: conn_count_def)

text \<open>Updating a connection without opening or closing it.\<close>

lemma dev_ok_upd_conn:
  assumes "dev_ok d s" and "i < 8"
    and "conn_ok (clients s) (registered_clients s) i (f (connections s ! i))"
    and "state (f (connections s ! i)) = 0 \<longleftrightarrow> state (connections s ! i) = 0"
    and "state (connections s ! i) \<noteq> 0 \<Longrightarrow>
           conn_client (f (connections s ! i)) = conn_client (connections s ! i)"
  shows "dev_ok d (upd_conn i f s)"
proof -
  have "conn_count ((connections s)[i := f (connections s ! i)]) k = conn_count (connections s) k" for k
    using conn_count_update [of i "connections s" "f (connections s ! i)" k] assms
    by (auto simp: dev_okD(2))
  then show ?thesis
    using assms(1-3) by (auto simp: dev_ok_def tables_ok_def tx_pool_ok_def gate_view_def upd_conn_def
        slot_ok_def nth_list_update)
qed

definition keeps_bytes :: "(heci_rx_msg \<Rightarrow> heci_rx_msg) \<Rightarrow> heci_rx_msg \<Rightarrow> bool" where
  "keeps_bytes f b \<longleftrightarrow> map_option length (rx_bytes (f b)) = map_option length (rx_bytes b)"

lemma client_ok_upd:
  assumes "keeps_bytes f (h p)"
  shows "client_ok (h(p := f (h p))) c = client_ok h c"
proof -
  have "rx_bytes (f (h p)) = None \<longleftrightarrow> rx_bytes (h p) = None"
    "\<And>x y. rx_bytes (f (h p)) = Some x \<Longrightarrow> rx_bytes (h p) = Some y \<Longrightarrow> length x = length y"
    using assms by (auto simp: keeps_bytes_def split: option.splits dest: arg_cong [of _ _ "\<lambda>x. x = None"])
  then show ?thesis
    by (auto simp: client_ok_def split: option.splits)
qed

lemma dev_ok_upd_rx [simp]:
  "keeps_bytes f (rx_heap s p) \<Longrightarrow> dev_ok d (upd_rx p f s) = dev_ok d s"
  by (simp add: dev_ok_def tables_ok_def tx_pool_ok_def gate_view_def upd_rx_def slot_ok_def client_ok_upd)

lemma conn_ok_cong:
  assumes "\<And>k. k < n \<Longrightarrow> rx_msg (properties (cs' ! k)) = rx_msg (properties (cs ! k))"
  shows "conn_ok cs' n i c = conn_ok cs n i c"
  using assms by (auto simp: conn_ok_def split: option.splits)

text \<open>Updating what a client slot says besides address, properties and count.\<close>

lemma dev_ok_active [simp]:
  assumes "dev_ok d s"
  shows "dev_ok d (upd_client i (\<lambda>c. c\<lparr>active := b\<rparr>) s)"
proof -
  let ?cs = "(clients s)[i := (clients s ! i)\<lparr>active := b\<rparr>]"
  have "?cs ! k = (if k = i \<and> i < length (clients s) then (clients s ! i)\<lparr>active := b\<rparr>
                   else clients s ! k)" for k
    by (metis linorder_not_less list_update_beyond nth_list_update)
  then have p: "properties (?cs ! k) = properties (clients s ! k)" "client_addr (?cs ! k) = client_addr (clients s ! k)"
    "n_of_conns (?cs ! k) = n_of_conns (clients s ! k)" for k
    by simp_all
  then have "conn_ok ?cs n k c = conn_ok (clients s) n k c" for n k c
    by (intro conn_ok_cong) simp
  with assms p show ?thesis
    by (simp add: dev_ok_def tables_ok_def tx_pool_ok_def gate_view_def upd_client_def slot_ok_def)
qed

text \<open>Views of the state through updates of other parts.\<close>

lemma upd_views [simp]:
  "connections (upd_rx p f s) = connections s" "clients (upd_rx p f s) = clients s"
  "registered_clients (upd_rx p f s) = registered_clients s"
  "flow_ctrl_sems (upd_rx p f s) = flow_ctrl_sems s"
  "clients (upd_conn i g s) = clients s" "rx_heap (upd_conn i g s) = rx_heap s"
  "registered_clients (upd_conn i g s) = registered_clients s"
  "flow_ctrl_sems (upd_conn i g s) = flow_ctrl_sems s"
  "connections (upd_client j k s) = connections s" "rx_heap (upd_client j k s) = rx_heap s"
  "registered_clients (upd_client j k s) = registered_clients s"
  "flow_ctrl_sems (upd_client j k s) = flow_ctrl_sems s"
  by (simp_all add: upd_rx_def upd_conn_def upd_client_def)

lemma upd_conn_same [simp]:
  "i < length (connections s) \<Longrightarrow> connections (upd_conn i g s) ! i = g (connections s ! i)"
  by (simp add: upd_conn_def)

lemma rx_heap_upd_rx [simp]: "rx_heap (upd_rx p f s) p = f (rx_heap s p)"
  by (simp add: upd_rx_def)

lemma keeps_bytes_simps [simp]:
  "keeps_bytes (\<lambda>b. b\<lparr>rx_locked := l\<rparr>) m"
  "keeps_bytes (\<lambda>b. b\<lparr>rx_length := n, rx_type := t, rx_locked := l\<rparr>) m"
  "keeps_bytes (\<lambda>b. b\<lparr>rx_length := n, rx_type := t, rx_connection_id := q\<rparr>) m"
  "keeps_bytes (\<lambda>b. b\<lparr>rx_type := t, rx_connection_id := q, rx_length := n\<rparr>) m"
  "keeps_bytes (\<lambda>b. b\<lparr>rx_type := t, rx_length := n, rx_connection_id := q, rx_locked := l\<rparr>) m"
  by (simp_all add: keeps_bytes_def)

end
