(* ===== verification/Heci_Safe.thy ===== *)
theory Heci_Safe
  imports Heci_Inv
begin

text \<open>
  Every operation of the HECI driver runs without undefined behaviour from a consistent
  device and leaves one: the host's messages through the doorbell, and the calls of
  registered clients that respect the contract of the interface.
\<close>

section \<open>Replies to the host\<close>

lemma proto_msg_frame:
  assumes "zephyr_env e" and "dev_ok d s" and "length data \<le> HECI_MAX_PAYLOAD_SIZE"
  shows "ok (heci_send_proto_msg e ha fa lf data s)
    (\<lambda>(b, s'). dev_ok d s' \<and> mng_state.more s' = mng_state.more s)"
proof -
  obtain b s' where r: "heci_send_proto_msg e ha fa lf data s = Some (b, s')"
    using proto_msg_defined [OF assms(3)] by fastforce
  obtain body where body: "\<And>t. gate_view (body t) = gate_view t" "s' = access_gate.guarded e body s"
    using heci_send_proto_msg_guarded [OF r] by blast
  have "gate_idle (gate_view s')"
    using access_gate.guarded_idle [OF assms(1) dev_okD(7) [OF assms(2)], of body] body by simp
  then show ?thesis
    using dev_ok_frame [OF assms(2) proto_msg_more [OF r]] proto_msg_more [OF r] by (simp add: r)
qed

lemma send_bus_frame:
  assumes "zephyr_env e" and "dev_ok d s" and "length data \<le> HECI_MAX_PAYLOAD_SIZE"
  shows "ok (send_bus e data s) (\<lambda>s'. dev_ok d s' \<and> mng_state.more s' = mng_state.more s)"
  using proto_msg_frame [OF assms, of HECI_DRIVER_ADDRESS HECI_DRIVER_ADDRESS True]
  by (auto simp: send_bus_def ok_iff)

lemma send_bus_ok:
  assumes "zephyr_env e" and "dev_ok d s" and "length data \<le> HECI_MAX_PAYLOAD_SIZE"
  shows "ok (send_bus e data s) (dev_ok d)"
  using send_bus_frame [OF assms] by (rule ok_mono) simp

lemma reply_small [simp]:
  "4 \<le> HECI_MAX_PAYLOAD_SIZE" "8 \<le> HECI_MAX_PAYLOAD_SIZE" "32 \<le> HECI_MAX_PAYLOAD_SIZE"
  "36 \<le> HECI_MAX_PAYLOAD_SIZE"
  by (simp_all add: heci_size_defs)

section \<open>Looking connections up\<close>

lemma heci_find_conn_SomeD:
  assumes "dev_ok d s" and "heci_find_conn fa ha st s = Some i"
  shows "i < 8" "state (connections s ! i) AND st \<noteq> 0" "fw_addr (connections s ! i) = fa"
    "host_addr (connections s ! i) = ha"
  using find_idx_SomeD [OF assms(2) [unfolded heci_find_conn_def]] dev_okD(2) [OF assms(1)] by auto

lemma conn_open_cases:
  assumes "conn_ok cs n i c" and "state c AND HECI_CONN_STATE_OPEN \<noteq> 0"
  shows "state c = 1 \<or> state c = 3"
  using assms by (auto simp: conn_ok_def conn_state_nums)

lemma conn_ok_used:
  assumes "conn_ok cs n i c" and "state c \<noteq> 0"
  obtains k where "conn_client c = Some k" "k < n" "flow_ctrl_sem c = Some i"
    "connection_id c = of_nat i" "fw_addr c = of_nat (32 + k)"
    "\<And>p. rx_buffer c = Some p \<Longrightarrow> rx_msg (properties (cs ! k)) = Some p"
  using assms by (force simp: conn_ok_def split: option.splits)

lemma conn_ok_set_state:
  assumes "conn_ok cs n i c" and "state c \<noteq> 0" and "st \<in> {1, 4, 20}"
  shows "conn_ok cs n i (c\<lparr>state := st\<rparr>)"
  using assms by (auto simp: conn_ok_def split: option.splits)

lemma dev_ok_set_state:
  assumes "dev_ok d s" and "i < 8" and "state (connections s ! i) \<noteq> 0" and "st \<in> {1, 4, 20}"
  shows "dev_ok d (upd_conn i (\<lambda>c. c\<lparr>state := st\<rparr>) s)"
  using assms conn_ok_set_state [OF dev_okD(9) [OF assms(1,2)] assms(3,4)]
  by (intro dev_ok_upd_conn) auto

lemma dev_ok_end_processing:
  assumes "dev_ok d s" and "i < 8"
  shows "dev_ok d (upd_conn i (\<lambda>c. c\<lparr>state := state c AND NOT HECI_CONN_STATE_PROCESSING_MSG\<rparr>) s)"
proof -
  have "state (connections s ! i) AND NOT 2 = (if state (connections s ! i) = 3 then 1 else state (connections s ! i))"
    using dev_okD(9) [OF assms] by (auto simp: conn_ok_def)
  then show ?thesis
    using assms dev_okD(9) [OF assms]
    by (intro dev_ok_upd_conn) (auto simp: conn_state_nums conn_ok_def split: option.splits)
qed

lemma dev_ok_conn_field:
  assumes "dev_ok d s" and "i < 8"
  shows "dev_ok d (upd_conn i (\<lambda>c. c\<lparr>host_buffers := f c\<rparr>) s)"
    and "dev_ok d (upd_conn i (\<lambda>c. c\<lparr>wait_thread_count := g c\<rparr>) s)"
  using assms dev_okD(9) [OF assms] by (auto intro!: dev_ok_upd_conn simp: conn_ok_def split: option.splits)

section \<open>Opening and closing\<close>

lemma dev_ok_open:
  assumes dev: "dev_ok d s" and j: "j < 8" "state (connections s ! j) = 0"
    and k: "k < registered_clients s" "n_of_conns (clients s ! k) \<noteq> max_n_of_connections (properties (clients s ! k))"
    and p: "rx_msg (properties (clients s ! k)) = Some p"
    and a: "host_addr (g (connections s ! j)) \<noteq> 0" "fw_addr (g (connections s ! j)) = of_nat (32 + k)"
    and g: "conn_client (g (connections s ! j)) = Some k" "state (g (connections s ! j)) = 1"
      "flow_ctrl_sem (g (connections s ! j)) = Some j" "connection_id (g (connections s ! j)) = of_nat j"
      "rx_buffer (g (connections s ! j)) = Some p"
  shows "dev_ok d (upd_conn j g (upd_client k (\<lambda>c. c\<lparr>n_of_conns := n_of_conns c + 1\<rparr>) s))"
proof -
  let ?c = "g (connections s ! j)"
  let ?cs = "(clients s)[k := (clients s ! k)\<lparr>n_of_conns := n_of_conns (clients s ! k) + 1\<rparr>]"
  note d = dev_okD [OF dev]
  have k8: "k < 8" using k(1) d(4) by simp
  have lt: "n_of_conns (clients s ! k) < max_n_of_connections (properties (clients s ! k))"
    using d(8) [OF k8] k(2) by (auto simp: slot_ok_def)
  then have inc: "unat (n_of_conns (clients s ! k) + 1) = unat (n_of_conns (clients s ! k)) + 1"
    "n_of_conns (clients s ! k) + 1 \<le> max_n_of_connections (properties (clients s ! k))"
    using unat_u8_less [of "max_n_of_connections (properties (clients s ! k))"]
    by (simp_all add: word_less_nat_alt word_le_nat_alt unat_word_ariths)
  have cnt: "conn_count ((connections s)[j := ?c]) i = conn_count (connections s) i + of_bool (i = k)" for i
    using conn_count_update [of j "connections s" ?c i] d(2) j g by auto
  have cs: "properties (?cs ! i) = properties (clients s ! i)" "client_addr (?cs ! i) = client_addr (clients s ! i)"
    "n_of_conns (?cs ! i) = n_of_conns (clients s ! i) + of_bool (i = k)" for i
    using d(1) k8 by (auto simp: nth_list_update)
  have "slot_ok (rx_heap s) (registered_clients s) ((connections s)[j := ?c]) i (?cs ! i)" if "i < 8" for i
    using d(8) [OF that] inc by (auto simp: slot_ok_def cs cnt)
  moreover have "conn_ok ?cs (registered_clients s) i ((connections s)[j := ?c] ! i)" if "i < 8" for i
  proof (cases "i = j")
    case True
    then show ?thesis using a g k(1) p d(2) j by (simp add: conn_ok_def cs)
  next
    case False
    then show ?thesis using d(9) [OF that] conn_ok_cong [of "registered_clients s" ?cs "clients s"] cs by simp
  qed
  ultimately show ?thesis
    using dev by (simp add: dev_ok_def tables_ok_def tx_pool_ok_def gate_view_def upd_conn_def upd_client_def)
qed

lemma dev_ok_close:
  assumes dev: "dev_ok d s" and j: "j < 8" "state (connections s ! j) \<noteq> 0"
    and k: "conn_client (connections s ! j) = Some k"
  shows "dev_ok d (upd_conn j (\<lambda>_. conn_zero) (upd_client k (\<lambda>c. c\<lparr>n_of_conns := n_of_conns c - 1\<rparr>) s))"
proof -
  let ?cs = "(clients s)[k := (clients s ! k)\<lparr>n_of_conns := n_of_conns (clients s ! k) - 1\<rparr>]"
  note d = dev_okD [OF dev]
  have k8: "k < 8" using conn_ok_used [OF d(9) [OF j(1)] j(2)] k d(4) by force
  have cnt: "conn_count ((connections s)[j := conn_zero]) i + of_bool (i = k) = conn_count (connections s) i" for i
    using conn_count_update [of j "connections s" conn_zero i] d(2) j k by (auto simp: conn_zero_def)
  have pos: "0 < unat (n_of_conns (clients s ! k))"
    using cnt [of k] d(8) [OF k8] by (simp add: slot_ok_def)
  then have dec: "unat (n_of_conns (clients s ! k) - 1) = unat (n_of_conns (clients s ! k)) - 1"
    "n_of_conns (clients s ! k) - 1 \<le> n_of_conns (clients s ! k)"
    by (simp_all add: unat_gt_0 unat_minus_one word_le_nat_alt)
  have cs: "properties (?cs ! i) = properties (clients s ! i)" "client_addr (?cs ! i) = client_addr (clients s ! i)"
    "n_of_conns (?cs ! i) = n_of_conns (clients s ! i) - of_bool (i = k)" for i
    using d(1) k8 by (auto simp: nth_list_update)
  have "slot_ok (rx_heap s) (registered_clients s) ((connections s)[j := conn_zero]) i (?cs ! i)" if "i < 8" for i
    using d(8) [OF that] dec cnt [of i] by (auto simp: slot_ok_def cs)
  moreover have "conn_ok ?cs (registered_clients s) i ((connections s)[j := conn_zero] ! i)" if "i < 8" for i
  proof (cases "i = j")
    case True
    then show ?thesis using d(2) j by (simp add: conn_ok_def conn_zero_def)
  next
    case False
    then show ?thesis using d(9) [OF that] conn_ok_cong [of "registered_clients s" ?cs "clients s"] cs by simp
  qed
  ultimately show ?thesis
    using dev by (simp add: dev_ok_def tables_ok_def tx_pool_ok_def gate_view_def upd_conn_def upd_client_def)
qed

text \<open>Clients are registered in the order of the table, so the first free slot is the next one.\<close>

lemma first_free_slot:
  assumes "dev_ok d s" and "find_idx (\<lambda>c. client_addr c = 0) (clients s) = Some i"
  shows "i = registered_clients s" "i < 8"
proof -
  note f = find_idx_SomeD [OF assms(2)] and d = dev_okD [OF assms(1)]
  show i8: "i < 8" using f(1) d(1) by simp
  have addr: "client_addr (clients s ! j) = (if j < registered_clients s then of_nat (32 + j) else 0)" if "j < 8" for j
    using d(8) [OF that] by (auto simp: slot_ok_def)
  have nz: "(of_nat (32 + j) :: u8) \<noteq> 0" if "j < 8" for j
    using that by (auto simp: word_of_nat_eq_0_iff simp del: of_nat_add dest: dvd_imp_le)
  show "i = registered_clients s"
    using addr [OF i8] f(2) nz [OF i8] f(3) [of "registered_clients s"] addr [of "registered_clients s"] i8
    by (cases "i < registered_clients s"; cases "registered_clients s < i") auto
qed

lemma dev_ok_register:
  assumes dev: "dev_ok d s" and i: "i = registered_clients s" "i < 8"
    and cl: "client_ok (rx_heap s) cl"
    and cc: "cc = \<lparr>client_addr = of_nat (i + HECI_FIXED_CLIENT_NUM), n_of_conns = 0, active = b, properties = cl\<rparr>"
  shows "dev_ok d (upd_client i (\<lambda>_. cc) (s\<lparr>registered_clients := registered_clients s + 1\<rparr>))"
proof -
  let ?cs = "(clients s)[i := cc]"
  note d = dev_okD [OF dev]
  have "conn_count (connections s) i = 0"
    using d(8) [OF i(2)] i(1) by (auto simp: slot_ok_def client_zero_def)
  then have "slot_ok (rx_heap s) (registered_clients s + 1) (connections s) j (?cs ! j)" if "j < 8" for j
    using d(8) [OF that] i d(1) cl
    by (auto simp: slot_ok_def nth_list_update cc HECI_FIXED_CLIENT_NUM_def algebra_simps split: if_splits)
  moreover have "conn_ok ?cs (registered_clients s + 1) j (connections s ! j)" if "j < 8" for j
  proof -
    have "conn_ok ?cs (registered_clients s) j (connections s ! j)"
      using d(9) [OF that] conn_ok_cong [of "registered_clients s" ?cs "clients s"] i(1) by simp
    then show ?thesis by (auto simp: conn_ok_def split: option.splits)
  qed
  ultimately show ?thesis
    using dev i by (simp add: dev_ok_def tables_ok_def tx_pool_ok_def gate_view_def upd_client_def)
qed

section \<open>Messages of the host\<close>

lemma heci_version_resp_ok:
  "zephyr_env e \<Longrightarrow> dev_ok d s \<Longrightarrow> ok (heci_version_resp e msg s) (dev_ok d)"
  by (simp add: heci_version_resp_def Let_def send_bus_ok)

lemma dev_ok_reset_conn:
  assumes "dev_ok d s" and "i < 8"
  shows "dev_ok d (reset_conn i s)"
  using assms dev_ok_set_state [OF assms, of 4] conn_open_cases [OF dev_okD(9) [OF assms]]
  by (cases "state (connections s ! i) = 0")
    (auto simp: reset_conn_def heci_connection_reset_def conn_at_def Let_def conn_state_nums)

lemma dev_ok_reset_conns:
  "dev_ok d s \<Longrightarrow> \<forall>i \<in> set is. i < 8 \<Longrightarrow> dev_ok d (fold reset_conn is s)"
  by (induction "is" arbitrary: s) (auto intro: dev_ok_reset_conn)

lemma heci_reset_ok: "dev_ok d s \<Longrightarrow> dev_ok d (heci_reset s)"
  using dev_ok_unlock [OF dev_ok_reset_conns, of d "lock_dev s" "[0..<8]"]
  by (simp add: heci_reset_def HECI_MAX_NUM_OF_CONNECTIONS_def HECI_MAX_NUM_OF_CLIENTS_def)

lemma heci_stop_resp_ok:
  "zephyr_env e \<Longrightarrow> dev_ok d s \<Longrightarrow> ok (heci_stop_resp e msg s) (dev_ok d)"
  by (simp add: heci_stop_resp_def send_bus_ok heci_reset_ok)

text \<open>The enumeration reports exactly the addresses of the clients it visits, and activates them.\<close>

lemma enum_clients_spec:
  assumes "i + n \<le> length cs" and "length addrs = 8"
  shows "\<exists>addrs' cs'. enum_clients i n addrs cs = Some (addrs', cs') \<and> length addrs' = 8
     \<and> length cs' = length cs
     \<and> (\<forall>k. cs' ! k = (if i \<le> k \<and> k < i + n then (cs ! k)\<lparr>active := True\<rparr> else cs ! k))
     \<and> (\<forall>a < 256. bit (addrs' ! (a div 32)) (a mod 32) \<longleftrightarrow>
          bit (addrs ! (a div 32)) (a mod 32) \<or> (\<exists>k. i \<le> k \<and> k < i + n \<and> unat (client_addr (cs ! k)) = a))"
  using assms
proof (induction n arbitrary: i addrs cs)
  case 0
  then show ?case by auto
next
  case (Suc n)
  let ?a = "unat (client_addr (cs ! i))"
  let ?addrs = "addrs[?a div 32 := addrs ! (?a div 32) OR BIT (?a mod 32)]"
  let ?cs = "cs[i := (cs ! i)\<lparr>active := True\<rparr>]"
  have a: "?a < 256" using unat_u8_less [of "client_addr (cs ! i)"] by simp
  have bits: "bit (?addrs ! (b div 32)) (b mod 32) \<longleftrightarrow> bit (addrs ! (b div 32)) (b mod 32) \<or> b = ?a"
    if "b < 256" for b
  proof (cases "b div 32 = ?a div 32")
    case True
    then have "b mod 32 = ?a mod 32 \<longleftrightarrow> b = ?a" by (metis div_mult_mod_eq)
    with True that Suc.prems(2) show ?thesis by (auto simp: bit_or_iff)
  next
    case False
    then show ?thesis by auto
  qed
  have "i + 1 + n \<le> length ?cs" "length ?addrs = 8" using Suc.prems by simp_all
  from Suc.IH [OF this] obtain addrs' cs' where r:
    "enum_clients (i + 1) n ?addrs ?cs = Some (addrs', cs')" "length addrs' = 8" "length cs' = length ?cs"
    "\<And>k. cs' ! k = (if i + 1 \<le> k \<and> k < i + 1 + n then (?cs ! k)\<lparr>active := True\<rparr> else ?cs ! k)"
    "\<And>b. b < 256 \<Longrightarrow> bit (addrs' ! (b div 32)) (b mod 32) \<longleftrightarrow> bit (?addrs ! (b div 32)) (b mod 32)
        \<or> (\<exists>k. i + 1 \<le> k \<and> k < i + 1 + n \<and> unat (client_addr (?cs ! k)) = b)"
    by blast
  have "enum_clients i (Suc n) addrs cs = Some (addrs', cs')"
    using r(1) Suc.prems by (simp add: Let_def BITS_PER_DW_def)
  moreover have "cs' ! k = (if i \<le> k \<and> k < i + Suc n then (cs ! k)\<lparr>active := True\<rparr> else cs ! k)" for k
    using r(4) [of k] Suc.prems by (auto simp: nth_list_update)
  moreover have "(\<exists>k. i + 1 \<le> k \<and> k < i + 1 + n \<and> unat (client_addr (?cs ! k)) = b) \<or> b = ?a \<longleftrightarrow>
      (\<exists>k. i \<le> k \<and> k < i + Suc n \<and> unat (client_addr (cs ! k)) = b)" for b
  proof -
    have *: "client_addr (?cs ! k) = client_addr (cs ! k)"
        "i \<le> k \<and> k < i + Suc n \<longleftrightarrow> k = i \<or> i + 1 \<le> k \<and> k < i + 1 + n" for k
      using Suc.prems by (auto simp: nth_list_update)
    show ?thesis by (simp only: * conj_assoc [symmetric]) blast
  qed
  ultimately show ?case using r(2,3,5) bits by auto
qed

lemma dev_ok_activated:
  assumes "dev_ok d s" and "length cs' = length (clients s)"
    and "\<And>k. \<exists>b. cs' ! k = (clients s ! k)\<lparr>active := b\<rparr>"
  shows "dev_ok d (s\<lparr>clients := cs'\<rparr>)"
proof -
  have p: "properties (cs' ! k) = properties (clients s ! k)" "client_addr (cs' ! k) = client_addr (clients s ! k)"
    "n_of_conns (cs' ! k) = n_of_conns (clients s ! k)" for k
    using assms(3) [of k] by auto
  then have "conn_ok cs' n k c = conn_ok (clients s) n k c" for n k c
    by (intro conn_ok_cong) simp
  with assms(1,2) p show ?thesis
    by (simp add: dev_ok_def tables_ok_def tx_pool_ok_def gate_view_def slot_ok_def)
qed

lemma heci_enum_resp_ok:
  assumes "zephyr_env e" and "dev_ok d s"
  shows "ok (heci_enum_resp e msg s) (dev_ok d)"
proof -
  obtain addrs cs where r: "enum_clients 0 (registered_clients s) (replicate 8 0) (clients s) = Some (addrs, cs)"
      "length addrs = 8" "length cs = length (clients s)"
      "\<And>k. cs ! k = (if k < registered_clients s then (clients s ! k)\<lparr>active := True\<rparr> else clients s ! k)"
    using enum_clients_spec [of 0 "registered_clients s" "clients s" "replicate 8 0"] dev_okD(1,4) [OF assms(2)]
    by auto
  have "\<exists>b. cs ! k = (clients s ! k)\<lparr>active := b\<rparr>" for k
    using r(4) [of k] by (cases "k < registered_clients s") (auto intro: exI [of _ "active (clients s ! k)"])
  then have "dev_ok d (s\<lparr>clients := cs\<rparr>)"
    by (intro dev_ok_activated [OF assms(2) r(3)])
  from send_bus_ok [OF assms(1) this] show ?thesis
    using assms(2) by (simp add: heci_enum_resp_def Let_def r(1,2) ok_bind if_distrib [of "dev_ok d"] cong: if_cong)
qed

lemma client_prop_answer_guid:
  assumes "dev_ok d s"
  shows "length (data4 (pr_protocol_id (client_prop_answer a s))) = 8"
proof (cases "find_idx (\<lambda>c. client_addr c = a) (clients s)")
  case None
  then show ?thesis by (simp add: client_prop_answer_def guid_zero_def)
next
  case (Some i)
  then show ?thesis
    using dev_okD(8) [OF assms, of i] find_idx_SomeD(1) [OF Some] dev_okD(1) [OF assms]
    by (auto simp: client_prop_answer_def Let_def slot_ok_def client_ok_def client_zero_def guid_zero_def
        split: if_splits)
qed

lemma heci_client_prop_ok:
  "zephyr_env e \<Longrightarrow> dev_ok d s \<Longrightarrow> ok (heci_client_prop e msg s) (dev_ok d)"
  using client_prop_answer_guid [of d s]
  by (auto simp: heci_client_prop_def intro!: send_bus_ok)

lemma grant_threads_ok:
  "dev_ok d s \<Longrightarrow> unat (num_of_threads p) \<le> length (thread_handle_list p) \<Longrightarrow>
     ok (grant_threads e p s) (\<lambda>s'. \<exists>l. s' = s\<lparr>io := l\<rparr> \<and> dev_ok d s')"
  by (auto simp: grant_threads_def intro: exI [of _ "io s"])

lemma client_of_slot:
  assumes "dev_ok d s" and "k < registered_clients s"
  shows "client_ok (rx_heap s) (properties (clients s ! k))"
  using dev_okD(8) [OF assms(1), of k] dev_okD(4) [OF assms(1)] assms(2) by (simp add: slot_ok_def)

lemma get_buffer_ok:
  assumes "dev_ok d s" and "k < registered_clients s"
  obtains p where "rx_msg (properties (clients s ! k)) = Some p"
    and "heci_get_buffer_from_pool (Some k) s =
           Some (if rx_locked (rx_heap s p) then (None, s)
                 else (Some p, upd_rx p (\<lambda>b. b\<lparr>rx_locked := True\<rparr>) s))"
  using client_of_slot [OF assms]
  by (auto simp: client_ok_def heci_get_buffer_from_pool_def split: option.splits)

lemma upd_conn_upd_conn [simp]:
  "i < length (connections s) \<Longrightarrow> upd_conn i g (upd_conn i f s) = upd_conn i (g \<circ> f) s"
  by (simp add: upd_conn_def)

lemma upd_client_upd_conn:
  "upd_client k f (upd_conn i g s) = upd_conn i g (upd_client k f s)"
  by (simp add: upd_conn_def upd_client_def)

lemma connect_open_ok:
  assumes "zephyr_env e" and dev: "dev_ok d s" and j: "j < 8" "state (connections s ! j) = 0"
      "connection_id (connections s ! j) = of_nat j"
    and k: "k < registered_clients s"
      "n_of_conns (clients s ! k) \<noteq> max_n_of_connections (properties (clients s ! k))"
    and req: "cq_host_addr req \<noteq> 0" "cq_fw_addr req = of_nat (32 + k)"
  shows "ok (connect_open e req k j s) (\<lambda>(st, s'). dev_ok d s')"
proof -
  obtain p where p: "rx_msg (properties (clients s ! k)) = Some p"
    and gb: "heci_get_buffer_from_pool (Some k) s =
           Some (if rx_locked (rx_heap s p) then (None, s)
                 else (Some p, upd_rx p (\<lambda>b. b\<lparr>rx_locked := True\<rparr>) s))"
    using get_buffer_ok [OF dev k(1)] .
  note d = dev_okD [OF dev]
  show ?thesis
  proof (cases "rx_locked (rx_heap s p)")
    case True
    have "dev_ok d (upd_conn j (\<lambda>c. c\<lparr>rx_buffer := None\<rparr>) s)"
      using dev j d(9) [of j] by (intro dev_ok_upd_conn) (auto simp: conn_ok_def)
    with True show ?thesis by (simp add: connect_open_def gb Let_def)
  next
    case False
    define s1 where "s1 = upd_rx p (\<lambda>b. b\<lparr>rx_locked := True\<rparr>) s"
    define props where "props = properties (clients s ! k)"
    define g where "g = (\<lambda>c :: heci_conn. c\<lparr>conn_client := Some k, wait_thread_count := 0,
                      host_addr := cq_host_addr req, fw_addr := cq_fw_addr req,
                      state := HECI_CONN_STATE_OPEN, flow_ctrl_sem := Some j,
                      conn_event_cb := event_cb props, conn_param := param props\<rparr>)"
    define s4 where "s4 = upd_conn j (g \<circ> (\<lambda>c. c\<lparr>rx_buffer := Some p\<rparr>))
        (upd_client k (\<lambda>c. c\<lparr>n_of_conns := n_of_conns c + 1\<rparr>) s1)"
    have s1: "dev_ok d s1" "connections s1 = connections s" "clients s1 = clients s"
      "registered_clients s1 = registered_clients s"
      using dev by (simp_all add: s1_def)
    have "dev_ok d s4"
      unfolding s4_def using s1 j k p req
      by (intro dev_ok_open [where p = p]) (simp_all add: g_def conn_state_nums)
    moreover have sems: "flow_ctrl_sems s4 = flow_ctrl_sems s1" by (simp add: s4_def)
    ultimately have s5: "dev_ok d (s4\<lparr>flow_ctrl_sems := (flow_ctrl_sems s1)[j := 0]\<rparr>)" by simp
    have k8: "k < length (clients s)" using k(1) d(1,4) by simp
    have eq: "upd_conn j g (upd_client k (\<lambda>c. c\<lparr>n_of_conns := n_of_conns c + 1\<rparr>)
        (upd_conn j (\<lambda>c. c\<lparr>rx_buffer := Some p\<rparr>) s1)) = s4"
      using d(2) j(1) s1(2) by (simp add: s4_def upd_client_upd_conn)
    have pr: "properties (clients (upd_client k (\<lambda>c. c\<lparr>n_of_conns := n_of_conns c + 1\<rparr>) t) ! k) = props"
      if "clients t = clients s" for t :: "'a heci_state_scheme"
      using k8 that by (simp add: upd_client_def props_def)
    have "unat (num_of_threads props) \<le> length (thread_handle_list props)"
      using client_of_slot [OF dev k(1)] by (simp add: client_ok_def props_def)
    from grant_threads_ok [OF s5 this, of e] show ?thesis
      using False
      by (auto simp: connect_open_def gb Let_def ok_bind pr s1(3) eq ok_iff simp flip: s1_def g_def)
  qed
qed

lemma used_slot:
  assumes "dev_ok d s" and "find_idx (\<lambda>c. client_addr c = a) (clients s) = Some k"
    and "n_of_conns (clients s ! k) \<noteq> max_n_of_connections (properties (clients s ! k))"
  shows "k < registered_clients s" "a = of_nat (32 + k)"
  using find_idx_SomeD(1,2) [OF assms(2)] dev_okD(1) [OF assms(1)] dev_okD(8) [OF assms(1), of k] assms(3)
  by (auto simp: slot_ok_def client_zero_def split: if_splits)

lemma connect_try_ok:
  assumes "zephyr_env e" and dev: "dev_ok d s"
  shows "ok (connect_try e req s) (\<lambda>(st, s'). dev_ok d s')"
proof -
  have "ok (connect_open e req k j (upd_conn j (\<lambda>c. c\<lparr>connection_id := of_nat j\<rparr>) s)) (\<lambda>(st, s'). dev_ok d s')"
    if k: "find_idx (\<lambda>c. client_addr c = cq_fw_addr req) (clients s) = Some k" "cq_host_addr req \<noteq> 0"
      "n_of_conns (clients s ! k) \<noteq> max_n_of_connections (properties (clients s ! k))"
      and j: "find_idx (\<lambda>c. state c = HECI_CONN_STATE_UNUSED) (connections s) = Some j" for k j
  proof (rule connect_open_ok [OF assms(1)])
    have j8: "j < 8" "j < length (connections s)" "state (connections s ! j) = 0"
      using find_idx_SomeD(1,2) [OF j] dev_okD(2) [OF dev] by (auto simp: conn_state_nums)
    show "dev_ok d (upd_conn j (\<lambda>c. c\<lparr>connection_id := of_nat j\<rparr>) s)"
      using dev j8 dev_okD(9) [OF dev j8(1)] by (intro dev_ok_upd_conn) (auto simp: conn_ok_def)
    show "j < 8" "state (connections (upd_conn j (\<lambda>c. c\<lparr>connection_id := of_nat j\<rparr>) s) ! j) = 0"
      "connection_id (connections (upd_conn j (\<lambda>c. c\<lparr>connection_id := of_nat j\<rparr>) s) ! j) = of_nat j"
      using j8 by simp_all
  qed (use k used_slot [OF dev k(1,3)] in simp_all)
  then show ?thesis
    using dev by (auto simp: connect_try_def Let_def split: option.splits)
qed

lemma heci_connect_host_ok:
  assumes "zephyr_env e" and "dev_ok d s"
  shows "ok (heci_connect_host e msg s) (dev_ok d)"
  using assms connect_try_ok [OF assms, of "dec_conn_req (payload msg)"]
  by (auto simp: heci_connect_host_def Let_def ok_bind elim!: ok_mono intro: send_bus_ok)

lemma heci_disconnect_ok:
  assumes "zephyr_env e" and dev: "dev_ok d s"
  shows "ok (heci_disconnect e msg s) (dev_ok d)"
proof -
  have "dev_ok d (upd_conn i (\<lambda>c. c\<lparr>state := 20\<rparr>) s)"
    if "heci_find_conn fa ha (HECI_CONN_STATE_OPEN OR HECI_CONN_STATE_CONNECTION_REQUEST) s = Some i" for fa ha i
    using heci_find_conn_SomeD(1,2) [OF dev that] by (intro dev_ok_set_state [OF dev]) auto
  then show ?thesis
    using assms by (auto simp: heci_disconnect_def Let_def conn_state_nums intro!: send_bus_ok split: option.splits)
qed

lemma heci_wakeup_sender_ok:
  assumes "dev_ok d s" and "i < 8" and "state (connections s ! i) \<noteq> 0"
  shows "ok (heci_wakeup_sender e i n s) (dev_ok d)"
proof -
  have "flow_ctrl_sem (connections s ! i) = Some i"
    using conn_ok_used [OF dev_okD(9) [OF assms(1,2)] assms(3)] .
  then show ?thesis
    using assms(1) by (simp add: heci_wakeup_sender_def conn_at_def)
qed

lemma heci_flow_control_recv_ok:
  assumes dev: "dev_ok d s"
  shows "ok (heci_flow_control_recv e msg s) (dev_ok d)"
proof -
  have "ok (heci_wakeup_sender e i n (upd_conn i (\<lambda>c. c\<lparr>host_buffers := f c\<rparr>) s)) (dev_ok d)"
    if "heci_find_conn fa ha HECI_CONN_STATE_OPEN s = Some i" for fa ha i f n
    using heci_find_conn_SomeD(1,2) [OF dev that] dev_okD(2) [OF dev]
    by (intro heci_wakeup_sender_ok dev_ok_conn_field dev) auto
  then show ?thesis
    using dev by (auto simp: heci_flow_control_recv_def Let_def split: option.splits)
qed

lemma heci_reset_resp_ok:
  assumes "zephyr_env e" and dev: "dev_ok d s"
  shows "ok (heci_reset_resp e msg s) (dev_ok d)"
proof -
  have "dev_ok d (upd_conn i (\<lambda>c. c\<lparr>host_buffers := 0\<rparr>) s)"
    if "heci_find_conn fa ha HECI_CONN_STATE_OPEN s = Some i" for fa ha i
    using heci_find_conn_SomeD(1) [OF dev that] by (intro dev_ok_conn_field dev)
  then show ?thesis
    using assms by (auto simp: heci_reset_resp_def Let_def intro!: send_bus_ok split: option.splits)
qed

lemma heci_add_client_resp_ok: "dev_ok d s \<Longrightarrow> ok (heci_add_client_resp msg s) (dev_ok d)"
  by (auto simp: heci_add_client_resp_def Let_def split: option.splits)

section \<open>Client messages\<close>

lemma dev_ok_start_processing:
  assumes dev: "dev_ok d s" and i: "i < 8" "state (connections s ! i) = 1"
    and k: "conn_client (connections s ! i) = Some k" "rx_msg (properties (clients s ! k)) = Some p"
  shows "dev_ok d (upd_conn i (\<lambda>c. c\<lparr>rx_buffer := Some p, state := state c OR HECI_CONN_STATE_PROCESSING_MSG\<rparr>) s)"
  using dev i k dev_okD(9) [OF dev i(1)]
  by (intro dev_ok_upd_conn) (auto simp: conn_ok_def conn_state_nums)

lemma heci_find_active_conn_ok:
  assumes dev: "dev_ok d s"
  shows "ok (heci_find_active_conn fa ha s) (\<lambda>(r, s'). dev_ok d s' \<and>
     (case r of None \<Rightarrow> True | Some i \<Rightarrow> i < 8 \<and> state (connections s' ! i) = 3))"
proof (cases "heci_find_conn fa ha (HECI_CONN_STATE_OPEN OR HECI_CONN_STATE_PROCESSING_MSG) s")
  case None
  then show ?thesis using dev by (simp add: heci_find_active_conn_def)
next
  case (Some i)
  note d = dev_okD [OF dev]
  have i: "i < 8" "state (connections s ! i) = 1 \<or> state (connections s ! i) = 3" "i < length (connections s)"
    using heci_find_conn_SomeD(1,2) [OF dev Some] d(9) [of i] d(2) by (auto simp: conn_ok_def conn_state_nums)
  show ?thesis
  proof (cases "state (connections s ! i) = 3")
    case True
    then show ?thesis
      using dev i Some by (simp add: heci_find_active_conn_def conn_at_def conn_state_nums)
  next
    case False
    with i have one: "state (connections s ! i) = 1" by simp
    then obtain k where k: "conn_client (connections s ! i) = Some k" "k < registered_clients s"
      using conn_ok_used [OF d(9) [OF i(1)]] by (metis zero_neq_one)
    obtain p where p: "rx_msg (properties (clients s ! k)) = Some p"
      and gb: "heci_get_buffer_from_pool (Some k) s =
           Some (if rx_locked (rx_heap s p) then (None, s)
                 else (Some p, upd_rx p (\<lambda>b. b\<lparr>rx_locked := True\<rparr>) s))"
      using get_buffer_ok [OF dev k(2)] .
    have "dev_ok d (upd_conn i (\<lambda>c. c\<lparr>rx_buffer := None\<rparr>) s)"
      using dev i one d(9) [OF i(1)] by (intro dev_ok_upd_conn) (auto simp: conn_ok_def split: option.splits)
    moreover have "dev_ok d (upd_conn i (\<lambda>c. c\<lparr>rx_buffer := Some p, state := state c OR HECI_CONN_STATE_PROCESSING_MSG\<rparr>)
        (upd_rx p (\<lambda>b. b\<lparr>rx_locked := True\<rparr>) s))"
      using dev i one k p by (intro dev_ok_start_processing) simp_all
    ultimately show ?thesis
      using one i Some
      by (auto simp: heci_find_active_conn_def conn_at_def conn_state_nums k gb Let_def comp_def)
  qed
qed

lemma heci_copy_ok:
  assumes "zephyr_env e" and dev: "dev_ok d s" and i: "i < 8" "state (connections s ! i) = 3"
    and len: "len \<le> length src"
  shows "ok (heci_copy_to_client_buf e i src len dma s) (dev_ok d)"
proof -
  note d = dev_okD [OF dev]
  obtain k where k: "conn_client (connections s ! i) = Some k" "k < registered_clients s"
      "\<And>p. rx_buffer (connections s ! i) = Some p \<Longrightarrow> rx_msg (properties (clients s ! k)) = Some p"
    by (rule conn_ok_used [OF d(9) [OF i(1)]]) (use i(2) in auto)
  obtain p where p: "rx_buffer (connections s ! i) = Some p" "rx_msg (properties (clients s ! k)) = Some p"
    using d(9) [OF i(1)] i(2) k(3) by (auto simp: conn_ok_def)
  obtain b where b: "rx_bytes (rx_heap s p) = Some b" "unat (rx_buffer_len (properties (clients s ! k))) \<le> length b"
    using client_of_slot [OF dev k(2)] p(2) by (auto simp: client_ok_def split: option.splits)
  have "ok (heci_connection_error e (conn_at s i) s) (dev_ok d)"
    using assms(1) dev by (simp add: heci_connection_error_def send_bus_ok)
  then have "ok (heci_connection_error e (conn_at s i) s) (\<lambda>s1. dev_ok d
      (upd_conn i (\<lambda>c. c\<lparr>state := state c AND NOT HECI_CONN_STATE_PROCESSING_MSG\<rparr>)
        (upd_rx p (\<lambda>b. b\<lparr>rx_locked := False\<rparr>) s1)))"
    by (rule ok_mono) (simp add: dev_ok_end_processing i)
  then show ?thesis
    using p(1) k(1) b len dev
    by (auto simp: heci_copy_to_client_buf_def conn_at_def Let_def ok_bind keeps_bytes_def)
qed

lemma heci_process_client_message_ok:
  assumes "zephyr_env e" and dev: "dev_ok d s" and len: "unat (hdr_len (hdr msg)) \<le> length (payload msg)"
  shows "ok (heci_process_client_message e msg s) (dev_ok d)"
proof -
  have "ok (heci_copy_to_client_buf e i (payload msg) (unat (hdr_len (hdr msg))) False t)
      (\<lambda>s2. dev_ok d (if hdr_last_frag (hdr msg)
                 then let s3 = upd_conn i (\<lambda>c. c\<lparr>state := state c AND NOT HECI_CONN_STATE_PROCESSING_MSG\<rparr>) s2
                      in heci_notify_client (conn_at s3 i) HECI_EVENT_NEW_MSG s3
                 else s2))"
    if "dev_ok d t" "i < 8" "state (connections t ! i) = 3" for i t
    by (rule ok_mono [OF heci_copy_ok [OF assms(1) that len]])
      (simp add: dev_ok_end_processing that(2) Let_def)
  then show ?thesis
    unfolding heci_process_client_message_def ok_bind
    by (rule_tac ok_mono [OF heci_find_active_conn_ok [OF dev]]) (auto simp: ok_bind split: option.splits split del: if_split)
qed

section \<open>The bus protocol\<close>

lemma dev_ok_dma [simp]:
  "length (page_bitmap info) = BITS_PER_DW \<Longrightarrow> dev_ok d s \<Longrightarrow> dev_ok d (s\<lparr>host_rx_dma := info\<rparr>)"
  by (simp add: dev_ok_def tables_ok_def tx_pool_ok_def gate_view_def)

lemma send_bus_dma: "map_option snd (heci_send_proto_msg e HECI_DRIVER_ADDRESS HECI_DRIVER_ADDRESS True data s)
    = send_bus e data s"
  by (simp add: send_bus_def)

lemma heci_dma_alloc_ok:
  assumes "zephyr_env e" and "dev_ok d s"
  shows "ok (heci_dma_alloc_notification e msg s) (dev_ok d)"
  using assms
  by (auto simp: heci_dma_alloc_notification_def Let_def send_bus_dma dma_info_zero_def intro!: send_bus_ok)

text \<open>The acknowledgement of a DMA transfer carries addresses the driver does not check.\<close>

definition dma_ack_msg :: "heci_bus_msg \<Rightarrow> bool" where
  "dma_ack_msg msg \<longleftrightarrow>
     hdr_fw_addr (hdr msg) = HECI_DRIVER_ADDRESS \<and> payload msg ! 0 = GEN_RESP HECI_BUS_MSG_DMA_XFER_REQ"

lemma heci_process_bus_message_ok:
  assumes "zephyr_env e" and "dev_ok d s"
    and "config_heci_use_dma e \<Longrightarrow> payload msg ! 0 \<noteq> GEN_RESP HECI_BUS_MSG_DMA_XFER_REQ"
  shows "ok (heci_process_bus_message e msg s) (dev_ok d)"
  using assms
  by (cases "config_heci_use_dma e")
    (simp_all add: heci_process_bus_message_def Let_def heci_version_resp_ok heci_stop_resp_ok heci_enum_resp_ok
      heci_client_prop_ok heci_connect_host_ok heci_disconnect_ok heci_flow_control_recv_ok heci_reset_resp_ok
      heci_add_client_resp_ok heci_dma_alloc_ok)

lemma heci_process_message_ok:
  assumes "zephyr_env e" and dev: "dev_ok d s" and "unat (hdr_len (hdr msg)) \<le> length (payload msg)"
    and "config_heci_use_dma e \<Longrightarrow> \<not> dma_ack_msg msg"
  shows "ok (heci_process_message e msg s) (dev_ok d)"
proof -
  have l: "dev_ok (Suc d) (lock_dev s)" using dev by simp
  have "ok (if hdr_fw_addr (hdr msg) = HECI_DRIVER_ADDRESS then heci_process_bus_message e msg (lock_dev s)
              else if hdr_fw_addr (hdr msg) = HECI_SYSTEM_STATE_CLIENT_ADDR then Some (lock_dev s)
              else if hdr_fw_addr (hdr msg) = HECI_FW_STATE_CLIENT_ADDR then Some (lock_dev s)
              else heci_process_client_message e msg (lock_dev s)) (dev_ok (Suc d))"
    using heci_process_bus_message_ok [OF assms(1) l, of msg] heci_process_client_message_ok [OF assms(1) l assms(3)]
      dev assms(4) by (auto simp: dma_ack_msg_def)
  then show ?thesis
    unfolding heci_process_message_def ok_bind by (rule ok_mono) (simp add: dev_ok_unlock)
qed

lemma dev_ok_ack_host [simp]: "dev_ok d (ack_host e a s) = dev_ok d s"
  by (simp add: ack_host_def send_rx_complete_def ipc_write_msg_def Let_def)

lemma length_read_packet:
  "n \<le> HECI_IPC_PACKET_SIZE \<Longrightarrow> length (read_packet e l n) = HECI_IPC_PACKET_SIZE"
  by (simp add: read_packet_def)

theorem ipc_heci_handler_ok:
  assumes "zephyr_env e" and dev: "dev_ok d s"
    and "config_heci_use_dma e \<Longrightarrow> \<not> dma_ack_msg (dec_bus_msg (read_packet e (io s) (IPC_HEADER_GET_LENGTH drbl)))"
  shows "ok (ipc_heci_handler e drbl s) (\<lambda>(ret, s'). dev_ok d s')"
proof (cases "IPC_DATA_LEN_MAX < IPC_HEADER_GET_LENGTH drbl")
  case True
  then show ?thesis using dev by (simp add: ipc_heci_handler_def Let_def)
next
  case False
  define n where "n = IPC_HEADER_GET_LENGTH drbl"
  define m where "m = dec_bus_msg (read_packet e (io s) n)"
  have "length (payload m) = 124"
    using False length_read_packet [of n e "io s"]
    by (simp add: m_def n_def dec_bus_msg_def IPC_DATA_LEN_MAX_def heci_size_defs)
  then have "ok (heci_process_message e m (ack_host e (drbl_ack_of drbl) s)) (dev_ok d)"
    if "unat (hdr_len (hdr m)) + SIZEOF_HDR = n"
    using that False assms by (intro heci_process_message_ok)
      (simp_all add: n_def m_def IPC_DATA_LEN_MAX_def SIZEOF_HDR_def)
  then show ?thesis
    using dev False by (auto simp: ipc_heci_handler_def Let_def ok_bind simp flip: n_def m_def)
qed

section \<open>Calls of clients and power events\<close>

lemma sx_heci_handler_ok:
  assumes "zephyr_env e" and "dev_ok d s"
  shows "dev_ok d (sx_heci_handler e ev s)"
proof -
  have "mng_state.more (mng_sx_entry e s) = mng_state.more s" "gate_view (mng_sx_entry e s) = gate_view s"
    using more_interference [of e SX_ENTRY s] gate_view_interference [of e SX_ENTRY s] by simp_all
  then have "dev_ok d (mng_sx_entry e s)"
    using dev_ok_frame [OF assms(2)] dev_okD(7) [OF assms(2)] by metis
  then show ?thesis using assms(2) by (simp add: sx_heci_handler_def heci_reset_ok)
qed

lemma heci_complete_disconnect_ok:
  assumes "zephyr_env e" and dev: "dev_ok d s"
  shows "ok (heci_complete_disconnect e i s) (\<lambda>(r, s'). dev_ok d s')"
proof (cases "8 \<le> i \<or> state (connections s ! i) AND HECI_CONN_STATE_DISCONNECTING = 0")
  case True
  then show ?thesis
    using dev by (auto simp: heci_complete_disconnect_def heci_size_defs Let_def conn_at_def)
next
  case False
  define c where "c = connections s ! i"
  have i: "i < 8" "state c \<noteq> 0" "state c AND HECI_CONN_STATE_DISCONNECTING \<noteq> 0" using False by (auto simp: c_def)
  obtain k where k: "conn_client c = Some k"
    by (rule conn_ok_used [OF dev_okD(9) [OF dev i(1), folded c_def] i(2)])
  define s2 where "s2 = (case rx_buffer c of None \<Rightarrow> lock_dev s
     | Some p \<Rightarrow> upd_rx p (\<lambda>b. b\<lparr>rx_type := 0, rx_length := 0, rx_connection_id := 0, rx_locked := False\<rparr>) (lock_dev s))"
  have s2: "dev_ok (Suc d) s2" "connections s2 = connections s"
    using dev by (auto simp: s2_def split: option.splits)
  define send where "send = (if state c AND HECI_CONN_STATE_SEND_DISCONNECT_RESP \<noteq> 0
     then send_bus e (enc_conn_resp (conn_resp HECI_BUS_MSG_CLIENT_DISCONNECT_REQ
            (fw_addr c) (host_addr c) HECI_CONNECT_STATUS_SUCCESS)) s2 else Some s2)"
  have "ok send (\<lambda>s'. dev_ok (Suc d) s' \<and> mng_state.more s' = mng_state.more s2)"
    using s2(1) by (auto simp: send_def intro!: send_bus_frame [OF assms(1)])
  then have "ok send (\<lambda>s3. dev_ok d (unlock_dev (upd_conn i (\<lambda>_. conn_zero)
      (upd_client k (\<lambda>c. c\<lparr>n_of_conns := n_of_conns c - 1\<rparr>) s3))))"
  proof (rule ok_mono, elim conjE)
    fix s3 :: "'a heci_state_scheme"
    assume s3: "dev_ok (Suc d) s3" "mng_state.more s3 = mng_state.more s2"
    then have "connections s3 ! i = c" using more_fields(2) [OF s3(2)] s2(2) by (simp add: c_def)
    with s3 i k show "dev_ok d (unlock_dev (upd_conn i (\<lambda>_. conn_zero)
      (upd_client k (\<lambda>c. c\<lparr>n_of_conns := n_of_conns c - 1\<rparr>) s3)))"
      by (intro dev_ok_unlock dev_ok_close) auto
  qed
  then show ?thesis
    using i k by (auto simp: heci_complete_disconnect_def heci_size_defs Let_def conn_at_def ok_bind send_def
        simp flip: c_def s2_def)
qed

lemma heci_register_ok:
  assumes "zephyr_env e" and dev: "dev_ok d s"
    and cl: "\<And>cl. client = Some cl \<Longrightarrow> client_ok (rx_heap s) cl"
  shows "ok (heci_register e client s) (\<lambda>(r, s'). dev_ok d s')"
proof -
  have "ok (heci_send_new_client_msg e cc s2 \<bind> grant_threads e p) (\<lambda>s4. dev_ok d (unlock_dev s4))"
    if c: "client = Some p" and i: "find_idx (\<lambda>c. client_addr c = 0) (clients (lock_dev s)) = Some i"
      and cc: "cc = \<lparr>client_addr = of_nat (i + HECI_FIXED_CLIENT_NUM), n_of_conns = 0, active = False, properties = p\<rparr>"
      and s2: "s2 = upd_client i (\<lambda>_. cc) (lock_dev s\<lparr>registered_clients := registered_clients (lock_dev s) + 1\<rparr>)"
    for p i cc s2
  proof -
    have l: "dev_ok (Suc d) (lock_dev s)" using dev by simp
    have "dev_ok (Suc d) s2"
      unfolding s2 using first_free_slot [OF l i] cl [OF c]
      by (intro dev_ok_register [OF l, where b = False and cl = p]) (simp_all add: cc)
    moreover have "length (data4 (protocol_id p)) = 8" "unat (num_of_threads p) \<le> length (thread_handle_list p)"
      using cl [OF c] by (simp_all add: client_ok_def)
    ultimately have "ok (heci_send_new_client_msg e cc s2) (dev_ok (Suc d))"
      by (auto simp: heci_send_new_client_msg_def Let_def cc intro!: send_bus_ok [OF assms(1)])
    then show ?thesis
      unfolding ok_bind
    proof (rule ok_mono)
      fix t :: "'a heci_state_scheme"
      assume "dev_ok (Suc d) t"
      then show "ok (grant_threads e p t) (\<lambda>s4. dev_ok d (unlock_dev s4))"
        using grant_threads_ok [of "Suc d" t p e] \<open>unat (num_of_threads p) \<le> _\<close>
        by (auto elim!: ok_mono intro: dev_ok_unlock)
    qed
  qed
  then show ?thesis
    using dev by (auto simp: heci_register_def Let_def ok_bind split: option.splits)
qed

text \<open>
  A client returns the receive buffer of a connection by sending flow control.  It must
  not do so while a message is being received: the driver would lose the buffer it is
  filling (\<open>flow_control_in_message\<close> in the theory of delivery).
\<close>

lemma heci_send_flow_control_ok:
  assumes "zephyr_env e" and dev: "dev_ok d s"
    and "i < 8 \<Longrightarrow> state (connections s ! i) AND HECI_CONN_STATE_PROCESSING_MSG = 0"
  shows "ok (heci_send_flow_control e i s) (\<lambda>(r, s'). dev_ok d s')"
proof (cases "8 \<le> i \<or> state (connections s ! i) AND HECI_CONN_STATE_OPEN = 0")
  case True
  then show ?thesis
    using dev by (auto simp: heci_send_flow_control_def heci_size_defs Let_def conn_at_def)
next
  case False
  then have i8: "i < 8" by simp
  have i: "i < 8" "state (connections s ! i) = 1" "i < length (connections s)"
    using conn_open_cases [OF dev_okD(9) [OF dev i8]] assms(3) [OF i8] dev_okD(2) [OF dev] False i8
    by (auto simp: conn_state_nums)
  define s2 where "s2 = (case rx_buffer (conn_at s i) of None \<Rightarrow> lock_dev s
    | Some p \<Rightarrow> upd_conn i (\<lambda>c. c\<lparr>rx_buffer := None\<rparr>)
        (upd_rx p (\<lambda>b. b\<lparr>rx_length := 0, rx_type := 0, rx_locked := False\<rparr>) (lock_dev s)))"
  have "dev_ok (Suc d) s2"
    using dev i dev_okD(9) [OF dev i(1)]
    by (auto simp: s2_def intro!: dev_ok_upd_conn split: option.splits)
      (auto simp: conn_ok_def split: option.splits)
  then have "ok (heci_send_proto_msg e ha fa lf (enc_flow_ctrl fc) s2) (\<lambda>(b, s3). dev_ok d (unlock_dev s3))" for ha fa lf fc
    by (intro ok_mono [OF proto_msg_frame [OF assms(1)]]) (auto intro: dev_ok_unlock)
  then show ?thesis
    using i by (auto simp: heci_send_flow_control_def heci_size_defs Let_def conn_at_def conn_state_nums ok_bind
        s2_def [unfolded conn_at_def, symmetric] case_prod_unfold)
qed

end
