(* ===== verification/Heci_Run.thy ===== *)
theory Heci_Run
  imports Heci_Safe
begin

text \<open>
  Runs of the HECI driver: sending with other threads interleaved, sequences of
  operations of host, clients and power management, and the delivery of client
  messages in both directions.
\<close>

section \<open>Sending with other threads interleaved\<close>

lemma send_client_msg_ipc_more:
  assumes "list_all mrd_ok ms" and "send_client_msg_ipc e conn ms s = Some (b, s')"
  shows "mng_state.more s' = mng_state.more s"
proof -
  define h where "h = \<lparr>hdr_fw_addr = fw_addr conn, hdr_host_addr = host_addr conn, hdr_len = 0,
    hdr_reserved = 0, hdr_secure = False, hdr_last_frag = False\<rparr>"
  have sf: "send_fragments e h (replicate HECI_MAX_PAYLOAD_SIZE 0) 0 ms t =
      Some (write_all e (packets h (chunks HECI_MAX_PAYLOAD_SIZE (mrd_bytes ms))) t)"
    for t :: "'a mng_state_scheme"
    using send_fragments_eq [OF cursor_ok_start [OF assms(1)], of "replicate HECI_MAX_PAYLOAD_SIZE 0" h]
    by (simp add: h_def)
  have wa: "mng_state.more (snd (write_all e ps t)) = mng_state.more t" for ps and t :: "'a mng_state_scheme"
  proof -
    obtain l where "snd (write_all e ps t) = t\<lparr>io := l\<rparr>"
      using write_all_log [of ps e t] by (metis snd_conv)
    then show ?thesis by simp
  qed
  show ?thesis
    using assms(2) by (auto simp: send_client_msg_ipc_def Let_def case_prod_unfold sf wa h_def [symmetric]
        split: if_splits)
qed

lemma send_client_msg_ipc_frame:
  assumes "zephyr_env e" and "dev_ok d s" and "list_all mrd_ok ms"
  shows "ok (send_client_msg_ipc e conn ms s) (\<lambda>(b, s'). dev_ok d s' \<and> mng_state.more s' = mng_state.more s)"
proof -
  obtain b body where body: "\<And>t. gate_view (body t) = gate_view t"
      "send_client_msg_ipc e conn ms s = Some (b, access_gate.guarded e body s)"
    using send_client_msg_ipc_guarded [OF assms(3), of e conn s] by blast
  have "gate_idle (gate_view (access_gate.guarded e body s))"
    using access_gate.guarded_idle [OF assms(1) dev_okD(7) [OF assms(2)], of body] body(1) by simp
  then show ?thesis
    using dev_ok_frame [OF assms(2)] send_client_msg_ipc_more [OF assms(3) body(2)] body(2) by simp
qed

text \<open>What the other threads keep while a thread sends on connection \<open>i\<close>: the device stays
  consistent, and nobody closes the connection.\<close>

definition send_rely :: "nat \<Rightarrow> nat \<Rightarrow> 'a heci_state_scheme \<Rightarrow> bool" where
  "send_rely d i s \<longleftrightarrow> dev_ok d s \<and> i < 8 \<and> state (connections s ! i) AND HECI_CONN_STATE_OPEN \<noteq> 0"

definition sched_ok :: "nat \<Rightarrow> nat \<Rightarrow> ('a heci_state_scheme) send_sched \<Rightarrow> bool" where
  "sched_ok d i sch \<longleftrightarrow>
     (\<forall>t. send_rely d i t \<longrightarrow> send_rely d i (before_lock sch t)) \<and>
     (\<forall>w \<in> set (fc_waits sch). \<forall>t. send_rely d i t \<longrightarrow> send_rely d i (w t)) \<and>
     (\<forall>t. send_rely d i t \<longrightarrow> send_rely d i (before_relock sch t))"

lemma sched_ok_no_others: "sched_ok d i no_others"
  by (simp add: sched_ok_def no_others_def)

lemma send_rely_sem:
  assumes "send_rely d i s"
  shows "flow_ctrl_sem (connections s ! i) = Some i" "\<exists>k. conn_client (connections s ! i) = Some k"
proof -
  have nz: "state (connections s ! i) \<noteq> 0" and c: "conn_ok (clients s) (registered_clients s) i (connections s ! i)"
    using assms dev_okD(9) by (auto simp: send_rely_def)
  show "flow_ctrl_sem (connections s ! i) = Some i" by (rule conn_ok_used [OF c nz])
  show "\<exists>k. conn_client (connections s ! i) = Some k" by (rule conn_ok_used [OF c nz]) auto
qed

lemma send_rely_updates:
  assumes "send_rely d i s"
  shows "send_rely d i (upd_conn i (\<lambda>c. c\<lparr>wait_thread_count := f c\<rparr>) s)"
    and "send_rely d i (upd_conn i (\<lambda>c. c\<lparr>host_buffers := g c\<rparr>) s)"
    and "length xs = length (flow_ctrl_sems s) \<Longrightarrow> send_rely d i (s\<lparr>flow_ctrl_sems := xs\<rparr>)"
  using assms dev_okD(2) [of d s] by (auto simp: send_rely_def dev_ok_conn_field)

lemma send_rely_lock [simp]: "send_rely (Suc d) i (lock_dev s) = send_rely d i s"
  by (simp add: send_rely_def)

lemma send_rely_unlock: "send_rely (Suc d) i s \<Longrightarrow> send_rely d i (unlock_dev s)"
  by (simp add: send_rely_def dev_ok_unlock)

lemma fc_round_ok:
  assumes "send_rely d i s" "\<And>t. send_rely d i t \<Longrightarrow> send_rely d i (w t)"
    and again: "\<And>t. send_rely d i t \<Longrightarrow> ok (again t) (\<lambda>(r, s'). send_rely d i s')"
  shows "ok (fc_round e w again i s) (\<lambda>(r, s'). send_rely d i s')"
proof -
  define s2 where "s2 = lock_dev ((w s)\<lparr>flow_ctrl_sems :=
    (flow_ctrl_sems (w s))[i := snd (k_sem_take e (flow_ctrl_sems (w s) ! i) False)]\<rparr>)"
  have "send_rely d i (w s)" using assms by simp
  then have s2: "send_rely (Suc d) i s2"
    unfolding s2_def send_rely_lock by (rule send_rely_updates) simp
  note un = send_rely_unlock [OF s2] send_rely_unlock [OF send_rely_updates(1) [OF s2]]
  show ?thesis
    using un again [OF un(1)] send_rely_sem(1) [OF assms(1)]
    by (simp add: fc_round_def conn_at_def Let_def case_prod_unfold s2_def)
qed

lemma fc_alone_ok: "send_rely d i s \<Longrightarrow> ok (fc_alone e n i s) (\<lambda>(r, s'). send_rely d i s')"
proof (induction n arbitrary: s)
  case 0
  then show ?case
    using send_rely_sem [of d i s] send_rely_unlock [of d i "lock_dev s"] by (simp add: conn_at_def)
next
  case (Suc n)
  then show ?case using fc_round_ok [of d i s id "fc_alone e n i" e] by simp
qed

lemma heci_wait_ok:
  "send_rely d i s \<Longrightarrow> \<forall>w \<in> set ws. \<forall>t. send_rely d i t \<longrightarrow> send_rely d i (w t) \<Longrightarrow>
     ok (heci_wait_for_flow_control e ws i s) (\<lambda>(r, s'). send_rely d i s')"
proof (induction ws arbitrary: s)
  case Nil
  then show ?case using send_rely_sem(1) [of d i s] fc_alone_ok [of d i s] by (simp add: conn_at_def)
next
  case (Cons w ws)
  then show ?case using fc_round_ok [of d i s w "heci_wait_for_flow_control e ws i" e] by simp
qed

lemma total_msg_len_descr:
  "0 \<le> total_msg_len m t ms \<Longrightarrow> list_all (\<lambda>d. mrd_len d \<noteq> 0 \<and> mrd_buf d \<noteq> None) ms"
  by (induction ms arbitrary: t) (auto simp: Let_def EPERM_def split: if_splits)

lemma send_credit_ok:
  assumes "send_rely (Suc d) i s" and "sched_ok d i sch"
  shows "ok (send_credit e sch i s) (\<lambda>(go, s'). send_rely (if go then Suc d else d) i s')"
proof -
  have "ok (heci_wait_for_flow_control e (fc_waits sch) i
      (unlock_dev (upd_conn i (\<lambda>c. c\<lparr>wait_thread_count := wait_thread_count c + 1\<rparr>) s)))
      (\<lambda>(r, s'). send_rely d i s')"
    using assms by (intro heci_wait_ok send_rely_unlock send_rely_updates) (auto simp: sched_ok_def)
  then show ?thesis
    using assms
    by (auto simp: send_credit_def ok_bind sched_ok_def split: prod.splits elim!: ok_mono)
qed

text \<open>Without DMA, \<^verbatim>\<open>heci_send\<close> waits for credit and writes the message through the doorbell.\<close>

lemma heci_send_no_dma:
  assumes "\<not> config_heci_use_dma e" and "i < 8" and "state (connections s ! i) AND HECI_CONN_STATE_OPEN \<noteq> 0"
    and "conn_client (connections s ! i) = Some k"
  shows "heci_send e sch i ms s =
    (if total_msg_len (max_msg_size (properties (clients s ! k))) 0 ms < 0 then Some (False, s)
     else send_credit e sch i (lock_dev (before_lock sch s)) \<bind> (\<lambda>(go, s2).
       if \<not> go then Some (False, s2)
       else send_client_msg_ipc e (conn_at s2 i) ms s2 \<bind> (\<lambda>(b, s4).
         Some (b, unlock_dev
           (if b then upd_conn i (\<lambda>c. c\<lparr>host_buffers := host_buffers c - 1\<rparr>) s4 else s4)))))"
proof -
  have "send_by_dma e sch i n ms t = Some (False, t)" for n t
    using assms(1) by (simp add: send_by_dma_def)
  then show ?thesis
    using assms(2-)
    by (cases "send_credit e sch i (lock_dev (before_lock sch s))")
      (auto simp: heci_send_def cal_send_msg_len_def heci_size_defs conn_at_def Let_def)
qed

lemma heci_send_ok:
  assumes "zephyr_env e" and "\<not> config_heci_use_dma e" and "sched_ok d i sch"
    and dev: "dev_ok d s" and "i < 8" and "list_all mrd_ok ms"
  shows "ok (heci_send e sch i ms s) (\<lambda>(b, s'). dev_ok d s')"
proof (cases "state (connections s ! i) AND HECI_CONN_STATE_OPEN = 0")
  case True
  then show ?thesis
    using dev assms(5) by (simp add: heci_send_def cal_send_msg_len_def heci_size_defs conn_at_def)
next
  case False
  then have r: "send_rely d i s" using assms by (simp add: send_rely_def)
  obtain k where k: "conn_client (connections s ! i) = Some k" using send_rely_sem(2) [OF r] by blast
  have "send_rely (Suc d) i (lock_dev (before_lock sch s))"
    using r assms(3) by (simp add: sched_ok_def)
  note cr = send_credit_ok [OF this assms(3)]
  have fin: "ok (send_client_msg_ipc e (conn_at t i) ms t) (\<lambda>(b, s4). dev_ok d (unlock_dev
      (if b then upd_conn i (\<lambda>c. c\<lparr>host_buffers := host_buffers c - 1\<rparr>) s4 else s4)))"
    if "send_rely (Suc d) i t" for t
    using send_client_msg_ipc_frame [OF assms(1) _ assms(6), of "Suc d" t "conn_at t i"] that assms(5)
    by (auto simp: send_rely_def elim!: ok_mono intro!: dev_ok_unlock dev_ok_conn_field)
  have "ok (send_credit e sch i (lock_dev (before_lock sch s)) \<bind> (\<lambda>(go, s2).
       if \<not> go then Some (False, s2)
       else send_client_msg_ipc e (conn_at s2 i) ms s2 \<bind> (\<lambda>(b, s4).
         Some (b, unlock_dev
           (if b then upd_conn i (\<lambda>c. c\<lparr>host_buffers := host_buffers c - 1\<rparr>) s4 else s4)))))
      (\<lambda>(b, s'). dev_ok d s')"
    unfolding ok_bind
  proof (rule ok_mono [OF cr], clarify)
    fix go s2 assume g: "send_rely (if go then Suc d else d) i s2"
    show "ok (if \<not> go then Some (False, s2)
         else send_client_msg_ipc e (conn_at s2 i) ms s2 \<bind> (\<lambda>(b, s4). Some (b, unlock_dev
           (if b then upd_conn i (\<lambda>c. c\<lparr>host_buffers := host_buffers c - 1\<rparr>) s4 else s4))))
         (\<lambda>(b, s'). dev_ok d s')"
      using g fin [of s2] by (cases go) (auto simp: ok_bind send_rely_def case_prod_unfold split del: if_split)
  qed
  then show ?thesis
    using dev by (simp add: heci_send_no_dma [OF assms(2,5) False k])
qed

section \<open>Sequences of operations\<close>

text \<open>Systems that perform operations, each of which may have undefined behaviour where its
  precondition fails.\<close>

locale op_system =
  fixes inv :: "'s \<Rightarrow> bool"
    and pre :: "'op \<Rightarrow> 's \<Rightarrow> bool"
    and exec :: "'op \<Rightarrow> 's \<Rightarrow> 's option"
  assumes exec_ok: "inv s \<Longrightarrow> pre op s \<Longrightarrow> ok (exec op s) inv"
begin

fun run :: "'op list \<Rightarrow> 's \<Rightarrow> 's option" where
  "run [] s = Some s"
| "run (op # ops) s = exec op s \<bind> run ops"

fun admissible :: "'op list \<Rightarrow> 's \<Rightarrow> bool" where
  "admissible [] s = True"
| "admissible (op # ops) s = (pre op s \<and> (\<forall>s'. exec op s = Some s' \<longrightarrow> admissible ops s'))"

lemma run_ok: "inv s \<Longrightarrow> admissible ops s \<Longrightarrow> ok (run ops s) inv"
proof (induction ops arbitrary: s)
  case Nil
  then show ?case by simp
next
  case (Cons op ops)
  from exec_ok [OF Cons.prems(1)] Cons.prems(2) obtain s' where "exec op s = Some s'" "inv s'"
    by (auto simp: ok_iff)
  then show ?case using Cons by simp
qed

lemma run_append: "run (ops @ ops') s = run ops s \<bind> run ops'"
  by (induction ops arbitrary: s) (simp_all split: Option.bind_split)

end

datatype heci_op =
    Op_Doorbell u32
  | Op_Register "heci_client option"
  | Op_FlowControl nat
  | Op_CompleteDisconnect nat
  | Op_Send nat "mrd list"
  | Op_Power d3_event

text \<open>\<open>None\<close> for undefined behaviour; results of calls are not looked at.\<close>

fun heci_exec :: "kenv \<Rightarrow> heci_op \<Rightarrow> heci_state \<Rightarrow> heci_state option" where
  "heci_exec e (Op_Doorbell drbl) s = map_option snd (ipc_heci_handler e drbl s)"
| "heci_exec e (Op_Register cl) s = map_option snd (heci_register e cl s)"
| "heci_exec e (Op_FlowControl i) s = map_option snd (heci_send_flow_control e i s)"
| "heci_exec e (Op_CompleteDisconnect i) s = map_option snd (heci_complete_disconnect e i s)"
| "heci_exec e (Op_Send i ms) s = map_option snd (heci_send e no_others i ms s)"
| "heci_exec e (Op_Power ev) s = Some (sx_heci_handler e ev s)"

text \<open>The contract of the clients; the host is not restricted.\<close>

fun heci_pre :: "heci_op \<Rightarrow> heci_state \<Rightarrow> bool" where
  "heci_pre (Op_Register (Some cl)) s = client_ok (rx_heap s) cl"
| "heci_pre (Op_FlowControl i) s =
     (i < 8 \<longrightarrow> state (connections s ! i) AND HECI_CONN_STATE_PROCESSING_MSG = 0)"
| "heci_pre (Op_Send i ms) s = (i < 8 \<and> list_all mrd_ok ms)"
| "heci_pre _ s = True"

definition heci_env :: "kenv \<Rightarrow> bool" where
  "heci_env e \<longleftrightarrow> zephyr_env e \<and> \<not> config_heci_use_dma e"

lemma ok_map_snd: "ok (map_option snd m) P = ok m (\<lambda>(a, b). P b)"
  by (cases m) auto

lemma heci_exec_ok:
  assumes "heci_env e" and "dev_ok 0 s" and "heci_pre op s"
  shows "ok (heci_exec e op s) (dev_ok 0)"
proof (cases op)
  case (Op_Register cl)
  then show ?thesis
    using assms heci_register_ok [of e 0 s cl] by (cases cl) (simp_all add: ok_map_snd heci_env_def)
qed (use assms ipc_heci_handler_ok [of e 0 s] heci_send_flow_control_ok [of e 0 s]
      heci_complete_disconnect_ok [of e 0 s] heci_send_ok [OF _ _ sched_ok_no_others, of e 0 s]
      sx_heci_handler_ok [of e 0 s] in \<open>auto simp: ok_map_snd heci_env_def\<close>)

interpretation heci_sys: op_system "\<lambda>s. heci_env e \<and> dev_ok 0 s" heci_pre "heci_exec e" for e
  using heci_exec_ok by unfold_locales (fastforce simp: ok_iff)

definition heci_run :: "kenv \<Rightarrow> heci_op list \<Rightarrow> heci_state \<Rightarrow> heci_state option" where
  "heci_run e ops s = heci_sys.run e ops s"

definition heci_admissible :: "kenv \<Rightarrow> heci_op list \<Rightarrow> heci_state \<Rightarrow> bool" where
  "heci_admissible e ops s = heci_sys.admissible e ops s"

lemma heci_run_simps [simp]:
  "heci_run e [] s = Some s"
  "heci_run e (op # ops) s = heci_exec e op s \<bind> heci_run e ops"
  by (simp_all add: heci_run_def [abs_def])

lemma heci_admissible_simps [simp]:
  "heci_admissible e [] s"
  "heci_admissible e (op # ops) s \<longleftrightarrow>
     heci_pre op s \<and> (\<forall>s'. heci_exec e op s = Some s' \<longrightarrow> heci_admissible e ops s')"
  by (simp_all add: heci_admissible_def)

lemma heci_run_ok:
  "heci_env e \<Longrightarrow> dev_ok 0 s \<Longrightarrow> heci_admissible e ops s \<Longrightarrow> ok (heci_run e ops s) (dev_ok 0)"
  using heci_sys.run_ok [of e s ops] by (auto simp: heci_run_def heci_admissible_def ok_iff)

section \<open>Delivery of messages to clients\<close>

text \<open>A packet that carries the fragment \<open>c\<close>.\<close>

definition carries :: "u8 \<Rightarrow> u8 \<Rightarrow> bool \<Rightarrow> u8 list \<Rightarrow> heci_bus_msg \<Rightarrow> bool" where
  "carries fa ha lst c m \<longleftrightarrow>
     hdr_fw_addr (hdr m) = fa \<and> hdr_host_addr (hdr m) = ha \<and> hdr_last_frag (hdr m) = lst \<and>
     unat (hdr_len (hdr m)) = length c \<and> length c \<le> length (payload m) \<and> take (length c) (payload m) = c"

text \<open>The state in which the fragments \<open>acc\<close> of a message have arrived on connection \<open>i\<close>.\<close>

definition receiving ::
    "u8 \<Rightarrow> u8 \<Rightarrow> nat \<Rightarrow> rx_ptr \<Rightarrow> nat \<Rightarrow> u8 list \<Rightarrow> 'a heci_state_scheme \<Rightarrow> bool" where
  "receiving fa ha i p k acc s \<longleftrightarrow>
     heci_find_conn fa ha (HECI_CONN_STATE_OPEN OR HECI_CONN_STATE_PROCESSING_MSG) s = Some i \<and>
     state (connections s ! i) = 3 \<and> rx_buffer (connections s ! i) = Some p \<and>
     conn_client (connections s ! i) = Some k \<and>
     unat (rx_length (rx_heap s p)) = length acc \<and>
     (case rx_bytes (rx_heap s p) of
        None \<Rightarrow> False
      | Some b \<Rightarrow> unat (rx_buffer_len (properties (clients s ! k))) \<le> length b \<and> take (length acc) b = acc)"

definition fits :: "heci_client \<Rightarrow> nat \<Rightarrow> bool" where
  "fits props n \<longleftrightarrow> n \<le> unat (rx_buffer_len props) \<and> n \<le> unat (max_msg_size props) \<and> n < 2 ^ 16"

lemma receive_copy:
  assumes r: "receiving fa ha i p k acc s" and c: "carries fa ha lst c m"
    and f: "fits (properties (clients s ! k)) (length acc + length c)"
  obtains s1 where "heci_copy_to_client_buf e i (payload m) (unat (hdr_len (hdr m))) False s = Some s1"
    and "receiving fa ha i p k (acc @ c) s1" and "io s1 = io s" and "connections s1 = connections s"
    and "clients s1 = clients s"
proof -
  obtain b where b: "rx_bytes (rx_heap s p) = Some b" "take (length acc) b = acc"
      "unat (rx_buffer_len (properties (clients s ! k))) \<le> length b"
    using r by (auto simp: receiving_def split: option.splits)
  define s1 where "s1 = upd_rx p (\<lambda>x. x\<lparr>rx_bytes := Some (memcpy_at b (length acc) c),
      rx_length := rx_length x + of_nat (length c), rx_type := HECI_REQUEST,
      rx_connection_id := ucast (connection_id (conn_at s i))\<rparr>) s"
  have len: "length acc + length c \<le> length b" using f b(3) by (simp add: fits_def)
  have "heci_copy_to_client_buf e i (payload m) (unat (hdr_len (hdr m))) False s = Some s1"
    using r c f b len
    by (simp add: heci_copy_to_client_buf_def receiving_def carries_def conn_at_def fits_def s1_def Let_def)
  moreover have "unat (rx_length (rx_heap s p) + of_nat (length c)) = length acc + length c"
    using r f by (simp add: unat_word_ariths receiving_def fits_def unat_of_nat)
  then have "receiving fa ha i p k (acc @ c) s1"
    using r b len take_memcpy_at [of "length acc" b c]
    by (simp add: receiving_def s1_def heci_find_conn_def)
  moreover have "io s1 = io s" "connections s1 = connections s" "clients s1 = clients s"
    by (simp_all add: s1_def upd_rx_def)
  ultimately show ?thesis using that by blast
qed

text \<open>Handing fragments to the driver one after the other.\<close>

fun recv_all :: "kenv \<Rightarrow> heci_bus_msg list \<Rightarrow> 'a heci_state_scheme \<Rightarrow> 'a heci_state_scheme option" where
  "recv_all e [] s = Some s"
| "recv_all e (m # ms) s = heci_process_client_message e m s \<bind> recv_all e ms"

lemma find_active_receiving:
  "receiving fa ha i p k acc s \<Longrightarrow> heci_find_active_conn fa ha s = Some (Some i, s)"
  by (simp add: receiving_def heci_find_active_conn_def conn_at_def conn_state_nums)

definition delivered :: "nat \<Rightarrow> rx_ptr \<Rightarrow> u8 list \<Rightarrow> 'a heci_state_scheme \<Rightarrow> bool" where
  "delivered i p bs s \<longleftrightarrow>
     state (connections s ! i) = HECI_CONN_STATE_OPEN \<and> rx_buffer (connections s ! i) = Some p \<and>
     unat (rx_length (rx_heap s p)) = length bs \<and>
     map_option (take (length bs)) (rx_bytes (rx_heap s p)) = Some bs"

fun fragments_of :: "u8 \<Rightarrow> u8 \<Rightarrow> u8 list list \<Rightarrow> heci_bus_msg list \<Rightarrow> bool" where
  "fragments_of fa ha [] ms = (ms = [])"
| "fragments_of fa ha (c # cs) [] = False"
| "fragments_of fa ha (c # cs) (m # ms) = (carries fa ha (cs = []) c m \<and> fragments_of fa ha cs ms)"

lemma receive_rest:
  assumes "receiving fa ha i p k acc s" and "fragments_of fa ha cs ms" and "cs \<noteq> []"
    and "fits (properties (clients s ! k)) (length acc + length (concat cs))"
    and "conn_event_cb (connections s ! i) = Some cb" and "i < length (connections s)"
  shows "ok (recv_all e ms s) (\<lambda>s'. delivered i p (acc @ concat cs) s' \<and>
     io s' = io s @ [ClientEvent cb HECI_EVENT_NEW_MSG (conn_param (connections s ! i))])"
  using assms
proof (induction fa ha cs ms arbitrary: acc s rule: fragments_of.induct)
  case (3 fa ha c cs m ms)
  have m: "hdr_fw_addr (hdr m) = fa" "hdr_host_addr (hdr m) = ha" "hdr_last_frag (hdr m) = (cs = [])"
    using "3.prems"(2) by (simp_all add: carries_def)
  have fit: "fits (properties (clients s ! k)) (length acc + length c)"
    using "3.prems"(4) by (simp add: fits_def)
  obtain s1 where s1: "heci_copy_to_client_buf e i (payload m) (unat (hdr_len (hdr m))) False s = Some s1"
      "receiving fa ha i p k (acc @ c) s1" "io s1 = io s" "connections s1 = connections s" "clients s1 = clients s"
    using receive_copy [OF "3.prems"(1) _ fit] "3.prems"(2) by (metis fragments_of.simps(3))
  show ?case
  proof (cases "cs = []")
    case True
    then show ?thesis
      using "3.prems"(2,5,6) s1 m find_active_receiving [OF "3.prems"(1)]
      by (cases ms) (auto simp: heci_process_client_message_def Let_def conn_at_def heci_notify_client_def
          delivered_def receiving_def conn_state_nums upd_conn_def emit_def split: option.splits)
  next
    case False
    have "heci_process_client_message e m s = Some s1"
      using m False s1(1) find_active_receiving [OF "3.prems"(1)]
      by (simp add: heci_process_client_message_def)
    moreover have "ok (recv_all e ms s1) (\<lambda>s'. delivered i p ((acc @ c) @ concat cs) s' \<and>
        io s' = io s1 @ [ClientEvent cb HECI_EVENT_NEW_MSG (conn_param (connections s1 ! i))])"
      using "3.prems" s1 False by (intro "3.IH") (simp_all add: add.assoc)
    ultimately show ?thesis using s1 by simp
  qed
qed simp_all

text \<open>The first fragment locks the buffer of the client.\<close>

lemma start_receiving:
  assumes "heci_find_conn fa ha (HECI_CONN_STATE_OPEN OR HECI_CONN_STATE_PROCESSING_MSG) s = Some i"
    and "i < length (connections s)" and "state (connections s ! i) = HECI_CONN_STATE_OPEN"
    and "conn_client (connections s ! i) = Some k" and "rx_msg (properties (clients s ! k)) = Some p"
    and "\<not> rx_locked (rx_heap s p)" and "client_ok (rx_heap s) (properties (clients s ! k))"
  obtains s1 where "heci_find_active_conn fa ha s = Some (Some i, s1)" and "receiving fa ha i p k [] s1"
    and "io s1 = io s" and "clients s1 = clients s" and "length (connections s1) = length (connections s)"
    and "conn_event_cb (connections s1 ! i) = conn_event_cb (connections s ! i)"
    and "conn_param (connections s1 ! i) = conn_param (connections s ! i)"
proof -
  have find: "find_idx (\<lambda>c. state c AND 3 \<noteq> 0 \<and> fw_addr c = fa \<and> host_addr c = ha)
      ((connections s)[i := x]) = Some i"
    if "state x = 3" "fw_addr x = fw_addr (connections s ! i)" "host_addr x = host_addr (connections s ! i)" for x
    using assms(1,2) that by (auto simp: heci_find_conn_def find_idx_Some conn_state_nums nth_list_update)
  define s1 where "s1 = s\<lparr>connections := (connections s)[i := (connections s ! i)\<lparr>rx_buffer := Some p, state := 3\<rparr>],
      rx_heap := (rx_heap s)(p := rx_heap s p\<lparr>rx_locked := True, rx_length := 0, rx_type := HECI_REQUEST,
        rx_connection_id := ucast (connection_id (connections s ! i))\<rparr>)\<rparr>"
  have "heci_find_active_conn fa ha s = Some (Some i, s1)"
    using assms
    by (simp add: heci_find_active_conn_def heci_get_buffer_from_pool_def conn_at_def conn_state_nums Let_def
        upd_rx_def upd_conn_def s1_def)
  moreover have "receiving fa ha i p k [] s1"
    using assms find [of "(connections s ! i)\<lparr>rx_buffer := Some p, state := 3\<rparr>"]
    by (simp add: receiving_def s1_def heci_find_conn_def conn_state_nums client_ok_def split: option.splits)
  ultimately show ?thesis
    using assms(2) by (intro that [of s1]) (simp_all add: s1_def)
qed

lemma reassembly:
  assumes "heci_find_conn fa ha (HECI_CONN_STATE_OPEN OR HECI_CONN_STATE_PROCESSING_MSG) s = Some i"
    and "i < length (connections s)" and "state (connections s ! i) = HECI_CONN_STATE_OPEN"
    and "conn_client (connections s ! i) = Some k" and "rx_msg (properties (clients s ! k)) = Some p"
    and "\<not> rx_locked (rx_heap s p)" and "client_ok (rx_heap s) (properties (clients s ! k))"
    and "conn_event_cb (connections s ! i) = Some cb"
    and "fragments_of fa ha cs ms" and "cs \<noteq> []"
    and "fits (properties (clients s ! k)) (length (concat cs))"
  shows "ok (recv_all e ms s) (\<lambda>s'. delivered i p (concat cs) s' \<and>
     io s' = io s @ [ClientEvent cb HECI_EVENT_NEW_MSG (conn_param (connections s ! i))])"
proof -
  obtain s1 where s1: "heci_find_active_conn fa ha s = Some (Some i, s1)" "receiving fa ha i p k [] s1"
      "io s1 = io s" "clients s1 = clients s" "length (connections s1) = length (connections s)"
      "conn_event_cb (connections s1 ! i) = conn_event_cb (connections s ! i)"
      "conn_param (connections s1 ! i) = conn_param (connections s ! i)"
    using start_receiving [OF assms(1-7)] .
  obtain c cs' m ms' where ms: "cs = c # cs'" "ms = m # ms'"
    using assms(9,10) by (cases cs; cases ms) auto
  then have "hdr_fw_addr (hdr m) = fa" "hdr_host_addr (hdr m) = ha"
    using assms(9) by (simp_all add: carries_def)
  then have "heci_process_client_message e m s = heci_process_client_message e m s1"
    by (simp add: heci_process_client_message_def s1(1) find_active_receiving [OF s1(2)])
  then have "recv_all e ms s = recv_all e ms s1" by (simp add: ms)
  moreover have "ok (recv_all e ms s1) (\<lambda>s'. delivered i p ([] @ concat cs) s' \<and>
     io s' = io s1 @ [ClientEvent cb HECI_EVENT_NEW_MSG (conn_param (connections s1 ! i))])"
    using assms s1 by (intro receive_rest [OF s1(2)]) simp_all
  ultimately show ?thesis using s1 by simp
qed

text \<open>The packets of a message carry its fragments.\<close>

lemma packets_carry:
  assumes "\<And>c. c \<in> set cs \<Longrightarrow> length c \<le> HECI_MAX_PAYLOAD_SIZE"
    and "hdr_fw_addr h = fa" and "hdr_host_addr h = ha"
  shows "fragments_of fa ha cs (map (\<lambda>(d, b). dec_bus_msg b) (packets h cs))"
  using assms
proof (induction cs)
  case Nil
  then show ?case by simp
next
  case (Cons c cs)
  have "length c < 512" using Cons.prems(1) [of c] by (simp add: heci_size_defs)
  then have "unat (of_nat (length c) :: 9 word) = length c" by (simp add: unat_of_nat)
  then show ?case
    using Cons by (simp add: carries_def dec_bus_msg_def hdr_codec.dec_enc hdr_codec.length_enc SIZEOF_HDR_def)
qed

end
