(* ===== verification/Eclite_Opregion.thy ===== *)
theory Eclite_Opregion
  imports Heci_Run
begin

text \<open>
  The operation region of the EC-lite service, the block of 384 bytes shared with the host
  (\<^verbatim>\<open>agents/include/eclite_hostcomm.h\<close>): its layout, the message header of the service, and
  the table of blocks the host may write (\<^verbatim>\<open>agents/eclite_hostcomm.c\<close>).
\<close>

section \<open>Layout\<close>

text \<open>The members of \<^verbatim>\<open>struct eclite_opregion_t\<close> with their sizes, the nested structures flattened.
  Every 16-bit member has an even offset, so there is no padding.\<close>

definition battery_layout :: "(string \<times> nat) list" where
  "battery_layout =
     [(''state'', 2), (''preset_rate'', 2), (''remaining_capacity'', 2), (''battery_voltage'', 2),
      (''design_capacity'', 2), (''full_charge_capacity'', 2), (''design_voltage'', 2),
      (''cycle_count'', 2), (''design_capacity_warning'', 2), (''design_capacity_low'', 2),
      (''trip_point_0'', 2), (''trip_point_1'', 2), (''discharge_rate'', 2), (''warning_level'', 2),
      (''critical_level'', 2), (''battery_reserved'', 8)]"

definition ucsi_layout :: "(string \<times> nat) list" where
  "ucsi_layout =
     [(''msg_out_info'', 16), (''control_info'', 8), (''msg_in_info'', 16), (''cci_info'', 4),
      (''ucsi_version'', 2)]"

definition opregion_layout :: "(string \<times> nat) list" where
  "opregion_layout = battery_layout @
     [(''reserved_1'', 38), (''systherm0_temp1'', 2), (''systherm1_temp1'', 2),
      (''systherm2_temp1'', 2), (''systherm3_temp1'', 2), (''reserved_2'', 2), (''reserved_3'', 2),
      (''reserved_4'', 12), (''sys0_alert3_1'', 2), (''sys0_alert1_1'', 2), (''sys1_alert3_1'', 2),
      (''sys1_alert1_1'', 2), (''sys2_alert3_1'', 2), (''sys2_alert1_1'', 2), (''sys3_alert3_1'', 2),
      (''sys3_alert1_1'', 2), (''reserved_5'', 4), (''reserved_6'', 4), (''reserved_7'', 24),
      (''sys0_crittemp_thr1'', 2), (''sys1_crittemp_thr1'', 2), (''sys2_crittemp_thr1'', 2),
      (''sys3_crittemp_thr1'', 2), (''reserved_8'', 2), (''reserved_9'', 2), (''reserved_10'', 14),
      (''cpu_crittemp_thr'', 2), (''cpu_temperature'', 2), (''chg1_cc'', 2), (''chg1_cv'', 2),
      (''chg1_ilim'', 2), (''reserved_11'', 2), (''reserved_12'', 2), (''reserved_13'', 2),
      (''reserved_14'', 18), (''reserved_15'', 2), (''psrc'', 2), (''reserved_16'', 12),
      (''reserved_17'', 2), (''reserved_18'', 2), (''reserved_19'', 14), (''reserved_20'', 2),
      (''reserved_21'', 14), (''reserved_22'', 2)] @ ucsi_layout @
     [(''reserved_24'', 16), (''reserved_25'', 2), (''reserved_26'', 2), (''reserved_27'', 2),
      (''pwm_dutycyle'', 2), (''tacho_rpm'', 2), (''reserved_28'', 1), (''event_notify_config'', 1),
      (''reserved_29'', 50)]"

definition offsetof :: "string \<Rightarrow> nat" where
  "offsetof f = offset_in f 0 opregion_layout"

definition MAX_OPR_LENGTH :: nat where "MAX_OPR_LENGTH = 0x180"
definition EVENT_NOTIFY_CONFIG :: nat where "EVENT_NOTIFY_CONFIG = 333"

lemmas layout_defs = opregion_layout_def battery_layout_def ucsi_layout_def

lemma opregion_offsets [simp]:
  "offsetof ''state'' = 0" "offsetof ''preset_rate'' = 2" "offsetof ''remaining_capacity'' = 4"
  "offsetof ''battery_voltage'' = 6" "offsetof ''design_capacity'' = 8"
  "offsetof ''full_charge_capacity'' = 10" "offsetof ''design_voltage'' = 12"
  "offsetof ''cycle_count'' = 14" "offsetof ''trip_point_0'' = 20" "offsetof ''trip_point_1'' = 22"
  "offsetof ''discharge_rate'' = 24" "offsetof ''critical_level'' = 28"
  "offsetof ''systherm0_temp1'' = 76" "offsetof ''systherm1_temp1'' = 78"
  "offsetof ''systherm2_temp1'' = 80" "offsetof ''systherm3_temp1'' = 82"
  "offsetof ''sys0_alert3_1'' = 100" "offsetof ''sys0_alert1_1'' = 102"
  "offsetof ''sys1_alert3_1'' = 104" "offsetof ''sys1_alert1_1'' = 106"
  "offsetof ''sys2_alert3_1'' = 108" "offsetof ''sys2_alert1_1'' = 110"
  "offsetof ''sys3_alert3_1'' = 112" "offsetof ''sys3_alert1_1'' = 114"
  "offsetof ''sys0_crittemp_thr1'' = 148" "offsetof ''sys1_crittemp_thr1'' = 150"
  "offsetof ''sys2_crittemp_thr1'' = 152" "offsetof ''sys3_crittemp_thr1'' = 154"
  "offsetof ''cpu_crittemp_thr'' = 174" "offsetof ''cpu_temperature'' = 176"
  "offsetof ''chg1_cc'' = 178" "offsetof ''chg1_ilim'' = 182" "offsetof ''psrc'' = 210"
  "offsetof ''msg_out_info'' = 260" "offsetof ''control_info'' = 276" "offsetof ''msg_in_info'' = 284"
  "offsetof ''cci_info'' = 300" "offsetof ''ucsi_version'' = 304" "offsetof ''pwm_dutycyle'' = 328"
  "offsetof ''tacho_rpm'' = 330" "offsetof ''event_notify_config'' = 333"
  by (simp_all add: offsetof_def layout_defs)

text \<open>Reading and writing 16-bit members.\<close>

definition op_get :: "string \<Rightarrow> u8 list \<Rightarrow> u16" where
  "op_get f opr = get16 opr (offsetof f)"

definition op_put :: "string \<Rightarrow> u16 \<Rightarrow> u8 list \<Rightarrow> u8 list" where
  "op_put f v opr = memcpy_at opr (offsetof f) (le16 v)"

lemma op_get_put:
  "offsetof f + 2 \<le> length opr \<Longrightarrow> op_get f (op_put f v opr) = v"
  using get16_skip [of "offsetof f" 0 "take (offsetof f) opr" "le16 v @ drop (offsetof f + 2) opr"]
  by (simp add: op_get_def op_put_def memcpy_at_def)

lemma length_op_put [simp]:
  "offsetof f + 2 \<le> length opr \<Longrightarrow> length (op_put f v opr) = length opr"
  by (simp add: op_put_def)

lemma get16_memcpy_other:
  assumes "off + length src \<le> length dst" and "i + 2 \<le> length dst" and "i + 2 \<le> off \<or> off + length src \<le> i"
  shows "get16 (memcpy_at dst off src) i = get16 dst i"
  using assms by (auto simp: get16_def nth_memcpy_at)

lemma op_get_put_other:
  assumes "offsetof f + 2 \<le> length opr" and "offsetof g + 2 \<le> length opr"
    and "offsetof g + 2 \<le> offsetof f \<or> offsetof f + 2 \<le> offsetof g"
  shows "op_get g (op_put f v opr) = op_get g opr"
  using assms get16_memcpy_other [of "offsetof f" "le16 v" opr "offsetof g"] by (simp add: op_get_def op_put_def)

section \<open>Message header\<close>

record message_header_type =
  mh_revision :: "2 word"
  mh_data_type :: "2 word"
  mh_read_write :: "2 word"
  mh_offset :: "9 word"
  mh_length :: "9 word"
  mh_event :: u8

definition mh_word :: "message_header_type \<Rightarrow> u32" where
  "mh_word h = ucast (mh_revision h) OR push_bit 2 (ucast (mh_data_type h))
     OR push_bit 4 (ucast (mh_read_write h)) OR push_bit 6 (ucast (mh_offset h))
     OR push_bit 15 (ucast (mh_length h)) OR push_bit 24 (ucast (mh_event h))"

definition enc_message_header :: "message_header_type \<Rightarrow> u8 list" where
  "enc_message_header h = le32 (mh_word h)"

definition dec_message_header :: "u8 list \<Rightarrow> message_header_type" where
  "dec_message_header bs = (let w = get32 bs 0 in
     \<lparr>mh_revision = ucast w, mh_data_type = ucast (drop_bit 2 w), mh_read_write = ucast (drop_bit 4 w),
      mh_offset = ucast (drop_bit 6 w), mh_length = ucast (drop_bit 15 w), mh_event = ucast (drop_bit 24 w)\<rparr>)"

lemma mh_word_fields:
  "ucast (mh_word h) = mh_revision h" "ucast (drop_bit 2 (mh_word h)) = mh_data_type h"
  "ucast (drop_bit 4 (mh_word h)) = mh_read_write h" "ucast (drop_bit 6 (mh_word h)) = mh_offset h"
  "ucast (drop_bit 15 (mh_word h)) = mh_length h" "ucast (drop_bit 24 (mh_word h)) = mh_event h"
  by (rule bit_word_eqI, force simp: mh_word_def bit_simps dest: bit_imp_le_length)+

interpretation message_header_codec: byte_codec enc_message_header dec_message_header 4
  by unfold_locales (simp_all add: enc_message_header_def dec_message_header_def Let_def mh_word_fields)

definition ECLITE_OPR_REVISION :: "2 word" where "ECLITE_OPR_REVISION = 0"
definition ECLITE_HEADER_TYPE_DATA :: "2 word" where "ECLITE_HEADER_TYPE_DATA = 1"
definition ECLITE_HEADER_TYPE_EVENT :: "2 word" where "ECLITE_HEADER_TYPE_EVENT = 2"
definition ECLITE_HEADER_OPR_READ :: "2 word" where "ECLITE_HEADER_OPR_READ = 1"
definition ECLITE_HEADER_OPR_WRITE :: "2 word" where "ECLITE_HEADER_OPR_WRITE = 2"

section \<open>Write permission\<close>

text \<open>Start offset, end offset and size of every block the host may write to.\<close>

definition opregion_wr_chk_tbl :: "(nat \<times> nat \<times> nat) list" where
  "opregion_wr_chk_tbl =
     (let block = (\<lambda>first last. (offsetof first, offsetof last + 1, offsetof last + 1 - offsetof first + 1))
      in [block ''trip_point_0'' ''trip_point_1'', block ''sys0_alert3_1'' ''sys3_alert1_1'',
          block ''sys0_crittemp_thr1'' ''sys3_crittemp_thr1'', block ''cpu_crittemp_thr'' ''cpu_crittemp_thr'',
          block ''chg1_cc'' ''chg1_ilim'', block ''pwm_dutycyle'' ''pwm_dutycyle'',
          block ''event_notify_config'' ''event_notify_config'', block ''msg_out_info'' ''ucsi_version''])"

definition NUM_OF_OPR_WR_BLKS :: nat where "NUM_OF_OPR_WR_BLKS = 8"

definition eclite_verify_opreg_wr_access :: "nat \<Rightarrow> nat \<Rightarrow> bool" where
  "eclite_verify_opreg_wr_access offset blocksz =
     (\<exists>(offset_start, offset_end, block_sz) \<in> set (take NUM_OF_OPR_WR_BLKS opregion_wr_chk_tbl).
        offset_start \<le> offset \<and> blocksz \<le> block_sz \<and> int offset + int blocksz - 1 \<le> int offset_end)"

lemma opregion_wr_chk_tbl_eq:
  "opregion_wr_chk_tbl = [(20, 23, 4), (100, 115, 16), (148, 155, 8), (174, 175, 2), (178, 183, 6),
     (328, 329, 2), (333, 334, 2), (260, 305, 46)]"
  by (simp add: opregion_wr_chk_tbl_def)

text \<open>The bytes the host may write.\<close>

definition host_writable :: "nat set" where
  "host_writable = {20..23} \<union> {100..115} \<union> {148..155} \<union> {174..175} \<union> {178..183} \<union> {328..329}
     \<union> {333..334} \<union> {260..305}"

lemma verify_access_sound:
  "eclite_verify_opreg_wr_access off n \<Longrightarrow> {off ..< off + n} \<subseteq> host_writable"
  by (auto simp: eclite_verify_opreg_wr_access_def opregion_wr_chk_tbl_eq NUM_OF_OPR_WR_BLKS_def
      host_writable_def)

end
