(* ===== verification/Eclite_Device.thy ===== *)
theory Eclite_Device
  imports Eclite_Opregion
begin

text \<open>
  State of the EC-lite service and its device framework
  (\<^verbatim>\<open>frameworks/device_framework\<close>, \<^verbatim>\<open>frameworks/usbc_framework\<close>), and the functions that move
  device data into the operation region (\<^verbatim>\<open>agents/eclite_opregion.c\<close>).  The tables of
  function pointers a driver fills in are records of functions of the log: what a
  driver returns, and the value it stores through its result pointer, if any.
\<close>

section \<open>Devices\<close>

datatype device_type = DEV_CHG | DEV_FG | DEV_FAN | DEV_TACHO | DEV_THERMAL | DEV_THERMAL_CPU | DEV_UCSI
datatype device_status = DEV_IDLE | DEV_BUSY | DEV_SUSPEND | DEV_POWERED_OFF | DEV_STATUS_UNKNOWN

definition DEV_OPS_SUCCESS :: int where "DEV_OPS_SUCCESS = 0"
definition DEV_NOT_FOUND :: int where "DEV_NOT_FOUND = -8"
definition ERROR :: int where "ERROR = -1"

type_synonym drv_read = "io_log \<Rightarrow> int \<times> u16 option"

record thermal_driver_data =
  high_threshold :: u16
  low_threshold :: u16
  critical :: u16
  temperature :: u16      \<comment> \<open>an \<^verbatim>\<open>int16_t\<close>: read with \<open>sint\<close>\<close>
  rotation :: u16         \<comment> \<open>an \<^verbatim>\<open>int16_t\<close>\<close>
  tacho :: u16            \<comment> \<open>an \<^verbatim>\<open>int16_t\<close>\<close>

record thermal_driver_api =
  read_data :: drv_read
  write_data :: "io_log \<Rightarrow> u16 \<Rightarrow> int"

record charger_driver_data =
  ac_present :: u32

record charger_driver_api =
  check_ac_present :: "io_log \<Rightarrow> int \<times> u32 option"
  get_charger_status :: drv_read

record sbs_driver_data =
  chargering_status :: u8
  sbs_battery_trip_point :: u16

record sbs_driver_api =
  check_battery_presence :: "io_log \<Rightarrow> int"
  battery_status :: drv_read
  absolute_state_of_charge :: drv_read
  drv_voltage :: drv_read
  drv_at_rate :: drv_read
  drv_remaining_capacity :: drv_read
  drv_design_capacity :: drv_read
  drv_full_charge_capacity :: drv_read
  drv_design_voltage :: drv_read
  drv_cycle_count :: drv_read
  battery_trip_point :: "io_log \<Rightarrow> u16 \<Rightarrow> int"

record ucsi_data_t =
  msg_in :: "u8 list"
  msg_out :: "u8 list"
  cci :: "u8 list"
  control :: "u8 list"

text \<open>\<^verbatim>\<open>driver_api\<close> and \<^verbatim>\<open>driver_data\<close> are untyped pointers that the framework of a device type casts.\<close>

datatype driver =
    Thermal_driver thermal_driver_api "thermal_driver_data option"
  | Charger_driver charger_driver_api charger_driver_data
  | Sbs_driver sbs_driver_api sbs_driver_data
  | Ucsi_driver "(io_log \<Rightarrow> int) option" "ucsi_data_t option"

record platform_gpio_config =
  gpio_no :: u32
  gpio_dir :: u32
  pull_down_en :: u8
  intr_type :: u32

record eclite_device =
  device_typ :: device_type
  dev_instance :: nat
  device_sts :: device_status
  dev_init :: "io_log \<Rightarrow> int"
  driver :: driver
  gpio_dev :: bool        \<comment> \<open>whether the device has a GPIO controller\<close>
  gpio_config :: platform_gpio_config
  isr :: "(io_log \<Rightarrow> int) option"

datatype eclite_events = HECI_EVENT | TIMER_EVENT | GPIO_EVENT | CHG_EVENT | FG_EVENT | THERMAL_EVENT | UCSI_EVENT

record dispatcher_queue_data =
  event_type :: eclite_events
  event_data :: u32

section \<open>State and environment\<close>

datatype sx_type = PM_RESET_TYPE_S0 | PM_RESET_TYPE_S3 | PM_RESET_TYPE_S4 | PM_RESET_TYPE_S5
  | PM_RESET_TYPE_WARM_RESET | PM_RESET_TYPE_COLD_RESET

record ec_state = heci_state +
  eclite_opregion :: "u8 list"
  heci_connection_id :: u32
  data_msg_heci_send_fail :: bool      \<comment> \<open>\<^verbatim>\<open>data_msg_heci_send_stat == FAILURE\<close>\<close>
  eclite_tx_buffer :: "u8 list"
  dispatcher_queue :: "dispatcher_queue_data list"
  dev_list :: "eclite_device list option"
  tj_max :: u8
  tj_flag :: bool
  charger_present_old :: u8
  charge_percentage :: u8
  thermal_disable_d0ix :: bool
  cpu_thermal_enable :: bool
  eclite_sx_state :: sx_type

record ec_env =
  kern :: kenv
  k_msgq_put :: "dispatcher_queue_data list \<Rightarrow> dispatcher_queue_data \<Rightarrow> int \<times> dispatcher_queue_data list"
  pmc_ret :: "io_log \<Rightarrow> int"           \<comment> \<open>result of \<^verbatim>\<open>pmc_command\<close>\<close>
  pmc_tj_max :: "io_log \<Rightarrow> u8"         \<comment> \<open>the value it delivers for \<^verbatim>\<open>GET_TJ_MAX\<close>\<close>
  gpio_pin_get_raw :: "io_log \<Rightarrow> u32"
  gpio_configure_ret :: "io_log \<Rightarrow> int"
  gpio_interrupt_ret :: "io_log \<Rightarrow> int"
  gpio_int_trig_high :: u32            \<comment> \<open>\<^verbatim>\<open>GPIO_INT_TRIG_HIGH\<close>\<close>
  gpio_int_trig_low :: u32
  config_thermal_shutdown_enable :: bool
  TEMP_CPU_CRIT_SHUTDOWN :: int
  TEMP_SYS_CRIT_SHUTDOWN :: int
  CONFIG_ECLITE_BATTERY_CRITICAL_LEVEL :: u16

definition ECLITE_QUEUE_DEPTH :: nat where "ECLITE_QUEUE_DEPTH = 20"

text \<open>Documented behaviour of a message queue put without waiting.\<close>

definition zephyr_msgq :: "ec_env \<Rightarrow> bool" where
  "zephyr_msgq e \<longleftrightarrow> (\<forall>q x. k_msgq_put e q x =
     (if length q < ECLITE_QUEUE_DEPTH then (0, q @ [x]) else (-35, q)))"

definition eclite_post_dispatcher_event ::
    "ec_env \<Rightarrow> dispatcher_queue_data \<Rightarrow> 'a ec_state_scheme \<Rightarrow> int \<times> 'a ec_state_scheme" where
  "eclite_post_dispatcher_event e d s =
     (let (ret, q) = k_msgq_put e (dispatcher_queue s) d in (ret, s\<lparr>dispatcher_queue := q\<rparr>))"

abbreviation post :: "ec_env \<Rightarrow> eclite_events \<Rightarrow> u32 \<Rightarrow> 'a ec_state_scheme \<Rightarrow> 'a ec_state_scheme" where
  "post e ev d s \<equiv> snd (eclite_post_dispatcher_event e \<lparr>event_type = ev, event_data = d\<rparr> s)"

section \<open>Device framework\<close>

definition find_dev_instance_by_type :: "device_type \<Rightarrow> nat \<Rightarrow> 'a ec_state_scheme \<Rightarrow> nat option" where
  "find_dev_instance_by_type type inst s =
     (case dev_list s of
        None \<Rightarrow> None
      | Some devs \<Rightarrow> find_idx (\<lambda>d. device_typ d = type \<and> dev_instance d = inst) devs)"

definition find_dev_by_type :: "device_type \<Rightarrow> 'a ec_state_scheme \<Rightarrow> nat option" where
  "find_dev_by_type type s =
     (case dev_list s of None \<Rightarrow> None | Some devs \<Rightarrow> find_idx (\<lambda>d. device_typ d = type) devs)"

definition dev_at :: "'a ec_state_scheme \<Rightarrow> nat \<Rightarrow> eclite_device" where
  "dev_at s i = the (dev_list s) ! i"

definition upd_dev :: "nat \<Rightarrow> (eclite_device \<Rightarrow> eclite_device) \<Rightarrow> 'a ec_state_scheme \<Rightarrow> 'a ec_state_scheme" where
  "upd_dev i f s = s\<lparr>dev_list := map_option (\<lambda>ds. ds[i := f (ds ! i)]) (dev_list s)\<rparr>"

text \<open>Inner \<open>None\<close>: the list is missing (\<^verbatim>\<open>DEV_NOT_FOUND\<close> returned as a status).\<close>

definition get_device_status :: "device_type \<Rightarrow> 'a ec_state_scheme \<Rightarrow> device_status option" where
  "get_device_status type s =
     (case dev_list s of
        None \<Rightarrow> None
      | Some devs \<Rightarrow> Some (case find_idx (\<lambda>d. device_typ d = type) devs of
                             None \<Rightarrow> DEV_STATUS_UNKNOWN | Some i \<Rightarrow> device_sts (devs ! i)))"

definition init_device :: "device_type \<Rightarrow> 'a ec_state_scheme \<Rightarrow> int" where
  "init_device type s =
     (case find_dev_by_type type s of None \<Rightarrow> DEV_NOT_FOUND | Some i \<Rightarrow> dev_init (dev_at s i) (io s))"

definition init_dev_framework :: "eclite_device list option \<Rightarrow> 'a ec_state_scheme \<Rightarrow> int \<times> 'a ec_state_scheme" where
  "init_dev_framework devs s = (if devs = None then (DEV_NOT_FOUND, s) else (0, s\<lparr>dev_list := devs\<rparr>))"

definition init_drivers :: "'a ec_state_scheme \<Rightarrow> int option" where
  "init_drivers s =
     (case dev_list s of
        None \<Rightarrow> None
      | Some devs \<Rightarrow> Some (if list_all (\<lambda>d. init_device (device_typ d) s = DEV_OPS_SUCCESS) devs then 0 else ERROR))"

text \<open>Views of a device as the frameworks cast it; \<open>None\<close> when the driver is of another kind.\<close>

definition thermal_data :: "'a ec_state_scheme \<Rightarrow> nat \<Rightarrow> thermal_driver_data option" where
  "thermal_data s i = (case driver (dev_at s i) of Thermal_driver _ d \<Rightarrow> d | _ \<Rightarrow> None)"

definition thermal_api :: "'a ec_state_scheme \<Rightarrow> nat \<Rightarrow> thermal_driver_api option" where
  "thermal_api s i = (case driver (dev_at s i) of Thermal_driver a _ \<Rightarrow> Some a | _ \<Rightarrow> None)"

definition charger_of :: "'a ec_state_scheme \<Rightarrow> nat \<Rightarrow> (charger_driver_api \<times> charger_driver_data) option" where
  "charger_of s i = (case driver (dev_at s i) of Charger_driver a d \<Rightarrow> Some (a, d) | _ \<Rightarrow> None)"

definition sbs_of :: "'a ec_state_scheme \<Rightarrow> nat \<Rightarrow> (sbs_driver_api \<times> sbs_driver_data) option" where
  "sbs_of s i = (case driver (dev_at s i) of Sbs_driver a d \<Rightarrow> Some (a, d) | _ \<Rightarrow> None)"

definition put_thermal :: "nat \<Rightarrow> thermal_driver_data \<Rightarrow> 'a ec_state_scheme \<Rightarrow> 'a ec_state_scheme" where
  "put_thermal i td = upd_dev i (\<lambda>d. case driver d of
     Thermal_driver a _ \<Rightarrow> d\<lparr>driver := Thermal_driver a (Some td)\<rparr> | _ \<Rightarrow> d)"

definition put_charger :: "nat \<Rightarrow> charger_driver_data \<Rightarrow> 'a ec_state_scheme \<Rightarrow> 'a ec_state_scheme" where
  "put_charger i cd = upd_dev i (\<lambda>d. case driver d of
     Charger_driver a _ \<Rightarrow> d\<lparr>driver := Charger_driver a cd\<rparr> | _ \<Rightarrow> d)"

definition put_sbs :: "nat \<Rightarrow> sbs_driver_data \<Rightarrow> 'a ec_state_scheme \<Rightarrow> 'a ec_state_scheme" where
  "put_sbs i sd = upd_dev i (\<lambda>d. case driver d of
     Sbs_driver a _ \<Rightarrow> d\<lparr>driver := Sbs_driver a sd\<rparr> | _ \<Rightarrow> d)"

section \<open>USB-C framework\<close>

definition USBC_MSG_IN :: u8 where "USBC_MSG_IN = 0"
definition USBC_MSG_OUT :: u8 where "USBC_MSG_OUT = 1"

definition ucsi_framework :: "'a ec_state_scheme \<Rightarrow> int \<times> 'a ec_state_scheme" where
  "ucsi_framework s =
     (case find_dev_by_type DEV_UCSI s of
        None \<Rightarrow> (ERROR, s)
      | Some i \<Rightarrow> (case driver (dev_at s i) of
                     Ucsi_driver (Some fn) _ \<Rightarrow> (fn (io s), emit (UcsiFn i) s)
                   | _ \<Rightarrow> (ERROR, s)))"

text \<open>\<^verbatim>\<open>ucsi_command\<close> copies between the caller's buffer and the device data.\<close>

definition ucsi_command :: "u8 \<Rightarrow> u8 list \<Rightarrow> 'a ec_state_scheme \<Rightarrow> int \<times> u8 list \<times> 'a ec_state_scheme" where
  "ucsi_command cmd buf s =
     (case find_dev_by_type DEV_UCSI s of
        None \<Rightarrow> (ERROR, buf, s)
      | Some i \<Rightarrow>
          (case driver (dev_at s i) of
             Ucsi_driver fn (Some d) \<Rightarrow>
               if cmd = USBC_MSG_IN
               then (0, memcpy_at (memcpy_at buf 0 (msg_in d)) (length (msg_in d)) (cci d), s)
               else if cmd = USBC_MSG_OUT
               then (0, buf, upd_dev i (\<lambda>v. v\<lparr>driver := Ucsi_driver fn (Some (d\<lparr>
                       msg_out := take (length (msg_out d)) buf,
                       control := take (length (control d)) (drop (length (msg_out d)) buf)\<rparr>))\<rparr>) s)
               else (ERROR, buf, s)
           | _ \<Rightarrow> (ERROR, buf, s)))"

section \<open>Device data in the operation region\<close>

definition MAX_THERMAL_SENSOR :: nat where "MAX_THERMAL_SENSOR = 4"
definition UCSI_VERSION_STR :: u16 where "UCSI_VERSION_STR = 0x110"

abbreviation put_op :: "string \<Rightarrow> u16 \<Rightarrow> 'a ec_state_scheme \<Rightarrow> 'a ec_state_scheme" where
  "put_op f v s \<equiv> s\<lparr>eclite_opregion := op_put f v (eclite_opregion s)\<rparr>"

text \<open>A pointer \<^verbatim>\<open>uint16_t *\<close> that starts at a member and moves on is an offset.\<close>

definition put_word :: "nat \<Rightarrow> u16 \<Rightarrow> 'a ec_state_scheme \<Rightarrow> 'a ec_state_scheme" where
  "put_word off v s = s\<lparr>eclite_opregion := memcpy_at (eclite_opregion s) off (le16 v)\<rparr>"

text \<open>A driver that stores its reading directly into a member.\<close>

definition read_into :: "string \<Rightarrow> drv_read \<Rightarrow> 'a ec_state_scheme \<Rightarrow> 'a ec_state_scheme" where
  "read_into f rd s = (case snd (rd (io s)) of None \<Rightarrow> s | Some v \<Rightarrow> put_op f v s)"

definition update_charger_region :: "'a ec_state_scheme \<Rightarrow> 'a ec_state_scheme option" where
  "update_charger_region s =
     (case find_dev_by_type DEV_CHG s of
        None \<Rightarrow> Some s
      | Some i \<Rightarrow> do {
          (_, d) \<leftarrow> charger_of s i;
          Some (put_op ''psrc'' (ucast (ac_present d AND BIT 0)) s)
        })"

definition update_battery_region :: "'a ec_state_scheme \<Rightarrow> 'a ec_state_scheme option" where
  "update_battery_region s =
     (case find_dev_by_type DEV_CHG s of
        None \<Rightarrow> Some s
      | Some c \<Rightarrow>
          (case find_dev_by_type DEV_FG s of
             None \<Rightarrow> Some s
           | Some b \<Rightarrow> do {
               (api, d) \<leftarrow> sbs_of s b;
               let s1 = put_op ''state'' (ucast (chargering_status d)) s;
               let s2 = fold (\<lambda>(f, rd). read_into f rd)
                   [(''battery_voltage'', drv_voltage api), (''preset_rate'', drv_at_rate api),
                    (''remaining_capacity'', drv_remaining_capacity api),
                    (''design_capacity'', drv_design_capacity api),
                    (''full_charge_capacity'', drv_full_charge_capacity api),
                    (''design_voltage'', drv_design_voltage api),
                    (''cycle_count'', drv_cycle_count api)] s1;
               let rate = op_get ''preset_rate'' (eclite_opregion s2);
               Some (if sint rate < 0 then put_op ''discharge_rate'' rate s2 else s2)
             }))"

definition update_fan_region :: "'a ec_state_scheme \<Rightarrow> 'a ec_state_scheme option" where
  "update_fan_region s =
     (case find_dev_by_type DEV_FAN s of
        None \<Rightarrow> Some s
      | Some i \<Rightarrow> do { d \<leftarrow> thermal_data s i; Some (put_op ''tacho_rpm'' (tacho d) s) })"

fun thermal_region_loop :: "nat \<Rightarrow> nat \<Rightarrow> nat \<Rightarrow> 'a ec_state_scheme \<Rightarrow> 'a ec_state_scheme" where
  "thermal_region_loop 0 i off s = s"
| "thermal_region_loop (Suc n) i off s =
     (case find_dev_instance_by_type DEV_THERMAL (i + 1) s of
        None \<Rightarrow> thermal_region_loop n (i + 1) off s
      | Some j \<Rightarrow>
          (case thermal_data s j of
             None \<Rightarrow> thermal_region_loop n (i + 1) off s
           | Some d \<Rightarrow> thermal_region_loop n (i + 1) (off + 2) (put_word off (temperature d) s)))"

definition update_thermal_region :: "'a ec_state_scheme \<Rightarrow> 'a ec_state_scheme" where
  "update_thermal_region s = thermal_region_loop MAX_THERMAL_SENSOR 0 (offsetof ''systherm0_temp1'') s"

fun thermal_init_loop :: "nat \<Rightarrow> nat \<Rightarrow> nat \<Rightarrow> nat \<Rightarrow> 'a ec_state_scheme \<Rightarrow> 'a ec_state_scheme" where
  "thermal_init_loop 0 i alert crit s = s"
| "thermal_init_loop (Suc n) i alert crit s =
     (case find_dev_instance_by_type DEV_THERMAL (i + 1) s of
        None \<Rightarrow> thermal_init_loop n (i + 1) alert crit s
      | Some j \<Rightarrow>
          (case thermal_data s j of
             None \<Rightarrow> thermal_init_loop n (i + 1) alert crit s
           | Some d \<Rightarrow> thermal_init_loop n (i + 1) (alert + 4) (crit + 2)
               (put_word crit (critical d)
                 (put_word (alert + 2) (low_threshold d) (put_word alert (high_threshold d) s)))))"

definition initialize_thermal_region :: "'a ec_state_scheme \<Rightarrow> 'a ec_state_scheme" where
  "initialize_thermal_region s =
     thermal_init_loop MAX_THERMAL_SENSOR 0 (offsetof ''sys0_alert3_1'') (offsetof ''sys0_crittemp_thr1'') s"

definition update_thermal_cpu_region :: "'a ec_state_scheme \<Rightarrow> 'a ec_state_scheme" where
  "update_thermal_cpu_region s =
     (case find_dev_by_type DEV_THERMAL_CPU s \<bind> thermal_data s of
        None \<Rightarrow> put_op ''cpu_temperature'' 0 s
      | Some d \<Rightarrow> put_op ''cpu_temperature'' (temperature d) s)"

definition initialize_thermal_cpu_region :: "'a ec_state_scheme \<Rightarrow> 'a ec_state_scheme" where
  "initialize_thermal_cpu_region s =
     (case find_dev_by_type DEV_THERMAL_CPU s \<bind> thermal_data s of
        None \<Rightarrow> put_op ''cpu_crittemp_thr'' 0 s
      | Some d \<Rightarrow> put_op ''cpu_crittemp_thr'' (critical d) s)"

definition initialize_ucsi_region :: "'a ec_state_scheme \<Rightarrow> 'a ec_state_scheme" where
  "initialize_ucsi_region s = put_op ''ucsi_version'' UCSI_VERSION_STR s"

fun update_opregion :: "device_type \<Rightarrow> 'a ec_state_scheme \<Rightarrow> 'a ec_state_scheme option" where
  "update_opregion DEV_CHG s = update_charger_region s \<bind> update_battery_region"
| "update_opregion DEV_FG s = update_charger_region s \<bind> update_battery_region"
| "update_opregion DEV_FAN s = update_fan_region s"
| "update_opregion DEV_THERMAL s = Some (update_thermal_region s)"
| "update_opregion DEV_THERMAL_CPU s = Some (update_thermal_cpu_region s)"
| "update_opregion _ s = Some s"

fun initialize_opregion :: "device_type \<Rightarrow> 'a ec_state_scheme \<Rightarrow> 'a ec_state_scheme" where
  "initialize_opregion DEV_THERMAL s = initialize_thermal_region s"
| "initialize_opregion DEV_THERMAL_CPU s = initialize_thermal_cpu_region s"
| "initialize_opregion DEV_UCSI s = initialize_ucsi_region s"
| "initialize_opregion _ s = s"

section \<open>Facts\<close>

text \<open>Updating the region never changes its size.\<close>

lemma length_put_word:
  "off + 2 \<le> length (eclite_opregion s) \<Longrightarrow> length (eclite_opregion (put_word off v s)) = length (eclite_opregion s)"
  by (simp add: put_word_def)

lemma put_word_devs [simp]: "dev_list (put_word off v s) = dev_list s"
  by (simp add: put_word_def)

lemma find_dev_put_word [simp]:
  "find_dev_instance_by_type ty i (put_word off v s) = find_dev_instance_by_type ty i s"
  "thermal_data (put_word off v s) j = thermal_data s j"
  by (simp_all add: find_dev_instance_by_type_def thermal_data_def dev_at_def)

end
