(* ===== verification/Eclite_Frameworks.thy ===== *)
theory Eclite_Frameworks
  imports Eclite_Device
begin

text \<open>
  The thermal framework (\<^verbatim>\<open>frameworks/thermal_framework\<close>) polls sensors, raises alerts and
  drives the fan; the charger framework (\<^verbatim>\<open>frameworks/charger_framework\<close>) tracks power
  sources and switches charging.  \<open>None\<close>: a driver table or data block is missing where
  the code dereferences it.
\<close>

section \<open>Thermal framework\<close>

definition CPU :: nat where "CPU = 15"
definition CPU_TEMP_DELTA :: u16 where "CPU_TEMP_DELTA = 3"

definition update_sensor_status :: "u16 \<Rightarrow> nat \<Rightarrow> u16" where
  "update_sensor_status status thermal_dev_type = status OR BIT thermal_dev_type"

text \<open>The temperature is signed, the thresholds are not; C compares them as \<^verbatim>\<open>int\<close>.\<close>

definition check_thermal_condition :: "thermal_driver_data \<Rightarrow> u16 \<Rightarrow> nat \<Rightarrow> u16" where
  "check_thermal_condition d status thermal_dev_type =
     (if sint (temperature d) > uint (critical d) then update_sensor_status status thermal_dev_type
      else if sint (temperature d) > uint (high_threshold d) then update_sensor_status status thermal_dev_type
      else if sint (temperature d) < uint (low_threshold d) then update_sensor_status status thermal_dev_type
      else status)"

text \<open>Result code, new status, new state.\<close>

definition process_thermal ::
    "nat option \<Rightarrow> u16 \<Rightarrow> nat \<Rightarrow> 'a ec_state_scheme \<Rightarrow> (int \<times> u16 \<times> 'a ec_state_scheme) option" where
  "process_thermal dev status thermal_dev_type s =
     (case dev of
        None \<Rightarrow> Some (DEV_NOT_FOUND, status, s)
      | Some i \<Rightarrow> do {
          api \<leftarrow> thermal_api s i;
          d \<leftarrow> thermal_data s i;
          let (ret, v) = read_data api (io s);
              d1 = (case v of None \<Rightarrow> d | Some t \<Rightarrow> d\<lparr>temperature := t\<rparr>);
              s1 = put_thermal i d1 s
          in if ret \<noteq> 0 then Some (ret, status, s1)
             else let status' = check_thermal_condition d1 status thermal_dev_type;
                      s2 = (if thermal_dev_type = CPU \<and> status' AND BIT CPU \<noteq> 0
                            then put_thermal i (d1\<lparr>high_threshold := temperature d1 + CPU_TEMP_DELTA,
                                                   low_threshold := temperature d1 - CPU_TEMP_DELTA\<rparr>) s1
                            else s1)
                  in Some (0, status', s2)
        })"

definition control_fan :: "nat option \<Rightarrow> 'a ec_state_scheme \<Rightarrow> (int \<times> 'a ec_state_scheme) option" where
  "control_fan fan s =
     (case fan of
        None \<Rightarrow> Some (DEV_NOT_FOUND, s)
      | Some i \<Rightarrow> do {
          api \<leftarrow> thermal_api s i;
          d \<leftarrow> thermal_data s i;
          Some (0, emit (ThermalWrite i (rotation d)) s)
        })"

definition read_tacho :: "nat option \<Rightarrow> 'a ec_state_scheme \<Rightarrow> (int \<times> 'a ec_state_scheme) option" where
  "read_tacho dev s =
     (case dev of
        None \<Rightarrow> Some (DEV_NOT_FOUND, s)
      | Some i \<Rightarrow> do {
          api \<leftarrow> thermal_api s i;
          d \<leftarrow> thermal_data s i;
          let (ret, v) = read_data api (io s)
          in Some (ret, put_thermal i (case v of None \<Rightarrow> d | Some t \<Rightarrow> d\<lparr>tacho := t\<rparr>) s)
        })"

fun process_sensors ::
    "nat list \<Rightarrow> int \<Rightarrow> u16 \<Rightarrow> 'a ec_state_scheme \<Rightarrow> (int \<times> u16 \<times> 'a ec_state_scheme) option" where
  "process_sensors [] ret status s = Some (ret, status, s)"
| "process_sensors (i # is) ret status s =
     do {
       (r, status', s') \<leftarrow> process_thermal (find_dev_instance_by_type DEV_THERMAL (i + 1) s) status i s;
       process_sensors is (ret OR r) status' s'
     }"

definition thermal_callback :: "ec_env \<Rightarrow> 'a ec_state_scheme \<Rightarrow> (int \<times> u16 \<times> 'a ec_state_scheme) option" where
  "thermal_callback e s =
     (let cpu = find_dev_by_type DEV_THERMAL_CPU s; fan = find_dev_by_type DEV_FAN s;
          s1 = (if \<not> tj_flag s
                then let s' = emit PmcGetTjMax s; s'' = s'\<lparr>tj_max := pmc_tj_max e (io s')\<rparr>
                     in if pmc_ret e (io s') \<noteq> 0 then s'' else s''\<lparr>tj_flag := True\<rparr>
                else s)
      in do {
        (ret, status, s2) \<leftarrow> process_sensors [0..<MAX_THERMAL_SENSOR] 0 0 s1;
        (r, status', s3) \<leftarrow> process_thermal cpu status CPU s2;
        if \<not> thermal_disable_d0ix s3
        then do {
          (rf, s4) \<leftarrow> control_fan fan s3;
          (rt, s5) \<leftarrow> read_tacho fan s4;
          Some (ret OR r OR rf OR rt, status', s5)
        }
        else Some (ret OR r, status', s3)
      })"

definition ECLITE_OS_EVENT_BTP_UPDATE :: u8 where "ECLITE_OS_EVENT_BTP_UPDATE = 0x01"
definition ECLITE_OS_EVENT_CRIT_BAT_UPDATE :: u8 where "ECLITE_OS_EVENT_CRIT_BAT_UPDATE = 0x02"
definition ECLITE_OS_EVENT_LOW_BAT_TH_UPDATE :: u8 where "ECLITE_OS_EVENT_LOW_BAT_TH_UPDATE = 0x03"
definition ECLITE_OS_EVENT_CRIT_TEMP_UPDATE :: u8 where "ECLITE_OS_EVENT_CRIT_TEMP_UPDATE = 0x04"
definition ECLITE_OS_EVENT_THERM_ALERT_TH_UPDATE :: u8 where "ECLITE_OS_EVENT_THERM_ALERT_TH_UPDATE = 0x06"
definition ECLITE_OS_EVENT_UCSI_UPDATE :: u8 where "ECLITE_OS_EVENT_UCSI_UPDATE = 0x0A"
definition ECLITE_OS_EVENT_CHG1_UPDATE :: u8 where "ECLITE_OS_EVENT_CHG1_UPDATE = 0x0C"
definition ECLITE_OS_EVENT_PWM_UPDATE :: u8 where "ECLITE_OS_EVENT_PWM_UPDATE = 0x0F"

lemmas os_event_defs = ECLITE_OS_EVENT_BTP_UPDATE_def ECLITE_OS_EVENT_CRIT_BAT_UPDATE_def
  ECLITE_OS_EVENT_LOW_BAT_TH_UPDATE_def ECLITE_OS_EVENT_CRIT_TEMP_UPDATE_def
  ECLITE_OS_EVENT_THERM_ALERT_TH_UPDATE_def ECLITE_OS_EVENT_UCSI_UPDATE_def
  ECLITE_OS_EVENT_CHG1_UPDATE_def ECLITE_OS_EVENT_PWM_UPDATE_def

text \<open>A loop over the sensors that updates the data of those that exist.\<close>

definition upd_sensors ::
    "(nat \<Rightarrow> thermal_driver_data \<Rightarrow> thermal_driver_data) \<Rightarrow> 'a ec_state_scheme \<Rightarrow> 'a ec_state_scheme" where
  "upd_sensors f s =
     fold (\<lambda>i s. case find_dev_instance_by_type DEV_THERMAL (i + 1) s of
                   None \<Rightarrow> s
                 | Some j \<Rightarrow> (case thermal_data s j of None \<Rightarrow> s | Some d \<Rightarrow> put_thermal j (f i d) s))
       [0..<MAX_THERMAL_SENSOR] s"

definition thermal_command :: "u8 \<Rightarrow> u16 list \<Rightarrow> 'a ec_state_scheme \<Rightarrow> 'a ec_state_scheme option" where
  "thermal_command event_id data s =
     (case find_dev_by_type DEV_FAN s of
        None \<Rightarrow> Some s
      | Some fan \<Rightarrow>
          if event_id = ECLITE_OS_EVENT_PWM_UPDATE
          then do {
            d \<leftarrow> thermal_data s fan;
            Some (emit (ThermalWrite fan (data ! 0)) (put_thermal fan (d\<lparr>rotation := data ! 0\<rparr>) s))
          }
          else if event_id = ECLITE_OS_EVENT_THERM_ALERT_TH_UPDATE
          then Some (upd_sensors (\<lambda>i d. d\<lparr>high_threshold := data ! (2 * i),
                                          low_threshold := data ! (2 * i + 1)\<rparr>) s)
          else if event_id = ECLITE_OS_EVENT_CRIT_TEMP_UPDATE
          then Some (upd_sensors (\<lambda>i d. d\<lparr>critical := data ! i\<rparr>) s)
          else Some s)"

section \<open>Charger framework\<close>

definition BATTERY_DISCHARGING :: u8 where "BATTERY_DISCHARGING = BIT 0"
definition BATTERY_CHARGING :: u8 where "BATTERY_CHARGING = BIT 1"
definition BATTERY_CRITICAL :: u8 where "BATTERY_CRITICAL = BIT 2"
definition BATTERY_PRESENT :: u8 where "BATTERY_PRESENT = BIT 3"
definition AC_ONLY :: u8 where "AC_ONLY = BIT 4"
definition BATTERY_FULL :: u8 where "BATTERY_FULL = BIT 5"
definition SOC_FULL_BAT_CAP :: u16 where "SOC_FULL_BAT_CAP = 100"
definition SOC_BAT_MAINTAINCE_THRS :: u16 where "SOC_BAT_MAINTAINCE_THRS = 95"

lemmas battery_state_defs = BATTERY_DISCHARGING_def BATTERY_CHARGING_def BATTERY_CRITICAL_def
  BATTERY_PRESENT_def AC_ONLY_def BATTERY_FULL_def

definition CHARGER_ONLY :: u8 where "CHARGER_ONLY = 1"
definition BATTERY_ONLY :: u8 where "BATTERY_ONLY = 2"
definition CHARGER_BATTERY :: u8 where "CHARGER_BATTERY = 3"

text \<open>The new value of \<^verbatim>\<open>chargering_status\<close>.\<close>

definition update_chager_status :: "u8 \<Rightarrow> u8 \<Rightarrow> u8" where
  "update_chager_status charge_status st =
     (if charge_status = BATTERY_CHARGING
      then ((st AND NOT BATTERY_DISCHARGING) OR BATTERY_CHARGING OR BATTERY_PRESENT) AND NOT BATTERY_CRITICAL
      else if charge_status = BATTERY_DISCHARGING
      then ((st AND NOT BATTERY_CHARGING) OR BATTERY_DISCHARGING OR BATTERY_PRESENT) AND NOT BATTERY_CRITICAL
      else if charge_status = AC_ONLY
      then st AND NOT BATTERY_CHARGING AND NOT BATTERY_DISCHARGING AND NOT BATTERY_PRESENT AND NOT BATTERY_CRITICAL
      else if charge_status = BATTERY_FULL
      then ((st AND NOT BATTERY_CHARGING AND NOT BATTERY_DISCHARGING) OR BATTERY_PRESENT) AND NOT BATTERY_CRITICAL
      else (st AND NOT BATTERY_CHARGING AND NOT BATTERY_DISCHARGING AND NOT BATTERY_PRESENT) OR BATTERY_CRITICAL)"

definition set_charge_status :: "nat \<Rightarrow> u8 \<Rightarrow> 'a ec_state_scheme \<Rightarrow> 'a ec_state_scheme option" where
  "set_charge_status sbs cs s =
     do { (_, d) \<leftarrow> sbs_of s sbs;
          Some (put_sbs sbs (d\<lparr>chargering_status := update_chager_status cs (chargering_status d)\<rparr>) s) }"

definition charger_flow :: "nat \<Rightarrow> nat \<Rightarrow> u16 \<Rightarrow> 'a ec_state_scheme \<Rightarrow> 'a ec_state_scheme option" where
  "charger_flow chg sbs soc s =
     do {
       (_, cd) \<leftarrow> charger_of s chg;
       (_, sd) \<leftarrow> sbs_of s sbs;
       if ac_present cd \<noteq> 0
       then if SOC_FULL_BAT_CAP \<le> soc
            then set_charge_status sbs BATTERY_FULL (emit (ChargeDisable chg) s)
            else if soc < SOC_BAT_MAINTAINCE_THRS \<and>
                    chargering_status sd AND BATTERY_CHARGING \<noteq> 0
            then set_charge_status sbs BATTERY_CHARGING (emit (ChargeEnable chg) s)
            else set_charge_status sbs BATTERY_CHARGING (emit (ChargeEnable chg) s)
       else Some s
     }"

text \<open>The trigger level of the charger pin follows its value.  Result: error code and state.\<close>

definition charger_pin_setup :: "ec_env \<Rightarrow> nat \<Rightarrow> 'a ec_state_scheme \<Rightarrow> int \<times> 'a ec_state_scheme" where
  "charger_pin_setup e chg s =
     (let cfg = gpio_config (dev_at s chg);
          intr = (if gpio_pin_get_raw e (io s) \<noteq> 0
                  then (intr_type cfg AND NOT (gpio_int_trig_high e)) OR gpio_int_trig_low e
                  else (intr_type cfg AND NOT (gpio_int_trig_low e)) OR gpio_int_trig_high e);
          s1 = upd_dev chg (\<lambda>d. d\<lparr>gpio_config := cfg\<lparr>intr_type := intr\<rparr>\<rparr>) s;
          s2 = emit (GpioConfigure (gpio_dir cfg)) s1;
          ret = gpio_configure_ret e (io s2)
      in if ret \<noteq> 0 then (ret, s2)
         else let s3 = emit (GpioInterrupt (gpio_dir cfg OR ucast (pull_down_en cfg) OR intr)) s2
              in (gpio_interrupt_ret e (io s3), s3))"

definition power_source ::
    "u8 \<Rightarrow> nat \<Rightarrow> nat \<Rightarrow> u16 \<Rightarrow> int \<Rightarrow> 'a ec_state_scheme \<Rightarrow> (int \<times> 'a ec_state_scheme) option" where
  "power_source power_device chg sbs absolute_charge ret s =
     (if power_device = CHARGER_ONLY
      then do { s' \<leftarrow> set_charge_status sbs AC_ONLY s; Some (ret, s') }
      else if power_device = BATTERY_ONLY
      then do { s' \<leftarrow> set_charge_status sbs BATTERY_DISCHARGING (emit (ChargeDisable chg) s); Some (ret, s') }
      else if power_device = CHARGER_BATTERY
      then do { s' \<leftarrow> charger_flow chg sbs absolute_charge s; Some (ret, s') }
      else Some (ERROR, s))"

text \<open>Result code, status word and state.\<close>

definition charging_manager_callback ::
    "ec_env \<Rightarrow> eclite_events \<Rightarrow> u16 \<Rightarrow> 'a ec_state_scheme \<Rightarrow> (int \<times> u16 \<times> 'a ec_state_scheme) option" where
  "charging_manager_callback e event status s =
     (case find_dev_by_type DEV_CHG s of
        None \<Rightarrow> Some (ERROR, status, s)
      | Some chg \<Rightarrow>
          (case find_dev_by_type DEV_FG s of
             None \<Rightarrow> Some (ERROR, status, s)
           | Some sbs \<Rightarrow> do {
               (capi, cd) \<leftarrow> charger_of s chg;
               (bapi, bd) \<leftarrow> sbs_of s sbs;
               let bat_present = (check_battery_presence bapi (io s) = 0);
               let (ret1, ac) = check_ac_present capi (io s);
               let cd1 = (case ac of None \<Rightarrow> cd | Some v \<Rightarrow> cd\<lparr>ac_present := v\<rparr>);
               let s1 = put_charger chg cd1 s;
               let charger_present = ac_present cd1;
               let (ret2, s2) = (if bat_present then charger_pin_setup e chg s1 else (ret1, s1));
               if bat_present \<and> ret2 \<noteq> 0 then Some (ret2, status, s2)
               else do {
                 let status1 = status OR ucast charger_present
                       OR push_bit 1 (ucast (charger_present XOR ucast (charger_present_old s2)));
                 let s3 = s2\<lparr>charger_present_old := ucast charger_present\<rparr>;
                 let battery_warning = fst (battery_status bapi (io s3));
                 let absolute_charge = (case snd (absolute_state_of_charge bapi (io s3)) of
                                          None \<Rightarrow> 0 | Some v \<Rightarrow> v);
                 let (status2, s4) = (if absolute_charge \<noteq> ucast (charge_percentage s3)
                       then (status1 OR BIT 2, s3\<lparr>charge_percentage := ucast absolute_charge\<rparr>)
                       else (status1 AND NOT (BIT 2), s3));
                 let (ret3, s5) = (if event = FG_EVENT then (ret2, emit (BatteryTripPoint sbs 0) s4)
                       else if event = CHG_EVENT then (ret2, s4) else (ERROR, s4));
                 let power_device = ucast charger_present OR push_bit 1 (if bat_present then 1 else 0);
                 (ret4, s6) \<leftarrow> power_source power_device chg sbs absolute_charge ret3 s5;
                 if battery_warning \<noteq> 0 \<and> bat_present
                 then do {
                   s7 \<leftarrow> set_charge_status sbs BATTERY_DISCHARGING (emit (ChargeDisable chg) s6);
                   Some (ERROR, status2, s7)
                 }
                 else Some (ret4, status2, s6)
               }
             }))"

definition charger_framework_command :: "u8 \<Rightarrow> u16 \<Rightarrow> 'a ec_state_scheme \<Rightarrow> 'a ec_state_scheme option" where
  "charger_framework_command event_id data s =
     (case find_dev_by_type DEV_FG s of
        None \<Rightarrow> Some s
      | Some sbs \<Rightarrow>
          if event_id = ECLITE_OS_EVENT_BTP_UPDATE
          then do { (_, d) \<leftarrow> sbs_of s sbs;
                    Some (emit (BatteryTripPoint sbs data) (put_sbs sbs (d\<lparr>sbs_battery_trip_point := data\<rparr>) s)) }
          else Some s)"

section \<open>Facts\<close>

text \<open>The alert condition of one sensor.\<close>

definition out_of_range :: "thermal_driver_data \<Rightarrow> bool" where
  "out_of_range d \<longleftrightarrow> uint (critical d) < sint (temperature d) \<or> uint (high_threshold d) < sint (temperature d)
     \<or> sint (temperature d) < uint (low_threshold d)"

lemma check_thermal_condition_eq:
  "check_thermal_condition d st n = (if out_of_range d then st OR BIT n else st)"
  by (auto simp: check_thermal_condition_def out_of_range_def update_sensor_status_def)

lemma check_thermal_condition_bit:
  "n < 16 \<Longrightarrow> bit (check_thermal_condition d st n) k \<longleftrightarrow> bit st k \<or> k = n \<and> out_of_range d"
  by (auto simp: check_thermal_condition_eq bit_or_iff)

text \<open>The battery never counts as charging and discharging at once, and is present whenever
  it charges or discharges.\<close>

definition battery_state_ok :: "u8 \<Rightarrow> bool" where
  "battery_state_ok st \<longleftrightarrow>
     \<not> (st AND BATTERY_CHARGING \<noteq> 0 \<and> st AND BATTERY_DISCHARGING \<noteq> 0) \<and>
     (st AND BATTERY_CHARGING \<noteq> 0 \<or> st AND BATTERY_DISCHARGING \<noteq> 0 \<longrightarrow> st AND BATTERY_PRESENT \<noteq> 0)"

lemma battery_state_ok_update: "battery_state_ok (update_chager_status cs st)"
  by (auto simp: battery_state_ok_def update_chager_status_def battery_state_defs and_BIT_eq_0 bit_simps
      split: if_splits)

end
