(* ===== verification/Eclite_Host.thy ===== *)
theory Eclite_Host
  imports Eclite_Frameworks
begin

text \<open>
  The HECI client of the EC-lite service (\<^verbatim>\<open>agents/eclite_hostcomm.c\<close>): host requests read
  and write the operation region and announce updates; events of the platform are sent
  to the host.  While a request is processed its receive descriptor is locked, so the
  buffer is a value.  \<^verbatim>\<open>CONFIG_HECI\<close> is on.
\<close>

section \<open>Requests of the host\<close>

definition eclite_rx_msg :: rx_ptr where "eclite_rx_msg = 2"
definition eclite_event_callback_ptr :: cb_ptr where "eclite_event_callback_ptr = 2"
definition dispatcher_task :: nat where "dispatcher_task = 2"
definition ECLITE_HECI_INVALID_CONN_ID :: u32 where "ECLITE_HECI_INVALID_CONN_ID = -1"
definition ECLITE_HECI_MAX_RX_SIZE :: nat where "ECLITE_HECI_MAX_RX_SIZE = 0x180 + 4"

definition eclite_process_event_message ::
    "ec_env \<Rightarrow> message_header_type \<Rightarrow> 'a ec_state_scheme \<Rightarrow> int \<times> 'a ec_state_scheme" where
  "eclite_process_event_message e h s =
     (0, if mh_event h = ECLITE_OS_EVENT_BTP_UPDATE then s
         else if mh_event h = ECLITE_OS_EVENT_CRIT_BAT_UPDATE
         then post e FG_EVENT (ucast ECLITE_OS_EVENT_CRIT_BAT_UPDATE) s
         else if mh_event h = ECLITE_OS_EVENT_LOW_BAT_TH_UPDATE
         then post e FG_EVENT (ucast ECLITE_OS_EVENT_LOW_BAT_TH_UPDATE) s
         else if mh_event h = ECLITE_OS_EVENT_CRIT_TEMP_UPDATE
         then post e THERMAL_EVENT (ucast ECLITE_OS_EVENT_CRIT_TEMP_UPDATE) s
         else if mh_event h = ECLITE_OS_EVENT_THERM_ALERT_TH_UPDATE
         then post e THERMAL_EVENT (ucast ECLITE_OS_EVENT_THERM_ALERT_TH_UPDATE) s
         else if mh_event h = ECLITE_OS_EVENT_CHG1_UPDATE
         then post e CHG_EVENT (ucast ECLITE_OS_EVENT_CHG1_UPDATE) s
         else if mh_event h = ECLITE_OS_EVENT_PWM_UPDATE
         then post e THERMAL_EVENT (ucast ECLITE_OS_EVENT_PWM_UPDATE) s
         else if mh_event h = ECLITE_OS_EVENT_UCSI_UPDATE
         then post e UCSI_EVENT (ucast ECLITE_OS_EVENT_UCSI_UPDATE) s
         else s)"

text \<open>The header in front of the transmit buffer, and the message of its first \<open>n\<close> bytes.\<close>

definition upd_tx_header ::
    "(message_header_type \<Rightarrow> message_header_type) \<Rightarrow> 'a ec_state_scheme \<Rightarrow> 'a ec_state_scheme" where
  "upd_tx_header f s = s\<lparr>eclite_tx_buffer :=
     memcpy_at (eclite_tx_buffer s) 0 (enc_message_header (f (dec_message_header (eclite_tx_buffer s))))\<rparr>"

definition tx_message :: "nat \<Rightarrow> 'a ec_state_scheme \<Rightarrow> mrd list" where
  "tx_message n s = [\<lparr>mrd_buf = Some (take n (eclite_tx_buffer s)), mrd_len = of_nat n\<rparr>]"

text \<open>The transmit buffer after a read request has been answered into it.\<close>

definition fill_read_reply :: "nat \<Rightarrow> nat \<Rightarrow> 'a ec_state_scheme \<Rightarrow> 'a ec_state_scheme" where
  "fill_read_reply offset len s =
     (let s1 = upd_tx_header (\<lambda>h. h\<lparr>mh_revision := ECLITE_OPR_REVISION, mh_data_type := ECLITE_HEADER_TYPE_DATA,
                 mh_read_write := ECLITE_HEADER_OPR_READ, mh_offset := of_nat offset, mh_length := of_nat len\<rparr>) s
      in s1\<lparr>eclite_tx_buffer := memcpy_at (eclite_tx_buffer s1) 4 (take len (drop offset (eclite_opregion s1)))\<rparr>)"

definition eclite_process_data_message ::
    "ec_env \<Rightarrow> 'a ec_state_scheme send_sched \<Rightarrow> u8 list \<Rightarrow> 'a ec_state_scheme \<Rightarrow> (int \<times> 'a ec_state_scheme) option" where
  "eclite_process_data_message e sch buffer s =
     (let h = dec_message_header buffer; offset = unat (mh_offset h); len = unat (mh_length h)
      in if MAX_OPR_LENGTH < offset + len then Some (ERROR, s)
         else if mh_read_write h = ECLITE_HEADER_OPR_READ
         then let s1 = fill_read_reply offset len s
              in do {
                (ret, s2) \<leftarrow> heci_send (kern e) sch (unat (heci_connection_id s1)) (tx_message (4 + len) s1) s1;
                Some (0, if ret then s2 else s2\<lparr>data_msg_heci_send_fail := True\<rparr>)
              }
         else if mh_read_write h = ECLITE_HEADER_OPR_WRITE
         then if eclite_verify_opreg_wr_access offset len
              then Some (0, s\<lparr>eclite_opregion := memcpy_at (eclite_opregion s) offset (take len (drop 4 buffer))\<rparr>)
              else Some (ERROR, s)
         else Some (ERROR, s))"

definition eclite_process_msg ::
    "ec_env \<Rightarrow> 'a ec_state_scheme send_sched \<Rightarrow> u8 list option \<Rightarrow> 'a ec_state_scheme
     \<Rightarrow> (int \<times> 'a ec_state_scheme) option" where
  "eclite_process_msg e sch buffer s =
     (case buffer of
        None \<Rightarrow> Some (ERROR, s)
      | Some buf \<Rightarrow>
          let h = dec_message_header buf
          in do {
            (ret, s1) \<leftarrow> (if mh_data_type h = ECLITE_HEADER_TYPE_DATA
                          then eclite_process_data_message e sch buf s else Some (ERROR, s));
            Some (if mh_event h \<noteq> 0 then eclite_process_event_message e h s1 else (ret, s1))
          })"

section \<open>Events to the host\<close>

definition eclite_send_event ::
    "ec_env \<Rightarrow> 'a ec_state_scheme send_sched \<Rightarrow> u32 \<Rightarrow> 'a ec_state_scheme \<Rightarrow> (int \<times> 'a ec_state_scheme) option" where
  "eclite_send_event e sch event s =
     (let s1 = upd_tx_header (\<lambda>h. h\<lparr>mh_revision := ECLITE_OPR_REVISION, mh_event := ucast event,
                 mh_data_type := ECLITE_HEADER_TYPE_EVENT\<rparr>) s
      in if heci_connection_id s1 = ECLITE_HECI_INVALID_CONN_ID then Some (ERROR, s1)
         else if eclite_opregion s1 ! offsetof ''event_notify_config'' = 0 then Some (0, s1)
         else do {
           (ret, s2) \<leftarrow> heci_send (kern e) sch (unat (heci_connection_id s1)) (tx_message 4 s1) s1;
           Some (if ret then 0 else ERROR, s2)
         })"

section \<open>HECI events\<close>

definition check_events_config_request :: "u32 \<Rightarrow> 'a ec_state_scheme \<Rightarrow> 'a ec_state_scheme" where
  "check_events_config_request event s =
     (if event \<noteq> HECI_EVENT_NEW_MSG then s
      else if rx_type (rx_heap s eclite_rx_msg) \<noteq> HECI_REQUEST then s
      else case rx_bytes (rx_heap s eclite_rx_msg) of
             None \<Rightarrow> s
           | Some buf \<Rightarrow>
               let h = dec_message_header buf
               in if mh_data_type h \<noteq> ECLITE_HEADER_TYPE_DATA then s
                  else if mh_read_write h \<noteq> ECLITE_HEADER_OPR_WRITE then s
                  else if unat (mh_offset h) \<noteq> EVENT_NOTIFY_CONFIG then s
                  else s\<lparr>eclite_opregion := (eclite_opregion s)[offsetof ''event_notify_config'' := buf ! 4]\<rparr>)"

definition eclite_event_callback :: "ec_env \<Rightarrow> u32 \<Rightarrow> 'a ec_state_scheme \<Rightarrow> 'a ec_state_scheme" where
  "eclite_event_callback e event s = post e HECI_EVENT event (check_events_config_request event s)"

definition eclite_new_msg ::
    "ec_env \<Rightarrow> 'a ec_state_scheme send_sched \<Rightarrow> 'a ec_state_scheme \<Rightarrow> (int \<times> 'a ec_state_scheme) option" where
  "eclite_new_msg e sch s =
     (let m = rx_heap s eclite_rx_msg
      in if \<not> rx_locked m then Some (ERROR, s)
         else do {
           (ret, s1) \<leftarrow> (if rx_type m = HECI_CONNECT
                         then let s' = s\<lparr>heci_connection_id := ucast (rx_connection_id m)\<rparr>
                              in Some (ERROR, if cpu_thermal_enable s' then emit TimerStart s' else s')
                         else if rx_type m = HECI_REQUEST
                         then eclite_process_msg e sch (rx_bytes m) s
                         else Some (ERROR, s));
           if rx_type m = HECI_REQUEST \<and> data_msg_heci_send_fail s1 then Some (ret, s1)
           else if heci_connection_id s1 \<noteq> ECLITE_HECI_INVALID_CONN_ID
           then do {
             (ok, s2) \<leftarrow> heci_send_flow_control (kern e) (unat (heci_connection_id s1)) s1;
             Some (if ok then 0 else ERROR, s2)
           }
           else Some (ret, s1)
         })"

definition eclite_heci_event_process ::
    "ec_env \<Rightarrow> 'a ec_state_scheme send_sched \<Rightarrow> u32 \<Rightarrow> 'a ec_state_scheme \<Rightarrow> (int \<times> 'a ec_state_scheme) option" where
  "eclite_heci_event_process e sch event s0 =
     (let s = s0\<lparr>data_msg_heci_send_fail := False\<rparr>
      in if event = HECI_EVENT_NEW_MSG then eclite_new_msg e sch s
         else if event = HECI_EVENT_DISCONN
         then do {
           (ret, s1) \<leftarrow> heci_complete_disconnect (kern e) (unat (heci_connection_id s)) s;
           if ret = 0
           then let s2 = s1\<lparr>heci_connection_id := ECLITE_HECI_INVALID_CONN_ID\<rparr>
                in Some (0, if cpu_thermal_enable s2 then (emit TimerStop s2)\<lparr>dispatcher_queue := []\<rparr> else s2)
           else Some (ERROR, s1)
         }
         else Some (ERROR, s))"

text \<open>\<open>enabled\<close>: the service is configured and its devices are there; \<open>buf\<close> is the array
  \<^verbatim>\<open>eclite_rx_buffer\<close>.\<close>

definition eclite_client :: heci_client where
  "eclite_client = \<lparr>protocol_id = \<lparr>data1 = 0x6a19cc4b, data2 = 0xd760, data3 = 0x4de3,
       data4 = [0xb1, 0x4d, 0xf2, 0x5e, 0xbd, 0x0f, 0xbc, 0xd9]\<rparr>,
     max_msg_size = of_nat ECLITE_HECI_MAX_RX_SIZE, protocol_ver = 1, max_n_of_connections = 1,
     dma_header_length = 0, dma_enabled = False, rx_buffer_len = of_nat ECLITE_HECI_MAX_RX_SIZE,
     rx_msg = Some eclite_rx_msg, event_cb = Some eclite_event_callback_ptr, param = 0,
     thread_handle_list = [Some dispatcher_task], num_of_threads = 1\<rparr>"

definition init_host_communication ::
    "kenv \<Rightarrow> bool \<Rightarrow> u8 list \<Rightarrow> 'a heci_state_scheme \<Rightarrow> (int \<times> 'a heci_state_scheme) option" where
  "init_host_communication e enabled buf s =
     (if \<not> enabled then Some (0, s)
      else heci_register e (Some eclite_client) (upd_rx eclite_rx_msg (\<lambda>m. m\<lparr>rx_bytes := Some buf\<rparr>) s))"

end
