(* ===== verification/Eclite_Dispatcher.thy ===== *)
theory Eclite_Dispatcher
  imports Eclite_Host
begin

text \<open>
  The dispatcher of the EC-lite service (\<^verbatim>\<open>agents/eclite_dispatcher.c\<close>): events of the host,
  of timers and of pins go through one queue, and the dispatcher task runs the
  frameworks, updates the operation region, notifies the host and asks the power
  controller to wake up or shut down.  A schedule is given per event sent to the host.
\<close>

section \<open>Events\<close>

definition ECLITE_EVENT_CHARGER_CONNECT :: u32 where "ECLITE_EVENT_CHARGER_CONNECT = 0x01"
definition ECLITE_EVENT_CHARGER_DISCONNECT :: u32 where "ECLITE_EVENT_CHARGER_DISCONNECT = 0x02"
definition ECLITE_EVENT_BATTERY :: u32 where "ECLITE_EVENT_BATTERY = 0x03"
definition ECLITE_EVENT_SYSTEMP0_ALERT :: u32 where "ECLITE_EVENT_SYSTEMP0_ALERT = 0x04"
definition ECLITE_EVENT_SYSTEMP1_ALERT :: u32 where "ECLITE_EVENT_SYSTEMP1_ALERT = 0x05"
definition ECLITE_EVENT_SYSTEMP2_ALERT :: u32 where "ECLITE_EVENT_SYSTEMP2_ALERT = 0x06"
definition ECLITE_EVENT_SYSTEMP3_ALERT :: u32 where "ECLITE_EVENT_SYSTEMP3_ALERT = 0x0A"
definition ECLITE_EVENT_UCSI_UPDATE :: u32 where "ECLITE_EVENT_UCSI_UPDATE = 0x0C"
definition ECLITE_EVENT_CPUTEMP_UPDATE :: u32 where "ECLITE_EVENT_CPUTEMP_UPDATE = 0x0F"

type_synonym 's event_scheds = "u32 \<Rightarrow> 's send_sched"

definition send_ev ::
    "ec_env \<Rightarrow> 'a ec_state_scheme event_scheds \<Rightarrow> u32 \<Rightarrow> 'a ec_state_scheme \<Rightarrow> 'a ec_state_scheme option" where
  "send_ev e schs ev s = map_option snd (eclite_send_event e (schs ev) ev s)"

text \<open>\<open>junk\<close> is the uninitialised member \<^verbatim>\<open>data\<close>; nothing reads it.\<close>

definition timer_periodic_callback :: "ec_env \<Rightarrow> u32 \<Rightarrow> 'a ec_state_scheme \<Rightarrow> 'a ec_state_scheme" where
  "timer_periodic_callback e junk s = post e TIMER_EVENT junk s"

definition timer_event_process :: "ec_env \<Rightarrow> 'a ec_state_scheme \<Rightarrow> 'a ec_state_scheme" where
  "timer_event_process e s = post e THERMAL_EVENT 0 s"

section \<open>Power decisions\<close>

definition MAX_PERCENTAGE :: nat where "MAX_PERCENTAGE = 100"

definition power_state_change :: "ec_env \<Rightarrow> pmc_notification \<Rightarrow> 'a ec_state_scheme \<Rightarrow> int \<times> 'a ec_state_scheme" where
  "power_state_change e notification s =
     (let s1 = emit (PmcPowerState notification) s in (pmc_ret e (io s1), s1))"

text \<open>\<open>None\<close>: the full charge capacity is 0 and the code divides by it.\<close>

definition handle_low_battery_wake :: "ec_env \<Rightarrow> 'a ec_state_scheme \<Rightarrow> 'a ec_state_scheme option" where
  "handle_low_battery_wake e s =
     (let opr = eclite_opregion s; capacity = op_get ''full_charge_capacity'' opr
      in if capacity = 0 then None
         else let rem_capacity_percent = of_nat (unat (op_get ''remaining_capacity'' opr) * MAX_PERCENTAGE
                                                  div unat capacity) :: u16;
                  st = op_get ''state'' opr
              in Some (if st AND ucast BATTERY_DISCHARGING \<noteq> 0 \<and>
                          rem_capacity_percent < CONFIG_ECLITE_BATTERY_CRITICAL_LEVEL e \<and>
                          eclite_sx_state s = PM_RESET_TYPE_S3
                       then snd (power_state_change e PMC_SRT_WAKEUP s) else s))"

definition handle_crit_battery_shutdown :: "ec_env \<Rightarrow> 'a ec_state_scheme \<Rightarrow> 'a ec_state_scheme" where
  "handle_crit_battery_shutdown e s =
     (let opr = eclite_opregion s;
          capacity = uint (op_get ''full_charge_capacity'' opr);
          critical_level = uint (op_get ''critical_level'' opr);
          delta = uint (op_get ''design_capacity'' opr) div int MAX_PERCENTAGE
      in if capacity < critical_level
         then if capacity < critical_level - delta then snd (power_state_change e PMC_SRT_SHUTDOWN s) else s
         else s)"

definition handle_crit_thermal_shutdown :: "ec_env \<Rightarrow> 'a ec_state_scheme \<Rightarrow> 'a ec_state_scheme" where
  "handle_crit_thermal_shutdown e s =
     (let opr = eclite_opregion s;
          s1 = (if config_thermal_shutdown_enable e \<and>
                   TEMP_CPU_CRIT_SHUTDOWN e < sint (op_get ''cpu_temperature'' opr)
                then snd (power_state_change e PMC_SRT_SHUTDOWN s) else s)
      in if list_ex (\<lambda>f. TEMP_SYS_CRIT_SHUTDOWN e < sint (op_get f opr))
              [''systherm0_temp1'', ''systherm1_temp1'', ''systherm2_temp1'', ''systherm3_temp1'']
         then snd (power_state_change e PMC_SRT_SHUTDOWN s1) else s1)"

section \<open>Notification of the host\<close>

definition eclite_check_thermal_event ::
    "ec_env \<Rightarrow> 'a ec_state_scheme event_scheds \<Rightarrow> u16 \<Rightarrow> u32 \<Rightarrow> 'a ec_state_scheme \<Rightarrow> 'a ec_state_scheme option" where
  "eclite_check_thermal_event e schs sensor_condition host_event_id s =
     (if sensor_condition \<noteq> 0 then send_ev e schs host_event_id s else Some s)"

definition eclite_send_thermal_event ::
    "ec_env \<Rightarrow> 'a ec_state_scheme event_scheds \<Rightarrow> u16 \<Rightarrow> 'a ec_state_scheme \<Rightarrow> 'a ec_state_scheme option" where
  "eclite_send_thermal_event e schs status s =
     do {
       s \<leftarrow> eclite_check_thermal_event e schs (status AND BIT 0) ECLITE_EVENT_SYSTEMP0_ALERT s;
       s \<leftarrow> eclite_check_thermal_event e schs (status AND BIT 1) ECLITE_EVENT_SYSTEMP1_ALERT s;
       s \<leftarrow> eclite_check_thermal_event e schs (status AND BIT 2) ECLITE_EVENT_SYSTEMP2_ALERT s;
       s \<leftarrow> eclite_check_thermal_event e schs (status AND BIT 3) ECLITE_EVENT_SYSTEMP3_ALERT s;
       eclite_check_thermal_event e schs (status AND BIT CPU) ECLITE_EVENT_CPUTEMP_UPDATE s
     }"

definition eclite_send_charger_event ::
    "ec_env \<Rightarrow> 'a ec_state_scheme event_scheds \<Rightarrow> u16 \<Rightarrow> 'a ec_state_scheme \<Rightarrow> 'a ec_state_scheme option" where
  "eclite_send_charger_event e schs status s =
     (if status AND BIT 1 \<noteq> 0
      then if status AND BIT 0 \<noteq> 0 then send_ev e schs ECLITE_EVENT_CHARGER_CONNECT s
           else send_ev e schs ECLITE_EVENT_CHARGER_DISCONNECT s
      else Some s)"

section \<open>Commands of the host\<close>

text \<open>\<open>junk\<close> stands for the uninitialised data of an unknown command, which is ignored.\<close>

definition process_charger_command :: "u16 \<Rightarrow> u8 \<Rightarrow> 'a ec_state_scheme \<Rightarrow> 'a ec_state_scheme option" where
  "process_charger_command junk event s =
     charger_framework_command event
       (if event = ECLITE_OS_EVENT_BTP_UPDATE then op_get ''trip_point_0'' (eclite_opregion s) else junk) s"

definition process_thermal_command :: "u16 list \<Rightarrow> u8 \<Rightarrow> 'a ec_state_scheme \<Rightarrow> 'a ec_state_scheme option" where
  "process_thermal_command junk event s =
     (let get = (\<lambda>f. op_get f (eclite_opregion s))
      in thermal_command event
           (if event = ECLITE_OS_EVENT_PWM_UPDATE then [get ''pwm_dutycyle'']
            else if event = ECLITE_OS_EVENT_THERM_ALERT_TH_UPDATE
            then [get ''sys0_alert3_1'', get ''sys0_alert1_1'', get ''sys1_alert3_1'', get ''sys1_alert1_1'',
                  get ''sys2_alert3_1'', get ''sys2_alert1_1'', get ''sys3_alert3_1'', get ''sys3_alert1_1'']
            else if event = ECLITE_OS_EVENT_CRIT_TEMP_UPDATE
            then [get ''sys0_crittemp_thr1'', get ''sys1_crittemp_thr1'', get ''sys2_crittemp_thr1'',
                  get ''sys3_crittemp_thr1'']
            else junk) s)"

definition process_ucsi_command :: "u8 \<Rightarrow> 'a ec_state_scheme \<Rightarrow> 'a ec_state_scheme" where
  "process_ucsi_command event s =
     (let s1 = (if event = ECLITE_OS_EVENT_UCSI_UPDATE
                then snd (snd (ucsi_command USBC_MSG_OUT
                       (take 16 (drop (offsetof ''msg_out_info'') (eclite_opregion s)) @
                        take 8 (drop (offsetof ''control_info'') (eclite_opregion s))) s))
                else s)
      in snd (ucsi_framework s1))"

text \<open>\<open>junk\<close> is the uninitialised buffer of 20 bytes; it reaches the region when there is no
  USB-C device to fill it.\<close>

definition eclite_send_ucsi_event ::
    "ec_env \<Rightarrow> 'a ec_state_scheme event_scheds \<Rightarrow> u8 list \<Rightarrow> 'a ec_state_scheme \<Rightarrow> 'a ec_state_scheme option" where
  "eclite_send_ucsi_event e schs junk s =
     (let buf = fst (snd (ucsi_command USBC_MSG_IN junk s));
          s1 = snd (snd (ucsi_command USBC_MSG_IN junk s));
          s2 = s1\<lparr>eclite_opregion := memcpy_at (memcpy_at (eclite_opregion s1) (offsetof ''msg_in_info'') (take 16 buf))
                   (offsetof ''cci_info'') (take 4 (drop 16 buf))\<rparr>
      in send_ev e schs ECLITE_EVENT_UCSI_UPDATE s2)"

section \<open>Pins\<close>

text \<open>The event type a device type gives; for the others the variable keeps its value.\<close>

fun gpio_event_type :: "device_type \<Rightarrow> eclite_events \<Rightarrow> eclite_events" where
  "gpio_event_type DEV_CHG old = CHG_EVENT"
| "gpio_event_type DEV_FG old = FG_EVENT"
| "gpio_event_type DEV_THERMAL old = THERMAL_EVENT"
| "gpio_event_type DEV_FAN old = THERMAL_EVENT"
| "gpio_event_type DEV_UCSI old = UCSI_EVENT"
| "gpio_event_type _ old = old"

fun gpio_event_processing ::
    "ec_env \<Rightarrow> nat \<Rightarrow> eclite_device list \<Rightarrow> u32 \<Rightarrow> eclite_events \<Rightarrow> 'a ec_state_scheme \<Rightarrow> 'a ec_state_scheme" where
  "gpio_event_processing e i [] gpio_number ev s = s"
| "gpio_event_processing e i (d # ds) gpio_number ev s =
     (if gpio_number = gpio_no (gpio_config d)
      then let s1 = (if isr d \<noteq> None then emit (IsrCall i) s else s);
               ev' = gpio_event_type (device_typ d) ev;
               s2 = post e ev' 0 s1;
               s3 = (if gpio_dev d
                     then emit (GpioReenable gpio_number (gpio_dir (gpio_config d) OR
                            ucast (pull_down_en (gpio_config d)) OR intr_type (gpio_config d))) s2
                     else s2)
           in gpio_event_processing e (i + 1) ds gpio_number ev' s3
      else gpio_event_processing e (i + 1) ds gpio_number ev s)"

section \<open>The task\<close>

definition handle_cold_plug :: "ec_env \<Rightarrow> 'a ec_state_scheme \<Rightarrow> 'a ec_state_scheme option" where
  "handle_cold_plug e s =
     do { (_, _, s1) \<leftarrow> charging_manager_callback e FG_EVENT 0 s; update_opregion DEV_FG s1 }"

text \<open>Values of uninitialised variables, chosen by the environment.\<close>

record undefs =
  u_word :: u16
  u_words :: "u16 list"
  u_bytes :: "u8 list"
  u_event :: eclite_events

definition dispatch_charger ::
    "ec_env \<Rightarrow> 'a ec_state_scheme event_scheds \<Rightarrow> undefs \<Rightarrow> eclite_events \<Rightarrow> u32 \<Rightarrow> 'a ec_state_scheme
     \<Rightarrow> 'a ec_state_scheme option" where
  "dispatch_charger e schs u ev data s =
     (if thermal_disable_d0ix s then Some s
      else if data \<noteq> 0 then process_charger_command (u_word u) (ucast data) s
      else do {
        (_, status, s) \<leftarrow> charging_manager_callback e ev 0 s;
        s \<leftarrow> update_opregion DEV_CHG s;
        s \<leftarrow> eclite_send_charger_event e schs status s;
        s \<leftarrow> (if status AND BIT 2 \<noteq> 0 then send_ev e schs ECLITE_EVENT_BATTERY s else Some s);
        s \<leftarrow> handle_low_battery_wake e s;
        Some (handle_crit_battery_shutdown e s)
      })"

definition dispatch_thermal ::
    "ec_env \<Rightarrow> 'a ec_state_scheme event_scheds \<Rightarrow> undefs \<Rightarrow> u32 \<Rightarrow> 'a ec_state_scheme \<Rightarrow> 'a ec_state_scheme option" where
  "dispatch_thermal e schs u data s =
     (if thermal_disable_d0ix s then Some s
      else if data \<noteq> 0 then process_thermal_command (u_words u) (ucast data) s
      else do {
        (_, status, s) \<leftarrow> thermal_callback e s;
        s \<leftarrow> update_opregion DEV_THERMAL s;
        s \<leftarrow> update_opregion DEV_FAN s;
        s \<leftarrow> update_opregion DEV_THERMAL_CPU s;
        s \<leftarrow> eclite_send_thermal_event e schs status s;
        Some (handle_crit_thermal_shutdown e s)
      })"

text \<open>One round of the loop; with an empty queue the task waits.  \<open>sch\<close> is the schedule of the
  reply to a read request.\<close>

definition eclite_dispatcher_round ::
    "ec_env \<Rightarrow> 'a ec_state_scheme send_sched \<Rightarrow> 'a ec_state_scheme event_scheds \<Rightarrow> undefs \<Rightarrow> 'a ec_state_scheme
     \<Rightarrow> 'a ec_state_scheme option" where
  "eclite_dispatcher_round e sch schs u s0 =
     (case dispatcher_queue s0 of
        [] \<Rightarrow> Some s0
      | q # qs \<Rightarrow>
          let s = s0\<lparr>dispatcher_queue := qs\<rparr>
          in (case event_type q of
                HECI_EVENT \<Rightarrow> map_option snd (eclite_heci_event_process e sch (event_data q) s)
              | TIMER_EVENT \<Rightarrow> Some (timer_event_process e s)
              | GPIO_EVENT \<Rightarrow> (case dev_list s of
                                None \<Rightarrow> Some s
                              | Some ds \<Rightarrow> Some (gpio_event_processing e 0 ds (event_data q) (u_event u) s))
              | CHG_EVENT \<Rightarrow> dispatch_charger e schs u CHG_EVENT (event_data q) s
              | FG_EVENT \<Rightarrow> dispatch_charger e schs u FG_EVENT (event_data q) s
              | THERMAL_EVENT \<Rightarrow> dispatch_thermal e schs u (event_data q) s
              | UCSI_EVENT \<Rightarrow> (if event_data q \<noteq> 0 then Some (process_ucsi_command (ucast (event_data q)) s)
                               else eclite_send_ucsi_event e schs (u_bytes u) s)))"

end
