(* ===== verification/Heci_Delivery.thy ===== *)
theory Heci_Delivery
  imports Heci_Run
begin

text \<open>
  Functional behaviour of the HECI driver: what a successful \<^verbatim>\<open>heci_send\<close> puts on the wire
  and what it costs, what the receiving side makes of such packets, and what the
  connection and enumeration requests of the host achieve.
\<close>

section \<open>Sending\<close>

definition client_packets :: "heci_conn \<Rightarrow> u8 list \<Rightarrow> (u32 \<times> u8 list) list" where
  "client_packets conn bs =
     packets \<lparr>hdr_fw_addr = fw_addr conn, hdr_host_addr = host_addr conn, hdr_len = 0,
              hdr_reserved = 0, hdr_secure = False, hdr_last_frag = False\<rparr>
       (chunks HECI_MAX_PAYLOAD_SIZE bs)"

definition writes :: "(u32 \<times> u8 list) list \<Rightarrow> io_log" where
  "writes ps = map (\<lambda>(d, b). IpcWrite d b) ps"

text \<open>The host is awake and nobody holds access; the doorbell and the map lock work.\<close>

definition host_up :: "'a mng_state_scheme \<Rightarrow> bool" where
  "host_up s \<longleftrightarrow> rtd3_req_map s = 0 \<and> rtd3_map_lock s = 0 \<and> mng_host_access_req s = Req_d0 \<and> sem_rtd3 s = 1"

definition link_up :: "kenv \<Rightarrow> bool" where
  "link_up e \<longleftrightarrow> zephyr_env e \<and> (\<forall>l. mutex_ret e l = 0) \<and> (\<forall>l. ipc_write_ret e l = 0)"

lemma host_up_io [simp]: "host_up (s\<lparr>io := l\<rparr>) = host_up s"
  by (simp add: host_up_def)

lemma host_up_req:
  "link_up e \<Longrightarrow> host_up s \<Longrightarrow> host_access_req e s = (0, s\<lparr>rtd3_req_map := 1, sem_rtd3 := 0\<rparr>)"
  using zephyr_envD(2) [of e 1] zephyr_envD(3) [of e 1] zephyr_envD(5) [of e]
  by (auto simp: host_access_req_def link_up_def host_up_def call_mng_host_access_req_def mng_host_req_d0_def
      take_rtd3_def Let_def case_prod_unfold BIT_def)

lemma host_up_dereq:
  "link_up e \<Longrightarrow> host_up s \<Longrightarrow>
     snd (host_access_dereq e 0 (s\<lparr>rtd3_req_map := 1, sem_rtd3 := 0, io := l\<rparr>)) = s\<lparr>io := l\<rparr>"
  using zephyr_envD(4) [of e 1 0]
  by (simp add: host_access_dereq_def link_up_def host_up_def mng_host_access_dereq_def give_rtd3_def Let_def BIT_def)

lemma HECI_M_pos: "0 < HECI_MAX_PAYLOAD_SIZE"
  by (simp add: heci_size_defs)

lemma send_fragments_start:
  assumes "list_all mrd_ok ms" and "\<not> hdr_last_frag h"
  shows "send_fragments e h (replicate HECI_MAX_PAYLOAD_SIZE 0) 0 ms s =
     Some (write_all e (packets h (chunks HECI_MAX_PAYLOAD_SIZE (mrd_bytes ms))) s)"
  using send_fragments_eq [OF cursor_ok_start [OF assms(1)], of "replicate HECI_MAX_PAYLOAD_SIZE 0" h] assms(2)
  by simp

lemma send_client_msg_ipc_writes:
  assumes "list_all mrd_ok ms" and "link_up e" and "host_up s"
  shows "send_client_msg_ipc e conn ms s =
     Some (True, s\<lparr>io := io s @ writes (client_packets conn (mrd_bytes ms))\<rparr>)"
proof -
  have w: "\<And>l. ipc_write_ret e l = 0" using assms(2) by (simp add: link_up_def)
  show ?thesis
    using host_up_dereq [OF assms(2,3)]
    by (simp add: send_client_msg_ipc_def host_up_req [OF assms(2,3)] send_fragments_start [OF assms(1)]
        write_all_success [OF w] client_packets_def writes_def case_prod_unfold)
qed

lemma total_msg_len_sum:
  "list_all mrd_ok ms \<Longrightarrow> unat t + length (mrd_bytes ms) \<le> unat m \<Longrightarrow>
     unat t + length (mrd_bytes ms) \<le> HECI_MAX_MSG_SIZE \<Longrightarrow>
     total_msg_len m t ms = int (unat t + length (mrd_bytes ms))"
proof (induction ms arbitrary: t)
  case Nil
  then show ?case by simp
next
  case (Cons d ms)
  obtain b where b: "mrd_buf d = Some b" "length b = unat (mrd_len d)" "b \<noteq> []"
    using Cons.prems(1) by (auto simp: mrd_ok_def)
  have sum: "unat (t + mrd_len d) = unat t + unat (mrd_len d)"
    using Cons.prems(3) b by (simp add: unat_word_ariths heci_size_defs)
  have "mrd_len d \<noteq> 0" using b by (auto simp: unat_eq_0)
  moreover have "total_msg_len m (t + mrd_len d) ms = int (unat (t + mrd_len d) + length (mrd_bytes ms))"
    using Cons.prems b sum by (intro Cons.IH) simp_all
  ultimately show ?case
    using Cons.prems b sum by (simp add: Let_def word_less_nat_alt)
qed

text \<open>A connection on which a message of \<open>n\<close> bytes may be sent right away.\<close>

definition can_send :: "nat \<Rightarrow> nat \<Rightarrow> 'a heci_state_scheme \<Rightarrow> bool" where
  "can_send i n s \<longleftrightarrow> i < 8 \<and> state (connections s ! i) AND HECI_CONN_STATE_OPEN \<noteq> 0 \<and>
     host_buffers (connections s ! i) \<noteq> 0 \<and> n \<le> HECI_MAX_MSG_SIZE \<and>
     (\<exists>k. conn_client (connections s ! i) = Some k \<and> n \<le> unat (max_msg_size (properties (clients s ! k))))"

lemma heci_send_writes:
  assumes "\<not> config_heci_use_dma e" and "can_send i (length (mrd_bytes ms)) s"
    and "list_all mrd_ok ms" and "link_up e" and "host_up s"
  shows "heci_send e no_others i ms s = Some (True,
     upd_conn i (\<lambda>c. c\<lparr>host_buffers := host_buffers c - 1\<rparr>)
       (s\<lparr>io := io s @ writes (client_packets (connections s ! i) (mrd_bytes ms))\<rparr>))"
proof -
  obtain k where k: "conn_client (connections s ! i) = Some k"
      "length (mrd_bytes ms) \<le> unat (max_msg_size (properties (clients s ! k)))"
    using assms(2) by (auto simp: can_send_def)
  have c: "i < 8" "state (connections s ! i) AND HECI_CONN_STATE_OPEN \<noteq> 0" "host_buffers (connections s ! i) \<noteq> 0"
      "length (mrd_bytes ms) \<le> HECI_MAX_MSG_SIZE"
    using assms(2) by (auto simp: can_send_def)
  have t: "\<not> total_msg_len (max_msg_size (properties (clients s ! k))) 0 ms < 0"
    using total_msg_len_sum [OF assms(3), of 0] k(2) c(4) by simp
  have cr: "send_credit e no_others i (lock_dev s) = Some (True, lock_dev s)"
    using c(3) by (simp add: send_credit_def conn_at_def)
  have "host_up (lock_dev s)" using assms(5) by (simp add: host_up_def)
  from send_client_msg_ipc_writes [OF assms(3,4) this] show ?thesis
    using t cr
    by (simp add: heci_send_no_dma [OF assms(1) c(1,2) k(1)] no_others_def conn_at_def upd_conn_def)
qed

text \<open>Without credit, and with nobody else running, nothing is written.\<close>

lemma fc_alone_no_credit:
  assumes "flow_ctrl_sem (connections s ! i) = Some k" and "host_buffers (connections s ! i) = 0"
  shows "\<exists>x. fc_alone e n i s = Some (False, s\<lparr>flow_ctrl_sems := x\<rparr>)"
  using assms
proof (induction n arbitrary: s)
  case 0
  then show ?case by (intro exI [of _ "flow_ctrl_sems s"]) (simp add: conn_at_def)
next
  case (Suc n)
  have "\<exists>y. fc_alone e n i (s\<lparr>flow_ctrl_sems := x\<rparr>) = Some (False, s\<lparr>flow_ctrl_sems := y\<rparr>)" for x
    using Suc.IH [of "s\<lparr>flow_ctrl_sems := x\<rparr>"] Suc.prems by simp
  then show ?case using Suc.prems by (auto simp: fc_round_def conn_at_def Let_def case_prod_unfold)
qed

lemma send_credit_alone:
  assumes "dev_ok d s" and "i < 8" and "state (connections s ! i) AND HECI_CONN_STATE_OPEN \<noteq> 0"
    and "host_buffers (connections s ! i) = 0"
  shows "\<exists>x. send_credit e no_others i (lock_dev s) =
     Some (False, (upd_conn i (\<lambda>c. c\<lparr>wait_thread_count := wait_thread_count c + 1\<rparr>) s)\<lparr>flow_ctrl_sems := x\<rparr>)"
proof -
  let ?s = "upd_conn i (\<lambda>c. c\<lparr>wait_thread_count := wait_thread_count c + 1\<rparr>) s"
  have "flow_ctrl_sem (connections s ! i) = Some i"
    using send_rely_sem(1) [of d i s] assms by (simp add: send_rely_def)
  moreover have "length (connections s) = 8" using dev_okD(2) [OF assms(1)] by simp
  ultimately have "flow_ctrl_sem (connections ?s ! i) = Some i" "host_buffers (connections ?s ! i) = 0"
    using assms(2,4) by (simp_all add: upd_conn_def)
  with fc_alone_no_credit [OF this, of e "flow_ctrl_sems ?s ! i"]
  have "\<exists>x. heci_wait_for_flow_control e [] i ?s = Some (False, ?s\<lparr>flow_ctrl_sems := x\<rparr>)"
    by (auto simp: conn_at_def)
  moreover have "unlock_dev (upd_conn i (\<lambda>c. c\<lparr>wait_thread_count := wait_thread_count c + 1\<rparr>) (lock_dev s)) = ?s"
    by (simp add: upd_conn_def)
  ultimately show ?thesis
    using assms(4) by (auto simp: send_credit_def no_others_def conn_at_def)
qed

lemma heci_send_no_credit:
  assumes "\<not> config_heci_use_dma e" and "dev_ok d s" and "i < 8"
    and "host_buffers (connections s ! i) = 0"
  shows "ok (heci_send e no_others i ms s) (\<lambda>(b, s'). \<not> b \<and> io s' = io s)"
proof (cases "state (connections s ! i) AND HECI_CONN_STATE_OPEN = 0")
  case True
  then show ?thesis
    using assms(3) by (simp add: heci_send_def cal_send_msg_len_def heci_size_defs conn_at_def)
next
  case False
  have "send_rely d i s" using assms False by (simp add: send_rely_def)
  then obtain k where k: "conn_client (connections s ! i) = Some k" using send_rely_sem(2) by blast
  then show ?thesis
    using send_credit_alone [OF assms(2,3) False assms(4), of e]
    by (auto simp: heci_send_no_dma [OF assms(1,3) False k] no_others_def upd_conn_def)
qed

section \<open>Receiving what was sent\<close>

text \<open>The packets of one side, decoded and handed to the other side one after the other.\<close>

lemma packets_reassemble:
  assumes "heci_find_conn fa ha (HECI_CONN_STATE_OPEN OR HECI_CONN_STATE_PROCESSING_MSG) s = Some i"
    and "dev_ok d s" and "state (connections s ! i) = HECI_CONN_STATE_OPEN"
    and "conn_client (connections s ! i) = Some k" and "rx_msg (properties (clients s ! k)) = Some p"
    and "\<not> rx_locked (rx_heap s p)" and "conn_event_cb (connections s ! i) = Some cb"
    and "fits (properties (clients s ! k)) (length bs)" and "bs \<noteq> []"
    and "fw_addr conn = fa" and "host_addr conn = ha"
  shows "ok (recv_all e (map (\<lambda>(d, b). dec_bus_msg b) (client_packets conn bs)) s) (\<lambda>s'. delivered i p bs s' \<and>
     io s' = io s @ [ClientEvent cb HECI_EVENT_NEW_MSG (conn_param (connections s ! i))])"
proof -
  let ?M = HECI_MAX_PAYLOAD_SIZE
  have i: "i < 8" by (rule heci_find_conn_SomeD(1) [OF assms(2,1)])
  have "conn_ok (clients s) (registered_clients s) i (connections s ! i)" by (rule dev_okD(9) [OF assms(2) i])
  then have "k < registered_clients s" using assms(3,4) by (auto simp: conn_ok_def conn_state_nums)
  moreover have "registered_clients s \<le> 8" by (rule dev_okD(4) [OF assms(2)])
  ultimately have c: "client_ok (rx_heap s) (properties (clients s ! k))"
    using dev_okD(8) [OF assms(2), of k] by (simp add: slot_ok_def)
  have cc: "concat (chunks ?M bs) = bs" by (rule concat_chunks) (simp add: heci_size_defs)
  have "fragments_of fa ha (chunks ?M bs) (map (\<lambda>(d, b). dec_bus_msg b) (client_packets conn bs))"
    unfolding client_packets_def using assms(10,11) by (intro packets_carry) (auto dest: chunks_bounded)
  from reassembly [OF assms(1) _ assms(3-6) c assms(7) this] show ?thesis
    using assms(8,9) i dev_okD(2) [OF assms(2)] chunks_eq_Nil [of ?M bs] by (simp add: cc HECI_M_pos)
qed

section \<open>Replies\<close>

definition bus_packet :: "u8 list \<Rightarrow> io_event" where
  "bus_packet data = IpcWrite (IPC_BUILD_DRBL (length data + SIZEOF_HDR) IPC_PROTOCOL_HECI)
     (enc_hdr \<lparr>hdr_fw_addr = HECI_DRIVER_ADDRESS, hdr_host_addr = HECI_DRIVER_ADDRESS,
        hdr_len = of_nat (length data), hdr_reserved = 0, hdr_secure = False, hdr_last_frag = True\<rparr> @ data)"

lemma send_bus_writes:
  assumes "length data \<le> HECI_MAX_PAYLOAD_SIZE" and "link_up e" and "host_up s"
  shows "send_bus e data s = Some (s\<lparr>io := io s @ [bus_packet data]\<rparr>)"
  using assms(1) host_up_dereq [OF assms(2,3)]
  by (simp add: send_bus_def heci_send_proto_msg_def host_up_req [OF assms(2,3)] Let_def case_prod_unfold
      bus_packet_def ipc_write_msg_def emit_def)

text \<open>The address bitmap of the enumeration and the clients it activates.\<close>

lemma heci_enum_resp_writes:
  assumes "dev_ok d s" and "hdr_len (hdr msg) = 4" and "link_up e" and "host_up s"
  shows "\<exists>addrs s'. heci_enum_resp e msg s = Some s' \<and>
     io s' = io s @ [bus_packet (enc_host_enum_resp
       \<lparr>er_command = GEN_RESP HECI_BUS_MSG_HOST_ENUM_REQ, er_valid_addresses = addrs\<rparr>)] \<and>
     (\<forall>a < 256. bit (addrs ! (a div 32)) (a mod 32) \<longleftrightarrow> 32 \<le> a \<and> a < 32 + registered_clients s) \<and>
     (\<forall>k < registered_clients s. active (clients s' ! k))"
proof -
  note len = dev_okD(1,4) [OF assms(1)]
  obtain addrs cs where r: "enum_clients 0 (registered_clients s) (replicate 8 0) (clients s) = Some (addrs, cs)"
      "length addrs = 8" "\<And>k. cs ! k = (if k < registered_clients s then (clients s ! k)\<lparr>active := True\<rparr> else clients s ! k)"
      "\<And>a. a < 256 \<Longrightarrow> bit (addrs ! (a div 32)) (a mod 32) \<longleftrightarrow>
          (\<exists>k < registered_clients s. unat (client_addr (clients s ! k)) = a)"
    using enum_clients_spec [of 0 "registered_clients s" "clients s" "replicate 8 0"] len by auto
  have "unat (client_addr (clients s ! k)) = 32 + k" if "k < registered_clients s" for k
  proof -
    have "client_addr (clients s ! k) = of_nat (32 + k)"
      using dev_okD(8) [OF assms(1), of k] that len(2) by (simp add: slot_ok_def)
    then show ?thesis using that len(2) by (simp only: unat_of_nat) simp
  qed
  then have bits: "bit (addrs ! (a div 32)) (a mod 32) \<longleftrightarrow> 32 \<le> a \<and> a < 32 + registered_clients s"
    if "a < 256" for a
    using r(4) [OF that] by (auto intro!: exI [of _ "a - 32"])
  have "host_up (s\<lparr>clients := cs\<rparr>)" using assms(4) by (simp add: host_up_def)
  from send_bus_writes [OF _ assms(3) this] show ?thesis
    using r(1-3) bits assms(2) by (auto simp: heci_enum_resp_def Let_def intro!: exI [of _ addrs])
qed

section \<open>Connection requests\<close>

text \<open>Specification of the status a connection request is answered with.\<close>

definition connect_status :: "heci_conn_req \<Rightarrow> 'a heci_state_scheme \<Rightarrow> u8" where
  "connect_status req s =
     (if \<not> (\<exists>c \<in> set (clients s). client_addr c = cq_fw_addr req) then HECI_CONNECT_STATUS_CLIENT_NOT_FOUND
      else let c = clients s ! the (find_idx (\<lambda>c. client_addr c = cq_fw_addr req) (clients s))
           in if cq_host_addr req = 0 then HECI_CONNECT_STATUS_REJECTED
              else if \<not> active c then HECI_CONNECT_STATUS_INACTIVE_CLIENT
              else if n_of_conns c = max_n_of_connections (properties c)
                   \<or> (\<forall>x \<in> set (connections s). state x \<noteq> HECI_CONN_STATE_UNUSED)
                   \<or> (case rx_msg (properties c) of None \<Rightarrow> False | Some p \<Rightarrow> rx_locked (rx_heap s p))
              then HECI_CONNECT_STATUS_REJECTED
              else HECI_CONNECT_STATUS_SUCCESS)"

lemma connect_open_result:
  assumes dev: "dev_ok d s" and j: "j < 8" and k: "k < registered_clients s"
    and p: "rx_msg (properties (clients s ! k)) = Some p"
  shows "ok (connect_open e req k j s) (\<lambda>(st, s'). host_up s' = host_up s \<and>
     (if rx_locked (rx_heap s p)
     then st = HECI_CONNECT_STATUS_REJECTED \<and> clients s' = clients s \<and>
       map state (connections s') = map state (connections s)
     else st = HECI_CONNECT_STATUS_SUCCESS \<and>
       clients s' = (clients s)[k := (clients s ! k)\<lparr>n_of_conns := n_of_conns (clients s ! k) + 1\<rparr>] \<and>
       connections s' = (connections s)[j := connections s' ! j] \<and>
       state (connections s' ! j) = HECI_CONN_STATE_OPEN \<and>
       fw_addr (connections s' ! j) = cq_fw_addr req \<and> host_addr (connections s' ! j) = cq_host_addr req \<and>
       conn_client (connections s' ! j) = Some k \<and> rx_locked (rx_heap s' p) \<and>
       rx_type (rx_heap s' p) = HECI_CONNECT))"
proof -
  note d = dev_okD [OF dev]
  have k8: "k < length (clients s)" using k d(1,4) by simp
  have thr: "unat (num_of_threads (properties (clients s ! k))) \<le> length (thread_handle_list (properties (clients s ! k)))"
    using client_of_slot [OF dev k] by (simp add: client_ok_def)
  define gl where "gl t = (if config_userspace e then io t @ map AccessGrant (List.map_filter id
      (take (unat (num_of_threads (properties (clients s ! k)))) (thread_handle_list (properties (clients s ! k)))))
      else io t)" for t :: "'a heci_state_scheme"
  have gr: "grant_threads e (properties (clients s ! k)) t = Some (t\<lparr>io := gl t\<rparr>)" for t :: "'a heci_state_scheme"
    using thr by (simp add: grant_threads_def gl_def)
  show ?thesis
  proof (cases "rx_locked (rx_heap s p)")
    case True
    have "map state ((connections s)[j := (connections s ! j)\<lparr>rx_buffer := None\<rparr>]) = map state (connections s)"
      using j d(2) by (simp add: map_update list_update_same_conv)
    then show ?thesis
      using True by (simp add: connect_open_def heci_get_buffer_from_pool_def p Let_def upd_conn_def host_up_def)
  next
    case False
    then show ?thesis
      using j k8 d(2)
      by (simp add: connect_open_def heci_get_buffer_from_pool_def p Let_def upd_conn_def upd_client_def
          upd_rx_def gr conn_at_def heci_notify_client_def emit_def host_up_def split: option.splits)
  qed
qed

lemma connect_try_result:
  assumes dev: "dev_ok d s"
  shows "ok (connect_try e req s) (\<lambda>(st, s'). st = connect_status req s \<and> host_up s' = host_up s \<and>
     (if st = HECI_CONNECT_STATUS_SUCCESS
      then \<exists>j k. j < 8 \<and> state (connections s ! j) = HECI_CONN_STATE_UNUSED \<and>
             connections s' = (connections s)[j := connections s' ! j] \<and>
             state (connections s' ! j) = HECI_CONN_STATE_OPEN \<and>
             fw_addr (connections s' ! j) = cq_fw_addr req \<and> host_addr (connections s' ! j) = cq_host_addr req \<and>
             conn_client (connections s' ! j) = Some k \<and> client_addr (clients s ! k) = cq_fw_addr req \<and>
             clients s' = (clients s)[k := (clients s ! k)\<lparr>n_of_conns := n_of_conns (clients s ! k) + 1\<rparr>]
      else clients s' = clients s \<and> map state (connections s') = map state (connections s)))"
proof (cases "find_idx (\<lambda>c. client_addr c = cq_fw_addr req) (clients s)")
  case None
  then have "\<not> (\<exists>c \<in> set (clients s). client_addr c = cq_fw_addr req)" by (simp add: find_idx_None)
  then show ?thesis
    using None by (simp add: connect_try_def connect_status_def conn_status_defs)
next
  case (Some k)
  let ?c = "clients s ! k"
  let ?slot = "find_idx (\<lambda>c. state c = HECI_CONN_STATE_UNUSED) (connections s)"
  have ex: "\<exists>c \<in> set (clients s). client_addr c = cq_fw_addr req"
    using find_idx_SomeD(1,2) [OF Some] nth_mem by blast
  have slot: "?slot = None \<longleftrightarrow> (\<forall>x \<in> set (connections s). state x \<noteq> HECI_CONN_STATE_UNUSED)"
    by (rule find_idx_None)
  show ?thesis
  proof (cases "cq_host_addr req = 0 \<or> \<not> active ?c \<or> n_of_conns ?c = max_n_of_connections (properties ?c) \<or> ?slot = None")
    case True
    then show ?thesis
      using Some ex by (auto simp: connect_try_def connect_status_def Let_def conn_status_defs slot [symmetric])
  next
    case False
    then obtain j where j: "?slot = Some j" by auto
    define t where "t = upd_conn j (\<lambda>c. c\<lparr>connection_id := of_nat j\<rparr>) s"
    have j8: "j < 8" "state (connections s ! j) = 0" "j < length (connections s)"
      using find_idx_SomeD(1,2) [OF j] dev_okD(2) [OF dev] by (auto simp: conn_state_nums)
    have t: "dev_ok d t"
      unfolding t_def using dev j8 dev_okD(9) [OF dev j8(1)] by (intro dev_ok_upd_conn) (auto simp: conn_ok_def)
    have k: "k < registered_clients t" using used_slot(1) [OF dev Some] False by (simp add: t_def)
    have same: "clients t = clients s" "rx_heap t = rx_heap s" "host_up t = host_up s"
        "(connections t)[j := x] = (connections s)[j := x]" for x
      by (simp_all add: t_def upd_conn_def host_up_def)
    have "map state (connections t) = (map state (connections s))[j := state (connections s ! j)]"
      by (simp add: t_def upd_conn_def map_update)
    then have st: "map state (connections t) = map state (connections s)"
      using j8(3) by (simp add: list_update_same_conv)
    obtain p where p: "rx_msg (properties (clients t ! k)) = Some p" using get_buffer_ok [OF t k] by blast
    have "\<exists>x \<in> set (connections s). state x = HECI_CONN_STATE_UNUSED"
      using j8 nth_mem [OF j8(3)] by (auto simp: conn_state_nums intro!: bexI [of _ "connections s ! j"])
    then have "connect_status req s = (if rx_locked (rx_heap s p) then HECI_CONNECT_STATUS_REJECTED
        else HECI_CONNECT_STATUS_SUCCESS)"
      using False ex p by (auto simp: connect_status_def Some same Let_def)
    moreover have "connect_try e req s = connect_open e req k j t"
      using False Some j by (simp add: connect_try_def t_def Let_def)
    ultimately show ?thesis
      using connect_open_result [OF t j8(1) k p, of e req] st j8 find_idx_SomeD(2) [OF Some]
      by (auto simp: same conn_status_defs conn_state_nums elim!: ok_mono split: if_splits)
  qed
qed

lemma heci_connect_host_reply:
  assumes "dev_ok d s" and "hdr_len (hdr msg) = 4" and "link_up e" and "host_up s"
    and "req = dec_conn_req (payload msg)"
  shows "\<exists>s1. connect_try e req s = Some (connect_status req s, s1) \<and>
     heci_connect_host e msg s = Some (s1\<lparr>io := io s1 @ [bus_packet (enc_conn_resp
       (conn_resp HECI_BUS_MSG_CLIENT_CONNECT_REQ (cq_fw_addr req) (cq_host_addr req) (connect_status req s)))]\<rparr>)"
proof -
  obtain s1 where s1: "connect_try e req s = Some (connect_status req s, s1)" "host_up s1"
    using connect_try_result [OF assms(1), of e req] assms(4) by (auto simp: ok_iff)
  then show ?thesis
    using assms(2) send_bus_writes [OF _ assms(3) s1(2)]
    by (simp add: heci_connect_host_def assms(5) [symmetric] Let_def)
qed

section \<open>Flow control\<close>

text \<open>The credit of a flow control message goes to the connection it names and to no other.\<close>

lemma heci_flow_control_recv_credit:
  assumes "dev_ok d s" and "hdr_len (hdr msg) = 8"
    and "heci_find_conn (fc_fw_addr (dec_flow_ctrl (payload msg))) (fc_host_addr (dec_flow_ctrl (payload msg)))
           HECI_CONN_STATE_OPEN s = Some i"
  shows "ok (heci_flow_control_recv e msg s) (\<lambda>s'. connections s' = (connections s)[i := (connections s ! i)
     \<lparr>host_buffers := host_buffers (connections s ! i) +
        (if fc_number_of_packets (dec_flow_ctrl (payload msg)) = 0 then 1
         else ucast (fc_number_of_packets (dec_flow_ctrl (payload msg))))\<rparr>] \<and> io s' = io s)"
proof -
  have i: "i < 8" by (rule heci_find_conn_SomeD(1) [OF assms(1,3)])
  have "state (connections s ! i) \<noteq> 0"
    using heci_find_conn_SomeD(2) [OF assms(1,3)] by auto
  then have "flow_ctrl_sem (connections s ! i) = Some i"
    by (rule conn_ok_used [OF dev_okD(9) [OF assms(1) i]])
  then show ?thesis
    using assms(2,3) i dev_okD(2) [OF assms(1)]
    by (simp add: heci_flow_control_recv_def Let_def heci_wakeup_sender_def conn_at_def upd_conn_def)
qed

section \<open>Closing a connection\<close>

text \<open>The host asks, the client is told, and when the client completes the request the host is
  answered and the slot is free again.\<close>

lemma disconnect_completes:
  assumes dev: "dev_ok 0 s" and len: "hdr_len (hdr msg) = 4" and up: "link_up e" "host_up s"
    and req: "req = dec_conn_req (payload msg)"
    and find: "heci_find_conn (cq_fw_addr req) (cq_host_addr req)
           (HECI_CONN_STATE_OPEN OR HECI_CONN_STATE_CONNECTION_REQUEST) s = Some i"
    and cb: "conn_event_cb (connections s ! i) = Some cb"
  shows "\<exists>s1 s2 k. heci_disconnect e msg s = Some s1 \<and>
     io s1 = io s @ [ClientEvent cb HECI_EVENT_DISCONN (conn_param (connections s ! i))] \<and>
     heci_complete_disconnect e i s1 = Some (0, s2) \<and> connections s2 = (connections s)[i := conn_zero] \<and>
     conn_client (connections s ! i) = Some k \<and>
     n_of_conns (clients s2 ! k) = n_of_conns (clients s ! k) - 1 \<and>
     io s2 = io s1 @ [bus_packet (enc_conn_resp (conn_resp HECI_BUS_MSG_CLIENT_DISCONNECT_REQ
        (cq_fw_addr req) (cq_host_addr req) HECI_CONNECT_STATUS_SUCCESS))]"
proof -
  note f = heci_find_conn_SomeD [OF dev find]
  have ok: "conn_ok (clients s) (registered_clients s) i (connections s ! i)" by (rule dev_okD(9) [OF dev f(1)])
  have st: "state (connections s ! i) = 1 \<or> state (connections s ! i) = 3"
    using ok f(2) by (auto simp: conn_ok_def conn_state_nums)
  then have nz: "state (connections s ! i) \<noteq> 0" by auto
  obtain k where k: "conn_client (connections s ! i) = Some k" "k < registered_clients s"
    using conn_ok_used [OF ok nz] by blast
  have len8: "length (connections s) = 8" "length (clients s) = 8" "k < 8"
    using dev_okD(1,2,4) [OF dev] k(2) by simp_all
  define s1 where "s1 = s\<lparr>connections := (connections s)[i := (connections s ! i)\<lparr>state := 20\<rparr>],
      io := io s @ [ClientEvent cb HECI_EVENT_DISCONN (conn_param (connections s ! i))]\<rparr>"
  have d: "heci_disconnect e msg s = Some s1"
    using len find st cb f(1) len8
    by (auto simp: heci_disconnect_def s1_def Let_def conn_at_def upd_conn_def heci_notify_client_def emit_def
        conn_state_nums simp flip: req)
  have c1: "connections s1 ! i = (connections s ! i)\<lparr>state := 20\<rparr>"
    using f(1) len8(1) by (simp add: s1_def)
  define t where "t = (case rx_buffer (connections s ! i) of None \<Rightarrow> lock_dev s1
      | Some p \<Rightarrow> upd_rx p (\<lambda>b. b\<lparr>rx_type := 0, rx_length := 0, rx_connection_id := 0, rx_locked := False\<rparr>) (lock_dev s1))"
  have t: "host_up t" "connections t = connections s1" "clients t = clients s" "io t = io s1"
    using up(2) by (auto simp: t_def s1_def host_up_def upd_rx_def split: option.splits)
  have "heci_complete_disconnect e i s1 = Some (0, unlock_dev (upd_conn i (\<lambda>_. conn_zero)
      (upd_client k (\<lambda>c. c\<lparr>n_of_conns := n_of_conns c - 1\<rparr>) (t\<lparr>io := io t @ [bus_packet (enc_conn_resp
        (conn_resp HECI_BUS_MSG_CLIENT_DISCONNECT_REQ (cq_fw_addr req) (cq_host_addr req)
          HECI_CONNECT_STATUS_SUCCESS))]\<rparr>))))"
    using f k(1) send_bus_writes [OF _ up(1) t(1)] c1
    by (simp add: heci_complete_disconnect_def HECI_MAX_NUM_OF_CONNECTIONS_def HECI_MAX_NUM_OF_CLIENTS_def
        Let_def conn_at_def conn_state_nums flip: t_def)
  then show ?thesis
    using d k f(1) len8 t by (auto simp: upd_conn_def upd_client_def s1_def)
qed

section \<open>Limits of the driver\<close>

lemma flow_control_returns: "ok (heci_send_flow_control e i s) (\<lambda>_. True)"
proof -
  have "ok (heci_send_proto_msg e ha fa lf (enc_flow_ctrl fc) t) (\<lambda>_. True)" for ha fa lf fc and t :: "'a heci_state_scheme"
    using proto_msg_defined [of "enc_flow_ctrl fc" e ha fa lf t] by (auto simp: ok_iff)
  then show ?thesis by (simp add: heci_send_flow_control_def Let_def ok_bind case_prod_unfold)
qed

text \<open>Why a client must not grant flow control in the middle of a message: its buffer is taken
  away, and the next fragment meets a null pointer.\<close>

lemma flow_control_in_message:
  assumes r: "receiving fa ha i p k acc s" and "i < 8" and "length (connections s) = 8"
    and "hdr_fw_addr (hdr m) = fa" and "hdr_host_addr (hdr m) = ha"
    and fc: "heci_send_flow_control e i s = Some (b, s')"
  shows "heci_process_client_message e m s' = None"
proof -
  let ?t = "upd_conn i (\<lambda>c. c\<lparr>rx_buffer := None\<rparr>)
      (upd_rx p (\<lambda>b. b\<lparr>rx_length := 0, rx_type := 0, rx_locked := False\<rparr>) (lock_dev s))"
  obtain s3 where s3: "mng_state.more s3 = mng_state.more ?t" "s' = unlock_dev s3"
    using fc r assms(2,3)
    by (auto simp: heci_send_flow_control_def receiving_def conn_at_def conn_state_nums heci_size_defs Let_def
        split: Option.bind_splits dest: proto_msg_more)
  have c: "connections s' = (connections s)[i := (connections s ! i)\<lparr>rx_buffer := None\<rparr>]"
    using more_fields(2) [OF s3(1)] s3(2) by (simp add: upd_conn_def)
  have "find_idx (\<lambda>c. state c AND 3 \<noteq> 0 \<and> fw_addr c = fa \<and> host_addr c = ha) (connections s) = Some i"
    using r by (simp add: receiving_def heci_find_conn_def conn_state_nums)
  then have "heci_find_conn fa ha (HECI_CONN_STATE_OPEN OR HECI_CONN_STATE_PROCESSING_MSG) s' = Some i"
    using assms(2,3) by (auto simp: heci_find_conn_def c conn_state_nums find_idx_Some nth_list_update)
  then show ?thesis
    using r assms(2-5)
    by (simp add: heci_process_client_message_def heci_find_active_conn_def heci_copy_to_client_buf_def
        conn_at_def c receiving_def conn_state_nums)
qed

text \<open>An acknowledgement of the host that names memory outside the pool clears bits outside
  the bitmap.\<close>

lemma dma_ack_out_of_bounds:
  assumes "tx_pool_ok s" and "5 \<le> unat (hdr_len (hdr msg))" and "16 \<le> length (payload msg)"
    and "BITS_PER_DW * BITS_PER_DW \<le> tx_page s (get64 (payload msg) 4)"
    and "0 < unat (GET_NUM_PAGES (get32 (payload msg) 12))"
    and "tx_page s (get64 (payload msg) 4) + unat (GET_NUM_PAGES (get32 (payload msg) 12)) < 2 ^ 32"
  shows "heci_dma_xfer_ack msg s = None"
proof -
  define pi where "pi = (ucast ((get64 (payload msg) 4 - dma_addr (host_rx_dma s)) div of_nat CONFIG_HECI_PAGE_SIZE) :: u32)"
  have pi: "tx_page s (get64 (payload msg) 4) = unat pi" by (simp add: tx_page_def pi_def)
  have "unat (pi + GET_NUM_PAGES (get32 (payload msg) 12)) - unat pi = unat (GET_NUM_PAGES (get32 (payload msg) 12))"
    using assms(6) unfolding pi by (simp add: unat_word_ariths)
  then have "heci_dma_free_tx_buffer (get64 (payload msg) 4) (get32 (payload msg) 12) s = None"
    using clear_pages_out_of_bounds [of "page_bitmap (host_rx_dma s)" "unat pi"] assms(1,4,5)
    unfolding pi by (simp add: heci_dma_free_tx_buffer_def Let_def tx_pool_ok_def flip: pi_def)
  then show ?thesis
    using assms(2,3) by (simp add: heci_dma_xfer_ack_def dma_ack_loop.simps)
qed

end
