(* ===== verification/Eclite_Facts.thy ===== *)
theory Eclite_Facts
  imports Eclite_Dispatcher Heci_Delivery
begin

text \<open>
  What the EC-lite service guarantees: the host reads and writes the operation region as
  its messages say and only where it may, the region mirrors the devices, alerts are
  raised exactly for sensors out of range, and the power decisions follow the region.
\<close>

section \<open>The service and the HECI driver\<close>

definition ec_ok :: "'a ec_state_scheme \<Rightarrow> bool" where
  "ec_ok s \<longleftrightarrow> length (eclite_opregion s) = MAX_OPR_LENGTH \<and> length (eclite_tx_buffer s) = 4 + MAX_OPR_LENGTH"

lemma dev_ok_ec_fields [simp]:
  "dev_ok d (s\<lparr>eclite_opregion := a\<rparr>) = dev_ok d s"
  "dev_ok d (s\<lparr>heci_connection_id := b\<rparr>) = dev_ok d s"
  "dev_ok d (s\<lparr>data_msg_heci_send_fail := c\<rparr>) = dev_ok d s"
  "dev_ok d (s\<lparr>eclite_tx_buffer := f\<rparr>) = dev_ok d s"
  "dev_ok d (s\<lparr>dispatcher_queue := g\<rparr>) = dev_ok d s"
  by (simp_all add: dev_ok_def tables_ok_def tx_pool_ok_def gate_view_def)

text \<open>Sending leaves the part of the state behind the driver alone, and the connections open.\<close>

definition same_view :: "'a heci_state_scheme \<Rightarrow> 'a heci_state_scheme \<Rightarrow> bool" where
  "same_view s t \<longleftrightarrow> heci_state.more s = heci_state.more t \<and> map state (connections s) = map state (connections t)
     \<and> rx_heap s = rx_heap t \<and> dev_lock s = dev_lock t"

lemma same_view_refl [simp]: "same_view s s"
  by (simp add: same_view_def)

lemma same_view_trans: "same_view s t \<Longrightarrow> same_view t u \<Longrightarrow> same_view s u"
  by (simp add: same_view_def)

lemma map_update_same: "g x = g (xs ! i) \<Longrightarrow> map g (xs[i := x]) = map g xs"
  by (cases "i < length xs") (simp_all add: map_update list_update_same_conv list_update_beyond)

lemma same_view_conn:
  "same_view (upd_conn i (\<lambda>c. c\<lparr>host_buffers := f c\<rparr>) s) s"
  "same_view (upd_conn i (\<lambda>c. c\<lparr>wait_thread_count := g c\<rparr>) s) s"
  by (simp_all add: same_view_def upd_conn_def map_update_same)

lemma same_view_more:
  assumes "mng_state.more s = mng_state.more t"
  shows "same_view s t"
  using more_fields [OF assms] assms by (cases s; cases t) (simp add: same_view_def)

lemma same_view_locks:
  "same_view s (lock_dev t) \<Longrightarrow> same_view (unlock_dev s) t"
  "same_view (lock_dev s) (lock_dev t) = same_view s t"
  by (simp_all add: same_view_def)

lemma heci_send_view:
  assumes "\<not> config_heci_use_dma e" and "dev_ok d s" and "i < 8" and "list_all mrd_ok ms"
    and "heci_send e no_others i ms s = Some (b, s')"
  shows "same_view s' s"
proof (cases "state (connections s ! i) AND HECI_CONN_STATE_OPEN = 0")
  case True
  then show ?thesis
    using assms by (auto simp: heci_send_def cal_send_msg_len_def heci_size_defs conn_at_def)
next
  case False
  then have r: "send_rely d i s" using assms by (simp add: send_rely_def)
  obtain k where k: "conn_client (connections s ! i) = Some k" using send_rely_sem(2) [OF r] by blast
  note f = send_rely_sem(1) [OF r] dev_okD(2) [OF assms(2)]
  show ?thesis
  proof (cases "host_buffers (connections s ! i) = 0")
    case True
    then show ?thesis
      using assms(5) send_credit_alone [OF assms(2,3) False True, of e] same_view_conn(2) [of i "\<lambda>c. wait_thread_count c + 1" s]
      by (auto simp: heci_send_no_dma [OF assms(1,3) False k] no_others_def same_view_def split: if_splits)
  next
    case credit: False
    have cr: "send_credit e no_others i (lock_dev s) = Some (True, lock_dev s)"
      using credit by (simp add: send_credit_def conn_at_def)
    have eq: "heci_send e no_others i ms s =
        (if total_msg_len (max_msg_size (properties (clients s ! k))) 0 ms < 0 then Some (False, s)
         else send_client_msg_ipc e (connections s ! i) ms (lock_dev s) \<bind> (\<lambda>(b, s4).
           Some (b, unlock_dev
             (if b then upd_conn i (\<lambda>c. c\<lparr>host_buffers := host_buffers c - 1\<rparr>) s4 else s4))))"
      unfolding heci_send_no_dma [OF assms(1,3) False k] using cr by (simp add: no_others_def conn_at_def)
    consider "s' = s" | s4 where "send_client_msg_ipc e (connections s ! i) ms (lock_dev s) = Some (b, s4)"
      "s' = unlock_dev (if b then upd_conn i (\<lambda>c. c\<lparr>host_buffers := host_buffers c - 1\<rparr>) s4 else s4)"
      using assms(5) unfolding eq
      by (cases "total_msg_len (max_msg_size (properties (clients s ! k))) 0 ms < 0";
          cases "send_client_msg_ipc e (connections s ! i) ms (lock_dev s)") (auto split del: if_split)
    then show ?thesis
    proof cases
      case 2
      have "same_view s4 (lock_dev s)"
        by (rule same_view_more [OF send_client_msg_ipc_more [OF assms(4) 2(1)]])
      then show ?thesis
        unfolding 2(2) using same_view_trans [OF same_view_conn(1)]
        by (intro same_view_locks(1)) auto
    qed simp
  qed
qed

section \<open>Requests of the host\<close>

lemma tx_message_ok:
  "ec_ok s \<Longrightarrow> 0 < n \<Longrightarrow> n \<le> 4 + MAX_OPR_LENGTH \<Longrightarrow>
     list_all mrd_ok (tx_message n s) \<and> mrd_bytes (tx_message n s) = take n (eclite_tx_buffer s)"
  by (auto simp: tx_message_def mrd_ok_def ec_ok_def MAX_OPR_LENGTH_def unat_of_nat)

lemma ec_ok_tx_header [simp]: "ec_ok (upd_tx_header f s) = ec_ok s"
  by (auto simp: ec_ok_def upd_tx_header_def message_header_codec.length_enc memcpy_at_def MAX_OPR_LENGTH_def)

lemma fill_read_reply_buffer:
  assumes "ec_ok s" and "offset + len \<le> MAX_OPR_LENGTH"
  shows "ec_ok (fill_read_reply offset len s)"
    and "take (4 + len) (eclite_tx_buffer (fill_read_reply offset len s)) =
       enc_message_header ((dec_message_header (eclite_tx_buffer s))\<lparr>mh_revision := ECLITE_OPR_REVISION,
         mh_data_type := ECLITE_HEADER_TYPE_DATA, mh_read_write := ECLITE_HEADER_OPR_READ,
         mh_offset := of_nat offset, mh_length := of_nat len\<rparr>) @ take len (drop offset (eclite_opregion s))"
  using assms
  by (auto simp: fill_read_reply_def upd_tx_header_def ec_ok_def Let_def memcpy_at_def
      message_header_codec.length_enc)

text \<open>A read request is answered with a header that repeats offset and length, followed by the
  bytes of the region.  The event field of the header is whatever the buffer held before.\<close>

lemma read_request_reply:
  assumes h: "h = dec_message_header buf" and rd: "mh_read_write h = ECLITE_HEADER_OPR_READ"
    and rng: "unat (mh_offset h) + unat (mh_length h) \<le> MAX_OPR_LENGTH"
    and ok: "ec_ok s" and conn: "heci_connection_id s = of_nat i" "can_send i (4 + unat (mh_length h)) s"
    and up: "link_up (kern e)" "host_up s" "\<not> config_heci_use_dma (kern e)"
  shows "\<exists>s'. eclite_process_data_message e no_others buf s = Some (0, s') \<and>
     io s' = io s @ writes (client_packets (connections s ! i)
       (enc_message_header ((dec_message_header (eclite_tx_buffer s))\<lparr>mh_revision := ECLITE_OPR_REVISION,
          mh_data_type := ECLITE_HEADER_TYPE_DATA, mh_read_write := ECLITE_HEADER_OPR_READ,
          mh_offset := mh_offset h, mh_length := mh_length h\<rparr>)
        @ take (unat (mh_length h)) (drop (unat (mh_offset h)) (eclite_opregion s)))) \<and>
     eclite_opregion s' = eclite_opregion s"
proof -
  let ?off = "unat (mh_offset h)" and ?len = "unat (mh_length h)"
  define s1 where "s1 = fill_read_reply ?off ?len s"
  note f = fill_read_reply_buffer [OF ok rng, folded s1_def]
  have same: "connections s1 = connections s" "clients s1 = clients s" "io s1 = io s"
      "heci_connection_id s1 = heci_connection_id s" "host_up s1 = host_up s" "eclite_opregion s1 = eclite_opregion s"
    by (simp_all add: s1_def fill_read_reply_def upd_tx_header_def host_up_def Let_def)
  have m: "list_all mrd_ok (tx_message (4 + ?len) s1)"
      "mrd_bytes (tx_message (4 + ?len) s1) = take (4 + ?len) (eclite_tx_buffer s1)"
    using tx_message_ok [OF f(1), of "4 + ?len"] rng by simp_all
  have len: "length (take (4 + ?len) (eclite_tx_buffer s1)) = 4 + ?len"
    using f(1) rng by (simp add: ec_ok_def)
  have "can_send i (length (mrd_bytes (tx_message (4 + ?len) s1))) s1"
    using conn(2) unfolding m len by (simp add: can_send_def same)
  moreover have i: "unat (of_nat i :: u32) = i"
    using conn(2) by (simp add: can_send_def unat_of_nat)
  ultimately have "heci_send (kern e) no_others i (tx_message (4 + ?len) s1) s1 = Some (True,
     upd_conn i (\<lambda>c. c\<lparr>host_buffers := host_buffers c - 1\<rparr>)
       (s1\<lparr>io := io s1 @ writes (client_packets (connections s1 ! i) (mrd_bytes (tx_message (4 + ?len) s1)))\<rparr>))"
    using up m(1) by (intro heci_send_writes) (simp_all add: same)
  moreover have "\<not> MAX_OPR_LENGTH < ?off + ?len" using rng by simp
  ultimately show ?thesis
    using rd by (simp add: eclite_process_data_message_def Let_def same conn(1) i m(2) f(2) upd_conn_def
        flip: h s1_def)
qed

text \<open>A permitted write request changes exactly the bytes it names.\<close>

lemma write_request_effect:
  assumes "h = dec_message_header buf" and "mh_read_write h = ECLITE_HEADER_OPR_WRITE"
    and "unat (mh_offset h) + unat (mh_length h) \<le> MAX_OPR_LENGTH"
    and "eclite_verify_opreg_wr_access (unat (mh_offset h)) (unat (mh_length h))"
    and "ec_ok s" and "4 + unat (mh_length h) \<le> length buf"
  shows "\<exists>s'. eclite_process_data_message e sch buf s = Some (0, s') \<and> ec_ok s' \<and>
     (\<forall>b < MAX_OPR_LENGTH. eclite_opregion s' ! b =
        (if unat (mh_offset h) \<le> b \<and> b < unat (mh_offset h) + unat (mh_length h)
         then buf ! (4 + (b - unat (mh_offset h))) else eclite_opregion s ! b))"
proof -
  have rw: "ECLITE_HEADER_OPR_WRITE \<noteq> ECLITE_HEADER_OPR_READ"
    by (simp add: ECLITE_HEADER_OPR_WRITE_def ECLITE_HEADER_OPR_READ_def)
  have len: "unat (mh_offset h) + length (take (unat (mh_length h)) (drop 4 buf)) \<le> length (eclite_opregion s)"
    "length (take (unat (mh_length h)) (drop 4 buf)) = unat (mh_length h)"
    using assms(3,5,6) by (simp_all add: ec_ok_def)
  show ?thesis
    using assms(2-6) rw len
    by (auto simp: eclite_process_data_message_def Let_def ec_ok_def nth_memcpy_at simp flip: assms(1))
qed

text \<open>The rest of the region is safe from the host: whatever a message says, only writable bytes
  change.\<close>

definition protected_same :: "u8 list \<Rightarrow> u8 list \<Rightarrow> bool" where
  "protected_same a b \<longleftrightarrow> length a = length b \<and> (\<forall>i < length a. i \<notin> host_writable \<longrightarrow> a ! i = b ! i)"

lemma protected_same_refl [simp]: "protected_same a a"
  by (simp add: protected_same_def)

lemma same_view_opregion: "same_view s t \<Longrightarrow> eclite_opregion s = eclite_opregion t"
  by (cases s; cases t) (simp add: same_view_def)

lemma same_view_tx: "same_view s t \<Longrightarrow> eclite_tx_buffer s = eclite_tx_buffer t"
  by (cases s; cases t) (simp add: same_view_def)

lemma opregion_post [simp]: "eclite_opregion (post e ev x s) = eclite_opregion s"
  by (simp add: eclite_post_dispatcher_event_def Let_def case_prod_unfold)

lemma opregion_event_message [simp]:
  "eclite_opregion (snd (eclite_process_event_message e h s)) = eclite_opregion s"
  by (simp add: eclite_process_event_message_def)

lemma opregion_event_messageD:
  "eclite_process_event_message e h s = (r, s') \<Longrightarrow> eclite_opregion s' = eclite_opregion s"
  using opregion_event_message [of e h s] by simp

lemma data_message_protected:
  assumes ok: "ec_ok s" and dev: "dev_ok d s" and conn: "unat (heci_connection_id s) < 8"
    and "\<not> config_heci_use_dma (kern e)" and len: "4 + MAX_OPR_LENGTH \<le> length buf"
    and res: "eclite_process_data_message e no_others buf s = Some (r, s')"
  shows "protected_same (eclite_opregion s') (eclite_opregion s)"
proof -
  define h where "h = dec_message_header buf"
  let ?off = "unat (mh_offset h)" and ?len = "unat (mh_length h)"
  note def = eclite_process_data_message_def [of e no_others buf s, folded h_def, unfolded Let_def]
  consider (out) "MAX_OPR_LENGTH < ?off + ?len" | (read) "?off + ?len \<le> MAX_OPR_LENGTH" "mh_read_write h = ECLITE_HEADER_OPR_READ"
    | (wr) "?off + ?len \<le> MAX_OPR_LENGTH" "mh_read_write h = ECLITE_HEADER_OPR_WRITE"
        "mh_read_write h \<noteq> ECLITE_HEADER_OPR_READ" "eclite_verify_opreg_wr_access ?off ?len"
    | (refused) "?off + ?len \<le> MAX_OPR_LENGTH" "mh_read_write h \<noteq> ECLITE_HEADER_OPR_READ"
        "mh_read_write h = ECLITE_HEADER_OPR_WRITE \<Longrightarrow> \<not> eclite_verify_opreg_wr_access ?off ?len"
    by linarith
  then show ?thesis
  proof cases
    case out
    then show ?thesis using res def by simp
  next
    case refused
    then have "s' = s" using res def by (cases "mh_read_write h = ECLITE_HEADER_OPR_WRITE") simp_all
    then show ?thesis by simp
  next
    case read
    define s1 where "s1 = fill_read_reply ?off ?len s"
    note f = fill_read_reply_buffer(1) [OF ok read(1), folded s1_def]
    have s1: "dev_ok d s1" "heci_connection_id s1 = heci_connection_id s" "eclite_opregion s1 = eclite_opregion s"
      using dev by (simp_all add: s1_def fill_read_reply_def upd_tx_header_def Let_def)
    have "eclite_process_data_message e no_others buf s =
        heci_send (kern e) no_others (unat (heci_connection_id s)) (tx_message (4 + ?len) s1) s1 \<bind>
          (\<lambda>(ret, s2). Some (0, if ret then s2 else s2\<lparr>data_msg_heci_send_fail := True\<rparr>))"
      using def read s1(2) by (simp flip: s1_def)
    then obtain b s2 where s2: "heci_send (kern e) no_others (unat (heci_connection_id s)) (tx_message (4 + ?len) s1) s1
        = Some (b, s2)" "s' = (if b then s2 else s2\<lparr>data_msg_heci_send_fail := True\<rparr>)"
      using res by (cases "heci_send (kern e) no_others (unat (heci_connection_id s)) (tx_message (4 + ?len) s1) s1") auto
    have "list_all mrd_ok (tx_message (4 + ?len) s1)"
      using tx_message_ok [OF f, of "4 + ?len"] read(1) by simp
    from same_view_opregion [OF heci_send_view [OF assms(4) s1(1) conn this s2(1)]] show ?thesis
      using s2(2) s1(3) by simp
  next
    case wr
    have s': "s' = s\<lparr>eclite_opregion := memcpy_at (eclite_opregion s) ?off (take ?len (drop 4 buf))\<rparr>"
      using res def wr by simp
    have n: "length (take ?len (drop 4 buf)) = ?len" using wr(1) len by simp
    have "?off + ?len \<le> length (eclite_opregion s)" using ok wr(1) by (simp add: ec_ok_def)
    then show ?thesis
      using verify_access_sound [OF wr(4)] n by (auto simp: protected_same_def s' nth_memcpy_at)
  qed
qed

text \<open>The event callback writes the byte that enables events, and nothing else.\<close>

lemma check_events_protected:
  "protected_same (eclite_opregion (check_events_config_request ev s)) (eclite_opregion s)"
  by (auto simp: check_events_config_request_def protected_same_def Let_def host_writable_def
      nth_list_update split: option.splits)

section \<open>Device data in the region\<close>

lemma op_get_put_word:
  "off + 2 \<le> length (eclite_opregion s) \<Longrightarrow> offsetof f + 2 \<le> length (eclite_opregion s) \<Longrightarrow>
     offsetof f = off \<or> offsetof f + 2 \<le> off \<or> off + 2 \<le> offsetof f \<Longrightarrow>
     op_get f (eclite_opregion (put_word off v s)) = (if offsetof f = off then v else op_get f (eclite_opregion s))"
  using get16_memcpy_other [of off "le16 v" "eclite_opregion s" "offsetof f"]
    op_get_put [of f "eclite_opregion s" v]
  by (auto simp: put_word_def op_get_def op_put_def)

lemma four_Suc: "(4 :: nat) = Suc (Suc (Suc (Suc 0)))"
  by simp

lemma four_sensors: "MAX_THERMAL_SENSOR = Suc (Suc (Suc (Suc 0)))"
  by (simp add: MAX_THERMAL_SENSOR_def)

text \<open>With all four sensors there, every temperature is in its own slot.\<close>

lemma update_thermal_region_all:
  assumes "ec_ok s"
    and "\<And>i. i < 4 \<Longrightarrow> \<exists>j. find_dev_instance_by_type DEV_THERMAL (i + 1) s = Some j \<and> thermal_data s j = Some (d i)"
  shows "op_get ''systherm0_temp1'' (eclite_opregion (update_thermal_region s)) = temperature (d 0)"
    and "op_get ''systherm1_temp1'' (eclite_opregion (update_thermal_region s)) = temperature (d 1)"
    and "op_get ''systherm2_temp1'' (eclite_opregion (update_thermal_region s)) = temperature (d 2)"
    and "op_get ''systherm3_temp1'' (eclite_opregion (update_thermal_region s)) = temperature (d 3)"
proof -
  obtain j0 j1 j2 j3 where
    "find_dev_instance_by_type DEV_THERMAL (Suc 0) s = Some j0" "thermal_data s j0 = Some (d 0)"
    "find_dev_instance_by_type DEV_THERMAL (Suc (Suc 0)) s = Some j1" "thermal_data s j1 = Some (d 1)"
    "find_dev_instance_by_type DEV_THERMAL (Suc (Suc (Suc 0))) s = Some j2" "thermal_data s j2 = Some (d 2)"
    "find_dev_instance_by_type DEV_THERMAL (Suc (Suc (Suc (Suc 0)))) s = Some j3" "thermal_data s j3 = Some (d 3)"
    using assms(2) [of 0] assms(2) [of 1] assms(2) [of 2] assms(2) [of 3] by (auto simp: eval_nat_numeral)
  then have "update_thermal_region s =
      put_word 82 (temperature (d 3)) (put_word 80 (temperature (d 2))
        (put_word 78 (temperature (d 1)) (put_word 76 (temperature (d 0)) s)))"
    by (simp add: update_thermal_region_def four_sensors)
  moreover have "length (eclite_opregion s) = 384" using assms(1) by (simp add: ec_ok_def MAX_OPR_LENGTH_def)
  ultimately show "op_get ''systherm0_temp1'' (eclite_opregion (update_thermal_region s)) = temperature (d 0)"
    and "op_get ''systherm1_temp1'' (eclite_opregion (update_thermal_region s)) = temperature (d 1)"
    and "op_get ''systherm2_temp1'' (eclite_opregion (update_thermal_region s)) = temperature (d 2)"
    and "op_get ''systherm3_temp1'' (eclite_opregion (update_thermal_region s)) = temperature (d 3)"
    by (simp_all add: op_get_put_word length_put_word)
qed

text \<open>A missing sensor moves the later ones forward: the slot of sensor 1 then shows sensor 2.\<close>

lemma update_thermal_region_shift:
  assumes "ec_ok s" and "find_dev_instance_by_type DEV_THERMAL 1 s = None"
    and "find_dev_instance_by_type DEV_THERMAL 2 s = Some j" and "thermal_data s j = Some d"
    and "find_dev_instance_by_type DEV_THERMAL 3 s = None" and "find_dev_instance_by_type DEV_THERMAL 4 s = None"
  shows "op_get ''systherm0_temp1'' (eclite_opregion (update_thermal_region s)) = temperature d"
proof -
  have "update_thermal_region s = put_word 76 (temperature d) s"
    using assms(2-) by (simp add: update_thermal_region_def four_sensors numeral_2_eq_2 numeral_3_eq_3 four_Suc)
  then show ?thesis
    using assms(1) by (simp add: op_get_put_word ec_ok_def MAX_OPR_LENGTH_def)
qed

section \<open>Alerts\<close>

text \<open>One poll of the CPU sensor.\<close>

lemma dev_at_upd_dev:
  "dev_list s = Some ds \<Longrightarrow> i < length ds \<Longrightarrow> dev_at (upd_dev i f s) i = f (dev_at s i)"
  by (simp add: dev_at_def upd_dev_def)

lemma put_thermal_same:
  assumes "dev_list s = Some ds" and "i < length ds" and "thermal_api s i = Some api"
  shows "thermal_data (put_thermal i td s) i = Some td" and "thermal_api (put_thermal i td s) i = Some api"
    and "\<exists>ds'. dev_list (put_thermal i td s) = Some ds' \<and> length ds' = length ds"
    and "io (put_thermal i td s) = io s"
  using assms
  by (auto simp: put_thermal_def thermal_data_def thermal_api_def dev_at_def upd_dev_def
      split: driver.splits)

lemma process_cpu:
  assumes "dev_list s = Some ds" and "i < length ds" and "thermal_api s i = Some api" and "thermal_data s i = Some d"
    and "read_data api (io s) = (0, Some t)"
  shows "process_thermal (Some i) 0 CPU s =
     (if out_of_range (d\<lparr>temperature := t\<rparr>)
      then Some (0, BIT CPU, put_thermal i (d\<lparr>temperature := t, high_threshold := t + CPU_TEMP_DELTA,
             low_threshold := t - CPU_TEMP_DELTA\<rparr>) (put_thermal i (d\<lparr>temperature := t\<rparr>) s))
      else Some (0, 0, put_thermal i (d\<lparr>temperature := t\<rparr>) s))"
  using assms
  by (simp add: process_thermal_def check_thermal_condition_eq Let_def CPU_def BIT_def)

text \<open>After an alert the thresholds sit 3 degrees around the temperature, so the same reading does
  not alert again; but below 3 degrees the lower threshold wraps around and every reading does.\<close>

lemma sint16_eq: "sint (t :: u16) = (if uint t < 32768 then uint t else uint t - 65536)"
proof -
  have s: "sint t = (uint t + 32768) mod 65536 - 32768"
    by (simp add: sint_uint signed_take_bit_eq_take_bit_shift take_bit_eq_mod)
  have b: "0 \<le> uint t" "uint t < 65536" using uint_bounded [of t] by simp_all
  have "(uint t + 32768) mod 65536 = (uint t + 32768 - 65536) mod 65536"
    by (rule minus_mod_self2 [symmetric])
  moreover have "(uint t + 32768 - 65536) mod 65536 = uint t - 32768" if "\<not> uint t < 32768"
    using that b by (simp add: mod_pos_pos_trivial)
  moreover have "(uint t + 32768) mod 65536 = uint t + 32768" if "uint t < 32768"
    using that b by (simp add: mod_pos_pos_trivial)
  ultimately show ?thesis unfolding s by simp
qed

lemma cpu_window:
  assumes "3 \<le> sint t" and "sint t \<le> uint (critical d)"
  shows "\<not> out_of_range (d\<lparr>temperature := t, high_threshold := t + CPU_TEMP_DELTA, low_threshold := t - CPU_TEMP_DELTA\<rparr>)"
proof -
  have b: "0 \<le> uint t" "uint t < 65536" using uint_bounded [of t] by simp_all
  have u: "sint t = uint t" and lt: "uint t < 32768" using assms(1) b(2) unfolding sint16_eq by (auto split: if_splits)
  have ge: "3 \<le> uint t" using assms(1) u by simp
  have "uint (t + 3) = (uint t + 3) mod 65536" "uint (t - 3) = (uint t - 3) mod 65536"
    by (simp_all add: uint_word_ariths)
  then have "uint (t + 3) = uint t + 3" "uint (t - 3) = uint t - 3"
    using ge lt by (simp_all add: mod_pos_pos_trivial)
  then show ?thesis using assms(2) unfolding out_of_range_def CPU_TEMP_DELTA_def by (simp add: u)
qed

lemma cpu_window_wraps:
  assumes "sint t < 3"
  shows "out_of_range (d\<lparr>temperature := t, high_threshold := t + CPU_TEMP_DELTA, low_threshold := t - CPU_TEMP_DELTA\<rparr>)"
proof -
  have b: "0 \<le> uint t" "uint t < 65536" using uint_bounded [of t] by simp_all
  have w: "uint (t - 3) = (uint t - 3 + 65536) mod 65536"
    by (simp only: mod_add_self2) (simp add: uint_word_ariths)
  have "sint t < uint (t - 3)"
  proof (cases "uint t < 3")
    case True
    then have "(uint t - 3 + 65536) mod 65536 = uint t - 3 + 65536" using b by (simp add: mod_pos_pos_trivial)
    then show ?thesis using w True unfolding sint16_eq by simp
  next
    case False
    then have "sint t < 0" using assms b unfolding sint16_eq by (auto split: if_splits)
    then show ?thesis by (rule order_less_le_trans) simp
  qed
  then show ?thesis by (simp add: out_of_range_def CPU_TEMP_DELTA_def)
qed

lemma cpu_repoll:
  assumes "dev_list s = Some ds" and "i < length ds" and "thermal_api s i = Some api" and "thermal_data s i = Some d"
    and "\<And>l. read_data api l = (0, Some t)" and "out_of_range (d\<lparr>temperature := t\<rparr>)"
    and "process_thermal (Some i) 0 CPU s = Some (r, st, s1)"
  shows "st = BIT CPU" and "\<exists>s2. process_thermal (Some i) 0 CPU s1 =
     Some (0, if sint t < 3 \<or> uint (critical d) < sint t
      then BIT CPU else 0, s2)"
proof -
  let ?d1 = "d\<lparr>temperature := t\<rparr>"
  let ?d2 = "d\<lparr>temperature := t, high_threshold := t + CPU_TEMP_DELTA, low_threshold := t - CPU_TEMP_DELTA\<rparr>"
  note p1 = put_thermal_same [OF assms(1-3), of ?d1]
  obtain ds1 where ds1: "dev_list (put_thermal i ?d1 s) = Some ds1" "i < length ds1" using p1(3) assms(2) by auto
  note p2 = put_thermal_same [OF ds1 p1(2), of ?d2]
  obtain ds2 where ds2: "dev_list (put_thermal i ?d2 (put_thermal i ?d1 s)) = Some ds2" "i < length ds2"
    using p2(3) ds1(2) by auto
  have s1: "st = BIT CPU" "s1 = put_thermal i ?d2 (put_thermal i ?d1 s)"
    using process_cpu [OF assms(1-4) assms(5)] assms(6,7) by simp_all
  then show "st = BIT CPU" by simp
  have "process_thermal (Some i) 0 CPU s1 =
     (if out_of_range (?d2\<lparr>temperature := t\<rparr>)
      then Some (0, BIT CPU, put_thermal i (?d2\<lparr>temperature := t, high_threshold := t + CPU_TEMP_DELTA,
             low_threshold := t - CPU_TEMP_DELTA\<rparr>) (put_thermal i (?d2\<lparr>temperature := t\<rparr>) s1))
      else Some (0, 0, put_thermal i (?d2\<lparr>temperature := t\<rparr>) s1))"
    unfolding s1(2) by (rule process_cpu [OF ds2 p2(2,1) assms(5)])
  moreover have "out_of_range (?d2\<lparr>temperature := t\<rparr>) \<longleftrightarrow> sint t < 3 \<or> uint (critical d) < sint t"
    using cpu_window [of t d] cpu_window_wraps [of t d]
    by (cases "sint t < 3"; cases "uint (critical d) < sint t") (simp_all add: out_of_range_def)
  ultimately show "\<exists>s2. process_thermal (Some i) 0 CPU s1 =
     Some (0, if sint t < 3 \<or> uint (critical d) < sint t
      then BIT CPU else 0, s2)"
    by (simp split: if_splits)
qed

section \<open>Power decisions\<close>

lemma thermal_shutdown_log:
  "io (handle_crit_thermal_shutdown e s) = io s
     @ (if config_thermal_shutdown_enable e \<and>
           TEMP_CPU_CRIT_SHUTDOWN e < sint (op_get ''cpu_temperature'' (eclite_opregion s))
        then [PmcPowerState PMC_SRT_SHUTDOWN] else [])
     @ (if \<exists>f \<in> {''systherm0_temp1'', ''systherm1_temp1'', ''systherm2_temp1'', ''systherm3_temp1''}.
           TEMP_SYS_CRIT_SHUTDOWN e < sint (op_get f (eclite_opregion s))
        then [PmcPowerState PMC_SRT_SHUTDOWN] else [])"
  by (simp add: handle_crit_thermal_shutdown_def power_state_change_def Let_def emit_def)

lemma low_battery_wake_log:
  assumes "op_get ''full_charge_capacity'' (eclite_opregion s) \<noteq> 0"
    and "unat (op_get ''remaining_capacity'' (eclite_opregion s)) \<le> unat (op_get ''full_charge_capacity'' (eclite_opregion s))"
  shows "ok (handle_low_battery_wake e s) (\<lambda>s'. io s' = io s @
     (if bit (op_get ''state'' (eclite_opregion s)) 0 \<and>
         unat (op_get ''remaining_capacity'' (eclite_opregion s)) * 100
           div unat (op_get ''full_charge_capacity'' (eclite_opregion s))
         < unat (CONFIG_ECLITE_BATTERY_CRITICAL_LEVEL e) \<and> eclite_sx_state s = PM_RESET_TYPE_S3
      then [PmcPowerState PMC_SRT_WAKEUP] else []))"
proof -
  let ?c = "op_get ''full_charge_capacity'' (eclite_opregion s)"
  let ?r = "op_get ''remaining_capacity'' (eclite_opregion s)"
  define p where "p = unat ?r * 100 div unat ?c"
  have "unat ?c \<noteq> 0" using assms(1) by (simp add: unat_eq_0)
  moreover have "unat ?r * 100 div unat ?c \<le> unat ?c * 100 div unat ?c"
    using assms(2) by (intro div_le_mono mult_le_mono1)
  ultimately have "p \<le> 100" by (simp add: p_def)
  then have "unat (of_nat p :: u16) = p" by (simp add: unat_of_nat)
  moreover have "(w :: u16) AND ucast BATTERY_DISCHARGING \<noteq> 0 \<longleftrightarrow> bit w 0" for w
    using and_BIT_eq_0 [of w 0] by (simp add: BATTERY_DISCHARGING_def BIT_def)
  ultimately show ?thesis
    using assms(1)
    unfolding handle_low_battery_wake_def Let_def MAX_PERCENTAGE_def p_def [symmetric] word_less_nat_alt
    by (simp add: power_state_change_def emit_def)
qed

lemma low_battery_wake_divides:
  "op_get ''full_charge_capacity'' (eclite_opregion s) = 0 \<longleftrightarrow> handle_low_battery_wake e s = None"
  by (simp add: handle_low_battery_wake_def Let_def)

section \<open>The queue\<close>

lemma post_queue:
  "zephyr_msgq e \<Longrightarrow> dispatcher_queue (post e ev x s) =
     (if length (dispatcher_queue s) < ECLITE_QUEUE_DEPTH
      then dispatcher_queue s @ [\<lparr>event_type = ev, event_data = x\<rparr>] else dispatcher_queue s)"
  by (simp add: eclite_post_dispatcher_event_def zephyr_msgq_def Let_def)

section \<open>Events of the driver\<close>

text \<open>What processing a message keeps.\<close>

definition ec_kept :: "'a ec_state_scheme \<Rightarrow> 'a ec_state_scheme \<Rightarrow> bool" where
  "ec_kept s s' \<longleftrightarrow> dev_ok 0 s' \<and> ec_ok s' \<and> map state (connections s') = map state (connections s) \<and>
     heci_connection_id s' = heci_connection_id s"

lemma same_view_conn_id: "same_view s t \<Longrightarrow> heci_connection_id s = heci_connection_id t"
  by (cases s; cases t) (simp add: same_view_def)

lemma ec_kept_event_message:
  assumes "ec_kept s t"
  shows "ec_kept s (snd (eclite_process_event_message e h t))"
proof -
  have "ec_kept s (post e ev x t)" for ev x
    using assms by (simp add: ec_kept_def ec_ok_def eclite_post_dispatcher_event_def Let_def case_prod_unfold)
  then show ?thesis using assms by (simp add: eclite_process_event_message_def)
qed

lemma data_message_kept:
  assumes env: "heci_env (kern e)" and dev: "dev_ok 0 s" and ok: "ec_ok s" and conn: "unat (heci_connection_id s) < 8"
    and len: "4 + MAX_OPR_LENGTH \<le> length buf"
  shows "ok (eclite_process_data_message e no_others buf s) (\<lambda>(r, s'). ec_kept s s')"
proof -
  define h where "h = dec_message_header buf"
  let ?off = "unat (mh_offset h)" and ?len = "unat (mh_length h)"
  note def = eclite_process_data_message_def [of e no_others buf s, folded h_def, unfolded Let_def]
  have same: "ec_kept s s" using dev ok by (simp add: ec_kept_def)
  consider (out) "MAX_OPR_LENGTH < ?off + ?len" | (rd) "?off + ?len \<le> MAX_OPR_LENGTH" "mh_read_write h = ECLITE_HEADER_OPR_READ"
    | (wr) "?off + ?len \<le> MAX_OPR_LENGTH" "mh_read_write h \<noteq> ECLITE_HEADER_OPR_READ"
    by linarith
  then show ?thesis
  proof cases
    case out
    then show ?thesis using def same by simp
  next
    case wr
    have "ec_kept s (s\<lparr>eclite_opregion := memcpy_at (eclite_opregion s) ?off (take ?len (drop 4 buf))\<rparr>)"
      using dev ok wr(1) len by (simp add: ec_kept_def ec_ok_def)
    then show ?thesis using def same wr by simp
  next
    case rd
    define s1 where "s1 = fill_read_reply ?off ?len s"
    note f = fill_read_reply_buffer(1) [OF ok rd(1), folded s1_def]
    have s1: "dev_ok 0 s1" "heci_connection_id s1 = heci_connection_id s" "connections s1 = connections s"
      using dev by (simp_all add: s1_def fill_read_reply_def upd_tx_header_def Let_def)
    have m: "list_all mrd_ok (tx_message (4 + ?len) s1)"
      using tx_message_ok [OF f, of "4 + ?len"] rd(1) by simp
    let ?send = "heci_send (kern e) no_others (unat (heci_connection_id s)) (tx_message (4 + ?len) s1) s1"
    have "ok ?send (\<lambda>(b, s'). dev_ok 0 s')"
      using env s1(1) conn m by (intro heci_send_ok) (simp_all add: heci_env_def sched_ok_no_others)
    then obtain b s2 where s2: "?send = Some (b, s2)" "dev_ok 0 s2" by (auto simp: ok_iff)
    have v: "same_view s2 s1" using heci_send_view [OF _ s1(1) conn m s2(1)] env by (simp add: heci_env_def)
    have "ec_kept s s2"
      using v s2(2) f s1 same_view_opregion [OF v] same_view_tx [OF v] same_view_conn_id [OF v]
      by (simp add: ec_kept_def ec_ok_def same_view_def)
    then have "ec_kept s (if b then s2 else s2\<lparr>data_msg_heci_send_fail := True\<rparr>)"
      by (simp add: ec_kept_def ec_ok_def)
    moreover have "eclite_process_data_message e no_others buf s =
        ?send \<bind> (\<lambda>(ret, s2). Some (0, if ret then s2 else s2\<lparr>data_msg_heci_send_fail := True\<rparr>))"
      using def rd s1(2) by (simp flip: s1_def)
    ultimately show ?thesis using s2(1) by simp
  qed
qed

lemma process_msg_kept:
  assumes "heci_env (kern e)" and "dev_ok 0 s" and "ec_ok s" and "unat (heci_connection_id s) < 8"
    and "\<And>b. buf = Some b \<Longrightarrow> 4 + MAX_OPR_LENGTH \<le> length b"
  shows "ok (eclite_process_msg e no_others buf s) (\<lambda>(r, s'). ec_kept s s')"
proof (cases buf)
  case None
  then show ?thesis using assms by (simp add: eclite_process_msg_def ec_kept_def)
next
  case (Some b)
  have same: "ec_kept s s" using assms by (simp add: ec_kept_def)
  have "ok (if mh_data_type (dec_message_header b) = ECLITE_HEADER_TYPE_DATA
      then eclite_process_data_message e no_others b s else Some (ERROR, s)) (\<lambda>(r, s'). ec_kept s s')"
    using data_message_kept [OF assms(1-4) assms(5) [OF Some]] same by simp
  then show ?thesis
    unfolding eclite_process_msg_def Some option.case Let_def ok_bind
    by (rule ok_mono) (auto simp: case_prod_unfold ec_kept_event_message)
qed

lemma flow_control_kept:
  assumes "heci_env (kern e)" and "ec_kept s t" and "\<And>c. c \<in> set (connections s) \<Longrightarrow> state c AND HECI_CONN_STATE_PROCESSING_MSG = 0"
  shows "ok (heci_send_flow_control (kern e) i t) (\<lambda>(r, s'). dev_ok 0 s')"
proof (rule heci_send_flow_control_ok)
  show "zephyr_env (kern e)" "dev_ok 0 t" using assms(1,2) by (simp_all add: heci_env_def ec_kept_def)
  assume "i < 8"
  then have i: "i < length (connections t)" using dev_okD(2) [of 0 t] assms(2) by (simp add: ec_kept_def)
  have m: "map state (connections t) = map state (connections s)" using assms(2) by (simp add: ec_kept_def)
  then have l: "length (connections t) = length (connections s)" by (rule map_eq_imp_length_eq)
  have "state (connections t ! i) = state (connections s ! i)"
    using m i l by (metis nth_map)
  then show "state (connections t ! i) AND HECI_CONN_STATE_PROCESSING_MSG = 0"
    using assms(3) [of "connections s ! i"] i l by simp
qed

text \<open>The handler of driver events is safe.\<close>

lemma eclite_event_safe:
  assumes env: "heci_env (kern e)" and dev: "dev_ok 0 s" and ok: "ec_ok s"
    and conn: "rx_type (rx_heap s eclite_rx_msg) = HECI_REQUEST \<Longrightarrow> unat (heci_connection_id s) < 8"
    and buf: "\<And>b. rx_bytes (rx_heap s eclite_rx_msg) = Some b \<Longrightarrow> 4 + MAX_OPR_LENGTH \<le> length b"
    and idle: "\<And>c. ev = HECI_EVENT_NEW_MSG \<Longrightarrow> c \<in> set (connections s) \<Longrightarrow> state c AND HECI_CONN_STATE_PROCESSING_MSG = 0"
  shows "ok (eclite_heci_event_process e no_others ev s) (\<lambda>(r, s'). dev_ok 0 s')"
proof -
  define t where "t = s\<lparr>data_msg_heci_send_fail := False\<rparr>"
  have t: "dev_ok 0 t" "ec_ok t" "heci_connection_id t = heci_connection_id s" "rx_heap t = rx_heap s"
      "connections t = connections s"
    using dev ok by (simp_all add: t_def ec_ok_def)
  define m where "m = rx_heap t eclite_rx_msg"
  have "ok (eclite_new_msg e no_others t) (\<lambda>(r, s'). dev_ok 0 s')" if ev: "ev = HECI_EVENT_NEW_MSG"
  proof (cases "rx_locked m")
    case False
    then show ?thesis using t(1) by (simp add: eclite_new_msg_def Let_def m_def)
  next
    case locked: True
    have fin: "ok (heci_send_flow_control (kern e) i u) (\<lambda>(r, s'). dev_ok 0 s')"
      if "ec_kept v u" "connections v = connections t" for i u v
      using flow_control_kept [OF env that(1)] idle [OF ev] t(5) that(2) by simp
    define c where "c = t\<lparr>heci_connection_id := ucast (rx_connection_id m)\<rparr>"
    define c' where "c' = (if cpu_thermal_enable c then emit TimerStart c else c)"
    have c': "ec_kept c' c'" "connections c' = connections t"
      using t(1,2) by (simp_all add: c'_def c_def ec_kept_def ec_ok_def emit_def)
    let ?body = "if rx_type m = HECI_CONNECT then Some (ERROR, c')
        else if rx_type m = HECI_REQUEST then eclite_process_msg e no_others (rx_bytes m) t else Some (ERROR, t)"
    have "ok ?body (\<lambda>(r, s1). \<exists>v. ec_kept v s1 \<and> connections v = connections t)"
    proof -
      have "ok (eclite_process_msg e no_others (rx_bytes m) t) (\<lambda>(r, s'). ec_kept t s')" if "rx_type m = HECI_REQUEST"
        using env t conn buf that by (intro process_msg_kept) (simp_all add: m_def)
      moreover have "ec_kept t t" using t by (simp add: ec_kept_def)
      ultimately show ?thesis using c' by (auto simp: ok_iff)
    qed
    then obtain r s1 v where b: "?body = Some (r, s1)" and v: "ec_kept v s1" "connections v = connections t"
      by (auto simp: ok_iff simp del: if_split_asm)
    have "dev_ok 0 s1" using v(1) by (simp add: ec_kept_def)
    moreover have "ok (heci_send_flow_control (kern e) i s1 \<bind> (\<lambda>(ok, s2). Some (if ok then 0 else ERROR, s2)))
        (\<lambda>(r, s'). dev_ok 0 s')" for i
      unfolding ok_bind by (rule ok_mono [OF fin [OF v]]) auto
    ultimately show ?thesis
      using locked
      unfolding eclite_new_msg_def Let_def m_def [symmetric] c_def [symmetric] c'_def [symmetric]
      by (simp add: b)
  qed
  moreover have "ok (heci_complete_disconnect (kern e) (unat (heci_connection_id t)) t) (\<lambda>(r, s'). dev_ok 0 s')"
    using env t(1) by (intro heci_complete_disconnect_ok) (simp_all add: heci_env_def)
  ultimately show ?thesis
    using t(1)
    unfolding eclite_heci_event_process_def Let_def t_def [symmetric]
    by (auto simp: ok_bind elim!: ok_mono)
qed

end
