(* ===== verification/Sys_Mng.thy ===== *)
theory Sys_Mng
  imports Heci_Run
begin

text \<open>
  System management messages of the host (\<^verbatim>\<open>sys_mng.c\<close>): receive completion, link reset,
  time synchronisation and the RTD3 handshake, which decides when the host may enter
  runtime D3 and which access function \<^verbatim>\<open>host_access_req\<close> uses.
\<close>

definition MNG_RX_CMPL_ENABLE :: nat where "MNG_RX_CMPL_ENABLE = 0"
definition MNG_RX_CMPL_DISABLE :: nat where "MNG_RX_CMPL_DISABLE = 1"
definition MNG_RESET_NOTIFY :: nat where "MNG_RESET_NOTIFY = 3"
definition MNG_RESET_NOTIFY_ACK :: nat where "MNG_RESET_NOTIFY_ACK = 4"
definition MNG_TIME_UPDATE :: nat where "MNG_TIME_UPDATE = 5"
definition MNG_RESET_REQUEST :: nat where "MNG_RESET_REQUEST = 6"
definition MNG_RTD3_NOTIFY :: nat where "MNG_RTD3_NOTIFY = 7"
definition MNG_RTD3_NOTIFY_ACK :: nat where "MNG_RTD3_NOTIFY_ACK = 8"
definition MAX_MNG_MSG_LEN :: nat where "MAX_MNG_MSG_LEN = 128"
definition MIN_RESET_INTV :: u64 where "MIN_RESET_INTV = 100000"
definition HOST_RDY_BIT :: nat where "HOST_RDY_BIT = 7"

definition IS_HOST_UP :: "u32 \<Rightarrow> bool" where
  "IS_HOST_UP reg \<longleftrightarrow> reg AND BIT HOST_RDY_BIT \<noteq> 0"

lemmas mng_cmd_defs = MNG_RX_CMPL_ENABLE_def MNG_RX_CMPL_DISABLE_def MNG_RX_CMPL_INDICATION_def
  MNG_RESET_NOTIFY_def MNG_RESET_NOTIFY_ACK_def MNG_TIME_UPDATE_def MNG_RESET_REQUEST_def
  MNG_RTD3_NOTIFY_def MNG_RTD3_NOTIFY_ACK_def MNG_D0_NOTIFY_def MNG_D0_NOTIFY_ACK_def

record sysmng_state = heci_state +
  mng_in_msg :: "u8 list"

section \<open>Time synchronisation\<close>

definition TFMT_ART_TIME :: u8 where "TFMT_ART_TIME = 2"
definition USEC_PER_SEC :: u64 where "USEC_PER_SEC = 1000000"
definition NSEC_PER_USEC :: u64 where "NSEC_PER_USEC = 1000"

record host_clock_data =
  primary_host_time :: u64
  primary_source :: u8
  secondary_source :: u8
  clock_reserved :: u16
  secondary_host_time :: u64

definition enc_host_clock_data :: "host_clock_data \<Rightarrow> u8 list" where
  "enc_host_clock_data d = le64 (primary_host_time d) @ [primary_source d, secondary_source d]
     @ le16 (clock_reserved d) @ le64 (secondary_host_time d)"

definition dec_host_clock_data :: "u8 list \<Rightarrow> host_clock_data" where
  "dec_host_clock_data bs = \<lparr>primary_host_time = get64 bs 0, primary_source = bs ! 8,
     secondary_source = bs ! 9, clock_reserved = get16 bs 10, secondary_host_time = get64 bs 12\<rparr>"

interpretation clock_codec: byte_codec enc_host_clock_data dec_host_clock_data 20
proof unfold_locales
  fix x :: host_clock_data and ys
  let ?h = "le64 (primary_host_time x)"
  have "get64 (enc_host_clock_data x @ ys) 12 = secondary_host_time x"
    using get64_skip [of 12 0 "?h @ [primary_source x, secondary_source x] @ le16 (clock_reserved x)"
        "le64 (secondary_host_time x) @ ys"]
    by (simp add: enc_host_clock_data_def)
  moreover have "get16 (enc_host_clock_data x @ ys) 10 = clock_reserved x"
    using get16_le16 [of "clock_reserved x"] by (simp add: enc_host_clock_data_def get16_def nth_append)
  ultimately show "dec_host_clock_data (enc_host_clock_data x @ ys) = x"
    by (simp add: dec_host_clock_data_def) (simp add: enc_host_clock_data_def nth_append)
qed (simp add: enc_host_clock_data_def)

text \<open>The parameter \<^verbatim>\<open>data_len\<close> has type \<^verbatim>\<open>uint8_t\<close>.  \<^verbatim>\<open>time_t\<close> has 64 bits, so the seconds are stored as they
  are.\<close>

definition handle_host_time_sync :: "kenv \<Rightarrow> u8 list \<Rightarrow> u8 \<Rightarrow> 'a kstate_scheme \<Rightarrow> 'a kstate_scheme" where
  "handle_host_time_sync e data data_len s =
     (let sync_data = dec_host_clock_data data
      in if data_len \<noteq> 20 \<or> primary_source sync_data \<noteq> TFMT_ART_TIME then s
         else let host_art_cnt = primary_host_time sync_data div tsync_multi e;
                  host_utc_us = secondary_host_time sync_data;
                  s1 = emit TsyncSync s;
                  tsync_cnt = tsync_time e (io s1)
              in if tsync_cnt < host_art_cnt then s1
                 else let trans_us = (tsync_cnt - host_art_cnt) * USEC_PER_SEC div tsync_freq e;
                          host_utc_us' = host_utc_us + trans_us
                      in emit (ClockSet (host_utc_us' div USEC_PER_SEC)
                                 ((host_utc_us' mod USEC_PER_SEC) * NSEC_PER_USEC)) s1)"

section \<open>Reset notifications\<close>

record reset_payload_tpye =
  reset_id :: u16
  capabilities :: u16

definition enc_reset_payload :: "reset_payload_tpye \<Rightarrow> u8 list" where
  "enc_reset_payload r = le16 (reset_id r) @ le16 (capabilities r)"

definition dec_reset_payload :: "u8 list \<Rightarrow> reset_payload_tpye" where
  "dec_reset_payload bs = \<lparr>reset_id = get16 bs 0, capabilities = get16 bs 2\<rparr>"

interpretation reset_codec: byte_codec enc_reset_payload dec_reset_payload 4
proof unfold_locales
  fix x :: reset_payload_tpye and ys
  show "dec_reset_payload (enc_reset_payload x @ ys) = x"
    using get16_skip [of 2 0 "le16 (reset_id x)" "le16 (capabilities x) @ ys"]
    by (simp add: dec_reset_payload_def enc_reset_payload_def)
qed (simp add: enc_reset_payload_def)

definition send_reset_to_peer ::
    "kenv \<Rightarrow> nat \<Rightarrow> u16 \<Rightarrow> 'a mng_state_scheme \<Rightarrow> int \<times> 'a mng_state_scheme" where
  "send_reset_to_peer e command rst s =
     (let msg = \<lparr>reset_id = rst, capabilities = MNG_CAP_SUPPORTED\<rparr>;
          drbl = IPC_BUILD_MNG_DRBL command 4;
          current_time = rtc_us e (io s)
      in if last_reset_notify_time s \<noteq> 0 \<and> current_time - last_reset_notify_time s < MIN_RESET_INTV
            \<and> command = MNG_RESET_NOTIFY
         then (-1, s)
         else let (ret, s1) = ipc_write_msg e drbl (enc_reset_payload msg) s
              in (ret, if command = MNG_RESET_NOTIFY then s1\<lparr>last_reset_notify_time := current_time\<rparr> else s1))"

section \<open>Handlers\<close>

definition mng_rtd3_notify :: "kenv \<Rightarrow> 'a mng_state_scheme \<Rightarrow> 'a mng_state_scheme" where
  "mng_rtd3_notify e s =
     (let (ret, s1) = take_rtd3 e False s;
          rtd3_ready = (ret = 0);
          s2 = (if rtd3_ready
                then (emit (HostIpcEvent SEDI_PM_HOSTIPC_RTD3_NOTIFY) s1)\<lparr>mng_host_access_req := Req_rtd3_notified\<rparr>
                else s1)
      in snd (ipc_write_msg e (IPC_BUILD_MNG_DRBL MNG_RTD3_NOTIFY_ACK 4) [] s2))"

text \<open>\<^verbatim>\<open>MNG_RESET_NOTIFY\<close> falls through to the code of its acknowledgement.\<close>

definition mng_link_up :: "'a kstate_scheme \<Rightarrow> 'a kstate_scheme" where
  "mng_link_up s = emit (FwstSet HECI_READY 1) (emit (FwstSet ILUP_HOST 1) s)"

text \<open>\<open>None\<close>: the assertion on the message length fails.\<close>

definition sys_mng_handler ::
    "kenv \<Rightarrow> u32 \<Rightarrow> 'a sysmng_state_scheme \<Rightarrow> (int \<times> 'a sysmng_state_scheme) option" where
  "sys_mng_handler e drbl s =
     (let cmd = IPC_HEADER_GET_MNG_CMD drbl; drbl_ack = drbl_ack_of drbl
      in if MAX_MNG_MSG_LEN < IPC_HEADER_GET_LENGTH drbl then None
         else let s1 = s\<lparr>mng_in_msg := memcpy_at (mng_in_msg s) 0
                          (take MAX_MNG_MSG_LEN (ipc_read_data e (io s) MAX_MNG_MSG_LEN))\<rparr>;
                  s2 = snd (send_rx_complete e (emit (IpcAck drbl_ack) s1))
              in if cmd = MNG_RX_CMPL_ENABLE
                 then Some (0, s2\<lparr>rx_complete_enabled := True, rx_complete_changed := True\<rparr>)
                 else if cmd = MNG_RX_CMPL_DISABLE
                 then Some (0, s2\<lparr>rx_complete_enabled := False, rx_complete_changed := True\<rparr>)
                 else if cmd = MNG_RX_CMPL_INDICATION then Some (0, s2)
                 else if cmd = MNG_D0_NOTIFY then Some (0, mng_d0_notify e s2)
                 else if cmd = MNG_RESET_NOTIFY
                 then let s3 = heci_reset s2;
                          s4 = snd (send_reset_to_peer e MNG_RESET_NOTIFY_ACK
                                      (reset_id (dec_reset_payload (mng_in_msg s3))) s3)
                      in Some (0, mng_link_up s4)
                 else if cmd = MNG_RESET_NOTIFY_ACK then Some (0, mng_link_up s2)
                 else if cmd = MNG_TIME_UPDATE
                 then Some (0, handle_host_time_sync e (mng_in_msg s2) (of_nat (IPC_HEADER_GET_LENGTH drbl)) s2)
                 else if cmd = MNG_RESET_REQUEST then Some (0, s2)
                 else if cmd = MNG_RTD3_NOTIFY then Some (0, mng_rtd3_notify e s2)
                 else Some (-1, s2))"

definition sys_boot_handler :: "kenv \<Rightarrow> u32 \<Rightarrow> 'a sysmng_state_scheme \<Rightarrow> int \<times> 'a sysmng_state_scheme" where
  "sys_boot_handler e drbl s =
     (let s1 = snd (send_rx_complete e (emit (IpcAck 0) s))
      in (0, if drbl = BIT IPC_DRBL_BUSY_OFFS
             then snd (send_reset_to_peer e MNG_RESET_NOTIFY 0 (heci_reset s1)) else s1))"

section \<open>The handlers keep the device consistent\<close>

lemma dev_ok_mng_fields [simp]:
  "dev_ok d (s\<lparr>mng_in_msg := m\<rparr>) = dev_ok d s"
  "dev_ok d (t\<lparr>rx_complete_enabled := b\<rparr>) = dev_ok d t"
  "dev_ok d (t\<lparr>rx_complete_changed := b\<rparr>) = dev_ok d t"
  "dev_ok d (t\<lparr>last_reset_notify_time := n\<rparr>) = dev_ok d t"
  "dev_ok d (t\<lparr>mng_host_access_req := f\<rparr>) = dev_ok d t"
  "dev_ok d (t\<lparr>sem_rtd3 := n'\<rparr>) = dev_ok d t"
  by (simp_all add: dev_ok_def tables_ok_def tx_pool_ok_def gate_view_def)

lemma dev_ok_mng_ops [simp]:
  "dev_ok d (snd (ipc_write_msg e dr b s)) = dev_ok d s"
  "dev_ok d (snd (send_rx_complete e s)) = dev_ok d s"
  "dev_ok d (mng_d0_notify e s) = dev_ok d s"
  "dev_ok d (mng_link_up s) = dev_ok d s"
  "dev_ok d (mng_rtd3_notify e s) = dev_ok d s"
  "dev_ok d (handle_host_time_sync e data n s) = dev_ok d s"
  by (simp_all add: send_rx_complete_def ipc_write_msg_def mng_d0_notify_def mng_link_up_def
      mng_rtd3_notify_def take_rtd3_def handle_host_time_sync_def Let_def)

lemma dev_ok_send_reset [simp]: "dev_ok d (snd (send_reset_to_peer e c r s)) = dev_ok d s"
  by (simp add: send_reset_to_peer_def Let_def ipc_write_msg_def)

lemma sys_mng_handler_ok:
  assumes "dev_ok d s" and "IPC_HEADER_GET_LENGTH drbl \<le> MAX_MNG_MSG_LEN"
  shows "ok (sys_mng_handler e drbl s) (\<lambda>(r, s'). dev_ok d s')"
  using assms by (simp add: sys_mng_handler_def Let_def heci_reset_ok)

lemma sys_boot_handler_ok: "dev_ok d s \<Longrightarrow> dev_ok d (snd (sys_boot_handler e drbl s))"
  by (simp add: sys_boot_handler_def Let_def heci_reset_ok)

section \<open>What the handlers do\<close>

text \<open>The clock is set to the time of the host plus the time the message travelled.\<close>

lemma clock_set_split:
  fixes us :: u64
  shows "unat (us div USEC_PER_SEC) * 1000000 + unat ((us mod USEC_PER_SEC) * NSEC_PER_USEC) div 1000 = unat us"
    and "unat ((us mod USEC_PER_SEC) * NSEC_PER_USEC) < 1000000000"
proof -
  have m: "unat (us mod 1000000) = unat us mod 1000000" by (simp add: unat_mod)
  then have "unat (us mod 1000000) * 1000 < 2 ^ 64" by simp
  then have n: "unat ((us mod 1000000) * 1000) = unat us mod 1000000 * 1000"
    using m by (simp add: unat_word_ariths)
  show "unat (us div USEC_PER_SEC) * 1000000 + unat ((us mod USEC_PER_SEC) * NSEC_PER_USEC) div 1000 = unat us"
    using n by (simp add: USEC_PER_SEC_def NSEC_PER_USEC_def unat_div)
  show "unat ((us mod USEC_PER_SEC) * NSEC_PER_USEC) < 1000000000"
    using n by (simp add: USEC_PER_SEC_def NSEC_PER_USEC_def)
qed

end
