(* ===== verification/Host_Ipc.thy ===== *)
theory Host_Ipc
  imports Sys_Mng
begin

text \<open>
  The host service itself (\<^verbatim>\<open>host_ipc_service.c\<close>): the table of protocol handlers, the
  doorbell interrupt and the task that hands doorbells to the handlers, with the two
  initialisation functions that fill the table (\<^verbatim>\<open>heci_init\<close>, \<^verbatim>\<open>mng_and_boot_init\<close>).
\<close>

section \<open>Handler table\<close>

definition MAX_SERVICE_CLIENTS :: nat where "MAX_SERVICE_CLIENTS = 16"

text \<open>The functions the sources register.\<close>

datatype ipc_msg_handler = Handler_heci | Handler_mng | Handler_boot

record host_state = sysmng_state +
  protocol_cb :: "ipc_msg_handler option list"
  sem_ipc_read :: nat

definition host_protocol_register ::
    "nat \<Rightarrow> ipc_msg_handler option \<Rightarrow> 'a host_state_scheme \<Rightarrow> int \<times> 'a host_state_scheme" where
  "host_protocol_register prot handler s =
     (if handler = None \<or> MAX_SERVICE_CLIENTS \<le> prot then (-1, s)
      else if protocol_cb s ! prot \<noteq> None then (-1, s)
      else (0, s\<lparr>protocol_cb := (protocol_cb s)[prot := handler]\<rparr>))"

definition heci_init :: "'a host_state_scheme \<Rightarrow> int \<times> 'a host_state_scheme" where
  "heci_init s = (0, snd (host_protocol_register IPC_PROTOCOL_HECI (Some Handler_heci) (s\<lparr>dev_lock := 0\<rparr>)))"

definition mng_and_boot_init :: "kenv \<Rightarrow> 'a host_state_scheme \<Rightarrow> int \<times> 'a host_state_scheme" where
  "mng_and_boot_init e s =
     (let (ret, s1) = host_protocol_register IPC_PROTOCOL_MNG (Some Handler_mng) s
      in if ret \<noteq> 0 then (-1, s1)
         else let (ret2, s2) = host_protocol_register IPC_PROTOCOL_BOOT (Some Handler_boot) s1
              in if ret2 \<noteq> 0 then (-1, s2)
                 else (0, if IS_HOST_UP (host_comm_reg e (io s2))
                          then snd (send_reset_to_peer e MNG_RESET_NOTIFY 0 s2) else s2))"

section \<open>Doorbells\<close>

definition ipc_rx_handler :: "kenv \<Rightarrow> u32 \<Rightarrow> 'a host_state_scheme \<Rightarrow> 'a host_state_scheme" where
  "ipc_rx_handler e inbound_drbl s =
     (let s1 = s\<lparr>sem_ipc_read := k_sem_give e 1 (sem_ipc_read s)\<rparr>
      in if IPC_HEADER_GET_PROTOCOL inbound_drbl = IPC_PROTOCOL_MNG \<and>
            IPC_HEADER_GET_MNG_CMD inbound_drbl = MNG_D0_NOTIFY
         then give_rtd3 e s1 else s1)"

fun call_handler ::
    "kenv \<Rightarrow> ipc_msg_handler \<Rightarrow> u32 \<Rightarrow> 'a host_state_scheme \<Rightarrow> 'a host_state_scheme option" where
  "call_handler e Handler_heci drbl s = map_option snd (ipc_heci_handler e drbl s)"
| "call_handler e Handler_mng drbl s = map_option snd (sys_mng_handler e drbl s)"
| "call_handler e Handler_boot drbl s = Some (snd (sys_boot_handler e drbl s))"

text \<open>The start of \<^verbatim>\<open>ipc_rx_task\<close> and one round of its loop.\<close>

definition ipc_rx_task_init :: "kenv \<Rightarrow> 'a host_state_scheme \<Rightarrow> 'a host_state_scheme" where
  "ipc_rx_task_init e s = snd (mng_and_boot_init e (snd (heci_init s)))"

definition ipc_rx_task_round :: "kenv \<Rightarrow> u32 \<Rightarrow> 'a host_state_scheme \<Rightarrow> 'a host_state_scheme option" where
  "ipc_rx_task_round e inbound_drbl s =
     (let s1 = s\<lparr>sem_ipc_read := snd (k_sem_take e (sem_ipc_read s) False)\<rparr>;
          protocol = IPC_HEADER_GET_PROTOCOL inbound_drbl
      in if MAX_SERVICE_CLIENTS \<le> protocol then None
         else case protocol_cb s1 ! protocol of
                None \<Rightarrow> Some (emit (IpcAck (drbl_ack_of inbound_drbl)) s1)
              | Some h \<Rightarrow> call_handler e h inbound_drbl s1)"

text \<open>Static storage before the task starts.\<close>

definition host_boot :: host_state where
  "host_boot = sysmng_state.extend
     (heci_state.extend heci_boot (sysmng_state.fields (replicate MAX_MNG_MSG_LEN 0)))
     (host_state.fields (replicate MAX_SERVICE_CLIENTS None) 0)"

section \<open>Facts\<close>

lemma protocol_in_range: "IPC_HEADER_GET_PROTOCOL drbl < MAX_SERVICE_CLIENTS"
proof -
  have "unat (take_bit 4 (drop_bit 10 drbl)) < 2 ^ 4"
    using take_bit_nat_less_exp [of 4 "unat (drop_bit 10 drbl)"] by (simp add: unsigned_take_bit_eq)
  then show ?thesis
    by (simp add: IPC_HEADER_GET_PROTOCOL_def MAX_SERVICE_CLIENTS_def and_0xF)
qed

lemma dev_ok_host_fields [simp]:
  "dev_ok d (s\<lparr>protocol_cb := t\<rparr>) = dev_ok d s"
  "dev_ok d (s\<lparr>sem_ipc_read := n\<rparr>) = dev_ok d s"
  by (simp_all add: dev_ok_def tables_ok_def tx_pool_ok_def gate_view_def)

lemma dev_ok_protocol_register [simp]: "dev_ok d (snd (host_protocol_register p h s)) = dev_ok d s"
  by (simp add: host_protocol_register_def)

lemma dev_ok_ipc_rx_handler [simp]: "dev_ok d (ipc_rx_handler e drbl s) = dev_ok d s"
  by (simp add: ipc_rx_handler_def Let_def give_rtd3_def)

text \<open>The handlers of the protocols after start-up.\<close>

definition handler_of :: "nat \<Rightarrow> ipc_msg_handler option" where
  "handler_of p = (if p = IPC_PROTOCOL_BOOT then Some Handler_boot
     else if p = IPC_PROTOCOL_HECI then Some Handler_heci
     else if p = IPC_PROTOCOL_MNG then Some Handler_mng else None)"

definition table_ok :: "'a host_state_scheme \<Rightarrow> bool" where
  "table_ok s \<longleftrightarrow> length (protocol_cb s) = MAX_SERVICE_CLIENTS \<and>
     (\<forall>p < MAX_SERVICE_CLIENTS. protocol_cb s ! p = handler_of p)"

lemmas record_extend_defs = sysmng_state.extend_def heci_state.extend_def sysmng_state.fields_def
  host_state.fields_def

lemma host_boot_simps [simp]:
  "protocol_cb host_boot = replicate MAX_SERVICE_CLIENTS None" "dev_lock host_boot = 0"
  "rtd3_req_map host_boot = 0" "sem_rtd3 host_boot = 1" "mng_host_access_req host_boot = Req_d0"
  "io host_boot = []"
  by (simp_all add: host_boot_def record_extend_defs heci_boot_def)

lemma dev_ok_host_boot: "dev_ok 0 host_boot"
proof -
  have "clients host_boot = clients heci_boot" "connections host_boot = connections heci_boot"
    "flow_ctrl_sems host_boot = flow_ctrl_sems heci_boot" "rx_heap host_boot = rx_heap heci_boot"
    "registered_clients host_boot = registered_clients heci_boot"
    "host_rx_dma host_boot = host_rx_dma heci_boot" "gate_view host_boot = gate_view heci_boot"
    "dev_lock host_boot = dev_lock heci_boot"
    by (simp_all add: host_boot_def record_extend_defs gate_view_def)
  then show ?thesis
    using dev_ok_boot by (simp add: dev_ok_def tables_ok_def tx_pool_ok_def)
qed

lemma send_reset_table [simp]: "protocol_cb (snd (send_reset_to_peer e c r s)) = protocol_cb s"
  by (simp add: send_reset_to_peer_def Let_def ipc_write_msg_def emit_def)

lemma table_ok_init: "table_ok (ipc_rx_task_init e host_boot)"
  by (auto simp: table_ok_def ipc_rx_task_init_def heci_init_def mng_and_boot_init_def
      host_protocol_register_def handler_of_def MAX_SERVICE_CLIENTS_def IPC_PROTOCOL_BOOT_def
      IPC_PROTOCOL_HECI_def IPC_PROTOCOL_MNG_def nth_list_update nth_replicate)

lemma dev_ok_unlocked: "dev_ok d s \<Longrightarrow> dev_ok n (s\<lparr>dev_lock := n\<rparr>)"
  by (simp add: dev_ok_def tables_ok_def tx_pool_ok_def gate_view_def)

lemma dev_ok_init: "dev_ok 0 (ipc_rx_task_init e host_boot)"
proof -
  have "dev_ok 0 (snd (heci_init host_boot))"
    using dev_ok_unlocked [OF dev_ok_host_boot] by (simp add: heci_init_def)
  then show ?thesis
    by (auto simp: ipc_rx_task_init_def mng_and_boot_init_def Let_def case_prod_unfold)
qed

text \<open>One round of the task, on a doorbell the assertions of the handlers admit.\<close>

lemma ipc_rx_task_round_ok:
  assumes "heci_env e" and "dev_ok d s"
    and "IPC_HEADER_GET_PROTOCOL drbl = IPC_PROTOCOL_MNG \<Longrightarrow> IPC_HEADER_GET_LENGTH drbl \<le> MAX_MNG_MSG_LEN"
    and "table_ok s"
  shows "ok (ipc_rx_task_round e drbl s) (dev_ok d)"
proof -
  let ?s = "s\<lparr>sem_ipc_read := snd (k_sem_take e (sem_ipc_read s) False)\<rparr>"
  have dev: "dev_ok d ?s" using assms(2) by simp
  have tab: "protocol_cb ?s ! IPC_HEADER_GET_PROTOCOL drbl = handler_of (IPC_HEADER_GET_PROTOCOL drbl)"
    using assms(4) protocol_in_range by (simp add: table_ok_def)
  have "ok (call_handler e h drbl ?s) (dev_ok d)" if "handler_of (IPC_HEADER_GET_PROTOCOL drbl) = Some h" for h
    using ipc_heci_handler_ok [OF _ dev, of e drbl] sys_mng_handler_ok [OF dev, of drbl e]
      sys_boot_handler_ok [OF dev, of e drbl] assms(1,3) that
    by (cases h) (auto simp: ok_map_snd heci_env_def handler_of_def split: if_splits)
  then show ?thesis
    using protocol_in_range [of drbl] tab dev
    by (auto simp: ipc_rx_task_round_def Let_def split: option.splits)
qed

end
