(* ===== verification/Smhi.thy ===== *)
theory Smhi
  imports Host_Ipc
begin

text \<open>
  The system management HECI client (\<^verbatim>\<open>heci/smhi_client.c\<close>): it answers version, time and
  reset requests of the host and reboots once a requested reset finds the connection
  closed.
\<close>

section \<open>State and messages\<close>

definition REBOOT_FLAG :: u32 where "REBOOT_FLAG = BIT 0"
definition SMHI_CONN_FLAG :: u32 where "SMHI_CONN_FLAG = BIT 1"
definition SMHI_MAX_RX_SIZE :: nat where "SMHI_MAX_RX_SIZE = 256"
definition SMHI_GET_VERSION :: "7 word" where "SMHI_GET_VERSION = 1"
definition SMHI_GET_TIME :: "7 word" where "SMHI_GET_TIME = 8"
definition SMHI_PSE_RESET :: "7 word" where "SMHI_PSE_RESET = 2"

record smhi_msg_hdr =
  smhi_command :: "7 word"
  smhi_is_response :: bool
  smhi_has_next :: bool
  smhi_reserved :: "15 word"
  smhi_status :: u8

definition enc_smhi_hdr :: "smhi_msg_hdr \<Rightarrow> u8 list" where
  "enc_smhi_hdr h = [ucast (smhi_command h) OR (if smhi_is_response h then BIT 7 else 0)]
     @ le16 ((if smhi_has_next h then BIT 0 else 0) OR push_bit 1 (ucast (smhi_reserved h))) @ [smhi_status h]"

definition dec_smhi_hdr :: "u8 list \<Rightarrow> smhi_msg_hdr" where
  "dec_smhi_hdr bs = \<lparr>smhi_command = ucast (bs ! 0), smhi_is_response = bit (bs ! 0) 7,
     smhi_has_next = bit (get16 bs 1) 0, smhi_reserved = ucast (drop_bit 1 (get16 bs 1)),
     smhi_status = bs ! 3\<rparr>"

interpretation smhi_hdr_codec: byte_codec enc_smhi_hdr dec_smhi_hdr 4
proof unfold_locales
  fix x :: smhi_msg_hdr and ys
  let ?b = "ucast (smhi_command x) OR (if smhi_is_response x then BIT 7 else 0) :: u8"
  let ?w = "(if smhi_has_next x then BIT 0 else 0) OR push_bit 1 (ucast (smhi_reserved x)) :: u16"
  have w: "get16 (enc_smhi_hdr x @ ys) 1 = ?w"
    using get16_skip [of 1 0 "[?b]" "le16 ?w @ smhi_status x # ys"] by (simp add: enc_smhi_hdr_def)
  have "ucast ?b = smhi_command x" "bit ?b 7 = smhi_is_response x"
    by ((rule bit_word_eqI)?, force simp: bit_simps dest: bit_imp_le_length)+
  moreover have "ucast (drop_bit 1 ?w) = smhi_reserved x"
    by (rule bit_word_eqI) (auto simp: bit_simps simp del: push_bit_Suc drop_bit_Suc)
  moreover have "bit ?w 0 = smhi_has_next x"
    by (simp add: BIT_def even_or_iff bit_0)
  ultimately show "dec_smhi_hdr (enc_smhi_hdr x @ ys) = x"
    unfolding dec_smhi_hdr_def w by (simp add: enc_smhi_hdr_def le16_def)
qed (simp add: enc_smhi_hdr_def)

text \<open>Addresses of the static objects: the receive descriptor and the event callback.\<close>

definition smhi_rx_msg :: rx_ptr where "smhi_rx_msg = 1"
definition smhi_event_callback_ptr :: cb_ptr where "smhi_event_callback_ptr = 1"
definition smhi_thread :: nat where "smhi_thread = 1"

record smhi_state = host_state +
  smhi_event :: u32
  smhi_event_sem :: nat
  smhi_conn_id :: u32
  smhi_flag :: u32
  smhi_tx_buffer :: "u8 list"

text \<open>The version strings are generated; the numbers they denote are a parameter.\<close>

record fw_version =
  fwver_major :: u16
  fwver_minor :: u16
  fwver_patch :: u16

section \<open>Responses\<close>

text \<open>The header of the transmit buffer, through \<^verbatim>\<open>txhdr\<close>.\<close>

definition upd_txhdr :: "(smhi_msg_hdr \<Rightarrow> smhi_msg_hdr) \<Rightarrow> 'a smhi_state_scheme \<Rightarrow> 'a smhi_state_scheme" where
  "upd_txhdr f s = s\<lparr>smhi_tx_buffer :=
     memcpy_at (smhi_tx_buffer s) 0 (enc_smhi_hdr (f (dec_smhi_hdr (smhi_tx_buffer s))))\<rparr>"

definition put_txbody :: "u8 list \<Rightarrow> 'a smhi_state_scheme \<Rightarrow> 'a smhi_state_scheme" where
  "put_txbody bs s = s\<lparr>smhi_tx_buffer := memcpy_at (smhi_tx_buffer s) 4 bs\<rparr>"

definition smhi_send ::
    "kenv \<Rightarrow> 'a smhi_state_scheme send_sched \<Rightarrow> nat \<Rightarrow> 'a smhi_state_scheme \<Rightarrow> 'a smhi_state_scheme option" where
  "smhi_send e sch len s = map_option snd
     (heci_send e sch (unat (smhi_conn_id s))
        [\<lparr>mrd_buf = Some (take len (smhi_tx_buffer s)), mrd_len = of_nat len\<rparr>] s)"

definition smhi_ret_version ::
    "kenv \<Rightarrow> fw_version \<Rightarrow> 'a smhi_state_scheme send_sched \<Rightarrow> 'a smhi_state_scheme \<Rightarrow> 'a smhi_state_scheme option" where
  "smhi_ret_version e v sch s =
     smhi_send e sch 12
       (put_txbody (le16 (fwver_major v) @ le16 (fwver_minor v) @ le16 (fwver_patch v) @ le16 0)
         (upd_txhdr (\<lambda>h. h\<lparr>smhi_command := SMHI_GET_VERSION\<rparr>) s))"

definition smhi_ret_time ::
    "kenv \<Rightarrow> 'a smhi_state_scheme send_sched \<Rightarrow> 'a smhi_state_scheme \<Rightarrow> 'a smhi_state_scheme option" where
  "smhi_ret_time e sch s =
     smhi_send e sch 52
       (put_txbody (le64 (rtc_get e (io s)) @ replicate 40 0)
         (upd_txhdr (\<lambda>h. h\<lparr>smhi_command := SMHI_GET_TIME\<rparr>) s))"

definition smhi_handle_reset_resp ::
    "kenv \<Rightarrow> 'a smhi_state_scheme send_sched \<Rightarrow> 'a smhi_state_scheme \<Rightarrow> 'a smhi_state_scheme option" where
  "smhi_handle_reset_resp e sch s = smhi_send e sch 8 (put_txbody (le32 0) s)"

definition smhi_process_msg ::
    "kenv \<Rightarrow> fw_version \<Rightarrow> 'a smhi_state_scheme send_sched \<Rightarrow> u8 list \<Rightarrow> 'a smhi_state_scheme
     \<Rightarrow> 'a smhi_state_scheme option" where
  "smhi_process_msg e v sch buf s =
     (let cmd = smhi_command (dec_smhi_hdr buf);
          s1 = upd_txhdr (\<lambda>h. h\<lparr>smhi_is_response := True, smhi_has_next := False,
                 smhi_reserved := 0, smhi_status := 0\<rparr>) s
      in if cmd = SMHI_GET_VERSION then smhi_ret_version e v sch s1
         else if cmd = SMHI_GET_TIME then smhi_ret_time e sch s1
         else if cmd = SMHI_PSE_RESET
         then do {
           s2 \<leftarrow> smhi_handle_reset_resp e sch s1;
           Some (s2\<lparr>smhi_flag := smhi_flag s2 OR REBOOT_FLAG\<rparr>)
         }
         else Some s1)"

section \<open>The task\<close>

definition post_smhi_process :: "'a smhi_state_scheme \<Rightarrow> 'a smhi_state_scheme" where
  "post_smhi_process s =
     (if smhi_flag s AND REBOOT_FLAG \<noteq> 0 \<and> smhi_flag s AND SMHI_CONN_FLAG = 0
      then emit SysReboot (s\<lparr>smhi_flag := smhi_flag s AND NOT REBOOT_FLAG\<rparr>)
      else s)"

definition smhi_event_callback :: "kenv \<Rightarrow> u32 \<Rightarrow> 'a smhi_state_scheme \<Rightarrow> 'a smhi_state_scheme" where
  "smhi_event_callback e event s =
     s\<lparr>smhi_event := event, smhi_event_sem := k_sem_give e 1 (smhi_event_sem s)\<rparr>"

definition smhi_new_msg ::
    "kenv \<Rightarrow> fw_version \<Rightarrow> 'a smhi_state_scheme send_sched \<Rightarrow> 'a smhi_state_scheme \<Rightarrow> 'a smhi_state_scheme option" where
  "smhi_new_msg e v sch s =
     (let m = rx_heap s smhi_rx_msg
      in if \<not> rx_locked m then Some s
         else do {
           s1 \<leftarrow> (if rx_type m = HECI_CONNECT
                  then Some (s\<lparr>smhi_flag := smhi_flag s OR SMHI_CONN_FLAG,
                               smhi_conn_id := ucast (rx_connection_id m)\<rparr>)
                  else if rx_type m = HECI_REQUEST
                  then do { buf \<leftarrow> rx_bytes m; smhi_process_msg e v sch buf s }
                  else Some s);
           map_option snd (heci_send_flow_control e (unat (smhi_conn_id s1)) s1)
         })"

text \<open>One round of the loop of \<^verbatim>\<open>smhi_task\<close>.\<close>

definition smhi_task_round ::
    "kenv \<Rightarrow> fw_version \<Rightarrow> 'a smhi_state_scheme send_sched \<Rightarrow> 'a smhi_state_scheme \<Rightarrow> 'a smhi_state_scheme option" where
  "smhi_task_round e v sch s0 =
     (let s = s0\<lparr>smhi_event_sem := snd (k_sem_take e (smhi_event_sem s0) False)\<rparr>
      in do {
        s1 \<leftarrow> (if smhi_event s = HECI_EVENT_NEW_MSG then smhi_new_msg e v sch s
               else if smhi_event s = HECI_EVENT_DISCONN
               then do {
                 (_, s') \<leftarrow> heci_complete_disconnect e (unat (smhi_conn_id s)) s;
                 Some (s'\<lparr>smhi_flag := smhi_flag s' AND NOT SMHI_CONN_FLAG\<rparr>)
               }
               else Some s);
        Some (post_smhi_process s1)
      })"

text \<open>The client the init function registers.\<close>

definition smhi_client :: heci_client where
  "smhi_client = \<lparr>protocol_id = \<lparr>data1 = 0xbb579a2e, data2 = 0xcc54, data3 = 0x4450,
       data4 = [0xb1, 0xd0, 0x5e, 0x75, 0x20, 0xdc, 0xad, 0x25]\<rparr>,
     max_msg_size = of_nat SMHI_MAX_RX_SIZE, protocol_ver = 1, max_n_of_connections = 1,
     dma_header_length = 0, dma_enabled = True, rx_buffer_len = of_nat SMHI_MAX_RX_SIZE,
     rx_msg = Some smhi_rx_msg, event_cb = Some smhi_event_callback_ptr, param = 0,
     thread_handle_list = [Some smhi_thread], num_of_threads = 1\<rparr>"

text \<open>\<open>buf\<close> is the array \<^verbatim>\<open>smhi_rx_buffer\<close>.\<close>

definition smhi_init :: "kenv \<Rightarrow> u8 list \<Rightarrow> 'a heci_state_scheme \<Rightarrow> (int \<times> 'a heci_state_scheme) option" where
  "smhi_init e buf s =
     heci_register e (Some smhi_client) (upd_rx smhi_rx_msg (\<lambda>m. m\<lparr>rx_bytes := Some buf\<rparr>) s)"

section \<open>Facts\<close>

lemma dev_ok_smhi_fields [simp]:
  "dev_ok d (s\<lparr>smhi_event := ev\<rparr>) = dev_ok d s"
  "dev_ok d (s\<lparr>smhi_event_sem := n\<rparr>) = dev_ok d s"
  "dev_ok d (s\<lparr>smhi_conn_id := c\<rparr>) = dev_ok d s"
  "dev_ok d (s\<lparr>smhi_flag := w\<rparr>) = dev_ok d s"
  "dev_ok d (s\<lparr>smhi_tx_buffer := b\<rparr>) = dev_ok d s"
  by (simp_all add: dev_ok_def tables_ok_def tx_pool_ok_def gate_view_def)

lemma smhi_client_contract:
  "length buf = SMHI_MAX_RX_SIZE \<Longrightarrow>
     client_ok ((rx_heap s)(smhi_rx_msg := rx_heap s smhi_rx_msg\<lparr>rx_bytes := Some buf\<rparr>)) smhi_client"
  by (simp add: client_ok_def smhi_client_def SMHI_MAX_RX_SIZE_def)

text \<open>Reboot is deferred until the connection is gone.\<close>

lemma post_smhi_no_reboot:
  "smhi_flag s AND SMHI_CONN_FLAG \<noteq> 0 \<Longrightarrow> post_smhi_process s = s"
  by (simp add: post_smhi_process_def)

lemma and_not_flag: "(w AND NOT SMHI_CONN_FLAG) AND SMHI_CONN_FLAG = 0"
  by (rule bit_word_eqI) (auto simp: bit_simps SMHI_CONN_FLAG_def)

lemma and_not_conn_reboot: "(w AND NOT SMHI_CONN_FLAG) AND REBOOT_FLAG = w AND REBOOT_FLAG"
  by (rule bit_word_eqI) (auto simp: bit_simps SMHI_CONN_FLAG_def REBOOT_FLAG_def)

end
