(* ===== verification/Sample_States.thy ===== *)
theory Sample_States
  imports Eclite_Facts Smhi
begin

text \<open>
  A concrete environment and concrete states: a kernel that behaves as documented, a host
  that answers, one registered client with an open connection.  The witnesses of the
  properties evaluate the model there.
\<close>

section \<open>Environment\<close>

definition lsb_position :: "u32 \<Rightarrow> nat" where
  "lsb_position w = (case find_idx (\<lambda>n. bit w n) [0..<32] of None \<Rightarrow> 0 | Some n \<Rightarrow> n + 1)"

definition sample_env :: kenv where
  "sample_env = \<lparr>ipc_write_ret = (\<lambda>_. 0), ipc_read_ret = (\<lambda>_. 0), ipc_read_data = (\<lambda>_ n. replicate n 0),
     mutex_ret = (\<lambda>_. 0), sem_given = (\<lambda>_. False),
     k_sem_take = (\<lambda>c g. (if 0 < c \<or> g then 0 else -11, c - 1)), k_sem_give = (\<lambda>l c. min l (c + 1)),
     find_lsb_set = lsb_position, d3_while_waiting = (\<lambda>_. []), rtc_us = (\<lambda>l. of_nat (length l)),
     rtc_get = (\<lambda>l. of_nat (length l)), tsync_time = (\<lambda>_. 100), tsync_multi = 1, tsync_freq = 1000000,
     dma_timeout = (\<lambda>_. False), host_comm_reg = (\<lambda>_. 0), config_heci_use_dma = False,
     config_userspace = False\<rparr>"

lemma find_idx_upt: "P n \<Longrightarrow> n < k \<Longrightarrow> (\<And>m. m < n \<Longrightarrow> \<not> P m) \<Longrightarrow> find_idx P [0..<k] = Some n"
  by (simp add: find_idx_Some)

lemma lsb_position_bit:
  assumes "bit w n" and "\<And>m. m < n \<Longrightarrow> \<not> bit w m"
  shows "lsb_position w = n + 1"
proof -
  have "n < 32" using bit_imp_le_length [OF assms(1)] by simp
  then show ?thesis using find_idx_upt [of "bit w" n 32] assms by (simp add: lsb_position_def)
qed

lemma sample_zephyr [simp]: "zephyr_env sample_env"
proof -
  have "zephyr_lsb sample_env"
    unfolding zephyr_lsb_def using lsb_position_bit
    by (auto simp: sample_env_def lsb_position_def find_idx_None split: option.splits dest: find_idx_SomeD(2))
  then show ?thesis by (auto simp: zephyr_env_def zephyr_sem_def sample_env_def)
qed

lemma sample_env_simps [simp]:
  "\<not> config_heci_use_dma sample_env" "ipc_write_ret sample_env l = 0" "mutex_ret sample_env l = 0"
  by (simp_all add: sample_env_def)

lemma sample_link [simp]: "link_up sample_env" and sample_heci_env [simp]: "heci_env sample_env"
  by (simp_all add: link_up_def heci_env_def)

section \<open>States\<close>

definition sample_client :: heci_client where
  "sample_client = \<lparr>protocol_id = guid_zero\<lparr>data1 := 1\<rparr>, max_msg_size = 512, protocol_ver = 1,
     max_n_of_connections = 2, dma_header_length = 0, dma_enabled = False, rx_buffer_len = 512,
     rx_msg = Some 2, event_cb = Some 7, param = 9, thread_handle_list = [], num_of_threads = 0\<rparr>"

definition sample_ctrl :: heci_client_ctrl where
  "sample_ctrl = \<lparr>client_addr = 32, n_of_conns = 1, active = True, properties = sample_client\<rparr>"

definition sample_conn :: heci_conn where
  "sample_conn = \<lparr>conn_client = Some 0, state = 1, fw_addr = 32, host_addr = 5, wait_thread_count = 0,
     rx_buffer = None, conn_event_cb = Some 7, conn_param = 9, host_buffers = 1,
     flow_ctrl_sem = Some 0, connection_id = 0\<rparr>"

definition sample_rx :: heci_rx_msg where
  "sample_rx = rx_msg_zero (replicate 512 0)"

definition sample_state :: heci_state where
  "sample_state = heci_boot\<lparr>clients := (clients heci_boot)[0 := sample_ctrl], registered_clients := 1,
     connections := (connections heci_boot)[0 := sample_conn], rx_heap := (\<lambda>_. sample_rx)\<rparr>"

lemma sample_fields [simp]:
  "clients sample_state = sample_ctrl # replicate 7 client_ctrl_zero"
  "connections sample_state = sample_conn # replicate 7 conn_zero"
  "registered_clients sample_state = 1" "rx_heap sample_state p = sample_rx"
  "io sample_state = []" "dev_lock sample_state = 0"
  by (simp_all add: sample_state_def heci_boot_def heci_size_defs eval_nat_numeral)

lemma sample_host_up [simp]: "host_up sample_state"
  by (simp add: host_up_def sample_state_def heci_boot_def)

lemma all_less_8: "(\<forall>i < 8. P i) \<longleftrightarrow> P 0 \<and> (\<forall>i < 7. P (Suc i))" for P :: "nat \<Rightarrow> bool"
  using All_less_Suc2 [of 7 P] by (simp add: eval_nat_numeral)

lemma sample_dev_ok [simp]: "dev_ok 0 sample_state"
proof -
  have "conn_count (sample_conn # replicate 7 conn_zero) 0 = 1"
    "conn_count (sample_conn # replicate 7 conn_zero) (Suc i) = 0" for i
    by (simp_all add: conn_count_def sample_conn_def conn_zero_def)
  moreover have "client_ok (\<lambda>_. sample_rx) sample_client"
    by (simp add: client_ok_def sample_client_def sample_rx_def rx_msg_zero_def guid_zero_def)
  moreover have "rx_heap sample_state = (\<lambda>_. sample_rx)" "length (flow_ctrl_sems sample_state) = 8"
      "tx_pool_ok sample_state" "gate_idle (gate_view sample_state)"
    by (simp_all add: sample_state_def heci_boot_def heci_size_defs tx_pool_ok_def dma_info_zero_def
        gate_idle_def gate_view_def)
  ultimately show ?thesis
    by (simp add: dev_ok_def tables_ok_def all_less_8 slot_ok_def conn_ok_def sample_ctrl_def sample_conn_def
        client_ctrl_zero_def conn_zero_def client_zero_def sample_client_def)
qed

text \<open>The request of the host to close the connection.\<close>

definition sample_disconnect :: heci_bus_msg where
  "sample_disconnect = \<lparr>hdr = \<lparr>hdr_fw_addr = 0, hdr_host_addr = 0, hdr_len = 4, hdr_reserved = 0,
       hdr_secure = False, hdr_last_frag = True\<rparr>,
     payload = enc_conn_req \<lparr>cq_command = 7, cq_fw_addr = 32, cq_host_addr = 5, cq_reserved = 0\<rparr>\<rparr>"

lemma sample_disconnect_req:
  "dec_conn_req (payload sample_disconnect) = \<lparr>cq_command = 7, cq_fw_addr = 32, cq_host_addr = 5, cq_reserved = 0\<rparr>"
  by (simp add: sample_disconnect_def conn_req_codec.dec_enc_exact)

text \<open>A state in which the receive buffer of the client is being filled.\<close>

definition sample_receiving :: heci_state where
  "sample_receiving = sample_state\<lparr>
     connections := (sample_conn\<lparr>state := 3, rx_buffer := Some 2\<rparr>) # replicate 7 conn_zero\<rparr>"

text \<open>A pool of 64 pages of which none is used.\<close>

definition sample_pool :: heci_state where
  "sample_pool = sample_state\<lparr>host_rx_dma := dma_info_zero\<lparr>dma_addr := 0x100000, dma_size := 0x40000, num_pages := 64\<rparr>\<rparr>"

lemma sample_pool_ok [simp]: "tx_pool_ok sample_pool"
  by (simp add: tx_pool_ok_def sample_pool_def dma_info_zero_def)

text \<open>A pool of two pages, both used.\<close>

definition sample_full :: heci_state where
  "sample_full = sample_state\<lparr>host_rx_dma :=
     dma_info_zero\<lparr>dma_addr := 0x100000, dma_size := 0x2000, num_pages := 2, page_bitmap := 3 # replicate 31 0\<rparr>\<rparr>"

text \<open>An acknowledgement of one page far behind the pool.\<close>

definition sample_ack :: heci_bus_msg where
  "sample_ack = \<lparr>hdr = \<lparr>hdr_fw_addr = 0, hdr_host_addr = 0, hdr_len = 20, hdr_reserved = 0,
       hdr_secure = False, hdr_last_frag = True\<rparr>,
     payload = [0x92, 0, 0, 0] @ le64 0x80000000 @ le32 4096 @ le32 0\<rparr>"

text \<open>The system management client with a reset pending, at its disconnect event.\<close>

definition sample_smhi :: smhi_state where
  "sample_smhi = host_state.extend host_boot
     (smhi_state.fields HECI_EVENT_DISCONN 1 0 (REBOOT_FLAG OR SMHI_CONN_FLAG) (replicate 256 0))"

end
