(* ===== verification/Host_Properties.thy ===== *)
theory Host_Properties
  imports Sample_States
begin

text \<open>
  The properties of the host service: the HECI driver, its DMA pool, host access, the
  management protocol, the dispatch of doorbells and the system management client.
  Each is followed by a witness that applies it to the sample states.
\<close>

section \<open>The HECI driver\<close>

text \<open>C1. In a build without DMA: whatever doorbells the host rings and whatever power events arrive, in whatever
  order with registrations, sends, flow control and disconnects of clients that keep their contract
  (complete buffers, and no flow control in the middle of a message), each run to completion, the
  driver never dereferences a null pointer or leaves an array, keeps its tables of clients and
  connections consistent, and has released its lock and host access after every operation.\<close>

theorem heci_driver_safe:
  assumes "heci_env e" and "heci_admissible e ops heci_boot"
  shows "ok (heci_run e ops heci_boot) (dev_ok 0)"
  using heci_run_ok [OF assms(1) dev_ok_boot assms(2)] .

theorem heci_driver_safe_witness:
  "ok (heci_run sample_env [Op_Doorbell 0x80000404, Op_Power SX_ENTRY, Op_FlowControl 9] heci_boot) (dev_ok 0)"
  by (rule heci_driver_safe) simp_all

text \<open>C2. In a build without DMA, a thread that sends while other threads run (before it takes the lock, in every
  round in which it waits for flow control, and before it takes the lock again) leaves the driver
  consistent and its lock released, provided the others keep the driver consistent and nobody
  closes the connection: the code does not look at the state of the connection again after it
  has waited.\<close>

theorem heci_send_interleaved_safe:
  assumes "heci_env e" and "sched_ok 0 i sch" and "dev_ok 0 s" and "i < 8" and "list_all mrd_ok ms"
  shows "ok (heci_send e sch i ms s) (\<lambda>(sent, s'). dev_ok 0 s')"
  using assms heci_send_ok [of e 0 i sch s ms] by (simp add: heci_env_def)

text \<open>A connection without credit, and another thread that grants one and wakes the sender.\<close>

definition sample_no_credit :: heci_state where
  "sample_no_credit = upd_conn 0 (\<lambda>c. c\<lparr>host_buffers := 0\<rparr>) sample_state"

definition sample_grant :: "heci_state \<Rightarrow> heci_state" where
  "sample_grant s = (upd_conn 0 (\<lambda>c. c\<lparr>host_buffers := 1\<rparr>) s)\<lparr>flow_ctrl_sems := (flow_ctrl_sems s)[0 := 1]\<rparr>"

lemma sample_no_credit_rely: "send_rely 0 0 sample_no_credit"
  unfolding sample_no_credit_def
  by (rule send_rely_updates) (simp add: send_rely_def sample_conn_def conn_state_nums)

lemma sample_grant_rely: "send_rely 0 0 s \<Longrightarrow> send_rely 0 0 (sample_grant s)"
  unfolding sample_grant_def by (intro send_rely_updates) (simp_all add: upd_conn_def)

theorem heci_send_interleaved_safe_witness:
  "host_buffers (connections sample_no_credit ! 0) = 0 \<and>
   ok (heci_send sample_env (no_others\<lparr>fc_waits := [id, sample_grant]\<rparr>) 0 [\<lparr>mrd_buf = Some [1, 2], mrd_len = 2\<rparr>]
     sample_no_credit) (\<lambda>(sent, s'). dev_ok 0 s')"
proof
  show "host_buffers (connections sample_no_credit ! 0) = 0" by (simp add: sample_no_credit_def upd_conn_def)
  show "ok (heci_send sample_env (no_others\<lparr>fc_waits := [id, sample_grant]\<rparr>) 0 [\<lparr>mrd_buf = Some [1, 2], mrd_len = 2\<rparr>]
     sample_no_credit) (\<lambda>(sent, s'). dev_ok 0 s')"
    by (rule heci_send_interleaved_safe)
      (use sample_no_credit_rely sample_grant_rely in \<open>simp_all add: sched_ok_def no_others_def mrd_ok_def send_rely_def\<close>)
qed

text \<open>C17. The proviso is needed: a sender that is woken after its connection was closed reads the semaphore of
  an empty slot.  When the other threads, until the semaphore is taken, have both given it and
  closed the connection, the wait dereferences a null pointer.\<close>

theorem closed_while_waiting_faults:
  assumes "zephyr_env e" and "flow_ctrl_sem (connections s ! i) = Some k"
    and "connections (w s) ! i = conn_zero" and "0 < flow_ctrl_sems (w s) ! k"
  shows "heci_wait_for_flow_control e (w # ws) i s = None"
proof -
  have z: "flow_ctrl_sem (conn_at (t\<lparr>flow_ctrl_sems := x\<rparr>) i) = None" "host_buffers (conn_at (t\<lparr>flow_ctrl_sems := x\<rparr>) i) = 0"
    if "connections t ! i = conn_zero" for t x
    using that by (simp_all add: conn_at_def conn_zero_def)
  have none: "heci_wait_for_flow_control e ws i t = None" if "flow_ctrl_sem (conn_at t i) = None" for t
    using that by (cases ws) (simp_all add: fc_round_def)
  show ?thesis
    using assms z none [of "(w s)\<lparr>flow_ctrl_sems := (flow_ctrl_sems (w s))[k := snd (k_sem_take e (flow_ctrl_sems (w s) ! k) False)]\<rparr>"]
    by (simp add: fc_round_def conn_at_def Let_def case_prod_unfold zephyr_envD conn_zero_def)
qed

text \<open>The host grants credit and closes the connection, and the client completes the closing, before the sender runs.\<close>

definition sample_close :: "heci_state \<Rightarrow> heci_state option" where
  "sample_close s =
     do {
       s1 \<leftarrow> heci_flow_control_recv sample_env \<lparr>hdr = \<lparr>hdr_fw_addr = 0, hdr_host_addr = 0, hdr_len = 8, hdr_reserved = 0,
               hdr_secure = False, hdr_last_frag = True\<rparr>,
             payload = enc_flow_ctrl \<lparr>fc_command = 8, fc_fw_addr = 32, fc_host_addr = 5, fc_number_of_packets = 1,
               fc_reserved = 0\<rparr>\<rparr> s;
       s2 \<leftarrow> heci_disconnect sample_env sample_disconnect s1;
       (r, s3) \<leftarrow> heci_complete_disconnect sample_env 0 s2;
       Some s3
     }"

lemma sample_close_result:
  "\<exists>s3. sample_close (upd_conn 0 (\<lambda>c. c\<lparr>wait_thread_count := 1\<rparr>) sample_no_credit) = Some s3 \<and>
     connections s3 ! 0 = conn_zero \<and> flow_ctrl_sems s3 ! 0 = 1"
proof -
  have sb: "send_bus sample_env (enc_conn_resp r) t = Some (t\<lparr>io := io t @ [bus_packet (enc_conn_resp r)]\<rparr>)"
    if "host_up t" for t :: heci_state and r
    using that by (intro send_bus_writes) (simp_all add: enc_conn_resp_def heci_size_defs)
  have up: "host_up (t\<lparr>connections := c\<rparr>) = host_up t" "host_up (t\<lparr>flow_ctrl_sems := f\<rparr>) = host_up t"
    "host_up (t\<lparr>io := l\<rparr>) = host_up t" "host_up (t\<lparr>dev_lock := n\<rparr>) = host_up t" for t :: heci_state and c f l n
    by (simp_all add: host_up_def)
  have "flow_ctrl_sems sample_state = replicate 8 0" by (simp add: sample_state_def heci_boot_def heci_size_defs)
  then show ?thesis
    by (simp add: up sample_close_def heci_flow_control_recv_def flow_ctrl_codec.dec_enc_exact heci_find_conn_def
        sample_no_credit_def upd_conn_def sample_conn_def conn_state_nums Let_def conn_at_def heci_wakeup_sender_def
        heci_disconnect_def sample_disconnect_req heci_notify_client_def emit_def heci_complete_disconnect_def
        heci_size_defs upd_client_def zephyr_envD sb)
      (simp add: sample_disconnect_def)
qed

theorem closed_while_waiting_faults_witness:
  "\<exists>s3. sample_close (upd_conn 0 (\<lambda>c. c\<lparr>wait_thread_count := 1\<rparr>) sample_no_credit) = Some s3 \<and>
     heci_wait_for_flow_control sample_env [\<lambda>_. s3] 0
       (upd_conn 0 (\<lambda>c. c\<lparr>wait_thread_count := 1\<rparr>) sample_no_credit) = None"
proof -
  let ?s = "upd_conn 0 (\<lambda>c. c\<lparr>wait_thread_count := 1\<rparr>) sample_no_credit"
  obtain s3 where "sample_close ?s = Some s3" "connections s3 ! 0 = conn_zero" "flow_ctrl_sems s3 ! 0 = 1"
    using sample_close_result by blast
  moreover have "flow_ctrl_sem (connections ?s ! 0) = Some 0"
    by (simp add: sample_no_credit_def upd_conn_def sample_conn_def)
  ultimately show ?thesis
    using closed_while_waiting_faults [of sample_env ?s 0 0 "\<lambda>_. s3" "[]"] by simp
qed

text \<open>C3. A message of at most the size the client registered, sent on an open connection with
  credit while the host is awake, is written to the host as the packets of that message in
  order, and costs exactly one credit; nothing else in the state changes.\<close>

theorem heci_send_delivers:
  assumes "\<not> config_heci_use_dma e" and "can_send i (length (mrd_bytes ms)) s"
    and "list_all mrd_ok ms" and "link_up e" and "host_up s"
  shows "heci_send e no_others i ms s = Some (True,
     upd_conn i (\<lambda>c. c\<lparr>host_buffers := host_buffers c - 1\<rparr>)
       (s\<lparr>io := io s @ writes (client_packets (connections s ! i) (mrd_bytes ms))\<rparr>))"
  using heci_send_writes [OF assms] .

theorem heci_send_delivers_witness:
  "heci_send sample_env no_others 0 [\<lparr>mrd_buf = Some [1, 2], mrd_len = 2\<rparr>] sample_state = Some (True,
     upd_conn 0 (\<lambda>c. c\<lparr>host_buffers := host_buffers c - 1\<rparr>)
       (sample_state\<lparr>io := io sample_state @ writes (client_packets (connections sample_state ! 0) [1, 2])\<rparr>))"
  using heci_send_delivers [of sample_env 0 "[\<lparr>mrd_buf = Some [1, 2], mrd_len = 2\<rparr>]" sample_state]
  by (simp add: mrd_ok_def can_send_def sample_conn_def conn_state_nums sample_ctrl_def sample_client_def
      HECI_MAX_MSG_SIZE_def)

text \<open>C4. The loop that cuts a chain of buffers into packets sends what the reference says: the
  concatenated bytes in chunks of the payload size, the last one marked, stopping at the first
  write that fails, wherever the borders between the buffers are.\<close>

theorem send_fragments_refines:
  assumes "list_all mrd_ok ms" and "\<not> hdr_last_frag h"
  shows "send_fragments e h (replicate HECI_MAX_PAYLOAD_SIZE 0) 0 ms s =
     Some (write_all e (packets h (chunks HECI_MAX_PAYLOAD_SIZE (mrd_bytes ms))) s)"
  using send_fragments_start [OF assms] .

theorem send_fragments_refines_witness:
  "send_fragments sample_env \<lparr>hdr_fw_addr = 32, hdr_host_addr = 5, hdr_len = 0, hdr_reserved = 0,
       hdr_secure = False, hdr_last_frag = False\<rparr> (replicate HECI_MAX_PAYLOAD_SIZE 0) 0
       [\<lparr>mrd_buf = Some [1, 2], mrd_len = 2\<rparr>, \<lparr>mrd_buf = Some [3], mrd_len = 1\<rparr>] sample_state =
     Some (write_all sample_env (packets \<lparr>hdr_fw_addr = 32, hdr_host_addr = 5, hdr_len = 0, hdr_reserved = 0,
       hdr_secure = False, hdr_last_frag = False\<rparr> (chunks HECI_MAX_PAYLOAD_SIZE [1, 2, 3])) sample_state)"
  using send_fragments_refines [of "[\<lparr>mrd_buf = Some [1, 2], mrd_len = 2\<rparr>, \<lparr>mrd_buf = Some [3], mrd_len = 1\<rparr>]"
      "\<lparr>hdr_fw_addr = 32, hdr_host_addr = 5, hdr_len = 0, hdr_reserved = 0, hdr_secure = False,
        hdr_last_frag = False\<rparr>" sample_env sample_state]
  by (simp add: mrd_ok_def)

text \<open>C5. The packets of a message, decoded and handed to the receiving driver one after the other,
  end in the receive buffer of the addressed client as the bytes that were sent, and the client
  is told once, after the last fragment.\<close>

theorem message_round_trip:
  assumes "heci_find_conn (fw_addr conn) (host_addr conn)
             (HECI_CONN_STATE_OPEN OR HECI_CONN_STATE_PROCESSING_MSG) s = Some i"
    and "dev_ok d s" and "state (connections s ! i) = HECI_CONN_STATE_OPEN"
    and "conn_client (connections s ! i) = Some k" and "rx_msg (properties (clients s ! k)) = Some p"
    and "\<not> rx_locked (rx_heap s p)" and "conn_event_cb (connections s ! i) = Some cb"
    and "fits (properties (clients s ! k)) (length bs)" and "bs \<noteq> []"
  shows "ok (recv_all e (map (\<lambda>(drbl, b). dec_bus_msg b) (client_packets conn bs)) s) (\<lambda>s'. delivered i p bs s' \<and>
     io s' = io s @ [ClientEvent cb HECI_EVENT_NEW_MSG (conn_param (connections s ! i))])"
  using packets_reassemble [OF assms refl refl] .

theorem message_round_trip_witness:
  "ok (recv_all sample_env (map (\<lambda>(drbl, b). dec_bus_msg b) (client_packets sample_conn (replicate 300 1))) sample_state)
     (\<lambda>s'. delivered 0 2 (replicate 300 1) s' \<and> io s' = io sample_state @ [ClientEvent 7 HECI_EVENT_NEW_MSG 9])"
  using message_round_trip [of sample_conn sample_state 0 0 0 2 7 "replicate 300 1" sample_env]
  by (simp add: heci_find_conn_def sample_conn_def sample_ctrl_def sample_client_def sample_rx_def rx_msg_zero_def
      conn_state_nums fits_def)



text \<open>Disconnecting takes two steps: the request of the host marks the connection and tells the
  client; when the client completes it, the host gets the answer SUCCESS, the slot is free again
  and the client counts one connection less.\<close>

theorem disconnect_two_steps:
  assumes "dev_ok 0 s" and "hdr_len (hdr msg) = 4" and "link_up e" and "host_up s"
    and "req = dec_conn_req (payload msg)"
    and "heci_find_conn (cq_fw_addr req) (cq_host_addr req)
           (HECI_CONN_STATE_OPEN OR HECI_CONN_STATE_CONNECTION_REQUEST) s = Some i"
    and "conn_event_cb (connections s ! i) = Some cb"
  shows "\<exists>s1 s2 k. heci_disconnect e msg s = Some s1 \<and>
     io s1 = io s @ [ClientEvent cb HECI_EVENT_DISCONN (conn_param (connections s ! i))] \<and>
     heci_complete_disconnect e i s1 = Some (0, s2) \<and> connections s2 = (connections s)[i := conn_zero] \<and>
     conn_client (connections s ! i) = Some k \<and>
     n_of_conns (clients s2 ! k) = n_of_conns (clients s ! k) - 1 \<and>
     io s2 = io s1 @ [bus_packet (enc_conn_resp (conn_resp HECI_BUS_MSG_CLIENT_DISCONNECT_REQ
        (cq_fw_addr req) (cq_host_addr req) HECI_CONNECT_STATUS_SUCCESS))]"
  using disconnect_completes [OF assms] .

theorem disconnect_two_steps_witness:
  "\<exists>s1 s2. heci_disconnect sample_env sample_disconnect sample_state = Some s1 \<and>
     heci_complete_disconnect sample_env 0 s1 = Some (0, s2) \<and> connections s2 = replicate 8 conn_zero"
proof -
  have f: "heci_find_conn 32 5 (HECI_CONN_STATE_OPEN OR HECI_CONN_STATE_CONNECTION_REQUEST) sample_state = Some 0"
    by (simp add: heci_find_conn_def sample_conn_def conn_state_nums)
  have z: "conn_zero # replicate 7 conn_zero = replicate 8 conn_zero" by (simp add: eval_nat_numeral)
  from disconnect_two_steps [OF sample_dev_ok _ sample_link sample_host_up refl, of sample_disconnect 0 7]
  show ?thesis
    using sample_disconnect_req f z by (auto simp: sample_disconnect_def sample_conn_def)
qed

text \<open>An enumeration request is answered with a bitmap that has exactly the addresses of the
  registered clients, 32 upwards in the order of registration, and makes those clients active.\<close>

theorem enumeration_exact:
  assumes "dev_ok d s" and "hdr_len (hdr msg) = 4" and "link_up e" and "host_up s"
  shows "\<exists>addrs s'. heci_enum_resp e msg s = Some s' \<and>
     io s' = io s @ [bus_packet (enc_host_enum_resp
       \<lparr>er_command = GEN_RESP HECI_BUS_MSG_HOST_ENUM_REQ, er_valid_addresses = addrs\<rparr>)] \<and>
     (\<forall>a < 256. bit (addrs ! (a div 32)) (a mod 32) \<longleftrightarrow> 32 \<le> a \<and> a < 32 + registered_clients s) \<and>
     (\<forall>k < registered_clients s. active (clients s' ! k))"
  using heci_enum_resp_writes [OF assms] .

theorem enumeration_exact_witness:
  "\<exists>addrs s'. heci_enum_resp sample_env sample_disconnect sample_state = Some s' \<and>
     bit (addrs ! 1) (0 :: nat) \<and> \<not> bit (addrs ! 1 :: u32) 1 \<and> active (clients s' ! 0)"
proof -
  have "hdr_len (hdr sample_disconnect) = 4" by (simp add: sample_disconnect_def)
  from enumeration_exact [OF sample_dev_ok this sample_link sample_host_up]
  obtain addrs :: "u32 list" and s' where a: "heci_enum_resp sample_env sample_disconnect sample_state = Some s'"
    "\<forall>a < 256. bit (addrs ! (a div 32)) (a mod 32) \<longleftrightarrow> 32 \<le> a \<and> a < 33" "active (clients s' ! 0)"
    by auto
  then show ?thesis
    using a(2) [rule_format, of 32] a(2) [rule_format, of 33] by (intro exI [of _ addrs] exI [of _ s']) simp
qed

text \<open>A flow control message of the host adds its credit (1 when it names no number) to the
  connection it addresses and to no other.\<close>

theorem flow_control_credit:
  assumes "dev_ok d s" and "hdr_len (hdr msg) = 8"
    and "heci_find_conn (fc_fw_addr (dec_flow_ctrl (payload msg))) (fc_host_addr (dec_flow_ctrl (payload msg)))
           HECI_CONN_STATE_OPEN s = Some i"
  shows "ok (heci_flow_control_recv e msg s) (\<lambda>s'. connections s' = (connections s)[i := (connections s ! i)
     \<lparr>host_buffers := host_buffers (connections s ! i) +
        (if fc_number_of_packets (dec_flow_ctrl (payload msg)) = 0 then 1
         else ucast (fc_number_of_packets (dec_flow_ctrl (payload msg))))\<rparr>] \<and> io s' = io s)"
  using heci_flow_control_recv_credit [OF assms] .

theorem flow_control_credit_witness:
  "ok (heci_flow_control_recv sample_env \<lparr>hdr = \<lparr>hdr_fw_addr = 0, hdr_host_addr = 0, hdr_len = 8, hdr_reserved = 0,
         hdr_secure = False, hdr_last_frag = True\<rparr>,
       payload = enc_flow_ctrl \<lparr>fc_command = 8, fc_fw_addr = 32, fc_host_addr = 5, fc_number_of_packets = 3,
         fc_reserved = 0\<rparr>\<rparr> sample_state)
     (\<lambda>s'. connections s' = (sample_conn\<lparr>host_buffers := 4\<rparr>) # replicate 7 conn_zero)"
  using flow_control_credit [OF sample_dev_ok, of "\<lparr>hdr = \<lparr>hdr_fw_addr = 0, hdr_host_addr = 0, hdr_len = 8,
       hdr_reserved = 0, hdr_secure = False, hdr_last_frag = True\<rparr>,
       payload = enc_flow_ctrl \<lparr>fc_command = 8, fc_fw_addr = 32, fc_host_addr = 5, fc_number_of_packets = 3,
         fc_reserved = 0\<rparr>\<rparr>" 0 sample_env]
  by (auto simp: flow_ctrl_codec.dec_enc_exact heci_find_conn_def sample_conn_def conn_state_nums
      ok_iff)

text \<open>C7. Without credit and with no other thread running meanwhile, a send gives up and writes nothing, even if
  the semaphore still counts wake-ups from earlier credits: each is taken, finds no credit, and
  the last wait times out.\<close>

theorem no_credit_no_packet:
  assumes "\<not> config_heci_use_dma e" and "dev_ok d s" and "i < 8" and "host_buffers (connections s ! i) = 0"
  shows "ok (heci_send e no_others i ms s) (\<lambda>(sent, s'). \<not> sent \<and> io s' = io s)"
  using heci_send_no_credit [OF assms] .

theorem no_credit_no_packet_witness:
  "state (connections sample_no_credit ! 0) = HECI_CONN_STATE_OPEN \<and>
   ok (heci_send sample_env no_others 0 [\<lparr>mrd_buf = Some [1, 2], mrd_len = 2\<rparr>]
     (sample_no_credit\<lparr>flow_ctrl_sems := (flow_ctrl_sems sample_no_credit)[0 := 2]\<rparr>)) (\<lambda>(sent, s'). \<not> sent \<and> io s' = [])"
proof -
  let ?s = "sample_no_credit\<lparr>flow_ctrl_sems := (flow_ctrl_sems sample_no_credit)[0 := 2]\<rparr>"
  have "send_rely 0 0 ?s" using sample_no_credit_rely by (rule send_rely_updates) simp
  then have "dev_ok 0 ?s" by (simp add: send_rely_def)
  moreover have "host_buffers (connections ?s ! 0) = 0" "io ?s = []"
    by (simp_all add: sample_no_credit_def upd_conn_def)
  ultimately show ?thesis
    using no_credit_no_packet [of sample_env 0 ?s 0 "[\<lparr>mrd_buf = Some [1, 2], mrd_len = 2\<rparr>]"]
    by (simp add: sample_no_credit_def upd_conn_def sample_conn_def conn_state_nums)
qed

text \<open>C8. A client that grants flow control in the middle of a message makes the driver
  dereference a null pointer at the next fragment.\<close>

theorem early_flow_control_faults:
  assumes "receiving fa ha i p k acc s" and "i < 8" and "length (connections s) = 8"
    and "hdr_fw_addr (hdr m) = fa" and "hdr_host_addr (hdr m) = ha"
    and "heci_send_flow_control e i s = Some (b, s')"
  shows "heci_process_client_message e m s' = None"
  using flow_control_in_message [OF assms] .

theorem early_flow_control_faults_witness:
  "\<exists>b s'. heci_send_flow_control sample_env 0 sample_receiving = Some (b, s') \<and>
     heci_process_client_message sample_env (dec_bus_msg (enc_hdr \<lparr>hdr_fw_addr = 32, hdr_host_addr = 5,
       hdr_len = 1, hdr_reserved = 0, hdr_secure = False, hdr_last_frag = True\<rparr> @ [1])) s' = None"
proof -
  have r: "receiving 32 5 0 2 0 [] sample_receiving"
    by (simp add: receiving_def sample_receiving_def heci_find_conn_def sample_conn_def conn_state_nums sample_rx_def
        rx_msg_zero_def sample_ctrl_def sample_client_def)
  have "ok (heci_send_flow_control sample_env 0 sample_receiving) (\<lambda>_. True)" by (rule flow_control_returns)
  then obtain b s' where f: "heci_send_flow_control sample_env 0 sample_receiving = Some (b, s')" by (auto simp: ok_iff)
  then show ?thesis
    using early_flow_control_faults [OF r _ _ _ _ f] by (simp add: sample_receiving_def dec_bus_msg_def
        hdr_codec.dec_enc)
qed

section \<open>The DMA pool\<close>

text \<open>C9. Blocks of the transmit pool that are handed out without being returned never overlap.\<close>

theorem dma_blocks_disjoint:
  assumes "tx_pool_ok s" and "tx_pool.get_all lens s = Some (blocks, s')" and "i < j" and "j < length blocks"
  shows "tx_block s (fst (blocks ! i)) (snd (blocks ! i)) \<inter> tx_block s (fst (blocks ! j)) (snd (blocks ! j)) = {}"
  using tx_pool.get_all_disjoint [OF assms] .

theorem dma_blocks_disjoint_witness:
  "\<exists>s'. tx_pool.get_all [4096, 8192] sample_pool = Some ([(0x100000, 4096), (0x101000, 8192)], s') \<and>
     tx_block sample_pool 0x100000 4096 \<inter> tx_block sample_pool 0x101000 8192 = {}"
proof -
  have "heci_dma_get_tx_buffer 4096 sample_pool \<bind> (\<lambda>(a, s1).
      map_option (\<lambda>(b, s2). (a, b)) (heci_dma_get_tx_buffer 8192 s1)) = Some (Some 0x100000, Some 0x101000)"
    by code_simp
  then obtain s' where g: "tx_pool.get_all [4096, 8192] sample_pool = Some ([(0x100000, 4096), (0x101000, 8192)], s')"
    by (auto simp: bind_eq_Some_conv)
  then show ?thesis using dma_blocks_disjoint [OF sample_pool_ok g, of 0 1] by simp
qed

text \<open>C10. Returning a block that was handed out restores the set of used pages.\<close>

theorem dma_get_free:
  assumes "tx_pool_ok s" and "heci_dma_get_tx_buffer len s = Some (Some addr, s1)"
  shows "\<exists>s2. heci_dma_free_tx_buffer addr len s1 = Some s2 \<and> tx_used s2 = tx_used s"
  using tx_pool.get_free [OF assms] .

theorem dma_get_free_witness:
  "\<exists>s1 s2. heci_dma_get_tx_buffer 8192 sample_pool = Some (Some 0x100000, s1) \<and>
     heci_dma_free_tx_buffer 0x100000 8192 s1 = Some s2 \<and> tx_used s2 = tx_used sample_pool"
proof -
  have "map_option fst (heci_dma_get_tx_buffer 8192 sample_pool) = Some (Some 0x100000)"
    by code_simp
  then obtain s1 where g: "heci_dma_get_tx_buffer 8192 sample_pool = Some (Some 0x100000, s1)" by auto
  then show ?thesis using dma_get_free [OF sample_pool_ok g] by blast
qed

text \<open>The search for a block gives up only when every run of pages that long, up to the limit
  the code searches, has a used page.\<close>

theorem dma_search_complete:
  assumes "heci_dma_get_tx_buffer len s = Some (None, s')" and "num_pages (host_rx_dma s) \<noteq> 0"
    and "0 < unat (GET_NUM_PAGES len)" and "unat (GET_NUM_PAGES len) \<le> PAGE_BITMAP_NUM * BITS_PER_DW"
    and "r \<le> unat (num_pages (host_rx_dma s) - GET_NUM_PAGES len)"
  shows "\<exists>page. r \<le> page \<and> page < r + unat (GET_NUM_PAGES len) \<and> page \<in> tx_used s"
proof -
  have "scan_pages (page_bitmap (host_rx_dma s)) (unat (num_pages (host_rx_dma s) - GET_NUM_PAGES len))
      (unat (GET_NUM_PAGES len)) 0 = Some None"
    using assms(1,2,4)
    by (auto simp: heci_dma_get_tx_buffer_def Let_def bind_eq_Some_conv split: option.splits)
  from scan_pages_complete [OF this _ assms(5,3)] show ?thesis
    by (auto simp: tx_used_def used_pages_def)
qed

theorem dma_search_complete_witness:
  "map_option fst (heci_dma_get_tx_buffer 4096 sample_full) = Some None \<and>
     (\<exists>page. 1 \<le> page \<and> page < Suc 1 \<and> page \<in> tx_used sample_full)"
proof -
  have g: "map_option fst (heci_dma_get_tx_buffer 4096 sample_full) = Some None"
    by code_simp
  then obtain s' where "heci_dma_get_tx_buffer 4096 sample_full = Some (None, s')" by auto
  then show ?thesis
    using dma_search_complete [of 4096 sample_full s' 1] g
    by (simp add: GET_NUM_PAGES_def CONFIG_HECI_PAGE_SIZE_def sample_full_def PAGE_BITMAP_NUM_def BITS_PER_DW_def)
qed

text \<open>An acknowledgement of the host that names an address beyond the pool makes the driver
  clear bits outside its bitmap.\<close>

theorem dma_ack_unchecked:
  assumes "tx_pool_ok s" and "5 \<le> unat (hdr_len (hdr msg))" and "16 \<le> length (payload msg)"
    and "BITS_PER_DW * BITS_PER_DW \<le> tx_page s (get64 (payload msg) 4)"
    and "0 < unat (GET_NUM_PAGES (get32 (payload msg) 12))"
    and "tx_page s (get64 (payload msg) 4) + unat (GET_NUM_PAGES (get32 (payload msg) 12)) < 2 ^ 32"
  shows "heci_dma_xfer_ack msg s = None"
  using dma_ack_out_of_bounds [OF assms] .

theorem dma_ack_unchecked_witness: "heci_dma_xfer_ack sample_ack sample_pool = None"
proof -
  have g: "get64 (payload sample_ack) 4 = 0x80000000" "get32 (payload sample_ack) 12 = 4096"
    using get64_skip [of 4 0 "[0x92, 0, 0, 0]" "le64 0x80000000 @ le32 4096 @ le32 0"]
      get32_skip [of 12 0 "[0x92, 0, 0, 0] @ le64 0x80000000" "le32 4096 @ le32 0"]
    by (simp_all add: sample_ack_def)
  have p: "tx_page sample_pool 0x80000000 = 0x7ff00"
    by (simp add: tx_page_def sample_pool_def dma_info_zero_def CONFIG_HECI_PAGE_SIZE_def)
  show ?thesis
    by (rule dma_ack_unchecked)
      (simp_all only: g p sample_pool_ok, simp_all add: sample_ack_def GET_NUM_PAGES_def heci_size_defs)
qed

section \<open>Access to the host\<close>

text \<open>A single user of the host either is refused and leaves the request map empty, or gets
  handle 0, and the map is empty again when it returns the handle, whatever it did in between
  that does not touch the map.\<close>

theorem host_access_bracket:
  assumes "zephyr_env e" and "gate_idle (gate_view s)" and "host_access_req e s = (h, s1)"
  shows "if h < 0 then gate_idle (gate_view s1)
     else h = 0 \<and> (\<forall>t. gate_view t = gate_view s1 \<longrightarrow>
       fst (host_access_dereq e h t) = 0 \<and> gate_idle (gate_view (snd (host_access_dereq e h t))))"
  using host_access_req_idle [OF assms(1,2)] assms(3) host_access_dereq_last by auto

theorem host_access_bracket_witness:
  "fst (host_access_dereq sample_env 0 (sample_state\<lparr>rtd3_req_map := 1, sem_rtd3 := 0\<rparr>)) = 0"
proof -
  let ?s1 = "sample_state\<lparr>rtd3_req_map := 1, sem_rtd3 := 0\<rparr>"
  have "\<forall>t. gate_view t = gate_view ?s1 \<longrightarrow> fst (host_access_dereq sample_env 0 t) = 0 \<and>
      gate_idle (gate_view (snd (host_access_dereq sample_env 0 t)))"
    using host_access_bracket [OF sample_zephyr dev_okD(7) [OF sample_dev_ok] host_up_req [OF sample_link sample_host_up]]
    by simp
  then show ?thesis by blast
qed

text \<open>Of three users that request the host at the same time, the second and the third get the
  same handle, so that the first of them to return it also gives up the claim of the other.\<close>

theorem third_access_aliases:
  assumes "link_up e" and "host_up s"
    and "host_access_req e s = (h1, s1)" and "host_access_req e s1 = (h2, s2)" and "host_access_req e s2 = (h3, s3)"
  shows "h1 = 0 \<and> h2 = 1 \<and> h3 = 1 \<and> s3 = s2"
proof -
  have z: "zephyr_env e" "\<And>l. mutex_ret e l = 0" using assms(1) by (simp_all add: link_up_def)
  have s1: "h1 = 0" "rtd3_req_map s1 = 1"
    using host_up_req [OF assms(1,2)] assms(3) by auto
  have one: "(1 :: u32) \<noteq> - 1" by simp
  have s2: "h2 = 1" "rtd3_req_map s2 = 3"
    using host_access_req_further [OF z(1,2), of s1 0] s1(2) one assms(4) by (auto simp: BIT_def)
  have "bit (3 :: u32) 0" "bit (3 :: u32) (0 + 1)" by (simp_all add: bit_1_iff)
  then have "h3 = 1 \<and> s3 = s2"
    using host_access_req_alias [OF z(1,2), of s2 0] s2(2) assms(5) by auto
  then show ?thesis using s1 s2 by simp
qed

theorem third_access_aliases_witness:
  "\<exists>s1 s2. host_access_req sample_env sample_state = (0, s1) \<and> host_access_req sample_env s1 = (1, s2) \<and>
     host_access_req sample_env s2 = (1, s2)"
  using third_access_aliases [OF sample_link sample_host_up surjective_pairing surjective_pairing surjective_pairing]
  by (metis surjective_pairing)

section \<open>Management protocol and dispatch\<close>

text \<open>C11. After start-up, in a build without DMA, a doorbell of the host is processed without undefined behaviour
  and leaves the driver consistent, whatever its protocol and payload, with exactly one exception:
  a management doorbell that announces more than \<open>MAX_MNG_MSG_LEN\<close> bytes fails an assertion, although
  the length is chosen by the host.\<close>

theorem doorbell_safe:
  assumes "heci_env e" and "dev_ok d s" and "table_ok s"
  shows "if IPC_HEADER_GET_PROTOCOL drbl = IPC_PROTOCOL_MNG \<and> MAX_MNG_MSG_LEN < IPC_HEADER_GET_LENGTH drbl
    then ipc_rx_task_round e drbl s = None
    else ok (ipc_rx_task_round e drbl s) (dev_ok d)"
proof (cases "IPC_HEADER_GET_PROTOCOL drbl = IPC_PROTOCOL_MNG \<and> MAX_MNG_MSG_LEN < IPC_HEADER_GET_LENGTH drbl")
  case True
  then have "protocol_cb s ! IPC_HEADER_GET_PROTOCOL drbl = Some Handler_mng" "IPC_HEADER_GET_PROTOCOL drbl < MAX_SERVICE_CLIENTS"
    using assms(3) protocol_in_range [of drbl]
    by (simp_all add: table_ok_def handler_of_def IPC_PROTOCOL_MNG_def IPC_PROTOCOL_HECI_def IPC_PROTOCOL_BOOT_def)
  then show ?thesis using True by (simp add: ipc_rx_task_round_def sys_mng_handler_def Let_def)
next
  case False
  then show ?thesis using assms by (auto intro!: ipc_rx_task_round_ok)
qed

theorem doorbell_safe_witness:
  "ok (ipc_rx_task_round sample_env 0x80000484 (ipc_rx_task_init sample_env host_boot)) (dev_ok 0) \<and>
   ipc_rx_task_round sample_env 0x80000C81 (ipc_rx_task_init sample_env host_boot) = None"
proof -
  have "IPC_HEADER_GET_PROTOCOL 0x80000484 \<noteq> IPC_PROTOCOL_MNG" "IPC_HEADER_GET_PROTOCOL 0x80000C81 = IPC_PROTOCOL_MNG"
    "IPC_HEADER_GET_LENGTH 0x80000C81 = 129" "MAX_MNG_MSG_LEN = 128"
    by code_simp+
  then show ?thesis
    using doorbell_safe [of sample_env 0 "ipc_rx_task_init sample_env host_boot" "0x80000484"]
      doorbell_safe [of sample_env 0 "ipc_rx_task_init sample_env host_boot" "0x80000C81"]
    by (simp add: dev_ok_init table_ok_init)
qed

text \<open>After start-up a doorbell reaches the handler of its protocol (boot, HECI or management),
  and one of any other protocol is acknowledged and dropped.\<close>

theorem doorbell_dispatch:
  "ipc_rx_task_round e drbl (ipc_rx_task_init e host_boot) =
     (let s = ipc_rx_task_init e host_boot;
          s1 = s\<lparr>sem_ipc_read := snd (k_sem_take e (sem_ipc_read s) False)\<rparr>
      in case handler_of (IPC_HEADER_GET_PROTOCOL drbl) of
           None \<Rightarrow> Some (emit (IpcAck (drbl_ack_of drbl)) s1)
         | Some h \<Rightarrow> call_handler e h drbl s1)"
  using table_ok_init [of e] protocol_in_range [of drbl]
  by (simp add: ipc_rx_task_round_def Let_def table_ok_def)

text \<open>The host is not let into RTD3 while somebody holds access to it: the notification is
  acknowledged, but the access function and the semaphore stay as they are.  Otherwise further
  requests wait for the host to come back.\<close>

theorem rtd3_refused_while_held:
  assumes "zephyr_env e"
  shows "mng_rtd3_notify e s =
     (let s1 = (if sem_rtd3 s = 0 then s
                else (emit (HostIpcEvent SEDI_PM_HOSTIPC_RTD3_NOTIFY) (s\<lparr>sem_rtd3 := sem_rtd3 s - 1\<rparr>))
                       \<lparr>mng_host_access_req := Req_rtd3_notified\<rparr>)
      in emit (IpcWrite (IPC_BUILD_MNG_DRBL MNG_RTD3_NOTIFY_ACK 4) []) s1)"
proof (cases "sem_rtd3 s = 0")
  case True
  then have noop: "s\<lparr>sem_rtd3 := 0\<rparr> = s" by (cases s) simp
  have "mng_rtd3_notify e s = emit (IpcWrite (IPC_BUILD_MNG_DRBL MNG_RTD3_NOTIFY_ACK 4) []) (s\<lparr>sem_rtd3 := 0\<rparr>)"
    using zephyr_envD(2,3) [OF assms, of 0 False] True
    by (simp add: mng_rtd3_notify_def take_rtd3_def Let_def ipc_write_msg_def)
  then show ?thesis unfolding noop using True by simp
next
  case False
  then show ?thesis
    using zephyr_envD(2,3) [OF assms, of "sem_rtd3 s" False]
    by (simp add: mng_rtd3_notify_def take_rtd3_def Let_def ipc_write_msg_def)
qed

theorem rtd3_refused_while_held_witness:
  "mng_rtd3_notify sample_env (sample_state\<lparr>sem_rtd3 := 0\<rparr>) =
     emit (IpcWrite (IPC_BUILD_MNG_DRBL MNG_RTD3_NOTIFY_ACK 4) []) (sample_state\<lparr>sem_rtd3 := 0\<rparr>)"
  using rtd3_refused_while_held [OF sample_zephyr, of "sample_state\<lparr>sem_rtd3 := 0\<rparr>"] by simp

text \<open>C12. A valid time update sets the clock to the time of the host plus the time since it was
  taken, split into seconds and a nanosecond part below one second.\<close>

theorem time_sync_sets_clock:
  assumes "data_len = 20" and "primary_source (dec_host_clock_data data) = TFMT_ART_TIME"
    and "primary_host_time (dec_host_clock_data data) div tsync_multi e \<le> tsync_time e (io s @ [TsyncSync])"
    and "us = secondary_host_time (dec_host_clock_data data) +
       (tsync_time e (io s @ [TsyncSync]) - primary_host_time (dec_host_clock_data data) div tsync_multi e)
         * USEC_PER_SEC div tsync_freq e"
  shows "\<exists>sec nsec. io (handle_host_time_sync e data data_len s) = io s @ [TsyncSync, ClockSet sec nsec] \<and>
     unat nsec < 1000000000 \<and> unat sec * 1000000 + unat nsec div 1000 = unat us"
  using assms clock_set_split [of us]
  by (auto simp: handle_host_time_sync_def Let_def not_less)

theorem time_sync_sets_clock_witness:
  "\<exists>sec nsec. io (handle_host_time_sync sample_env (enc_host_clock_data \<lparr>primary_host_time = 40,
       primary_source = TFMT_ART_TIME, secondary_source = 0, clock_reserved = 0, secondary_host_time = 5000000\<rparr>)
       20 sample_state) = [TsyncSync, ClockSet sec nsec] \<and> unat sec * 1000000 + unat nsec div 1000 = 5000060"
  using time_sync_sets_clock [OF refl _ _ refl, of "enc_host_clock_data \<lparr>primary_host_time = 40,
       primary_source = TFMT_ART_TIME, secondary_source = 0, clock_reserved = 0, secondary_host_time = 5000000\<rparr>"
       sample_env sample_state]
  by (auto simp: clock_codec.dec_enc_exact sample_env_def USEC_PER_SEC_def)

section \<open>System management client\<close>

text \<open>A requested reset is carried out in the round that completes the disconnection, and in no
  round that leaves the connection open.\<close>

theorem reboot_on_disconnect:
  assumes "smhi_event s = HECI_EVENT_DISCONN"
    and "heci_complete_disconnect e (unat (smhi_conn_id s))
           (s\<lparr>smhi_event_sem := snd (k_sem_take e (smhi_event_sem s) False)\<rparr>) = Some (r, s1)"
  shows "smhi_task_round e v sch s = Some
     (if smhi_flag s1 AND REBOOT_FLAG \<noteq> 0
      then emit SysReboot (s1\<lparr>smhi_flag := (smhi_flag s1 AND NOT SMHI_CONN_FLAG) AND NOT REBOOT_FLAG\<rparr>)
      else s1\<lparr>smhi_flag := smhi_flag s1 AND NOT SMHI_CONN_FLAG\<rparr>)"
  using assms
  by (simp add: smhi_task_round_def HECI_EVENT_DISCONN_def HECI_EVENT_NEW_MSG_def BIT_def post_smhi_process_def
      and_not_flag and_not_conn_reboot)

theorem reboot_on_disconnect_witness:
  "\<exists>s'. smhi_task_round sample_env \<lparr>fwver_major = 1, fwver_minor = 2, fwver_patch = 3\<rparr> no_others sample_smhi = Some s' \<and>
     io s' = [SysReboot]"
proof -
  let ?s = "sample_smhi\<lparr>smhi_event_sem := snd (k_sem_take sample_env (smhi_event_sem sample_smhi) False)\<rparr>"
  have c: "heci_complete_disconnect sample_env (unat (smhi_conn_id sample_smhi)) ?s = Some (0, unlock_dev (lock_dev ?s))"
    by (simp add: heci_complete_disconnect_def sample_smhi_def host_state.extend_def smhi_state.fields_def
        host_boot_def record_extend_defs heci_boot_def heci_size_defs conn_at_def Let_def conn_zero_def)
  have "smhi_event sample_smhi = HECI_EVENT_DISCONN" "smhi_flag sample_smhi AND REBOOT_FLAG \<noteq> 0" "io sample_smhi = []"
    by (simp_all add: sample_smhi_def host_state.extend_def smhi_state.fields_def REBOOT_FLAG_def SMHI_CONN_FLAG_def
        BIT_def host_boot_def record_extend_defs heci_boot_def)
  then show ?thesis
    using reboot_on_disconnect [OF _ c, of "\<lparr>fwver_major = 1, fwver_minor = 2, fwver_patch = 3\<rparr>" no_others] by simp
qed

end
