(* ===== verification/Eclite_Samples.thy ===== *)
theory Eclite_Samples
  imports Sample_States
begin

text \<open>
  Concrete states of the EC-lite service: an open connection to the host, four system
  sensors, a CPU sensor and a fan, a cleared operation region.
\<close>

definition sample_ec_env :: ec_env where
  "sample_ec_env = \<lparr>kern = sample_env,
     k_msgq_put = (\<lambda>q x. if length q < ECLITE_QUEUE_DEPTH then (0, q @ [x]) else (-35, q)),
     pmc_ret = (\<lambda>_. 0), pmc_tj_max = (\<lambda>_. 100), gpio_pin_get_raw = (\<lambda>_. 0), gpio_configure_ret = (\<lambda>_. 0),
     gpio_interrupt_ret = (\<lambda>_. 0), gpio_int_trig_high = 1, gpio_int_trig_low = 2,
     config_thermal_shutdown_enable = True, TEMP_CPU_CRIT_SHUTDOWN = 95, TEMP_SYS_CRIT_SHUTDOWN = 85,
     CONFIG_ECLITE_BATTERY_CRITICAL_LEVEL = 10\<rparr>"

lemma sample_ec_env_simps [simp]:
  "kern sample_ec_env = sample_env" "zephyr_msgq sample_ec_env"
  "config_thermal_shutdown_enable sample_ec_env" "TEMP_CPU_CRIT_SHUTDOWN sample_ec_env = 95"
  "TEMP_SYS_CRIT_SHUTDOWN sample_ec_env = 85" "CONFIG_ECLITE_BATTERY_CRITICAL_LEVEL sample_ec_env = 10"
  by (simp_all add: sample_ec_env_def zephyr_msgq_def)

definition sample_pins :: platform_gpio_config where
  "sample_pins = \<lparr>gpio_no = 7, gpio_dir = 0, pull_down_en = 0, intr_type = 1\<rparr>"

text \<open>A sensor that always reads \<open>t\<close>.\<close>

definition sample_sensor :: "device_type \<Rightarrow> nat \<Rightarrow> u16 \<Rightarrow> eclite_device" where
  "sample_sensor ty n t = \<lparr>device_typ = ty, dev_instance = n, device_sts = DEV_IDLE, dev_init = (\<lambda>_. 0),
     driver = Thermal_driver \<lparr>read_data = (\<lambda>_. (0, Some t)), write_data = (\<lambda>_ _. 0)\<rparr>
       (Some \<lparr>high_threshold = 80, low_threshold = 10, critical = 90, temperature = t, rotation = 0, tacho = 0\<rparr>),
     gpio_dev = False, gpio_config = sample_pins, isr = None\<rparr>"

definition sample_devices :: "u16 \<Rightarrow> eclite_device list" where
  "sample_devices cpu = [sample_sensor DEV_THERMAL 1 30, sample_sensor DEV_THERMAL 2 31,
     sample_sensor DEV_THERMAL 3 32, sample_sensor DEV_THERMAL 4 33, sample_sensor DEV_THERMAL_CPU 1 cpu,
     sample_sensor DEV_FAN 1 0]"

definition sample_ec :: "eclite_device list \<Rightarrow> ec_state" where
  "sample_ec ds = heci_state.extend sample_state
     (ec_state.fields (replicate 384 0) 0 False (replicate 388 0) [] (Some ds) 0 False 0 0 False False PM_RESET_TYPE_S3)"

lemma extend_views:
  "connections (heci_state.extend s m) = connections s" "clients (heci_state.extend s m) = clients s"
  "registered_clients (heci_state.extend s m) = registered_clients s" "rx_heap (heci_state.extend s m) = rx_heap s"
  "io (heci_state.extend s m) = io s"
  "dev_ok d (heci_state.extend s m) = dev_ok d s" "host_up (heci_state.extend s m) = host_up s"
  by (cases s; simp add: heci_state.defs dev_ok_def tables_ok_def tx_pool_ok_def gate_view_def host_up_def)+

lemma sample_ec_fields [simp]:
  "eclite_opregion (sample_ec ds) = replicate 384 0" "heci_connection_id (sample_ec ds) = 0"
  "eclite_tx_buffer (sample_ec ds) = replicate 388 0" "dispatcher_queue (sample_ec ds) = []"
  "dev_list (sample_ec ds) = Some ds" "eclite_sx_state (sample_ec ds) = PM_RESET_TYPE_S3"
  by (cases sample_state; simp add: sample_ec_def ec_state.fields_def heci_state.extend_def)+

lemma sample_ec_views [simp]:
  "connections (sample_ec ds) = sample_conn # replicate 7 conn_zero"
  "clients (sample_ec ds) = sample_ctrl # replicate 7 client_ctrl_zero"
  "rx_heap (sample_ec ds) p = sample_rx" "io (sample_ec ds) = []"
  "dev_ok 0 (sample_ec ds)" "host_up (sample_ec ds)" "ec_ok (sample_ec ds)"
  by (simp_all add: ec_ok_def MAX_OPR_LENGTH_def) (simp_all add: sample_ec_def extend_views)

lemma sample_ec_can_send: "n \<le> 512 \<Longrightarrow> can_send 0 n (sample_ec ds)"
  by (simp add: can_send_def sample_conn_def conn_state_nums sample_ctrl_def sample_client_def HECI_MAX_MSG_SIZE_def)

text \<open>Messages of the host: read two bytes at 76, and write 5 into the byte that enables events.\<close>

definition sample_read :: "u8 list" where
  "sample_read = enc_message_header \<lparr>mh_revision = 0, mh_data_type = 1, mh_read_write = 1,
     mh_offset = 76, mh_length = 2, mh_event = 0\<rparr> @ replicate 384 0"

definition sample_write :: "u8 list" where
  "sample_write = enc_message_header \<lparr>mh_revision = 0, mh_data_type = 1, mh_read_write = 2,
     mh_offset = 333, mh_length = 1, mh_event = 0\<rparr> @ 5 # replicate 383 0"

end
