(* ===== verification/Eclite_Properties.thy ===== *)
theory Eclite_Properties
  imports Eclite_Samples
begin

text \<open>
  The properties of the EC-lite service: the operation region it shares with the host, the
  alerts of the thermal framework and the power decisions.
\<close>

section \<open>The operation region\<close>

text \<open>C13. Whatever a message of the host says, processing it is free of undefined behaviour, leaves
  the HECI driver consistent, and changes no byte of the operation region outside the blocks
  the host may write.\<close>

theorem opregion_protected:
  assumes "heci_env (kern e)" and "dev_ok 0 s" and "ec_ok s" and "unat (heci_connection_id s) < 8"
    and "4 + MAX_OPR_LENGTH \<le> length buf"
  shows "ok (eclite_process_msg e no_others (Some buf) s)
     (\<lambda>(r, s'). dev_ok 0 s' \<and> ec_ok s' \<and> protected_same (eclite_opregion s') (eclite_opregion s))"
proof -
  obtain r s' where s': "eclite_process_msg e no_others (Some buf) s = Some (r, s')" "ec_kept s s'"
    using process_msg_kept [OF assms(1-4), of "Some buf"] assms(5) by (auto simp: ok_iff)
  let ?data = "if mh_data_type (dec_message_header buf) = ECLITE_HEADER_TYPE_DATA
     then eclite_process_data_message e no_others buf s else Some (ERROR, s)"
  have "eclite_process_msg e no_others (Some buf) s = ?data \<bind> (\<lambda>(ret, s1).
      Some (if mh_event (dec_message_header buf) \<noteq> 0
            then eclite_process_event_message e (dec_message_header buf) s1 else (ret, s1)))"
    by (simp add: eclite_process_msg_def Let_def)
  then obtain r1 s1 where s1: "?data = Some (r1, s1)"
      "(r, s') = (if mh_event (dec_message_header buf) \<noteq> 0
        then eclite_process_event_message e (dec_message_header buf) s1 else (r1, s1))"
    using s'(1) by (cases ?data) (auto simp del: split_paired_Ex)
  then have op: "eclite_opregion s' = eclite_opregion s1"
    using opregion_event_messageD [of e "dec_message_header buf" s1 r s'] by (auto split: if_splits)
  have "protected_same (eclite_opregion s1) (eclite_opregion s)"
    using s1(1) data_message_protected [OF assms(3,2,4) _ assms(5)] assms(1)
    by (auto simp: heci_env_def split: if_splits)
  then show ?thesis using s' op by (simp add: ec_kept_def)
qed

theorem opregion_protected_witness:
  "ok (eclite_process_msg sample_ec_env no_others (Some sample_write) (sample_ec []))
     (\<lambda>(r, s'). dev_ok 0 s' \<and> ec_ok s' \<and> protected_same (eclite_opregion s') (eclite_opregion (sample_ec [])))"
  by (rule opregion_protected)
    (simp_all add: sample_write_def message_header_codec.length_enc MAX_OPR_LENGTH_def)





text \<open>C15. A read request inside the region is answered with one message: a header that repeats
  offset and length, then exactly these bytes of the region, which stays as it is.\<close>

theorem read_request_answered:
  assumes "h = dec_message_header buf" and "mh_read_write h = ECLITE_HEADER_OPR_READ"
    and "unat (mh_offset h) + unat (mh_length h) \<le> MAX_OPR_LENGTH"
    and "ec_ok s" and "heci_connection_id s = of_nat i" and "can_send i (4 + unat (mh_length h)) s"
    and "link_up (kern e)" and "host_up s" and "\<not> config_heci_use_dma (kern e)"
  shows "\<exists>s'. eclite_process_data_message e no_others buf s = Some (0, s') \<and>
     io s' = io s @ writes (client_packets (connections s ! i)
       (enc_message_header ((dec_message_header (eclite_tx_buffer s))\<lparr>mh_revision := ECLITE_OPR_REVISION,
          mh_data_type := ECLITE_HEADER_TYPE_DATA, mh_read_write := ECLITE_HEADER_OPR_READ,
          mh_offset := mh_offset h, mh_length := mh_length h\<rparr>)
        @ take (unat (mh_length h)) (drop (unat (mh_offset h)) (eclite_opregion s)))) \<and>
     eclite_opregion s' = eclite_opregion s"
  using assms by (rule read_request_reply)

theorem read_request_answered_witness:
  "\<exists>s'. eclite_process_data_message sample_ec_env no_others sample_read (sample_ec []) = Some (0, s') \<and>
     io s' = writes (client_packets sample_conn
       (enc_message_header ((dec_message_header (replicate 388 0))\<lparr>mh_revision := ECLITE_OPR_REVISION,
          mh_data_type := ECLITE_HEADER_TYPE_DATA, mh_read_write := ECLITE_HEADER_OPR_READ,
          mh_offset := 76, mh_length := 2\<rparr>) @ replicate 2 0)) \<and> eclite_opregion s' = replicate 384 0"
  using read_request_answered [OF refl, of sample_read "sample_ec []" 0 sample_ec_env]
  by (simp add: sample_read_def message_header_codec.dec_enc ECLITE_HEADER_OPR_READ_def MAX_OPR_LENGTH_def
      sample_ec_can_send drop_replicate)

text \<open>C16. A write request for a permitted block succeeds and stores the bytes of the message where it
  says, and no other byte of the region changes.\<close>

theorem write_request_stores:
  assumes "h = dec_message_header buf" and "mh_read_write h = ECLITE_HEADER_OPR_WRITE"
    and "unat (mh_offset h) + unat (mh_length h) \<le> MAX_OPR_LENGTH"
    and "eclite_verify_opreg_wr_access (unat (mh_offset h)) (unat (mh_length h))"
    and "ec_ok s" and "4 + unat (mh_length h) \<le> length buf"
  shows "\<exists>s'. eclite_process_data_message e sch buf s = Some (0, s') \<and> ec_ok s' \<and>
     (\<forall>b < MAX_OPR_LENGTH. eclite_opregion s' ! b =
        (if unat (mh_offset h) \<le> b \<and> b < unat (mh_offset h) + unat (mh_length h)
         then buf ! (4 + (b - unat (mh_offset h))) else eclite_opregion s ! b))"
  using assms by (rule write_request_effect)

theorem write_request_stores_witness:
  "\<exists>s'. eclite_process_data_message sample_ec_env no_others sample_write (sample_ec []) = Some (0, s') \<and>
     ec_ok s' \<and> (\<forall>b < MAX_OPR_LENGTH. eclite_opregion s' ! b = (if b = 333 then 5 else 0))"
proof -
  have "dec_message_header sample_write = \<lparr>mh_revision = 0, mh_data_type = 1, mh_read_write = 2,
     mh_offset = 333, mh_length = 1, mh_event = 0\<rparr>"
    by (simp add: sample_write_def message_header_codec.dec_enc)
  moreover have "sample_write ! 4 = 5" "length sample_write = 388"
    by (simp_all add: sample_write_def nth_append message_header_codec.length_enc)
  moreover have "eclite_verify_opreg_wr_access 333 1"
    by (simp add: eclite_verify_opreg_wr_access_def opregion_wr_chk_tbl_eq NUM_OF_OPR_WR_BLKS_def)
  ultimately show ?thesis
    using write_request_stores [OF refl, of sample_write "sample_ec []" sample_ec_env no_others]
    by (auto simp: ECLITE_HEADER_OPR_WRITE_def MAX_OPR_LENGTH_def less_Suc_eq split: if_splits)
qed

section \<open>Thermal management\<close>

text \<open>With all four system sensors there, the region shows every sensor's temperature in the
  slot of its number.\<close>

theorem thermal_region_mirrors:
  assumes "ec_ok s"
    and "\<And>i. i < 4 \<Longrightarrow> \<exists>j. find_dev_instance_by_type DEV_THERMAL (i + 1) s = Some j \<and> thermal_data s j = Some (d i)"
  shows "map (\<lambda>f. op_get f (eclite_opregion (update_thermal_region s)))
       [''systherm0_temp1'', ''systherm1_temp1'', ''systherm2_temp1'', ''systherm3_temp1''] =
     map (temperature \<circ> d) [0, 1, 2, 3]"
  using update_thermal_region_all [OF assms] by simp

theorem thermal_region_mirrors_witness:
  "map (\<lambda>f. op_get f (eclite_opregion (update_thermal_region (sample_ec (sample_devices 40)))))
       [''systherm0_temp1'', ''systherm1_temp1'', ''systherm2_temp1'', ''systherm3_temp1''] = [30, 31, 32, 33]"
proof -
  define d where "d = (\<lambda>i :: nat. \<lparr>high_threshold = 80, low_threshold = 10, critical = 90,
    temperature = (30 :: u16) + of_nat i, rotation = 0, tacho = 0\<rparr>)"
  have "\<exists>j. find_dev_instance_by_type DEV_THERMAL (i + 1) (sample_ec (sample_devices 40)) = Some j \<and>
      thermal_data (sample_ec (sample_devices 40)) j = Some (d i)" if "i < 4" for i
    using that unfolding d_def
    by (auto simp: find_dev_instance_by_type_def sample_devices_def sample_sensor_def thermal_data_def dev_at_def
        eval_nat_numeral less_Suc_eq)
  from thermal_region_mirrors [OF sample_ec_views(7) this] show ?thesis by (simp add: d_def)
qed

text \<open>When sensor 1 is missing, the reading of sensor 2 appears in the slot of sensor 1.\<close>

theorem missing_sensor_shifts:
  assumes "ec_ok s" and "find_dev_instance_by_type DEV_THERMAL 1 s = None"
    and "find_dev_instance_by_type DEV_THERMAL 2 s = Some j" and "thermal_data s j = Some d"
    and "find_dev_instance_by_type DEV_THERMAL 3 s = None" and "find_dev_instance_by_type DEV_THERMAL 4 s = None"
  shows "op_get ''systherm0_temp1'' (eclite_opregion (update_thermal_region s)) = temperature d"
  using assms by (rule update_thermal_region_shift)

theorem missing_sensor_shifts_witness:
  "op_get ''systherm0_temp1'' (eclite_opregion (update_thermal_region (sample_ec [sample_sensor DEV_THERMAL 2 31]))) = 31"
  using missing_sensor_shifts [of "sample_ec [sample_sensor DEV_THERMAL 2 31]" 0]
  by (simp add: find_dev_instance_by_type_def sample_sensor_def thermal_data_def dev_at_def)

text \<open>A poll of the CPU sensor that is out of range raises its alert and moves the thresholds 3
  degrees around the reading.  Polled again at the same temperature it is silent, unless the
  temperature is critical or below 3 degrees, where the lower threshold has wrapped around
  and every poll alerts.\<close>

theorem cpu_alert_repeats:
  assumes "dev_list s = Some ds" and "i < length ds" and "thermal_api s i = Some api" and "thermal_data s i = Some d"
    and "\<And>l. read_data api l = (0, Some t)" and "out_of_range (d\<lparr>temperature := t\<rparr>)"
  shows "\<exists>s1 s2. process_thermal (Some i) 0 CPU s = Some (0, BIT CPU, s1) \<and>
     process_thermal (Some i) 0 CPU s1 =
       Some (0, if sint t < 3 \<or> uint (critical d) < sint t then BIT CPU else 0, s2)"
proof -
  obtain s1 where "process_thermal (Some i) 0 CPU s = Some (0, BIT CPU, s1)"
    using process_cpu [OF assms(1-5)] assms(6) by simp
  with cpu_repoll(2) [OF assms this] show ?thesis by blast
qed

theorem cpu_alert_repeats_witness:
  "\<exists>s1 s2. process_thermal (Some 4) 0 CPU (sample_ec (sample_devices 1)) = Some (0, BIT CPU, s1) \<and>
     process_thermal (Some 4) 0 CPU s1 = Some (0, BIT CPU, s2)"
  using cpu_alert_repeats [of "sample_ec (sample_devices 1)" "sample_devices 1" 4
      "\<lparr>read_data = (\<lambda>_. (0, Some 1)), write_data = (\<lambda>_ _. 0)\<rparr>" _ 1]
  by (simp add: sample_devices_def sample_sensor_def thermal_api_def thermal_data_def dev_at_def out_of_range_def)

section \<open>Battery\<close>

text \<open>The wake-up decision divides by the full capacity, so it faults for a battery that reports none,
  as before its first reading; otherwise the system is woken from S3 exactly when the battery
  discharges below the critical percentage.\<close>

theorem low_battery_wakes:
  assumes "unat (op_get ''remaining_capacity'' (eclite_opregion s)) \<le> unat (op_get ''full_charge_capacity'' (eclite_opregion s))"
  shows "if op_get ''full_charge_capacity'' (eclite_opregion s) = 0 then handle_low_battery_wake e s = None
     else ok (handle_low_battery_wake e s) (\<lambda>s'. io s' = io s @
       (if bit (op_get ''state'' (eclite_opregion s)) 0 \<and>
           unat (op_get ''remaining_capacity'' (eclite_opregion s)) * 100
             div unat (op_get ''full_charge_capacity'' (eclite_opregion s))
           < unat (CONFIG_ECLITE_BATTERY_CRITICAL_LEVEL e) \<and> eclite_sx_state s = PM_RESET_TYPE_S3
        then [PmcPowerState PMC_SRT_WAKEUP] else []))"
proof (cases "op_get ''full_charge_capacity'' (eclite_opregion s) = 0")
  case True
  then show ?thesis using low_battery_wake_divides [of s e] by simp
next
  case False
  then show ?thesis using low_battery_wake_log [OF False assms] by (simp only: if_False)
qed

theorem low_battery_wakes_witness:
  "ok (handle_low_battery_wake sample_ec_env ((sample_ec [])\<lparr>eclite_opregion := [1, 0, 0, 0, 5, 0, 0, 0, 0, 0, 100, 0]\<rparr>))
     (\<lambda>s'. io s' = [PmcPowerState PMC_SRT_WAKEUP])"
  using low_battery_wakes [of "(sample_ec [])\<lparr>eclite_opregion := [1, 0, 0, 0, 5, 0, 0, 0, 0, 0, 100, 0]\<rparr>" sample_ec_env]
  by (simp add: op_get_def get16_def)

end
