(* ===== verification/Eclite_Bus.thy ===== *)
theory Eclite_Bus
  imports Eclite_Device
begin

text \<open>
  The platform abstraction of EC-lite (\<^verbatim>\<open>ext/pal\<close>): I2C transfers, GPIO pins, PWM and the fan
  tachometer.  The controllers are a parameter: what they answer is a function of the log.
  A controller is a number; a null device pointer is \<open>None\<close>, and a transfer through it is
  undefined.
\<close>

record bus_env =
  device_get_binding :: "string \<Rightarrow> nat option"
  i2c_ret :: "io_log \<Rightarrow> int"            \<comment> \<open>result of the last transfer\<close>
  i2c_bytes :: "io_log \<Rightarrow> u8 list"      \<comment> \<open>bytes it delivered\<close>
  gpio_ret :: "io_log \<Rightarrow> int"
  gpio_level :: "io_log \<Rightarrow> u32"         \<comment> \<open>\<^verbatim>\<open>gpio_pin_get_raw\<close>\<close>
  pwm_ret :: "io_log \<Rightarrow> int"
  tgpio_ret :: "io_log \<Rightarrow> int"

text \<open>A read that succeeds delivers all bytes.\<close>

definition i2c_complete :: "bus_env \<Rightarrow> bool" where
  "i2c_complete e \<longleftrightarrow> (\<forall>l d a r n. i2c_ret e (l @ [I2cRead d a r n]) = 0 \<longrightarrow>
     length (i2c_bytes e (l @ [I2cRead d a r n])) = n)"

definition SUCCESS :: int where "SUCCESS = 0"
definition FAILURE :: int where "FAILURE = 1"

section \<open>I2C (\<^verbatim>\<open>eclite_i2c.c\<close>)\<close>

text \<open>A transfer that reads \<open>n\<close> bytes into a buffer.\<close>

definition i2c_read ::
    "bus_env \<Rightarrow> nat option \<Rightarrow> u16 \<Rightarrow> u8 list \<Rightarrow> u8 list \<Rightarrow> nat \<Rightarrow> 'a kstate_scheme
     \<Rightarrow> (int \<times> u8 list \<times> 'a kstate_scheme) option" where
  "i2c_read e dev slave reg buf n s =
     do {
       d \<leftarrow> dev;
       let s1 = emit (I2cRead d slave reg n) s;
       if length buf < n then None
       else Some (i2c_ret e (io s1), memcpy_at buf 0 (take n (i2c_bytes e (io s1))), s1)
     }"

definition i2c_write ::
    "bus_env \<Rightarrow> nat option \<Rightarrow> u16 \<Rightarrow> u8 list \<Rightarrow> u8 list \<Rightarrow> 'a kstate_scheme \<Rightarrow> (int \<times> 'a kstate_scheme) option" where
  "i2c_write e dev slave reg data s =
     do { d \<leftarrow> dev; let s1 = emit (I2cWrite d slave reg data) s; Some (i2c_ret e (io s1), s1) }"

definition eclite_i2c_config :: "bus_env \<Rightarrow> nat option \<Rightarrow> 'a kstate_scheme \<Rightarrow> (int \<times> 'a kstate_scheme) option" where
  "eclite_i2c_config e dev s =
     do { d \<leftarrow> dev; let s1 = emit (I2cConfigure d) s; Some (i2c_ret e (io s1), s1) }"

definition eclite_get_i2c_device :: "bus_env \<Rightarrow> string \<Rightarrow> nat option" where
  "eclite_get_i2c_device e name = device_get_binding e name"

definition eclite_i2c_read_byte ::
    "bus_env \<Rightarrow> nat option \<Rightarrow> u16 \<Rightarrow> u8 \<Rightarrow> u8 \<Rightarrow> 'a kstate_scheme \<Rightarrow> (int \<times> u8 \<times> 'a kstate_scheme) option" where
  "eclite_i2c_read_byte e dev slave reg val s =
     do { (ret, bs, s1) \<leftarrow> i2c_read e dev slave [reg] [val] 1 s; Some (ret, bs ! 0, s1) }"

definition eclite_i2c_write_byte ::
    "bus_env \<Rightarrow> nat option \<Rightarrow> u16 \<Rightarrow> u8 \<Rightarrow> u8 \<Rightarrow> 'a kstate_scheme \<Rightarrow> (int \<times> 'a kstate_scheme) option" where
  "eclite_i2c_write_byte e dev slave reg val s = i2c_write e dev slave [reg] [val] s"

text \<open>\<open>val\<close> is the caller's variable: what it holds before, and the result after.\<close>

definition eclite_i2c_read_word ::
    "bus_env \<Rightarrow> nat option \<Rightarrow> u16 \<Rightarrow> u8 \<Rightarrow> u16 \<Rightarrow> 'a kstate_scheme \<Rightarrow> (int \<times> u16 \<times> 'a kstate_scheme) option" where
  "eclite_i2c_read_word e dev slave reg val s =
     do { (ret, bs, s1) \<leftarrow> i2c_read e dev slave [reg] (le16 val) 2 s; Some (ret, get16 bs 0, s1) }"

definition eclite_i2c_write_word ::
    "bus_env \<Rightarrow> nat option \<Rightarrow> u16 \<Rightarrow> u8 \<Rightarrow> u16 \<Rightarrow> 'a kstate_scheme \<Rightarrow> (int \<times> 'a kstate_scheme) option" where
  "eclite_i2c_write_word e dev slave reg val s = i2c_write e dev slave [reg] (le16 val) s"

definition eclite_i2c_burst_read ::
    "bus_env \<Rightarrow> nat option \<Rightarrow> u16 \<Rightarrow> u8 \<Rightarrow> u8 list \<Rightarrow> nat \<Rightarrow> 'a kstate_scheme
     \<Rightarrow> (int \<times> u8 list \<times> 'a kstate_scheme) option" where
  "eclite_i2c_burst_read e dev slave reg buf n s = i2c_read e dev slave [reg] buf n s"

definition eclite_i2c_burst_write ::
    "bus_env \<Rightarrow> nat option \<Rightarrow> u16 \<Rightarrow> u8 \<Rightarrow> u8 list \<Rightarrow> 'a kstate_scheme \<Rightarrow> (int \<times> 'a kstate_scheme) option" where
  "eclite_i2c_burst_write e dev slave reg data s = i2c_write e dev slave [reg] data s"

text \<open>Register addresses of two bytes, low byte first.\<close>

definition eclite_i2c_burst_read16 ::
    "bus_env \<Rightarrow> nat option \<Rightarrow> u16 \<Rightarrow> u16 \<Rightarrow> u8 list \<Rightarrow> nat \<Rightarrow> 'a kstate_scheme
     \<Rightarrow> (int \<times> u8 list \<times> 'a kstate_scheme) option" where
  "eclite_i2c_burst_read16 e dev slave reg buf n s = i2c_read e dev slave (le16 reg) buf n s"

definition eclite_i2c_burst_write16 ::
    "bus_env \<Rightarrow> nat option \<Rightarrow> u16 \<Rightarrow> u16 \<Rightarrow> u8 list \<Rightarrow> 'a kstate_scheme \<Rightarrow> (int \<times> 'a kstate_scheme) option" where
  "eclite_i2c_burst_write16 e dev slave reg data s = i2c_write e dev slave (le16 reg) data s"

section \<open>GPIO (\<^verbatim>\<open>eclite_gpio.c\<close>)\<close>

definition gpio_call ::
    "bus_env \<Rightarrow> (nat \<Rightarrow> io_event) \<Rightarrow> nat option \<Rightarrow> 'a kstate_scheme \<Rightarrow> (int \<times> 'a kstate_scheme) option" where
  "gpio_call e ev dev s = do { d \<leftarrow> dev; let s1 = emit (ev d) s; Some (gpio_ret e (io s1), s1) }"

definition eclite_get_gpio_device :: "bus_env \<Rightarrow> string \<Rightarrow> nat option" where
  "eclite_get_gpio_device e name = device_get_binding e name"

definition eclite_gpio_configure ::
    "bus_env \<Rightarrow> nat option \<Rightarrow> u32 \<Rightarrow> u32 \<Rightarrow> 'a kstate_scheme \<Rightarrow> (int \<times> 'a kstate_scheme) option" where
  "eclite_gpio_configure e dev pin flags s = gpio_call e (\<lambda>d. GpioPinConfigure d pin flags) dev s"

definition eclite_gpio_register_callback ::
    "bus_env \<Rightarrow> nat option \<Rightarrow> u32 \<Rightarrow> 'a kstate_scheme \<Rightarrow> (int \<times> 'a kstate_scheme) option" where
  "eclite_gpio_register_callback e dev pin s = gpio_call e (\<lambda>d. GpioAddCallback d pin) dev s"

definition eclite_set_gpio ::
    "bus_env \<Rightarrow> nat option \<Rightarrow> u32 \<Rightarrow> u32 \<Rightarrow> 'a kstate_scheme \<Rightarrow> (int \<times> 'a kstate_scheme) option" where
  "eclite_set_gpio e dev pin val s = gpio_call e (\<lambda>d. GpioPinSet d pin val) dev s"

text \<open>Result code and value; the code is always success.\<close>

definition eclite_get_gpio ::
    "bus_env \<Rightarrow> nat option \<Rightarrow> u32 \<Rightarrow> 'a kstate_scheme \<Rightarrow> (int \<times> u32 \<times> 'a kstate_scheme) option" where
  "eclite_get_gpio e dev pin s =
     do { d \<leftarrow> dev; let s1 = emit (GpioPinGet d pin) s; Some (SUCCESS, gpio_level e (io s1), s1) }"

definition eclite_gpio_pin_enable_callback ::
    "bus_env \<Rightarrow> nat option \<Rightarrow> u32 \<Rightarrow> u32 \<Rightarrow> 'a kstate_scheme \<Rightarrow> (int \<times> 'a kstate_scheme) option" where
  "eclite_gpio_pin_enable_callback e dev pin flags s = gpio_call e (\<lambda>d. GpioPinInterrupt d pin flags) dev s"

text \<open>\<^verbatim>\<open>GPIO_INPUT | GPIO_INT_DISABLE\<close> are flags of the kernel.\<close>

definition eclite_gpio_pin_disable_callback ::
    "bus_env \<Rightarrow> u32 \<Rightarrow> nat option \<Rightarrow> u32 \<Rightarrow> 'a kstate_scheme \<Rightarrow> (int \<times> 'a kstate_scheme) option" where
  "eclite_gpio_pin_disable_callback e flags dev pin s = gpio_call e (\<lambda>d. GpioPinInterrupt d pin flags) dev s"

section \<open>PWM and tachometer (\<^verbatim>\<open>eclite_pwm.c\<close>, \<^verbatim>\<open>eclite_tacho.c\<close>)\<close>

definition eclite_write_pwm ::
    "bus_env \<Rightarrow> nat \<Rightarrow> u32 \<Rightarrow> u32 \<Rightarrow> u32 \<Rightarrow> 'a kstate_scheme \<Rightarrow> int \<times> 'a kstate_scheme" where
  "eclite_write_pwm e dev pwm period pulse s = (let s1 = emit (PwmSet dev pwm period pulse) s in (pwm_ret e (io s1), s1))"

record tacho_state =
  is_callbacked :: bool
  is_tacho_configured :: bool
  tach_rotation :: u16         \<comment> \<open>\<^verbatim>\<open>rotation\<close>, an \<^verbatim>\<open>int16_t\<close>\<close>
  current_rotation :: u64
  previous_rotation :: u64

definition tacho_zero :: tacho_state where
  "tacho_zero = \<lparr>is_callbacked = False, is_tacho_configured = False, tach_rotation = 0,
     current_rotation = 0, previous_rotation = 0\<rparr>"

definition WRAP_AROUND :: u64 where "WRAP_AROUND = 0xFFFFFFFFFFFFFFFF"
definition ONE_MINUTE :: int where "ONE_MINUTE = 60"
definition PULSE_PER_REV :: int where "PULSE_PER_REV = 2"

text \<open>The callback of the counter, once a second.  Assignments to \<^verbatim>\<open>rotation\<close> keep the low 16 bits; the product
  is computed as an \<^verbatim>\<open>int\<close> and the division rounds towards zero.\<close>

definition tgpio_callback :: "u64 \<Rightarrow> tacho_state \<Rightarrow> tacho_state" where
  "tgpio_callback ev_cnt t =
     (let prev = current_rotation t; cur = ev_cnt;
          r1 = ucast (cur - prev) :: u16;
          r2 = (if sint r1 < 0 then ucast (cur - prev + WRAP_AROUND) else r1);
          p = sint r2 * ONE_MINUTE
      in t\<lparr>is_callbacked := True, previous_rotation := prev, current_rotation := cur,
           tach_rotation := word_of_int (if p < 0 then - ((- p) div PULSE_PER_REV) else p div PULSE_PER_REV)\<rparr>)"

definition eclite_init_tacho ::
    "bus_env \<Rightarrow> nat \<Rightarrow> tacho_state \<Rightarrow> 'a kstate_scheme \<Rightarrow> int \<times> tacho_state \<times> 'a kstate_scheme" where
  "eclite_init_tacho e dev t s =
     (let s1 = emit (TgpioCount dev) s; ret = tgpio_ret e (io s1)
      in (ret, tacho_zero, s1))"

text \<open>The value stored through a pointer to 32 bits.\<close>

definition eclite_read_tacho :: "tacho_state \<Rightarrow> int \<times> u32" where
  "eclite_read_tacho t = (0, scast (tach_rotation t))"

end
