(* ===== verification/Pmc_Service.thy ===== *)
theory Pmc_Service
  imports Kernel_Env
begin

text \<open>
  The service in front of the power management controller
  (\<^verbatim>\<open>sys_service/pmc_service/pmc_service.c\<close>).  A client hands over one message and waits; the thread of
  the service writes it to the controller and, if the client asks for an answer, waits for the
  interrupt of the controller and reads the answer into the message.
\<close>

section \<open>Messages\<close>

definition MAX_PECI_MSG_SIZE :: nat where "MAX_PECI_MSG_SIZE = 20"
definition PMC_CLIENT_ECLITE :: u8 where "PMC_CLIENT_ECLITE = 0"
definition PMC_CLIENT_OOB :: u8 where "PMC_CLIENT_OOB = 1"
definition FORMAT_SHORT :: "3 word" where "FORMAT_SHORT = 0"
definition FORMAT_LONG :: "3 word" where "FORMAT_LONG = 1"
definition FORMAT_SB_RAW_WRITE :: "3 word" where "FORMAT_SB_RAW_WRITE = 2"
definition FORMAT_SB_RAW_READ :: "3 word" where "FORMAT_SB_RAW_READ = 3"
definition FORMAT_HWSB_PME_REQ :: "3 word" where "FORMAT_HWSB_PME_REQ = 4"
definition FORMAT_WIRE_GLOBAL_RESET :: "3 word" where "FORMAT_WIRE_GLOBAL_RESET = 5"

lemmas pmc_format_defs = FORMAT_SHORT_def FORMAT_LONG_def FORMAT_SB_RAW_WRITE_def FORMAT_SB_RAW_READ_def
  FORMAT_HWSB_PME_REQ_def FORMAT_WIRE_GLOBAL_RESET_def

text \<open>The union of payloads is the list of its bytes: a short message has its command in byte 0, its
  payload in byte 1 and the doorbell it receives in bytes 4 to 7.\<close>

record pmc_msg_t =
  pm_client_id :: u8
  pm_format :: "3 word"
  pm_wait_for_ack :: bool
  pm_msg_size :: "10 word"
  pm_u :: "u8 list"

definition short_cmd_id :: "pmc_msg_t \<Rightarrow> u8" where "short_cmd_id m = pm_u m ! 0"
definition short_payload :: "pmc_msg_t \<Rightarrow> u8" where "short_payload m = pm_u m ! 1"
definition short_drbl_val :: "pmc_msg_t \<Rightarrow> u32" where "short_drbl_val m = get32 (pm_u m) 4"

text \<open>\<open>pmc_zero n\<close> is a cleared message whose union has \<open>n\<close> bytes.\<close>

definition pmc_zero :: "nat \<Rightarrow> pmc_msg_t" where
  "pmc_zero n = \<lparr>pm_client_id = 0, pm_format = 0, pm_wait_for_ack = False, pm_msg_size = 0, pm_u = replicate n 0\<rparr>"

section \<open>State and environment\<close>

record pmc_state = kstate +
  ipc_alert :: nat           \<comment> \<open>semaphore given by the interrupt of the controller\<close>
  pmc_msg_alert :: nat       \<comment> \<open>semaphore given by the thread of the service\<close>
  pmc_msg_mutex :: nat       \<comment> \<open>lock count\<close>

record pmc_env =
  pmc_kern :: kenv
  pmc_write_ret :: "io_log \<Rightarrow> int"
  pmc_reply :: "io_log \<Rightarrow> bool"                 \<comment> \<open>the interrupt arrives before the time-out\<close>
  pmc_read :: "io_log \<Rightarrow> int \<times> u32 \<times> u8 list"   \<comment> \<open>code, doorbell, bytes\<close>
  sideband_ret :: "io_log \<Rightarrow> int"
  sideband_value :: "io_log \<Rightarrow> u8 list"          \<comment> \<open>the raw message after a read\<close>
  pme_ret :: "io_log \<Rightarrow> int"
  reset_ret :: "io_log \<Rightarrow> int"
  fifo_put_ret :: "io_log \<Rightarrow> int"
  CONFIG_PMC_MAX_CLIENT :: nat

definition EINVAL :: int where "EINVAL = 22"

section \<open>The thread of the service\<close>

definition ipc_rx_handler :: "pmc_env \<Rightarrow> 'a pmc_state_scheme \<Rightarrow> 'a pmc_state_scheme" where
  "ipc_rx_handler e s = s\<lparr>ipc_alert := k_sem_give (pmc_kern e) 1 (ipc_alert s)\<rparr>"

definition pmc_long_drbl :: "pmc_msg_t \<Rightarrow> u32" where
  "pmc_long_drbl m = BIT 31 OR ucast (pm_msg_size m)"

definition pmc_short_drbl :: "pmc_msg_t \<Rightarrow> u32" where
  "pmc_short_drbl m = BIT 27 OR BIT 31 OR push_bit 14 (ucast (short_cmd_id m)) OR ucast (short_payload m) OR push_bit 22 1"

text \<open>Result code, message and state.  \<open>None\<close>: the size of a long message exceeds the union.\<close>

definition send_pmc_ipc_msg ::
    "pmc_env \<Rightarrow> pmc_msg_t \<Rightarrow> 'a pmc_state_scheme \<Rightarrow> (int \<times> pmc_msg_t \<times> 'a pmc_state_scheme) option" where
  "send_pmc_ipc_msg e m s =
     (if pm_format m = FORMAT_LONG
      then if length (pm_u m) < unat (pm_msg_size m) then None
           else let s1 = emit (PmcWrite (pmc_long_drbl m) (take (unat (pm_msg_size m)) (pm_u m))) s
                in Some (pmc_write_ret e (io s1), m, s1)
      else if pm_format m = FORMAT_SHORT
      then let s1 = emit (PmcWrite (pmc_short_drbl m) []) s in Some (pmc_write_ret e (io s1), m, s1)
      else if pm_format m = FORMAT_SB_RAW_WRITE
      then let s1 = emit (SidebandRaw True (pm_u m)) s in Some (sideband_ret e (io s1), m, s1)
      else if pm_format m = FORMAT_SB_RAW_READ
      then let s1 = emit (SidebandRaw False (pm_u m)) s
           in Some (sideband_ret e (io s1), m\<lparr>pm_u := memcpy_at (pm_u m) 0 (sideband_value e (io s1))\<rparr>, s1)
      else if pm_format m = FORMAT_HWSB_PME_REQ
      then let s1 = emit TriggerPme s in Some (pme_ret e (io s1), m, s1)
      else if pm_format m = FORMAT_WIRE_GLOBAL_RESET
      then let s1 = emit GlobalReset s in Some (reset_ret e (io s1), m, emit SysReboot s1)
      else Some (- EINVAL, m, s))"

definition rcv_pmc_ipc_msg ::
    "pmc_env \<Rightarrow> pmc_msg_t \<Rightarrow> 'a pmc_state_scheme \<Rightarrow> int \<times> pmc_msg_t \<times> 'a pmc_state_scheme" where
  "rcv_pmc_ipc_msg e m s =
     (let s0 = emit PmcWait s;
          (ret, n) = k_sem_take (pmc_kern e) (ipc_alert s0) (pmc_reply e (io s0));
          s1 = s0\<lparr>ipc_alert := n\<rparr>
      in if ret \<noteq> 0 then (ret, m, s1)
         else if pm_format m = FORMAT_LONG
         then let s2 = emit (PmcRead (unat (pm_msg_size m))) s1; (ret', _, bs) = pmc_read e (io s2)
              in (ret', m\<lparr>pm_u := memcpy_at (pm_u m) 0 (take (unat (pm_msg_size m)) bs)\<rparr>, emit PmcAck s2)
         else if pm_format m = FORMAT_SHORT
         then let s2 = emit (PmcRead 0) s1; (ret', drbl, _) = pmc_read e (io s2)
              in (ret', m\<lparr>pm_u := memcpy_at (pm_u m) 4 (le32 drbl)\<rparr>, emit PmcAck s2)
         else (- EINVAL, m, s1))"

text \<open>One round of \<^verbatim>\<open>pmc_msg_thread\<close>: status, message and state.\<close>

definition pmc_msg_thread_round ::
    "pmc_env \<Rightarrow> pmc_msg_t \<Rightarrow> 'a pmc_state_scheme \<Rightarrow> (int \<times> pmc_msg_t \<times> 'a pmc_state_scheme) option" where
  "pmc_msg_thread_round e m s =
     do {
       (status, m1, s1) \<leftarrow> send_pmc_ipc_msg e m s;
       let (status', m2, s2) = (if status = 0 \<and> pm_wait_for_ack m1 then rcv_pmc_ipc_msg e m1 s1 else (status, m1, s1));
       Some (status', m2, s2\<lparr>pmc_msg_alert := k_sem_give (pmc_kern e) 1 (pmc_msg_alert s2)\<rparr>)
     }"

section \<open>Clients\<close>

text \<open>The mutex is held from before the message is queued until after it is answered, so the queue holds at
  most this message, and the thread runs one round while the client waits.  \<open>None\<close> as message is a null
  pointer.\<close>

definition pmc_sync_send_msg ::
    "pmc_env \<Rightarrow> pmc_msg_t option \<Rightarrow> 'a pmc_state_scheme \<Rightarrow> (int \<times> pmc_msg_t option \<times> 'a pmc_state_scheme) option" where
  "pmc_sync_send_msg e usr s =
     (case usr of
        None \<Rightarrow> Some (- EINVAL, None, s)
      | Some m \<Rightarrow>
          if CONFIG_PMC_MAX_CLIENT e \<le> unat (pm_client_id m) \<or> MAX_PECI_MSG_SIZE \<le> unat (pm_msg_size m)
          then Some (- EINVAL, Some m, s)
          else let s1 = s\<lparr>pmc_msg_mutex := pmc_msg_mutex s + 1\<rparr>; ret = fifo_put_ret e (io s1)
               in if ret \<noteq> 0 then Some (ret, Some m, s1\<lparr>pmc_msg_mutex := pmc_msg_mutex s1 - 1\<rparr>)
                  else do {
                    (status, m', s2) \<leftarrow> pmc_msg_thread_round e m s1;
                    let s3 = s2\<lparr>pmc_msg_alert := snd (k_sem_take (pmc_kern e) (pmc_msg_alert s2) True)\<rparr>;
                    Some (status, Some m', s3\<lparr>pmc_msg_mutex := pmc_msg_mutex s3 - 1\<rparr>)
                  })"

section \<open>The client of the out-of-band service (\<^verbatim>\<open>pmc_client/pmc_client.c\<close>)\<close>

definition PMC_CMD :: u8 where "PMC_CMD = 0x14"
definition PMC_GLOBAL_REBOOT_CODE :: u8 where "PMC_GLOBAL_REBOOT_CODE = 2"
definition PMC_HOST_REBOOT_CODE :: u8 where "PMC_HOST_REBOOT_CODE = 4"
definition PMC_HOST_POWEROFF_CODE :: u8 where "PMC_HOST_POWEROFF_CODE = 16"
definition PMC_HOST_WAKE_CODE :: u8 where "PMC_HOST_WAKE_CODE = 32"

fun pmc_action_code :: "pmc_messages \<Rightarrow> u8" where
  "pmc_action_code PMC_ACTION_POWERON = PMC_HOST_WAKE_CODE"
| "pmc_action_code PMC_ACTION_POWEROFF = PMC_HOST_POWEROFF_CODE"
| "pmc_action_code PMC_ACTION_REBOOT_PLATFORM = PMC_GLOBAL_REBOOT_CODE"
| "pmc_action_code PMC_ACTION_REBOOT_HOST = PMC_HOST_REBOOT_CODE"

text \<open>When the controller does not take the message, everything but switching off falls back to a reset of
  the whole platform.\<close>

definition pmc_action :: "pmc_env \<Rightarrow> pmc_messages \<Rightarrow> 'a pmc_state_scheme \<Rightarrow> (int \<times> 'a pmc_state_scheme) option" where
  "pmc_action e a s =
     (let z = pmc_zero MAX_PECI_MSG_SIZE;
          m = z\<lparr>pm_client_id := PMC_CLIENT_OOB, pm_format := FORMAT_SHORT,
                pm_u := (pm_u z)[0 := PMC_CMD, 1 := pmc_action_code a]\<rparr>
      in do {
           (status, m1, s1) \<leftarrow> pmc_sync_send_msg e (Some m) s;
           if status \<noteq> 0 \<and> a \<noteq> PMC_ACTION_POWEROFF
           then do {
             (status', _, s2) \<leftarrow> pmc_sync_send_msg e (map_option (\<lambda>m. m\<lparr>pm_format := FORMAT_WIRE_GLOBAL_RESET\<rparr>) m1) s1;
             Some (status', s2)
           }
           else Some (status, s1)
         })"

end
