(* ===== verification/Eclite_Pmc.thy ===== *)
theory Eclite_Pmc
  imports Pmc_Service
begin

text \<open>
  The requests of EC-lite to the power management controller (\<^verbatim>\<open>ext/pal/eclite_pmc.c\<close>): the
  temperature of the processor relative to its maximum, that maximum, and power state changes.
\<close>

definition GET_TEMP :: u8 where "GET_TEMP = 1"
definition GET_TJ_MAX :: u8 where "GET_TJ_MAX = 2"
definition SEND_POWER_STATE_CHANGE :: u8 where "SEND_POWER_STATE_CHANGE = 3"
definition PMC_MSG_HEADER_SIZE :: nat where "PMC_MSG_HEADER_SIZE = 4"
definition SHORT_MSG_LEN :: nat where "SHORT_MSG_LEN = 4"
definition REQ_LEN :: nat where "REQ_LEN = 5"
definition RESP_LEN :: nat where "RESP_LEN = 4"
definition COMPLETION_CODE :: u8 where "COMPLETION_CODE = 0x40"
definition PECI_TARGET_ADDRESS :: u8 where "PECI_TARGET_ADDRESS = 0x30"
definition PECI_FAIL_SAFE_TJMAX :: u8 where "PECI_FAIL_SAFE_TJMAX = 100"
definition PECI_TJMAX_INDEX :: u8 where "PECI_TJMAX_INDEX = 0x10"
definition PECI_GET_TEMP_CMD :: u8 where "PECI_GET_TEMP_CMD = 1"
definition PECI_RD_PKG_CMD :: u8 where "PECI_RD_PKG_CMD = 0xA1"
definition PMC_PECI_GET_TEMP_CMD :: u16 where "PMC_PECI_GET_TEMP_CMD = 0x12"
definition PMC_POWER_STATE_CHANGE_CMD :: u8 where "PMC_POWER_STATE_CHANGE_CMD = 0x14"
definition PMC_PECI_RD_PKG_CMD :: u16 where "PMC_PECI_RD_PKG_CMD = 0x15"
definition RAW_TO_INT :: nat where "RAW_TO_INT = 6"
definition PMC_ERROR :: int where "PMC_ERROR = -1"

text \<open>\<^verbatim>\<open>tj_max\<close> is an \<^verbatim>\<open>int8_t\<close>.\<close>

record peci_state = pmc_state +
  peci_tj_max :: u8

definition SHORT_MSG_HEADER :: "bool \<Rightarrow> pmc_msg_t" where
  "SHORT_MSG_HEADER wait = (pmc_zero MAX_PECI_MSG_SIZE)\<lparr>pm_client_id := PMC_CLIENT_ECLITE, pm_format := FORMAT_SHORT,
     pm_wait_for_ack := wait, pm_msg_size := of_nat SHORT_MSG_LEN\<rparr>"

definition LONG_MSG_HEADER :: "bool \<Rightarrow> nat \<Rightarrow> pmc_msg_t" where
  "LONG_MSG_HEADER wait size1 = (pmc_zero MAX_PECI_MSG_SIZE)\<lparr>pm_client_id := PMC_CLIENT_ECLITE, pm_format := FORMAT_LONG,
     pm_wait_for_ack := wait, pm_msg_size := of_nat size1\<rparr>"

definition get_temp_req :: "u8 list" where
  "get_temp_req = le16 PMC_PECI_GET_TEMP_CMD @ le16 0 @ [PECI_TARGET_ADDRESS, 1, 2, PECI_GET_TEMP_CMD]"

text \<open>The reading is a 16-bit number in two's complement with 6 fractional bits.\<close>

definition peci_celsius :: "u8 \<Rightarrow> u16 \<Rightarrow> u8" where
  "peci_celsius tj raw_temp = word_of_int (sint tj + sint (signed_drop_bit RAW_TO_INT raw_temp))"

definition peci_get_temp ::
    "pmc_env \<Rightarrow> 'a peci_state_scheme \<Rightarrow> (int \<times> u8 option \<times> 'a peci_state_scheme) option" where
  "peci_get_temp e s =
     (let h = LONG_MSG_HEADER True (PMC_MSG_HEADER_SIZE + length get_temp_req)
      in do {
           (ret, m, s1) \<leftarrow> pmc_sync_send_msg e (Some (h\<lparr>pm_u := memcpy_at (pm_u h) 0 get_temp_req\<rparr>)) s;
           if ret \<noteq> 0 then Some (ret, None, s1)
           else do {
             res \<leftarrow> m;
             Some (0, Some (peci_celsius (peci_tj_max s1) (get16 (pm_u res) 5)), s1)
           }
         })"

text \<open>The first \<open>reslen\<close> bytes of the answer, whether or not there was an error.\<close>

definition peci_read_package ::
    "pmc_env \<Rightarrow> u8 list \<Rightarrow> nat \<Rightarrow> 'a peci_state_scheme \<Rightarrow> (int \<times> u8 list \<times> 'a peci_state_scheme) option" where
  "peci_read_package e req reslen s =
     (let h = LONG_MSG_HEADER True (PMC_MSG_HEADER_SIZE + length req)
      in do {
           (ret, m, s1) \<leftarrow> pmc_sync_send_msg e (Some (h\<lparr>pm_u := memcpy_at (pm_u h) 0 req\<rparr>)) s;
           m' \<leftarrow> m;
           let res = take reslen (pm_u m');
           if ret \<noteq> 0 then Some (ret, res, s1)
           else if res ! 5 \<noteq> COMPLETION_CODE then Some (PMC_ERROR, res, s1)
           else Some (0, res, s1)
         })"

definition get_tj_max :: "pmc_env \<Rightarrow> 'a peci_state_scheme \<Rightarrow> (int \<times> u8 \<times> 'a peci_state_scheme) option" where
  "get_tj_max e s =
     do {
       (ret, res, s1) \<leftarrow> peci_read_package e
          (le16 PMC_PECI_RD_PKG_CMD @ le16 0 @ [PECI_TARGET_ADDRESS, 5, 5, PECI_RD_PKG_CMD, 0, PECI_TJMAX_INDEX])
          (5 + RESP_LEN) s;
       Some (if ret \<noteq> 0 then (ret, PECI_FAIL_SAFE_TJMAX, s1) else (0, res ! 8, s1))
     }"

definition pmc_send_short_msg :: "pmc_env \<Rightarrow> u8 \<Rightarrow> 'a peci_state_scheme \<Rightarrow> (int \<times> 'a peci_state_scheme) option" where
  "pmc_send_short_msg e buf s =
     (let h = SHORT_MSG_HEADER False
      in do {
           (ret, _, s1) \<leftarrow> pmc_sync_send_msg e (Some (h\<lparr>pm_u := (pm_u h)[0 := PMC_POWER_STATE_CHANGE_CMD, 1 := buf]\<rparr>)) s;
           Some (ret, s1)
         })"

text \<open>\<open>buf\<close> is the byte of the caller: before and after.\<close>

definition pmc_command ::
    "pmc_env \<Rightarrow> u8 \<Rightarrow> u8 \<Rightarrow> 'a peci_state_scheme \<Rightarrow> (int \<times> u8 \<times> 'a peci_state_scheme) option" where
  "pmc_command e msg_type buf s =
     (if msg_type = GET_TEMP
      then do { (ret, v, s1) \<leftarrow> peci_get_temp e s; Some (ret, case v of None \<Rightarrow> buf | Some t \<Rightarrow> t, s1) }
      else if msg_type = GET_TJ_MAX
      then do { (ret, v, s1) \<leftarrow> get_tj_max e s; Some (ret, v, s1\<lparr>peci_tj_max := v\<rparr>) }
      else if msg_type = SEND_POWER_STATE_CHANGE
      then do { (ret, s1) \<leftarrow> pmc_send_short_msg e buf s; Some (ret, buf, s1) }
      else Some (PMC_ERROR, buf, s))"

end
