(* ===== verification/Eclite_Drivers.thy ===== *)
theory Eclite_Drivers
  imports Eclite_Bus Eclite_Pmc
begin

text \<open>
  The device drivers of EC-lite (\<^verbatim>\<open>drivers/\<close>): the temperature sensors, the processor, the fan, the fuel gauge
  and the charger.  A driver gets its private interface and data and returns what it changes;
  \<open>None\<close> stands for a transfer through a null device pointer or a buffer that is too short.
\<close>

definition DEV_INIT_FAILED :: int where "DEV_INIT_FAILED = -1"
definition DEV_SHUTDOWN :: int where "DEV_SHUTDOWN = -9"

text \<open>Result codes that pass through a narrow variable.\<close>

definition as_int8 :: "int \<Rightarrow> int" where "as_int8 r = sint (word_of_int r :: u8)"
definition as_uint16 :: "int \<Rightarrow> int" where "as_uint16 r = uint (word_of_int r :: u16)"

section \<open>Temperature sensor (\<^verbatim>\<open>tmp102.c\<close>)\<close>

definition TMP102_TEMPERATURE_REG :: u8 where "TMP102_TEMPERATURE_REG = 0"
definition TMP102_CONFIGURATION_REG :: u8 where "TMP102_CONFIGURATION_REG = 1"
definition TMP102_T_LOW_REG :: u8 where "TMP102_T_LOW_REG = 2"
definition TMP102_T_HIGH_REG :: u8 where "TMP102_T_HIGH_REG = 3"
definition TMP102_REG_FORMAT :: nat where "TMP102_REG_FORMAT = 0"
definition TMP102_READABLE_FORMAT :: nat where "TMP102_READABLE_FORMAT = 1"
definition TMP102_EM_NORAML_MODE :: nat where "TMP102_EM_NORAML_MODE = 0"
definition TMP102_EM_EXTENDED_MODE :: nat where "TMP102_EM_EXTENDED_MODE = 1"
definition THM_HIGH_TEMPERATURE :: u16 where "THM_HIGH_TEMPERATURE = 55"
definition THM_LOW_TEMPERATURE :: u16 where "THM_LOW_TEMPERATURE = 10"

text \<open>\<open>tmp_slave\<close> is \<^verbatim>\<open>i2c_slave\<close> of the driver data.\<close>

record tmp102_interface =
  tmp_i2c_dev :: "nat option"
  tmp_slave :: u8
  crit_temp :: u16

definition tmp102_config ::
    "bus_env \<Rightarrow> tmp102_interface \<Rightarrow> u16 \<Rightarrow> 'a kstate_scheme \<Rightarrow> (int \<times> 'a kstate_scheme) option" where
  "tmp102_config e d data s =
     do {
       (ret, temp, s1) \<leftarrow> eclite_i2c_read_word e (tmp_i2c_dev d) (ucast (tmp_slave d)) TMP102_CONFIGURATION_REG 0 s;
       if ret \<noteq> 0 then Some (ret, s1)
       else eclite_i2c_write_word e (tmp_i2c_dev d) (ucast (tmp_slave d)) TMP102_CONFIGURATION_REG (temp OR data) s1
     }"

definition tmp102_get_status ::
    "bus_env \<Rightarrow> tmp102_interface \<Rightarrow> u16 \<Rightarrow> 'a kstate_scheme \<Rightarrow> (int \<times> u16 \<times> 'a kstate_scheme) option" where
  "tmp102_get_status e d data s =
     eclite_i2c_read_word e (tmp_i2c_dev d) (ucast (tmp_slave d)) TMP102_CONFIGURATION_REG data s"

definition swap_bytes :: "u16 \<Rightarrow> u16" where
  "swap_bytes w = push_bit 8 (w AND 0xFF) OR drop_bit 8 (w AND 0xFF00)"

definition tmp102_convert_temperature :: "u16 \<Rightarrow> nat \<Rightarrow> nat \<Rightarrow> u16" where
  "tmp102_convert_temperature data fmt mode =
     (if mode = TMP102_EM_NORAML_MODE \<or> mode = TMP102_EM_EXTENDED_MODE
      then if fmt = TMP102_READABLE_FORMAT then signed_drop_bit (8 - mode) (swap_bytes data)
           else swap_bytes (push_bit (8 - mode) data)
      else 0)"

text \<open>The value is stored only after a successful read.\<close>

definition tmp102_read_temperature ::
    "bus_env \<Rightarrow> tmp102_interface \<Rightarrow> 'a kstate_scheme \<Rightarrow> (int \<times> u16 option \<times> 'a kstate_scheme) option" where
  "tmp102_read_temperature e d s =
     do {
       (ret, temp, s1) \<leftarrow> eclite_i2c_read_word e (tmp_i2c_dev d) (ucast (tmp_slave d)) TMP102_TEMPERATURE_REG 0 s;
       Some (if ret \<noteq> 0 then (ret, None, s1)
             else (ret, Some (tmp102_convert_temperature temp TMP102_READABLE_FORMAT TMP102_EM_NORAML_MODE), s1))
     }"

definition tmp102_update_threshold ::
    "bus_env \<Rightarrow> tmp102_interface \<Rightarrow> thermal_driver_data \<Rightarrow> 'a kstate_scheme \<Rightarrow> (int \<times> 'a kstate_scheme) option" where
  "tmp102_update_threshold e d td s =
     do {
       (ret, s1) \<leftarrow> eclite_i2c_write_word e (tmp_i2c_dev d) (ucast (tmp_slave d)) TMP102_T_HIGH_REG
                      (tmp102_convert_temperature (critical td) TMP102_REG_FORMAT TMP102_EM_NORAML_MODE) s;
       if ret \<noteq> 0 then Some (ret, s1)
       else eclite_i2c_write_word e (tmp_i2c_dev d) (ucast (tmp_slave d)) TMP102_T_LOW_REG
              (tmp102_convert_temperature (low_threshold td) TMP102_REG_FORMAT TMP102_EM_NORAML_MODE) s1
     }"

definition tmp102_isr ::
    "bus_env \<Rightarrow> tmp102_interface \<Rightarrow> thermal_driver_data \<Rightarrow> 'a kstate_scheme
     \<Rightarrow> (int \<times> thermal_driver_data \<times> 'a kstate_scheme) option" where
  "tmp102_isr e d td s =
     do {
       (ret, v, s1) \<leftarrow> tmp102_read_temperature e d s;
       if ret \<noteq> 0 then Some (ret, td, s1)
       else do {
         t \<leftarrow> v;
         let td1 = td\<lparr>temperature := t\<rparr>;
         (ret', s2) \<leftarrow> tmp102_update_threshold e d td1 s1;
         Some (ret', td1, s2)
       }
     }"

text \<open>The bits of the configuration that \<^verbatim>\<open>tmp102_init\<close> sets: interrupt mode, two faults, 1 Hz.  The other bits of the
  structure keep what the stack held (\<open>garbage\<close>), except mode, polarity, shutdown and rate.\<close>

definition tmp102_config_data :: "u16 \<Rightarrow> u16" where
  "tmp102_config_data garbage = BIT 1 OR BIT 3 OR BIT 14 OR (garbage AND 0x2FE0)"

definition tmp102_init ::
    "bus_env \<Rightarrow> string \<Rightarrow> u16 \<Rightarrow> tmp102_interface \<Rightarrow> thermal_driver_data \<Rightarrow> 'a kstate_scheme
     \<Rightarrow> (int \<times> tmp102_interface \<times> thermal_driver_data \<times> 'a kstate_scheme) option" where
  "tmp102_init e i2c_name garbage d td s =
     (let d1 = d\<lparr>tmp_i2c_dev := eclite_get_i2c_device e i2c_name\<rparr>
      in do {
           (r1, s1) \<leftarrow> tmp102_config e d1 (tmp102_config_data garbage) s;
           if as_int8 r1 \<noteq> 0 then Some (as_int8 r1, d1, td, s1)
           else do {
             (r2, v, s2) \<leftarrow> tmp102_read_temperature e d1 s1;
             if as_int8 r2 \<noteq> 0 then Some (as_int8 r2, d1, td, s2)
             else do {
               let td1 = td\<lparr>temperature := (case v of None \<Rightarrow> 0 | Some t \<Rightarrow> t), high_threshold := THM_HIGH_TEMPERATURE,
                            low_threshold := THM_LOW_TEMPERATURE, critical := crit_temp d1\<rparr>;
               (_, s3) \<leftarrow> tmp102_update_threshold e d1 td1 s2;
               Some (if uint (crit_temp d1) \<le> sint (temperature td1) then DEV_SHUTDOWN else 0, d1, td1, s3)
             }
           }
         })"

section \<open>Processor (\<^verbatim>\<open>cpu.c\<close>)\<close>

definition CPU_HIGH_TEMPERATURE :: u16 where "CPU_HIGH_TEMPERATURE = 55"
definition CPU_LOW_TEMPERATURE :: u16 where "CPU_LOW_TEMPERATURE = 50"

text \<open>The request writes one byte of the 16-bit variable \<open>data\<close>.\<close>

definition get_cpu_temperature ::
    "pmc_env \<Rightarrow> sx_type \<Rightarrow> bool \<Rightarrow> u16 \<Rightarrow> 'a peci_state_scheme \<Rightarrow> (int \<times> u16 \<times> 'a peci_state_scheme) option" where
  "get_cpu_temperature e sx s0ix data s =
     (if sx \<noteq> PM_RESET_TYPE_S0 then Some (ERROR, data, s)
      else if s0ix then Some (ERROR, data, s)
      else do {
        (ret, b, s1) \<leftarrow> pmc_command e GET_TEMP (ucast data) s;
        Some (ret, (data AND 0xFF00) OR ucast b, s1)
      })"

definition cpu_init :: "u16 \<Rightarrow> thermal_driver_data \<Rightarrow> int \<times> thermal_driver_data" where
  "cpu_init crit td =
     (0, td\<lparr>high_threshold := CPU_HIGH_TEMPERATURE, low_threshold := CPU_LOW_TEMPERATURE, critical := crit\<rparr>)"

section \<open>Fan (\<^verbatim>\<open>fan.c\<close>)\<close>

definition ECLITE_PWM_FREQ :: u32 where "ECLITE_PWM_FREQ = 4000"

record fan_interface =
  pwm_dev :: "nat option"
  tacho_dev :: "nat option"
  pwm_pin :: u8
  pwm_frequency :: u32

text \<open>The duty is a signed number that becomes unsigned in the product.\<close>

definition fan_pulse :: "u32 \<Rightarrow> u16 \<Rightarrow> u32" where
  "fan_pulse freq data = freq * scast data div 100"

definition fan_update_pwm ::
    "bus_env \<Rightarrow> fan_interface \<Rightarrow> u16 \<Rightarrow> 'a kstate_scheme \<Rightarrow> int \<times> 'a kstate_scheme" where
  "fan_update_pwm e f data s =
     (case pwm_dev f of
        None \<Rightarrow> (ERROR, s)
      | Some d \<Rightarrow> eclite_write_pwm e d (ucast (pwm_pin f)) (pwm_frequency f) (fan_pulse (pwm_frequency f) data) s)"

text \<open>A successful read stores 32 bits through a pointer to the 16-bit member \<^verbatim>\<open>tacho\<close>: the upper half goes to
  the member behind it.\<close>

definition fan_read_pwm :: "fan_interface \<Rightarrow> tacho_state \<Rightarrow> thermal_driver_data \<Rightarrow> int \<times> u32 option" where
  "fan_read_pwm f t td =
     (case tacho_dev f of
        None \<Rightarrow> (ERROR, None)
      | Some _ \<Rightarrow> if rotation td \<noteq> 0 then let (ret, v) = eclite_read_tacho t in (ret, Some v) else (0, None))"

definition fan_init ::
    "bus_env \<Rightarrow> string \<Rightarrow> string \<Rightarrow> u8 \<Rightarrow> fan_interface \<Rightarrow> tacho_state \<Rightarrow> 'a kstate_scheme
     \<Rightarrow> int \<times> fan_interface \<times> tacho_state \<times> 'a kstate_scheme" where
  "fan_init e pwm_name tacho_name pin f t s =
     (let p = device_get_binding e pwm_name; q = device_get_binding e tacho_name;
          f1 = f\<lparr>pwm_dev := p, tacho_dev := q, pwm_pin := (if p \<noteq> None then pin else pwm_pin f)\<rparr>;
          (t1, s1) = (case q of None \<Rightarrow> (t, s) | Some d \<Rightarrow> snd (eclite_init_tacho e d t s))
      in (if p \<noteq> None \<or> q \<noteq> None then DEV_OPS_SUCCESS else DEV_INIT_FAILED, f1, t1, s1))"

end
