(* ===== verification/Eclite_Battery.thy ===== *)
theory Eclite_Battery
  imports Eclite_Drivers
begin

text \<open>
  The drivers of the fuel gauge (\<^verbatim>\<open>drivers/battery_driver/bq40z40.c\<close>) and of the charger
  (\<^verbatim>\<open>drivers/charger_driver/bq24610.c\<close>).
\<close>

section \<open>Registers\<close>

definition BQ40Z40_VOLTAGE_REG :: u8 where "BQ40Z40_VOLTAGE_REG = 0x9"
definition BQ40Z40_CURRENT_REG :: u8 where "BQ40Z40_CURRENT_REG = 0xA"
definition BQ40Z40_RELATIVE_STATE_OF_CHARGE_REG :: u8 where "BQ40Z40_RELATIVE_STATE_OF_CHARGE_REG = 0xD"
definition BQ40Z40_ABSOLUTE_STATE_OF_CHARGE_REG :: u8 where "BQ40Z40_ABSOLUTE_STATE_OF_CHARGE_REG = 0xE"
definition BQ40Z40_REMAINING_BATTERY_REG :: u8 where "BQ40Z40_REMAINING_BATTERY_REG = 0xF"
definition BQ40Z40_FULL_CHARGE_CAPACITY_REG :: u8 where "BQ40Z40_FULL_CHARGE_CAPACITY_REG = 0x10"
definition BQ40Z40_CHARGE_VOLTAGE_REG :: u8 where "BQ40Z40_CHARGE_VOLTAGE_REG = 0x14"
definition BQ40Z40_CHARGE_CURRENT_REG :: u8 where "BQ40Z40_CHARGE_CURRENT_REG = 0x15"
definition BQ40Z40_ALARM_WARNING_REG :: u8 where "BQ40Z40_ALARM_WARNING_REG = 0x16"
definition BQ40Z40_CYCLE_COUNT_REG :: u8 where "BQ40Z40_CYCLE_COUNT_REG = 0x17"
definition BQ40Z40_DESIGN_CAPACITY_REG :: u8 where "BQ40Z40_DESIGN_CAPACITY_REG = 0x18"
definition BQ40Z40_DESIGN_VOLTAGE_REG :: u8 where "BQ40Z40_DESIGN_VOLTAGE_REG = 0x19"
definition BQ40Z40_BTP_DISCHARGE :: u8 where "BQ40Z40_BTP_DISCHARGE = 0x4A"
definition BQ40Z40_BTP_CHARGE :: u8 where "BQ40Z40_BTP_CHARGE = 0x4B"
definition BQ40Z40_MFG_ACCESS :: u8 where "BQ40Z40_MFG_ACCESS = 0x0"
definition BQ40Z40_MFG_BLOCK_ACCESS :: u8 where "BQ40Z40_MFG_BLOCK_ACCESS = 0x44"
definition BQ40Z40_MFG_OP_STATUS :: u16 where "BQ40Z40_MFG_OP_STATUS = 0x0054"
definition BQ40Z40_DATAFLASH_IO_CONFIG :: u16 where "BQ40Z40_DATAFLASH_IO_CONFIG = 0x47CC"
definition BQ40Z40_MFG_DATA_BUF_SIZE :: nat where "BQ40Z40_MFG_DATA_BUF_SIZE = 0x20"
definition BQ40Z40_BTP_EN :: u8 where "BQ40Z40_BTP_EN = 0x1"
definition BQ40Z40_EM_SHUT :: u8 where "BQ40Z40_EM_SHUT = 0x20"
definition BQ40Z40_BAT_INIT_DONE :: u16 where "BQ40Z40_BAT_INIT_DONE = 0x80"
definition BQ40Z40_BAT_STATUS :: u8 where "BQ40Z40_BAT_STATUS = 0x16"
definition BTP_MFG_ADDR :: u8 where "BTP_MFG_ADDR = 2"
definition BTP_MFG_RD_SIZE :: nat where "BTP_MFG_RD_SIZE = 3"
definition BTP_EN_BUF_SIZE :: nat where "BTP_EN_BUF_SIZE = 4"
definition BTP_EN_RD_SIZE :: nat where "BTP_EN_RD_SIZE = 1"
definition BTP_EN_KEY :: u16 where "BTP_EN_KEY = 0x23A7"
definition BTP_DATA_LEN :: nat where "BTP_DATA_LEN = 8"
definition BTP_CAP_PER :: u16 where "BTP_CAP_PER = 100"
definition BTP_INIT_WAIT :: nat where "BTP_INIT_WAIT = 20"

text \<open>\<open>bq_slave\<close> is \<^verbatim>\<open>sbs_i2c_slave_addr\<close> of the driver data.\<close>

record bq40z40_interface =
  bq_i2c_dev :: "nat option"
  bq_slave :: u16

abbreviation bq_read ::
    "u8 \<Rightarrow> bus_env \<Rightarrow> bq40z40_interface \<Rightarrow> u16 \<Rightarrow> 'a kstate_scheme \<Rightarrow> (int \<times> u16 \<times> 'a kstate_scheme) option" where
  "bq_read reg e b val s \<equiv> eclite_i2c_read_word e (bq_i2c_dev b) (bq_slave b) reg val s"

section \<open>Manufacturer blocks\<close>

definition mfg_addr :: "u16 \<Rightarrow> u8 list" where
  "mfg_addr cmd_code = [BTP_MFG_ADDR, ucast (0xFF AND cmd_code), ucast (drop_bit 8 cmd_code)]"

text \<open>\<open>rx\<close> is the caller's buffer, which needs room for three bytes more than are delivered.\<close>

definition bq40z40_mfg_read ::
    "bus_env \<Rightarrow> bq40z40_interface \<Rightarrow> u16 \<Rightarrow> u8 list \<Rightarrow> nat \<Rightarrow> 'a kstate_scheme \<Rightarrow> (int \<times> u8 list \<times> 'a kstate_scheme) option" where
  "bq40z40_mfg_read e b cmd_code rx len s =
     do {
       (result, s1) \<leftarrow> eclite_i2c_burst_write e (bq_i2c_dev b) (bq_slave b) BQ40Z40_MFG_BLOCK_ACCESS (mfg_addr cmd_code) s;
       if result \<noteq> SUCCESS then Some (result, rx, s1)
       else do {
         (result', rx1, s2) \<leftarrow> eclite_i2c_burst_read e (bq_i2c_dev b) (bq_slave b) BQ40Z40_MFG_BLOCK_ACCESS rx
                                (len + BTP_MFG_RD_SIZE) s1;
         Some (result', memcpy_at rx1 0 (take len (drop BTP_MFG_RD_SIZE rx1)), s2)
       }
     }"

definition bq40z40_mfg_write ::
    "bus_env \<Rightarrow> bq40z40_interface \<Rightarrow> u16 \<Rightarrow> u8 list \<Rightarrow> 'a kstate_scheme \<Rightarrow> (int \<times> 'a kstate_scheme) option" where
  "bq40z40_mfg_write e b cmd_code tx s =
     (if BQ40Z40_MFG_DATA_BUF_SIZE < length tx then None
      else eclite_i2c_burst_write e (bq_i2c_dev b) (bq_slave b) BQ40Z40_MFG_BLOCK_ACCESS (mfg_addr cmd_code @ tx) s)"

definition bq40z40_enable_btp ::
    "bus_env \<Rightarrow> bq40z40_interface \<Rightarrow> 'a kstate_scheme \<Rightarrow> (int \<times> 'a kstate_scheme) option" where
  "bq40z40_enable_btp e b s =
     do {
       (_, data, s1) \<leftarrow> bq40z40_mfg_read e b BQ40Z40_DATAFLASH_IO_CONFIG (replicate BTP_EN_BUF_SIZE 0) BTP_EN_RD_SIZE s;
       if data ! 0 AND BQ40Z40_BTP_EN \<noteq> 0 then Some (SUCCESS, s1)
       else bq40z40_mfg_write e b BQ40Z40_DATAFLASH_IO_CONFIG [data ! 0 OR BQ40Z40_BTP_EN] s1
     }"

definition bq40z40_unlock ::
    "bus_env \<Rightarrow> bq40z40_interface \<Rightarrow> 'a kstate_scheme \<Rightarrow> (int \<times> 'a kstate_scheme) option" where
  "bq40z40_unlock e b s =
     do {
       (result, data, s1) \<leftarrow> bq40z40_mfg_read e b BQ40Z40_MFG_OP_STATUS (replicate BTP_DATA_LEN 0) BTP_EN_BUF_SIZE s;
       if result \<noteq> SUCCESS then Some (FAILURE, s1)
       else if data ! BTP_MFG_RD_SIZE AND BQ40Z40_EM_SHUT \<noteq> 0
       then eclite_i2c_write_word e (bq_i2c_dev b) (bq_slave b) BQ40Z40_MFG_ACCESS BTP_EN_KEY s1
       else Some (SUCCESS, s1)
     }"

section \<open>Readings\<close>

text \<open>A negative current is turned positive.\<close>

definition bq40z40_at_rate ::
    "bus_env \<Rightarrow> bq40z40_interface \<Rightarrow> u16 \<Rightarrow> 'a kstate_scheme \<Rightarrow> (int \<times> u16 \<times> 'a kstate_scheme) option" where
  "bq40z40_at_rate e b rate s =
     do {
       (ret, r, s1) \<leftarrow> bq_read BQ40Z40_CURRENT_REG e b rate s;
       Some (as_uint16 ret, if r AND 0x8000 \<noteq> 0 then NOT r + 1 else r, s1)
     }"

definition bq40z40_design_voltage where
  "bq40z40_design_voltage = bq_read BQ40Z40_DESIGN_VOLTAGE_REG"

definition bq40z40_get_battery_voltage where
  "bq40z40_get_battery_voltage = bq_read BQ40Z40_VOLTAGE_REG"

definition bq40z40_get_battery_current where
  "bq40z40_get_battery_current = bq_read BQ40Z40_CURRENT_REG"

definition bq40z40_get_battery_charge where
  "bq40z40_get_battery_charge = bq_read BQ40Z40_ABSOLUTE_STATE_OF_CHARGE_REG"

definition bq40z40_get_battery_relative_charge where
  "bq40z40_get_battery_relative_charge = bq_read BQ40Z40_RELATIVE_STATE_OF_CHARGE_REG"

definition bq40z40_get_battery_full_charge_capacity where
  "bq40z40_get_battery_full_charge_capacity = bq_read BQ40Z40_FULL_CHARGE_CAPACITY_REG"

definition bq40z40_get_remaining_battery where
  "bq40z40_get_remaining_battery = bq_read BQ40Z40_REMAINING_BATTERY_REG"

definition bq40z40_get_battery_charge_voltage where
  "bq40z40_get_battery_charge_voltage = bq_read BQ40Z40_CHARGE_VOLTAGE_REG"

definition bq40z40_get_battery_charge_current where
  "bq40z40_get_battery_charge_current = bq_read BQ40Z40_CHARGE_CURRENT_REG"

definition bq40z40_get_battery_design_capacity where
  "bq40z40_get_battery_design_capacity = bq_read BQ40Z40_DESIGN_CAPACITY_REG"

definition bq40z40_get_battery_cycle_count where
  "bq40z40_get_battery_cycle_count = bq_read BQ40Z40_CYCLE_COUNT_REG"

text \<open>The trip points around the remaining capacity: one percent of the full capacity away, kept in a byte.\<close>

definition btp_delta :: "u16 \<Rightarrow> u8" where
  "btp_delta full = ucast (full div BTP_CAP_PER)"

definition bq40z40_set_battery_trip_point ::
    "bus_env \<Rightarrow> bq40z40_interface \<Rightarrow> u16 \<Rightarrow> 'a kstate_scheme \<Rightarrow> (int \<times> 'a kstate_scheme) option" where
  "bq40z40_set_battery_trip_point e b trip_value s =
     do {
       (dischg, chg, s1) \<leftarrow>
         (if trip_value = 0
          then do {
            (r1, full, s') \<leftarrow> bq_read BQ40Z40_FULL_CHARGE_CAPACITY_REG e b 0 s;
            (r2, remaining, s'') \<leftarrow> bq_read BQ40Z40_REMAINING_BATTERY_REG e b 0 s';
            Some (if r1 OR r2 = SUCCESS
                  then (remaining - ucast (btp_delta full), remaining + ucast (btp_delta full), s'')
                  else (0, 0, s''))
          }
          else Some (trip_value, trip_value, s));
       (r3, s2) \<leftarrow> eclite_i2c_write_word e (bq_i2c_dev b) (bq_slave b) BQ40Z40_BTP_DISCHARGE dischg s1;
       (r4, s3) \<leftarrow> eclite_i2c_write_word e (bq_i2c_dev b) (bq_slave b) BQ40Z40_BTP_CHARGE chg s2;
       Some (r3 OR r4, s3)
     }"

text \<open>The warnings are the result; the pointer argument is not written.\<close>

definition bq40z40_get_battery_status ::
    "bus_env \<Rightarrow> bq40z40_interface \<Rightarrow> 'a kstate_scheme \<Rightarrow> (int \<times> 'a kstate_scheme) option" where
  "bq40z40_get_battery_status e b s =
     do {
       (_, warning, s1) \<leftarrow> bq_read BQ40Z40_ALARM_WARNING_REG e b 0 s;
       Some (if bit warning 12 \<or> bit warning 14 \<or> bit warning 15 then 1 else 0, s1)
     }"

definition bq40z40_check_battery_presence ::
    "bus_env \<Rightarrow> bq40z40_interface \<Rightarrow> u16 \<Rightarrow> 'a kstate_scheme \<Rightarrow> (int \<times> 'a kstate_scheme) option" where
  "bq40z40_check_battery_presence e b garbage s =
     do { (ret, _, s1) \<leftarrow> bq40z40_get_battery_voltage e b garbage s; Some (ret, s1) }"

section \<open>Initialisation\<close>

text \<open>The loop that waits for the gauge: attempts left, attempts made, the status read last.\<close>

fun fg_wait ::
    "bus_env \<Rightarrow> bq40z40_interface \<Rightarrow> nat \<Rightarrow> nat \<Rightarrow> u16 \<Rightarrow> 'a kstate_scheme \<Rightarrow> (nat \<times> 'a kstate_scheme) option" where
  "fg_wait e b 0 numofattempts fgstat s = Some (numofattempts, s)"
| "fg_wait e b (Suc k) numofattempts fgstat s =
     do {
       (_, fgstat', s1) \<leftarrow> bq_read BQ40Z40_BAT_STATUS e b fgstat s;
       if fgstat' AND BQ40Z40_BAT_INIT_DONE \<noteq> 0 then Some (numofattempts, s1)
       else fg_wait e b k (numofattempts + 1) fgstat' (emit (KSleep BTP_INIT_WAIT) s1)
     }"

definition bq40z40_init ::
    "bus_env \<Rightarrow> string \<Rightarrow> u16 \<Rightarrow> bq40z40_interface \<Rightarrow> 'a kstate_scheme \<Rightarrow> (int \<times> bq40z40_interface \<times> 'a kstate_scheme) option" where
  "bq40z40_init e i2c_name garbage b0 s =
     (let b = b0\<lparr>bq_i2c_dev := eclite_get_i2c_device e i2c_name\<rparr>
      in if bq_i2c_dev b = None then Some (DEV_INIT_FAILED, b, s)
         else do {
           (_, s1) \<leftarrow> eclite_i2c_config e (bq_i2c_dev b) s;
           (numofattempts, s2) \<leftarrow> fg_wait e b BTP_INIT_WAIT 0 0 s1;
           if numofattempts = BTP_INIT_WAIT then Some (FAILURE, b, s2)
           else do {
             (_, s3) \<leftarrow> bq40z40_unlock e b s2;
             (_, s4) \<leftarrow> bq40z40_enable_btp e b s3;
             (result, s5) \<leftarrow> bq40z40_check_battery_presence e b garbage s4;
             if result = SUCCESS
             then do { (_, s6) \<leftarrow> bq40z40_set_battery_trip_point e b 0 s5; Some (result, b, s6) }
             else Some (result, b, s5)
           }
         })"

section \<open>Charger\<close>

definition ENABLE_CHARGING :: u32 where "ENABLE_CHARGING = 1"
definition DISABLE_CHARGING :: u32 where "DISABLE_CHARGING = 0"

text \<open>\<open>chg_gpio_dev\<close> is \<^verbatim>\<open>hw_interface->gpio_dev\<close>, \<open>gpio_cntlr\<close> the controller of the pin that switches charging.\<close>

record bq24610_interface =
  chg_gpio_dev :: "nat option"
  gpio_cntlr :: "nat option"

definition bq24610_en_charging ::
    "bus_env \<Rightarrow> u32 \<Rightarrow> bq24610_interface \<Rightarrow> 'a kstate_scheme \<Rightarrow> (int \<times> 'a kstate_scheme) option" where
  "bq24610_en_charging e CE c s =
     do {
       (_, charging_status, s1) \<leftarrow> eclite_get_gpio e (gpio_cntlr c) CE s;
       if charging_status \<noteq> 0 then Some (SUCCESS, s1)
       else eclite_set_gpio e (chg_gpio_dev c) CE ENABLE_CHARGING s1
     }"

definition bq24610_dis_charging ::
    "bus_env \<Rightarrow> u32 \<Rightarrow> bq24610_interface \<Rightarrow> 'a kstate_scheme \<Rightarrow> (int \<times> 'a kstate_scheme) option" where
  "bq24610_dis_charging e CE c s = eclite_set_gpio e (gpio_cntlr c) CE DISABLE_CHARGING s"

definition bq24610_check_ac_present ::
    "bus_env \<Rightarrow> u32 \<Rightarrow> bq24610_interface \<Rightarrow> charger_driver_data \<Rightarrow> 'a kstate_scheme
     \<Rightarrow> (int \<times> charger_driver_data \<times> 'a kstate_scheme) option" where
  "bq24610_check_ac_present e pin c cd s =
     do { (ret, v, s1) \<leftarrow> eclite_get_gpio e (chg_gpio_dev c) pin s; Some (ret, cd\<lparr>ac_present := v\<rparr>, s1) }"

definition bq24610_get_charger_status :: "int \<times> u16" where
  "bq24610_get_charger_status = (0, 0)"

definition bq24610_isr ::
    "bus_env \<Rightarrow> u32 \<Rightarrow> bq24610_interface \<Rightarrow> charger_driver_data \<Rightarrow> 'a kstate_scheme
     \<Rightarrow> (int \<times> charger_driver_data \<times> 'a kstate_scheme) option" where
  "bq24610_isr e pin c cd s =
     do { (_, cd1, s1) \<leftarrow> bq24610_check_ac_present e pin c cd s; Some (SUCCESS, cd1, s1) }"

definition bq24610_init ::
    "bus_env \<Rightarrow> string \<Rightarrow> string \<Rightarrow> u32 \<Rightarrow> u32 \<Rightarrow> bq24610_interface \<Rightarrow> 'a kstate_scheme
     \<Rightarrow> (int \<times> bq24610_interface \<times> 'a kstate_scheme) option" where
  "bq24610_init e chg_name ctrl_name CE gpio_output c s =
     (let c1 = c\<lparr>chg_gpio_dev := eclite_get_gpio_device e chg_name, gpio_cntlr := eclite_get_gpio_device e ctrl_name\<rparr>
      in do {
           (_, s1) \<leftarrow> eclite_gpio_configure e (gpio_cntlr c1) CE gpio_output s;
           Some (SUCCESS, c1, s1)
         })"

end
