(* ===== verification/Eclite_Ccg.thy ===== *)
theory Eclite_Ccg
  imports Eclite_Battery
begin

text \<open>
  The driver of the USB-C controller (\<^verbatim>\<open>drivers/usbc_pd_driver/ccg.c\<close>): initialisation of the chip and of
  its UCSI interface, commands of the host, and interrupts.
\<close>

section \<open>Registers and state\<close>

definition CCG_HPI_DEVICE_MODE_REG :: u16 where "CCG_HPI_DEVICE_MODE_REG = 0x0000"
definition CCG_HPI_INTERRUPT_REG :: u16 where "CCG_HPI_INTERRUPT_REG = 0x0006"
definition CCG_FW2_VERSION_REG :: u16 where "CCG_FW2_VERSION_REG = 0x0020"
definition CCG_HPI_PDPORT_ENABLE_REG :: u16 where "CCG_HPI_PDPORT_ENABLE_REG = 0x002C"
definition CCG_HPI_UCSI_STATUS_REG :: u16 where "CCG_HPI_UCSI_STATUS_REG = 0x0038"
definition CCG_HPI_UCSI_CONTROL_REG :: u16 where "CCG_HPI_UCSI_CONTROL_REG = 0x0039"
definition CCG_HPI_RESPONSE_REG :: u16 where "CCG_HPI_RESPONSE_REG = 0x007E"
definition CCG_UCSI_VERSION_REG :: u16 where "CCG_UCSI_VERSION_REG = 0xF000"
definition CCG_UCSI_CCI_REG :: u16 where "CCG_UCSI_CCI_REG = 0xF004"
definition CCG_UCSI_CONTROL_REG :: u16 where "CCG_UCSI_CONTROL_REG = 0xF008"
definition CCG_UCSI_MSG_IN :: u16 where "CCG_UCSI_MSG_IN = 0xF010"
definition CCG_UCSI_MSG_OUT :: u16 where "CCG_UCSI_MSG_OUT = 0xF020"

definition CCG_HIP_REG_ADDR :: "nat \<Rightarrow> u16 \<Rightarrow> u16" where
  "CCG_HIP_REG_ADDR p o' = 0x1000 * of_nat p + 0x1000 + o'"

definition CCG_HPI_PDRESPONSE_REG :: "nat \<Rightarrow> u16" where "CCG_HPI_PDRESPONSE_REG x = CCG_HIP_REG_ADDR x 0x0400"
definition CCG_HPI_EVENT_MASK_REG :: "nat \<Rightarrow> u16" where "CCG_HPI_EVENT_MASK_REG x = CCG_HIP_REG_ADDR x 0x0024"
definition CCG_HPI_TYPEC_STATUS_REG :: "nat \<Rightarrow> u16" where "CCG_HPI_TYPEC_STATUS_REG x = CCG_HIP_REG_ADDR x 0x000C"

definition RESPONSE_REG_FLAG_TYPE :: u8 where "RESPONSE_REG_FLAG_TYPE = BIT 7"
definition RESPONSE_REG_FLAG_MESSAGE :: u8 where "RESPONSE_REG_FLAG_MESSAGE = 0x7F"
definition RESPONSE_CODE_CMD_SUCCESS :: u8 where "RESPONSE_CODE_CMD_SUCCESS = 0x02"
definition RESPONSE_CODE_CMD_FAILED_UCSI :: u8 where "RESPONSE_CODE_CMD_FAILED_UCSI = 0x15"
definition RESPONSE_CODE_TYPEC_CONNECT :: u8 where "RESPONSE_CODE_TYPEC_CONNECT = 0x84"
definition RESPONSE_CODE_TYPEC_DISCONNECT :: u8 where "RESPONSE_CODE_TYPEC_DISCONNECT = 0x85"
definition CCG_DEVICE_INTERRUPT_FLAG :: u8 where "CCG_DEVICE_INTERRUPT_FLAG = BIT 0"
definition CCG_PORT0_INTERRUPT_FLAG :: u8 where "CCG_PORT0_INTERRUPT_FLAG = BIT 1"
definition CCG_UCSIREAD_INTERRUPT_FLAG :: u8 where "CCG_UCSIREAD_INTERRUPT_FLAG = BIT 7"
definition DEVICE_MODE_MASK :: u8 where "DEVICE_MODE_MASK = 0x03"
definition SINK_ATTACHED :: u8 where "SINK_ATTACHED = 1"
definition COUNTER_TIME :: u8 where "COUNTER_TIME = 20"
definition WAIT_TIME :: nat where "WAIT_TIME = 5"
definition UCSI_MSG_SIZE :: nat where "UCSI_MSG_SIZE = 16"
definition N_PORT :: nat where "N_PORT = 2"

record ccg_port_state =
  data_role :: u8
  pwr_role :: u8
  partner_attached :: u8
  connection_state :: u8

record ccg_state = kstate +
  ccg_version :: "u8 list"
  ccg_ports :: "ccg_port_state list"
  ccg_data :: ucsi_data_t
  ccg_i2c_dev :: "nat option"
  ccg_gpio_dev :: "nat option"

text \<open>Pin and slave address are configuration.\<close>

record ccg_env =
  ccg_bus :: bus_env
  UCSI_GPIO :: u32
  UCSI_I2C_SLAVE_ADDRESS :: u16

definition as_uint8 :: "int \<Rightarrow> int" where "as_uint8 r = uint (word_of_int r :: u8)"

fun get_port_state :: "nat \<Rightarrow> nat \<Rightarrow> nat \<Rightarrow> u8 list \<Rightarrow> 'a ccg_state_scheme \<Rightarrow> u8 list" where
  "get_port_state port cmd len buf s =
     (let p = ccg_ports s ! port
      in if cmd = 1 then buf[0 := data_role p]
         else if cmd = 2 then buf[0 := pwr_role p]
         else if cmd = 3 then buf[0 := partner_attached p]
         else if cmd = 4 then buf[0 := connection_state p]
         else if cmd = 5 then memcpy_at buf 0 (take len (ccg_version s))
         else buf)"

section \<open>Transfers\<close>

definition ccg_wr :: "ccg_env \<Rightarrow> u16 \<Rightarrow> u8 list \<Rightarrow> 'a ccg_state_scheme \<Rightarrow> (int \<times> 'a ccg_state_scheme) option" where
  "ccg_wr e reg data s =
     (if ccg_i2c_dev s = None then Some (ERROR, s)
      else eclite_i2c_burst_write16 (ccg_bus e) (ccg_i2c_dev s) (UCSI_I2C_SLAVE_ADDRESS e) reg data s)"

definition ccg_rd ::
    "ccg_env \<Rightarrow> u16 \<Rightarrow> u8 list \<Rightarrow> nat \<Rightarrow> 'a ccg_state_scheme \<Rightarrow> (int \<times> u8 list \<times> 'a ccg_state_scheme) option" where
  "ccg_rd e reg buf n s =
     (if ccg_i2c_dev s = None then Some (ERROR, buf, s)
      else eclite_i2c_burst_read16 (ccg_bus e) (ccg_i2c_dev s) (UCSI_I2C_SLAVE_ADDRESS e) reg buf n s)"

definition ccg_clear_interrupt :: "ccg_env \<Rightarrow> u8 \<Rightarrow> 'a ccg_state_scheme \<Rightarrow> 'a ccg_state_scheme option" where
  "ccg_clear_interrupt e val s = do { (_, s1) \<leftarrow> ccg_wr e CCG_HPI_INTERRUPT_REG [val] s; Some s1 }"

text \<open>The loop compares the result code of the pin access with the level \<^verbatim>\<open>LOW\<close>, and counts upwards until its 8-bit
  counter wraps.\<close>

function ccg_block_loop :: "ccg_env \<Rightarrow> u8 \<Rightarrow> 'a ccg_state_scheme \<Rightarrow> (int \<times> 'a ccg_state_scheme) option" where
  "ccg_block_loop e count s =
     (if count = 0 then Some (0, s)
      else do {
        (r, temp, s1) \<leftarrow> eclite_get_gpio (ccg_bus e) (ccg_gpio_dev s) (UCSI_GPIO e) s;
        if r = 0
        then do {
          (ret, buf, s2) \<leftarrow> ccg_rd e CCG_HPI_INTERRUPT_REG [0] 1 s1;
          Some (if as_uint8 ret \<noteq> 0 then 0 else uint (buf ! 0), s2)
        }
        else ccg_block_loop e (count + 1) (emit (KSleep WAIT_TIME) s1)
      })"
  by pat_completeness auto

termination
proof (relation "measure (\<lambda>(e, count, s). unat (- count))", goal_cases)
  case (2 e count)
  have "- count \<noteq> 0" using 2(1) by simp
  then have "unat (- count - 1) < unat (- count)"
    by (simp add: unat_minus_one unat_gt_0)
  then show ?case by (simp add: minus_add)
qed simp

declare ccg_block_loop.simps [simp del]

definition ccg_block_for_int :: "ccg_env \<Rightarrow> 'a ccg_state_scheme \<Rightarrow> (int \<times> 'a ccg_state_scheme) option" where
  "ccg_block_for_int e s = ccg_block_loop e COUNTER_TIME s"

section \<open>Initialisation\<close>

text \<open>Continue after a result code of 0, otherwise return \<open>err\<close> (\<^verbatim>\<open>if (ret) goto error\<close>).\<close>

definition or_fail :: "int \<Rightarrow> int \<Rightarrow> 's \<Rightarrow> (int \<times> 's) option \<Rightarrow> (int \<times> 's) option" where
  "or_fail err ret s k = (if ret \<noteq> 0 then Some (err, s) else k)"

definition init_ucsi :: "ccg_env \<Rightarrow> 'a ccg_state_scheme \<Rightarrow> (int \<times> 'a ccg_state_scheme) option" where
  "init_ucsi e s =
     do {
       (_, temp, s1) \<leftarrow> eclite_get_gpio (ccg_bus e) (ccg_gpio_dev s) (UCSI_GPIO e) s;
       s2 \<leftarrow> (if temp = 0 then ccg_clear_interrupt e 0xFF s1 else Some s1);
       (r1, s3) \<leftarrow> ccg_wr e CCG_HPI_UCSI_CONTROL_REG [BIT 0] s2;
       or_fail ERROR r1 s3 (do {
         (r2, s4) \<leftarrow> ccg_block_for_int e s3;
         if word_of_int r2 AND CCG_DEVICE_INTERRUPT_FLAG = 0 then Some (ERROR, s4)
         else do {
           (r3, buf, s5) \<leftarrow> ccg_rd e CCG_HPI_RESPONSE_REG [BIT 0, 0] 2 s4;
           or_fail ERROR r3 s5 (
             let msg = buf ! 0 AND RESPONSE_REG_FLAG_MESSAGE
             in if buf ! 0 AND RESPONSE_REG_FLAG_TYPE = 0 \<and> msg \<noteq> RESPONSE_CODE_CMD_SUCCESS \<and> msg \<noteq> RESPONSE_CODE_CMD_FAILED_UCSI
                then Some (ERROR, s5)
                else do {
                  (r4, st, s6) \<leftarrow> ccg_rd e CCG_HPI_UCSI_STATUS_REG [0] 1 s5;
                  or_fail ERROR r4 s6 (
                    if msg = RESPONSE_CODE_CMD_FAILED_UCSI \<and> st ! 0 AND BIT 0 \<noteq> BIT 0 then Some (ERROR, s6)
                    else do {
                      s7 \<leftarrow> ccg_clear_interrupt e 0xFF s6;
                      (r5, _, s8) \<leftarrow> ccg_rd e CCG_UCSI_VERSION_REG buf 2 s7;
                      or_fail ERROR r5 s8 (Some (0, s8))
                    })
                })
         }
       })
     }"

definition ccg_i2c_reset :: "ccg_env \<Rightarrow> 'a ccg_state_scheme \<Rightarrow> (int \<times> 'a ccg_state_scheme) option" where
  "ccg_i2c_reset e s =
     do {
       (ret, buf, s1) \<leftarrow> ccg_rd e CCG_HPI_DEVICE_MODE_REG [0, 0] 1 s;
       if as_uint8 ret \<noteq> 0 then Some (ERROR, s1)
       else if buf ! 0 AND DEVICE_MODE_MASK \<noteq> 0 then Some (SUCCESS, s1)
       else Some (ERROR, s1)
     }"

text \<open>\<open>garbage\<close> is the uninitialised buffer, of which 4 bytes are written to the event mask.\<close>

definition init_chip :: "ccg_env \<Rightarrow> u8 list \<Rightarrow> 'a ccg_state_scheme \<Rightarrow> (int \<times> 'a ccg_state_scheme) option" where
  "init_chip e garbage s =
     do {
       (_, _, s1) \<leftarrow> ccg_rd e CCG_HPI_INTERRUPT_REG [0] 1 s;
       s2 \<leftarrow> ccg_clear_interrupt e 0xFF s1;
       (r1, s3) \<leftarrow> ccg_wr e (CCG_HPI_EVENT_MASK_REG 0) (take 4 garbage) s2;
       or_fail 1 r1 s3 (do {
         (r2, s4) \<leftarrow> ccg_i2c_reset e s3;
         or_fail 1 r2 s4 (do {
           (r3, ver, s5) \<leftarrow> ccg_rd e CCG_FW2_VERSION_REG (ccg_version s4) 8 s4;
           let s6 = s5\<lparr>ccg_version := ver\<rparr>;
           or_fail 1 r3 s6 (do {
             (r4, s7) \<leftarrow> ccg_wr e CCG_HPI_PDPORT_ENABLE_REG [BIT 0] s6;
             or_fail 1 r4 s7 (do {
               (r5, s8) \<leftarrow> ccg_block_for_int e s7;
               if word_of_int r5 AND CCG_DEVICE_INTERRUPT_FLAG = 0 then Some (1, s8)
               else do {
                 (r6, buf, s9) \<leftarrow> ccg_rd e CCG_HPI_RESPONSE_REG (garbage[0 := BIT 0]) 2 s8;
                 or_fail 1 r6 s9 (do {
                   s10 \<leftarrow> ccg_clear_interrupt e 0xFF s9;
                   if buf ! 0 AND RESPONSE_REG_FLAG_TYPE = 0 \<and>
                      buf ! 0 AND RESPONSE_REG_FLAG_MESSAGE \<noteq> RESPONSE_CODE_CMD_SUCCESS
                   then Some (1, s10)
                   else do {
                     (r7, s11) \<leftarrow> ccg_wr e (CCG_HPI_EVENT_MASK_REG 0) [0x38, 0, 0, 0] s10;
                     or_fail 1 r7 s11 (Some (0, s11))
                   }
                 })
               }
             })
           })
         })
       })
     }"

definition ccg_pd_init ::
    "ccg_env \<Rightarrow> string \<Rightarrow> string \<Rightarrow> u8 list \<Rightarrow> 'a ccg_state_scheme \<Rightarrow> (int \<times> 'a ccg_state_scheme) option" where
  "ccg_pd_init e i2c_name gpio_name garbage s =
     (let s1 = s\<lparr>ccg_i2c_dev := eclite_get_i2c_device (ccg_bus e) i2c_name,
                 ccg_gpio_dev := eclite_get_gpio_device (ccg_bus e) gpio_name\<rparr>
      in if ccg_i2c_dev s1 = None then Some (DEV_INIT_FAILED, s1)
         else do {
           (_, s2) \<leftarrow> eclite_i2c_config (ccg_bus e) (ccg_i2c_dev s1) s1;
           (r1, s3) \<leftarrow> init_chip e garbage s2;
           or_fail ERROR r1 s3 (init_ucsi e s3)
         })"

section \<open>Commands and interrupts\<close>

text \<open>\<open>found\<close>: the device list has a USB-C device.\<close>

definition ucsi_cmd_from_os :: "ccg_env \<Rightarrow> bool \<Rightarrow> 'a ccg_state_scheme \<Rightarrow> (int \<times> 'a ccg_state_scheme) option" where
  "ucsi_cmd_from_os e found s =
     (if \<not> found then Some (ERROR, s)
      else do {
        (r1, buf, s1) \<leftarrow> ccg_rd e CCG_HPI_UCSI_STATUS_REG [0] 1 s;
        if as_uint8 r1 \<noteq> 0 then Some (as_uint8 r1, s1)
        else if buf ! 0 AND BIT 1 \<noteq> 0 then Some (ERROR, s1)
        else do {
          (r2, s2) \<leftarrow> ccg_wr e CCG_UCSI_MSG_OUT (msg_out (ccg_data s1)) s1;
          if as_uint8 r2 \<noteq> 0 then Some (as_uint8 r2, s2)
          else do {
            (r3, s3) \<leftarrow> ccg_wr e CCG_UCSI_CONTROL_REG (control (ccg_data s2)) s2;
            Some (as_uint8 r3, s3)
          }
        }
      })"

definition ucsi_int_handler :: "ccg_env \<Rightarrow> 'a ccg_state_scheme \<Rightarrow> (int \<times> 'a ccg_state_scheme) option" where
  "ucsi_int_handler e s =
     do {
       (r1, c, s1) \<leftarrow> ccg_rd e CCG_UCSI_CCI_REG (cci (ccg_data s)) 4 s;
       let s2 = s1\<lparr>ccg_data := (ccg_data s1)\<lparr>cci := c\<rparr>\<rparr>;
       if r1 \<noteq> 0 then Some (ERROR, s2)
       else do {
         (r2, m, s3) \<leftarrow> ccg_rd e CCG_UCSI_MSG_IN (msg_in (ccg_data s2)) UCSI_MSG_SIZE s2;
         Some (if r2 \<noteq> 0 then ERROR else 0, s3\<lparr>ccg_data := (ccg_data s3)\<lparr>msg_in := m\<rparr>\<rparr>)
       }
     }"

definition process_port_evnts :: "ccg_env \<Rightarrow> nat \<Rightarrow> u8 \<Rightarrow> 'a ccg_state_scheme \<Rightarrow> (int \<times> 'a ccg_state_scheme) option" where
  "process_port_evnts e port code s =
     (if code = RESPONSE_CODE_TYPEC_CONNECT
      then do {
        (ret, buf, s1) \<leftarrow> ccg_rd e (CCG_HPI_TYPEC_STATUS_REG port) (replicate 8 0) 1 s;
        if as_uint8 ret \<noteq> 0 then Some (as_uint8 ret, s1)
        else if buf ! 0 AND BIT 0 = 0 then Some (0, s1)
        else let p = (ccg_ports s1 ! port)\<lparr>partner_attached := drop_bit 2 (buf ! 0 AND (BIT 2 OR BIT 3 OR BIT 4))\<rparr>;
                 p' = (if partner_attached p = SINK_ATTACHED then p\<lparr>pwr_role := 0, data_role := 0\<rparr> else p)
             in Some (0, s1\<lparr>ccg_ports := (ccg_ports s1)[port := p']\<rparr>)
      }
      else if code = RESPONSE_CODE_TYPEC_DISCONNECT
      then Some (0, s\<lparr>ccg_ports := (ccg_ports s)[port := (ccg_ports s ! port)\<lparr>connection_state := 0, data_role := 0\<rparr>]\<rparr>)
      else Some (0, s))"

definition port_int_handler :: "ccg_env \<Rightarrow> nat \<Rightarrow> 'a ccg_state_scheme \<Rightarrow> (int \<times> 'a ccg_state_scheme) option" where
  "port_int_handler e port s =
     do {
       (ret, buf, s1) \<leftarrow> ccg_rd e (CCG_HPI_PDRESPONSE_REG port) (replicate 4 0) 4 s;
       if as_uint8 ret \<noteq> 0 then Some (as_uint8 ret, s1)
       else if buf ! 0 AND RESPONSE_REG_FLAG_TYPE \<noteq> 0
       then do { (_, s2) \<leftarrow> process_port_evnts e port (buf ! 0) s1; Some (0, s2) }
       else Some (0, s1)
     }"

text \<open>Results pass through an 8-bit variable; the one of the last handler decides.\<close>

definition ccg_isr :: "ccg_env \<Rightarrow> bool \<Rightarrow> 'a ccg_state_scheme \<Rightarrow> (int \<times> 'a ccg_state_scheme) option" where
  "ccg_isr e found s =
     (if \<not> found then Some (ERROR, s)
      else do {
        (r1, buf, s1) \<leftarrow> ccg_rd e CCG_HPI_INTERRUPT_REG [0] 1 s;
        if as_uint8 r1 \<noteq> 0 then Some (ERROR, s1)
        else do {
          let intr = buf ! 0;
          (r3, s3) \<leftarrow> (if intr AND CCG_PORT0_INTERRUPT_FLAG \<noteq> 0 then port_int_handler e 0 s1 else Some (0, s1));
          (r4, s4) \<leftarrow> (if intr AND CCG_UCSIREAD_INTERRUPT_FLAG \<noteq> 0
                       then do { (r, s') \<leftarrow> ucsi_int_handler e s3; Some (as_uint8 r, s') } else Some (r3, s3));
          if r4 \<noteq> 0 then Some (r4, s4)
          else do { (r5, s5) \<leftarrow> ccg_wr e CCG_HPI_INTERRUPT_REG [intr] s4; Some (as_uint8 r5, s5) }
        }
      })"

end
