(* ===== verification/Eclite_Platform.thy ===== *)
theory Eclite_Platform
  imports Eclite_Dispatcher Eclite_Ccg
begin

text \<open>
  The platform of the EC-lite service (\<^verbatim>\<open>main/platform.c\<close>) and its pins
  (\<^verbatim>\<open>agents/eclite_service.c\<close>): what happens when the service is set up, when a pin fires and
  when the host enters or leaves a sleep state.  The charging, thermal and USB-C options are configured and
  \<^verbatim>\<open>CONFIG_TEST_MODE\<close> is not.
\<close>

section \<open>State and environment\<close>

text \<open>\<open>hw_gpio\<close> is \<^verbatim>\<open>hw_interface->gpio_dev\<close> of the device at an index of the device list; the private
  interfaces of the drivers follow.  The USB-C driver keeps its state apart, with the shared log.\<close>

record plat_state = ec_state +
  platform_devices :: "eclite_device list"
  hw_gpio :: "nat \<Rightarrow> nat option"
  pl_fg :: bq40z40_interface
  pl_chg :: bq24610_interface
  pl_tmp :: "tmp102_interface list"
  pl_fan :: fan_interface
  pl_tacho :: tacho_state
  pl_ccg :: ccg_state
  eclite_fan_speed :: u32
  eclite_enable :: bool
  eclite_s0ix_state :: bool

text \<open>Names, pins and addresses are configuration, the flags belong to the kernel; \<open>pl_word\<close> and \<open>pl_bytes\<close> stand for
  uninitialised variables.\<close>

record plat_env =
  pl_ec :: ec_env
  pl_usbc :: ccg_env
  eclite_config_set :: bool            \<comment> \<open>\<^verbatim>\<open>SEDI_CONFIG_ECLITE_EN\<close> is set\<close>
  eclite_dts_config_set :: bool        \<comment> \<open>\<^verbatim>\<open>SEDI_CONFIG_ECLITE_DTS_EN\<close> is set\<close>
  reset_prep_info :: "io_log \<Rightarrow> sx_type option"
  ECLITE_I2C_DEV :: string
  ECLITE_UCSI_I2C_DEV :: string
  ECLITE_PWM_DEV :: string
  ECLITE_TACHO_DEV :: string
  CHARGER_GPIO_NAME :: string
  CHARGER_CONTROL_NAME :: string
  BATTERY_GPIO_NAME :: string
  THERMAL_SENSOR_GPIO_NAME :: string
  UCSI_GPIO_NAME :: string
  BATTERY_GPIO :: u32
  CHARGER_GPIO :: u32
  CHARGER_CONTROL :: u32
  THERMAL_SENSOR_GPIO :: u32
  THERMAL_WAKE_SOURCE_PIN :: u32
  PWM_PIN :: u8
  THERMAL_SENSOR_I2C :: "nat \<Rightarrow> u8"
  GPIO_INPUT :: u32
  GPIO_OUTPUT :: u32
  GPIO_INT_EDGE_RISING :: u32
  GPIO_INT_EDGE_FALLING :: u32
  GPIO_INT_EDGE_BOTH :: u32
  GPIO_INT_DISABLE :: u32
  pl_word :: u16
  pl_bytes :: "u8 list"

abbreviation pl_bus :: "plat_env \<Rightarrow> bus_env" where
  "pl_bus e \<equiv> ccg_bus (pl_usbc e)"

definition BATTERY_I2C_SLAVE_ADDRESS :: u16 where "BATTERY_I2C_SLAVE_ADDRESS = 0xB"
definition SENSOR_GPIO_INDEX :: nat where "SENSOR_GPIO_INDEX = 2"
definition eclite_dispatcher_ptr :: nat where "eclite_dispatcher_ptr = 2"

text \<open>The static pin configurations; the four sensors share one pin.\<close>

definition input_pin :: "plat_env \<Rightarrow> u32 \<Rightarrow> u32 \<Rightarrow> platform_gpio_config" where
  "input_pin e pin edge = \<lparr>gpio_no = pin, gpio_dir = GPIO_INPUT e, pull_down_en = 0, intr_type = edge\<rparr>"

definition battery_gpio_config :: "plat_env \<Rightarrow> platform_gpio_config" where
  "battery_gpio_config e = input_pin e (BATTERY_GPIO e) (GPIO_INT_EDGE_RISING e)"

definition charger_gpio_config :: "plat_env \<Rightarrow> platform_gpio_config" where
  "charger_gpio_config e = input_pin e (CHARGER_GPIO e) (GPIO_INT_EDGE_BOTH e)"

definition thermal_gpio_config :: "plat_env \<Rightarrow> platform_gpio_config" where
  "thermal_gpio_config e = input_pin e (THERMAL_SENSOR_GPIO e) (GPIO_INT_EDGE_FALLING e)"

definition ucsi_gpio_config :: "plat_env \<Rightarrow> platform_gpio_config" where
  "ucsi_gpio_config e = input_pin e (UCSI_GPIO (pl_usbc e)) (GPIO_INT_EDGE_FALLING e)"

definition plt_gpio_list :: "plat_env \<Rightarrow> u32 list" where
  "plt_gpio_list e = [BATTERY_GPIO e, CHARGER_GPIO e, THERMAL_SENSOR_GPIO e, THERMAL_SENSOR_GPIO e,
     THERMAL_SENSOR_GPIO e, THERMAL_SENSOR_GPIO e, UCSI_GPIO (pl_usbc e)]"

section \<open>Pins (\<^verbatim>\<open>eclite_service.c\<close>)\<close>

text \<open>The loop of \<^verbatim>\<open>find_bit_position\<close> with its counter.\<close>

function bit_position_loop :: "u32 \<Rightarrow> int \<Rightarrow> int" where
  "bit_position_loop msk position =
     (if msk = 0 then position else bit_position_loop (drop_bit 1 msk) (position + 1))"
  by pat_completeness auto

termination
proof (relation "measure (\<lambda>(msk, _). unat msk)", goal_cases)
  case (2 msk position)
  then have "0 < unat msk" by (simp add: unat_gt_0)
  then show ?case by (simp add: drop_bit_eq_div unat_div_distrib)
qed simp

declare bit_position_loop.simps [simp del]

definition find_bit_position :: "u32 \<Rightarrow> u8" where
  "find_bit_position msk = word_of_int (bit_position_loop msk (-1))"

text \<open>\<open>port\<close> is the controller that calls.\<close>

definition eclite_service_isr :: "plat_env \<Rightarrow> nat \<Rightarrow> u32 \<Rightarrow> 'a plat_state_scheme \<Rightarrow> 'a plat_state_scheme option" where
  "eclite_service_isr e port pins s =
     do {
       (_, s1) \<leftarrow> eclite_gpio_pin_disable_callback (pl_bus e) (GPIO_INPUT e OR GPIO_INT_DISABLE e) (Some port)
                   (ucast (find_bit_position pins)) s;
       Some (post (pl_ec e) GPIO_EVENT (ucast (find_bit_position pins)) s1)
     }"

text \<open>The trigger of the charger pin follows its level: look for the other one.\<close>

definition charger_trigger :: "plat_env \<Rightarrow> u32 \<Rightarrow> u32 \<Rightarrow> u32" where
  "charger_trigger e level flags =
     (if level \<noteq> 0 then (flags AND NOT (gpio_int_trig_high (pl_ec e))) OR gpio_int_trig_low (pl_ec e)
      else (flags AND NOT (gpio_int_trig_low (pl_ec e))) OR gpio_int_trig_high (pl_ec e))"

text \<open>The body of the inner loop: pin \<open>pin\<close> of the list and the device at index \<open>i\<close>.\<close>

definition gpio_config_device ::
    "plat_env \<Rightarrow> u32 \<Rightarrow> nat \<Rightarrow> 'a plat_state_scheme \<Rightarrow> (int \<times> 'a plat_state_scheme) option" where
  "gpio_config_device e pin i s =
     (let dev = hw_gpio s i; cfg = gpio_config (dev_at s i)
      in if dev = None \<or> gpio_no cfg \<noteq> pin then Some (0, s)
         else do {
           (r1, s1) \<leftarrow> eclite_gpio_configure (pl_bus e) dev pin (gpio_dir cfg OR ucast (pull_down_en cfg)) s;
           or_fail r1 r1 s1 (do {
             (r2, s2) \<leftarrow> eclite_gpio_register_callback (pl_bus e) dev pin s1;
             or_fail r2 r2 s2 (do {
               (flags, s3) \<leftarrow> (if pin = CHARGER_GPIO e
                               then do {
                                 (_, level, s') \<leftarrow> eclite_get_gpio (pl_bus e) dev pin s2;
                                 Some (charger_trigger e level (intr_type cfg), s')
                               }
                               else Some (intr_type cfg, s2));
               eclite_gpio_pin_enable_callback (pl_bus e) dev pin flags s3
             })
           })
         })"

fun gpio_config_devices ::
    "plat_env \<Rightarrow> u32 \<Rightarrow> nat list \<Rightarrow> 'a plat_state_scheme \<Rightarrow> (int \<times> 'a plat_state_scheme) option" where
  "gpio_config_devices e pin [] s = Some (0, s)"
| "gpio_config_devices e pin (i # is) s =
     do {
       (ret, s1) \<leftarrow> gpio_config_device e pin i s;
       or_fail ret ret s1 (gpio_config_devices e pin is s1)
     }"

fun gpio_config_pins ::
    "plat_env \<Rightarrow> u32 list \<Rightarrow> nat \<Rightarrow> 'a plat_state_scheme \<Rightarrow> (int \<times> 'a plat_state_scheme) option" where
  "gpio_config_pins e [] n s = Some (0, s)"
| "gpio_config_pins e (p # ps) n s =
     do {
       (ret, s1) \<leftarrow> gpio_config_devices e p [0..<n] s;
       or_fail ret ret s1 (gpio_config_pins e ps n s1)
     }"

definition eclite_service_gpio_config :: "plat_env \<Rightarrow> 'a plat_state_scheme \<Rightarrow> (int \<times> 'a plat_state_scheme) option" where
  "eclite_service_gpio_config e s = gpio_config_pins e (plt_gpio_list e) (length (the (dev_list s))) s"

section \<open>Sleep states\<close>

text \<open>Switch the fan off and remember its duty, or switch it back on.\<close>

definition fan_off :: "plat_env \<Rightarrow> 'a plat_state_scheme \<Rightarrow> 'a plat_state_scheme" where
  "fan_off e s =
     post (pl_ec e) THERMAL_EVENT (ucast ECLITE_OS_EVENT_PWM_UPDATE)
       (put_op ''pwm_dutycyle'' 0 (s\<lparr>eclite_fan_speed := ucast (op_get ''pwm_dutycyle'' (eclite_opregion s))\<rparr>))"

definition fan_on :: "plat_env \<Rightarrow> 'a plat_state_scheme \<Rightarrow> 'a plat_state_scheme" where
  "fan_on e s =
     post (pl_ec e) THERMAL_EVENT (ucast ECLITE_OS_EVENT_PWM_UPDATE)
       (put_op ''pwm_dutycyle'' (ucast (eclite_fan_speed s)) s)"

definition pm_reset_prep_cb :: "plat_env \<Rightarrow> 'a plat_state_scheme \<Rightarrow> 'a plat_state_scheme option" where
  "pm_reset_prep_cb e s =
     do {
       s1 \<leftarrow> (case hw_gpio s SENSOR_GPIO_INDEX of
                None \<Rightarrow> Some s
              | Some d \<Rightarrow> map_option snd (eclite_gpio_pin_disable_callback (pl_bus e) (GPIO_INPUT e OR GPIO_INT_DISABLE e)
                            (Some d) (THERMAL_SENSOR_GPIO e) s));
       Some (emit TimerStop s1)
     }"

text \<open>\<open>entry\<close>: \<^verbatim>\<open>PM_EVENT_HOST_SX_ENTRY\<close>.\<close>

definition sx_callback :: "plat_env \<Rightarrow> bool \<Rightarrow> 'a plat_state_scheme \<Rightarrow> 'a plat_state_scheme option" where
  "sx_callback e entry s =
     do {
       s1 \<leftarrow> (if \<not> cpu_thermal_enable s then Some s
              else if entry then Some (fan_off e s)
              else do { (_, s') \<leftarrow> eclite_service_gpio_config e s; Some (fan_on e s') });
       Some (case reset_prep_info e (io s1) of None \<Rightarrow> s1 | Some t \<Rightarrow> s1\<lparr>eclite_sx_state := t\<rparr>)
     }"

text \<open>\<open>entry\<close>: \<^verbatim>\<open>PM_EVENT_HOST_S0IX_ENTRY\<close>.\<close>

definition s0ix_callback :: "plat_env \<Rightarrow> bool \<Rightarrow> 'a plat_state_scheme \<Rightarrow> 'a plat_state_scheme" where
  "s0ix_callback e entry s =
     (if heci_connection_id s = ECLITE_HECI_INVALID_CONN_ID \<or> \<not> cpu_thermal_enable s then s
      else if entry then fan_off e (emit TimerStop (s\<lparr>eclite_s0ix_state := True\<rparr>))
      else emit TimerStart (fan_on e (s\<lparr>eclite_s0ix_state := False\<rparr>)))"

definition platform_gpio_register_wakeup :: "plat_env \<Rightarrow> int \<Rightarrow> 'a plat_state_scheme \<Rightarrow> int \<times> 'a plat_state_scheme" where
  "platform_gpio_register_wakeup e battery_state s =
     (let s1 = (if battery_state = SUCCESS
                then emit (WakeSource (CHARGER_GPIO e)) (emit (WakeSource (BATTERY_GPIO e)) s) else s)
      in (0, emit (WakeSource (THERMAL_WAKE_SOURCE_PIN e)) s1))"

definition eclite_d0ix :: "u8 \<Rightarrow> 'a plat_state_scheme \<Rightarrow> 'a plat_state_scheme" where
  "eclite_d0ix st s = s\<lparr>thermal_disable_d0ix := st \<noteq> 0\<rparr>"

section \<open>Setup\<close>

definition is_eclite_devices_available :: "plat_env \<Rightarrow> int" where
  "is_eclite_devices_available e =
     (if list_ex (\<lambda>n. device_get_binding (pl_bus e) (n e) = None)
           [ECLITE_I2C_DEV, ECLITE_UCSI_I2C_DEV, ECLITE_PWM_DEV, CHARGER_GPIO_NAME, BATTERY_GPIO_NAME,
            THERMAL_SENSOR_GPIO_NAME]
      then FAILURE else SUCCESS)"

definition set_gpio_config :: "nat \<Rightarrow> platform_gpio_config \<Rightarrow> 'a plat_state_scheme \<Rightarrow> 'a plat_state_scheme" where
  "set_gpio_config i cfg = upd_dev i (\<lambda>d. d\<lparr>gpio_config := cfg\<rparr>)"

definition set_gpio_dev :: "nat \<Rightarrow> nat option \<Rightarrow> 'a plat_state_scheme \<Rightarrow> 'a plat_state_scheme" where
  "set_gpio_dev i g s = upd_dev i (\<lambda>d. d\<lparr>gpio_dev := g \<noteq> None\<rparr>) (s\<lparr>hw_gpio := (hw_gpio s)(i := g)\<rparr>)"

text \<open>The sections of \<^verbatim>\<open>connect_peripherals\<close>, one per kind of device; without the device a section does nothing.\<close>

definition connect_charger :: "plat_env \<Rightarrow> 'a plat_state_scheme \<Rightarrow> 'a plat_state_scheme option" where
  "connect_charger e s =
     (case find_dev_by_type DEV_CHG s of
        None \<Rightarrow> Some s
      | Some i \<Rightarrow> do {
          (_, c, s1) \<leftarrow> bq24610_init (pl_bus e) (CHARGER_GPIO_NAME e) (CHARGER_CONTROL_NAME e) (CHARGER_CONTROL e)
                          (GPIO_OUTPUT e) (pl_chg s) (set_gpio_config i (charger_gpio_config e) s);
          Some (set_gpio_dev i (chg_gpio_dev c) (s1\<lparr>pl_chg := c\<rparr>))
        })"

definition connect_battery :: "plat_env \<Rightarrow> 'a plat_state_scheme \<Rightarrow> (int \<times> 'a plat_state_scheme) option" where
  "connect_battery e s =
     (case find_dev_by_type DEV_FG s of
        None \<Rightarrow> Some (FAILURE, s)
      | Some i \<Rightarrow> do {
          (ret, b, s1) \<leftarrow> bq40z40_init (pl_bus e) (ECLITE_I2C_DEV e) (pl_word e)
                            ((pl_fg s)\<lparr>bq_slave := BATTERY_I2C_SLAVE_ADDRESS\<rparr>)
                            (set_gpio_config i (battery_gpio_config e) s);
          Some (ret, set_gpio_dev i (eclite_get_gpio_device (pl_bus e) (BATTERY_GPIO_NAME e)) (s1\<lparr>pl_fg := b\<rparr>))
        })"

definition connect_fan :: "plat_env \<Rightarrow> 'a plat_state_scheme \<Rightarrow> 'a plat_state_scheme" where
  "connect_fan e s =
     (case find_dev_by_type DEV_FAN s of
        None \<Rightarrow> s
      | Some i \<Rightarrow> (let (_, f, t, s1) = fan_init (pl_bus e) (ECLITE_PWM_DEV e) (ECLITE_TACHO_DEV e) (PWM_PIN e)
                                        (pl_fan s) (pl_tacho s) s
                   in s1\<lparr>pl_fan := f, pl_tacho := t\<rparr>))"

text \<open>Sensor \<open>k\<close>, counted from 1.\<close>

definition connect_sensor :: "plat_env \<Rightarrow> nat \<Rightarrow> 'a plat_state_scheme \<Rightarrow> 'a plat_state_scheme option" where
  "connect_sensor e k s =
     (case find_dev_instance_by_type DEV_THERMAL k s of
        None \<Rightarrow> Some s
      | Some i \<Rightarrow> do {
          let s1 = set_gpio_config i (thermal_gpio_config e) s;
          td \<leftarrow> thermal_data s1 i;
          (_, d, td1, s2) \<leftarrow> tmp102_init (pl_bus e) (ECLITE_I2C_DEV e) (pl_word e)
                               ((pl_tmp s1 ! (k - 1))\<lparr>tmp_slave := THERMAL_SENSOR_I2C e k\<rparr>) td s1;
          Some (set_gpio_dev i (eclite_get_gpio_device (pl_bus e) (THERMAL_SENSOR_GPIO_NAME e))
                 (put_thermal i td1 (s2\<lparr>pl_tmp := (pl_tmp s2)[k - 1 := d]\<rparr>)))
        })"

definition connect_usbc :: "plat_env \<Rightarrow> 'a plat_state_scheme \<Rightarrow> 'a plat_state_scheme option" where
  "connect_usbc e s =
     (case find_dev_by_type DEV_UCSI s of
        None \<Rightarrow> Some s
      | Some i \<Rightarrow> do {
          let s1 = set_gpio_config i (ucsi_gpio_config e) s;
          (_, c) \<leftarrow> ccg_pd_init (pl_usbc e) (ECLITE_UCSI_I2C_DEV e) (UCSI_GPIO_NAME e) (pl_bytes e)
                      ((pl_ccg s1)\<lparr>io := io s1\<rparr>);
          Some (initialize_opregion DEV_UCSI (set_gpio_dev i (ccg_gpio_dev c) (s1\<lparr>io := io c, pl_ccg := c\<rparr>)))
        })"

text \<open>The devices, once they are known to be there.\<close>

definition connect_devices :: "plat_env \<Rightarrow> 'a plat_state_scheme \<Rightarrow> (int \<times> 'a plat_state_scheme) option" where
  "connect_devices e s0 =
     do {
       s1 \<leftarrow> connect_charger e s0;
       (battery_state, s2) \<leftarrow> connect_battery e s1;
       let s3 = connect_fan e s2;
       s4 \<leftarrow> connect_sensor e 1 s3;
       s5 \<leftarrow> connect_sensor e 2 s4;
       s6 \<leftarrow> connect_sensor e 3 s5;
       s7 \<leftarrow> connect_sensor e 4 s6;
       s8 \<leftarrow> connect_usbc e (initialize_opregion DEV_THERMAL_CPU (initialize_opregion DEV_THERMAL s7));
       Some (battery_state, s8)
     }"

definition connect_peripherals :: "plat_env \<Rightarrow> 'a plat_state_scheme \<Rightarrow> 'a plat_state_scheme option" where
  "connect_peripherals e s =
     (if \<not> eclite_config_set e then Some (s\<lparr>eclite_enable := False\<rparr>)
      else let s1 = (if eclite_dts_config_set e then s
                     else s\<lparr>cpu_thermal_enable := False,
                            platform_devices := filter (\<lambda>d. device_typ d \<noteq> DEV_THERMAL_CPU) (platform_devices s)\<rparr>)
           in if is_eclite_devices_available e = FAILURE then Some (s1\<lparr>eclite_enable := False\<rparr>)
              else do {
                (battery_state, s2) \<leftarrow> connect_devices e (snd (init_dev_framework (Some (platform_devices s1)) s1));
                (_, s3) \<leftarrow> eclite_service_gpio_config e s2;
                let s4 = s3\<lparr>eclite_opregion := (eclite_opregion s3)[offsetof ''event_notify_config'' := 1]\<rparr>;
                let s5 = (if cpu_thermal_enable s4 then emit PmRegister s4 else s4);
                Some (snd (platform_gpio_register_wakeup e battery_state (emit PmRegister (emit PmRegister s5))))
              })"

definition init_kernel_services :: "'a plat_state_scheme \<Rightarrow> int \<times> 'a plat_state_scheme" where
  "init_kernel_services s = (0, emit (ThreadStart eclite_dispatcher_ptr) s)"

definition dispatcher_init :: "plat_env \<Rightarrow> 'a plat_state_scheme \<Rightarrow> (int \<times> 'a plat_state_scheme) option" where
  "dispatcher_init e s =
     do {
       s1 \<leftarrow> handle_cold_plug (pl_ec e) s;
       let (ret, s2) = init_kernel_services s1;
       Some (if ret \<noteq> 0 then ERROR else 0, s2)
     }"

text \<open>The main function of the service, after \<^verbatim>\<open>connect_peripherals\<close>; the critical temperature of the processor is configuration.\<close>

definition service_main :: "plat_env \<Rightarrow> 'a plat_state_scheme \<Rightarrow> 'a plat_state_scheme option" where
  "service_main e s =
     (if \<not> eclite_enable s then Some s
      else do {
        s1 \<leftarrow> (if \<not> cpu_thermal_enable s then Some s
               else case find_dev_by_type DEV_THERMAL_CPU s of
                      None \<Rightarrow> Some s
                    | Some i \<Rightarrow> do {
                        td \<leftarrow> thermal_data s i;
                        Some (put_thermal i (snd (cpu_init (word_of_int (TEMP_CPU_CRIT_SHUTDOWN (pl_ec e))) td)) s)
                      });
        (_, s2) \<leftarrow> dispatcher_init e s1;
        Some s2
      })"

end
