(* ===== verification/Driver_Facts.thy ===== *)
theory Driver_Facts
  imports Eclite_Platform
begin

text \<open>
  Facts about the drivers, the power controller and the platform of EC-lite.
\<close>

section \<open>Temperature sensors\<close>

unbundle bit_operations_syntax

lemma bit_swap_bytes: "bit (swap_bytes w) n \<longleftrightarrow> n < 16 \<and> bit w (if n < 8 then n + 8 else n - 8)"
proof -
  have m: "(0xFF :: u16) = mask 8" "(0xFF00 :: u16) = push_bit 8 (mask 8)" by (simp_all add: mask_eq_exp_minus_1)
  show ?thesis
    by (cases "n < 8") (auto simp: swap_bytes_def m bit_simps add.commute dest: bit_imp_le_length)
qed

lemma swap_swap [simp]: "swap_bytes (swap_bytes w) = w"
  by (rule bit_word_eqI) (auto simp: bit_swap_bytes)

text \<open>A register with the bytes \<open>hi\<close> and \<open>lo\<close> arrives with \<open>hi\<close> first, as the low byte of the word.\<close>

lemma reading_high_byte: "signed_drop_bit 8 (swap_bytes (get16 [hi, lo] 0)) = (scast hi :: u16)"
proof (rule bit_word_eqI)
  fix n assume "n < LENGTH(16)"
  then consider "n < 7" | "n = 7" | "8 \<le> n" by linarith
  then show "bit (signed_drop_bit 8 (swap_bytes (get16 [hi, lo] 0))) n = bit (scast hi :: u16) n"
    by cases (auto simp: bit_swap_bytes get16_def bit_simps min_def not_less dest: bit_imp_le_length)
qed

lemma sint_byte_extend:
  assumes "- 128 \<le> sint (t :: u16)" and "sint t < 128"
  shows "scast (ucast t :: u8) = t"
proof -
  have "ucast t = (word_of_int (sint t) :: u8)"
    by (rule bit_word_eqI) (simp add: bit_simps bit_sint_iff)
  moreover have "sint (word_of_int (sint t) :: u8) = sint t"
    using assms by (subst sint_sbintrunc') (simp add: signed_take_bit_int_eq_self)
  ultimately have "sint (ucast t :: u8) = sint t" by (rule trans [OF arg_cong])
  then show ?thesis by (simp add: scast_eq)
qed

lemma signed_drop_push:
  assumes "- 128 \<le> sint (t :: u16)" and "sint t < 128"
  shows "signed_drop_bit 8 (push_bit 8 t) = t"
proof -
  have "signed_drop_bit 8 (push_bit 8 t) = scast (ucast t :: u8)"
  proof (rule bit_word_eqI)
    fix n assume "n < LENGTH(16)"
    then consider "n < 7" | "n = 7" | "8 \<le> n" by linarith
    then show "bit (signed_drop_bit 8 (push_bit 8 t)) n = bit (scast (ucast t :: u8) :: u16) n"
      by cases (auto simp: bit_simps min_def not_less)
  qed
  then show ?thesis using sint_byte_extend [OF assms] by simp
qed

section \<open>Transfers\<close>

text \<open>A bus operation changes nothing but the log, which it extends: the interface between the platform abstraction and
  the drivers.\<close>

definition log_only :: "'a kstate_scheme \<Rightarrow> 'a kstate_scheme \<Rightarrow> bool" where
  "log_only s s' \<longleftrightarrow> (\<exists>es. s' = s\<lparr>io := io s @ es\<rparr>)"

lemma log_only_refl [simp]: "log_only s s"
  unfolding log_only_def by (rule exI [of _ "[]"]) simp

lemma log_only_trans: "log_only s t \<Longrightarrow> log_only t u \<Longrightarrow> log_only s u"
  by (auto simp: log_only_def)

lemma log_only_emit: "log_only s t \<Longrightarrow> log_only s (emit ev t)"
  by (auto simp: log_only_def emit_def)

lemma log_onlyD: "log_only s s' \<Longrightarrow> kstate.more s' = kstate.more s" "log_only s s' \<Longrightarrow> \<exists>es. io s' = io s @ es"
  by (auto simp: log_only_def)

locale bus_op =
  fixes run :: "'a kstate_scheme \<Rightarrow> ('r \<times> 'a kstate_scheme) option"
  assumes logs: "run s = Some (r, s') \<Longrightarrow> log_only s s'"
begin

lemma then_logs:
  assumes "run s = Some (r, s')" and "log_only t s"
  shows "log_only t s'"
  using assms logs log_only_trans by blast

lemma state_kept: "run s = Some (r, s') \<Longrightarrow> kstate.more s' = kstate.more s"
  by (rule log_onlyD(1) [OF logs])

end

locale bus_read =
  fixes rd :: "'a kstate_scheme \<Rightarrow> ('r \<times> 'v \<times> 'a kstate_scheme) option"
  assumes rd_logs: "rd s = Some (r, v, s') \<Longrightarrow> log_only s s'"

sublocale bus_read \<subseteq> bus_op "\<lambda>s. map_option (\<lambda>(r, v, s'). ((r, v), s')) (rd s)"
  by unfold_locales (use rd_logs in auto)

context bus_read begin

lemma then_rd_logs: "rd s = Some (r, v, s') \<Longrightarrow> log_only t s \<Longrightarrow> log_only t s'"
  by (rule then_logs [of s "(r, v)"]) simp_all

end

lemmas bind_some = bind_eq_Some_conv Let_def split_beta prod_eq_iff

interpretation i2c_wr: bus_op "i2c_write e dev slave reg data" for e dev slave reg data
  by unfold_locales (auto simp: i2c_write_def Let_def bind_eq_Some_conv intro: log_only_emit)

interpretation i2c_rd: bus_read "i2c_read e dev slave reg buf n" for e dev slave reg buf n
  by unfold_locales (auto simp: i2c_read_def Let_def bind_eq_Some_conv split: if_splits intro: log_only_emit)

interpretation gpio: bus_op "gpio_call e ev dev" for e ev dev
  by unfold_locales (auto simp: gpio_call_def Let_def bind_eq_Some_conv intro: log_only_emit)

interpretation gpio_rd: bus_read "eclite_get_gpio e dev pin" for e dev pin
  by unfold_locales (auto simp: eclite_get_gpio_def Let_def bind_eq_Some_conv intro: log_only_emit)

lemmas i2c_ops = eclite_i2c_read_byte_def eclite_i2c_write_byte_def eclite_i2c_read_word_def eclite_i2c_write_word_def
  eclite_i2c_burst_read_def eclite_i2c_burst_write_def eclite_i2c_burst_read16_def eclite_i2c_burst_write16_def

interpretation word_rd: bus_read "eclite_i2c_read_word e dev slave reg val" for e dev slave reg val
  by unfold_locales (auto simp: i2c_ops bind_eq_Some_conv dest: i2c_rd.rd_logs)

interpretation tmp102_thr: bus_op "tmp102_update_threshold e d td" for e d td
  by unfold_locales
    (auto simp: tmp102_update_threshold_def i2c_ops bind_eq_Some_conv split: if_splits
      dest: i2c_wr.logs i2c_wr.then_logs)

interpretation tmp102_cfg: bus_op "tmp102_config e d data" for e d data
  by unfold_locales
    (auto simp: tmp102_config_def eclite_i2c_write_word_def bind_eq_Some_conv split: if_splits
      dest: word_rd.rd_logs i2c_wr.then_logs)

interpretation tmp102_rd: bus_read "tmp102_read_temperature e d" for e d
  by unfold_locales
    (auto simp: tmp102_read_temperature_def bind_eq_Some_conv split: if_splits dest: word_rd.rd_logs)

lemma i2c_write_simp:
  "dev = Some c \<Longrightarrow> i2c_write e dev slave reg data s =
     Some (i2c_ret e (io s @ [I2cWrite c slave reg data]), s\<lparr>io := io s @ [I2cWrite c slave reg data]\<rparr>)"
  by (simp add: i2c_write_def emit_def)

lemma le16_register_format: "le16 (swap_bytes (push_bit 8 t)) = [ucast t, 0]"
  by (auto simp: le16_def intro!: bit_word_eqI simp: bit_simps bit_swap_bytes)

section \<open>Power controller\<close>

lemma pmc_round_mutex:
  "pmc_msg_thread_round e m s = Some (r, m', s') \<Longrightarrow> pmc_msg_mutex s' = pmc_msg_mutex s"
  by (auto simp: pmc_msg_thread_round_def send_pmc_ipc_msg_def rcv_pmc_ipc_msg_def emit_def Let_def bind_eq_Some_conv
      split: if_splits prod.splits)

text \<open>What a request costs the controller when nothing fails: a write, a wait, a read and an acknowledgement.\<close>

definition pmc_ready :: "pmc_env \<Rightarrow> bool" where
  "pmc_ready e \<longleftrightarrow> zephyr_sem (pmc_kern e) \<and> (\<forall>l. fifo_put_ret e l = 0 \<and> pmc_write_ret e l = 0) \<and> 1 < CONFIG_PMC_MAX_CLIENT e"

lemma zephyr_semD:
  assumes "zephyr_sem k"
  shows "k_sem_take k c g = (fst (k_sem_take k c g), c - 1)" "fst (k_sem_take k c g) = 0 \<longleftrightarrow> 0 < c \<or> g"
    "k_sem_give k l c = min l (c + 1)"
  using assms by (simp_all add: zephyr_sem_def prod_eq_iff)

text \<open>A long request that is answered, or finds the interrupt of an earlier answer.\<close>

lemma pmc_long_request:
  assumes "pmc_ready e" and "pm_format m = FORMAT_LONG" and "pm_wait_for_ack m"
    and "unat (pm_msg_size m) < MAX_PECI_MSG_SIZE" and "length (pm_u m) = MAX_PECI_MSG_SIZE"
    and "unat (pm_client_id m) < CONFIG_PMC_MAX_CLIENT e"
    and "0 < ipc_alert s \<or> pmc_reply e (io s @ [PmcWrite (pmc_long_drbl m) (take (unat (pm_msg_size m)) (pm_u m)), PmcWait])"
    and l: "l = io s @ [PmcWrite (pmc_long_drbl m) (take (unat (pm_msg_size m)) (pm_u m)), PmcWait,
           PmcRead (unat (pm_msg_size m))]"
    and "pmc_msg_alert s = 0"
  shows "pmc_sync_send_msg e (Some m) s =
     Some (fst (pmc_read e l),
       Some (m\<lparr>pm_u := memcpy_at (pm_u m) 0 (take (unat (pm_msg_size m)) (snd (snd (pmc_read e l))))\<rparr>),
       s\<lparr>io := l @ [PmcAck], ipc_alert := ipc_alert s - 1\<rparr>)"
proof -
  note k = zephyr_semD [of "pmc_kern e"]
  have z: "zephyr_sem (pmc_kern e)" using assms(1) by (simp add: pmc_ready_def)
  let ?w = "PmcWrite (pmc_long_drbl m) (take (unat (pm_msg_size m)) (pm_u m))"
  have t: "k_sem_take (pmc_kern e) (ipc_alert s) (pmc_reply e (io s @ [?w, PmcWait])) = (0, ipc_alert s - 1)"
    using k(1,2) [OF z, of "ipc_alert s" "pmc_reply e (io s @ [?w, PmcWait])"] assms(7) by simp
  have f: "fifo_put_ret e x = 0" "pmc_write_ret e x = 0" for x using assms(1) by (simp_all add: pmc_ready_def)
  have a: "snd (k_sem_take (pmc_kern e) (Suc 0) True) = 0" using k(1) [OF z, of 1 True] by (simp add: prod_eq_iff)
  show ?thesis
    using assms(2-6,9)
    by (simp add: pmc_sync_send_msg_def pmc_msg_thread_round_def send_pmc_ipc_msg_def rcv_pmc_ipc_msg_def emit_def f t l a
        k(3) [OF z] split_beta not_le pmc_format_defs)
qed

lemma pmc_long_timeout:
  assumes "pmc_ready e" and "pm_format m = FORMAT_LONG" and "pm_wait_for_ack m"
    and "unat (pm_msg_size m) < MAX_PECI_MSG_SIZE" and "length (pm_u m) = MAX_PECI_MSG_SIZE"
    and "unat (pm_client_id m) < CONFIG_PMC_MAX_CLIENT e"
    and "ipc_alert s = 0" and "\<And>l. \<not> pmc_reply e l" and "pmc_msg_alert s = 0"
  shows "\<exists>r. r \<noteq> 0 \<and> pmc_sync_send_msg e (Some m) s = Some (r, Some m,
     s\<lparr>io := io s @ [PmcWrite (pmc_long_drbl m) (take (unat (pm_msg_size m)) (pm_u m)), PmcWait]\<rparr>)"
proof -
  note k = zephyr_semD [of "pmc_kern e"]
  have z: "zephyr_sem (pmc_kern e)" using assms(1) by (simp add: pmc_ready_def)
  obtain r where t: "k_sem_take (pmc_kern e) 0 False = (r, 0)" and r: "r \<noteq> 0"
    using k(1,2) [OF z, of 0 False] by (metis diff_0_eq_0 less_irrefl)
  have f: "fifo_put_ret e x = 0" "pmc_write_ret e x = 0" for x using assms(1) by (simp_all add: pmc_ready_def)
  have a: "snd (k_sem_take (pmc_kern e) (Suc 0) True) = 0" using k(1) [OF z, of 1 True] by (simp add: prod_eq_iff)
  show ?thesis
    using assms(2-9) r
    by (intro exI [of _ r]) (simp add: pmc_sync_send_msg_def pmc_msg_thread_round_def send_pmc_ipc_msg_def
        rcv_pmc_ipc_msg_def emit_def f t a k(3) [OF z] split_beta not_le pmc_format_defs)
qed

section \<open>Processor temperature\<close>

lemma get_temp_message:
  "length get_temp_req = 8" "unat (of_nat (PMC_MSG_HEADER_SIZE + 8) :: 10 word) = 12"
  by (simp_all add: get_temp_req_def PMC_MSG_HEADER_SIZE_def)

text \<open>The answer to a temperature request: the bytes at 5 and 6.\<close>

definition temp_request :: pmc_msg_t where
  "temp_request = (LONG_MSG_HEADER True (PMC_MSG_HEADER_SIZE + length get_temp_req))
     \<lparr>pm_u := memcpy_at (replicate MAX_PECI_MSG_SIZE 0) 0 get_temp_req\<rparr>"

lemma temp_request_simps [simp]:
  "pm_format temp_request = FORMAT_LONG" "pm_wait_for_ack temp_request" "unat (pm_msg_size temp_request) = 12"
  "length (pm_u temp_request) = MAX_PECI_MSG_SIZE" "pm_client_id temp_request = 0"
  by (simp_all add: temp_request_def LONG_MSG_HEADER_def get_temp_message MAX_PECI_MSG_SIZE_def PMC_CLIENT_ECLITE_def
      pmc_zero_def)
    (simp add: PMC_MSG_HEADER_SIZE_def)

lemma peci_get_temp_request:
  "peci_get_temp e s = do {
     (ret, m, s1) \<leftarrow> pmc_sync_send_msg e (Some temp_request) s;
     if ret \<noteq> 0 then Some (ret, None, s1)
     else do { res \<leftarrow> m; Some (0, Some (peci_celsius (peci_tj_max s1) (get16 (pm_u res) 5)), s1) } }"
  by (simp add: peci_get_temp_def temp_request_def LONG_MSG_HEADER_def pmc_zero_def)

lemma answer_bytes:
  "12 \<le> length bs \<Longrightarrow> get16 (memcpy_at (pm_u temp_request) 0 (take 12 bs)) 5 = get16 bs 5"
  by (simp add: get16_def memcpy_at_def nth_append)

lemma byte_pair:
  assumes "unat (data :: u16) < 256"
  shows "(data AND 0xFF00) OR ucast (b :: u8) = ucast b"
proof -
  have "uint data < 256" using assms by (metis of_nat_less_iff of_nat_numeral uint_nat)
  then have u: "take_bit 8 (uint data) = uint data" by (simp add: take_bit_int_eq_self)
  have low: "\<not> bit data n" if "8 \<le> n" for n
  proof
    assume "bit data n"
    then have "bit (uint data) n" using bit_imp_le_length [of data n] by (simp add: bit_uint_iff)
    then have "bit (take_bit 8 (uint data)) n" by (simp only: u)
    then show False using that by (simp add: bit_take_bit_iff)
  qed
  have m: "(0xFF00 :: u16) = push_bit 8 (mask 8)" by (simp add: mask_eq_exp_minus_1)
  show ?thesis unfolding m by (rule bit_word_eqI) (auto simp: bit_simps low)
qed

lemma sint_reading: "sint (ucast (word_of_int t :: u8) :: u16) = t mod 256"
proof -
  have "t mod 256 < 256" "0 \<le> t mod 256" by simp_all
  then have "signed_take_bit 15 (t mod 256) = t mod 256" by (intro signed_take_bit_int_eq_self) simp_all
  then show ?thesis by (simp add: sint_uint uint_word_of_int unsigned_ucast_eq take_bit_int_eq_self)
qed

lemma peci_celsius_value: "peci_celsius tj raw = word_of_int (sint tj + sint raw div 64)"
  by (simp add: peci_celsius_def RAW_TO_INT_def sint_signed_drop_bit_eq drop_bit_eq_div)

section \<open>Fuel gauge\<close>

lemma get16_le16_nil: "get16 (le16 w) 0 = w"
  using get16_le16 [of w "[]"] by simp

lemma btp_delta_value: "unat (ucast (btp_delta full) :: u16) = unat full div 100 mod 256"
proof -
  have "unat (full div BTP_CAP_PER) = unat full div 100" by (simp add: BTP_CAP_PER_def unat_div)
  then show ?thesis
    by (simp add: btp_delta_def unsigned_ucast_eq unsigned_take_bit_eq take_bit_eq_mod unat_mod)
qed

lemma trip_point_wrap:
  fixes w x :: u16
  shows "unat x \<le> unat w \<Longrightarrow> unat (w - x) = unat w - unat x"
    and "unat w + unat x < 65536 \<Longrightarrow> unat (w + x) = unat w + unat x"
    and "unat w < unat x \<Longrightarrow> unat w < unat (w - x)"
proof -
  show "unat x \<le> unat w \<Longrightarrow> unat (w - x) = unat w - unat x" by (simp add: unat_sub word_le_nat_alt)
  show "unat w + unat x < 65536 \<Longrightarrow> unat (w + x) = unat w + unat x" by (simp add: unat_add_lem [THEN iffD1])
  show "unat w < unat x \<Longrightarrow> unat w < unat (w - x)"
    using unsigned_less [of x, where ?'a = nat] by (simp add: unat_sub_if' word_le_nat_alt)
qed

text \<open>A run that only adds to the log, with at most \<open>k\<close> waits for the gauge.\<close>

definition runs :: "nat \<Rightarrow> 'a kstate_scheme \<Rightarrow> 'a kstate_scheme \<Rightarrow> bool" where
  "runs k s s' \<longleftrightarrow> (\<exists>es. s' = s\<lparr>io := io s @ es\<rparr> \<and> length (filter (\<lambda>ev. ev = KSleep BTP_INIT_WAIT) es) \<le> k)"

lemma runs_trans: "runs k s t \<Longrightarrow> runs l t u \<Longrightarrow> runs (k + l) s u"
  by (fastforce simp: runs_def)

lemma runs_trans0: "runs k s t \<Longrightarrow> runs 0 t u \<Longrightarrow> runs k s u"
  using runs_trans [of k s t 0 u] by simp

lemma runs_0: "list_all (\<lambda>ev. ev \<noteq> KSleep BTP_INIT_WAIT) es \<Longrightarrow> runs 0 s (s\<lparr>io := io s @ es\<rparr>)"
  by (auto simp: runs_def list_all_iff intro!: exI [of _ es])

lemma runs_sleep: "runs 1 s (emit (KSleep BTP_INIT_WAIT) s)"
  by (auto simp: runs_def emit_def intro!: exI [of _ "[KSleep BTP_INIT_WAIT]"])

lemma i2c_read_simp:
  "n \<le> length buf \<Longrightarrow> i2c_read e (Some c) slave reg buf n s =
     Some (i2c_ret e (io s @ [I2cRead c slave reg n]), memcpy_at buf 0 (take n (i2c_bytes e (io s @ [I2cRead c slave reg n]))),
       s\<lparr>io := io s @ [I2cRead c slave reg n]\<rparr>)"
  by (simp add: i2c_read_def emit_def)

lemmas bus_simps = i2c_ops i2c_read_simp i2c_write_simp [OF refl]

lemma bq40z40_steps:
  assumes "bq_i2c_dev b = Some c"
  shows "\<exists>r s'. bq40z40_unlock e b s = Some (r, s') \<and> runs 0 s s'"
    and "\<exists>r s'. bq40z40_enable_btp e b s = Some (r, s') \<and> runs 0 s s'"
    and "\<exists>r s'. bq40z40_check_battery_presence e b g s = Some (r, s') \<and> runs 0 s s'"
    and "\<exists>r s'. bq40z40_set_battery_trip_point e b 0 s = Some (r, s') \<and> runs 0 s s'"
  using assms
  by (simp_all add: bq40z40_unlock_def bq40z40_enable_btp_def bq40z40_check_battery_presence_def bq40z40_get_battery_voltage_def
      bq40z40_set_battery_trip_point_def bq40z40_mfg_read_def bq40z40_mfg_write_def bus_simps BTP_EN_RD_SIZE_def
      BTP_MFG_RD_SIZE_def BTP_EN_BUF_SIZE_def BTP_DATA_LEN_def BQ40Z40_MFG_DATA_BUF_SIZE_def runs_0)

lemma fg_wait_runs:
  assumes "bq_i2c_dev b = Some c"
  shows "\<exists>n' s'. fg_wait e b k n st s = Some (n', s') \<and> runs k s s'"
proof (induction k arbitrary: n st s)
  case 0
  then show ?case using runs_0 [of "[]" s] by simp
next
  case (Suc k)
  let ?r = "I2cRead c (bq_slave b) [BQ40Z40_BAT_STATUS] 2"
  let ?s = "s\<lparr>io := io s @ [?r]\<rparr>"
  let ?v = "get16 (memcpy_at (le16 st) 0 (take 2 (i2c_bytes e (io s @ [?r])))) 0"
  have one: "runs 0 s ?s" "runs 1 ?s (emit (KSleep BTP_INIT_WAIT) ?s)"
    by (rule runs_0, simp) (rule runs_sleep)
  show ?case
  proof (cases "?v AND BQ40Z40_BAT_INIT_DONE = 0")
    case True
    obtain n' s' where "fg_wait e b k (n + 1) ?v (emit (KSleep BTP_INIT_WAIT) ?s) = Some (n', s')"
      and "runs k (emit (KSleep BTP_INIT_WAIT) ?s) s'" using Suc by blast
    moreover have "runs (1 + k) s s'"
      using runs_trans [OF runs_trans [OF one] calculation(2)] by simp
    ultimately show ?thesis using assms True by (simp add: bus_simps)
  next
    case False
    have "runs (Suc k) s ?s" using runs_trans [OF one(1), of "Suc k" ?s] runs_0 [of "[]" ?s] by (auto simp: runs_def)
    then show ?thesis using assms False by (simp add: bus_simps)
  qed
qed

lemma bq40z40_init_runs:
  assumes "eclite_get_i2c_device e name = Some c"
  shows "\<exists>r b' s'. bq40z40_init e name garbage b s = Some (r, b', s') \<and> runs 20 s s'"
proof -
  let ?b = "b\<lparr>bq_i2c_dev := Some c\<rparr>" and ?s = "s\<lparr>io := io s @ [I2cConfigure c]\<rparr>"
  have dev: "bq_i2c_dev ?b = Some c" by simp
  obtain n s2 where w: "fg_wait e ?b BTP_INIT_WAIT 0 0 ?s = Some (n, s2)" and r2: "runs BTP_INIT_WAIT ?s s2"
    using fg_wait_runs [OF dev] by blast
  obtain r3 s3 where u: "bq40z40_unlock e ?b s2 = Some (r3, s3)" and r3: "runs 0 s2 s3" using bq40z40_steps(1) [OF dev] by blast
  obtain r4 s4 where v: "bq40z40_enable_btp e ?b s3 = Some (r4, s4)" and r4: "runs 0 s3 s4" using bq40z40_steps(2) [OF dev] by blast
  obtain r5 s5 where p: "bq40z40_check_battery_presence e ?b garbage s4 = Some (r5, s5)" and r5: "runs 0 s4 s5"
    using bq40z40_steps(3) [OF dev] by blast
  obtain r6 s6 where q: "bq40z40_set_battery_trip_point e ?b 0 s5 = Some (r6, s6)" and r6: "runs 0 s5 s6"
    using bq40z40_steps(4) [OF dev] by blast
  have "runs 20 s s2" using runs_trans [OF runs_0 [of "[I2cConfigure c]" s] r2] by (simp add: BTP_INIT_WAIT_def)
  moreover from this have "runs 20 s s5" using r3 r4 r5 runs_trans0 by blast
  moreover from this have "runs 20 s s6" using r6 runs_trans0 by blast
  ultimately show ?thesis
    using assms w u v p q
    by (simp add: bq40z40_init_def eclite_i2c_config_def emit_def Let_def)
qed

section \<open>USB-C controller\<close>

lemma ccg_rd_simp:
  "ccg_i2c_dev s = Some c \<Longrightarrow> n \<le> length buf \<Longrightarrow> ccg_rd e reg buf n s =
     (let l = io s @ [I2cRead c (UCSI_I2C_SLAVE_ADDRESS e) (le16 reg) n]
      in Some (i2c_ret (ccg_bus e) l, memcpy_at buf 0 (take n (i2c_bytes (ccg_bus e) l)), s\<lparr>io := l\<rparr>))"
  by (simp add: ccg_rd_def bus_simps Let_def)

lemma ccg_wr_simp:
  "ccg_i2c_dev s = Some c \<Longrightarrow> ccg_wr e reg data s =
     (let l = io s @ [I2cWrite c (UCSI_I2C_SLAVE_ADDRESS e) (le16 reg) data] in Some (i2c_ret (ccg_bus e) l, s\<lparr>io := l\<rparr>))"
  by (simp add: ccg_wr_def bus_simps Let_def)

lemma memcpy_all: "length src = length dst \<Longrightarrow> memcpy_at dst 0 src = src"
  by (simp add: memcpy_at_def)

section \<open>Pins\<close>

lemma post_enqueues:
  "zephyr_msgq e \<Longrightarrow> length (dispatcher_queue s) < ECLITE_QUEUE_DEPTH \<Longrightarrow>
   post e ev d s = s\<lparr>dispatcher_queue := dispatcher_queue s @ [\<lparr>event_type = ev, event_data = d\<rparr>]\<rparr>"
  by (simp add: eclite_post_dispatcher_event_def zephyr_msgq_def)

definition pin_device :: "u32 \<Rightarrow> eclite_device \<Rightarrow> bool" where
  "pin_device pin d \<longleftrightarrow> gpio_no (gpio_config d) = pin"

lemma gpio_event_queue:
  assumes "zephyr_msgq e" and "list_all (\<lambda>d. pin_device pin d \<longrightarrow> device_typ d = DEV_THERMAL) ds"
    and "length (dispatcher_queue s) + length (filter (pin_device pin) ds) \<le> ECLITE_QUEUE_DEPTH"
  shows "dispatcher_queue (gpio_event_processing e i ds pin ev s) =
     dispatcher_queue s @ replicate (length (filter (pin_device pin) ds)) \<lparr>event_type = THERMAL_EVENT, event_data = 0\<rparr>"
  using assms(2,3)
proof (induction ds arbitrary: i ev s)
  case (Cons d ds)
  show ?case
  proof (cases "pin_device pin d")
    case True
    let ?s1 = "if isr d \<noteq> None then emit (IsrCall i) s else s"
    let ?s2 = "post e THERMAL_EVENT 0 ?s1"
    let ?s3 = "if gpio_dev d then emit (GpioReenable pin (gpio_dir (gpio_config d) OR
                 ucast (pull_down_en (gpio_config d)) OR intr_type (gpio_config d))) ?s2 else ?s2"
    have q: "dispatcher_queue ?s3 = dispatcher_queue s @ [\<lparr>event_type = THERMAL_EVENT, event_data = 0\<rparr>]"
      using Cons.prems(2) True by (simp add: post_enqueues [OF assms(1)] emit_def)
    have "gpio_event_processing e i (d # ds) pin ev s = gpio_event_processing e (i + 1) ds pin THERMAL_EVENT ?s3"
      using True Cons.prems(1) by (simp add: pin_device_def Let_def)
    then show ?thesis using Cons.IH [of ?s3 "i + 1" THERMAL_EVENT] Cons.prems True q by simp
  next
    case False
    then have "gpio_event_processing e i (d # ds) pin ev s = gpio_event_processing e (i + 1) ds pin ev s"
      by (auto simp: pin_device_def)
    then show ?thesis using Cons False by simp
  qed
qed simp

text \<open>Configuring the pins: with a controller that accepts everything only the log grows, and every pin that occurs in
  the list is enabled.\<close>

definition pins_enabled :: "'a plat_state_scheme \<Rightarrow> u32 set \<Rightarrow> nat set \<Rightarrow> io_log \<Rightarrow> bool" where
  "pins_enabled s pins is es \<longleftrightarrow> (\<forall>i \<in> is. \<forall>d. hw_gpio s i = Some d \<and> gpio_no (gpio_config (dev_at s i)) \<in> pins \<longrightarrow>
     (\<exists>flags. GpioPinInterrupt d (gpio_no (gpio_config (dev_at s i))) flags \<in> set es))"

lemma dev_at_io [simp]: "dev_at (s\<lparr>io := l\<rparr>) i = dev_at s i"
  by (simp add: dev_at_def)

lemma pins_enabled_io [simp]: "pins_enabled (s\<lparr>io := l\<rparr>) p is es = pins_enabled s p is es"
  by (simp add: pins_enabled_def)

lemma pins_enabled_union:
  "pins_enabled s p is es \<Longrightarrow> pins_enabled s q is es' \<Longrightarrow> pins_enabled s (p \<union> q) is (es @ es')"
  "pins_enabled s p is es \<Longrightarrow> pins_enabled s p js es' \<Longrightarrow> pins_enabled s p (is \<union> js) (es @ es')"
  by (fastforce simp: pins_enabled_def)+

lemma gpio_config_device_enables:
  assumes "\<And>l. gpio_ret (pl_bus e) l = 0"
  shows "\<exists>es. gpio_config_device e pin i s = Some (0, s\<lparr>io := io s @ es\<rparr>) \<and> pins_enabled s {pin} {i} es"
proof (cases "hw_gpio s i = None \<or> gpio_no (gpio_config (dev_at s i)) \<noteq> pin")
  case True
  then show ?thesis by (intro exI [of _ "[]"]) (auto simp: gpio_config_device_def pins_enabled_def)
next
  case False
  then obtain d where "hw_gpio s i = Some d" "gpio_no (gpio_config (dev_at s i)) = pin" by auto
  then show ?thesis using assms
    by (simp add: gpio_config_device_def Let_def eclite_gpio_configure_def eclite_gpio_register_callback_def
        eclite_gpio_pin_enable_callback_def eclite_get_gpio_def gpio_call_def or_fail_def emit_def pins_enabled_def)
      (rule conjI; rule impI; rule exI, rule conjI, rule refl, force)
qed

lemma gpio_config_devices_enables:
  assumes "\<And>l. gpio_ret (pl_bus e) l = 0"
  shows "\<exists>es. gpio_config_devices e pin is s = Some (0, s\<lparr>io := io s @ es\<rparr>) \<and> pins_enabled s {pin} (set is) es"
proof (induction "is" arbitrary: s)
  case Nil
  show ?case by (intro exI [of _ "[]"]) (simp add: pins_enabled_def)
next
  case (Cons i "is")
  obtain es where one: "gpio_config_device e pin i s = Some (0, s\<lparr>io := io s @ es\<rparr>)" "pins_enabled s {pin} {i} es"
    using gpio_config_device_enables [OF assms] by blast
  obtain es' where rest: "gpio_config_devices e pin is (s\<lparr>io := io s @ es\<rparr>) = Some (0, s\<lparr>io := io s @ es @ es'\<rparr>)"
    "pins_enabled s {pin} (set is) es'" using Cons [of "s\<lparr>io := io s @ es\<rparr>"] by auto
  show ?case
    using one rest pins_enabled_union(2) [OF one(2) rest(2)] by (intro exI [of _ "es @ es'"]) (simp add: or_fail_def)
qed

lemma gpio_config_pins_enables:
  assumes "\<And>l. gpio_ret (pl_bus e) l = 0"
  shows "\<exists>es. gpio_config_pins e pins n s = Some (0, s\<lparr>io := io s @ es\<rparr>) \<and> pins_enabled s (set pins) {..<n} es"
proof (induction pins arbitrary: s)
  case Nil
  show ?case by (intro exI [of _ "[]"]) (simp add: pins_enabled_def)
next
  case (Cons p ps)
  obtain es where one: "gpio_config_devices e p [0..<n] s = Some (0, s\<lparr>io := io s @ es\<rparr>)" "pins_enabled s {p} {..<n} es"
    using gpio_config_devices_enables [OF assms, of p "[0..<n]" s] by (auto simp: lessThan_atLeast0)
  obtain es' where rest: "gpio_config_pins e ps n (s\<lparr>io := io s @ es\<rparr>) = Some (0, s\<lparr>io := io s @ es @ es'\<rparr>)"
    "pins_enabled s (set ps) {..<n} es'" using Cons [of "s\<lparr>io := io s @ es\<rparr>"] by auto
  show ?case
    using one rest pins_enabled_union(1) [OF one(2) rest(2)] by (intro exI [of _ "es @ es'"]) (simp add: or_fail_def)
qed

section \<open>Fan\<close>

lemma post_keeps [simp]:
  "eclite_opregion (post e ev d s) = eclite_opregion s" "heci_connection_id (post e ev d s) = heci_connection_id s"
  "cpu_thermal_enable (post e ev d s) = cpu_thermal_enable s"
  "plat_state.eclite_fan_speed (post e ev d p) = eclite_fan_speed p" "eclite_s0ix_state (post e ev d p) = eclite_s0ix_state p"
  by (simp_all add: eclite_post_dispatcher_event_def split_beta)

lemma emit_keeps [simp]:
  "eclite_opregion (emit ev s) = eclite_opregion s" "heci_connection_id (emit ev s) = heci_connection_id s"
  "cpu_thermal_enable (emit ev s) = cpu_thermal_enable s"
  "eclite_fan_speed (emit ev p) = eclite_fan_speed p" "eclite_s0ix_state (emit ev p) = eclite_s0ix_state p"
  by (simp_all add: emit_def)

lemma pwm_in_region:
  assumes "length r = MAX_OPR_LENGTH"
  shows "op_get ''pwm_dutycyle'' (op_put ''pwm_dutycyle'' v r) = v" "length (op_put ''pwm_dutycyle'' v r) = MAX_OPR_LENGTH"
proof -
  have "offsetof ''pwm_dutycyle'' + 2 \<le> length r" using assms by (simp add: MAX_OPR_LENGTH_def)
  then show "op_get ''pwm_dutycyle'' (op_put ''pwm_dutycyle'' v r) = v" "length (op_put ''pwm_dutycyle'' v r) = MAX_OPR_LENGTH"
    using op_get_put length_op_put assms by simp_all
qed

lemma fan_switch [simp]:
  "eclite_opregion (fan_off e s) = op_put ''pwm_dutycyle'' 0 (eclite_opregion s)"
  "eclite_fan_speed (fan_off e s) = ucast (op_get ''pwm_dutycyle'' (eclite_opregion s))"
  "eclite_opregion (fan_on e s) = op_put ''pwm_dutycyle'' (ucast (eclite_fan_speed s)) (eclite_opregion s)"
  "heci_connection_id (fan_off e s) = heci_connection_id s" "cpu_thermal_enable (fan_off e s) = cpu_thermal_enable s"
  "eclite_s0ix_state (fan_off e s) = eclite_s0ix_state s" "eclite_s0ix_state (fan_on e s) = eclite_s0ix_state s"
  by (simp_all add: fan_off_def fan_on_def)

text \<open>Entry to or exit from a low power state, Sx or S0ix.\<close>

definition low_power :: "plat_env \<Rightarrow> bool \<Rightarrow> bool \<Rightarrow> 'a plat_state_scheme \<Rightarrow> 'a plat_state_scheme option" where
  "low_power e sx entry s = (if sx then sx_callback e entry s else Some (s0ix_callback e entry s))"

definition fan_update :: dispatcher_queue_data where
  "fan_update = \<lparr>event_type = THERMAL_EVENT, event_data = ucast ECLITE_OS_EVENT_PWM_UPDATE\<rparr>"

definition fan_duty :: "'a plat_state_scheme \<Rightarrow> u16" where
  "fan_duty s = op_get ''pwm_dutycyle'' (eclite_opregion s)"

text \<open>The platform as the notifications expect it: a host connection, the thermal function enabled, the devices set up.\<close>

definition fan_managed :: "'a plat_state_scheme \<Rightarrow> bool" where
  "fan_managed s \<longleftrightarrow> heci_connection_id s \<noteq> ECLITE_HECI_INVALID_CONN_ID \<and> cpu_thermal_enable s \<and>
     length (eclite_opregion s) = MAX_OPR_LENGTH \<and> dev_list s \<noteq> None"

definition queue_room :: "'a ec_state_scheme \<Rightarrow> bool" where
  "queue_room s \<longleftrightarrow> length (dispatcher_queue s) < ECLITE_QUEUE_DEPTH"

lemma fan_switch_more [simp]:
  "dev_list (fan_off e s) = dev_list s" "dev_list (emit ev s) = dev_list s"
  "io (fan_off e s) = io s" "io (fan_on e s) = io s" "dispatcher_queue (emit ev p) = dispatcher_queue p"
  "zephyr_msgq (pl_ec e) \<Longrightarrow> queue_room s \<Longrightarrow> dispatcher_queue (fan_off e s) = dispatcher_queue s @ [fan_update]"
  "zephyr_msgq (pl_ec e) \<Longrightarrow> queue_room s \<Longrightarrow> dispatcher_queue (fan_on e s) = dispatcher_queue s @ [fan_update]"
  by (simp_all add: fan_off_def fan_on_def fan_update_def post_enqueues queue_room_def emit_def)
    (simp_all add: eclite_post_dispatcher_event_def split_beta)

lemma ucast_duty [simp]: "ucast (ucast (w :: u16) :: u32) = w"
  by (rule bit_word_eqI) (simp add: bit_simps)

lemma low_power_entry:
  assumes "zephyr_msgq (pl_ec e)" and "fan_managed s"
  shows "ok (low_power e sx True s) (\<lambda>s1. fan_managed s1 \<and> fan_duty s1 = 0 \<and> eclite_fan_speed s1 = ucast (fan_duty s) \<and>
     (queue_room s \<longrightarrow> dispatcher_queue s1 = dispatcher_queue s @ [fan_update]) \<and>
     (\<not> sx \<longrightarrow> eclite_s0ix_state s1 \<and> io s1 = io s @ [TimerStop]))"
  using assms
  by (auto simp: low_power_def sx_callback_def s0ix_callback_def fan_managed_def fan_duty_def pwm_in_region queue_room_def
      split: option.splits)

lemma low_power_exit:
  assumes "zephyr_msgq (pl_ec e)" and "\<And>l. gpio_ret (pl_bus e) l = 0" and "fan_managed t"
  shows "ok (low_power e sx False t) (\<lambda>s2. fan_duty s2 = ucast (eclite_fan_speed t) \<and>
     (queue_room t \<longrightarrow> dispatcher_queue s2 = dispatcher_queue t @ [fan_update]) \<and>
     (\<not> sx \<longrightarrow> \<not> eclite_s0ix_state s2 \<and> io s2 = io t @ [TimerStart]))"
proof (cases sx)
  case True
  from assms(3) obtain ds where ds: "dev_list t = Some ds" by (auto simp: fan_managed_def)
  then obtain es where "eclite_service_gpio_config e t = Some (0, t\<lparr>io := io t @ es\<rparr>)"
    using gpio_config_pins_enables [OF assms(2), of "plt_gpio_list e" "length ds" t]
    by (auto simp: eclite_service_gpio_config_def)
  then show ?thesis using True assms(1,3)
    by (auto simp: low_power_def sx_callback_def fan_managed_def fan_duty_def pwm_in_region queue_room_def split: option.splits)
next
  case False
  with assms show ?thesis
    by (auto simp: low_power_def s0ix_callback_def fan_managed_def fan_duty_def pwm_in_region queue_room_def)
qed

end
