(* ===== verification/Driver_Samples.thy ===== *)
theory Driver_Samples
  imports Driver_Facts Eclite_Samples
begin

text \<open>
  Concrete buses, a power controller that answers, and a platform with one sensor pin.
\<close>

text \<open>A bus on which every transfer succeeds; a read of \<open>n\<close> bytes delivers \<open>n\<close> times the byte 200.\<close>

definition sample_bus :: bus_env where
  "sample_bus = \<lparr>device_get_binding = (\<lambda>_. Some 1), i2c_ret = (\<lambda>_. 0),
     i2c_bytes = (\<lambda>l. case last l of I2cRead _ _ _ n \<Rightarrow> replicate n 200 | _ \<Rightarrow> []),
     gpio_ret = (\<lambda>_. 0), gpio_level = (\<lambda>_. 0), pwm_ret = (\<lambda>_. 0), tgpio_ret = (\<lambda>_. 0)\<rparr>"

lemma sample_bus_simps [simp]:
  "i2c_ret sample_bus l = 0" "gpio_ret sample_bus l = 0" "gpio_level sample_bus l = 0" "i2c_complete sample_bus"
  "i2c_bytes sample_bus (l @ [I2cRead d a r n]) = replicate n 200"
  by (simp_all add: sample_bus_def i2c_complete_def)

definition sample_tmp102 :: tmp102_interface where
  "sample_tmp102 = \<lparr>tmp_i2c_dev = Some 1, tmp_slave = 0x48, crit_temp = 85\<rparr>"

definition sample_limits :: thermal_driver_data where
  "sample_limits = \<lparr>high_threshold = 55, low_threshold = -10, critical = 85, temperature = 0, rotation = 0, tacho = 0\<rparr>"

definition sample_gauge :: bq40z40_interface where
  "sample_gauge = \<lparr>bq_i2c_dev = Some 1, bq_slave = 0xB\<rparr>"

text \<open>A gauge with a full capacity \<open>full\<close> and 20 left.\<close>

definition sample_gauge_bus :: "u16 \<Rightarrow> bus_env" where
  "sample_gauge_bus full = sample_bus\<lparr>i2c_bytes := (\<lambda>l. if length l = 1 then le16 full else le16 20)\<rparr>"

definition sample_charger :: bq24610_interface where
  "sample_charger = \<lparr>chg_gpio_dev = Some 1, gpio_cntlr = Some 2\<rparr>"

definition sample_ccg_env :: ccg_env where
  "sample_ccg_env = \<lparr>ccg_bus = sample_bus, UCSI_GPIO = 5, UCSI_I2C_SLAVE_ADDRESS = 8\<rparr>"

definition sample_ccg :: ccg_state where
  "sample_ccg = \<lparr>io = [], ccg_version = replicate 8 0, ccg_ports = replicate 2 \<lparr>data_role = 0, pwr_role = 0,
     partner_attached = 0, connection_state = 0\<rparr>,
     ccg_data = \<lparr>msg_in = replicate 16 0, msg_out = replicate 16 0, cci = replicate 4 0, control = replicate 8 0\<rparr>,
     ccg_i2c_dev = Some 1, ccg_gpio_dev = Some 3\<rparr>"

text \<open>The controller answers \<open>-80\<close> degrees relative to a maximum of 100 degrees.\<close>

definition sample_answer :: "u8 list" where
  "sample_answer = replicate 5 0 @ [0, 0xEC] @ replicate 5 0"

lemma sample_answer_value: "sint (get16 sample_answer 5) = - 5120" "length sample_answer = 12"
  by code_simp+

definition sample_pmc :: "bool \<Rightarrow> pmc_env" where
  "sample_pmc reply = \<lparr>pmc_kern = sample_env, pmc_write_ret = (\<lambda>_. 0), pmc_reply = (\<lambda>_. reply),
     pmc_read = (\<lambda>_. (0, 0, sample_answer)), sideband_ret = (\<lambda>_. 0), sideband_value = (\<lambda>_. []), pme_ret = (\<lambda>_. 0),
     reset_ret = (\<lambda>_. 0), fifo_put_ret = (\<lambda>_. 0), CONFIG_PMC_MAX_CLIENT = 2\<rparr>"

definition sample_peci :: peci_state where
  "sample_peci = \<lparr>io = [], ipc_alert = 0, pmc_msg_alert = 0, pmc_msg_mutex = 0, peci_tj_max = 100\<rparr>"

lemma sample_pmc_simps [simp]:
  "pmc_ready (sample_pmc reply)" "pmc_reply (sample_pmc reply) l = reply" "pmc_read (sample_pmc reply) l = (0, 0, sample_answer)"
  using sample_zephyr by (simp_all add: pmc_ready_def sample_pmc_def zephyr_env_def)

definition sample_plat_env :: plat_env where
  "sample_plat_env = \<lparr>pl_ec = sample_ec_env, pl_usbc = sample_ccg_env, eclite_config_set = True, eclite_dts_config_set = True,
     reset_prep_info = (\<lambda>_. None), ECLITE_I2C_DEV = ''I2C_2'', ECLITE_UCSI_I2C_DEV = ''I2C_7'', ECLITE_PWM_DEV = ''PWM_0'',
     ECLITE_TACHO_DEV = ''TGPIO_0'', CHARGER_GPIO_NAME = ''GPIO_0'', CHARGER_CONTROL_NAME = ''GPIO_1'',
     BATTERY_GPIO_NAME = ''GPIO_0'', THERMAL_SENSOR_GPIO_NAME = ''GPIO_0'', UCSI_GPIO_NAME = ''GPIO_1'',
     BATTERY_GPIO = 9, CHARGER_GPIO = 10, CHARGER_CONTROL = 11, THERMAL_SENSOR_GPIO = 7, THERMAL_WAKE_SOURCE_PIN = 7,
     PWM_PIN = 0, THERMAL_SENSOR_I2C = (\<lambda>k. 0x47 + of_nat k), GPIO_INPUT = 256, GPIO_OUTPUT = 512,
     GPIO_INT_EDGE_RISING = 1, GPIO_INT_EDGE_FALLING = 2, GPIO_INT_EDGE_BOTH = 3, GPIO_INT_DISABLE = 4096,
     pl_word = 0, pl_bytes = replicate 8 0\<rparr>"

definition sample_plat :: "eclite_device list \<Rightarrow> plat_state" where
  "sample_plat ds = ec_state.extend ((sample_ec ds)\<lparr>cpu_thermal_enable := True\<rparr>)
     (plat_state.fields ds (\<lambda>i. if i = 0 then Some 1 else None) sample_gauge sample_charger [] 
        \<lparr>pwm_dev = Some 1, tacho_dev = None, pwm_pin = 0, pwm_frequency = 4000\<rparr> tacho_zero sample_ccg 0 True False)"

lemma sample_plat_views [simp]:
  "heci_connection_id (sample_plat ds) = 0" "cpu_thermal_enable (sample_plat ds)" "dev_list (sample_plat ds) = Some ds"
  "eclite_opregion (sample_plat ds) = replicate 384 0" "hw_gpio (sample_plat ds) = (\<lambda>i. if i = 0 then Some 1 else None)"
  "io (sample_plat ds) = []" "dispatcher_queue (sample_plat ds) = []" "cpu_thermal_enable (sample_plat ds)"
  using sample_ec_fields [of ds] sample_ec_views(4) [of ds]
  by (cases "sample_ec ds"; simp add: sample_plat_def ec_state.extend_def plat_state.fields_def)+

text \<open>A platform whose fan runs at 40 percent.\<close>

definition sample_fan_plat :: plat_state where
  "sample_fan_plat = (sample_plat [])\<lparr>eclite_opregion := op_put ''pwm_dutycyle'' 40 (replicate 384 0)\<rparr>"

lemma sample_fan_managed: "fan_managed sample_fan_plat"
  using pwm_in_region(2) [of "replicate 384 0" 40]
  by (simp add: sample_fan_plat_def fan_managed_def ECLITE_HECI_INVALID_CONN_ID_def MAX_OPR_LENGTH_def)

lemma sample_plat_laws: "zephyr_msgq (pl_ec sample_plat_env)" "gpio_ret (pl_bus sample_plat_env) l = 0"
  by (simp_all add: sample_plat_env_def sample_ccg_env_def)

lemma sample_fan_plat_views [simp]:
  "fan_duty sample_fan_plat = 40" "dispatcher_queue sample_fan_plat = []" "queue_room sample_fan_plat"
  using pwm_in_region(1) [of "replicate 384 0" 40]
  by (simp_all add: sample_fan_plat_def fan_duty_def queue_room_def MAX_OPR_LENGTH_def ECLITE_QUEUE_DEPTH_def)

end
