(* ===== verification/Driver_Properties.thy ===== *)
theory Driver_Properties
  imports Driver_Samples
begin

text \<open>
  Properties of the drivers, the power controller and the platform of EC-lite.
\<close>

section \<open>Sensors\<close>

text \<open>C27. A temperature sensor: the limits are written in register format, the critical temperature to the upper and the low
  threshold to the lower limit register, and whatever of them is read back in the format of a reading is the limit
  itself, for every temperature of a signed byte; a reading is the signed high byte of the register, the whole degrees.\<close>

theorem sensor_registers_round_trip:
  assumes "tmp_i2c_dev d = Some c" and "\<And>l. i2c_ret e l = 0"
    and "- 128 \<le> sint (critical td)" and "sint (critical td) < 128"
    and "- 128 \<le> sint (low_threshold td)" and "sint (low_threshold td) < 128"
    and "i2c_bytes e (io s @ [I2cRead c (ucast (tmp_slave d)) [TMP102_TEMPERATURE_REG] 2]) = [hi, lo]"
  shows "(\<exists>high low. tmp102_update_threshold e d td s = Some (0, s\<lparr>io := io s @
            [I2cWrite c (ucast (tmp_slave d)) [TMP102_T_HIGH_REG] [high, 0],
             I2cWrite c (ucast (tmp_slave d)) [TMP102_T_LOW_REG] [low, 0]]\<rparr>) \<and>
          scast high = critical td \<and> scast low = low_threshold td) \<and>
     tmp102_read_temperature e d s = Some (0, Some (scast hi),
       s\<lparr>io := io s @ [I2cRead c (ucast (tmp_slave d)) [TMP102_TEMPERATURE_REG] 2]\<rparr>)"
proof -
  have "tmp102_update_threshold e d td s = Some (0, s\<lparr>io := io s @
      [I2cWrite c (ucast (tmp_slave d)) [TMP102_T_HIGH_REG] [ucast (critical td), 0],
       I2cWrite c (ucast (tmp_slave d)) [TMP102_T_LOW_REG] [ucast (low_threshold td), 0]]\<rparr>)"
    using assms(1,2)
    by (simp add: tmp102_update_threshold_def tmp102_convert_temperature_def TMP102_REG_FORMAT_def TMP102_READABLE_FORMAT_def
        TMP102_EM_NORAML_MODE_def eclite_i2c_write_word_def le16_register_format i2c_write_simp)
  moreover have "scast (ucast (critical td) :: u8) = critical td" "scast (ucast (low_threshold td) :: u8) = low_threshold td"
    using assms by (simp_all add: sint_byte_extend)
  moreover have "tmp102_read_temperature e d s = Some (0, Some (scast hi),
       s\<lparr>io := io s @ [I2cRead c (ucast (tmp_slave d)) [TMP102_TEMPERATURE_REG] 2]\<rparr>)"
    using assms(1,2,7) reading_high_byte [of hi lo]
    by (simp add: tmp102_read_temperature_def eclite_i2c_read_word_def i2c_read_def emit_def memcpy_at_def
        tmp102_convert_temperature_def TMP102_READABLE_FORMAT_def TMP102_EM_NORAML_MODE_def)
  ultimately show ?thesis by blast
qed

theorem sensor_registers_round_trip_witness:
  "(\<exists>high low. tmp102_update_threshold sample_bus sample_tmp102 sample_limits \<lparr>io = []\<rparr> = Some (0, \<lparr>io =
        [I2cWrite 1 0x48 [TMP102_T_HIGH_REG] [high, 0], I2cWrite 1 0x48 [TMP102_T_LOW_REG] [low, 0]]\<rparr>) \<and>
      scast high = (85 :: u16) \<and> scast low = (-10 :: u16)) \<and>
   tmp102_read_temperature sample_bus sample_tmp102 \<lparr>io = []\<rparr> =
     Some (0, Some (-56), \<lparr>io = [I2cRead 1 0x48 [TMP102_TEMPERATURE_REG] 2]\<rparr>)"
proof -
  have v: "tmp_i2c_dev sample_tmp102 = Some 1" "ucast (tmp_slave sample_tmp102) = (0x48 :: u16)"
    "critical sample_limits = 85" "low_threshold sample_limits = -10" "sint (85 :: u16) = 85" "sint (-10 :: u16) = -10"
    "scast (200 :: u8) = (-56 :: u16)"
    by code_simp+
  have "i2c_bytes sample_bus [I2cRead 1 0x48 [TMP102_TEMPERATURE_REG] 2] = [200, 200]"
    using sample_bus_simps(5) [of "[]" 1 "0x48" "[TMP102_TEMPERATURE_REG]" 2] by (simp add: numeral_2_eq_2)
  then show ?thesis
    using sensor_registers_round_trip [of sample_tmp102 1 sample_bus sample_limits "\<lparr>io = []\<rparr>" 200 200]
    by (simp add: v)
qed

text \<open>C26. The temperature of the processor, from the request to the controller to the value the thermal framework sees:
  with an answer, the reading is the maximal temperature plus the whole degrees of the answer, modulo 256.
  So readings from 0 to 255 degrees are exact, and a temperature below zero appears as at least 128 degrees.\<close>

theorem cpu_temperature_reading:
  assumes "pmc_ready e" and "\<And>l. pmc_reply e l" and "\<And>l. pmc_read e l = (0, drbl, bs)" and "12 \<le> length bs"
    and "unat data < 256" and "pmc_msg_alert s = 0"
    and t: "t = sint (peci_tj_max s) + sint (get16 bs 5) div 64"
  shows "\<exists>v s'. get_cpu_temperature e PM_RESET_TYPE_S0 False data s = Some (0, v, s') \<and>
     sint v = t mod 256 \<and> (0 \<le> t \<and> t < 256 \<longrightarrow> sint v = t) \<and> (- 128 \<le> t \<and> t < 0 \<longrightarrow> 128 \<le> sint v)"
proof -
  have "0 < CONFIG_PMC_MAX_CLIENT e" using assms(1) by (simp add: pmc_ready_def)
  then obtain s' where "pmc_sync_send_msg e (Some temp_request) s =
      Some (0, Some (temp_request\<lparr>pm_u := memcpy_at (pm_u temp_request) 0 (take 12 bs)\<rparr>), s')"
    and "peci_tj_max s' = peci_tj_max s"
    using pmc_long_request [OF assms(1), of temp_request s] assms(2,3,6) by (simp add: MAX_PECI_MSG_SIZE_def)
  then have "get_cpu_temperature e PM_RESET_TYPE_S0 False data s = Some (0, ucast (word_of_int t :: u8), s')"
    using assms(4,5) t
    by (simp add: get_cpu_temperature_def pmc_command_def peci_get_temp_request answer_bytes peci_celsius_value byte_pair)
  moreover have "t mod 256 = t" if "0 \<le> t" "t < 256" using that by simp
  moreover have "t mod 256 = t + 256" if "- 128 \<le> t" "t < 0"
  proof -
    have "(t + 256) mod 256 = t + 256" using that by (intro mod_pos_pos_trivial) simp_all
    then show ?thesis by simp
  qed
  ultimately show ?thesis using sint_reading [of t] by auto
qed

theorem cpu_temperature_reading_witness:
  "\<exists>v s'. get_cpu_temperature (sample_pmc True) PM_RESET_TYPE_S0 False 0 sample_peci = Some (0, v, s') \<and> sint v = 20"
  using cpu_temperature_reading [of "sample_pmc True" 0 sample_answer 0 sample_peci 20]
  by (simp add: sample_peci_def sample_answer_value)

section \<open>Requests to the power controller\<close>

text \<open>C29. A request to the power controller: one without a message, of an unknown client, or of 20 bytes and more is refused
  without any effect; every request leaves the lock as it was, whatever fails; and a long request of up to 19 bytes of a known
  client is answered when the controller answers, so the limit of 8 bytes that the header of the service documents is not the one
  that is enforced.\<close>

theorem pmc_request_contract:
  "(\<not> (\<exists>m. usr = Some m \<and> unat (pm_client_id m) < CONFIG_PMC_MAX_CLIENT e \<and> unat (pm_msg_size m) < 20)
      \<longrightarrow> pmc_sync_send_msg e usr s = Some (- EINVAL, usr, s)) \<and>
   (\<forall>r m s'. pmc_sync_send_msg e usr s = Some (r, m, s') \<longrightarrow> pmc_msg_mutex s' = pmc_msg_mutex s) \<and>
   (\<forall>m. pmc_ready e \<and> (\<forall>l. pmc_reply e l \<and> fst (pmc_read e l) = 0) \<and> pmc_msg_alert s = 0 \<and>
      unat (pm_client_id m) < CONFIG_PMC_MAX_CLIENT e \<and> 8 < unat (pm_msg_size m) \<and> unat (pm_msg_size m) < 20 \<and>
      pm_format m = FORMAT_LONG \<and> pm_wait_for_ack m \<and> length (pm_u m) = MAX_PECI_MSG_SIZE
      \<longrightarrow> (\<exists>m' s'. pmc_sync_send_msg e (Some m) s = Some (0, Some m', s')))"
proof (intro conjI allI impI)
  show "pmc_sync_send_msg e usr s = Some (- EINVAL, usr, s)"
    if "\<not> (\<exists>m. usr = Some m \<and> unat (pm_client_id m) < CONFIG_PMC_MAX_CLIENT e \<and> unat (pm_msg_size m) < 20)"
    using that by (auto simp: pmc_sync_send_msg_def MAX_PECI_MSG_SIZE_def not_less split: option.split)
  show "pmc_msg_mutex s' = pmc_msg_mutex s" if "pmc_sync_send_msg e usr s = Some (r, m, s')" for r m s'
    using that by (auto simp: pmc_sync_send_msg_def Let_def bind_eq_Some_conv split: option.splits if_splits dest: pmc_round_mutex)
  show "\<exists>m' s'. pmc_sync_send_msg e (Some m) s = Some (0, Some m', s')"
    if "pmc_ready e \<and> (\<forall>l. pmc_reply e l \<and> fst (pmc_read e l) = 0) \<and> pmc_msg_alert s = 0 \<and>
      unat (pm_client_id m) < CONFIG_PMC_MAX_CLIENT e \<and> 8 < unat (pm_msg_size m) \<and> unat (pm_msg_size m) < 20 \<and>
      pm_format m = FORMAT_LONG \<and> pm_wait_for_ack m \<and> length (pm_u m) = MAX_PECI_MSG_SIZE" for m
    using that pmc_long_request [of e m s, OF _ _ _ _ _ _ _ refl] by (simp add: MAX_PECI_MSG_SIZE_def)
qed

text \<open>A request of 20 bytes, and the temperature request of 12 bytes.\<close>

theorem pmc_request_contract_witness:
  "pmc_sync_send_msg (sample_pmc True) (Some (temp_request\<lparr>pm_msg_size := 20\<rparr>)) sample_peci =
     Some (- EINVAL, Some (temp_request\<lparr>pm_msg_size := 20\<rparr>), sample_peci) \<and>
   (\<exists>m s'. pmc_sync_send_msg (sample_pmc True) (Some temp_request) sample_peci = Some (0, Some m, s') \<and>
      unat (pm_msg_size temp_request) = 12 \<and> pmc_msg_mutex s' = 0)"
proof -
  have c: "unat (pm_client_id temp_request) < CONFIG_PMC_MAX_CLIENT (sample_pmc True)" "pmc_msg_alert sample_peci = 0"
    "pmc_msg_mutex sample_peci = 0" "length (pm_u temp_request) = MAX_PECI_MSG_SIZE"
    by (simp_all add: sample_pmc_def sample_peci_def MAX_PECI_MSG_SIZE_def)
  note refused = pmc_request_contract [of "Some (temp_request\<lparr>pm_msg_size := 20\<rparr>)" "sample_pmc True" sample_peci]
    and taken = pmc_request_contract [of "Some temp_request" "sample_pmc True" sample_peci]
  obtain m s' where "pmc_sync_send_msg (sample_pmc True) (Some temp_request) sample_peci = Some (0, Some m, s')"
    using taken [THEN conjunct2, THEN conjunct2, THEN spec, of temp_request] c by auto
  then show ?thesis using refused taken c by simp
qed

text \<open>C30. A late answer: when a request has timed out and its answer arrives afterwards, the next request takes that answer
  for its own without waiting, even if the controller never answers it.\<close>

theorem late_answer_taken:
  assumes "pmc_ready e" and "ipc_alert s = 0" and "pmc_msg_alert s = 0" and "\<And>l. \<not> pmc_reply e l"
    and "\<And>l. pmc_read e l = (0, drbl, bs)" and "12 \<le> length bs"
  shows "\<exists>r1 s1 s2. peci_get_temp e s = Some (r1, None, s1) \<and> r1 \<noteq> 0 \<and>
     peci_get_temp e (Pmc_Service.ipc_rx_handler e s1) = Some (0, Some (peci_celsius (peci_tj_max s) (get16 bs 5)), s2)"
proof -
  have c: "0 < CONFIG_PMC_MAX_CLIENT e" using assms(1) by (simp add: pmc_ready_def)
  obtain r1 s1 where first: "pmc_sync_send_msg e (Some temp_request) s = Some (r1, Some temp_request, s1)"
    and "r1 \<noteq> 0" and s1: "ipc_alert s1 = 0" "pmc_msg_alert s1 = 0" "peci_tj_max s1 = peci_tj_max s"
    using pmc_long_timeout [OF assms(1), of temp_request s] assms(2-4) c by (auto simp: MAX_PECI_MSG_SIZE_def)
  let ?t = "Pmc_Service.ipc_rx_handler e s1"
  have t: "ipc_alert ?t = 1" "pmc_msg_alert ?t = 0" "peci_tj_max ?t = peci_tj_max s"
    using s1 assms(1) by (simp_all add: Pmc_Service.ipc_rx_handler_def pmc_ready_def zephyr_semD)
  obtain s2 where second: "pmc_sync_send_msg e (Some temp_request) ?t =
      Some (0, Some (temp_request\<lparr>pm_u := memcpy_at (pm_u temp_request) 0 (take 12 bs)\<rparr>), s2)"
    and "peci_tj_max s2 = peci_tj_max s"
    using pmc_long_request [OF assms(1), of temp_request ?t] assms(5) c t by (simp add: MAX_PECI_MSG_SIZE_def)
  then have "peci_get_temp e ?t = Some (0, Some (peci_celsius (peci_tj_max s) (get16 bs 5)), s2)"
    using assms(6) by (simp add: peci_get_temp_request answer_bytes)
  moreover have "peci_get_temp e s = Some (r1, None, s1)"
    using first \<open>r1 \<noteq> 0\<close> by (simp add: peci_get_temp_request)
  ultimately show ?thesis using \<open>r1 \<noteq> 0\<close> by blast
qed

theorem late_answer_taken_witness:
  "\<exists>r1 s1 s2. peci_get_temp (sample_pmc False) sample_peci = Some (r1, None, s1) \<and> r1 \<noteq> 0 \<and>
     peci_get_temp (sample_pmc False) (Pmc_Service.ipc_rx_handler (sample_pmc False) s1) =
       Some (0, Some (peci_celsius 100 (get16 sample_answer 5)), s2)"
  using late_answer_taken [of "sample_pmc False" sample_peci 0 sample_answer]
  by (simp add: sample_peci_def) (simp add: sample_answer_def)

section \<open>Battery and charger\<close>

text \<open>C31. The automatic trip points of the fuel gauge, when all bus transfers succeed: both capacities are read, and the discharge
  and charge trip points written lie \<open>\<delta>\<close> below and above the remaining capacity where that fits 16 bits.  \<open>\<delta>\<close> is one percent
  of the full capacity modulo 256: exactly one percent below a full capacity of 25600, less than one percent from there on,
  because the percentage is kept in a byte.  With less than \<open>\<delta>\<close> left the discharge trip point wraps around and lies above the
  remaining capacity.\<close>

theorem trip_points_bracket:
  fixes s :: "'a kstate_scheme"
  assumes "bq_i2c_dev b = Some c" and "\<And>l. i2c_ret e l = 0"
    and "rf = I2cRead c (bq_slave b) [BQ40Z40_FULL_CHARGE_CAPACITY_REG] 2" and "i2c_bytes e (io s @ [rf]) = le16 full"
    and "rr = I2cRead c (bq_slave b) [BQ40Z40_REMAINING_BATTERY_REG] 2" and "i2c_bytes e (io s @ [rf, rr]) = le16 rest"
  shows "\<exists>dis chg \<delta>. bq40z40_set_battery_trip_point e b 0 s = Some (0, s\<lparr>io := io s @ [rf, rr,
            I2cWrite c (bq_slave b) [BQ40Z40_BTP_DISCHARGE] (le16 dis), I2cWrite c (bq_slave b) [BQ40Z40_BTP_CHARGE] (le16 chg)]\<rparr>) \<and>
     \<delta> = unat full div 100 mod 256 \<and> (unat full < 25600 \<longrightarrow> \<delta> = unat full div 100) \<and> (25600 \<le> unat full \<longrightarrow> \<delta> < unat full div 100) \<and>
     (\<delta> \<le> unat rest \<longrightarrow> unat dis = unat rest - \<delta>) \<and> (unat rest + \<delta> < 65536 \<longrightarrow> unat chg = unat rest + \<delta>) \<and>
     (unat rest < \<delta> \<longrightarrow> unat rest < unat dis)"
proof -
  let ?w = "ucast (btp_delta full) :: u16" and ?d = "unat full div 100 mod 256"
  have "bq40z40_set_battery_trip_point e b 0 s = Some (0, s\<lparr>io := io s @ [rf, rr,
        I2cWrite c (bq_slave b) [BQ40Z40_BTP_DISCHARGE] (le16 (rest - ?w)),
        I2cWrite c (bq_slave b) [BQ40Z40_BTP_CHARGE] (le16 (rest + ?w))]\<rparr>)"
    using assms(1-6) by (simp add: bq40z40_set_battery_trip_point_def i2c_ops i2c_read_def i2c_write_def emit_def SUCCESS_def
        memcpy_at_def get16_le16_nil)
  moreover have "unat full < 25600 \<longrightarrow> ?d = unat full div 100" by (simp add: less_mult_imp_div_less)
  moreover have "25600 \<le> unat full \<longrightarrow> ?d < unat full div 100"
    using div_le_mono [of 25600 "unat full" 100] by (auto intro: less_le_trans [OF mod_less_divisor])
  moreover note btp_delta_value [of full] trip_point_wrap [where w = rest and x = ?w]
  ultimately show ?thesis by (intro exI [of _ "rest - ?w"] exI [of _ "rest + ?w"] exI [of _ ?d]) simp
qed

text \<open>A gauge of 5000 with 20 left, and one of 30000 whose percentage of 300 is cut to 44.\<close>

theorem trip_points_bracket_witness:
  "(\<exists>dis chg. bq40z40_set_battery_trip_point (sample_gauge_bus 5000) sample_gauge 0 \<lparr>io = []\<rparr> = Some (0, \<lparr>io =
       [I2cRead 1 0xB [BQ40Z40_FULL_CHARGE_CAPACITY_REG] 2, I2cRead 1 0xB [BQ40Z40_REMAINING_BATTERY_REG] 2,
        I2cWrite 1 0xB [BQ40Z40_BTP_DISCHARGE] (le16 dis), I2cWrite 1 0xB [BQ40Z40_BTP_CHARGE] (le16 chg)]\<rparr>) \<and>
     unat chg = 70 \<and> 20 < unat dis) \<and>
   (\<exists>dis chg. bq40z40_set_battery_trip_point (sample_gauge_bus 30000) sample_gauge 0 \<lparr>io = []\<rparr> = Some (0, \<lparr>io =
       [I2cRead 1 0xB [BQ40Z40_FULL_CHARGE_CAPACITY_REG] 2, I2cRead 1 0xB [BQ40Z40_REMAINING_BATTERY_REG] 2,
        I2cWrite 1 0xB [BQ40Z40_BTP_DISCHARGE] (le16 dis), I2cWrite 1 0xB [BQ40Z40_BTP_CHARGE] (le16 chg)]\<rparr>) \<and>
     unat chg = 64 \<and> 20 < unat dis)"
proof -
  note law = trip_points_bracket [of sample_gauge 1 "sample_gauge_bus f" _ "\<lparr>io = []\<rparr>" f _ 20 for f, OF _ _ refl _ refl]
  show ?thesis using law [of 5000] law [of 30000] by (simp add: sample_gauge_def sample_gauge_bus_def)
qed

text \<open>Switching charging: disabling clears the control pin; enabling reads that pin, and if it is clear sets the pin of the same
  number on the controller of the adapter pin instead.  So whenever the two controllers differ, enabling never sets the
  control pin.\<close>

theorem charging_not_resumed:
  fixes s :: "'a kstate_scheme"
  assumes "gpio_cntlr c = Some k" and "chg_gpio_dev c = Some g" and "g \<noteq> k"
  shows "bq24610_dis_charging e CE c s = Some (gpio_ret e (io s @ [GpioPinSet k CE DISABLE_CHARGING]),
       s\<lparr>io := io s @ [GpioPinSet k CE DISABLE_CHARGING]\<rparr>) \<and>
     (\<exists>r es. bq24610_en_charging e CE c s = Some (r, s\<lparr>io := io s @ es\<rparr>) \<and> GpioPinSet k CE ENABLE_CHARGING \<notin> set es)"
  using assms
  by (simp add: bq24610_dis_charging_def bq24610_en_charging_def eclite_get_gpio_def eclite_set_gpio_def gpio_call_def emit_def)
    (rule conjI; rule impI; rule exI, force)

theorem charging_not_resumed_witness:
  "\<exists>r es. bq24610_en_charging sample_bus 11 sample_charger \<lparr>io = []\<rparr> = Some (r, \<lparr>io = es\<rparr>) \<and>
     GpioPinSet 2 11 ENABLE_CHARGING \<notin> set es"
  using charging_not_resumed [of sample_charger 2 1 sample_bus 11 "\<lparr>io = []\<rparr>"] by (simp add: sample_charger_def)

text \<open>Setting up the fuel gauge always comes to an end: with a bus it returns after at most 20 waits of 20 ms for the gauge, whatever
  the gauge answers.\<close>

theorem gauge_setup_ends:
  fixes s :: "'a kstate_scheme"
  assumes "eclite_get_i2c_device e name = Some c"
  shows "\<exists>r b' es. bq40z40_init e name garbage b s = Some (r, b', s\<lparr>io := io s @ es\<rparr>) \<and>
     length (filter (\<lambda>ev. ev = KSleep BTP_INIT_WAIT) es) \<le> 20"
proof -
  obtain r b' s' where "bq40z40_init e name garbage b s = Some (r, b', s')" and "runs 20 s s'"
    using bq40z40_init_runs [OF assms] by blast
  then show ?thesis by (auto simp: runs_def)
qed

theorem gauge_setup_ends_witness:
  "\<exists>r b' es. bq40z40_init sample_bus ''I2C_2'' 0 sample_gauge \<lparr>io = []\<rparr> = Some (r, b', \<lparr>io = es\<rparr>) \<and>
     length (filter (\<lambda>ev. ev = KSleep BTP_INIT_WAIT) es) \<le> 20"
  using gauge_setup_ends [of sample_bus "''I2C_2''" 1 0 sample_gauge "\<lparr>io = []\<rparr>"]
  by (simp add: eclite_get_i2c_device_def sample_bus_def)

section \<open>USB-C\<close>

text \<open>Waiting for an interrupt of the USB-C controller: the loop ends in its first round for every level of the pin, without
  a pause, because it compares the result code of the pin access, which is always 0, with the level.\<close>

theorem usbc_wait_is_single_poll:
  fixes s :: "'a ccg_state_scheme"
  assumes "ccg_gpio_dev s = Some g" and "ccg_i2c_dev s = Some c"
    and "l = io s @ [GpioPinGet g (UCSI_GPIO e), I2cRead c (UCSI_I2C_SLAVE_ADDRESS e) (le16 CCG_HPI_INTERRUPT_REG) 1]"
  shows "\<exists>v. ccg_block_for_int e s = Some (v, s\<lparr>io := l\<rparr>)"
  using assms
  by (simp add: ccg_block_for_int_def ccg_block_loop.simps COUNTER_TIME_def eclite_get_gpio_def SUCCESS_def emit_def ccg_rd_simp Let_def)

theorem usbc_wait_is_single_poll_witness:
  "\<exists>v. ccg_block_for_int sample_ccg_env sample_ccg = Some (v, sample_ccg\<lparr>io :=
     [GpioPinGet 3 5, I2cRead 1 8 (le16 CCG_HPI_INTERRUPT_REG) 1]\<rparr>)"
  using usbc_wait_is_single_poll [of sample_ccg 3 1 _ sample_ccg_env, OF _ _ refl]
  by (simp add: sample_ccg_def sample_ccg_env_def)

section \<open>Pins and sleep states\<close>

text \<open>Configuring the pins of the platform: when the controllers accept the configuration, every pin of a device that occurs in the
  list of the platform has its interrupt enabled, and nothing but the log changes.\<close>

theorem pins_configured:
  fixes s :: "'a plat_state_scheme"
  assumes "\<And>l. gpio_ret (pl_bus e) l = 0" and "dev_list s = Some ds"
  shows "\<exists>es. eclite_service_gpio_config e s = Some (0, s\<lparr>io := io s @ es\<rparr>) \<and>
     (\<forall>i < length ds. \<forall>d. hw_gpio s i = Some d \<and> gpio_no (gpio_config (dev_at s i)) \<in> set (plt_gpio_list e) \<longrightarrow>
        (\<exists>flags. GpioPinInterrupt d (gpio_no (gpio_config (dev_at s i))) flags \<in> set es))"
  using gpio_config_pins_enables [OF assms(1), of "plt_gpio_list e" "length ds" s] assms(2)
  by (auto simp: eclite_service_gpio_config_def pins_enabled_def)

theorem pins_configured_witness:
  "\<exists>es flags. eclite_service_gpio_config sample_plat_env (sample_plat (sample_devices 40)) =
     Some (0, (sample_plat (sample_devices 40))\<lparr>io := es\<rparr>) \<and> GpioPinInterrupt 1 7 flags \<in> set es"
proof -
  have "7 \<in> set (plt_gpio_list sample_plat_env)" "gpio_ret (pl_bus sample_plat_env) l = 0" for l
    by (simp_all add: plt_gpio_list_def sample_plat_env_def sample_ccg_env_def)
  moreover have "gpio_no (gpio_config (dev_at (sample_plat (sample_devices 40)) 0)) = 7" "0 < length (sample_devices 40)"
    by (simp_all add: dev_at_def sample_devices_def sample_sensor_def sample_pins_def)
  ultimately show ?thesis
    using pins_configured [of sample_plat_env "sample_plat (sample_devices 40)" "sample_devices 40"] by fastforce
qed

text \<open>An event of a pin that only sensors use: for every sensor on the pin one thermal event is queued, in the order of the queue, as
  long as there is room.  The four sensors of the platform share one pin, so one edge costs four rounds.\<close>

theorem pin_event_per_sensor:
  fixes s :: "'a ec_state_scheme"
  assumes "zephyr_msgq e" and "list_all (\<lambda>d. pin_device pin d \<longrightarrow> device_typ d = DEV_THERMAL) ds"
    and "length (dispatcher_queue s) + length (filter (pin_device pin) ds) \<le> ECLITE_QUEUE_DEPTH"
  shows "dispatcher_queue (gpio_event_processing e 0 ds pin ev s) =
     dispatcher_queue s @ replicate (length (filter (pin_device pin) ds)) \<lparr>event_type = THERMAL_EVENT, event_data = 0\<rparr>"
  by (rule gpio_event_queue [OF assms])

theorem pin_event_per_sensor_witness:
  "dispatcher_queue (gpio_event_processing sample_ec_env 0 (take 4 (sample_devices 40)) 7 THERMAL_EVENT (sample_ec [])) =
     replicate 4 \<lparr>event_type = THERMAL_EVENT, event_data = 0\<rparr>"
  using pin_event_per_sensor [of sample_ec_env 7 "take 4 (sample_devices 40)" "sample_ec []" THERMAL_EVENT]
  by (simp add: sample_devices_def sample_sensor_def sample_pins_def pin_device_def ECLITE_QUEUE_DEPTH_def numeral_eq_Suc)

text \<open>C28. The fan across a low power state of the host, Sx or S0ix, on a platform with a connection to the host, the thermal
  function enabled and room in the dispatcher queue: on entry its duty becomes 0 and is remembered, and on exit, from any state
  that still remembers it, it is the duty from before; both times the update of the fan is queued for the dispatcher, and
  S0ix stops and restarts the polling timer.  A second entry without an exit overwrites the remembered duty, and the duty stays 0
  after the exit.\<close>

theorem fan_duty_restored:
  fixes s t :: "'a plat_state_scheme"
  assumes "zephyr_msgq (pl_ec e)" and "\<And>l. gpio_ret (pl_bus e) l = 0"
    and "fan_managed s" and "queue_room s"
    and "fan_managed t" and "queue_room t" and "eclite_fan_speed t = ucast (fan_duty s)"
  shows "ok (low_power e sx True s) (\<lambda>s1. fan_managed s1 \<and> fan_duty s1 = 0 \<and> eclite_fan_speed s1 = ucast (fan_duty s) \<and>
      dispatcher_queue s1 = dispatcher_queue s @ [fan_update] \<and>
      (\<not> sx \<longrightarrow> eclite_s0ix_state s1 \<and> io s1 = io s @ [TimerStop])) \<and>
    ok (low_power e sx False t) (\<lambda>s2. fan_duty s2 = fan_duty s \<and> dispatcher_queue s2 = dispatcher_queue t @ [fan_update] \<and>
      (\<not> sx \<longrightarrow> \<not> eclite_s0ix_state s2 \<and> io s2 = io t @ [TimerStart])) \<and>
    ok (low_power e sx True s \<bind> low_power e sx True \<bind> low_power e sx False) (\<lambda>s3. fan_duty s3 = 0)"
proof (intro conjI)
  note entry = low_power_entry [OF assms(1), of _ sx] and exit = low_power_exit [OF assms(1,2), of _ sx]
  show "ok (low_power e sx True s) (\<lambda>s1. fan_managed s1 \<and> fan_duty s1 = 0 \<and> eclite_fan_speed s1 = ucast (fan_duty s) \<and>
      dispatcher_queue s1 = dispatcher_queue s @ [fan_update] \<and>
      (\<not> sx \<longrightarrow> eclite_s0ix_state s1 \<and> io s1 = io s @ [TimerStop]))"
    using entry [OF assms(3)] assms(4) by (auto elim!: okE)
  show "ok (low_power e sx False t) (\<lambda>s2. fan_duty s2 = fan_duty s \<and> dispatcher_queue s2 = dispatcher_queue t @ [fan_update] \<and>
      (\<not> sx \<longrightarrow> \<not> eclite_s0ix_state s2 \<and> io s2 = io t @ [TimerStart]))"
    using exit [OF assms(5)] assms(6,7) by (auto elim!: okE)
  obtain s1 where s1: "low_power e sx True s = Some s1" "fan_managed s1" "fan_duty s1 = 0"
    using entry [OF assms(3)] by (auto elim!: okE)
  obtain s2 where s2: "low_power e sx True s1 = Some s2" "fan_managed s2" "eclite_fan_speed s2 = 0"
    using entry [OF s1(2)] s1(3) by (auto elim!: okE)
  show "ok (low_power e sx True s \<bind> low_power e sx True \<bind> low_power e sx False) (\<lambda>s3. fan_duty s3 = 0)"
    using exit [OF s2(2)] s1(1) s2(1,3) by (auto elim!: okE)
qed

text \<open>A fan at 40 percent, across either state.\<close>

theorem fan_duty_restored_witness:
  "\<forall>sx. \<exists>s1 s2. low_power sample_plat_env sx True sample_fan_plat = Some s1 \<and> fan_duty s1 = 0 \<and>
     dispatcher_queue s1 = [fan_update] \<and>
     low_power sample_plat_env sx False s1 = Some s2 \<and> fan_duty s2 = 40 \<and> dispatcher_queue s2 = [fan_update, fan_update]"
proof
  fix sx
  note law = fan_duty_restored [of sample_plat_env sample_fan_plat _ sx, OF _ _ sample_fan_managed]
  obtain s1 where s1: "low_power sample_plat_env sx True sample_fan_plat = Some s1" "fan_managed s1" "fan_duty s1 = 0"
    "eclite_fan_speed s1 = 40" "dispatcher_queue s1 = [fan_update]"
    using law [of "sample_fan_plat\<lparr>eclite_fan_speed := 40\<rparr>"] sample_fan_managed
    by (auto simp: fan_managed_def queue_room_def sample_plat_laws ECLITE_QUEUE_DEPTH_def elim!: okE)
  moreover obtain s2 where "low_power sample_plat_env sx False s1 = Some s2" "fan_duty s2 = 40"
    "dispatcher_queue s2 = [fan_update, fan_update]"
    using law [of s1] s1 by (auto simp: queue_room_def sample_plat_laws ECLITE_QUEUE_DEPTH_def elim!: okE)
  ultimately show "\<exists>s1 s2. low_power sample_plat_env sx True sample_fan_plat = Some s1 \<and> fan_duty s1 = 0 \<and>
     dispatcher_queue s1 = [fan_update] \<and>
     low_power sample_plat_env sx False s1 = Some s2 \<and> fan_duty s2 = 40 \<and> dispatcher_queue s2 = [fan_update, fan_update]"
    by blast
qed

end
