(* ===== verification/Oob_Context.thy ===== *)
theory Oob_Context
  imports Heci_Delivery
begin

text \<open>
  The security context of the out-of-band service
  (\<^verbatim>\<open>sec_bios_ipc/pse_oob_sec_internal.c\<close>): credentials and keys in one structure whose
  first part is protected by a SHA-384 hash.  The structure is a block of bytes, so a copy
  that is too long for its member runs into the following ones, and \<open>None\<close> stands for an
  access behind the structure.
\<close>

section \<open>Layout\<close>

definition SEC_ROOT_CA_LEN :: nat where "SEC_ROOT_CA_LEN = 2048"
definition SEC_OWN_PUB_KEY_LEN :: nat where "SEC_OWN_PUB_KEY_LEN = 384"
definition SEC_PSE_SALT_LEN :: nat where "SEC_PSE_SALT_LEN = 32"
definition SEC_DEV_ID_LEN :: nat where "SEC_DEV_ID_LEN = 128"
definition SEC_TOK_ID_LEN :: nat where "SEC_TOK_ID_LEN = 192"
definition SEC_MQTT_CLIENT_ID_LEN :: nat where "SEC_MQTT_CLIENT_ID_LEN = 64"
definition SEC_CLOUD_HASH_LEN :: nat where "SEC_CLOUD_HASH_LEN = 48"
definition SEC_CLD_LEN :: nat where "SEC_CLD_LEN = 32"
definition SEC_URL_LEN :: nat where "SEC_URL_LEN = 1024"
definition SEC_HASH_LEN :: nat where "SEC_HASH_LEN = 48"
definition SEC_FUSE_LEN :: nat where "SEC_FUSE_LEN = 32"
definition SEC_CSE_SEED_LEN :: nat where "SEC_CSE_SEED_LEN = 32"
definition SEC_ENC_IV_SIZE :: nat where "SEC_ENC_IV_SIZE = 12"
definition SEC_ENC_TAG_SIZE :: nat where "SEC_ENC_TAG_SIZE = 16"

lemmas sec_len_defs = SEC_ROOT_CA_LEN_def SEC_OWN_PUB_KEY_LEN_def SEC_PSE_SALT_LEN_def SEC_DEV_ID_LEN_def
  SEC_TOK_ID_LEN_def SEC_MQTT_CLIENT_ID_LEN_def SEC_CLOUD_HASH_LEN_def SEC_CLD_LEN_def SEC_URL_LEN_def
  SEC_HASH_LEN_def SEC_FUSE_LEN_def SEC_CSE_SEED_LEN_def SEC_ENC_IV_SIZE_def SEC_ENC_TAG_SIZE_def

definition SEC_SUCCESS :: u32 where "SEC_SUCCESS = 0"
definition SEC_FAILED :: u32 where "SEC_FAILED = 1"
definition SEC_FAILED_INVALID_PARAM :: u32 where "SEC_FAILED_INVALID_PARAM = 2"
definition SEC_FAILED_INVALID_PARAM_LEN :: u32 where "SEC_FAILED_INVALID_PARAM_LEN = 3"
definition SEC_FAILED_OOB_HASH_MISMATCH :: u32 where "SEC_FAILED_OOB_HASH_MISMATCH = 0x10000002"
definition SEC_FAILED_OOB_TIMEOUT :: u32 where "SEC_FAILED_OOB_TIMEOUT = 0x10000003"

lemmas sec_result_defs = SEC_SUCCESS_def SEC_FAILED_def SEC_FAILED_INVALID_PARAM_def
  SEC_FAILED_INVALID_PARAM_LEN_def SEC_FAILED_OOB_HASH_MISMATCH_def SEC_FAILED_OOB_TIMEOUT_def

text \<open>All members are multiples of four bytes long, so there is no padding.\<close>

definition sec_context_layout :: "(string \<times> nat) list" where
  "sec_context_layout =
     [(''a_root_ca'', 2048), (''root_ca_len'', 4), (''a_own_pub_key'', 384), (''own_pub_key_len'', 4),
      (''a_hkdf_32b_pse_salt'', 32), (''hkdf_32b_pse_salt_len'', 4), (''a_dev_id'', 128), (''dev_id_len'', 4),
      (''a_tok_id'', 192), (''tok_id_len'', 4), (''a_cld_adapter'', 32), (''cld_adapter_len'', 4),
      (''a_cld_host_url'', 1024), (''cld_host_url_len'', 4), (''cld_host_port'', 4), (''a_pxy_host_url'', 1024),
      (''pxy_host_url_len'', 4), (''a_mqtt_client_id'', 64), (''a_mqtt_client_id_len'', 4),
      (''a_cloud_hash'', 48), (''a_cloud_hash_dec'', 48), (''a_cloud_hash_len'', 4), (''pxy_host_port'', 4),
      (''prov_state'', 4), (''reprov_pend'', 4)]"

definition sec_wrapper_layout :: "(string \<times> nat) list" where
  "sec_wrapper_layout = sec_context_layout @
     [(''a_hash'', 48), (''tran_id'', 4), (''nonce'', 4), (''nonce_time_s'', 4),
      (''a_enc_tok_id'', 192), (''a_enc_tok_id_iv'', 12), (''a_enc_tok_id_tag'', 16),
      (''a_enc_dev_id'', 128), (''a_enc_dev_id_iv'', 12), (''a_enc_dev_id_tag'', 16),
      (''a_enc_mqtt_client_id'', 64), (''a_enc_mqtt_client_id_iv'', 12), (''a_enc_mqtt_client_id_tag'', 16),
      (''a_enc_cloud_hash_id'', 48), (''a_enc_cloud_hash_id_iv'', 12), (''a_enc_cloud_hash_id_tag'', 16),
      (''a_dev_id_enc_key'', 32), (''a_tok_id_enc_key'', 32), (''a_mqtt_client_id_enc_key'', 32),
      (''a_cloud_hash_enc_key'', 32), (''a_pse_32b_fuse'', 32), (''a_pse_32b_fuse_len'', 4)]"

definition sec_off :: "string \<Rightarrow> nat" where
  "sec_off f = offset_in f 0 sec_wrapper_layout"

definition SIZEOF_SEC_CONTEXT :: nat where "SIZEOF_SEC_CONTEXT = 5080"
definition SIZEOF_SEC_WRAPPER :: nat where "SIZEOF_SEC_WRAPPER = 5848"

lemma sec_offsets [simp]:
  "sec_off ''a_root_ca'' = 0" "sec_off ''root_ca_len'' = 2048" "sec_off ''a_own_pub_key'' = 2052"
  "sec_off ''own_pub_key_len'' = 2436" "sec_off ''a_hkdf_32b_pse_salt'' = 2440"
  "sec_off ''hkdf_32b_pse_salt_len'' = 2472" "sec_off ''a_dev_id'' = 2476" "sec_off ''dev_id_len'' = 2604"
  "sec_off ''a_tok_id'' = 2608" "sec_off ''tok_id_len'' = 2800" "sec_off ''a_cld_adapter'' = 2804"
  "sec_off ''cld_adapter_len'' = 2836" "sec_off ''a_cld_host_url'' = 2840" "sec_off ''cld_host_url_len'' = 3864"
  "sec_off ''cld_host_port'' = 3868" "sec_off ''a_pxy_host_url'' = 3872" "sec_off ''pxy_host_url_len'' = 4896"
  "sec_off ''a_mqtt_client_id'' = 4900" "sec_off ''a_mqtt_client_id_len'' = 4964"
  "sec_off ''a_cloud_hash'' = 4968" "sec_off ''a_cloud_hash_dec'' = 5016" "sec_off ''a_cloud_hash_len'' = 5064"
  "sec_off ''pxy_host_port'' = 5068" "sec_off ''prov_state'' = 5072" "sec_off ''reprov_pend'' = 5076"
  "sec_off ''a_hash'' = 5080" "sec_off ''tran_id'' = 5128" "sec_off ''nonce'' = 5132"
  "sec_off ''nonce_time_s'' = 5136" "sec_off ''a_enc_tok_id'' = 5140" "sec_off ''a_enc_tok_id_iv'' = 5332"
  "sec_off ''a_enc_tok_id_tag'' = 5344" "sec_off ''a_enc_dev_id'' = 5360" "sec_off ''a_enc_dev_id_iv'' = 5488"
  "sec_off ''a_enc_dev_id_tag'' = 5500" "sec_off ''a_enc_mqtt_client_id'' = 5516"
  "sec_off ''a_enc_mqtt_client_id_iv'' = 5580" "sec_off ''a_enc_mqtt_client_id_tag'' = 5592"
  "sec_off ''a_enc_cloud_hash_id'' = 5608" "sec_off ''a_enc_cloud_hash_id_iv'' = 5656"
  "sec_off ''a_enc_cloud_hash_id_tag'' = 5668" "sec_off ''a_dev_id_enc_key'' = 5684"
  "sec_off ''a_tok_id_enc_key'' = 5716" "sec_off ''a_mqtt_client_id_enc_key'' = 5748"
  "sec_off ''a_cloud_hash_enc_key'' = 5780" "sec_off ''a_pse_32b_fuse'' = 5812"
  "sec_off ''a_pse_32b_fuse_len'' = 5844"
  by (simp_all add: sec_off_def sec_wrapper_layout_def sec_context_layout_def)

lemma sec_sizes: "SIZEOF_SEC_CONTEXT = sec_off ''a_hash''" "SIZEOF_SEC_WRAPPER = sum_list (map snd sec_wrapper_layout)"
  by (simp_all add: SIZEOF_SEC_CONTEXT_def SIZEOF_SEC_WRAPPER_def sec_wrapper_layout_def sec_context_layout_def)

section \<open>State and environment\<close>

text \<open>The last group belongs to the HECI client of the service (\<^verbatim>\<open>pse_oob_sec_heci_client.c\<close>).\<close>

record sec_state = heci_state +
  sec_mem :: "u8 list"                  \<comment> \<open>\<^verbatim>\<open>sec_ctx\<close>\<close>
  sec_ctx_mutex :: nat                  \<comment> \<open>lock count\<close>
  sec_int_start_init_flag :: u32
  drng_prev :: u32
  is_1st_drng_rd :: bool
  is_not_1st_hw_poll :: bool
  entropy_state :: bool
  sec_hc_event :: u32
  sec_hc_event_sem :: nat
  sec_hc_oob_sem :: nat
  sec_hc_conn_id :: u32
  sec_hc_prev_command_id :: u32
  sec_hc_abort_set :: bool
  sec_hc_seed_updated :: bool
  a_cse_seed :: "u8 list option list"
  a_cse_seed_no :: nat
  sec_hc_tx_buffer :: "u8 list"
  buf_compose :: nat                    \<comment> \<open>offset in the transmit buffer\<close>
  buf_compose_next :: "nat option"
  accum_compose_len :: u32

text \<open>What the kernel, the sideband and the cryptographic library do.\<close>

record sec_env =
  sec_kern :: kenv
  sha384 :: "u8 list \<Rightarrow> u8 list"
  uptime :: "io_log \<Rightarrow> u32"            \<comment> \<open>\<^verbatim>\<open>k_uptime_get\<close> as \<^verbatim>\<open>unsigned long\<close>\<close>
  sideband_send_ret :: "io_log \<Rightarrow> int"
  sideband_ack :: "io_log \<Rightarrow> int \<times> u32" \<comment> \<open>return code and value\<close>
  drbg_ret :: "io_log \<Rightarrow> int"
  drbg_bytes :: "io_log \<Rightarrow> nat \<Rightarrow> u8 list"
  hkdf :: "u8 list \<Rightarrow> u8 list \<Rightarrow> string \<Rightarrow> int \<times> u8 list"   \<comment> \<open>salt, key material, info\<close>
  gcm_setkey :: "u8 list \<Rightarrow> int"
  gcm_encrypt :: "u8 list \<Rightarrow> u8 list \<Rightarrow> u8 list \<Rightarrow> int \<times> u8 list \<times> u8 list" \<comment> \<open>key, iv, text; code, cipher, tag\<close>
  gcm_decrypt :: "u8 list \<Rightarrow> u8 list \<Rightarrow> u8 list \<Rightarrow> u8 list \<Rightarrow> int \<times> u8 list" \<comment> \<open>key, iv, tag, cipher\<close>
  heap_alloc_ok :: "io_log \<Rightarrow> nat \<Rightarrow> bool"
  malloc_ok :: "io_log \<Rightarrow> bool"
  stack_garbage :: "io_log \<Rightarrow> u32"     \<comment> \<open>the value of an uninitialised local variable\<close>
  init_flag_raised :: "io_log \<Rightarrow> bool"  \<comment> \<open>the HECI client thread has set \<^verbatim>\<open>sec_int_start_init_flag\<close> meanwhile\<close>

definition sha_len :: "sec_env \<Rightarrow> bool" where
  "sha_len e \<longleftrightarrow> (\<forall>bs. length (sha384 e bs) = SEC_HASH_LEN)"

section \<open>Access to the structure\<close>

definition sec_read :: "string \<Rightarrow> nat \<Rightarrow> 'a sec_state_scheme \<Rightarrow> u8 list" where
  "sec_read f n s = take n (drop (sec_off f) (sec_mem s))"

definition sec_int :: "string \<Rightarrow> 'a sec_state_scheme \<Rightarrow> u32" where
  "sec_int f s = get32 (sec_mem s) (sec_off f)"

text \<open>\<^verbatim>\<open>memmove\<close> into the structure from a member on.\<close>

definition sec_write :: "string \<Rightarrow> u8 list \<Rightarrow> 'a sec_state_scheme \<Rightarrow> 'a sec_state_scheme option" where
  "sec_write f bs s =
     (if sec_off f + length bs \<le> length (sec_mem s)
      then Some (s\<lparr>sec_mem := memcpy_at (sec_mem s) (sec_off f) bs\<rparr>) else None)"

definition sec_strlen :: "string \<Rightarrow> 'a sec_state_scheme \<Rightarrow> nat option" where
  "sec_strlen f s = find_idx (\<lambda>b. b = 0) (drop (sec_off f) (sec_mem s))"

definition sec_int_lock_ctx_mutex :: "'a sec_state_scheme \<Rightarrow> 'a sec_state_scheme" where
  "sec_int_lock_ctx_mutex s = s\<lparr>sec_ctx_mutex := sec_ctx_mutex s + 1\<rparr>"

definition sec_int_unlock_ctx_mutex :: "'a sec_state_scheme \<Rightarrow> 'a sec_state_scheme" where
  "sec_int_unlock_ctx_mutex s = s\<lparr>sec_ctx_mutex := sec_ctx_mutex s - 1\<rparr>"

section \<open>Integrity\<close>

definition sec_int_verify_context_hash :: "sec_env \<Rightarrow> 'a sec_state_scheme \<Rightarrow> u32" where
  "sec_int_verify_context_hash e s =
     (if list_all (\<lambda>i. sha384 e (take SIZEOF_SEC_CONTEXT (sec_mem s)) ! i = sec_read ''a_hash'' SEC_HASH_LEN s ! i)
           [0..<SEC_HASH_LEN]
      then SEC_SUCCESS else SEC_FAILED_OOB_HASH_MISMATCH)"

definition sec_int_update_context_hash :: "sec_env \<Rightarrow> 'a sec_state_scheme \<Rightarrow> 'a sec_state_scheme option" where
  "sec_int_update_context_hash e s = sec_write ''a_hash'' (sha384 e (take SIZEOF_SEC_CONTEXT (sec_mem s))) s"

definition SEC_PEND :: u32 where "SEC_PEND = 3"
definition SEC_RPROV :: u32 where "SEC_RPROV = 2"
definition SEC_DECOM :: u32 where "SEC_DECOM = 1"
definition SEC_PROV :: u32 where "SEC_PROV = 0"
definition SEC_REPROV_NONE :: u32 where "SEC_REPROV_NONE = 0"
definition SEC_REPROV_PEND :: u32 where "SEC_REPROV_PEND = 1"

definition sec_int_init_context :: "sec_env \<Rightarrow> 'a sec_state_scheme \<Rightarrow> 'a sec_state_scheme option" where
  "sec_int_init_context e s =
     do {
       s1 \<leftarrow> sec_write ''a_root_ca'' (replicate SIZEOF_SEC_CONTEXT 0) s;
       s2 \<leftarrow> sec_write ''prov_state'' (le32 SEC_PEND) s1;
       s3 \<leftarrow> sec_write ''reprov_pend'' (le32 SEC_REPROV_NONE) s2;
       sec_int_update_context_hash e s3
     }"

definition sec_int_sec_decommission :: "'a sec_state_scheme \<Rightarrow> 'a sec_state_scheme" where
  "sec_int_sec_decommission s = (emit (OobPmControl False) s)\<lparr>sec_mem := replicate SIZEOF_SEC_WRAPPER 0\<rparr>"

section \<open>Getters and setters\<close>

text \<open>A getter delivers the bytes it copies to the caller; \<open>None\<close> inside: the buffer is not written.\<close>

definition sec_int_get_context_param_by_len :: "string \<Rightarrow> 'a sec_state_scheme \<Rightarrow> (u32 \<times> u8 list option) option" where
  "sec_int_get_context_param_by_len f s =
     do { n \<leftarrow> sec_strlen f s; Some (SEC_SUCCESS, Some (sec_read f n s)) }"

definition sec_int_get_context_param :: "string \<Rightarrow> string \<Rightarrow> 'a sec_state_scheme \<Rightarrow> (u32 \<times> u8 list option) option" where
  "sec_int_get_context_param f lf s =
     (let n = unat (sec_int lf s)
      in if sec_off f + n \<le> length (sec_mem s) then Some (SEC_SUCCESS, Some (sec_read f n s)) else None)"

definition sec_int_get_context_param_simple :: "string \<Rightarrow> 'a sec_state_scheme \<Rightarrow> (u32 \<times> u32 option) option" where
  "sec_int_get_context_param_simple f s = Some (SEC_SUCCESS, Some (sec_int f s))"

definition sec_int_set_context_param ::
    "string \<Rightarrow> string \<Rightarrow> u8 list \<Rightarrow> 'a sec_state_scheme \<Rightarrow> 'a sec_state_scheme option" where
  "sec_int_set_context_param f lf data s =
     do { s1 \<leftarrow> sec_write f data s; sec_write lf (le32 (of_nat (length data))) s1 }"

definition sec_int_set_context_param_simple :: "string \<Rightarrow> u32 \<Rightarrow> 'a sec_state_scheme \<Rightarrow> 'a sec_state_scheme option" where
  "sec_int_set_context_param_simple f v s = sec_write f (le32 v) s"

text \<open>The frame shared by all accesses: lock, verify the hash, access, update the hash, unlock.\<close>

definition verified ::
    "sec_env \<Rightarrow> ('a sec_state_scheme \<Rightarrow> (u32 \<times> 'b option) option) \<Rightarrow> 'a sec_state_scheme
     \<Rightarrow> (u32 \<times> 'b option \<times> 'a sec_state_scheme) option" where
  "verified e access s =
     (let s1 = sec_int_lock_ctx_mutex s; result = sec_int_verify_context_hash e s1
      in if result \<noteq> SEC_SUCCESS then Some (result, None, sec_int_unlock_ctx_mutex s1)
         else do { (r, v) \<leftarrow> access s1; Some (r, v, sec_int_unlock_ctx_mutex s1) })"

definition updated ::
    "sec_env \<Rightarrow> ('a sec_state_scheme \<Rightarrow> 'a sec_state_scheme option) \<Rightarrow> 'a sec_state_scheme
     \<Rightarrow> (u32 \<times> 'a sec_state_scheme) option" where
  "updated e change s =
     (let s1 = sec_int_lock_ctx_mutex s; result = sec_int_verify_context_hash e s1
      in if result \<noteq> SEC_SUCCESS then Some (result, sec_int_unlock_ctx_mutex s1)
         else do {
           s2 \<leftarrow> change s1;
           s3 \<leftarrow> sec_int_update_context_hash e s2;
           Some (result, sec_int_unlock_ctx_mutex s3)
         })"

definition sec_int_get_root_ca ::
    "sec_env \<Rightarrow> 'a sec_state_scheme \<Rightarrow> (u32 \<times> u8 list option \<times> 'a sec_state_scheme) option" where
  "sec_int_get_root_ca e s =
     (if SEC_ROOT_CA_LEN < unat (sec_int ''root_ca_len'' s)
      then Some (SEC_FAILED_INVALID_PARAM, None, sec_int_unlock_ctx_mutex (sec_int_lock_ctx_mutex s))
      else verified e (sec_int_get_context_param_by_len ''a_root_ca'') s)"

definition sec_int_set_root_ca ::
    "sec_env \<Rightarrow> u8 list \<Rightarrow> 'a sec_state_scheme \<Rightarrow> (u32 \<times> 'a sec_state_scheme) option" where
  "sec_int_set_root_ca e data s =
     (if SEC_ROOT_CA_LEN < length data then Some (SEC_FAILED_INVALID_PARAM, sec_int_unlock_ctx_mutex (sec_int_lock_ctx_mutex s))
      else updated e (sec_int_set_context_param ''a_root_ca'' ''root_ca_len'' data) s)"

definition sec_int_get_mqtt_client_id ::
    "sec_env \<Rightarrow> 'a sec_state_scheme \<Rightarrow> (u32 \<times> u8 list option \<times> 'a sec_state_scheme) option" where
  "sec_int_get_mqtt_client_id e s = verified e (sec_int_get_context_param_by_len ''a_mqtt_client_id'') s"

definition sec_int_set_mqtt_client_id ::
    "sec_env \<Rightarrow> u8 list \<Rightarrow> 'a sec_state_scheme \<Rightarrow> (u32 \<times> 'a sec_state_scheme) option" where
  "sec_int_set_mqtt_client_id e data s =
     updated e (sec_int_set_context_param ''a_mqtt_client_id'' ''a_mqtt_client_id_len'' data) s"

definition sec_int_get_own_pub_key ::
    "sec_env \<Rightarrow> 'a sec_state_scheme \<Rightarrow> (u32 \<times> u8 list option \<times> 'a sec_state_scheme) option" where
  "sec_int_get_own_pub_key e s = verified e (sec_int_get_context_param ''a_own_pub_key'' ''own_pub_key_len'') s"

definition sec_int_set_own_pub_key ::
    "sec_env \<Rightarrow> u8 list \<Rightarrow> 'a sec_state_scheme \<Rightarrow> (u32 \<times> 'a sec_state_scheme) option" where
  "sec_int_set_own_pub_key e data s =
     updated e (sec_int_set_context_param ''a_own_pub_key'' ''own_pub_key_len'' data) s"

text \<open>The fuse lies outside the hashed part.\<close>

definition sec_int_set_pse_32b_fuse ::
    "u8 list \<Rightarrow> 'a sec_state_scheme \<Rightarrow> (u32 \<times> 'a sec_state_scheme) option" where
  "sec_int_set_pse_32b_fuse data s =
     (if length data \<noteq> SEC_FUSE_LEN then Some (SEC_FAILED, s)
      else do {
        s1 \<leftarrow> sec_int_set_context_param ''a_pse_32b_fuse'' ''a_pse_32b_fuse_len'' data (sec_int_lock_ctx_mutex s);
        Some (SEC_SUCCESS, sec_int_unlock_ctx_mutex s1)
      })"

definition sec_int_get_pse_32b_fuse ::
    "u32 \<Rightarrow> 'a sec_state_scheme \<Rightarrow> (u32 \<times> u8 list option \<times> 'a sec_state_scheme) option" where
  "sec_int_get_pse_32b_fuse len s =
     (if len \<noteq> sec_int ''a_pse_32b_fuse_len'' s then Some (SEC_FAILED, None, s)
      else do {
        let s1 = sec_int_lock_ctx_mutex s;
        (r, v) \<leftarrow> sec_int_get_context_param ''a_pse_32b_fuse'' ''a_pse_32b_fuse_len'' s1;
        Some (r, v, sec_int_unlock_ctx_mutex s1)
      })"

definition sec_int_get_hkdf_32b_pse_salt ::
    "sec_env \<Rightarrow> 'a sec_state_scheme \<Rightarrow> (u32 \<times> u8 list option \<times> 'a sec_state_scheme) option" where
  "sec_int_get_hkdf_32b_pse_salt e s =
     (if unat (sec_int ''hkdf_32b_pse_salt_len'' s) \<noteq> SEC_PSE_SALT_LEN then Some (SEC_FAILED, None, s)
      else verified e (sec_int_get_context_param ''a_hkdf_32b_pse_salt'' ''hkdf_32b_pse_salt_len'') s)"

definition sec_int_set_hkdf_32b_pse_salt ::
    "sec_env \<Rightarrow> u8 list \<Rightarrow> 'a sec_state_scheme \<Rightarrow> (u32 \<times> 'a sec_state_scheme) option" where
  "sec_int_set_hkdf_32b_pse_salt e data s =
     updated e (sec_int_set_context_param ''a_hkdf_32b_pse_salt'' ''hkdf_32b_pse_salt_len'' data) s"

definition sec_int_get_dev_id ::
    "sec_env \<Rightarrow> 'a sec_state_scheme \<Rightarrow> (u32 \<times> u8 list option \<times> 'a sec_state_scheme) option" where
  "sec_int_get_dev_id e s = verified e (sec_int_get_context_param_by_len ''a_dev_id'') s"

definition sec_int_set_dev_id ::
    "sec_env \<Rightarrow> u8 list \<Rightarrow> 'a sec_state_scheme \<Rightarrow> (u32 \<times> 'a sec_state_scheme) option" where
  "sec_int_set_dev_id e data s = updated e (sec_int_set_context_param ''a_dev_id'' ''dev_id_len'' data) s"

definition sec_int_get_tok_id ::
    "sec_env \<Rightarrow> 'a sec_state_scheme \<Rightarrow> (u32 \<times> u8 list option \<times> 'a sec_state_scheme) option" where
  "sec_int_get_tok_id e s = verified e (sec_int_get_context_param_by_len ''a_tok_id'') s"

definition sec_int_set_tok_id ::
    "sec_env \<Rightarrow> u8 list \<Rightarrow> 'a sec_state_scheme \<Rightarrow> (u32 \<times> 'a sec_state_scheme) option" where
  "sec_int_set_tok_id e data s = updated e (sec_int_set_context_param ''a_tok_id'' ''tok_id_len'' data) s"

definition sec_int_get_cld_adapter ::
    "sec_env \<Rightarrow> 'a sec_state_scheme \<Rightarrow> (u32 \<times> u8 list option \<times> 'a sec_state_scheme) option" where
  "sec_int_get_cld_adapter e s = verified e (sec_int_get_context_param_by_len ''a_cld_adapter'') s"

definition sec_int_set_cld_adapter ::
    "sec_env \<Rightarrow> u8 list \<Rightarrow> 'a sec_state_scheme \<Rightarrow> (u32 \<times> 'a sec_state_scheme) option" where
  "sec_int_set_cld_adapter e data s =
     updated e (sec_int_set_context_param ''a_cld_adapter'' ''cld_adapter_len'' data) s"

definition sec_int_get_cld_host_url ::
    "sec_env \<Rightarrow> 'a sec_state_scheme \<Rightarrow> (u32 \<times> u8 list option \<times> 'a sec_state_scheme) option" where
  "sec_int_get_cld_host_url e s = verified e (sec_int_get_context_param ''a_cld_host_url'' ''cld_host_url_len'') s"

definition sec_int_set_cld_host_url ::
    "sec_env \<Rightarrow> u8 list \<Rightarrow> 'a sec_state_scheme \<Rightarrow> (u32 \<times> 'a sec_state_scheme) option" where
  "sec_int_set_cld_host_url e data s =
     updated e (sec_int_set_context_param ''a_cld_host_url'' ''cld_host_url_len'' data) s"

definition sec_int_get_cld_host_port ::
    "sec_env \<Rightarrow> 'a sec_state_scheme \<Rightarrow> (u32 \<times> u32 option \<times> 'a sec_state_scheme) option" where
  "sec_int_get_cld_host_port e s = verified e (sec_int_get_context_param_simple ''cld_host_port'') s"

definition sec_int_set_cld_host_port ::
    "sec_env \<Rightarrow> u32 \<Rightarrow> 'a sec_state_scheme \<Rightarrow> (u32 \<times> 'a sec_state_scheme) option" where
  "sec_int_set_cld_host_port e v s = updated e (sec_int_set_context_param_simple ''cld_host_port'' v) s"

definition sec_int_get_pxy_host_url ::
    "sec_env \<Rightarrow> 'a sec_state_scheme \<Rightarrow> (u32 \<times> u8 list option \<times> 'a sec_state_scheme) option" where
  "sec_int_get_pxy_host_url e s = verified e (sec_int_get_context_param ''a_pxy_host_url'' ''pxy_host_url_len'') s"

definition sec_int_set_pxy_host_url ::
    "sec_env \<Rightarrow> u8 list \<Rightarrow> 'a sec_state_scheme \<Rightarrow> (u32 \<times> 'a sec_state_scheme) option" where
  "sec_int_set_pxy_host_url e data s =
     updated e (sec_int_set_context_param ''a_pxy_host_url'' ''pxy_host_url_len'' data) s"

definition sec_int_get_pxy_host_port ::
    "sec_env \<Rightarrow> 'a sec_state_scheme \<Rightarrow> (u32 \<times> u32 option \<times> 'a sec_state_scheme) option" where
  "sec_int_get_pxy_host_port e s = verified e (sec_int_get_context_param_simple ''pxy_host_port'') s"

definition sec_int_set_pxy_host_port ::
    "sec_env \<Rightarrow> u32 \<Rightarrow> 'a sec_state_scheme \<Rightarrow> (u32 \<times> 'a sec_state_scheme) option" where
  "sec_int_set_pxy_host_port e v s = updated e (sec_int_set_context_param_simple ''pxy_host_port'' v) s"

definition sec_int_get_cloud_hash ::
    "sec_env \<Rightarrow> 'a sec_state_scheme \<Rightarrow> (u32 \<times> u8 list option \<times> 'a sec_state_scheme) option" where
  "sec_int_get_cloud_hash e s =
     (if unat (sec_int ''a_cloud_hash_len'' s) \<noteq> SEC_CLOUD_HASH_LEN then Some (SEC_FAILED, None, s)
      else verified e (sec_int_get_context_param ''a_cloud_hash'' ''a_cloud_hash_len'') s)"

definition sec_int_set_cloud_hash ::
    "sec_env \<Rightarrow> u8 list \<Rightarrow> 'a sec_state_scheme \<Rightarrow> (u32 \<times> 'a sec_state_scheme) option" where
  "sec_int_set_cloud_hash e data s =
     (if length data \<noteq> SEC_CLOUD_HASH_LEN then Some (SEC_FAILED_INVALID_PARAM_LEN, s)
      else updated e (sec_int_set_context_param ''a_cloud_hash'' ''a_cloud_hash_len'' data) s)"

definition sec_int_set_cloud_hash_dec ::
    "sec_env \<Rightarrow> u8 list \<Rightarrow> 'a sec_state_scheme \<Rightarrow> (u32 \<times> 'a sec_state_scheme) option" where
  "sec_int_set_cloud_hash_dec e data s =
     (if length data \<noteq> SEC_CLOUD_HASH_LEN then Some (SEC_FAILED_INVALID_PARAM_LEN, s)
      else updated e (sec_int_set_context_param ''a_cloud_hash_dec'' ''a_cloud_hash_len'' data) s)"

definition sec_hc_int_hash_check :: "sec_env \<Rightarrow> 'a sec_state_scheme \<Rightarrow> u32 \<times> 'a sec_state_scheme" where
  "sec_hc_int_hash_check e s =
     (let s1 = sec_int_lock_ctx_mutex s; result = sec_int_verify_context_hash e s1
      in if result \<noteq> SEC_SUCCESS then (result, sec_int_unlock_ctx_mutex s1)
         else if sec_read ''a_cloud_hash'' SEC_CLOUD_HASH_LEN s1 \<noteq> sec_read ''a_cloud_hash_dec'' SEC_CLOUD_HASH_LEN s1
         then (SEC_FAILED_OOB_HASH_MISMATCH, sec_int_unlock_ctx_mutex s1)
         else (result, sec_int_unlock_ctx_mutex s1))"

definition sec_int_get_prov_state ::
    "sec_env \<Rightarrow> 'a sec_state_scheme \<Rightarrow> (u32 \<times> u32 option \<times> 'a sec_state_scheme) option" where
  "sec_int_get_prov_state e s = verified e (sec_int_get_context_param_simple ''prov_state'') s"

definition sec_int_set_prov_state ::
    "sec_env \<Rightarrow> u32 \<Rightarrow> 'a sec_state_scheme \<Rightarrow> (u32 \<times> 'a sec_state_scheme) option" where
  "sec_int_set_prov_state e v s = updated e (sec_int_set_context_param_simple ''prov_state'' v) s"

definition sec_int_get_reprov_pend ::
    "sec_env \<Rightarrow> 'a sec_state_scheme \<Rightarrow> (u32 \<times> u32 option \<times> 'a sec_state_scheme) option" where
  "sec_int_get_reprov_pend e s = verified e (sec_int_get_context_param_simple ''reprov_pend'') s"

definition sec_int_set_reprov_pend ::
    "sec_env \<Rightarrow> u32 \<Rightarrow> 'a sec_state_scheme \<Rightarrow> (u32 \<times> 'a sec_state_scheme) option" where
  "sec_int_set_reprov_pend e v s = updated e (sec_int_set_context_param_simple ''reprov_pend'' v) s"

definition sec_int_get_context :: "'a sec_state_scheme \<Rightarrow> u8 list" where
  "sec_int_get_context s = take SIZEOF_SEC_CONTEXT (sec_mem s)"

section \<open>Reprovisioning\<close>

datatype sec_info_type = SEC_DEV_ID | SEC_TOK_ID | SEC_CLD_HOST_URL | SEC_CLD_HOST_PORT | SEC_PXY_HOST_URL
  | SEC_PXY_HOST_PORT | SEC_PROV_STATE

fun set_info :: "sec_env \<Rightarrow> u8 list \<Rightarrow> sec_info_type \<Rightarrow> 'a sec_state_scheme \<Rightarrow> (u32 \<times> 'a sec_state_scheme) option" where
  "set_info e data SEC_DEV_ID s = sec_int_set_dev_id e data s"
| "set_info e data SEC_TOK_ID s = sec_int_set_tok_id e data s"
| "set_info e data SEC_CLD_HOST_URL s = sec_int_set_cld_host_url e data s"
| "set_info e data SEC_CLD_HOST_PORT s = sec_int_set_cld_host_port e (get32 data 0) s"
| "set_info e data SEC_PXY_HOST_URL s = sec_int_set_pxy_host_url e data s"
| "set_info e data SEC_PXY_HOST_PORT s = sec_int_set_pxy_host_port e (get32 data 0) s"
| "set_info e data SEC_PROV_STATE s = sec_int_set_prov_state e (get32 data 0) s"

definition sec_int_set_reprovision ::
    "sec_env \<Rightarrow> u8 list \<Rightarrow> sec_info_type \<Rightarrow> 'a sec_state_scheme \<Rightarrow> (u32 \<times> 'a sec_state_scheme) option" where
  "sec_int_set_reprovision e data type s =
     do {
       (_, s1) \<leftarrow> set_info e data type s;
       (_, s2) \<leftarrow> sec_int_set_reprov_pend e SEC_REPROV_PEND s1;
       Some (SEC_SUCCESS, s2)
     }"

end
