(* ===== verification/Oob_Guard.thy ===== *)
theory Oob_Guard
  imports Oob_Context
begin

text \<open>
  What the security context of the out-of-band service promises: the hash accepts exactly
  consistent contents, contents that do not match it are refused, and a member that was set is
  delivered again with the context consistent and the mutex balanced.
\<close>

section \<open>Consistency\<close>

text \<open>The structure has its size and the hash matches its contents.\<close>

definition ctx_ok :: "sec_env \<Rightarrow> 'a sec_state_scheme \<Rightarrow> bool" where
  "ctx_ok e s \<longleftrightarrow> length (sec_mem s) = SIZEOF_SEC_WRAPPER \<and>
     sec_read ''a_hash'' SEC_HASH_LEN s = sha384 e (take SIZEOF_SEC_CONTEXT (sec_mem s))"

lemma mutex_simps [simp]:
  "sec_mem (sec_int_lock_ctx_mutex s) = sec_mem s" "sec_mem (sec_int_unlock_ctx_mutex s) = sec_mem s"
  "sec_int_unlock_ctx_mutex (sec_int_lock_ctx_mutex s) = s"
  "sec_read f n (sec_int_lock_ctx_mutex s) = sec_read f n s" "sec_read f n (sec_int_unlock_ctx_mutex s) = sec_read f n s"
  "sec_int f (sec_int_lock_ctx_mutex s) = sec_int f s" "sec_int f (sec_int_unlock_ctx_mutex s) = sec_int f s"
  "sec_strlen f (sec_int_lock_ctx_mutex s) = sec_strlen f s"
  "ctx_ok e (sec_int_lock_ctx_mutex s) = ctx_ok e s" "ctx_ok e (sec_int_unlock_ctx_mutex s) = ctx_ok e s"
  by (simp_all add: sec_int_lock_ctx_mutex_def sec_int_unlock_ctx_mutex_def sec_read_def sec_int_def
      sec_strlen_def ctx_ok_def)

lemma verify_mutex [simp]:
  "sec_int_verify_context_hash e (sec_int_lock_ctx_mutex s) = sec_int_verify_context_hash e s"
  by (simp add: sec_int_verify_context_hash_def)

lemma list_eq_prefix:
  "length xs = n \<Longrightarrow> length ys = n \<Longrightarrow> list_all (\<lambda>i. xs ! i = ys ! i) [0..<n] \<longleftrightarrow> xs = ys"
  by (auto simp: list_all_iff intro: nth_equalityI)

text \<open>The hash comparison accepts exactly the consistent structures.\<close>

lemma verify_iff_ctx_ok:
  assumes "sha_len e" "length (sec_mem s) = SIZEOF_SEC_WRAPPER"
  shows "sec_int_verify_context_hash e s = (if ctx_ok e s then SEC_SUCCESS else SEC_FAILED_OOB_HASH_MISMATCH)"
proof -
  have "length (sec_read ''a_hash'' SEC_HASH_LEN s) = SEC_HASH_LEN"
    using assms(2) by (simp add: sec_read_def SIZEOF_SEC_WRAPPER_def sec_len_defs)
  with assms show ?thesis
    unfolding sec_int_verify_context_hash_def ctx_ok_def sha_len_def
    by (subst list_eq_prefix) (auto simp: eq_commute [of "sha384 e x" for x])
qed

lemma ctx_ok_verify: "sha_len e \<Longrightarrow> ctx_ok e s \<Longrightarrow> sec_int_verify_context_hash e s = SEC_SUCCESS"
  using verify_iff_ctx_ok [of e s] by (simp add: ctx_ok_def)

text \<open>Reading back after a copy into the structure.\<close>

lemma sec_write_Some:
  "sec_off f + length bs \<le> length (sec_mem s) \<Longrightarrow>
   sec_write f bs s = Some (s\<lparr>sec_mem := memcpy_at (sec_mem s) (sec_off f) bs\<rparr>)"
  by (simp add: sec_write_def)

lemma take_drop_memcpy_other:
  assumes "off + length src \<le> length dst" "o' + n \<le> off \<or> off + length src \<le> o'"
  shows "take n (drop o' (memcpy_at dst off src)) = take n (drop o' dst)"
proof (cases "o' + n \<le> length dst")
  case True
  with assms show ?thesis
    by (intro nth_equalityI) (auto simp: nth_memcpy_at)
next
  case False
  with assms have "off + length src \<le> o'" by linarith
  then show ?thesis using assms(1) by (simp add: memcpy_at_def)
qed

lemma get32_memcpy_same:
  "off + 4 \<le> length dst \<Longrightarrow> get32 (memcpy_at dst off (le32 w)) off = w"
  using get32_skip [of off 0 "take off dst" "le32 w @ drop (off + 4) dst"]
  by (simp add: memcpy_at_def)

lemma get32_memcpy_other:
  assumes "off + length src \<le> length dst" "o' + 4 \<le> length dst" "o' + 4 \<le> off \<or> off + length src \<le> o'"
  shows "get32 (memcpy_at dst off src) o' = get32 dst o'"
  using assms by (auto simp: get32_def nth_memcpy_at)

lemma take_hash_write:
  assumes "length mem = SIZEOF_SEC_WRAPPER" "length h = SEC_HASH_LEN"
  shows "take SIZEOF_SEC_CONTEXT (memcpy_at mem (sec_off ''a_hash'') h) = take SIZEOF_SEC_CONTEXT mem"
  using assms take_drop_memcpy_other [of "sec_off ''a_hash''" h mem 0 SIZEOF_SEC_CONTEXT]
  by (simp add: SIZEOF_SEC_WRAPPER_def SIZEOF_SEC_CONTEXT_def sec_len_defs)

lemma update_hash_ok:
  assumes "sha_len e" "length (sec_mem s) = SIZEOF_SEC_WRAPPER"
  shows "ok (sec_int_update_context_hash e s) (\<lambda>s'. ctx_ok e s' \<and>
           s' = s\<lparr>sec_mem := memcpy_at (sec_mem s) (sec_off ''a_hash'') (sha384 e (take SIZEOF_SEC_CONTEXT (sec_mem s)))\<rparr>)"
proof -
  let ?h = "sha384 e (take SIZEOF_SEC_CONTEXT (sec_mem s))"
  have h: "length ?h = SEC_HASH_LEN" using assms(1) by (simp add: sha_len_def)
  have b: "sec_off ''a_hash'' + length ?h \<le> length (sec_mem s)"
    using assms(2) h by (simp add: SIZEOF_SEC_WRAPPER_def sec_len_defs)
  have rb: "take SEC_HASH_LEN (drop (sec_off ''a_hash'') (memcpy_at (sec_mem s) (sec_off ''a_hash'') ?h)) = ?h"
    using memcpy_at_read_back [OF b] h by simp
  have "length (memcpy_at (sec_mem s) (sec_off ''a_hash'') ?h) = SIZEOF_SEC_WRAPPER"
    using b assms(2) by simp
  then show ?thesis
    using b rb take_hash_write [OF assms(2) h]
    by (simp add: sec_int_update_context_hash_def sec_write_Some ctx_ok_def sec_read_def del: sec_offsets)
qed

section \<open>The frame of the accesses\<close>

lemma verified_refused:
  assumes "sha_len e" "length (sec_mem s) = SIZEOF_SEC_WRAPPER" "\<not> ctx_ok e s"
  shows "verified e access s = Some (SEC_FAILED_OOB_HASH_MISMATCH, None, s)"
  using assms by (simp add: verified_def verify_iff_ctx_ok Let_def sec_result_defs)

lemma updated_refused:
  assumes "sha_len e" "length (sec_mem s) = SIZEOF_SEC_WRAPPER" "\<not> ctx_ok e s"
  shows "updated e change s = Some (SEC_FAILED_OOB_HASH_MISMATCH, s)"
  using assms by (simp add: updated_def verify_iff_ctx_ok Let_def sec_result_defs)

lemmas tampered_simps =
  sec_int_get_mqtt_client_id_def sec_int_get_own_pub_key_def sec_int_get_dev_id_def sec_int_get_tok_id_def
  sec_int_get_cld_adapter_def sec_int_get_cld_host_url_def sec_int_get_pxy_host_url_def sec_int_get_cld_host_port_def
  sec_int_get_pxy_host_port_def sec_int_get_prov_state_def sec_int_get_reprov_pend_def sec_int_set_mqtt_client_id_def
  sec_int_set_own_pub_key_def sec_int_set_hkdf_32b_pse_salt_def sec_int_set_dev_id_def sec_int_set_tok_id_def
  sec_int_set_cld_adapter_def sec_int_set_cld_host_url_def sec_int_set_pxy_host_url_def sec_int_set_cld_host_port_def
  sec_int_set_pxy_host_port_def sec_int_set_prov_state_def sec_int_set_reprov_pend_def sec_int_get_root_ca_def
  sec_int_get_hkdf_32b_pse_salt_def sec_int_get_cloud_hash_def sec_int_set_root_ca_def sec_int_set_cloud_hash_def
  sec_int_set_cloud_hash_dec_def sec_hc_int_hash_check_def sec_int_set_reprovision_def Let_def sec_result_defs

lemma set_info_refused:
  assumes "sha_len e" "length (sec_mem s) = SIZEOF_SEC_WRAPPER" "\<not> ctx_ok e s"
  shows "set_info e d info s = Some (SEC_FAILED_OOB_HASH_MISMATCH, s)"
  by (cases info) (simp_all add: tampered_simps updated_refused [OF assms])

lemma verified_ok:
  assumes "sha_len e" "ctx_ok e s" "access (sec_int_lock_ctx_mutex s) = Some (r, v)"
  shows "verified e access s = Some (r, v, s)"
  using assms by (simp add: verified_def ctx_ok_verify Let_def)

text \<open>The contents with the hash renewed.\<close>

definition rehash :: "sec_env \<Rightarrow> u8 list \<Rightarrow> u8 list" where
  "rehash e mem = memcpy_at mem (sec_off ''a_hash'') (sha384 e (take SIZEOF_SEC_CONTEXT mem))"

lemma updated_ok:
  assumes "sha_len e" "ctx_ok e s"
    and change: "change (sec_int_lock_ctx_mutex s) = Some ((sec_int_lock_ctx_mutex s)\<lparr>sec_mem := m\<rparr>)"
    and len: "length m = SIZEOF_SEC_WRAPPER"
  shows "ok (updated e change s) (\<lambda>(r, s'). r = SEC_SUCCESS \<and> ctx_ok e s' \<and> s' = s\<lparr>sec_mem := rehash e m\<rparr>)"
proof -
  obtain s3 where s3: "sec_int_update_context_hash e ((sec_int_lock_ctx_mutex s)\<lparr>sec_mem := m\<rparr>) = Some s3"
    "ctx_ok e s3" "s3 = (sec_int_lock_ctx_mutex s)\<lparr>sec_mem := rehash e m\<rparr>"
    using update_hash_ok [of e "(sec_int_lock_ctx_mutex s)\<lparr>sec_mem := m\<rparr>"] assms(1) len
    by (auto elim!: okE simp: rehash_def)
  have "sec_int_unlock_ctx_mutex s3 = s\<lparr>sec_mem := rehash e m\<rparr>"
    using s3(3) by (simp add: sec_int_lock_ctx_mutex_def sec_int_unlock_ctx_mutex_def)
  moreover have "updated e change s = Some (SEC_SUCCESS, sec_int_unlock_ctx_mutex s3)"
    using assms s3(1) by (simp add: updated_def ctx_ok_verify Let_def)
  moreover have "ctx_ok e (sec_int_unlock_ctx_mutex s3)" using s3(2) by simp
  ultimately show ?thesis by simp
qed

text \<open>Members of a structure do not overlap.\<close>

lemma offset_in_ge: "n \<le> offset_in f n L"
  by (induction f n L rule: offset_in.induct) (auto intro: order_trans [rotated])

lemma layout_disjoint:
  assumes "distinct (map fst L)" "(f, m) \<in> set L" "(g, k) \<in> set L" "f \<noteq> g"
  shows "offset_in f n L + m \<le> offset_in g n L \<or> offset_in g n L + k \<le> offset_in f n L"
  using assms
proof (induction L arbitrary: n)
  case Nil
  then show ?case by simp
next
  case (Cons x L)
  obtain h j where x: "x = (h, j)" by (cases x)
  consider "h = f" | "h = g" | "h \<noteq> f" "h \<noteq> g" by blast
  then show ?case
  proof cases
    case 1
    with Cons.prems x have "m = j" by force
    with 1 x Cons.prems(4) offset_in_ge [of "n + j" g L] show ?thesis by simp
  next
    case 2
    with Cons.prems x have "k = j" by force
    with 2 x Cons.prems(4) offset_in_ge [of "n + j" f L] show ?thesis by simp
  next
    case 3
    with x Cons show ?thesis by auto
  qed
qed

lemma layout_inside:
  assumes "(f, m) \<in> set L" "distinct (map fst L)"
  shows "offset_in f n L + m \<le> n + sum_list (map snd L)"
  using assms
proof (induction L arbitrary: n)
  case Nil
  then show ?case by simp
next
  case (Cons x L)
  obtain h j where x: "x = (h, j)" by (cases x)
  show ?case
  proof (cases "h = f")
    case True
    with Cons.prems x have "m = j" by force
    with True x show ?thesis by simp
  next
    case False
    with Cons.prems x Cons.IH [of "n + j"] show ?thesis by simp
  qed
qed

lemma offset_in_append: "f \<in> fst ` set L \<Longrightarrow> offset_in f n (L @ L') = offset_in f n L"
  by (induction f n L rule: offset_in.induct) auto

lemma context_layout_prefix:
  "f \<in> fst ` set sec_context_layout \<Longrightarrow> sec_off f = offset_in f 0 sec_context_layout"
  by (simp add: sec_off_def sec_wrapper_layout_def offset_in_append)

lemma context_layout_distinct: "distinct (map fst sec_context_layout)"
  by (simp add: sec_context_layout_def)

lemma context_layout_size: "sum_list (map snd sec_context_layout) = SIZEOF_SEC_CONTEXT"
  by (simp add: sec_context_layout_def SIZEOF_SEC_CONTEXT_def)

lemma context_member:
  assumes "(f, m) \<in> set sec_context_layout"
  shows "sec_off f + m \<le> SIZEOF_SEC_CONTEXT"
proof -
  have "f \<in> fst ` set sec_context_layout" using assms by force
  then show ?thesis
    using layout_inside [OF assms context_layout_distinct, of 0]
    by (simp add: context_layout_prefix context_layout_size)
qed

lemma context_disjoint:
  assumes "(f, m) \<in> set sec_context_layout" "(g, k) \<in> set sec_context_layout" "f \<noteq> g"
  shows "sec_off f + m \<le> sec_off g \<or> sec_off g + k \<le> sec_off f"
proof -
  have "f \<in> fst ` set sec_context_layout" "g \<in> fst ` set sec_context_layout"
    using assms(1,2) by force+
  then show ?thesis
    using layout_disjoint [OF context_layout_distinct assms, of 0] by (simp add: context_layout_prefix)
qed

section \<open>Members keep what is stored in them\<close>

text \<open>The contract of a setter and its getter: the invariant survives, and the getter delivers
  what was put.\<close>

locale guarded_member =
  fixes inv :: "'s \<Rightarrow> bool" and fits :: "'d \<Rightarrow> bool"
    and put :: "'d \<Rightarrow> 's \<Rightarrow> (u32 \<times> 's) option"
    and fetch :: "'s \<Rightarrow> (u32 \<times> 'd option \<times> 's) option"
  assumes put_fetch: "inv s \<Longrightarrow> fits d \<Longrightarrow>
    ok (put d s) (\<lambda>(r, s'). r = SEC_SUCCESS \<and> inv s' \<and> fetch s' = Some (SEC_SUCCESS, Some d, s'))"
begin

text \<open>A run of updates.\<close>

fun puts :: "'d list \<Rightarrow> 's \<Rightarrow> 's option" where
  "puts [] s = Some s"
| "puts (d # ds) s = put d s \<bind> (\<lambda>(_, s'). puts ds s')"

lemma puts_inv: "inv s \<Longrightarrow> list_all fits ds \<Longrightarrow> ok (puts ds s) inv"
proof (induction ds arbitrary: s)
  case Nil
  then show ?case by simp
next
  case (Cons d ds)
  then show ?case using put_fetch [of s d] by (auto simp: ok_bind elim!: okE ok_mono)
qed

lemma last_put_wins:
  assumes "inv s" "list_all fits ds" "fits d"
  shows "ok (puts (ds @ [d]) s) (\<lambda>s'. fetch s' = Some (SEC_SUCCESS, Some d, s'))"
  using assms
proof (induction ds arbitrary: s)
  case Nil
  then show ?case using put_fetch [of s d] by (auto simp: ok_bind elim!: okE)
next
  case (Cons a ds)
  then show ?case using put_fetch [of s a] by (auto simp: ok_bind elim!: okE)
qed

end

lemma rehash_below:
  assumes "sha_len e" "length mem = SIZEOF_SEC_WRAPPER" "off + n \<le> SIZEOF_SEC_CONTEXT"
  shows "take n (drop off (rehash e mem)) = take n (drop off mem)"
    and "n = 4 \<Longrightarrow> get32 (rehash e mem) off = get32 mem off"
  using assms
  by (auto simp: rehash_def sha_len_def SIZEOF_SEC_WRAPPER_def SIZEOF_SEC_CONTEXT_def sec_len_defs
      intro!: take_drop_memcpy_other get32_memcpy_other)

lemma length_rehash [simp]:
  "sha_len e \<Longrightarrow> length mem = SIZEOF_SEC_WRAPPER \<Longrightarrow> length (rehash e mem) = length mem"
  by (simp add: rehash_def sha_len_def SIZEOF_SEC_WRAPPER_def sec_len_defs)

text \<open>A parameter \<open>f\<close> of \<open>m\<close> bytes followed by its length \<open>lf\<close>.\<close>

definition sized_member :: "string \<Rightarrow> nat \<Rightarrow> string \<Rightarrow> bool" where
  "sized_member f m lf \<longleftrightarrow> sec_off lf = sec_off f + m \<and> sec_off lf + 4 \<le> SIZEOF_SEC_CONTEXT"

lemma set_param_updated:
  assumes "sha_len e" "ctx_ok e s" "sized_member f m lf" "length data \<le> m"
  shows "ok (updated e (sec_int_set_context_param f lf data) s) (\<lambda>(r, s'). r = SEC_SUCCESS \<and> ctx_ok e s' \<and>
           s' = s\<lparr>sec_mem := rehash e (memcpy_at (memcpy_at (sec_mem s) (sec_off f) data)
                      (sec_off lf) (le32 (of_nat (length data))))\<rparr>)"
proof -
  have len: "length (sec_mem s) = SIZEOF_SEC_WRAPPER" using assms(2) by (simp add: ctx_ok_def)
  have b1: "sec_off f + length data \<le> length (sec_mem s)" and b2: "sec_off lf + 4 \<le> length (sec_mem s)"
    using assms(3,4) len by (auto simp: sized_member_def SIZEOF_SEC_WRAPPER_def SIZEOF_SEC_CONTEXT_def)
  let ?m = "memcpy_at (memcpy_at (sec_mem s) (sec_off f) data) (sec_off lf) (le32 (of_nat (length data)))"
  have c: "sec_int_set_context_param f lf data (sec_int_lock_ctx_mutex s)
      = Some ((sec_int_lock_ctx_mutex s)\<lparr>sec_mem := ?m\<rparr>)"
    using b1 b2 by (simp add: sec_int_set_context_param_def sec_write_Some)
  show ?thesis using updated_ok [where change = "sec_int_set_context_param f lf data", OF assms(1,2) c] b1 b2 len by simp
qed

text \<open>The simple members, and those with a length.\<close>

lemma set_simple_updated:
  assumes "sha_len e" "ctx_ok e s" "sec_off f + 4 \<le> SIZEOF_SEC_CONTEXT"
  shows "ok (updated e (sec_int_set_context_param_simple f v) s) (\<lambda>(r, s'). r = SEC_SUCCESS \<and> ctx_ok e s' \<and>
           s' = s\<lparr>sec_mem := rehash e (memcpy_at (sec_mem s) (sec_off f) (le32 v))\<rparr>)"
proof -
  have len: "length (sec_mem s) = SIZEOF_SEC_WRAPPER" using assms(2) by (simp add: ctx_ok_def)
  then have b: "sec_off f + 4 \<le> length (sec_mem s)"
    using assms(3) by (simp add: SIZEOF_SEC_WRAPPER_def SIZEOF_SEC_CONTEXT_def)
  have c: "sec_int_set_context_param_simple f v (sec_int_lock_ctx_mutex s)
      = Some ((sec_int_lock_ctx_mutex s)\<lparr>sec_mem := memcpy_at (sec_mem s) (sec_off f) (le32 v)\<rparr>)"
    using b by (simp add: sec_int_set_context_param_simple_def sec_write_Some)
  show ?thesis using updated_ok [where change = "sec_int_set_context_param_simple f v", OF assms(1,2) c] b len by simp
qed

lemma simple_member:
  assumes "sec_off f + 4 \<le> SIZEOF_SEC_CONTEXT"
  shows "guarded_member (\<lambda>s. sha_len e \<and> ctx_ok e s \<and> sec_ctx_mutex s = n) (\<lambda>_. True)
           (\<lambda>v. updated e (sec_int_set_context_param_simple f v)) (verified e (sec_int_get_context_param_simple f))"
proof
  fix s :: "'a sec_state_scheme" and v
  assume a: "sha_len e \<and> ctx_ok e s \<and> sec_ctx_mutex s = n"
  then have len: "length (sec_mem s) = SIZEOF_SEC_WRAPPER" by (simp add: ctx_ok_def)
  let ?s' = "s\<lparr>sec_mem := rehash e (memcpy_at (sec_mem s) (sec_off f) (le32 v))\<rparr>"
  have "sec_int f ?s' = v"
    using a assms len
    by (simp add: sec_int_def rehash_below(2) [of _ _ _ 4] get32_memcpy_same SIZEOF_SEC_CONTEXT_def SIZEOF_SEC_WRAPPER_def)
  then have "verified e (sec_int_get_context_param_simple f) ?s' = Some (SEC_SUCCESS, Some v, ?s')" if "ctx_ok e ?s'"
    using a that by (intro verified_ok) (simp_all add: sec_int_get_context_param_simple_def)
  then show "ok (updated e (sec_int_set_context_param_simple f v) s) (\<lambda>(r, s'). r = SEC_SUCCESS \<and>
      (sha_len e \<and> ctx_ok e s' \<and> sec_ctx_mutex s' = n) \<and> verified e (sec_int_get_context_param_simple f) s' = Some (SEC_SUCCESS, Some v, s'))"
    using a set_simple_updated [of e s f v] assms by (auto elim!: okE)
qed

lemma sized_member_contract:
  assumes m: "sized_member f m lf"
  shows "guarded_member (\<lambda>s. sha_len e \<and> ctx_ok e s \<and> sec_ctx_mutex s = n) (\<lambda>d. length d \<le> m)
           (\<lambda>d. updated e (sec_int_set_context_param f lf d)) (verified e (sec_int_get_context_param f lf))"
proof
  fix s :: "'a sec_state_scheme" and d :: "u8 list"
  assume a: "sha_len e \<and> ctx_ok e s \<and> sec_ctx_mutex s = n" and d: "length d \<le> m"
  then have len: "length (sec_mem s) = SIZEOF_SEC_WRAPPER" by (simp add: ctx_ok_def)
  let ?m = "memcpy_at (memcpy_at (sec_mem s) (sec_off f) d) (sec_off lf) (le32 (of_nat (length d)))"
  let ?s' = "s\<lparr>sec_mem := rehash e ?m\<rparr>"
  note sizes = SIZEOF_SEC_CONTEXT_def SIZEOF_SEC_WRAPPER_def
  have b: "sec_off f + length d \<le> length (sec_mem s)" "sec_off lf + 4 \<le> length (sec_mem s)"
    using m d len by (auto simp: sized_member_def sizes)
  have lm: "length ?m = SIZEOF_SEC_WRAPPER" using b len by simp
  have "length d < 2 ^ 32" using m d by (simp add: sized_member_def sizes)
  then have n: "sec_int lf ?s' = of_nat (length d)" "unat (sec_int lf ?s') = length d"
    using a m b lm by (simp_all add: sec_int_def rehash_below(2) [of _ _ _ 4] sized_member_def get32_memcpy_same
        take_bit_nat_eq_self unat_of_nat)
  have "sec_read f (length d) ?s' = d"
    using a m d b lm
    by (simp add: sec_read_def rehash_below sized_member_def take_drop_memcpy_other memcpy_at_read_back)
  then have "verified e (sec_int_get_context_param f lf) ?s' = Some (SEC_SUCCESS, Some d, ?s')" if "ctx_ok e ?s'"
    using a that n b lm by (intro verified_ok) (simp_all add: sec_int_get_context_param_def Let_def)
  then show "ok (updated e (sec_int_set_context_param f lf d) s) (\<lambda>(r, s'). r = SEC_SUCCESS \<and>
      (sha_len e \<and> ctx_ok e s' \<and> sec_ctx_mutex s' = n) \<and> verified e (sec_int_get_context_param f lf) s' = Some (SEC_SUCCESS, Some d, s'))"
    using a set_param_updated [of e s, OF _ _ m d] by (auto elim!: okE)
qed

text \<open>Strings: the getter looks for the terminating zero.\<close>

lemma find_zero: "(0 :: u8) \<notin> set t \<Longrightarrow> find_idx (\<lambda>b. b = 0) (t @ 0 # xs) = Some (length t)"
  by (induction t) auto

lemma sec_strlen_eq:
  assumes "take (Suc (length t)) (drop (sec_off f) (sec_mem s)) = t @ [0]" "0 \<notin> set t"
  shows "sec_strlen f s = Some (length t)" "sec_read f (length t) s = t"
proof -
  have "drop (sec_off f) (sec_mem s) = t @ 0 # drop (Suc (length t)) (drop (sec_off f) (sec_mem s))"
    using assms(1) append_take_drop_id [of "Suc (length t)" "drop (sec_off f) (sec_mem s)"] by simp
  then show "sec_strlen f s = Some (length t)" unfolding sec_strlen_def
    using find_zero [OF assms(2)] by simp
  have "take (length t) (take (Suc (length t)) (drop (sec_off f) (sec_mem s))) = t"
    using assms(1) by simp
  then show "sec_read f (length t) s = t"
    by (simp add: sec_read_def min_def)
qed

lemma string_stored:
  assumes m: "sized_member f m lf" and a: "sha_len e" "ctx_ok e s" and t: "0 \<notin> set t" "length (t @ 0 # rest) \<le> m"
  shows "ok (updated e (sec_int_set_context_param f lf (t @ 0 # rest)) s) (\<lambda>(r, s'). r = SEC_SUCCESS \<and>
      (sha_len e \<and> ctx_ok e s' \<and> sec_ctx_mutex s' = sec_ctx_mutex s) \<and> verified e (sec_int_get_context_param_by_len f) s' = Some (SEC_SUCCESS, Some t, s'))"
proof -
  have len: "length (sec_mem s) = SIZEOF_SEC_WRAPPER" using a by (simp add: ctx_ok_def)
  let ?d = "t @ 0 # rest" and ?n = "Suc (length t)"
  let ?m = "memcpy_at (memcpy_at (sec_mem s) (sec_off f) ?d) (sec_off lf) (le32 (of_nat (length ?d)))"
  let ?s' = "s\<lparr>sec_mem := rehash e ?m\<rparr>"
  have b: "sec_off f + length ?d \<le> length (sec_mem s)" "sec_off lf + 4 \<le> length (sec_mem s)"
    using m t len by (auto simp: sized_member_def SIZEOF_SEC_CONTEXT_def SIZEOF_SEC_WRAPPER_def)
  have lm: "length ?m = SIZEOF_SEC_WRAPPER" using b len by simp
  have "take ?n (drop (sec_off f) (rehash e ?m)) = take ?n (drop (sec_off f) ?m)"
    using a m t lm by (intro rehash_below) (auto simp: sized_member_def)
  also have "\<dots> = take ?n (drop (sec_off f) (memcpy_at (sec_mem s) (sec_off f) ?d))"
    using m t b by (intro take_drop_memcpy_other) (auto simp: sized_member_def)
  also have "\<dots> = take ?n (take (length ?d) (drop (sec_off f) (memcpy_at (sec_mem s) (sec_off f) ?d)))"
    by (simp add: min_def)
  also have "\<dots> = t @ [0]" unfolding memcpy_at_read_back [OF b(1)] by simp
  finally have "sec_strlen f ?s' = Some (length t)" "sec_read f (length t) ?s' = t"
    using sec_strlen_eq [of t f ?s'] t by simp_all
  then have "verified e (sec_int_get_context_param_by_len f) ?s' = Some (SEC_SUCCESS, Some t, ?s')" if "ctx_ok e ?s'"
    using a that by (intro verified_ok) (simp_all add: sec_int_get_context_param_by_len_def)
  then show ?thesis
    using a set_param_updated [of e s, OF _ _ m t(2)] by (auto elim!: okE)
qed

lemma string_member_contract:
  assumes "sized_member f m lf"
  shows "guarded_member (\<lambda>s. sha_len e \<and> ctx_ok e s \<and> sec_ctx_mutex s = n) (\<lambda>t. 0 \<notin> set t \<and> length t < m)
           (\<lambda>t. updated e (sec_int_set_context_param f lf (t @ [0]))) (verified e (sec_int_get_context_param_by_len f))"
  using string_stored [OF assms, of e _ _ "[]"] by unfold_locales (auto simp: Suc_le_eq)

lemma members [simp]:
  "sized_member ''a_own_pub_key'' SEC_OWN_PUB_KEY_LEN ''own_pub_key_len''"
  "sized_member ''a_cld_host_url'' SEC_URL_LEN ''cld_host_url_len''"
  "sized_member ''a_pxy_host_url'' SEC_URL_LEN ''pxy_host_url_len''"
  "sized_member ''a_hkdf_32b_pse_salt'' SEC_PSE_SALT_LEN ''hkdf_32b_pse_salt_len''"
  "sized_member ''a_dev_id'' SEC_DEV_ID_LEN ''dev_id_len''"
  "sized_member ''a_tok_id'' SEC_TOK_ID_LEN ''tok_id_len''"
  "sized_member ''a_cld_adapter'' SEC_CLD_LEN ''cld_adapter_len''"
  "sized_member ''a_mqtt_client_id'' SEC_MQTT_CLIENT_ID_LEN ''a_mqtt_client_id_len''"
  "sized_member ''a_root_ca'' SEC_ROOT_CA_LEN ''root_ca_len''"
  "sized_member ''a_cloud_hash_dec'' SEC_CLOUD_HASH_LEN ''a_cloud_hash_len''"
  by (simp_all add: sized_member_def sec_len_defs SIZEOF_SEC_CONTEXT_def)

interpretation own_pub_key: guarded_member "\<lambda>s. sha_len e \<and> ctx_ok e s \<and> sec_ctx_mutex s = n" "\<lambda>d. length d \<le> SEC_OWN_PUB_KEY_LEN"
  "sec_int_set_own_pub_key e" "sec_int_get_own_pub_key e" for e n
  using sized_member_contract [OF members(1), of e n]
  by (simp add: sec_int_set_own_pub_key_def [abs_def] sec_int_get_own_pub_key_def [abs_def])

interpretation cld_host_url: guarded_member "\<lambda>s. sha_len e \<and> ctx_ok e s \<and> sec_ctx_mutex s = n" "\<lambda>d. length d \<le> SEC_URL_LEN"
  "sec_int_set_cld_host_url e" "sec_int_get_cld_host_url e" for e n
  using sized_member_contract [OF members(2), of e n]
  by (simp add: sec_int_set_cld_host_url_def [abs_def] sec_int_get_cld_host_url_def [abs_def])

interpretation pxy_host_url: guarded_member "\<lambda>s. sha_len e \<and> ctx_ok e s \<and> sec_ctx_mutex s = n" "\<lambda>d. length d \<le> SEC_URL_LEN"
  "sec_int_set_pxy_host_url e" "sec_int_get_pxy_host_url e" for e n
  using sized_member_contract [OF members(3), of e n]
  by (simp add: sec_int_set_pxy_host_url_def [abs_def] sec_int_get_pxy_host_url_def [abs_def])

interpretation dev_id: guarded_member "\<lambda>s. sha_len e \<and> ctx_ok e s \<and> sec_ctx_mutex s = n" "\<lambda>t. 0 \<notin> set t \<and> length t < SEC_DEV_ID_LEN"
  "\<lambda>t. sec_int_set_dev_id e (t @ [0])" "sec_int_get_dev_id e" for e n
  using string_member_contract [OF members(5), of e n]
  by (simp add: sec_int_set_dev_id_def [abs_def] sec_int_get_dev_id_def [abs_def])

interpretation tok_id: guarded_member "\<lambda>s. sha_len e \<and> ctx_ok e s \<and> sec_ctx_mutex s = n" "\<lambda>t. 0 \<notin> set t \<and> length t < SEC_TOK_ID_LEN"
  "\<lambda>t. sec_int_set_tok_id e (t @ [0])" "sec_int_get_tok_id e" for e n
  using string_member_contract [OF members(6), of e n]
  by (simp add: sec_int_set_tok_id_def [abs_def] sec_int_get_tok_id_def [abs_def])

interpretation cld_adapter: guarded_member "\<lambda>s. sha_len e \<and> ctx_ok e s \<and> sec_ctx_mutex s = n" "\<lambda>t. 0 \<notin> set t \<and> length t < SEC_CLD_LEN"
  "\<lambda>t. sec_int_set_cld_adapter e (t @ [0])" "sec_int_get_cld_adapter e" for e n
  using string_member_contract [OF members(7), of e n]
  by (simp add: sec_int_set_cld_adapter_def [abs_def] sec_int_get_cld_adapter_def [abs_def])

interpretation mqtt_client_id: guarded_member "\<lambda>s. sha_len e \<and> ctx_ok e s \<and> sec_ctx_mutex s = n"
  "\<lambda>t. 0 \<notin> set t \<and> length t < SEC_MQTT_CLIENT_ID_LEN"
  "\<lambda>t. sec_int_set_mqtt_client_id e (t @ [0])" "sec_int_get_mqtt_client_id e" for e n
  using string_member_contract [OF members(8), of e n]
  by (simp add: sec_int_set_mqtt_client_id_def [abs_def] sec_int_get_mqtt_client_id_def [abs_def])

interpretation cld_host_port: guarded_member "\<lambda>s. sha_len e \<and> ctx_ok e s \<and> sec_ctx_mutex s = n" "\<lambda>_. True"
  "sec_int_set_cld_host_port e" "sec_int_get_cld_host_port e" for e n
  using simple_member [of "''cld_host_port''" e n]
  by (simp add: sec_int_set_cld_host_port_def [abs_def] sec_int_get_cld_host_port_def [abs_def] SIZEOF_SEC_CONTEXT_def)

interpretation pxy_host_port: guarded_member "\<lambda>s. sha_len e \<and> ctx_ok e s \<and> sec_ctx_mutex s = n" "\<lambda>_. True"
  "sec_int_set_pxy_host_port e" "sec_int_get_pxy_host_port e" for e n
  using simple_member [of "''pxy_host_port''" e n]
  by (simp add: sec_int_set_pxy_host_port_def [abs_def] sec_int_get_pxy_host_port_def [abs_def] SIZEOF_SEC_CONTEXT_def)

interpretation prov_state: guarded_member "\<lambda>s. sha_len e \<and> ctx_ok e s \<and> sec_ctx_mutex s = n" "\<lambda>_. True"
  "sec_int_set_prov_state e" "sec_int_get_prov_state e" for e n
  using simple_member [of "''prov_state''" e n]
  by (simp add: sec_int_set_prov_state_def [abs_def] sec_int_get_prov_state_def [abs_def] SIZEOF_SEC_CONTEXT_def)

interpretation reprov_pend: guarded_member "\<lambda>s. sha_len e \<and> ctx_ok e s \<and> sec_ctx_mutex s = n" "\<lambda>_. True"
  "sec_int_set_reprov_pend e" "sec_int_get_reprov_pend e" for e n
  using simple_member [of "''reprov_pend''" e n]
  by (simp add: sec_int_set_reprov_pend_def [abs_def] sec_int_get_reprov_pend_def [abs_def] SIZEOF_SEC_CONTEXT_def)

text \<open>What a setter owes its getter: success, a consistent context, the mutex as it was before the call,
  and the value delivered again without a change of the state.\<close>

definition kept ::
    "sec_env \<Rightarrow> 'a sec_state_scheme \<Rightarrow> (u32 \<times> 'a sec_state_scheme) option
     \<Rightarrow> ('a sec_state_scheme \<Rightarrow> (u32 \<times> 'd option \<times> 'a sec_state_scheme) option) \<Rightarrow> 'd \<Rightarrow> bool" where
  "kept e s set_result get v \<longleftrightarrow> ok set_result (\<lambda>(r, s'). r = SEC_SUCCESS \<and> ctx_ok e s' \<and>
     sec_ctx_mutex s' = sec_ctx_mutex s \<and> get s' = Some (SEC_SUCCESS, Some v, s'))"

lemma put_fetch_kept:
  assumes "guarded_member (\<lambda>s. sha_len e \<and> ctx_ok e s \<and> sec_ctx_mutex s = sec_ctx_mutex s0) dom_ok put fetch"
    and "sha_len e" "ctx_ok e s0" "dom_ok d"
  shows "kept e s0 (put d s0) fetch d"
  using guarded_member.put_fetch [OF assms(1), of s0 d] assms(2-4) by (simp add: kept_def conj_ac)

end
