(* ===== verification/Oob_Entropy.thy ===== *)
theory Oob_Entropy
  imports Oob_Context
begin

text \<open>
  The rest of \<^verbatim>\<open>sec_bios_ipc/pse_oob_sec_internal.c\<close>: waiting for the firmware handshake, random
  words from the sideband generator, the nonce challenge and the entropy source of the
  cryptographic library.
\<close>

section \<open>Time and the handshake\<close>

definition sec_int_get_time :: "sec_env \<Rightarrow> 'a sec_state_scheme \<Rightarrow> u32 \<times> 'a sec_state_scheme" where
  "sec_int_get_time e s = (let s1 = emit UptimeGet s in (uptime e (io s1), s1))"

definition sec_hc_reset_drng_state :: "'a sec_state_scheme \<Rightarrow> 'a sec_state_scheme" where
  "sec_hc_reset_drng_state s =
     s\<lparr>is_1st_drng_rd := False, is_not_1st_hw_poll := False, entropy_state := False, drng_prev := drng_prev s AND 0\<rparr>"

definition APP_MINI_LOOP_TIME :: nat where "APP_MINI_LOOP_TIME = 1000"

text \<open>The loop of \<^verbatim>\<open>sec_int_start\<close>, which ends with the last time read; it need not end.\<close>

partial_function (option) start_loop ::
    "sec_env \<Rightarrow> u32 \<Rightarrow> u32 \<Rightarrow> u32 \<Rightarrow> nat \<Rightarrow> 'a sec_state_scheme \<Rightarrow> (u32 \<times> 'a sec_state_scheme) option" where
  "start_loop e timeout prev_time cur_time counter s =
     (if cur_time - prev_time < timeout
      then let counter' = (if counter < 5 then counter + 1 else 0);
               s1 = (if counter < 5 then s else emit (KSleep APP_MINI_LOOP_TIME) (emit KYield s));
               s2 = (if init_flag_raised e (io s1) then s1\<lparr>sec_int_start_init_flag := 1\<rparr> else s1)
           in if sec_int_start_init_flag s2 \<noteq> 0 then Some (cur_time, s2)
              else let (now, s3) = sec_int_get_time e s2
                   in start_loop e timeout prev_time now counter' s3
      else Some (cur_time, s))"

definition sec_int_start :: "sec_env \<Rightarrow> u32 \<Rightarrow> 'a sec_state_scheme \<Rightarrow> (u32 \<times> 'a sec_state_scheme) option" where
  "sec_int_start e timeout s =
     (let (prev_time, s1) = sec_int_get_time e (sec_hc_reset_drng_state s)
      in do {
           (cur_time, s2) \<leftarrow> start_loop e timeout prev_time prev_time 0 s1;
           Some (if timeout < cur_time - prev_time then SEC_FAILED else SEC_SUCCESS, s2)
         })"

section \<open>Random words\<close>

definition SEC_DRNG_EGETDATA24_REG_ADDR :: u32 where "SEC_DRNG_EGETDATA24_REG_ADDR = 0x54"
definition SEC_DRNG_EGETDATA24_SIZE_BITS :: u32 where "SEC_DRNG_EGETDATA24_SIZE_BITS = 24"

text \<open>\<open>sb_drng\<close>: the port is that of the generator, the only one accepted; the value read when there is one.\<close>

definition sec_int_read_iosf_sb ::
    "sec_env \<Rightarrow> bool \<Rightarrow> u32 \<Rightarrow> 'a sec_state_scheme \<Rightarrow> u32 \<times> u32 option \<times> 'a sec_state_scheme" where
  "sec_int_read_iosf_sb e sb_drng addr s =
     (if \<not> sb_drng then (SEC_FAILED_INVALID_PARAM, None, s)
      else let s1 = emit (SidebandRead addr) s
           in if sideband_send_ret e (io s1) \<noteq> 0 then (SEC_FAILED, None, s1)
              else let (ret, read_val) = sideband_ack e (io s1)
                   in if ret \<noteq> 0 then (SEC_FAILED, None, s1) else (SEC_SUCCESS, Some read_val, s1))"

text \<open>Opening, polling and closing the sideband always succeed.\<close>

definition sec_int_open_iosf_sb :: u32 where "sec_int_open_iosf_sb = SEC_SUCCESS"
definition sec_int_check_iosf_sb_ready :: u32 where "sec_int_check_iosf_sb_ready = SEC_SUCCESS"
definition sec_int_close_iosf_sb :: u32 where "sec_int_close_iosf_sb = SEC_SUCCESS"

definition sec_int_get_rand_num ::
    "sec_env \<Rightarrow> u32 \<Rightarrow> 'a sec_state_scheme \<Rightarrow> u32 \<times> u32 option \<times> 'a sec_state_scheme" where
  "sec_int_get_rand_num e size_in_bit s =
     (if size_in_bit \<noteq> SEC_DRNG_EGETDATA24_SIZE_BITS then (SEC_FAILED, None, s)
      else if sec_int_open_iosf_sb \<noteq> SEC_SUCCESS then (sec_int_open_iosf_sb, None, s)
      else let (result, v, s1) = sec_int_read_iosf_sb e True SEC_DRNG_EGETDATA24_REG_ADDR s
           in if result \<noteq> SEC_SUCCESS then (result, v, s1) else (sec_int_close_iosf_sb, v, s1))"

section \<open>The nonce challenge\<close>

definition SEC_NONCE_DENC_BUFFER_SIZE :: nat where "SEC_NONCE_DENC_BUFFER_SIZE = 128"
definition SEC_NONCE_DENC_TIMEOUT_IN_S :: u32 where "SEC_NONCE_DENC_TIMEOUT_IN_S = 30"

text \<open>\<open>nonce\<close> is the caller's variable.\<close>

definition sec_int_get_nonce ::
    "sec_env \<Rightarrow> u32 \<Rightarrow> u32 \<Rightarrow> 'a sec_state_scheme \<Rightarrow> (u32 \<times> u32 \<times> 'a sec_state_scheme) option" where
  "sec_int_get_nonce e nonce tran_id s =
     (let s1 = sec_int_lock_ctx_mutex s
      in if tran_id < sec_int ''tran_id'' s1 then Some (SEC_FAILED_INVALID_PARAM, nonce, s1)
         else do {
           s2 \<leftarrow> sec_write ''tran_id'' (le32 tran_id) s1;
           let (result, v, s3) = sec_int_get_rand_num e SEC_DRNG_EGETDATA24_SIZE_BITS s2;
           let nonce' = (case v of None \<Rightarrow> nonce | Some w \<Rightarrow> w);
           s4 \<leftarrow> sec_write ''nonce'' (le32 nonce') s3;
           let (time_in_s, s5) = sec_int_get_time e s4;
           s6 \<leftarrow> sec_write ''nonce_time_s'' (le32 time_in_s) s5;
           Some (result, nonce', sec_int_unlock_ctx_mutex s6)
         })"

definition sec_int_check_nonce ::
    "sec_env \<Rightarrow> u8 list \<Rightarrow> u8 list \<Rightarrow> u8 list \<Rightarrow> u32 \<Rightarrow> 'a sec_state_scheme \<Rightarrow> (u32 \<times> 'a sec_state_scheme) option" where
  "sec_int_check_nonce e data iv tag tran_id s =
     (let s1 = sec_int_lock_ctx_mutex s
      in if tran_id \<noteq> sec_int ''tran_id'' s1 then Some (SEC_FAILED_INVALID_PARAM, sec_int_unlock_ctx_mutex s1)
         else do {
           (result, k, s2) \<leftarrow> sec_int_get_own_pub_key e (sec_int_unlock_ctx_mutex s1);
           if result \<noteq> SEC_SUCCESS then Some (result, s2)
           else case k of
                  None \<Rightarrow> None
                | Some key \<Rightarrow>
                    if SEC_OWN_PUB_KEY_LEN < length key then None
                    else if gcm_setkey e key \<noteq> 0 then Some (SEC_FAILED, s2)
                    else if SEC_NONCE_DENC_BUFFER_SIZE < length data then None
                    else let (ret, decrypted) = gcm_decrypt e key iv tag data
                         in if ret \<noteq> 0 then Some (SEC_FAILED, s2)
                            else if length decrypted < 4 then None
                            else let s3 = sec_int_lock_ctx_mutex s2
                                 in if sec_int ''nonce'' s3 \<noteq> get32 decrypted 0
                                    then Some (SEC_FAILED, sec_int_unlock_ctx_mutex s3)
                                    else let (time_in_s, s4) = sec_int_get_time e s3
                                         in if SEC_NONCE_DENC_TIMEOUT_IN_S < time_in_s - sec_int ''nonce_time_s'' s4
                                            then Some (SEC_FAILED_OOB_TIMEOUT, sec_int_unlock_ctx_mutex s4)
                                            else Some (result, sec_int_unlock_ctx_mutex s4)
         })"

section \<open>The entropy source\<close>

definition sec_hc_get_entropy_state :: "'a sec_state_scheme \<Rightarrow> bool" where
  "sec_hc_get_entropy_state s = entropy_state s"

definition RETRY :: int where "RETRY = 2"
definition SEC_BYTE012_SET_MSK :: u32 where "SEC_BYTE012_SET_MSK = 0x00FFFFFF"

text \<open>How a pass over the requested bytes ends: \<^verbatim>\<open>return SEC_FAILED\<close>, \<^verbatim>\<open>goto retry\<close> or at the end of the loop.\<close>

datatype poll_end = PollFailed | PollRetry | PollDone

text \<open>A repeated word: one attempt less.\<close>

definition poll_repeated :: "int \<Rightarrow> 'a sec_state_scheme \<Rightarrow> poll_end \<times> int \<times> 'a sec_state_scheme" where
  "poll_repeated attempt s =
     (if attempt - 1 \<le> 0 then (PollFailed, attempt - 1, s\<lparr>is_1st_drng_rd := False, entropy_state := False\<rparr>)
      else (PollRetry, attempt - 1, s\<lparr>is_1st_drng_rd := False\<rparr>))"

text \<open>Steps B to E: a new word, or the end of the pass.\<close>

definition poll_word ::
    "sec_env \<Rightarrow> u32 \<Rightarrow> int \<Rightarrow> 'a sec_state_scheme
     \<Rightarrow> (poll_end \<times> int \<times> 'a sec_state_scheme) + (u32 \<times> 'a sec_state_scheme)" where
  "poll_word e buf attempt s =
     (let (result, v, s1) = sec_int_get_rand_num e SEC_DRNG_EGETDATA24_SIZE_BITS s
      in if result = SEC_FAILED then Inl (PollFailed, attempt, s1)
         else let w = (case v of None \<Rightarrow> buf | Some w \<Rightarrow> w) AND SEC_BYTE012_SET_MSK
              in if \<not> is_1st_drng_rd s1 \<and> is_not_1st_hw_poll s1 \<and> drng_prev s1 XOR w = 0
                 then Inl (poll_repeated attempt s1)
                 else if \<not> is_1st_drng_rd s1 then Inr (w, s1\<lparr>drng_prev := w, is_1st_drng_rd := True\<rparr>)
                 else if drng_prev s1 XOR w \<noteq> 0 then Inr (w, s1\<lparr>drng_prev := w, is_1st_drng_rd := True\<rparr>)
                 else Inl (poll_repeated attempt s1))"

text \<open>Step A: the loop over the bytes; \<open>pos\<close> is \<^verbatim>\<open>hw_entropy_byte_pos\<close>.\<close>

fun poll_bytes ::
    "sec_env \<Rightarrow> nat list \<Rightarrow> u32 \<Rightarrow> nat \<Rightarrow> int \<Rightarrow> u8 list \<Rightarrow> 'a sec_state_scheme
     \<Rightarrow> poll_end \<times> int \<times> u8 list \<times> 'a sec_state_scheme" where
  "poll_bytes e [] buf pos attempt output s = (PollDone, attempt, output, s)"
| "poll_bytes e (i # is) buf pos attempt output s =
     (if 2 < pos
      then case poll_word e buf attempt s of
             Inl (r, attempt', s1) \<Rightarrow> (r, attempt', output, s1)
           | Inr (w, s1) \<Rightarrow> poll_bytes e is (drop_bit 8 w) 1 attempt (output[i := ucast w]) s1
      else poll_bytes e is (drop_bit 8 buf) (pos + 1) attempt (output[i := ucast buf]) s)"

text \<open>The retry loop and the result: code, buffer, \<^verbatim>\<open>*olen\<close>.\<close>

partial_function (option) poll_loop ::
    "sec_env \<Rightarrow> nat \<Rightarrow> int \<Rightarrow> u8 list \<Rightarrow> 'a sec_state_scheme
     \<Rightarrow> (u32 \<times> u8 list \<times> nat option \<times> 'a sec_state_scheme) option" where
  "poll_loop e len attempt output s =
     (case poll_bytes e [0..<len] 0 3 attempt output s of
        (r, attempt', output', s1) \<Rightarrow>
          if r = PollFailed then Some (SEC_FAILED, output', None, s1)
          else let attempt'' = (if attempt' = 2 then 0 else attempt')
               in if 0 < attempt'' then poll_loop e len attempt'' output' s1
                  else Some (SEC_SUCCESS, output', Some len,
                         s1\<lparr>entropy_state := True, is_1st_drng_rd := False, is_not_1st_hw_poll := True\<rparr>))"

definition mbedtls_hardware_poll ::
    "sec_env \<Rightarrow> u8 list \<Rightarrow> nat \<Rightarrow> 'a sec_state_scheme
     \<Rightarrow> (u32 \<times> u8 list \<times> nat option \<times> 'a sec_state_scheme) option" where
  "mbedtls_hardware_poll e output len s =
     (if length output < len then None else poll_loop e len RETRY output s)"

section \<open>What the entropy source delivers\<close>

text \<open>The outcome of the read number \<open>k\<close> after the log \<open>l\<close>: whether it works, and the word.\<close>

definition drng_log :: "io_log \<Rightarrow> nat \<Rightarrow> io_log" where
  "drng_log l k = l @ replicate k (SidebandRead SEC_DRNG_EGETDATA24_REG_ADDR)"

definition drng_alive :: "sec_env \<Rightarrow> io_log \<Rightarrow> nat \<Rightarrow> bool" where
  "drng_alive e l k \<longleftrightarrow> sideband_send_ret e (drng_log l (Suc k)) = 0 \<and> fst (sideband_ack e (drng_log l (Suc k))) = 0"

definition drng_word :: "sec_env \<Rightarrow> io_log \<Rightarrow> nat \<Rightarrow> u32" where
  "drng_word e l k = snd (sideband_ack e (drng_log l (Suc k))) AND SEC_BYTE012_SET_MSK"

text \<open>The word differs from the one before it; the first one counts as new after a start.\<close>

definition drng_fresh :: "sec_env \<Rightarrow> 'a sec_state_scheme \<Rightarrow> nat \<Rightarrow> bool" where
  "drng_fresh e s k \<longleftrightarrow>
     (if k = 0 then is_1st_drng_rd s \<or> is_not_1st_hw_poll s \<longrightarrow> drng_word e (io s) 0 \<noteq> drng_prev s
      else drng_word e (io s) k \<noteq> drng_word e (io s) (k - 1))"

definition drng_good :: "sec_env \<Rightarrow> 'a sec_state_scheme \<Rightarrow> nat \<Rightarrow> bool" where
  "drng_good e s k \<longleftrightarrow> drng_alive e (io s) k \<and> drng_fresh e s k"

definition drng_byte :: "sec_env \<Rightarrow> io_log \<Rightarrow> nat \<Rightarrow> u8" where
  "drng_byte e l i = ucast (drop_bit (8 * (i mod 3)) (drng_word e l (i div 3)))"

text \<open>The state after \<open>c\<close> good words.\<close>

definition drng_after :: "sec_env \<Rightarrow> 'a sec_state_scheme \<Rightarrow> nat \<Rightarrow> 'a sec_state_scheme" where
  "drng_after e s c =
     (if c = 0 then s
      else s\<lparr>io := drng_log (io s) c, drng_prev := drng_word e (io s) (c - 1), is_1st_drng_rd := True\<rparr>)"

lemma drng_log_simps [simp]: "drng_log l 0 = l"
  "drng_log l k @ [SidebandRead SEC_DRNG_EGETDATA24_REG_ADDR] = drng_log l (Suc k)"
  by (simp_all add: drng_log_def replicate_append_same)

lemma drng_after_simps [simp]:
  "io (drng_after e s c) = drng_log (io s) c"
  "is_not_1st_hw_poll (drng_after e s c) = is_not_1st_hw_poll s"
  "is_1st_drng_rd (drng_after e s c) = (0 < c \<or> is_1st_drng_rd s)"
  "drng_prev (drng_after e s c) = (if c = 0 then drng_prev s else drng_word e (io s) (c - 1))"
  by (simp_all add: drng_after_def)

lemma get_rand_num_result:
  "sec_int_get_rand_num e SEC_DRNG_EGETDATA24_SIZE_BITS s =
     (let s1 = emit (SidebandRead SEC_DRNG_EGETDATA24_REG_ADDR) s
      in if sideband_send_ret e (io s1) = 0 \<and> fst (sideband_ack e (io s1)) = 0
         then (SEC_SUCCESS, Some (snd (sideband_ack e (io s1))), s1) else (SEC_FAILED, None, s1))"
  by (auto simp: sec_int_get_rand_num_def sec_int_open_iosf_sb_def sec_int_close_iosf_sb_def
      sec_int_read_iosf_sb_def Let_def split: prod.split)

lemma xor_zero [simp]: "a XOR b = 0 \<longleftrightarrow> a = b" for a b :: u32
  by (metis xor.assoc xor.left_neutral xor.right_neutral xor_self_eq)

lemma poll_word_good:
  assumes "drng_good e s c"
  shows "poll_word e buf attempt (drng_after e s c) = Inr (drng_word e (io s) c, drng_after e s (Suc c))"
proof -
  let ?t = "emit (SidebandRead SEC_DRNG_EGETDATA24_REG_ADDR) (drng_after e s c)"
  have "?t\<lparr>drng_prev := drng_word e (io s) c, is_1st_drng_rd := True\<rparr> = drng_after e s (Suc c)"
    by (simp add: emit_def drng_after_def drng_log_def replicate_append_same)
  moreover have "\<not> (\<not> is_1st_drng_rd ?t \<and> is_not_1st_hw_poll ?t \<and> drng_prev ?t = drng_word e (io s) c)"
    "is_1st_drng_rd ?t \<Longrightarrow> drng_prev ?t \<noteq> drng_word e (io s) c"
    using assms by (auto simp: drng_good_def drng_fresh_def emit_def split: if_splits)
  ultimately show ?thesis
    using assms
    by (auto simp: poll_word_def get_rand_num_result drng_good_def drng_alive_def Let_def SEC_SUCCESS_def SEC_FAILED_def
        simp flip: drng_word_def)
qed

lemma poll_word_bad:
  assumes "\<not> drng_good e s c"
  shows "\<exists>r a t. poll_word e buf attempt (drng_after e s c) = Inl (r, a, t) \<and> r \<noteq> PollDone"
proof -
  let ?t = "emit (SidebandRead SEC_DRNG_EGETDATA24_REG_ADDR) (drng_after e s c)"
  show ?thesis
  proof (cases "drng_alive e (io s) c")
    case False
    then show ?thesis
      by (auto simp: poll_word_def get_rand_num_result drng_alive_def Let_def)
  next
    case True
    with assms have "\<not> drng_fresh e s c" by (simp add: drng_good_def)
    then have "drng_prev ?t = drng_word e (io s) c" "is_1st_drng_rd ?t \<or> is_not_1st_hw_poll ?t"
      by (auto simp: drng_fresh_def emit_def split: if_splits)
    with True show ?thesis
      by (auto simp: poll_word_def get_rand_num_result drng_alive_def Let_def SEC_SUCCESS_def SEC_FAILED_def
          poll_repeated_def simp flip: drng_word_def)
  qed
qed

text \<open>One pass: it ends normally exactly if all words needed are good, and then delivers their bytes.\<close>

definition words_for :: "nat \<Rightarrow> nat" where
  "words_for n = (n + 2) div 3"

lemma words_for_Suc: "words_for (Suc i) = (if i mod 3 = 0 then Suc (words_for i) else words_for i)"
  "i mod 3 = 0 \<Longrightarrow> words_for i = i div 3"
  "i < n \<Longrightarrow> i mod 3 = 0 \<Longrightarrow> words_for i < words_for n"
  unfolding words_for_def by presburger+

definition drng_fill :: "sec_env \<Rightarrow> io_log \<Rightarrow> nat \<Rightarrow> nat \<Rightarrow> u8 list \<Rightarrow> u8 list" where
  "drng_fill e l i len out = map (\<lambda>j. if i \<le> j \<and> j < len then drng_byte e l j else out ! j) [0..<length out]"

lemma drng_fill_step:
  "i < len \<Longrightarrow> len \<le> length out \<Longrightarrow> drng_fill e l (Suc i) len (out[i := drng_byte e l i]) = drng_fill e l i len out"
  unfolding drng_fill_def by (rule nth_equalityI) (auto simp: nth_list_update)

lemma drng_fill_all: "len \<le> length out \<Longrightarrow> drng_fill e l 0 len out = map (drng_byte e l) [0..<len] @ drop len out"
  unfolding drng_fill_def by (rule nth_equalityI) (auto simp: nth_append)

lemma drng_fill_none [simp]: "drng_fill e l len len out = out"
  unfolding drng_fill_def by (rule nth_equalityI) auto

lemma poll_bytes_pass:
  fixes s :: "'a sec_state_scheme"
  assumes "i \<le> len" "len \<le> length out"
    and "pos = (if i mod 3 = 0 then 3 else i mod 3)"
    and "i mod 3 \<noteq> 0 \<Longrightarrow> buf = drop_bit (8 * (i mod 3)) (drng_word e (io s) (i div 3))"
  shows "if \<forall>k. words_for i \<le> k \<and> k < words_for len \<longrightarrow> drng_good e s k
         then poll_bytes e [i..<len] buf pos attempt out (drng_after e s (words_for i)) =
           (PollDone, attempt, drng_fill e (io s) i len out,
            drng_after e s (words_for len))
         else fst (poll_bytes e [i..<len] buf pos attempt out (drng_after e s (words_for i))) \<noteq> PollDone"
  using assms
proof (induction "len - i" arbitrary: i buf pos out)
  case 0
  then have "i = len" by simp
  then show ?case by simp
next
  case (Suc d)
  then have i: "i < len" "[i..<len] = i # [Suc i..<len]" by (simp_all add: upt_conv_Cons)
  let ?s = "drng_after e s (words_for i)"
  have d: "d = len - Suc i" using Suc.hyps(2) by simp
  note upd = drng_fill_step [of i len out e "io s", OF i(1) Suc.prems(2)]
  show ?case
  proof (cases "i mod 3 = 0")
    case True
    show ?thesis
    proof (cases "drng_good e s (words_for i)")
      case good: True
      have b: "drng_byte e (io s) i = ucast (drng_word e (io s) (words_for i))"
        using True by (simp add: drng_byte_def words_for_Suc(2))
      have buf: "Suc i mod 3 = 1" "Suc i div 3 = words_for i"
        using True words_for_Suc(2) [OF True] by presburger+
      have IH: "if \<forall>k. Suc (words_for i) \<le> k \<and> k < words_for len \<longrightarrow> drng_good e s k
         then poll_bytes e [Suc i..<len] (drop_bit 8 (drng_word e (io s) (words_for i))) 1 attempt
                (out[i := drng_byte e (io s) i]) (drng_after e s (Suc (words_for i))) =
           (PollDone, attempt, drng_fill e (io s) i len out,
            drng_after e s (words_for len))
         else fst (poll_bytes e [Suc i..<len] (drop_bit 8 (drng_word e (io s) (words_for i))) 1 attempt
                (out[i := drng_byte e (io s) i]) (drng_after e s (Suc (words_for i)))) \<noteq> PollDone"
        using Suc.hyps(1) [OF d, of "out[i := drng_byte e (io s) i]" 1 "drop_bit 8 (drng_word e (io s) (words_for i))"]
          Suc.prems(2) i(1) True buf by (simp only: upd words_for_Suc(1)) (auto split: if_split_asm)
      have all: "(\<forall>k. words_for i \<le> k \<and> k < words_for len \<longrightarrow> drng_good e s k)
          = (\<forall>k. Suc (words_for i) \<le> k \<and> k < words_for len \<longrightarrow> drng_good e s k)"
        using good by (metis Suc_leD le_antisym not_less_eq_eq)
      have step: "poll_bytes e [i..<len] buf pos attempt out ?s
          = poll_bytes e [Suc i..<len] (drop_bit 8 (drng_word e (io s) (words_for i))) 1 attempt
                (out[i := drng_byte e (io s) i]) (drng_after e s (Suc (words_for i)))"
        using i(2) Suc.prems(3) True by (simp add: poll_word_good [OF good] b)
      show ?thesis unfolding step all by (rule IH)
    next
      case False
      obtain r a t where "poll_word e buf attempt ?s = Inl (r, a, t)" "r \<noteq> PollDone"
        using poll_word_bad [OF False] by blast
      with False i True Suc.prems(3) words_for_Suc(3) show ?thesis by auto
    qed
  next
    case False
    have m: "i mod 3 = 1 \<and> Suc i mod 3 = 2 \<or> i mod 3 = 2 \<and> Suc i mod 3 = 0"
      "Suc i mod 3 \<noteq> 0 \<Longrightarrow> Suc i div 3 = i div 3 \<and> Suc i mod 3 = Suc (i mod 3)"
      using False by presburger+
    have buf: "buf = drop_bit (8 * (i mod 3)) (drng_word e (io s) (i div 3))" using False Suc.prems(4) by simp
    have b: "ucast buf = drng_byte e (io s) i" by (simp add: buf drng_byte_def)
    have p: "pos + 1 = (if Suc i mod 3 = 0 then 3 else Suc i mod 3)"
      using m(1) Suc.prems(3) False by auto
    have q: "drop_bit 8 buf = drop_bit (8 * (Suc i mod 3)) (drng_word e (io s) (Suc i div 3))" if "Suc i mod 3 \<noteq> 0"
      using m(2) [OF that] by (simp add: buf drop_bit_drop_bit algebra_simps)
    have h1: "Suc i \<le> len" and h2: "len \<le> length (out[i := drng_byte e (io s) i])"
      using i(1) Suc.prems(2) by simp_all
    have w: "words_for (Suc i) = words_for i" using False by (simp add: words_for_Suc(1))
    have IH: "if \<forall>k. words_for i \<le> k \<and> k < words_for len \<longrightarrow> drng_good e s k
       then poll_bytes e [Suc i..<len] (drop_bit 8 buf) (pos + 1) attempt
              (out[i := drng_byte e (io s) i]) ?s =
         (PollDone, attempt, drng_fill e (io s) i len out,
          drng_after e s (words_for len))
       else fst (poll_bytes e [Suc i..<len] (drop_bit 8 buf) (pos + 1) attempt
              (out[i := drng_byte e (io s) i]) ?s) \<noteq> PollDone"
      by (rule Suc.hyps(1) [OF d h1 h2 p, unfolded upd w]) (rule q)
    have "pos \<le> 2" using m(1) Suc.prems(3) False by auto
    then have step: "poll_bytes e [i..<len] buf pos attempt out ?s
        = poll_bytes e [Suc i..<len] (drop_bit 8 buf) (pos + 1) attempt (out[i := drng_byte e (io s) i]) ?s"
      using i(2) by (simp add: b)
    show ?thesis unfolding step by (rule IH)
  qed
qed

text \<open>Once an attempt is used up, no pass leads to success.\<close>

lemma poll_bytes_attempt:
  "poll_bytes e is buf pos attempt out s = (r, a, out', s') \<Longrightarrow>
   (r = PollDone \<longrightarrow> a = attempt) \<and> (r = PollRetry \<longrightarrow> a = attempt - 1 \<and> 0 < a)"
proof (induction "is" arbitrary: buf pos out s)
  case Nil
  then show ?case by simp
next
  case (Cons i "is")
  have "r \<noteq> PollDone \<and> (r = PollRetry \<longrightarrow> a = attempt - 1 \<and> 0 < a)"
    if "poll_word e buf attempt s = Inl (r, a, s')"
    using that by (auto simp: poll_word_def poll_repeated_def Let_def split: prod.splits if_splits)
  with Cons show ?case by (auto split: if_splits sum.splits)
qed

lemma poll_loop_last_attempt:
  assumes "poll_loop e len a out s = Some y"
  shows "a = 1 \<longrightarrow> fst y = SEC_FAILED"
proof (rule poll_loop.raw_induct [OF _ assms])
  fix f e len a out and s :: "'a sec_state_scheme" and y
  assume IH: "\<And>e len a out (s :: 'a sec_state_scheme) y. f e len a out s = Some y \<Longrightarrow> a = 1 \<longrightarrow> fst y = SEC_FAILED"
    and step: "(case poll_bytes e [0..<len] 0 3 a out s of
        (r, attempt', output', s1) \<Rightarrow>
          if r = PollFailed then Some (SEC_FAILED, output', None, s1)
          else let attempt'' = (if attempt' = 2 then 0 else attempt')
               in if 0 < attempt'' then f e len attempt'' output' s1
                  else Some (SEC_SUCCESS, output', Some len,
                         s1\<lparr>entropy_state := True, is_1st_drng_rd := False, is_not_1st_hw_poll := True\<rparr>)) = Some y"
  obtain r a' out' s1 where pb: "poll_bytes e [0..<len] 0 3 a out s = (r, a', out', s1)"
    by (metis prod_cases4)
  have "fst y = SEC_FAILED" if "a = 1"
  proof (cases "r = PollFailed")
    case True
    with step pb show ?thesis by auto
  next
    case False
    with poll_bytes_attempt [OF pb] \<open>a = 1\<close> have "a' = 1" by (cases r) auto
    with step pb False IH show ?thesis by auto
  qed
  then show "a = 1 \<longrightarrow> fst y = SEC_FAILED" by blast
qed

text \<open>The source succeeds exactly if all words needed are good, and delivers their bytes.\<close>

lemma hardware_poll_good:
  assumes "len \<le> length out" "\<forall>k < words_for len. drng_good e s k"
  shows "mbedtls_hardware_poll e out len s =
    Some (SEC_SUCCESS, map (drng_byte e (io s)) [0..<len] @ drop len out, Some len,
      (drng_after e s (words_for len))\<lparr>entropy_state := True, is_1st_drng_rd := False, is_not_1st_hw_poll := True\<rparr>)"
proof -
  have "poll_bytes e [0..<len] 0 3 RETRY out s =
      (PollDone, RETRY, map (drng_byte e (io s)) [0..<len] @ drop len out, drng_after e s (words_for len))"
    using poll_bytes_pass [of 0 len out 3 0 e s RETRY] assms drng_fill_all [OF assms(1)]
    by (simp add: words_for_def drng_after_def)
  then show ?thesis
    using assms(1) by (simp add: mbedtls_hardware_poll_def RETRY_def poll_loop.simps [of _ _ 2])
qed

lemma hardware_poll_bad:
  assumes "len \<le> length out" "k < words_for len" "\<not> drng_good e s k"
    and "mbedtls_hardware_poll e out len s = Some y"
  shows "fst y = SEC_FAILED"
proof -
  obtain r a out' s1 where pb: "poll_bytes e [0..<len] 0 3 RETRY out s = (r, a, out', s1)"
    by (metis prod_cases4)
  have "r \<noteq> PollDone"
    using poll_bytes_pass [of 0 len out 3 0 e s RETRY] assms(1-3) pb
    by (auto simp: words_for_def drng_after_def split: if_splits)
  then consider "r = PollFailed" | "r = PollRetry" by (cases r) auto
  then show ?thesis
  proof cases
    case 1
    with assms(1,4) pb show ?thesis
      by (auto simp: mbedtls_hardware_poll_def poll_loop.simps [of _ _ RETRY] split: if_splits)
  next
    case 2
    with poll_bytes_attempt [OF pb] have "a = 1" by (simp add: RETRY_def)
    with 2 assms(1,4) pb have "poll_loop e len 1 out' s1 = Some y"
      by (auto simp: mbedtls_hardware_poll_def poll_loop.simps [of _ _ RETRY] split: if_splits)
    then show ?thesis using poll_loop_last_attempt by blast
  qed
qed

section \<open>The wait for the handshake\<close>

text \<open>The loop ends with the flag set within the time, or with the time used up.\<close>

definition loop_ended :: "sec_env \<Rightarrow> u32 \<Rightarrow> u32 \<Rightarrow> u32 \<times> 'a sec_state_scheme \<Rightarrow> bool" where
  "loop_ended e timeout prev y =
     (case y of (t, s') \<Rightarrow> if sec_int_start_init_flag s' \<noteq> 0 then t - prev \<le> timeout
                        else timeout \<le> t - prev \<and> t = uptime e (io s'))"

text \<open>What holds whenever the loop tests the time: a flag that is set was set before the first test.\<close>

definition loop_head :: "sec_env \<Rightarrow> u32 \<Rightarrow> u32 \<Rightarrow> u32 \<Rightarrow> 'a sec_state_scheme \<Rightarrow> bool" where
  "loop_head e timeout prev cur s \<longleftrightarrow>
     cur = uptime e (io s) \<and> (sec_int_start_init_flag s \<noteq> 0 \<longrightarrow> cur - prev \<le> timeout)"

lemma start_loop_result:
  assumes "start_loop e timeout prev cur counter s = Some y"
  shows "loop_head e timeout prev cur s \<longrightarrow> loop_ended e timeout prev y"
proof (rule start_loop.raw_induct [OF _ assms])
  fix f e and timeout prev cur :: u32 and counter :: nat and s :: "'a sec_state_scheme" and y
  assume IH: "\<And>e (timeout :: u32) (prev :: u32) (cur :: u32) (counter :: nat) (s :: 'a sec_state_scheme) y.
      f e timeout prev cur counter s = Some y \<Longrightarrow> loop_head e timeout prev cur s \<longrightarrow> loop_ended e timeout prev y"
    and step: "(if cur - prev < timeout
      then let counter' = (if counter < 5 then counter + 1 else 0);
               s1 = (if counter < 5 then s else emit (KSleep APP_MINI_LOOP_TIME) (emit KYield s));
               s2 = (if init_flag_raised e (io s1) then s1\<lparr>sec_int_start_init_flag := 1\<rparr> else s1)
           in if sec_int_start_init_flag s2 \<noteq> 0 then Some (cur, s2)
              else let (now, s3) = sec_int_get_time e s2
                   in f e timeout prev now counter' s3
      else Some (cur, s)) = Some y"
  show "loop_head e timeout prev cur s \<longrightarrow> loop_ended e timeout prev y"
  proof (cases "cur - prev < timeout")
    case True
    then show ?thesis
      using step IH
      by (auto simp: Let_def sec_int_get_time_def loop_ended_def loop_head_def emit_def split: if_split_asm prod.splits)
  next
    case False
    then have "y = (cur, s)" using step by simp
    then show ?thesis using False by (auto simp: not_less loop_ended_def loop_head_def)
  qed
qed

text \<open>It ends if the clock passes the limit after finitely many events.\<close>

lemma start_loop_returns:
  assumes "\<And>l. N \<le> length l \<Longrightarrow> timeout \<le> uptime e l - prev"
  shows "\<exists>y. start_loop e timeout prev cur counter s = Some y"
proof (induction "N - length (io s)" arbitrary: s cur counter rule: less_induct)
  case less
  let ?s1 = "if counter < 5 then s else emit (KSleep APP_MINI_LOOP_TIME) (emit KYield s)"
  let ?s2 = "if init_flag_raised e (io ?s1) then ?s1\<lparr>sec_int_start_init_flag := 1\<rparr> else ?s1"
  let ?s3 = "emit UptimeGet ?s2"
  let ?c = "if counter < 5 then counter + 1 else 0"
  have len: "length (io s) < length (io ?s3)" by (auto simp: emit_def)
  have "\<exists>y. start_loop e timeout prev (uptime e (io ?s3)) ?c ?s3 = Some y"
  proof (cases "N \<le> length (io ?s3)")
    case True
    with assms have "\<not> uptime e (io ?s3) - prev < timeout" by (simp add: not_less)
    then show ?thesis by (subst start_loop.simps) simp
  next
    case False
    with len show ?thesis by (intro less) linarith
  qed
  then show ?case
    by (subst start_loop.simps) (auto simp: Let_def sec_int_get_time_def)
qed

section \<open>The nonce\<close>

text \<open>A request with an old transaction number returns with the mutex held.\<close>

lemma get_nonce_old_tran:
  assumes "tran_id < sec_int ''tran_id'' s"
  shows "sec_int_get_nonce e nonce tran_id s = Some (SEC_FAILED_INVALID_PARAM, nonce, sec_int_lock_ctx_mutex s)"
  using assms by (simp add: sec_int_get_nonce_def Let_def sec_int_lock_ctx_mutex_def sec_int_def)

end
