(* ===== verification/Oob_Client.thy ===== *)
theory Oob_Client
  imports Oob_Entropy "HOL-Library.While_Combinator"
begin

text \<open>
  The HECI client of the security context (\<^verbatim>\<open>sec_bios_ipc/pse_oob_sec_heci_client.c\<close>): commands of
  the system firmware with typed data items, key derivation, encryption of the credentials
  and the choice of the seed.  \<open>None\<close> stands for an access outside an object; the loop over the
  data items is kept apart because it need not end.
\<close>

section \<open>Headers\<close>

record sec_hc_cmd_hdr =
  hc_msg_comp :: "1 word"
  hc_rsvd :: "2 word"
  hc_status :: "1 word"
  hc_protocol_ver :: "4 word"
  hc_source :: "4 word"
  hc_length :: "12 word"
  hc_command :: "8 word"

definition dec_cmd_hdr :: "u32 \<Rightarrow> sec_hc_cmd_hdr" where
  "dec_cmd_hdr w = \<lparr>hc_msg_comp = ucast w, hc_rsvd = ucast (drop_bit 1 w), hc_status = ucast (drop_bit 3 w),
     hc_protocol_ver = ucast (drop_bit 4 w), hc_source = ucast (drop_bit 8 w), hc_length = ucast (drop_bit 12 w),
     hc_command = ucast (drop_bit 24 w)\<rparr>"

definition enc_cmd_hdr :: "sec_hc_cmd_hdr \<Rightarrow> u32" where
  "enc_cmd_hdr h = ucast (hc_msg_comp h) OR push_bit 1 (ucast (hc_rsvd h)) OR push_bit 3 (ucast (hc_status h))
     OR push_bit 4 (ucast (hc_protocol_ver h)) OR push_bit 8 (ucast (hc_source h))
     OR push_bit 12 (ucast (hc_length h)) OR push_bit 24 (ucast (hc_command h))"

record sec_hc_cmd_data_hdr =
  hd_type :: u8
  hd_length :: "12 word"
  hd_rsvd :: "12 word"

definition dec_data_hdr :: "u32 \<Rightarrow> sec_hc_cmd_data_hdr" where
  "dec_data_hdr w = \<lparr>hd_type = ucast w, hd_length = ucast (drop_bit 8 w), hd_rsvd = ucast (drop_bit 20 w)\<rparr>"

definition enc_data_hdr :: "sec_hc_cmd_data_hdr \<Rightarrow> u32" where
  "enc_data_hdr h = ucast (hd_type h) OR push_bit 8 (ucast (hd_length h)) OR push_bit 20 (ucast (hd_rsvd h))"

datatype sec_hc_cmd_data_type =
    SEC_HC_TYPE_STATUS | SEC_HC_TYPE_ROOTCA | SEC_HC_TYPE_256_OWN_PUB_KEY | SEC_HC_TYPE_HKDF_32B_PSE_SALT
  | SEC_HC_TYPE_DENC_TOK_ID | SEC_HC_TYPE_DENC_DEV_ID
  | SEC_HC_TYPE_ENC_TOK_ID | SEC_HC_TYPE_ENC_TOK_ID_TAG | SEC_HC_TYPE_ENC_TOK_ID_IV
  | SEC_HC_TYPE_ENC_DEV_ID | SEC_HC_TYPE_ENC_DEV_ID_TAG | SEC_HC_TYPE_ENC_DEV_ID_IV
  | SEC_HC_TYPE_CLD_URL | SEC_HC_TYPE_CLD_PORT | SEC_HC_TYPE_PXY_URL | SEC_HC_TYPE_PXY_PORT | SEC_HC_TYPE_PROV_STATE
  | SEC_HC_TYPE_PSE_SEED_1 | SEC_HC_TYPE_PSE_SEED_2 | SEC_HC_TYPE_PSE_SEED_3 | SEC_HC_TYPE_PSE_SEED_4
  | SEC_HC_TYPE_CLD_ADAPTER | SEC_HC_TYPE_DENC_MQTT_CLIENT_ID
  | SEC_HC_TYPE_ENC_MQTT_CLIENT_ID | SEC_HC_TYPE_ENC_MQTT_CLIENT_ID_TAG | SEC_HC_TYPE_ENC_MQTT_CLIENT_ID_IV
  | SEC_HC_TYPE_OOB_STATUS | SEC_HC_TYPE_DENC_CLOUD_HASH_ID
  | SEC_HC_TYPE_ENC_CLOUD_HASH_ID | SEC_HC_TYPE_ENC_CLOUD_HASH_ID_TAG | SEC_HC_TYPE_ENC_CLOUD_HASH_ID_IV
  | SEC_HC_TYPE_NORMAL_FLW_SUCCESS | SEC_HC_TYPE_NORMAL_FLW_HASH_ERR | SEC_HC_TYPE_NORMAL_FLW_REPROV_REQ
  | SEC_HC_TYPE_NORMAL_FLW_DATA_ERR

text \<open>The values of the enumeration.\<close>

definition data_type_codes :: "(u8 \<times> sec_hc_cmd_data_type) list" where
  "data_type_codes =
     [(0x00, SEC_HC_TYPE_STATUS), (0x01, SEC_HC_TYPE_ROOTCA), (0x02, SEC_HC_TYPE_256_OWN_PUB_KEY),
      (0x04, SEC_HC_TYPE_HKDF_32B_PSE_SALT), (0x05, SEC_HC_TYPE_DENC_TOK_ID), (0x06, SEC_HC_TYPE_DENC_DEV_ID),
      (0x07, SEC_HC_TYPE_ENC_TOK_ID), (0x08, SEC_HC_TYPE_ENC_TOK_ID_TAG), (0x09, SEC_HC_TYPE_ENC_TOK_ID_IV),
      (0x0A, SEC_HC_TYPE_ENC_DEV_ID), (0x0B, SEC_HC_TYPE_ENC_DEV_ID_TAG), (0x0C, SEC_HC_TYPE_ENC_DEV_ID_IV),
      (0x0D, SEC_HC_TYPE_CLD_URL), (0x0E, SEC_HC_TYPE_CLD_PORT), (0x0F, SEC_HC_TYPE_PXY_URL),
      (0x10, SEC_HC_TYPE_PXY_PORT), (0x11, SEC_HC_TYPE_PROV_STATE), (0x12, SEC_HC_TYPE_PSE_SEED_1),
      (0x13, SEC_HC_TYPE_PSE_SEED_2), (0x14, SEC_HC_TYPE_PSE_SEED_3), (0x15, SEC_HC_TYPE_PSE_SEED_4),
      (0x17, SEC_HC_TYPE_CLD_ADAPTER), (0x18, SEC_HC_TYPE_DENC_MQTT_CLIENT_ID),
      (0x19, SEC_HC_TYPE_ENC_MQTT_CLIENT_ID), (0x1A, SEC_HC_TYPE_ENC_MQTT_CLIENT_ID_TAG),
      (0x1B, SEC_HC_TYPE_ENC_MQTT_CLIENT_ID_IV), (0x1C, SEC_HC_TYPE_OOB_STATUS),
      (0x1D, SEC_HC_TYPE_DENC_CLOUD_HASH_ID), (0x1E, SEC_HC_TYPE_ENC_CLOUD_HASH_ID),
      (0x1F, SEC_HC_TYPE_ENC_CLOUD_HASH_ID_TAG), (0x20, SEC_HC_TYPE_ENC_CLOUD_HASH_ID_IV),
      (0x21, SEC_HC_TYPE_NORMAL_FLW_SUCCESS), (0x22, SEC_HC_TYPE_NORMAL_FLW_HASH_ERR),
      (0x23, SEC_HC_TYPE_NORMAL_FLW_REPROV_REQ), (0x24, SEC_HC_TYPE_NORMAL_FLW_DATA_ERR)]"

definition data_type_of :: "u8 \<Rightarrow> sec_hc_cmd_data_type option" where
  "data_type_of b = map_of data_type_codes b"

definition data_type_code :: "sec_hc_cmd_data_type \<Rightarrow> u8" where
  "data_type_code t = (case find (\<lambda>p. snd p = t) data_type_codes of None \<Rightarrow> 0 | Some p \<Rightarrow> fst p)"

section \<open>Data items of a command\<close>

text \<open>The results of these functions are of type \<^verbatim>\<open>int\<close>.\<close>

definition HC_SUCCESS :: int where "HC_SUCCESS = 0"
definition HC_FAILED :: int where "HC_FAILED = 1"

definition MAX_CSE_SEED_NO :: nat where "MAX_CSE_SEED_NO = 4"

text \<open>Bytes of the receive buffer, which a copy must not leave.\<close>

definition rx_payload :: "u8 list \<Rightarrow> nat \<Rightarrow> nat \<Rightarrow> u8 list option" where
  "rx_payload buf off n = (if off + n \<le> length buf then Some (take n (drop off buf)) else None)"

definition sec_hc_rel_cse_seed :: "'a sec_state_scheme \<Rightarrow> 'a sec_state_scheme" where
  "sec_hc_rel_cse_seed s =
     s\<lparr>a_cse_seed := fold (\<lambda>i xs. xs[i := None]) [0..<a_cse_seed_no s] (a_cse_seed s), a_cse_seed_no := 0\<rparr>"

definition sec_hc_process_cse_seed ::
    "sec_env \<Rightarrow> u8 list \<Rightarrow> nat \<Rightarrow> nat \<Rightarrow> int \<Rightarrow> 'a sec_state_scheme \<Rightarrow> (int \<times> 'a sec_state_scheme) option" where
  "sec_hc_process_cse_seed e buf off idx data_len s =
     (if int SEC_CSE_SEED_LEN < data_len then Some (HC_FAILED, s)
      else if a_cse_seed s ! idx \<noteq> None then Some (HC_FAILED, s)
      else if \<not> heap_alloc_ok e (io s) SEC_CSE_SEED_LEN then Some (HC_FAILED, s)
      else do {
        seed \<leftarrow> rx_payload buf off SEC_CSE_SEED_LEN;
        Some (HC_SUCCESS, s\<lparr>a_cse_seed := (a_cse_seed s)[idx := Some seed], a_cse_seed_no := a_cse_seed_no s + 1\<rparr>)
      })"

text \<open>The three shapes of a case: a setter of the context, whose result is not looked at; a setter of one word,
  whatever the length; a plain copy behind the protected part, with a limit.\<close>

definition item_set ::
    "(u8 list \<Rightarrow> 'a sec_state_scheme \<Rightarrow> (u32 \<times> 'a sec_state_scheme) option) \<Rightarrow> u8 list \<Rightarrow> nat \<Rightarrow> int
     \<Rightarrow> 'a sec_state_scheme \<Rightarrow> (int \<times> 'a sec_state_scheme) option" where
  "item_set setter buf off data_len s =
     do { data \<leftarrow> rx_payload buf off (nat data_len); (_, s1) \<leftarrow> setter data s; Some (HC_SUCCESS, s1) }"

definition item_set_word ::
    "(u32 \<Rightarrow> 'a sec_state_scheme \<Rightarrow> (u32 \<times> 'a sec_state_scheme) option) \<Rightarrow> u8 list \<Rightarrow> nat
     \<Rightarrow> 'a sec_state_scheme \<Rightarrow> (int \<times> 'a sec_state_scheme) option" where
  "item_set_word setter buf off s =
     do { data \<leftarrow> rx_payload buf off 4; (_, s1) \<leftarrow> setter (get32 data 0) s; Some (HC_SUCCESS, s1) }"

definition item_copy ::
    "string \<Rightarrow> nat option \<Rightarrow> u8 list \<Rightarrow> nat \<Rightarrow> int \<Rightarrow> 'a sec_state_scheme \<Rightarrow> (int \<times> 'a sec_state_scheme) option" where
  "item_copy f limit buf off data_len s =
     (if (case limit of None \<Rightarrow> False | Some n \<Rightarrow> int n < data_len) then Some (HC_FAILED, s)
      else do { data \<leftarrow> rx_payload buf off (nat data_len); s1 \<leftarrow> sec_write f data s; Some (HC_SUCCESS, s1) })"

text \<open>\<open>off\<close> is the position of the item header in the receive buffer.\<close>

definition sec_hc_process_cmd_data_once ::
    "sec_env \<Rightarrow> u8 list \<Rightarrow> nat \<Rightarrow> 'a sec_state_scheme \<Rightarrow> (int \<times> 'a sec_state_scheme) option" where
  "sec_hc_process_cmd_data_once e buf off s =
     (if length buf < off + 4 then None
      else let hdr = dec_data_hdr (get32 buf off); data = off + 4; data_len = uint (hd_length hdr) - 4
      in if data_len \<le> 0 then Some (HC_FAILED, s)
         else case data_type_of (hd_type hdr) of
           Some SEC_HC_TYPE_DENC_MQTT_CLIENT_ID \<Rightarrow> item_set (sec_int_set_mqtt_client_id e) buf data data_len s
         | Some SEC_HC_TYPE_ENC_MQTT_CLIENT_ID \<Rightarrow>
             item_copy ''a_enc_mqtt_client_id'' (Some SEC_MQTT_CLIENT_ID_LEN) buf data data_len s
         | Some SEC_HC_TYPE_ENC_MQTT_CLIENT_ID_TAG \<Rightarrow>
             item_copy ''a_enc_mqtt_client_id_tag'' (Some SEC_ENC_TAG_SIZE) buf data data_len s
         | Some SEC_HC_TYPE_ENC_MQTT_CLIENT_ID_IV \<Rightarrow>
             item_copy ''a_enc_mqtt_client_id_iv'' (Some SEC_ENC_IV_SIZE) buf data data_len s
         | Some SEC_HC_TYPE_ROOTCA \<Rightarrow> item_set (sec_int_set_root_ca e) buf data data_len s
         | Some SEC_HC_TYPE_256_OWN_PUB_KEY \<Rightarrow> item_set (sec_int_set_own_pub_key e) buf data data_len s
         | Some SEC_HC_TYPE_HKDF_32B_PSE_SALT \<Rightarrow> item_set (sec_int_set_hkdf_32b_pse_salt e) buf data data_len s
         | Some SEC_HC_TYPE_DENC_TOK_ID \<Rightarrow> item_set (sec_int_set_tok_id e) buf data data_len s
         | Some SEC_HC_TYPE_DENC_DEV_ID \<Rightarrow> item_set (sec_int_set_dev_id e) buf data data_len s
         | Some SEC_HC_TYPE_ENC_TOK_ID \<Rightarrow> item_copy ''a_enc_tok_id'' (Some SEC_TOK_ID_LEN) buf data data_len s
         | Some SEC_HC_TYPE_ENC_TOK_ID_TAG \<Rightarrow> item_copy ''a_enc_tok_id_tag'' (Some SEC_ENC_TAG_SIZE) buf data data_len s
         | Some SEC_HC_TYPE_ENC_TOK_ID_IV \<Rightarrow> item_copy ''a_enc_tok_id_iv'' (Some SEC_ENC_IV_SIZE) buf data data_len s
         | Some SEC_HC_TYPE_ENC_DEV_ID \<Rightarrow> item_copy ''a_enc_dev_id'' (Some SEC_DEV_ID_LEN) buf data data_len s
         | Some SEC_HC_TYPE_ENC_DEV_ID_TAG \<Rightarrow> item_copy ''a_enc_dev_id_tag'' None buf data data_len s
         | Some SEC_HC_TYPE_ENC_DEV_ID_IV \<Rightarrow> item_copy ''a_enc_dev_id_iv'' (Some SEC_ENC_IV_SIZE) buf data data_len s
         | Some SEC_HC_TYPE_CLD_URL \<Rightarrow> item_set (sec_int_set_cld_host_url e) buf data data_len s
         | Some SEC_HC_TYPE_CLD_PORT \<Rightarrow> item_set_word (sec_int_set_cld_host_port e) buf data s
         | Some SEC_HC_TYPE_PXY_URL \<Rightarrow> item_set (sec_int_set_pxy_host_url e) buf data data_len s
         | Some SEC_HC_TYPE_PXY_PORT \<Rightarrow> item_set_word (sec_int_set_pxy_host_port e) buf data s
         | Some SEC_HC_TYPE_CLD_ADAPTER \<Rightarrow> item_set (sec_int_set_cld_adapter e) buf data data_len s
         | Some SEC_HC_TYPE_PROV_STATE \<Rightarrow> item_set_word (sec_int_set_prov_state e) buf data s
         | Some SEC_HC_TYPE_DENC_CLOUD_HASH_ID \<Rightarrow> item_set (sec_int_set_cloud_hash e) buf data data_len s
         | Some SEC_HC_TYPE_ENC_CLOUD_HASH_ID \<Rightarrow>
             item_copy ''a_enc_cloud_hash_id'' (Some SEC_CLOUD_HASH_LEN) buf data data_len s
         | Some SEC_HC_TYPE_ENC_CLOUD_HASH_ID_TAG \<Rightarrow>
             item_copy ''a_enc_cloud_hash_id_tag'' (Some SEC_ENC_TAG_SIZE) buf data data_len s
         | Some SEC_HC_TYPE_ENC_CLOUD_HASH_ID_IV \<Rightarrow>
             item_copy ''a_enc_cloud_hash_id_iv'' (Some SEC_ENC_IV_SIZE) buf data data_len s
         | Some SEC_HC_TYPE_PSE_SEED_1 \<Rightarrow> sec_hc_process_cse_seed e buf data 0 data_len s
         | Some SEC_HC_TYPE_PSE_SEED_2 \<Rightarrow> sec_hc_process_cse_seed e buf data 1 data_len s
         | Some SEC_HC_TYPE_PSE_SEED_3 \<Rightarrow> sec_hc_process_cse_seed e buf data 2 data_len s
         | Some SEC_HC_TYPE_PSE_SEED_4 \<Rightarrow> sec_hc_process_cse_seed e buf data 3 data_len s
         | _ \<Rightarrow> Some (HC_FAILED, s))"

text \<open>
  The loop over the items.  The loop state holds the position of the header, the length left, the
  result of the last item and the state, or \<open>None\<close> after an access outside an object.  The result is \<open>None\<close>
  if the loop does not end.
\<close>

type_synonym 'a item_loop = "(nat \<times> int \<times> int \<times> 'a sec_state_scheme) option"

definition items_left :: "'a item_loop \<Rightarrow> bool" where
  "items_left st = (case st of None \<Rightarrow> False | Some (_, len, _, _) \<Rightarrow> 0 < len)"

definition item_step :: "sec_env \<Rightarrow> u8 list \<Rightarrow> 'a item_loop \<Rightarrow> 'a item_loop" where
  "item_step e buf st =
     do {
       (off, len, _, s) \<leftarrow> st;
       (result, s1) \<leftarrow> sec_hc_process_cmd_data_once e buf off s;
       let n = unat (hd_length (dec_data_hdr (get32 buf off)));
       Some (off + n, len - int n, result, s1)
     }"

definition item_run :: "sec_env \<Rightarrow> u8 list \<Rightarrow> nat \<Rightarrow> int \<Rightarrow> 'a sec_state_scheme \<Rightarrow> 'a item_loop option" where
  "item_run e buf off len s = while_option items_left (item_step e buf) (Some (off, len, HC_SUCCESS, s))"

definition sec_hc_process_cmd_data ::
    "sec_env \<Rightarrow> u8 list \<Rightarrow> nat \<Rightarrow> int \<Rightarrow> 'a sec_state_scheme \<Rightarrow> (int \<times> 'a sec_state_scheme) option" where
  "sec_hc_process_cmd_data e buf req_data req_len s =
     (if req_len \<le> 0 then Some (HC_FAILED, s)
      else do {
        st \<leftarrow> item_run e buf req_data req_len s;
        (_, _, result, s1) \<leftarrow> st;
        Some (result, s1)
      })"

section \<open>Random numbers, keys and encryption\<close>

text \<open>\<^verbatim>\<open>sec_hc_gen_random_num\<close>; the assertion after a failed seed only prints.\<close>

definition sec_hc_gen_random_num :: "sec_env \<Rightarrow> nat \<Rightarrow> 'a sec_state_scheme \<Rightarrow> int \<times> u8 list \<times> 'a sec_state_scheme" where
  "sec_hc_gen_random_num e len s =
     (let s1 = emit (DrbgRandom len) s in (drbg_ret e (io s1), drbg_bytes e (io s1) len, s1))"

text \<open>The key is derived from the fuse, the salt and a label and stored in \<open>key\<close>.\<close>

definition sec_hc_hkdf_key_gen ::
    "sec_env \<Rightarrow> string \<Rightarrow> string \<Rightarrow> 'a sec_state_scheme \<Rightarrow> (int \<times> 'a sec_state_scheme) option" where
  "sec_hc_hkdf_key_gen e label key s =
     do {
       (ret, fuse, s1) \<leftarrow> sec_int_get_pse_32b_fuse (of_nat SEC_FUSE_LEN) s;
       if ret \<noteq> SEC_SUCCESS then Some (uint ret, s1)
       else do {
         (_, v, s2) \<leftarrow> sec_int_get_hkdf_32b_pse_salt e s1;
         let salt = (case v of None \<Rightarrow> replicate SEC_PSE_SALT_LEN 0 | Some bs \<Rightarrow> bs);
         let (ret', okm) = hkdf e salt (case fuse of None \<Rightarrow> replicate SEC_FUSE_LEN 0 | Some bs \<Rightarrow> bs) label;
         s3 \<leftarrow> sec_write key okm s2;
         Some (ret', s3)
       }
     }"

definition sec_hc_encrypt_data_once ::
    "sec_env \<Rightarrow> string \<Rightarrow> u8 list \<Rightarrow> string \<Rightarrow> string \<Rightarrow> string \<Rightarrow> 'a sec_state_scheme
     \<Rightarrow> (int \<times> 'a sec_state_scheme) option" where
  "sec_hc_encrypt_data_once e key clear_text encrypted iv tag s =
     do {
       s1 \<leftarrow> (if sec_hc_get_entropy_state s
              then let (_, rnd, s') = sec_hc_gen_random_num e SEC_ENC_IV_SIZE s in sec_write iv rnd s'
              else sec_write iv (replicate SEC_ENC_IV_SIZE 0) s);
       let k = sec_read key SEC_FUSE_LEN s1;
       if gcm_setkey e k \<noteq> 0 then Some (HC_FAILED, s1)
       else do {
         s2 \<leftarrow> sec_write encrypted (replicate (length clear_text) 0) s1;
         s3 \<leftarrow> sec_write tag (replicate SEC_ENC_TAG_SIZE 0) s2;
         let (ret, c, t) = gcm_encrypt e k (sec_read iv SEC_ENC_IV_SIZE s3) clear_text;
         s4 \<leftarrow> sec_write encrypted c s3;
         s5 \<leftarrow> sec_write tag t s4;
         Some (if ret \<noteq> 0 then HC_FAILED else HC_SUCCESS, s5)
       }
     }"

text \<open>The clear text is the third component.\<close>

definition sec_hc_decrypt_data_once ::
    "sec_env \<Rightarrow> string \<Rightarrow> nat \<Rightarrow> string \<Rightarrow> string \<Rightarrow> string \<Rightarrow> 'a sec_state_scheme \<Rightarrow> int \<times> u8 list" where
  "sec_hc_decrypt_data_once e key len encrypted iv tag s =
     (let k = sec_read key SEC_FUSE_LEN s
      in if gcm_setkey e k \<noteq> 0 then (HC_FAILED, replicate len 0)
         else let (ret, clear_text) = gcm_decrypt e k (sec_read iv SEC_ENC_IV_SIZE s)
                    (sec_read tag SEC_ENC_TAG_SIZE s) (sec_read encrypted len s)
              in (if ret \<noteq> 0 then HC_FAILED else HC_SUCCESS, clear_text))"

datatype sec_hc_cred = CRED_TOK | CRED_DEV | CRED_MQTT_ID | CRED_CLD_HASH

text \<open>The kinds \<^verbatim>\<open>sec_hc_type_enc_a\<close> and \<^verbatim>\<open>sec_hc_type_dec_a\<close> with the label, the key and the members each case
  names.\<close>

fun cred_label :: "sec_hc_cred \<Rightarrow> string" where
  "cred_label CRED_TOK = ''TOK_ENC_KEY''"
| "cred_label CRED_DEV = ''DEV_ENC_KEY''"
| "cred_label CRED_MQTT_ID = ''MQTT_ID_ENC_KEY''"
| "cred_label CRED_CLD_HASH = ''CLD_HASH_ENC_KEY''"

fun cred_key :: "sec_hc_cred \<Rightarrow> string" where
  "cred_key CRED_TOK = ''a_tok_id_enc_key''"
| "cred_key CRED_DEV = ''a_dev_id_enc_key''"
| "cred_key CRED_MQTT_ID = ''a_mqtt_client_id_enc_key''"
| "cred_key CRED_CLD_HASH = ''a_cloud_hash_enc_key''"

fun cred_enc :: "sec_hc_cred \<Rightarrow> string" where
  "cred_enc CRED_TOK = ''a_enc_tok_id''"
| "cred_enc CRED_DEV = ''a_enc_dev_id''"
| "cred_enc CRED_MQTT_ID = ''a_enc_mqtt_client_id''"
| "cred_enc CRED_CLD_HASH = ''a_enc_cloud_hash_id''"

fun cred_iv :: "sec_hc_cred \<Rightarrow> string" where
  "cred_iv CRED_TOK = ''a_enc_tok_id_iv''"
| "cred_iv CRED_DEV = ''a_enc_dev_id_iv''"
| "cred_iv CRED_MQTT_ID = ''a_enc_mqtt_client_id_iv''"
| "cred_iv CRED_CLD_HASH = ''a_enc_cloud_hash_id_iv''"

fun cred_tag :: "sec_hc_cred \<Rightarrow> string" where
  "cred_tag CRED_TOK = ''a_enc_tok_id_tag''"
| "cred_tag CRED_DEV = ''a_enc_dev_id_tag''"
| "cred_tag CRED_MQTT_ID = ''a_enc_mqtt_client_id_tag''"
| "cred_tag CRED_CLD_HASH = ''a_enc_cloud_hash_id_tag''"

fun cred_get ::
    "sec_hc_cred \<Rightarrow> sec_env \<Rightarrow> 'a sec_state_scheme \<Rightarrow> (u32 \<times> u8 list option \<times> 'a sec_state_scheme) option" where
  "cred_get CRED_TOK e s = sec_int_get_tok_id e s"
| "cred_get CRED_DEV e s = sec_int_get_dev_id e s"
| "cred_get CRED_MQTT_ID e s = sec_int_get_mqtt_client_id e s"
| "cred_get CRED_CLD_HASH e s = sec_int_get_cloud_hash e s"

fun cred_set ::
    "sec_hc_cred \<Rightarrow> sec_env \<Rightarrow> u8 list \<Rightarrow> 'a sec_state_scheme \<Rightarrow> (u32 \<times> 'a sec_state_scheme) option" where
  "cred_set CRED_TOK e bs s = sec_int_set_tok_id e bs s"
| "cred_set CRED_DEV e bs s = sec_int_set_dev_id e bs s"
| "cred_set CRED_MQTT_ID e bs s = sec_int_set_mqtt_client_id e bs s"
| "cred_set CRED_CLD_HASH e bs s = sec_int_set_cloud_hash_dec e bs s"

text \<open>The buffer from the heap has exactly \<open>buf_len\<close> bytes; a longer parameter runs over it.\<close>

definition sec_hc_encrypt_data ::
    "sec_env \<Rightarrow> sec_hc_cred \<Rightarrow> nat \<Rightarrow> 'a sec_state_scheme \<Rightarrow> (int \<times> 'a sec_state_scheme) option" where
  "sec_hc_encrypt_data e c buf_len s =
     (if \<not> heap_alloc_ok e (io s) buf_len then Some (HC_FAILED, s)
      else do {
        (ret, s1) \<leftarrow> sec_hc_hkdf_key_gen e (cred_label c) (cred_key c) s;
        if ret \<noteq> HC_SUCCESS then Some (ret, s1)
        else do {
          (_, v, s2) \<leftarrow> cred_get c e s1;
          buffer \<leftarrow> (case v of
                       None \<Rightarrow> Some (replicate buf_len 0)
                     | Some bs \<Rightarrow> if buf_len < length bs then None else Some (bs @ replicate (buf_len - length bs) 0));
          sec_hc_encrypt_data_once e (cred_key c) buffer (cred_enc c) (cred_iv c) (cred_tag c) s2
        }
      })"

definition sec_hc_decrypt_data ::
    "sec_env \<Rightarrow> sec_hc_cred \<Rightarrow> nat \<Rightarrow> 'a sec_state_scheme \<Rightarrow> (int \<times> 'a sec_state_scheme) option" where
  "sec_hc_decrypt_data e c buf_len s =
     (if \<not> heap_alloc_ok e (io s) buf_len then Some (HC_FAILED, s)
      else do {
        (ret, s1) \<leftarrow> sec_hc_hkdf_key_gen e (cred_label c) (cred_key c) s;
        if ret \<noteq> HC_SUCCESS then Some (ret, s1)
        else let (ret', buffer) = sec_hc_decrypt_data_once e (cred_key c) buf_len (cred_enc c) (cred_iv c) (cred_tag c) s1
             in if ret' \<noteq> HC_SUCCESS then Some (ret', s1)
                else do { (_, s2) \<leftarrow> cred_set c e buffer s1; Some (HC_SUCCESS, s2) }
      })"

section \<open>Composing the response\<close>

definition SEC_HC_MAX_RX_SIZE :: nat where "SEC_HC_MAX_RX_SIZE = 4096"
definition HECI_COMPOSE_BUFFER_LEN :: u32 where "HECI_COMPOSE_BUFFER_LEN = 400"

text \<open>\<open>pos\<close> is the pointer into the transmit buffer.  The length test subtracts unsigned numbers.\<close>

definition sec_hc_create_cmd_data ::
    "nat option \<Rightarrow> u32 \<Rightarrow> sec_hc_cmd_data_hdr \<Rightarrow> u8 list \<Rightarrow> 'a sec_state_scheme \<Rightarrow> (int \<times> 'a sec_state_scheme) option" where
  "sec_hc_create_cmd_data pos compose_len h data s =
     (let n = unat (hd_length h)
      in if compose_len - of_nat n < 0 then Some (HC_FAILED, s)
         else case pos of
                None \<Rightarrow> None
              | Some p \<Rightarrow>
                  if n < 4 \<or> length data < n - 4 \<or> length (sec_hc_tx_buffer s) < p + n then None
                  else Some (HC_SUCCESS,
                         s\<lparr>sec_hc_tx_buffer := memcpy_at (sec_hc_tx_buffer s) p (le32 (enc_data_hdr h) @ take (n - 4) data),
                           buf_compose_next := Some (p + n),
                           accum_compose_len := accum_compose_len s + of_nat n\<rparr>))"

definition sec_hc_resp_data_int :: "'a sec_state_scheme \<Rightarrow> 'a sec_state_scheme" where
  "sec_hc_resp_data_int s = s\<lparr>buf_compose := 4, accum_compose_len := 4, buf_compose_next := None\<rparr>"

text \<open>The reserved bits of the header are not set.\<close>

definition sec_hc_response_data_once ::
    "sec_env \<Rightarrow> sec_hc_cmd_data_type \<Rightarrow> nat option \<Rightarrow> u8 list \<Rightarrow> nat \<Rightarrow> 'a sec_state_scheme
     \<Rightarrow> (int \<times> 'a sec_state_scheme) option" where
  "sec_hc_response_data_once e msg_type pos data len s =
     sec_hc_create_cmd_data pos HECI_COMPOSE_BUFFER_LEN
       \<lparr>hd_type = data_type_code msg_type, hd_length = of_nat (4 + len), hd_rsvd = ucast (stack_garbage e (io s))\<rparr> data s"

text \<open>Cipher text, vector and tag; \<open>keep\<close>: the result of the last call is kept (it is dropped for the token).\<close>

definition response_cred ::
    "bool \<Rightarrow> sec_env \<Rightarrow> sec_hc_cred \<Rightarrow> nat \<Rightarrow> sec_hc_cmd_data_type \<Rightarrow> sec_hc_cmd_data_type \<Rightarrow> sec_hc_cmd_data_type
     \<Rightarrow> 'a sec_state_scheme \<Rightarrow> (int \<times> 'a sec_state_scheme) option" where
  "response_cred keep e c len t_enc t_iv t_tag s =
     do {
       (ret, s1) \<leftarrow> sec_hc_response_data_once e t_enc (buf_compose_next s) (sec_read (cred_enc c) len s) len s;
       if ret \<noteq> HC_SUCCESS then Some (ret, s1)
       else do {
         (ret', s2) \<leftarrow> sec_hc_response_data_once e t_iv (buf_compose_next s1)
                        (sec_read (cred_iv c) SEC_ENC_IV_SIZE s1) SEC_ENC_IV_SIZE s1;
         if ret' \<noteq> HC_SUCCESS then Some (ret', s2)
         else do {
           (ret'', s3) \<leftarrow> sec_hc_response_data_once e t_tag (buf_compose_next s2)
                          (sec_read (cred_tag c) SEC_ENC_TAG_SIZE s2) SEC_ENC_TAG_SIZE s2;
           Some (if keep then ret'' else ret', s3)
         }
       }
     }"

datatype sec_hc_type_resp_a = SEC_HC_TYPE_RESP_TOK | SEC_HC_TYPE_RESP_DEV | SEC_HC_TYPE_RESP_PSE_SALT
  | SEC_HC_TYPE_RESP_MQTT_ID | SEC_HC_TYPE_RESP_OOB_ST | SEC_HC_TYPE_RESP_CLD_HASH | SEC_HC_TYPE_RESP_OOB2

text \<open>The provisioning state, or what the variable held before when the context is refused.\<close>

definition current_prov_state :: "sec_env \<Rightarrow> 'a sec_state_scheme \<Rightarrow> (u32 \<times> 'a sec_state_scheme) option" where
  "current_prov_state e s =
     do {
       (_, v, s1) \<leftarrow> sec_int_get_prov_state e s;
       Some (case v of None \<Rightarrow> stack_garbage e (io s) | Some w \<Rightarrow> w, s1)
     }"

definition sec_hc_response_data ::
    "sec_env \<Rightarrow> sec_hc_type_resp_a \<Rightarrow> 'a sec_state_scheme \<Rightarrow> (int \<times> 'a sec_state_scheme) option" where
  "sec_hc_response_data e t s =
     do {
       (_, v, s0) \<leftarrow> sec_int_get_hkdf_32b_pse_salt e s;
       let salt = (case v of None \<Rightarrow> replicate SEC_PSE_SALT_LEN 0 | Some bs \<Rightarrow> bs);
       (case t of
          SEC_HC_TYPE_RESP_TOK \<Rightarrow>
            response_cred False e CRED_TOK SEC_TOK_ID_LEN SEC_HC_TYPE_ENC_TOK_ID SEC_HC_TYPE_ENC_TOK_ID_IV
              SEC_HC_TYPE_ENC_TOK_ID_TAG s0
        | SEC_HC_TYPE_RESP_DEV \<Rightarrow>
            response_cred True e CRED_DEV SEC_DEV_ID_LEN SEC_HC_TYPE_ENC_DEV_ID SEC_HC_TYPE_ENC_DEV_ID_IV
              SEC_HC_TYPE_ENC_DEV_ID_TAG s0
        | SEC_HC_TYPE_RESP_MQTT_ID \<Rightarrow>
            response_cred True e CRED_MQTT_ID SEC_MQTT_CLIENT_ID_LEN SEC_HC_TYPE_ENC_MQTT_CLIENT_ID
              SEC_HC_TYPE_ENC_MQTT_CLIENT_ID_IV SEC_HC_TYPE_ENC_MQTT_CLIENT_ID_TAG s0
        | SEC_HC_TYPE_RESP_PSE_SALT \<Rightarrow>
            sec_hc_response_data_once e SEC_HC_TYPE_HKDF_32B_PSE_SALT (buf_compose_next s0) salt SEC_PSE_SALT_LEN s0
        | SEC_HC_TYPE_RESP_CLD_HASH \<Rightarrow>
            response_cred True e CRED_CLD_HASH SEC_CLOUD_HASH_LEN SEC_HC_TYPE_ENC_CLOUD_HASH_ID
              SEC_HC_TYPE_ENC_CLOUD_HASH_ID_IV SEC_HC_TYPE_ENC_CLOUD_HASH_ID_TAG s0
        | SEC_HC_TYPE_RESP_OOB_ST \<Rightarrow>
            do {
              (data, s1) \<leftarrow> current_prov_state e s0;
              sec_hc_response_data_once e SEC_HC_TYPE_OOB_STATUS (Some (buf_compose s1)) (le32 data) 4 s1
            }
        | SEC_HC_TYPE_RESP_OOB2 \<Rightarrow> Some (HC_SUCCESS, s0))
     }"

definition sec_hc_response_msg_type ::
    "sec_env \<Rightarrow> sec_hc_cmd_data_type \<Rightarrow> 'a sec_state_scheme \<Rightarrow> (int \<times> 'a sec_state_scheme) option" where
  "sec_hc_response_msg_type e msg_type s =
     do {
       (data, s1) \<leftarrow> current_prov_state e s;
       sec_hc_response_data_once e msg_type (Some (buf_compose s1)) (le32 data) 4 s1
     }"

end
