(* ===== verification/Oob_Handshake.thy ===== *)
theory Oob_Handshake
  imports Oob_Client
begin

text \<open>
  The commands of \<^verbatim>\<open>pse_oob_sec_heci_client.c\<close>: provisioning, status, the start-up handshake with the choice
  of the seed, reprovisioning and decommissioning, and the task that receives them.
\<close>

section \<open>Seeds and salt\<close>

text \<open>A seed that was not sent is a null pointer.\<close>

definition sec_hc_set_pref_cse_seed :: "nat \<Rightarrow> 'a sec_state_scheme \<Rightarrow> (int \<times> 'a sec_state_scheme) option" where
  "sec_hc_set_pref_cse_seed seed s =
     do {
       bs \<leftarrow> a_cse_seed s ! seed;
       (ret, s1) \<leftarrow> sec_int_set_pse_32b_fuse (take SEC_CSE_SEED_LEN bs) s;
       Some (uint ret, s1)
     }"

fun find_seed_from :: "sec_env \<Rightarrow> nat list \<Rightarrow> 'a sec_state_scheme \<Rightarrow> (int \<times> 'a sec_state_scheme) option" where
  "find_seed_from e [] s = Some (HC_FAILED, s)"
| "find_seed_from e (idx # is) s =
     do {
       (ret, s1) \<leftarrow> sec_hc_set_pref_cse_seed idx s;
       if ret \<noteq> HC_SUCCESS then Some (HC_FAILED, s1)
       else do {
         (ret', s2) \<leftarrow> sec_hc_decrypt_data e CRED_CLD_HASH SEC_CLOUD_HASH_LEN s1;
         if ret' \<noteq> HC_SUCCESS then find_seed_from e is s2
         else Some (HC_SUCCESS, if idx \<noteq> 0 then s2\<lparr>sec_hc_seed_updated := True\<rparr> else s2)
       }
     }"

definition sec_hc_find_cse_seed :: "sec_env \<Rightarrow> 'a sec_state_scheme \<Rightarrow> (int \<times> 'a sec_state_scheme) option" where
  "sec_hc_find_cse_seed e s = find_seed_from e [0..<a_cse_seed_no s] s"

definition sec_hc_pse_set_salt :: "sec_env \<Rightarrow> 'a sec_state_scheme \<Rightarrow> 'a sec_state_scheme option" where
  "sec_hc_pse_set_salt e s =
     (let (_, bs, s1) = sec_hc_gen_random_num e SEC_PSE_SALT_LEN s
      in do { (_, s2) \<leftarrow> sec_int_set_hkdf_32b_pse_salt e bs s1; Some s2 })"

definition sec_hc_final_decommission :: "sec_env \<Rightarrow> 'a sec_state_scheme \<Rightarrow> 'a sec_state_scheme" where
  "sec_hc_final_decommission e s =
     (sec_int_sec_decommission (s\<lparr>sec_hc_oob_sem := k_sem_give (sec_kern e) 1 (sec_hc_oob_sem s)\<rparr>))\<lparr>sec_hc_abort_set := True\<rparr>"

section \<open>Headers of a packet\<close>

definition SEC_HC_MAJOR_MINOR_VERSION :: "4 word" where "SEC_HC_MAJOR_MINOR_VERSION = 2"
definition SEC_HC_SOURCE_OOB :: "4 word" where "SEC_HC_SOURCE_OOB = 0"
definition SEC_HC_SOURCE_BIOS :: "4 word" where "SEC_HC_SOURCE_BIOS = 1"
definition SEC_HC_STATUS_OK :: "1 word" where "SEC_HC_STATUS_OK = 0"
definition SEC_HC_STATUS_ERROR :: "1 word" where "SEC_HC_STATUS_ERROR = 1"
definition SEC_HC_LAST_MSG_YES :: "1 word" where "SEC_HC_LAST_MSG_YES = 1"

text \<open>A write to fields of the header at the start of the transmit buffer.\<close>

definition upd_txhdr :: "(sec_hc_cmd_hdr \<Rightarrow> sec_hc_cmd_hdr) \<Rightarrow> 'a sec_state_scheme \<Rightarrow> 'a sec_state_scheme" where
  "upd_txhdr f s =
     s\<lparr>sec_hc_tx_buffer := memcpy_at (sec_hc_tx_buffer s) 0 (le32 (enc_cmd_hdr (f (dec_cmd_hdr (get32 (sec_hc_tx_buffer s) 0)))))\<rparr>"

definition sec_hc_txhdr_config :: "sec_hc_cmd_hdr \<Rightarrow> 'a sec_state_scheme \<Rightarrow> 'a sec_state_scheme" where
  "sec_hc_txhdr_config rx s =
     upd_txhdr (\<lambda>h. h\<lparr>hc_msg_comp := 1, hc_rsvd := 0,
         hc_status := (if hc_rsvd rx \<noteq> 0 \<or> hc_protocol_ver rx < SEC_HC_MAJOR_MINOR_VERSION
                          \<or> hc_source rx \<noteq> SEC_HC_SOURCE_BIOS \<or> hc_length rx < 3
                       then SEC_HC_STATUS_ERROR else SEC_HC_STATUS_OK),
         hc_protocol_ver := SEC_HC_MAJOR_MINOR_VERSION, hc_source := SEC_HC_SOURCE_OOB\<rparr>) s"

section \<open>Commands\<close>

text \<open>\<^verbatim>\<open>if (f() != SEC_SUCCESS) break;\<close>\<close>

definition or_break ::
    "(int \<times> 's) option \<Rightarrow> ('s \<Rightarrow> 's option) \<Rightarrow> 's option" where
  "or_break m k = do { (ret, s) \<leftarrow> m; if ret \<noteq> HC_SUCCESS then Some s else k s }"

text \<open>The end of a command: length, \<^verbatim>\<open>heci_send\<close> (its result is not looked at), and the command recorded.\<close>

definition sec_hc_respond ::
    "sec_env \<Rightarrow> 'a sec_state_scheme send_sched \<Rightarrow> u32 \<Rightarrow> 'a sec_state_scheme \<Rightarrow> 'a sec_state_scheme option" where
  "sec_hc_respond e sch cmd s =
     (let s1 = upd_txhdr (\<lambda>h. h\<lparr>hc_length := ucast (accum_compose_len s)\<rparr>) s
      in do {
           (_, s2) \<leftarrow> heci_send (sec_kern e) sch (unat (sec_hc_conn_id s1))
                       [\<lparr>mrd_buf = Some (sec_hc_tx_buffer s1), mrd_len = 4 + accum_compose_len s1\<rparr>] s1;
           Some (s2\<lparr>sec_hc_prev_command_id := cmd\<rparr>)
         })"

definition set_command :: "8 word \<Rightarrow> 'a sec_state_scheme \<Rightarrow> 'a sec_state_scheme" where
  "set_command c s = upd_txhdr (\<lambda>h. h\<lparr>hc_command := c\<rparr>) s"

text \<open>The data items of the command; the result is not looked at.\<close>

definition take_items ::
    "sec_env \<Rightarrow> u8 list \<Rightarrow> sec_hc_cmd_hdr \<Rightarrow> 'a sec_state_scheme \<Rightarrow> 'a sec_state_scheme option" where
  "take_items e buf rx s =
     do { (_, s1) \<leftarrow> sec_hc_process_cmd_data e buf 4 (uint (hc_length rx) - 4) s; Some s1 }"

text \<open>Salt, seed and encryption of all credentials, and the response that carries them: shared by
  \<^verbatim>\<open>SEC_HC_PROV_INIT_OOB\<close> and \<^verbatim>\<open>SEC_HC_RPROV_REQ\<close>.\<close>

definition encrypt_and_respond ::
    "sec_env \<Rightarrow> 'a sec_state_scheme send_sched \<Rightarrow> u32 \<Rightarrow> 'a sec_state_scheme \<Rightarrow> 'a sec_state_scheme option" where
  "encrypt_and_respond e sch cmd s =
     do {
       s1 \<leftarrow> sec_hc_pse_set_salt e s;
       or_break (sec_hc_set_pref_cse_seed 0 s1) (\<lambda>s2.
       or_break (sec_hc_encrypt_data e CRED_TOK SEC_TOK_ID_LEN s2) (\<lambda>s3.
       or_break (sec_hc_encrypt_data e CRED_DEV SEC_DEV_ID_LEN s3) (\<lambda>s4.
       or_break (sec_hc_encrypt_data e CRED_MQTT_ID SEC_MQTT_CLIENT_ID_LEN s4) (\<lambda>s5.
       or_break (sec_hc_encrypt_data e CRED_CLD_HASH SEC_CLOUD_HASH_LEN s5) (\<lambda>s6.
       or_break (sec_hc_response_data e SEC_HC_TYPE_RESP_PSE_SALT (s6\<lparr>buf_compose := 4, buf_compose_next := Some 4\<rparr>)) (\<lambda>s7.
       or_break (sec_hc_response_data e SEC_HC_TYPE_RESP_TOK s7) (\<lambda>s8.
       or_break (sec_hc_response_data e SEC_HC_TYPE_RESP_DEV s8) (\<lambda>s9.
       or_break (sec_hc_response_data e SEC_HC_TYPE_RESP_MQTT_ID s9) (\<lambda>s10.
       or_break (sec_hc_response_data e SEC_HC_TYPE_RESP_CLD_HASH s10) (\<lambda>s11.
       sec_hc_respond e sch cmd s11))))))))))
     }"

definition cmd_prov_init_oob ::
    "sec_env \<Rightarrow> 'a sec_state_scheme send_sched \<Rightarrow> u8 list \<Rightarrow> sec_hc_cmd_hdr \<Rightarrow> 'a sec_state_scheme
     \<Rightarrow> 'a sec_state_scheme option" where
  "cmd_prov_init_oob e sch buf rx s =
     do {
       s1 \<leftarrow> take_items e buf rx s;
       let s2 = set_command 0x01 s1;
       if hc_msg_comp rx \<noteq> SEC_HC_LAST_MSG_YES then Some (s2\<lparr>sec_hc_prev_command_id := 0x00\<rparr>)
       else encrypt_and_respond e sch 0x00 s2
     }"

text \<open>\<^verbatim>\<open>SEC_HC_PROV_INIT_ACK\<close> and \<^verbatim>\<open>SEC_HC_INIT_OOB\<close> differ in the command codes only.\<close>

definition cmd_items_ack ::
    "8 word \<Rightarrow> u32 \<Rightarrow> sec_env \<Rightarrow> 'a sec_state_scheme send_sched \<Rightarrow> u8 list \<Rightarrow> sec_hc_cmd_hdr \<Rightarrow> 'a sec_state_scheme
     \<Rightarrow> 'a sec_state_scheme option" where
  "cmd_items_ack reply cmd e sch buf rx s =
     do {
       s1 \<leftarrow> take_items e buf rx s;
       let s2 = set_command reply s1;
       if hc_msg_comp rx \<noteq> SEC_HC_LAST_MSG_YES then Some (s2\<lparr>sec_hc_prev_command_id := cmd\<rparr>)
       else sec_hc_respond e sch cmd s2
     }"

definition cmd_status_oob ::
    "sec_env \<Rightarrow> 'a sec_state_scheme send_sched \<Rightarrow> 'a sec_state_scheme \<Rightarrow> 'a sec_state_scheme option" where
  "cmd_status_oob e sch s =
     or_break (sec_hc_response_data e SEC_HC_TYPE_RESP_OOB_ST (set_command 0x25 s)) (sec_hc_respond e sch 0x24)"

text \<open>The labels \<^verbatim>\<open>decry\<close> and \<^verbatim>\<open>resp\<close> of \<^verbatim>\<open>SEC_HC_INIT_OOB2\<close>.\<close>

definition oob2_decry ::
    "sec_env \<Rightarrow> 'a sec_state_scheme send_sched \<Rightarrow> 'a sec_state_scheme \<Rightarrow> 'a sec_state_scheme option" where
  "oob2_decry e sch s =
     or_break (sec_hc_decrypt_data e CRED_TOK SEC_TOK_ID_LEN s) (\<lambda>s1.
     or_break (sec_hc_decrypt_data e CRED_DEV SEC_DEV_ID_LEN s1) (\<lambda>s2.
     or_break (sec_hc_decrypt_data e CRED_MQTT_ID SEC_MQTT_CLIENT_ID_LEN s2) (\<lambda>s3.
     sec_hc_respond e sch 0x12 s3)))"

definition cmd_init_oob2 ::
    "sec_env \<Rightarrow> 'a sec_state_scheme send_sched \<Rightarrow> u8 list \<Rightarrow> sec_hc_cmd_hdr \<Rightarrow> 'a sec_state_scheme
     \<Rightarrow> 'a sec_state_scheme option" where
  "cmd_init_oob2 e sch buf rx s =
     do {
       s1 \<leftarrow> take_items e buf rx s;
       let s2 = set_command 0x13 s1;
       if hc_msg_comp rx \<noteq> SEC_HC_LAST_MSG_YES then Some (s2\<lparr>sec_hc_prev_command_id := 0x12\<rparr>)
       else do {
         (ret, s3) \<leftarrow> sec_hc_find_cse_seed e s2;
         if ret \<noteq> HC_SUCCESS
         then or_break (sec_hc_response_msg_type e SEC_HC_TYPE_NORMAL_FLW_DATA_ERR s3) (sec_hc_respond e sch 0x12)
         else let (ret', s4) = sec_hc_int_hash_check e s3
              in if ret' \<noteq> SEC_SUCCESS
                 then or_break (sec_hc_response_msg_type e SEC_HC_TYPE_NORMAL_FLW_HASH_ERR s4) (sec_hc_respond e sch 0x12)
                 else if sec_hc_seed_updated s4
                 then do {
                   (_, s5) \<leftarrow> sec_int_set_prov_state e SEC_RPROV s4;
                   or_break (sec_hc_response_msg_type e SEC_HC_TYPE_NORMAL_FLW_REPROV_REQ s5) (oob2_decry e sch)
                 }
                 else or_break (sec_hc_response_msg_type e SEC_HC_TYPE_NORMAL_FLW_SUCCESS s4) (oob2_decry e sch)
       }
     }"

text \<open>\<^verbatim>\<open>sec_int_start_init_flag = 1\<close> under the mutex.\<close>

definition raise_init_flag :: "'a sec_state_scheme \<Rightarrow> 'a sec_state_scheme" where
  "raise_init_flag s = sec_int_unlock_ctx_mutex ((sec_int_lock_ctx_mutex s)\<lparr>sec_int_start_init_flag := 1\<rparr>)"

definition cmd_init_ack2 ::
    "sec_env \<Rightarrow> u8 list \<Rightarrow> sec_hc_cmd_hdr \<Rightarrow> 'a sec_state_scheme \<Rightarrow> 'a sec_state_scheme option" where
  "cmd_init_ack2 e buf rx s =
     do {
       s1 \<leftarrow> take_items e buf rx s;
       Some (raise_init_flag (sec_hc_rel_cse_seed (s1\<lparr>sec_hc_prev_command_id := 0x14\<rparr>)))
     }"

definition cmd_rprov_req ::
    "sec_env \<Rightarrow> 'a sec_state_scheme send_sched \<Rightarrow> 'a sec_state_scheme \<Rightarrow> 'a sec_state_scheme option" where
  "cmd_rprov_req e sch s = encrypt_and_respond e sch 0x20 (set_command 0x21 (s\<lparr>sec_hc_seed_updated := False\<rparr>))"

definition cmd_rprov_ack ::
    "sec_env \<Rightarrow> 'a sec_state_scheme send_sched \<Rightarrow> 'a sec_state_scheme \<Rightarrow> 'a sec_state_scheme option" where
  "cmd_rprov_ack e sch s =
     do {
       (_, s1) \<leftarrow> sec_int_set_prov_state e SEC_PROV s;
       s2 \<leftarrow> sec_hc_respond e sch 0x22 (set_command 0x23 s1);
       Some (raise_init_flag (sec_hc_rel_cse_seed s2))
     }"

definition cmd_decomm_ack ::
    "sec_env \<Rightarrow> 'a sec_state_scheme send_sched \<Rightarrow> 'a sec_state_scheme \<Rightarrow> 'a sec_state_scheme option" where
  "cmd_decomm_ack e sch s =
     do {
       s1 \<leftarrow> sec_hc_respond e sch 0x27 (set_command 0x28 s);
       Some (sec_hc_final_decommission e s1)
     }"

text \<open>\<^verbatim>\<open>sec_hc_setup_rxhdr\<close>: the header at the start of the message, if there is memory for the descriptor.\<close>

definition sec_hc_setup_rxhdr :: "sec_env \<Rightarrow> u8 list \<Rightarrow> 'a sec_state_scheme \<Rightarrow> sec_hc_cmd_hdr option" where
  "sec_hc_setup_rxhdr e buf s = (if malloc_ok e (io s) then Some (dec_cmd_hdr (get32 buf 0)) else None)"

definition sec_hc_process_cmd ::
    "sec_env \<Rightarrow> 'a sec_state_scheme send_sched \<Rightarrow> u8 list \<Rightarrow> 'a sec_state_scheme \<Rightarrow> 'a sec_state_scheme option" where
  "sec_hc_process_cmd e sch buf s =
     (if length buf < 4 then None
      else case sec_hc_setup_rxhdr e buf s of
             None \<Rightarrow> Some s
           | Some rx \<Rightarrow>
               let s1 = sec_hc_resp_data_int (sec_hc_txhdr_config rx s); c = hc_command rx
               in if c = 0x00 then cmd_prov_init_oob e sch buf rx s1
                  else if c = 0x02 then cmd_items_ack 0x03 0x02 e sch buf rx s1
                  else if c = 0x24 then cmd_status_oob e sch s1
                  else if c = 0x10 then cmd_items_ack 0x11 0x10 e sch buf rx s1
                  else if c = 0x12 then cmd_init_oob2 e sch buf rx s1
                  else if c = 0x14 then cmd_init_ack2 e buf rx s1
                  else if c = 0x20 then cmd_rprov_req e sch s1
                  else if c = 0x22 then cmd_rprov_ack e sch s1
                  else if c = 0x27 then cmd_decomm_ack e sch s1
                  else Some s1)"

section \<open>The task\<close>

definition sec_hc_rx_msg :: rx_ptr where "sec_hc_rx_msg = 3"
definition sec_hc_event_callback_ptr :: cb_ptr where "sec_hc_event_callback_ptr = 3"

definition sec_hc_event_callback :: "sec_env \<Rightarrow> u32 \<Rightarrow> 'a sec_state_scheme \<Rightarrow> 'a sec_state_scheme" where
  "sec_hc_event_callback e event s =
     s\<lparr>sec_hc_event := event, sec_hc_event_sem := k_sem_give (sec_kern e) 1 (sec_hc_event_sem s)\<rparr>"

text \<open>One round of the loop, after the semaphore is taken.\<close>

definition sec_hc_task_round ::
    "sec_env \<Rightarrow> 'a sec_state_scheme send_sched \<Rightarrow> 'a sec_state_scheme \<Rightarrow> 'a sec_state_scheme option" where
  "sec_hc_task_round e sch s0 =
     (let s = s0\<lparr>sec_hc_event_sem := snd (k_sem_take (sec_kern e) (sec_hc_event_sem s0) True)\<rparr>;
          m = rx_heap s sec_hc_rx_msg
      in if sec_hc_event s = HECI_EVENT_NEW_MSG
         then if \<not> rx_locked m then Some s
              else do {
                s1 \<leftarrow> (if rx_type m = HECI_CONNECT then Some (s\<lparr>sec_hc_conn_id := ucast (rx_connection_id m)\<rparr>)
                       else if rx_type m = HECI_REQUEST
                       then (case rx_bytes m of None \<Rightarrow> None | Some buf \<Rightarrow> sec_hc_process_cmd e sch buf s)
                       else Some s);
                (_, s2) \<leftarrow> heci_send_flow_control (sec_kern e) (unat (sec_hc_conn_id s1)) s1;
                Some s2
              }
         else if sec_hc_event s = HECI_EVENT_DISCONN
         then do {
           (_, s1) \<leftarrow> heci_complete_disconnect (sec_kern e) (unat (sec_hc_conn_id s)) s;
           Some (if sec_hc_abort_set s1 then emit ThreadAbort s1 else s1)
         }
         else Some s)"

definition sec_hc_client :: heci_client where
  "sec_hc_client = \<lparr>protocol_id = \<lparr>data1 = 0x892D1D46, data2 = 0x6B91, data3 = 0x4B62,
       data4 = [0x8A, 0x99, 0xEB, 0xF7, 0x28, 0x78, 0x66, 0x7E]\<rparr>,
     max_msg_size = of_nat SEC_HC_MAX_RX_SIZE, protocol_ver = 1, max_n_of_connections = 1,
     dma_header_length = 0, dma_enabled = False, rx_buffer_len = of_nat SEC_HC_MAX_RX_SIZE,
     rx_msg = Some sec_hc_rx_msg, event_cb = Some sec_hc_event_callback_ptr, param = 0,
     thread_handle_list = [], num_of_threads = 0\<rparr>"

text \<open>\<open>buf\<close> is the array \<^verbatim>\<open>sec_hc_rx_buffer\<close>.\<close>

definition sec_hc_init :: "sec_env \<Rightarrow> u8 list \<Rightarrow> 'a sec_state_scheme \<Rightarrow> (int \<times> 'a sec_state_scheme) option" where
  "sec_hc_init e buf s =
     do {
       s1 \<leftarrow> sec_int_init_context e (s\<lparr>sec_int_start_init_flag := 0\<rparr>);
       s2 \<leftarrow> sec_write ''a_pse_32b_fuse'' (replicate SEC_CSE_SEED_LEN 0) s1;
       heci_register (sec_kern e) (Some sec_hc_client)
         (upd_rx sec_hc_rx_msg (\<lambda>m. m\<lparr>rx_bytes := Some buf\<rparr>) s2)
     }"

end
