(* ===== verification/Oob_Facts.thy ===== *)
theory Oob_Facts
  imports Oob_Guard Oob_Handshake
begin

text \<open>
  Facts about the HECI client of the out-of-band service: the loop over data items ends on
  well-formed messages and keeps the context consistent, encrypted credentials come back, and
  the copies that run over their targets.
\<close>

section \<open>Writing behind the protected part\<close>

text \<open>Members after the hash may change without breaking it.\<close>

definition outside :: "string \<Rightarrow> nat \<Rightarrow> bool" where
  "outside f n \<longleftrightarrow> SIZEOF_SEC_CONTEXT + SEC_HASH_LEN \<le> sec_off f \<and> sec_off f + n \<le> SIZEOF_SEC_WRAPPER"

lemma outside_write:
  assumes "ctx_ok e s" "outside f (length bs)"
  shows "sec_write f bs s = Some (s\<lparr>sec_mem := memcpy_at (sec_mem s) (sec_off f) bs\<rparr>)"
    and "ctx_ok e (s\<lparr>sec_mem := memcpy_at (sec_mem s) (sec_off f) bs\<rparr>)"
proof -
  have len: "length (sec_mem s) = SIZEOF_SEC_WRAPPER" using assms(1) by (simp add: ctx_ok_def)
  have b: "sec_off f + length bs \<le> length (sec_mem s)" using assms(2) len by (simp add: outside_def)
  show "sec_write f bs s = Some (s\<lparr>sec_mem := memcpy_at (sec_mem s) (sec_off f) bs\<rparr>)"
    using b by (rule sec_write_Some)
  have "take SEC_HASH_LEN (drop (sec_off ''a_hash'') (memcpy_at (sec_mem s) (sec_off f) bs))
      = take SEC_HASH_LEN (drop (sec_off ''a_hash'') (sec_mem s))"
    using b assms(2) by (intro take_drop_memcpy_other) (auto simp: outside_def SIZEOF_SEC_CONTEXT_def)
  moreover have "take SIZEOF_SEC_CONTEXT (drop 0 (memcpy_at (sec_mem s) (sec_off f) bs))
      = take SIZEOF_SEC_CONTEXT (drop 0 (sec_mem s))"
    using b assms(2) by (intro take_drop_memcpy_other) (auto simp: outside_def)
  ultimately show "ctx_ok e (s\<lparr>sec_mem := memcpy_at (sec_mem s) (sec_off f) bs\<rparr>)"
    using assms(1) b by (simp add: ctx_ok_def sec_read_def del: sec_offsets)
qed

section \<open>Well-formed messages\<close>

text \<open>What an operation keeps: consistency of the context, the mutex and the seed table.\<close>

definition sec_safe :: "sec_env \<Rightarrow> nat \<Rightarrow> 'a sec_state_scheme \<Rightarrow> bool" where
  "sec_safe e locks s \<longleftrightarrow> sha_len e \<and> ctx_ok e s \<and> sec_ctx_mutex s = locks \<and> length (a_cse_seed s) = MAX_CSE_SEED_NO"

text \<open>The room for an item: its data fits into the member, and what the code reads lies in the buffer.\<close>

definition item_room :: "sec_hc_cmd_data_type option \<Rightarrow> nat \<Rightarrow> nat \<Rightarrow> bool" where
  "item_room t n rest =
     (case t of
        Some SEC_HC_TYPE_DENC_MQTT_CLIENT_ID \<Rightarrow> n \<le> SEC_MQTT_CLIENT_ID_LEN
      | Some SEC_HC_TYPE_256_OWN_PUB_KEY \<Rightarrow> n \<le> SEC_OWN_PUB_KEY_LEN
      | Some SEC_HC_TYPE_HKDF_32B_PSE_SALT \<Rightarrow> n \<le> SEC_PSE_SALT_LEN
      | Some SEC_HC_TYPE_DENC_TOK_ID \<Rightarrow> n \<le> SEC_TOK_ID_LEN
      | Some SEC_HC_TYPE_DENC_DEV_ID \<Rightarrow> n \<le> SEC_DEV_ID_LEN
      | Some SEC_HC_TYPE_ENC_DEV_ID_TAG \<Rightarrow> n \<le> SEC_ENC_TAG_SIZE
      | Some SEC_HC_TYPE_CLD_URL \<Rightarrow> n \<le> SEC_URL_LEN
      | Some SEC_HC_TYPE_PXY_URL \<Rightarrow> n \<le> SEC_URL_LEN
      | Some SEC_HC_TYPE_CLD_ADAPTER \<Rightarrow> n \<le> SEC_CLD_LEN
      | Some SEC_HC_TYPE_CLD_PORT \<Rightarrow> 4 \<le> rest
      | Some SEC_HC_TYPE_PXY_PORT \<Rightarrow> 4 \<le> rest
      | Some SEC_HC_TYPE_PROV_STATE \<Rightarrow> 4 \<le> rest
      | Some SEC_HC_TYPE_PSE_SEED_1 \<Rightarrow> SEC_CSE_SEED_LEN \<le> rest
      | Some SEC_HC_TYPE_PSE_SEED_2 \<Rightarrow> SEC_CSE_SEED_LEN \<le> rest
      | Some SEC_HC_TYPE_PSE_SEED_3 \<Rightarrow> SEC_CSE_SEED_LEN \<le> rest
      | Some SEC_HC_TYPE_PSE_SEED_4 \<Rightarrow> SEC_CSE_SEED_LEN \<le> rest
      | _ \<Rightarrow> True)"

definition item_size :: "u8 list \<Rightarrow> nat \<Rightarrow> nat" where
  "item_size buf off = unat (hd_length (dec_data_hdr (get32 buf off)))"

definition item_ok :: "u8 list \<Rightarrow> nat \<Rightarrow> bool" where
  "item_ok buf off \<longleftrightarrow> 4 < item_size buf off \<and> off + item_size buf off \<le> length buf \<and>
     item_room (data_type_of (hd_type (dec_data_hdr (get32 buf off)))) (item_size buf off - 4) (length buf - (off + 4))"

function items_ok :: "u8 list \<Rightarrow> nat \<Rightarrow> int \<Rightarrow> bool" where
  "items_ok buf off len =
     (if len \<le> 0 then True else if \<not> item_ok buf off then False
      else items_ok buf (off + item_size buf off) (len - int (item_size buf off)))"
  by auto
termination by (relation "measure (\<lambda>(_, _, len). nat len)") (auto simp: item_ok_def)

declare items_ok.simps [simp del]

text \<open>The three shapes.\<close>

lemma item_set_safe:
  assumes "sec_safe e k s" "off + n \<le> length buf" "sized_member f m lf" "n \<le> m"
    and "\<And>d. setter d = updated e (sec_int_set_context_param f lf d)"
  shows "ok (item_set setter buf off (int n) s) (\<lambda>(_, s'). sec_safe e k s')"
proof -
  have "ok (updated e (sec_int_set_context_param f lf (take n (drop off buf))) s)
      (\<lambda>(r, s'). r = SEC_SUCCESS \<and> ctx_ok e s' \<and> s' = s\<lparr>sec_mem := rehash e (memcpy_at (memcpy_at (sec_mem s) (sec_off f)
         (take n (drop off buf))) (sec_off lf) (le32 (of_nat (length (take n (drop off buf))))))\<rparr>)"
    using assms(1,3,4) by (intro set_param_updated) (auto simp: sec_safe_def)
  with assms show ?thesis
    by (auto simp: item_set_def rx_payload_def sec_safe_def elim!: okE)
qed

lemma item_set_word_safe:
  assumes "sec_safe e k s" "off + 4 \<le> length buf" "sec_off f + 4 \<le> SIZEOF_SEC_CONTEXT"
    and "\<And>d. setter d = updated e (sec_int_set_context_param_simple f d)"
  shows "ok (item_set_word setter buf off s) (\<lambda>(_, s'). sec_safe e k s')"
  using assms set_simple_updated [of e s f "get32 (take 4 (drop off buf)) 0"]
  by (auto simp: item_set_word_def rx_payload_def sec_safe_def elim!: okE)

lemma item_copy_safe:
  assumes "sec_safe e k s" "off + n \<le> length buf" "outside f m" "limit = Some m \<or> limit = None \<and> n \<le> m"
  shows "ok (item_copy f limit buf off (int n) s) (\<lambda>(_, s'). sec_safe e k s')"
proof (cases "case limit of None \<Rightarrow> False | Some j \<Rightarrow> int j < int n")
  case True
  with assms(1) show ?thesis by (simp add: item_copy_def)
next
  case False
  then have "n \<le> m" using assms(4) by auto
  then have o: "outside f (length (take n (drop off buf)))" using assms(2,3) by (simp add: outside_def)
  have c: "ctx_ok e s" using assms(1) by (simp add: sec_safe_def)
  show ?thesis
    using False assms(1,2) outside_write [OF c o]
    by (simp add: item_copy_def rx_payload_def sec_safe_def)
qed

lemma cse_seed_safe:
  assumes "sec_safe e k s" "SEC_CSE_SEED_LEN \<le> length buf - off" "off \<le> length buf"
  shows "ok (sec_hc_process_cse_seed e buf off idx data_len s) (\<lambda>(_, s'). sec_safe e k s')"
  using assms
  by (auto simp: sec_hc_process_cse_seed_def rx_payload_def sec_safe_def ctx_ok_def sec_read_def)

lemma item_set_root_ca_safe:
  assumes "sec_safe e k s" "off + n \<le> length buf"
  shows "ok (item_set (sec_int_set_root_ca e) buf off (int n) s) (\<lambda>(_, s'). sec_safe e k s')"
proof (cases "n \<le> SEC_ROOT_CA_LEN")
  case True
  then show ?thesis
    using item_set_safe [OF assms members(9) True, of "\<lambda>d. updated e (sec_int_set_context_param ''a_root_ca'' ''root_ca_len'' d)"]
      assms(2) by (simp add: item_set_def rx_payload_def sec_int_set_root_ca_def not_less)
next
  case False
  with assms show ?thesis by (simp add: item_set_def rx_payload_def sec_int_set_root_ca_def not_less)
qed

lemma set_cloud_hash_updated:
  assumes "sha_len e" "ctx_ok e s" "length d = SEC_CLOUD_HASH_LEN"
  shows "ok (updated e (sec_int_set_context_param ''a_cloud_hash'' ''a_cloud_hash_len'' d) s)
           (\<lambda>(r, s'). r = SEC_SUCCESS \<and> ctx_ok e s' \<and> s' = s\<lparr>sec_mem := rehash e (memcpy_at
              (memcpy_at (sec_mem s) (sec_off ''a_cloud_hash'') d) (sec_off ''a_cloud_hash_len'') (le32 (of_nat (length d))))\<rparr>)"
proof -
  have len: "length (sec_mem s) = SIZEOF_SEC_WRAPPER" using assms(2) by (simp add: ctx_ok_def)
  let ?m = "memcpy_at (memcpy_at (sec_mem s) (sec_off ''a_cloud_hash'') d) (sec_off ''a_cloud_hash_len'') (le32 (of_nat (length d)))"
  have c: "sec_int_set_context_param ''a_cloud_hash'' ''a_cloud_hash_len'' d (sec_int_lock_ctx_mutex s)
      = Some ((sec_int_lock_ctx_mutex s)\<lparr>sec_mem := ?m\<rparr>)"
    using len assms(3)
    by (simp add: sec_int_set_context_param_def sec_write_Some SIZEOF_SEC_WRAPPER_def SEC_CLOUD_HASH_LEN_def)
  show ?thesis
    using updated_ok [where change = "sec_int_set_context_param ''a_cloud_hash'' ''a_cloud_hash_len'' d", OF assms(1,2) c]
      len assms(3) by (simp add: SIZEOF_SEC_WRAPPER_def SEC_CLOUD_HASH_LEN_def)
qed

lemma item_set_cloud_hash_safe:
  assumes "sec_safe e k s" "off + n \<le> length buf"
  shows "ok (item_set (sec_int_set_cloud_hash e) buf off (int n) s) (\<lambda>(_, s'). sec_safe e k s')"
proof (cases "n = SEC_CLOUD_HASH_LEN")
  case True
  have "sha_len e" "ctx_ok e s" using assms(1) by (auto simp: sec_safe_def)
  with True assms set_cloud_hash_updated [of e s "take n (drop off buf)"] show ?thesis
    by (auto simp: item_set_def rx_payload_def sec_int_set_cloud_hash_def sec_safe_def elim!: okE)
next
  case False
  with assms show ?thesis by (simp add: item_set_def rx_payload_def sec_int_set_cloud_hash_def)
qed

lemmas setter_frames = sec_int_set_mqtt_client_id_def sec_int_set_own_pub_key_def sec_int_set_hkdf_32b_pse_salt_def
  sec_int_set_dev_id_def sec_int_set_tok_id_def sec_int_set_cld_adapter_def sec_int_set_cld_host_url_def
  sec_int_set_pxy_host_url_def sec_int_set_cld_host_port_def sec_int_set_pxy_host_port_def sec_int_set_prov_state_def

lemma outside_members [simp]:
  "outside ''a_enc_tok_id'' SEC_TOK_ID_LEN" "outside ''a_enc_tok_id_tag'' SEC_ENC_TAG_SIZE" "outside ''a_enc_tok_id_iv'' SEC_ENC_IV_SIZE"
  "outside ''a_enc_dev_id'' SEC_DEV_ID_LEN" "outside ''a_enc_dev_id_tag'' SEC_ENC_TAG_SIZE" "outside ''a_enc_dev_id_iv'' SEC_ENC_IV_SIZE"
  "outside ''a_enc_mqtt_client_id'' SEC_MQTT_CLIENT_ID_LEN" "outside ''a_enc_mqtt_client_id_tag'' SEC_ENC_TAG_SIZE"
  "outside ''a_enc_mqtt_client_id_iv'' SEC_ENC_IV_SIZE" "outside ''a_enc_cloud_hash_id'' SEC_CLOUD_HASH_LEN"
  "outside ''a_enc_cloud_hash_id_tag'' SEC_ENC_TAG_SIZE" "outside ''a_enc_cloud_hash_id_iv'' SEC_ENC_IV_SIZE"
  "outside ''a_tok_id_enc_key'' SEC_FUSE_LEN" "outside ''a_dev_id_enc_key'' SEC_FUSE_LEN"
  "outside ''a_mqtt_client_id_enc_key'' SEC_FUSE_LEN" "outside ''a_cloud_hash_enc_key'' SEC_FUSE_LEN"
  "outside ''a_pse_32b_fuse'' SEC_FUSE_LEN" "outside ''a_pse_32b_fuse_len'' 4"
  by (simp_all add: outside_def sec_len_defs SIZEOF_SEC_CONTEXT_def SIZEOF_SEC_WRAPPER_def)

text \<open>One item.\<close>

lemma process_once_safe:
  assumes s: "sec_safe e k s" and i: "item_ok buf off"
  shows "ok (sec_hc_process_cmd_data_once e buf off s) (\<lambda>(_, s'). sec_safe e k s')"
proof -
  obtain h where h: "h = dec_data_hdr (get32 buf off)" by blast
  obtain n where "n = item_size buf off - 4" by blast
  with i h have n: "uint (hd_length h) = int n + 4" "0 < n" "off + 4 + n \<le> length buf" "off + 4 \<le> length buf"
    and room: "item_room (data_type_of (hd_type h)) n (length buf - (off + 4))"
    by (auto simp: item_ok_def item_size_def)
  note shapes = item_set_safe [OF s n(3)] item_set_word_safe [OF s] item_copy_safe [OF s n(3)]
  note sets = shapes(1) [OF members(8)] shapes(1) [OF members(1)] shapes(1) [OF members(4)] shapes(1) [OF members(6)]
    shapes(1) [OF members(5)] shapes(1) [OF members(2)] shapes(1) [OF members(3)] shapes(1) [OF members(7)]
    item_set_root_ca_safe [OF s n(3)] item_set_cloud_hash_safe [OF s n(3)] cse_seed_safe [OF s]
  note words = shapes(2) [where f = "''cld_host_port''"] shapes(2) [where f = "''pxy_host_port''"]
    shapes(2) [where f = "''prov_state''"]
  note copies = shapes(3) [OF outside_members(1)] shapes(3) [OF outside_members(2)] shapes(3) [OF outside_members(3)]
    shapes(3) [OF outside_members(4)] shapes(3) [OF outside_members(5)] shapes(3) [OF outside_members(6)]
    shapes(3) [OF outside_members(7)] shapes(3) [OF outside_members(8)] shapes(3) [OF outside_members(9)]
    shapes(3) [OF outside_members(10)] shapes(3) [OF outside_members(11)] shapes(3) [OF outside_members(12)]
  show ?thesis
  proof (cases "data_type_of (hd_type h)")
    case None
    with n s show ?thesis by (simp add: sec_hc_process_cmd_data_once_def Let_def flip: h)
  next
    case (Some t)
    with room n s show ?thesis
      by (cases t)
        (simp_all add: sec_hc_process_cmd_data_once_def Let_def item_room_def sets words copies setter_frames [abs_def]
          SIZEOF_SEC_CONTEXT_def flip: h)
  qed
qed

section \<open>The loop over the items\<close>

lemma item_loop_safe:
  assumes "items_ok buf off len" "sec_safe e k s"
  shows "\<exists>off' len' r' s'. while_option items_left (item_step e buf) (Some (off, len, r, s)) = Some (Some (off', len', r', s'))
           \<and> sec_safe e k s'"
  using assms
proof (induction buf off len arbitrary: r s rule: items_ok.induct)
  case (1 buf off len)
  show ?case
  proof (cases "0 < len")
    case False
    with 1 show ?thesis by (subst while_option_unfold) (simp add: items_left_def)
  next
    case True
    with 1(2) have i: "item_ok buf off" and rest: "items_ok buf (off + item_size buf off) (len - int (item_size buf off))"
      by (simp_all add: items_ok.simps [of buf off len] split: if_splits)
    obtain r1 s1 where once: "sec_hc_process_cmd_data_once e buf off s = Some (r1, s1)" and s1: "sec_safe e k s1"
      using process_once_safe [OF 1(3) i] by (auto elim!: okE)
    have "item_step e buf (Some (off, len, r, s)) = Some (off + item_size buf off, len - int (item_size buf off), r1, s1)"
      by (simp add: item_step_def once item_size_def)
    moreover have "items_left (Some (off, len, r, s))" using True by (simp add: items_left_def)
    ultimately show ?thesis
      using 1(1) [OF _ _ rest s1, of r1] True i by (subst while_option_unfold) simp
  qed
qed

lemma process_cmd_data_safe:
  assumes "items_ok buf off len" "sec_safe e k s"
  shows "ok (sec_hc_process_cmd_data e buf off len s) (\<lambda>(_, s'). sec_safe e k s')"
  using item_loop_safe [OF assms, of HC_SUCCESS] assms(2)
  by (auto simp: sec_hc_process_cmd_data_def item_run_def)

text \<open>An item of length 0 is found again and again.\<close>

lemma empty_item_step:
  assumes "off + 4 \<le> length buf" "item_size buf off = 0"
  shows "item_step e buf (Some (off, len, r, s)) = Some (off, len, HC_FAILED, s)"
proof -
  have "uint (hd_length (dec_data_hdr (get32 buf off))) = 0"
    using assms(2) by (simp add: item_size_def unsigned_eq_0_iff)
  with assms show ?thesis
    by (simp add: item_step_def sec_hc_process_cmd_data_once_def item_size_def Let_def)
qed

lemma empty_item_loops:
  assumes "off + 4 \<le> length buf" "item_size buf off = 0" "0 < len"
  shows "while_option items_left (item_step e buf) (Some (off, len, r, s)) = None"
proof (rule ccontr)
  assume "while_option items_left (item_step e buf) (Some (off, len, r, s)) \<noteq> None"
  then obtain t where t: "while_option items_left (item_step e buf) (Some (off, len, r, s)) = Some t" by blast
  have "\<exists>r. t = Some (off, len, r, s)"
    by (rule while_option_rule [OF _ t, where P = "\<lambda>st. \<exists>r. st = Some (off, len, r, s)"])
      (auto simp: empty_item_step [OF assms(1,2)])
  with while_option_stop [OF t] assms(3) show False by (auto simp: items_left_def)
qed

section \<open>Copies that run over\<close>

lemma set_param_any:
  assumes "sha_len e" "ctx_ok e s" "sec_off f + length d \<le> SIZEOF_SEC_WRAPPER" "sec_off lf + 4 \<le> SIZEOF_SEC_WRAPPER"
  shows "ok (updated e (sec_int_set_context_param f lf d) s) (\<lambda>(r, s'). r = SEC_SUCCESS \<and> ctx_ok e s' \<and>
           s' = s\<lparr>sec_mem := rehash e (memcpy_at (memcpy_at (sec_mem s) (sec_off f) d)
                      (sec_off lf) (le32 (of_nat (length d))))\<rparr>)"
proof -
  have len: "length (sec_mem s) = SIZEOF_SEC_WRAPPER" using assms(2) by (simp add: ctx_ok_def)
  have c: "sec_int_set_context_param f lf d (sec_int_lock_ctx_mutex s)
      = Some ((sec_int_lock_ctx_mutex s)\<lparr>sec_mem := memcpy_at (memcpy_at (sec_mem s) (sec_off f) d)
                      (sec_off lf) (le32 (of_nat (length d)))\<rparr>)"
    using assms(3,4) len by (simp add: sec_int_set_context_param_def sec_write_Some)
  show ?thesis
    using updated_ok [where change = "sec_int_set_context_param f lf d", OF assms(1,2) c] assms(3,4) len by simp
qed

text \<open>A token identifier that is too long: its tail becomes the name of the cloud adapter.\<close>

lemma long_token_sets_adapter:
  assumes "sha_len e" "ctx_ok e s" "length pad = SEC_TOK_ID_LEN + 4" "0 \<notin> set t" "length t < SEC_CLD_LEN"
  shows "ok (sec_int_set_tok_id e (pad @ t @ [0]) s)
           (\<lambda>(r, s'). r = SEC_SUCCESS \<and> sec_int_get_cld_adapter e s' = Some (SEC_SUCCESS, Some t, s'))"
proof -
  let ?d = "pad @ t @ [0]" and ?o = "sec_off ''a_tok_id''" and ?a = "sec_off ''a_cld_adapter''"
  let ?m = "memcpy_at (memcpy_at (sec_mem s) ?o ?d) (sec_off ''tok_id_len'') (le32 (of_nat (length ?d)))"
  let ?s' = "s\<lparr>sec_mem := rehash e ?m\<rparr>"
  have len: "length (sec_mem s) = SIZEOF_SEC_WRAPPER" using assms(2) by (simp add: ctx_ok_def)
  have b: "?o + length ?d \<le> length (sec_mem s)"
    using assms(3,5) len by (simp add: SIZEOF_SEC_WRAPPER_def sec_len_defs)
  have lm: "length ?m = SIZEOF_SEC_WRAPPER" using b len by (simp add: SIZEOF_SEC_WRAPPER_def)
  have "take (Suc (length t)) (drop ?a (rehash e ?m)) = take (Suc (length t)) (drop ?a ?m)"
    using assms(1,5) lm by (intro rehash_below) (simp_all add: SIZEOF_SEC_CONTEXT_def sec_len_defs)
  also have "\<dots> = take (Suc (length t)) (drop ?a (memcpy_at (sec_mem s) ?o ?d))"
    using b len by (intro take_drop_memcpy_other) (simp_all add: SIZEOF_SEC_WRAPPER_def)
  also have "\<dots> = t @ [0]"
    using assms(3) len by (simp add: memcpy_at_def sec_len_defs SIZEOF_SEC_WRAPPER_def)
  finally have r: "sec_strlen ''a_cld_adapter'' ?s' = Some (length t)" "sec_read ''a_cld_adapter'' (length t) ?s' = t"
    using sec_strlen_eq [of t "''a_cld_adapter''" ?s'] assms(4) by simp_all
  have "sec_int_get_cld_adapter e ?s' = Some (SEC_SUCCESS, Some t, ?s')" if "ctx_ok e ?s'"
    unfolding sec_int_get_cld_adapter_def using assms(1) that r
    by (intro verified_ok) (simp_all add: sec_int_get_context_param_by_len_def)
  then show ?thesis
    using set_param_any [OF assms(1,2), of "''a_tok_id''" ?d "''tok_id_len''"] b len
    by (auto simp: sec_int_set_tok_id_def SIZEOF_SEC_WRAPPER_def elim!: ok_mono)
qed

text \<open>A token identifier that fills its member is read together with its length, one byte too long for
  the buffer of the encryption.\<close>

lemma full_token_length:
  assumes "sha_len e" "ctx_ok e s" "length d = SEC_TOK_ID_LEN"
  shows "ok (sec_int_set_tok_id e d s) (\<lambda>(r, s'). r = SEC_SUCCESS \<and> ctx_ok e s' \<and>
           sec_read ''a_tok_id'' SEC_TOK_ID_LEN s' = d \<and> sec_read ''tok_id_len'' 4 s' = [192, 0, 0, 0])"
proof -
  let ?o = "sec_off ''a_tok_id''" and ?l = "sec_off ''tok_id_len''"
  let ?base = "memcpy_at (sec_mem s) ?o d" and ?n = "le32 (of_nat (length d))"
  let ?m = "memcpy_at ?base ?l ?n"
  have len: "length (sec_mem s) = SIZEOF_SEC_WRAPPER" using assms(2) by (simp add: ctx_ok_def)
  have b: "?o + length d \<le> length (sec_mem s)" "?l + length ?n \<le> length ?base"
    using assms(3) len by (simp_all add: SIZEOF_SEC_WRAPPER_def sec_len_defs)
  have lm: "length ?m = SIZEOF_SEC_WRAPPER" using assms(3) len by (simp add: SIZEOF_SEC_WRAPPER_def sec_len_defs)
  have "take SEC_TOK_ID_LEN (drop ?o (rehash e ?m)) = take SEC_TOK_ID_LEN (drop ?o ?m)"
    "take 4 (drop ?l (rehash e ?m)) = take 4 (drop ?l ?m)"
    using assms(1) lm by (auto intro!: rehash_below simp: SIZEOF_SEC_CONTEXT_def sec_len_defs)
  moreover have "take SEC_TOK_ID_LEN (drop ?o ?m) = take SEC_TOK_ID_LEN (drop ?o ?base)"
    using b(2) by (intro take_drop_memcpy_other) (simp_all add: sec_len_defs)
  moreover have "take SEC_TOK_ID_LEN (drop ?o ?base) = d" using memcpy_at_read_back [OF b(1)] assms(3) by simp
  moreover have "take 4 (drop ?l ?m) = ?n" using memcpy_at_read_back [OF b(2)] by simp
  moreover have "?n = [192, 0, 0, 0]" using assms(3) by (simp add: le32_def sec_len_defs)
  ultimately have "sec_read ''a_tok_id'' SEC_TOK_ID_LEN (s\<lparr>sec_mem := rehash e ?m\<rparr>) = d"
    "sec_read ''tok_id_len'' 4 (s\<lparr>sec_mem := rehash e ?m\<rparr>) = [192, 0, 0, 0]"
    by (simp_all add: sec_read_def del: sec_offsets)
  then show ?thesis
    using set_param_updated [OF assms(1,2) members(6), of d] assms(3)
    by (auto simp: sec_int_set_tok_id_def elim!: ok_mono)
qed

lemma read_adjacent: "sec_off g = sec_off f + m \<Longrightarrow> sec_read f (m + k) s = sec_read f m s @ sec_read g k s"
  using take_add [of m k "drop (sec_off f) (sec_mem s)"] by (simp add: sec_read_def add.commute [of m "sec_off f"])

section \<open>Seeds\<close>

text \<open>The first seed is used even if it was not sent.\<close>

lemma missing_first_seed:
  assumes "0 < a_cse_seed_no s" "a_cse_seed s ! 0 = None"
  shows "sec_hc_find_cse_seed e s = None"
proof -
  obtain n where "a_cse_seed_no s = Suc n" using assms(1) by (cases "a_cse_seed_no s") auto
  then have "[0..<a_cse_seed_no s] = 0 # [1..<a_cse_seed_no s]" by (simp add: upt_conv_Cons)
  with assms(2) show ?thesis by (simp add: sec_hc_find_cse_seed_def sec_hc_set_pref_cse_seed_def)
qed

section \<open>Decommissioning\<close>

lemma decommissioned:
  assumes "sha_len e" "sha384 e (replicate SIZEOF_SEC_CONTEXT 0) \<noteq> replicate SEC_HASH_LEN 0"
  shows "\<not> ctx_ok e (sec_int_sec_decommission s)" "sec_mem (sec_int_sec_decommission s) = replicate SIZEOF_SEC_WRAPPER 0"
  using assms by (auto simp: sec_int_sec_decommission_def ctx_ok_def sec_read_def SIZEOF_SEC_WRAPPER_def
      SIZEOF_SEC_CONTEXT_def sec_len_defs emit_def)

end
