(* ===== verification/Oob_Crypt.thy ===== *)
theory Oob_Crypt
  imports Oob_Facts
begin

text \<open>
  Encryption of the credentials: what is written where, and that decryption with the same seed
  and salt restores them.
\<close>

section \<open>The cryptographic library\<close>

text \<open>
  Documented behaviour: authenticated decryption with the vector and tag of an encryption restores
  the text; a cipher text is as long as its text; keys, tags and random bytes have the requested
  length.
\<close>

definition crypt_env :: "sec_env \<Rightarrow> bool" where
  "crypt_env e \<longleftrightarrow>
     (\<forall>k iv t c tag. gcm_encrypt e k iv t = (0, c, tag) \<longrightarrow> gcm_decrypt e k iv tag c = (0, t)) \<and>
     (\<forall>k iv t. length (fst (snd (gcm_encrypt e k iv t))) = length t \<and> length (snd (snd (gcm_encrypt e k iv t))) = SEC_ENC_TAG_SIZE) \<and>
     (\<forall>a b l. length (snd (hkdf e a b l)) = SEC_FUSE_LEN) \<and>
     (\<forall>l n. length (drbg_bytes e l n) = n)"

section \<open>Members of the whole structure\<close>

definition in_ctx :: "string \<Rightarrow> nat \<Rightarrow> bool" where
  "in_ctx f m \<longleftrightarrow> (f, m) \<in> set sec_wrapper_layout"

lemma wrapper_layout_distinct: "distinct (map fst sec_wrapper_layout)"
  by (simp add: sec_wrapper_layout_def sec_context_layout_def)

lemma in_ctx_inside: "in_ctx f m \<Longrightarrow> sec_off f + m \<le> SIZEOF_SEC_WRAPPER"
  using layout_inside [OF _ wrapper_layout_distinct, of f m 0] sec_sizes(2)
  by (simp add: in_ctx_def sec_off_def)

lemma in_ctx_disjoint:
  "in_ctx f m \<Longrightarrow> in_ctx g k \<Longrightarrow> f \<noteq> g \<Longrightarrow> sec_off f + m \<le> sec_off g \<or> sec_off g + k \<le> sec_off f"
  using layout_disjoint [OF wrapper_layout_distinct, of f m g k 0] by (simp add: in_ctx_def sec_off_def)

text \<open>Writing a whole member behind the protected part.\<close>

lemma write_member:
  assumes ctx: "ctx_ok e s" and f: "in_ctx f m" "outside f m" "length bs = m"
  obtains s' where "sec_write f bs s = Some s'" "ctx_ok e s'" "s' = s\<lparr>sec_mem := sec_mem s'\<rparr>" "sec_read f m s' = bs"
    "\<And>g k. in_ctx g k \<Longrightarrow> g \<noteq> f \<Longrightarrow> sec_read g k s' = sec_read g k s"
proof -
  have len: "length (sec_mem s) = SIZEOF_SEC_WRAPPER" using ctx by (simp add: ctx_ok_def)
  have b: "sec_off f + length bs \<le> length (sec_mem s)" using in_ctx_inside [OF f(1)] f(3) len by simp
  let ?s = "s\<lparr>sec_mem := memcpy_at (sec_mem s) (sec_off f) bs\<rparr>"
  have "sec_write f bs s = Some ?s" "ctx_ok e ?s"
    using outside_write [OF ctx, of f bs] f by auto
  moreover have "sec_read f m ?s = bs"
    using memcpy_at_read_back [OF b] f(3) by (simp add: sec_read_def)
  moreover have "sec_read g k ?s = sec_read g k s" if "in_ctx g k" "g \<noteq> f" for g k
    using take_drop_memcpy_other [OF b, of "sec_off g" k] in_ctx_disjoint [OF f(1) that(1)] that(2) f(3)
    by (auto simp: sec_read_def)
  moreover have "?s = s\<lparr>sec_mem := sec_mem ?s\<rparr>" by simp
  ultimately show thesis using that by blast
qed

lemma sec_int_read: "sec_int f s = get32 (sec_read f 4 s) 0" if "sec_off f + 4 \<le> length (sec_mem s)"
  using that by (simp add: sec_int_def sec_read_def get32_def)

fun cred_size :: "sec_hc_cred \<Rightarrow> nat" where
  "cred_size CRED_TOK = SEC_TOK_ID_LEN"
| "cred_size CRED_DEV = SEC_DEV_ID_LEN"
| "cred_size CRED_MQTT_ID = SEC_MQTT_CLIENT_ID_LEN"
| "cred_size CRED_CLD_HASH = SEC_CLOUD_HASH_LEN"

lemma cred_members:
  "in_ctx (cred_key c) SEC_FUSE_LEN" "in_ctx (cred_enc c) (cred_size c)" "in_ctx (cred_iv c) SEC_ENC_IV_SIZE"
  "in_ctx (cred_tag c) SEC_ENC_TAG_SIZE"
  "outside (cred_key c) SEC_FUSE_LEN" "outside (cred_enc c) (cred_size c)" "outside (cred_iv c) SEC_ENC_IV_SIZE"
  "outside (cred_tag c) SEC_ENC_TAG_SIZE"
  by (cases c; simp add: in_ctx_def sec_wrapper_layout_def sec_context_layout_def sec_len_defs;
      simp add: outside_members [unfolded sec_len_defs])+

lemma key_members:
  "in_ctx ''a_pse_32b_fuse'' SEC_FUSE_LEN" "in_ctx ''a_pse_32b_fuse_len'' 4"
  "in_ctx ''a_hkdf_32b_pse_salt'' SEC_PSE_SALT_LEN" "in_ctx ''hkdf_32b_pse_salt_len'' 4"
  by (simp_all add: in_ctx_def sec_wrapper_layout_def sec_context_layout_def sec_len_defs)

lemma cred_names:
  "cred_enc c \<noteq> cred_key c" "cred_iv c \<noteq> cred_key c" "cred_tag c \<noteq> cred_key c" "cred_key c \<noteq> cred_enc c"
  "cred_iv c \<noteq> cred_enc c" "cred_tag c \<noteq> cred_enc c" "cred_tag c \<noteq> cred_iv c" "cred_enc c \<noteq> cred_iv c" "cred_enc c \<noteq> cred_tag c"
  "cred_iv c \<noteq> cred_tag c" "cred_key c \<noteq> cred_iv c" "cred_key c \<noteq> cred_tag c"
  by (cases c; simp)+

lemma cred_fresh:
  assumes "f \<in> {''a_pse_32b_fuse'', ''a_pse_32b_fuse_len'', ''a_hkdf_32b_pse_salt'', ''hkdf_32b_pse_salt_len''}"
  shows "f \<noteq> cred_key c" "f \<noteq> cred_enc c" "f \<noteq> cred_iv c" "f \<noteq> cred_tag c"
  using assms by (cases c; auto)+

section \<open>Keys\<close>

definition derived :: "sec_env \<Rightarrow> string \<Rightarrow> 'a sec_state_scheme \<Rightarrow> int \<times> u8 list" where
  "derived e label s =
     hkdf e (if unat (sec_int ''hkdf_32b_pse_salt_len'' s) = SEC_PSE_SALT_LEN
             then sec_read ''a_hkdf_32b_pse_salt'' SEC_PSE_SALT_LEN s else replicate SEC_PSE_SALT_LEN 0)
       (sec_read ''a_pse_32b_fuse'' SEC_FUSE_LEN s) label"

lemma get_salt_result:
  assumes "sha_len e" "ctx_ok e s"
  shows "\<exists>r. sec_int_get_hkdf_32b_pse_salt e s =
     Some (r, if unat (sec_int ''hkdf_32b_pse_salt_len'' s) = SEC_PSE_SALT_LEN
              then Some (sec_read ''a_hkdf_32b_pse_salt'' SEC_PSE_SALT_LEN s) else None, s)"
proof (cases "unat (sec_int ''hkdf_32b_pse_salt_len'' s) = SEC_PSE_SALT_LEN")
  case True
  then have "verified e (sec_int_get_context_param ''a_hkdf_32b_pse_salt'' ''hkdf_32b_pse_salt_len'') s
      = Some (SEC_SUCCESS, Some (sec_read ''a_hkdf_32b_pse_salt'' SEC_PSE_SALT_LEN s), s)"
    using assms by (intro verified_ok)
      (auto simp: sec_int_get_context_param_def ctx_ok_def SIZEOF_SEC_WRAPPER_def sec_len_defs)
  with True show ?thesis by (simp add: sec_int_get_hkdf_32b_pse_salt_def)
next
  case False
  then show ?thesis by (simp add: sec_int_get_hkdf_32b_pse_salt_def)
qed

lemma get_fuse_result:
  assumes "ctx_ok e s"
  shows "sec_int_get_pse_32b_fuse (of_nat SEC_FUSE_LEN) s =
     (if sec_int ''a_pse_32b_fuse_len'' s = of_nat SEC_FUSE_LEN
      then Some (SEC_SUCCESS, Some (sec_read ''a_pse_32b_fuse'' SEC_FUSE_LEN s), s) else Some (SEC_FAILED, None, s))"
  using assms by (auto simp: sec_int_get_pse_32b_fuse_def sec_int_get_context_param_def ctx_ok_def
      SIZEOF_SEC_WRAPPER_def sec_len_defs Let_def)

text \<open>The derived key is written to its member and nothing else changes.\<close>

lemma hkdf_key_gen_result:
  assumes "crypt_env e" "sha_len e" "ctx_ok e s" "sec_int ''a_pse_32b_fuse_len'' s = of_nat SEC_FUSE_LEN"
  obtains s' where "sec_hc_hkdf_key_gen e (cred_label c) (cred_key c) s = Some (fst (derived e (cred_label c) s), s')"
    "ctx_ok e s'" "s' = s\<lparr>sec_mem := sec_mem s'\<rparr>" "sec_read (cred_key c) SEC_FUSE_LEN s' = snd (derived e (cred_label c) s)"
    "\<And>g k. in_ctx g k \<Longrightarrow> g \<noteq> cred_key c \<Longrightarrow> sec_read g k s' = sec_read g k s"
proof -
  let ?km = "derived e (cred_label c) s"
  have "length (snd ?km) = SEC_FUSE_LEN" using assms(1) by (simp add: derived_def crypt_env_def)
  from write_member [OF assms(3) cred_members(1,5) this]
  obtain s' where s': "sec_write (cred_key c) (snd ?km) s = Some s'" "ctx_ok e s'" "s' = s\<lparr>sec_mem := sec_mem s'\<rparr>"
    "sec_read (cred_key c) SEC_FUSE_LEN s' = snd ?km" "\<And>g k. in_ctx g k \<Longrightarrow> g \<noteq> cred_key c \<Longrightarrow> sec_read g k s' = sec_read g k s"
    by metis
  obtain r where "sec_int_get_hkdf_32b_pse_salt e s =
     Some (r, if unat (sec_int ''hkdf_32b_pse_salt_len'' s) = SEC_PSE_SALT_LEN
              then Some (sec_read ''a_hkdf_32b_pse_salt'' SEC_PSE_SALT_LEN s) else None, s)"
    using get_salt_result [OF assms(2,3)] by blast
  then have "sec_hc_hkdf_key_gen e (cred_label c) (cred_key c) s = Some (fst ?km, s')"
    using s'(1) assms(4)
    by (auto simp: sec_hc_hkdf_key_gen_def get_fuse_result [OF assms(3)] derived_def Let_def split: prod.splits if_splits)
  with s' show thesis using that by blast
qed

lemma hkdf_key_gen_fails:
  assumes "ctx_ok e s" "sec_int ''a_pse_32b_fuse_len'' s \<noteq> of_nat SEC_FUSE_LEN"
  shows "sec_hc_hkdf_key_gen e l k s = Some (1, s)"
  using assms by (simp add: sec_hc_hkdf_key_gen_def get_fuse_result SEC_FAILED_def SEC_SUCCESS_def)

section \<open>One encryption\<close>

lemma encrypt_once_cases:
  assumes env: "crypt_env e" and ctx: "ctx_ok e s" and len: "length txt = cred_size c"
  obtains ret s' where
    "sec_hc_encrypt_data_once e (cred_key c) txt (cred_enc c) (cred_iv c) (cred_tag c) s = Some (ret, s')" "ctx_ok e s'"
    "\<And>g k. in_ctx g k \<Longrightarrow> g \<notin> {cred_enc c, cred_iv c, cred_tag c} \<Longrightarrow> sec_read g k s' = sec_read g k s"
    "ret = HC_SUCCESS \<longleftrightarrow> gcm_setkey e (sec_read (cred_key c) SEC_FUSE_LEN s) = 0 \<and>
       fst (gcm_encrypt e (sec_read (cred_key c) SEC_FUSE_LEN s) (sec_read (cred_iv c) SEC_ENC_IV_SIZE s') txt) = 0"
    "ret = HC_SUCCESS \<Longrightarrow>
       sec_hc_decrypt_data_once e (cred_key c) (cred_size c) (cred_enc c) (cred_iv c) (cred_tag c) s' = (HC_SUCCESS, txt)"
proof -
  obtain s0 iv where s0: "(if sec_hc_get_entropy_state s
              then let (_, rnd, s') = sec_hc_gen_random_num e SEC_ENC_IV_SIZE s in sec_write (cred_iv c) rnd s'
              else sec_write (cred_iv c) (replicate SEC_ENC_IV_SIZE 0) s) = sec_write (cred_iv c) iv s0"
    "length iv = SEC_ENC_IV_SIZE" "sec_mem s0 = sec_mem s"
    using env by (cases "sec_hc_get_entropy_state s")
      (force simp: sec_hc_gen_random_num_def crypt_env_def Let_def emit_def)+
  have ctx0: "ctx_ok e s0" and rd0: "sec_read g k s0 = sec_read g k s" for g k
    using ctx s0(3) by (simp_all add: ctx_ok_def sec_read_def)
  obtain s1 where s1: "sec_write (cred_iv c) iv s0 = Some s1" "ctx_ok e s1" "sec_read (cred_iv c) SEC_ENC_IV_SIZE s1 = iv"
    "\<And>g k. in_ctx g k \<Longrightarrow> g \<noteq> cred_iv c \<Longrightarrow> sec_read g k s1 = sec_read g k s0"
    using write_member [OF ctx0 cred_members(3,7) s0(2)] by metis
  let ?k = "sec_read (cred_key c) SEC_FUSE_LEN s"
  have k1: "sec_read (cred_key c) SEC_FUSE_LEN s1 = ?k" using s1(4) rd0 cred_members(1) cred_names by metis
  obtain s2 where s2: "sec_write (cred_enc c) (replicate (length txt) 0) s1 = Some s2" "ctx_ok e s2"
    "\<And>g k. in_ctx g k \<Longrightarrow> g \<noteq> cred_enc c \<Longrightarrow> sec_read g k s2 = sec_read g k s1"
    using write_member [OF s1(2) cred_members(2,6), of "replicate (length txt) 0"] len by (metis length_replicate)
  obtain s3 where s3: "sec_write (cred_tag c) (replicate SEC_ENC_TAG_SIZE 0) s2 = Some s3" "ctx_ok e s3"
    "\<And>g k. in_ctx g k \<Longrightarrow> g \<noteq> cred_tag c \<Longrightarrow> sec_read g k s3 = sec_read g k s2"
    using write_member [OF s2(2) cred_members(4,8), of "replicate SEC_ENC_TAG_SIZE 0"] by (metis length_replicate)
  have iv3: "sec_read (cred_iv c) SEC_ENC_IV_SIZE s3 = iv"
    using s1(3) s2(3) s3(3) cred_members(3) cred_names by metis
  obtain ret ct t where g: "gcm_encrypt e ?k iv txt = (ret, ct, t)" by (metis prod_cases3)
  then have lg: "length ct = cred_size c" "length t = SEC_ENC_TAG_SIZE"
    using env len unfolding crypt_env_def by (metis fst_conv snd_conv)+
  obtain s4 where s4: "sec_write (cred_enc c) ct s3 = Some s4" "ctx_ok e s4" "sec_read (cred_enc c) (cred_size c) s4 = ct"
    "\<And>g k. in_ctx g k \<Longrightarrow> g \<noteq> cred_enc c \<Longrightarrow> sec_read g k s4 = sec_read g k s3"
    using write_member [OF s3(2) cred_members(2,6) lg(1)] by metis
  obtain s5 where s5: "sec_write (cred_tag c) t s4 = Some s5" "ctx_ok e s5" "sec_read (cred_tag c) SEC_ENC_TAG_SIZE s5 = t"
    "\<And>g k. in_ctx g k \<Longrightarrow> g \<noteq> cred_tag c \<Longrightarrow> sec_read g k s5 = sec_read g k s4"
    using write_member [OF s4(2) cred_members(4,8) lg(2)] by metis
  have reads: "sec_read (cred_key c) SEC_FUSE_LEN s5 = ?k" "sec_read (cred_iv c) SEC_ENC_IV_SIZE s5 = iv"
    "sec_read (cred_enc c) (cred_size c) s5 = ct"
    using k1 s2(3) s3(3) s4(3,4) s5(4) iv3 cred_members cred_names by metis+
  have code: "sec_hc_encrypt_data_once e (cred_key c) txt (cred_enc c) (cred_iv c) (cred_tag c) s
      = Some (if gcm_setkey e ?k \<noteq> 0 then (HC_FAILED, s1) else (if ret \<noteq> 0 then HC_FAILED else HC_SUCCESS, s5))"
    by (simp add: sec_hc_encrypt_data_once_def s0(1) s1(1) k1 s2(1) s3(1) s4(1) s5(1) iv3 g)
  show thesis
  proof (cases "gcm_setkey e ?k = 0")
    case True
    have "sec_hc_decrypt_data_once e (cred_key c) (cred_size c) (cred_enc c) (cred_iv c) (cred_tag c) s5 = (HC_SUCCESS, txt)"
      if "ret = 0"
      using env g that True reads s5(3) unfolding crypt_env_def by (auto simp: sec_hc_decrypt_data_once_def)
    moreover have "sec_read g k s5 = sec_read g k s" if "in_ctx g k" "g \<notin> {cred_enc c, cred_iv c, cred_tag c}" for g k
      using that s1(4) s2(3) s3(3) s4(4) s5(4) rd0 by simp
    ultimately show thesis
      using that [of "if ret \<noteq> 0 then HC_FAILED else HC_SUCCESS" s5] code True s5(2) g reads(2)
      by (auto simp: HC_FAILED_def HC_SUCCESS_def)
  next
    case False
    then show thesis using that [of HC_FAILED s1] code s1(2,4) rd0 by (auto simp: HC_FAILED_def HC_SUCCESS_def)
  qed
qed

lemma encrypt_once_result:
  assumes env: "crypt_env e" and ctx: "ctx_ok e s" and len: "length txt = cred_size c"
    and enc: "sec_hc_encrypt_data_once e (cred_key c) txt (cred_enc c) (cred_iv c) (cred_tag c) s = Some (HC_SUCCESS, s')"
  shows "ctx_ok e s'"
    and "sec_hc_decrypt_data_once e (cred_key c) (cred_size c) (cred_enc c) (cred_iv c) (cred_tag c) s' = (HC_SUCCESS, txt)"
    and "in_ctx g k \<Longrightarrow> g \<notin> {cred_enc c, cred_iv c, cred_tag c} \<Longrightarrow> sec_read g k s' = sec_read g k s"
  using encrypt_once_cases [OF env ctx len] enc by (metis option.inject prod.inject)+

section \<open>Encrypted credentials come back\<close>

fun cred_plain :: "sec_hc_cred \<Rightarrow> string" where
  "cred_plain CRED_TOK = ''a_tok_id''"
| "cred_plain CRED_DEV = ''a_dev_id''"
| "cred_plain CRED_MQTT_ID = ''a_mqtt_client_id''"
| "cred_plain CRED_CLD_HASH = ''a_cloud_hash''"

text \<open>The member holds the terminated string \<open>t\<close>.\<close>

definition holds_cred :: "sec_hc_cred \<Rightarrow> u8 list \<Rightarrow> 'a sec_state_scheme \<Rightarrow> bool" where
  "holds_cred c t s \<longleftrightarrow> 0 \<notin> set t \<and> length t < cred_size c \<and>
     take (Suc (length t)) (sec_read (cred_plain c) (cred_size c) s) = t @ [0]"

text \<open>The states agree on what decryption reads: cipher text, vector, tag, seed and salt.\<close>

definition same_cipher :: "sec_hc_cred \<Rightarrow> 'a sec_state_scheme \<Rightarrow> 'a sec_state_scheme \<Rightarrow> bool" where
  "same_cipher c s s' \<longleftrightarrow>
     sec_read (cred_enc c) (cred_size c) s = sec_read (cred_enc c) (cred_size c) s' \<and>
     sec_read (cred_iv c) SEC_ENC_IV_SIZE s = sec_read (cred_iv c) SEC_ENC_IV_SIZE s' \<and>
     sec_read (cred_tag c) SEC_ENC_TAG_SIZE s = sec_read (cred_tag c) SEC_ENC_TAG_SIZE s' \<and>
     sec_read ''a_pse_32b_fuse'' SEC_FUSE_LEN s = sec_read ''a_pse_32b_fuse'' SEC_FUSE_LEN s' \<and>
     sec_read ''a_pse_32b_fuse_len'' 4 s = sec_read ''a_pse_32b_fuse_len'' 4 s' \<and>
     sec_read ''a_hkdf_32b_pse_salt'' SEC_PSE_SALT_LEN s = sec_read ''a_hkdf_32b_pse_salt'' SEC_PSE_SALT_LEN s' \<and>
     sec_read ''hkdf_32b_pse_salt_len'' 4 s = sec_read ''hkdf_32b_pse_salt_len'' 4 s'"

lemma cred_get_held:
  assumes "sha_len e" "ctx_ok e s" "holds_cred c t s" "c \<noteq> CRED_CLD_HASH"
  shows "cred_get c e s = Some (SEC_SUCCESS, Some t, s)"
proof -
  have "take (Suc (length t)) (drop (sec_off (cred_plain c)) (sec_mem s)) = t @ [0]" "0 \<notin> set t"
    using assms(3) by (auto simp: holds_cred_def sec_read_def min_def split: if_splits)
  from sec_strlen_eq [OF this] have "verified e (sec_int_get_context_param_by_len (cred_plain c)) s = Some (SEC_SUCCESS, Some t, s)"
    using assms(1,2) by (intro verified_ok) (simp_all add: sec_int_get_context_param_by_len_def)
  with assms(4) show ?thesis
    by (cases c) (simp_all add: sec_int_get_tok_id_def sec_int_get_dev_id_def sec_int_get_mqtt_client_id_def)
qed

lemma cred_set_padded:
  assumes "sha_len e" "ctx_ok e s" "0 \<notin> set t" "length t < cred_size c" "c \<noteq> CRED_CLD_HASH"
  shows "ok (cred_set c e (t @ replicate (cred_size c - length t) 0) s)
           (\<lambda>(r, s'). r = SEC_SUCCESS \<and> ctx_ok e s' \<and> cred_get c e s' = Some (SEC_SUCCESS, Some t, s'))"
proof -
  obtain d where d: "cred_size c - length t = Suc d" using assms(4) by (metis Suc_diff_Suc)
  then have "length (t @ 0 # replicate d 0) \<le> cred_size c" using assms(4) by simp
  then show ?thesis
    using string_stored [OF members(6), of e s t "replicate d 0"] string_stored [OF members(5), of e s t "replicate d 0"]
      string_stored [OF members(8), of e s t "replicate d 0"] assms d
    by (cases c) (auto simp: sec_int_set_tok_id_def sec_int_get_tok_id_def sec_int_set_dev_id_def sec_int_get_dev_id_def
        sec_int_set_mqtt_client_id_def sec_int_get_mqtt_client_id_def elim!: ok_mono)
qed

lemma plain_member: "in_ctx (cred_plain c) (cred_size c)"
  by (cases c) (simp_all add: in_ctx_def sec_wrapper_layout_def sec_context_layout_def sec_len_defs)

lemma plain_names: "cred_plain c \<noteq> cred_key c'" "cred_plain c \<noteq> cred_enc c'" "cred_plain c \<noteq> cred_iv c'" "cred_plain c \<noteq> cred_tag c'"
  by (cases c; cases c'; simp)+

lemma sec_int_member: "in_ctx f 4 \<Longrightarrow> ctx_ok e s \<Longrightarrow> sec_int f s = get32 (sec_read f 4 s) 0"
  using in_ctx_inside [of f 4] by (intro sec_int_read) (simp add: ctx_ok_def)

lemma derived_cong:
  assumes "ctx_ok e s" "ctx_ok e s'" "same_cipher c s s'"
  shows "derived e l s = derived e l s'" "sec_int ''a_pse_32b_fuse_len'' s = sec_int ''a_pse_32b_fuse_len'' s'"
  using assms(3) sec_int_member [OF key_members(2) assms(1)] sec_int_member [OF key_members(2) assms(2)]
    sec_int_member [OF key_members(4) assms(1)] sec_int_member [OF key_members(4) assms(2)]
  by (auto simp: derived_def same_cipher_def)

lemma decrypt_once_cong:
  assumes "same_cipher c s s'" "sec_read (cred_key c) SEC_FUSE_LEN s = sec_read (cred_key c) SEC_FUSE_LEN s'"
  shows "sec_hc_decrypt_data_once e (cred_key c) (cred_size c) (cred_enc c) (cred_iv c) (cred_tag c) s
       = sec_hc_decrypt_data_once e (cred_key c) (cred_size c) (cred_enc c) (cred_iv c) (cred_tag c) s'"
  using assms by (auto simp: sec_hc_decrypt_data_once_def same_cipher_def Let_def)

lemma same_cipher_key:
  assumes "\<And>g k. in_ctx g k \<Longrightarrow> g \<noteq> cred_key c \<Longrightarrow> sec_read g k s' = sec_read g k s"
  shows "same_cipher c s' s"
  using assms cred_members key_members cred_names cred_fresh(1) by (simp add: same_cipher_def)

text \<open>Encryption of a held credential succeeds only with a key, which decryption derives again.\<close>

lemma encrypt_data_result:
  assumes env: "crypt_env e" "sha_len e" and ctx: "ctx_ok e s" and held: "holds_cred c t s" and c: "c \<noteq> CRED_CLD_HASH"
    and enc: "sec_hc_encrypt_data e c (cred_size c) s = Some (HC_SUCCESS, s1)"
  shows "ctx_ok e s1" "fst (derived e (cred_label c) s1) = HC_SUCCESS"
    "sec_int ''a_pse_32b_fuse_len'' s1 = of_nat SEC_FUSE_LEN"
    "sec_read (cred_key c) SEC_FUSE_LEN s1 = snd (derived e (cred_label c) s1)"
    "sec_hc_decrypt_data_once e (cred_key c) (cred_size c) (cred_enc c) (cred_iv c) (cred_tag c) s1
       = (HC_SUCCESS, t @ replicate (cred_size c - length t) 0)"
proof -
  let ?d = "derived e (cred_label c) s" and ?t = "t @ replicate (cred_size c - length t) 0"
  have fuse: "sec_int ''a_pse_32b_fuse_len'' s = of_nat SEC_FUSE_LEN"
  proof (rule ccontr)
    assume "sec_int ''a_pse_32b_fuse_len'' s \<noteq> of_nat SEC_FUSE_LEN"
    with enc hkdf_key_gen_fails [OF ctx this] show False
      by (simp add: sec_hc_encrypt_data_def HC_SUCCESS_def HC_FAILED_def split: if_splits)
  qed
  obtain sk where k: "sec_hc_hkdf_key_gen e (cred_label c) (cred_key c) s = Some (fst ?d, sk)" "ctx_ok e sk"
    "sec_read (cred_key c) SEC_FUSE_LEN sk = snd ?d"
    and rk: "\<And>g k. in_ctx g k \<Longrightarrow> g \<noteq> cred_key c \<Longrightarrow> sec_read g k sk = sec_read g k s"
    using hkdf_key_gen_result [OF env ctx fuse, of c] by metis
  have "holds_cred c t sk" using held rk plain_member plain_names(1) by (simp add: holds_cred_def)
  from cred_get_held [OF env(2) k(2) this c] have g: "cred_get c e sk = Some (SEC_SUCCESS, Some t, sk)" .
  have lt: "length t < cred_size c" using held by (simp add: holds_cred_def)
  have ret: "fst ?d = HC_SUCCESS" and once: "sec_hc_encrypt_data_once e (cred_key c) ?t (cred_enc c) (cred_iv c) (cred_tag c) sk
      = Some (HC_SUCCESS, s1)"
    using enc k(1) g lt by (auto simp: sec_hc_encrypt_data_def HC_SUCCESS_def HC_FAILED_def split: if_splits)
  have len: "length ?t = cred_size c" using lt by simp
  note r = encrypt_once_result [OF env(1) k(2) len once]
  show "ctx_ok e s1" by (rule r(1))
  have rd: "sec_read g m s1 = sec_read g m s"
    if "in_ctx g m" "g \<in> {''a_pse_32b_fuse'', ''a_pse_32b_fuse_len'', ''a_hkdf_32b_pse_salt'', ''hkdf_32b_pse_salt_len''}" for g m
    using r(3) rk that cred_fresh [OF that(2)] by simp
  have d: "derived e (cred_label c) s1 = ?d" and f: "sec_int ''a_pse_32b_fuse_len'' s1 = sec_int ''a_pse_32b_fuse_len'' s"
    using rd [OF key_members(1)] rd [OF key_members(2)] rd [OF key_members(3)] rd [OF key_members(4)]
      sec_int_member [OF key_members(2) ctx] sec_int_member [OF key_members(2) r(1)]
      sec_int_member [OF key_members(4) ctx] sec_int_member [OF key_members(4) r(1)]
    by (simp_all add: derived_def)
  show "fst (derived e (cred_label c) s1) = HC_SUCCESS" "sec_int ''a_pse_32b_fuse_len'' s1 = of_nat SEC_FUSE_LEN"
    using d f ret fuse by simp_all
  show "sec_read (cred_key c) SEC_FUSE_LEN s1 = snd (derived e (cred_label c) s1)"
    using r(3) [OF cred_members(1)] cred_names k(3) d by simp
  show "sec_hc_decrypt_data_once e (cred_key c) (cred_size c) (cred_enc c) (cred_iv c) (cred_tag c) s1 = (HC_SUCCESS, ?t)"
    by (rule r(2))
qed

lemma decrypt_restores:
  assumes env: "crypt_env e" "sha_len e" and ctx: "ctx_ok e s" and held: "holds_cred c t s" and c: "c \<noteq> CRED_CLD_HASH"
    and enc: "sec_hc_encrypt_data e c (cred_size c) s = Some (HC_SUCCESS, s1)"
    and later: "ctx_ok e s2" "same_cipher c s2 s1" "heap_alloc_ok e (io s2) (cred_size c)"
  shows "ok (sec_hc_decrypt_data e c (cred_size c) s2)
           (\<lambda>(r, s3). r = HC_SUCCESS \<and> ctx_ok e s3 \<and> cred_get c e s3 = Some (SEC_SUCCESS, Some t, s3))"
proof -
  note r = encrypt_data_result [OF env ctx held c enc]
  let ?d = "derived e (cred_label c) s1"
  have same: "derived e (cred_label c) s2 = ?d" "sec_int ''a_pse_32b_fuse_len'' s2 = of_nat SEC_FUSE_LEN"
    using derived_cong [OF later(1) r(1) later(2)] r(3) by auto
  obtain sk where k: "sec_hc_hkdf_key_gen e (cred_label c) (cred_key c) s2 = Some (fst ?d, sk)" "ctx_ok e sk"
    "sec_read (cred_key c) SEC_FUSE_LEN sk = snd ?d"
    and rk: "\<And>g k. in_ctx g k \<Longrightarrow> g \<noteq> cred_key c \<Longrightarrow> sec_read g k sk = sec_read g k s2"
    using hkdf_key_gen_result [OF env later(1) same(2), of c] same(1) by metis
  have "same_cipher c sk s1"
    using same_cipher_key [of c sk s2] rk later(2) by (simp add: same_cipher_def)
  from decrypt_once_cong [OF this, of e] k(3) r(4,5)
  have "sec_hc_decrypt_data_once e (cred_key c) (cred_size c) (cred_enc c) (cred_iv c) (cred_tag c) sk
      = (HC_SUCCESS, t @ replicate (cred_size c - length t) 0)" by simp
  moreover have "0 \<notin> set t" "length t < cred_size c" using held by (simp_all add: holds_cred_def)
  ultimately show ?thesis
    using cred_set_padded [OF env(2) k(2) _ _ c, of t] k(1) r(2) later(3)
    by (auto simp: sec_hc_decrypt_data_def elim!: okE)
qed

text \<open>With a key and a working cipher the encryption succeeds.\<close>

lemma encrypt_data_succeeds:
  assumes env: "crypt_env e" "sha_len e" and ctx: "ctx_ok e s" and held: "holds_cred c t s" and c: "c \<noteq> CRED_CLD_HASH"
    and key: "sec_int ''a_pse_32b_fuse_len'' s = of_nat SEC_FUSE_LEN" "fst (derived e (cred_label c) s) = HC_SUCCESS"
    and heap: "heap_alloc_ok e (io s) (cred_size c)"
    and gcm: "\<And>k. gcm_setkey e k = 0" "\<And>k iv t. fst (gcm_encrypt e k iv t) = 0"
  shows "\<exists>s1. sec_hc_encrypt_data e c (cred_size c) s = Some (HC_SUCCESS, s1)"
proof -
  let ?t = "t @ replicate (cred_size c - length t) 0"
  obtain sk where k: "sec_hc_hkdf_key_gen e (cred_label c) (cred_key c) s = Some (HC_SUCCESS, sk)" "ctx_ok e sk"
    and rk: "\<And>g k. in_ctx g k \<Longrightarrow> g \<noteq> cred_key c \<Longrightarrow> sec_read g k sk = sec_read g k s"
    using hkdf_key_gen_result [OF env ctx key(1), of c] key(2) by metis
  have "holds_cred c t sk" using held rk plain_member plain_names(1) by (simp add: holds_cred_def)
  from cred_get_held [OF env(2) k(2) this c] have g: "cred_get c e sk = Some (SEC_SUCCESS, Some t, sk)" .
  have lt: "length t < cred_size c" using held by (simp add: holds_cred_def)
  then have "length ?t = cred_size c" by simp
  then obtain s1 where "sec_hc_encrypt_data_once e (cred_key c) ?t (cred_enc c) (cred_iv c) (cred_tag c) sk = Some (HC_SUCCESS, s1)"
    using encrypt_once_cases [OF env(1) k(2)] gcm by metis
  then show ?thesis using k(1) g lt heap by (simp add: sec_hc_encrypt_data_def)
qed

section \<open>A full token\<close>

lemma full_token_overruns:
  assumes env: "crypt_env e" "sha_len e" and ctx: "ctx_ok e s" and d: "length d = SEC_TOK_ID_LEN" "0 \<notin> set d"
    and stored: "sec_int_set_tok_id e d s = Some (r, s1)"
    and key: "sec_int ''a_pse_32b_fuse_len'' s1 = of_nat SEC_FUSE_LEN" "fst (derived e (cred_label CRED_TOK) s1) = HC_SUCCESS"
    and heap: "heap_alloc_ok e (io s1) SEC_TOK_ID_LEN"
  shows "sec_hc_encrypt_data e CRED_TOK SEC_TOK_ID_LEN s1 = None"
proof -
  have s1: "ctx_ok e s1" "sec_read ''a_tok_id'' SEC_TOK_ID_LEN s1 = d" "sec_read ''tok_id_len'' 4 s1 = [192, 0, 0, 0]"
    using full_token_length [OF env(2) ctx d(1)] stored by simp_all
  have m: "in_ctx ''a_tok_id'' SEC_TOK_ID_LEN" "in_ctx ''tok_id_len'' 4"
    by (simp_all add: in_ctx_def sec_wrapper_layout_def sec_context_layout_def sec_len_defs)
  obtain sk where k: "sec_hc_hkdf_key_gen e (cred_label CRED_TOK) (cred_key CRED_TOK) s1 = Some (HC_SUCCESS, sk)" "ctx_ok e sk"
    and rk: "\<And>g k. in_ctx g k \<Longrightarrow> g \<noteq> cred_key CRED_TOK \<Longrightarrow> sec_read g k sk = sec_read g k s1"
    using hkdf_key_gen_result [OF env s1(1) key(1), of CRED_TOK] key(2) by metis
  have "sec_read ''a_tok_id'' (SEC_TOK_ID_LEN + 4) sk = d @ [192, 0, 0, 0]"
    using read_adjacent [of "''tok_id_len''" "''a_tok_id''" SEC_TOK_ID_LEN 4 sk] rk [OF m(1)] rk [OF m(2)] s1(2,3)
    by (simp add: sec_len_defs)
  then have "take (Suc (length (d @ [192]))) (sec_read ''a_tok_id'' (SEC_TOK_ID_LEN + 4) sk) = (d @ [192]) @ [0]"
    using d(1) by simp
  then have "take (Suc (length (d @ [192]))) (drop (sec_off ''a_tok_id'') (sec_mem sk)) = (d @ [192]) @ [0]"
    using d(1) by (simp add: sec_read_def sec_len_defs)
  from sec_strlen_eq [OF this] d(2) have "verified e (sec_int_get_context_param_by_len ''a_tok_id'') sk
      = Some (SEC_SUCCESS, Some (d @ [192]), sk)"
    using env(2) k(2) by (intro verified_ok) (simp_all add: sec_int_get_context_param_by_len_def)
  then have "cred_get CRED_TOK e sk = Some (SEC_SUCCESS, Some (d @ [192]), sk)"
    by (simp add: sec_int_get_tok_id_def)
  with k(1) heap d(1) show ?thesis by (simp add: sec_hc_encrypt_data_def)
qed

end
