(* ===== verification/Oob_Samples.thy ===== *)
theory Oob_Samples
  imports Oob_Crypt Sample_States
begin

text \<open>
  A concrete environment and state of the out-of-band service: a toy hash and cipher with the
  lengths of the real ones, a generator that counts, a consistent empty context and one seed.
\<close>

definition sample_sec_env :: sec_env where
  "sample_sec_env = \<lparr>sec_kern = sample_env, sha384 = (\<lambda>_. replicate 48 7), uptime = (\<lambda>l. of_nat (min (length l) 1000)),
     sideband_send_ret = (\<lambda>_. 0), sideband_ack = (\<lambda>l. (0, of_nat (length l))), drbg_ret = (\<lambda>_. 0),
     drbg_bytes = (\<lambda>_ n. replicate n 9), hkdf = (\<lambda>_ _ _. (0, replicate 32 3)), gcm_setkey = (\<lambda>_. 0),
     gcm_encrypt = (\<lambda>_ _ t. (0, t, replicate 16 5)), gcm_decrypt = (\<lambda>_ _ _ c. (0, c)),
     heap_alloc_ok = (\<lambda>_ _. True), malloc_ok = (\<lambda>_. True), stack_garbage = (\<lambda>_. 0), init_flag_raised = (\<lambda>_. False)\<rparr>"

lemma sample_sec_laws [simp]: "sha_len sample_sec_env" "crypt_env sample_sec_env"
  by (simp_all add: sample_sec_env_def sha_len_def crypt_env_def sec_len_defs)

text \<open>A generator that repeats itself.\<close>

definition stuck_sec_env :: sec_env where
  "stuck_sec_env = sample_sec_env\<lparr>sideband_ack := (\<lambda>_. (0, 1))\<rparr>"

text \<open>A clock that runs twice as fast, and a host that makes the handshake at once.\<close>

definition fast_sec_env :: sec_env where
  "fast_sec_env = sample_sec_env\<lparr>uptime := (\<lambda>l. of_nat (min (2 * length l) 1000))\<rparr>"

definition greeted_sec_env :: sec_env where
  "greeted_sec_env = fast_sec_env\<lparr>init_flag_raised := (\<lambda>_. True)\<rparr>"

definition sample_sec :: sec_state where
  "sample_sec = heci_state.extend sample_state (sec_state.fields
     (replicate 5080 0 @ replicate 48 7 @ replicate 716 0 @ [32, 0, 0, 0]) 0 0 0 False False False 0 0 0 0 0 False False
     [Some (replicate 32 1), None, None, None] 1 (replicate 4096 0) 0 None 0)"

lemma sample_sec_fields [simp]:
  "sec_mem sample_sec = replicate 5080 0 @ replicate 48 7 @ replicate 716 0 @ [32, 0, 0, 0]" "io sample_sec = []"
  "sec_ctx_mutex sample_sec = 0" "a_cse_seed sample_sec = [Some (replicate 32 1), None, None, None]" "a_cse_seed_no sample_sec = 1"
  "is_1st_drng_rd sample_sec = False" "is_not_1st_hw_poll sample_sec = False" "drng_prev sample_sec = 0"
  "sec_int_start_init_flag sample_sec = 0"
  by (cases sample_state; simp add: sample_sec_def sec_state.fields_def heci_state.extend_def sample_state_def heci_boot_def)+

lemma sample_sec_ok [simp]: "ctx_ok sample_sec_env sample_sec"
  by (simp add: ctx_ok_def sec_read_def SIZEOF_SEC_WRAPPER_def SIZEOF_SEC_CONTEXT_def sec_len_defs sample_sec_env_def)

lemma sample_sec_safe [simp]: "sec_safe sample_sec_env 0 sample_sec"
  by (simp add: sec_safe_def MAX_CSE_SEED_NO_def)

text \<open>The same context with one byte changed.\<close>

definition tampered_sec :: sec_state where
  "tampered_sec = sample_sec\<lparr>sec_mem := replicate 5080 0 @ replicate 48 8 @ replicate 720 0\<rparr>"

lemma tampered_not_ok [simp]: "\<not> ctx_ok sample_sec_env tampered_sec" "length (sec_mem tampered_sec) = SIZEOF_SEC_WRAPPER"
  by (simp_all add: tampered_sec_def ctx_ok_def sec_read_def SIZEOF_SEC_WRAPPER_def SIZEOF_SEC_CONTEXT_def sec_len_defs
      sample_sec_env_def replicate_eq_replicate)

text \<open>A message with the token ''AB'' and one whose item has length 0.\<close>

definition sample_items :: "u8 list" where
  "sample_items = [0, 0, 0, 0, 5, 7, 0, 0, 65, 66, 0]"

definition empty_items :: "u8 list" where
  "empty_items = [0, 0, 0, 0, 5, 0, 0, 0]"

end
