(* ===== verification/Oob_Properties.thy ===== *)
theory Oob_Properties
  imports Oob_Samples
begin

text \<open>
  The properties of the out-of-band service: the protected context, the data items of the
  firmware, encrypted credentials, the entropy source and the wait for the handshake.
\<close>

section \<open>The protected context\<close>

text \<open>C18. If the contents do not match the hash, no accessor that checks the hash succeeds, delivers data or changes
  anything: the getters and setters without a length check of their own answer with the mismatch
  code, the root certificate, the salt and the cloud hash answer with their length error where
  that check comes first and with the mismatch code otherwise, and the check of the cloud hash
  fails.  Reprovisioning changes nothing either, but it ignores these results and reports success.
  The fuse members lie outside the hashed part, and their accessors do not check the hash.\<close>

theorem tampered_context_refused:
  fixes s :: "'a sec_state_scheme"
  assumes "sha_len e" "length (sec_mem s) = SIZEOF_SEC_WRAPPER" "\<not> ctx_ok e s"
  shows "list_all (\<lambda>get. get e s = Some (SEC_FAILED_OOB_HASH_MISMATCH, None, s))
      [sec_int_get_mqtt_client_id, sec_int_get_own_pub_key, sec_int_get_dev_id, sec_int_get_tok_id,
       sec_int_get_cld_adapter, sec_int_get_cld_host_url, sec_int_get_pxy_host_url] \<and>
    list_all (\<lambda>get. get e s = Some (SEC_FAILED_OOB_HASH_MISMATCH, None, s))
      [sec_int_get_cld_host_port, sec_int_get_pxy_host_port, sec_int_get_prov_state, sec_int_get_reprov_pend] \<and>
    list_all (\<lambda>put. put e d s = Some (SEC_FAILED_OOB_HASH_MISMATCH, s))
      [sec_int_set_mqtt_client_id, sec_int_set_own_pub_key, sec_int_set_hkdf_32b_pse_salt, sec_int_set_dev_id,
       sec_int_set_tok_id, sec_int_set_cld_adapter, sec_int_set_cld_host_url, sec_int_set_pxy_host_url] \<and>
    list_all (\<lambda>put. put e w s = Some (SEC_FAILED_OOB_HASH_MISMATCH, s))
      [sec_int_set_cld_host_port, sec_int_set_pxy_host_port, sec_int_set_prov_state, sec_int_set_reprov_pend] \<and>
    sec_int_get_root_ca e s = Some (if SEC_ROOT_CA_LEN < unat (sec_int ''root_ca_len'' s)
      then SEC_FAILED_INVALID_PARAM else SEC_FAILED_OOB_HASH_MISMATCH, None, s) \<and>
    sec_int_get_hkdf_32b_pse_salt e s = Some (if unat (sec_int ''hkdf_32b_pse_salt_len'' s) \<noteq> SEC_PSE_SALT_LEN
      then SEC_FAILED else SEC_FAILED_OOB_HASH_MISMATCH, None, s) \<and>
    sec_int_get_cloud_hash e s = Some (if unat (sec_int ''a_cloud_hash_len'' s) \<noteq> SEC_CLOUD_HASH_LEN
      then SEC_FAILED else SEC_FAILED_OOB_HASH_MISMATCH, None, s) \<and>
    sec_int_set_root_ca e d s = Some (if SEC_ROOT_CA_LEN < length d
      then SEC_FAILED_INVALID_PARAM else SEC_FAILED_OOB_HASH_MISMATCH, s) \<and>
    list_all (\<lambda>put. put e d s = Some (if length d \<noteq> SEC_CLOUD_HASH_LEN
      then SEC_FAILED_INVALID_PARAM_LEN else SEC_FAILED_OOB_HASH_MISMATCH, s))
      [sec_int_set_cloud_hash, sec_int_set_cloud_hash_dec] \<and>
    sec_hc_int_hash_check e s = (SEC_FAILED_OOB_HASH_MISMATCH, s) \<and>
    sec_int_set_reprovision e d info s = Some (SEC_SUCCESS, s)"
  using verify_iff_ctx_ok [OF assms(1,2)] assms(3)
  by (simp add: tampered_simps verified_refused [OF assms] updated_refused [OF assms] set_info_refused [OF assms])

theorem tampered_context_refused_witness:
  "sec_int_get_tok_id sample_sec_env tampered_sec = Some (SEC_FAILED_OOB_HASH_MISMATCH, None, tampered_sec) \<and>
   sec_int_set_pxy_host_port sample_sec_env 8080 tampered_sec = Some (SEC_FAILED_OOB_HASH_MISMATCH, tampered_sec) \<and>
   sec_int_set_root_ca sample_sec_env [1, 2, 3] tampered_sec = Some (SEC_FAILED_OOB_HASH_MISMATCH, tampered_sec) \<and>
   sec_int_set_reprovision sample_sec_env [1, 2, 3] SEC_TOK_ID tampered_sec = Some (SEC_SUCCESS, tampered_sec)"
  using tampered_context_refused [of sample_sec_env tampered_sec "[1, 2, 3]" 8080 SEC_TOK_ID] by (simp add: sec_len_defs)

text \<open>C19. A parameter that fits its member is delivered again after it was set, the context stays consistent and
  the mutex is locked as often as before the call: keys and addresses with their length, names up
  to their terminator, numbers as they are.\<close>

theorem context_members_kept:
  assumes "sha_len e" "ctx_ok e s"
  shows "(length k \<le> SEC_OWN_PUB_KEY_LEN \<longrightarrow> kept e s (sec_int_set_own_pub_key e k s) (sec_int_get_own_pub_key e) k) \<and>
    (length u \<le> SEC_URL_LEN \<longrightarrow> kept e s (sec_int_set_cld_host_url e u s) (sec_int_get_cld_host_url e) u \<and>
      kept e s (sec_int_set_pxy_host_url e u s) (sec_int_get_pxy_host_url e) u) \<and>
    (0 \<notin> set t \<longrightarrow>
      (length t < SEC_TOK_ID_LEN \<longrightarrow> kept e s (sec_int_set_tok_id e (t @ [0]) s) (sec_int_get_tok_id e) t) \<and>
      (length t < SEC_DEV_ID_LEN \<longrightarrow> kept e s (sec_int_set_dev_id e (t @ [0]) s) (sec_int_get_dev_id e) t) \<and>
      (length t < SEC_CLD_LEN \<longrightarrow> kept e s (sec_int_set_cld_adapter e (t @ [0]) s) (sec_int_get_cld_adapter e) t) \<and>
      (length t < SEC_MQTT_CLIENT_ID_LEN \<longrightarrow>
        kept e s (sec_int_set_mqtt_client_id e (t @ [0]) s) (sec_int_get_mqtt_client_id e) t)) \<and>
    kept e s (sec_int_set_prov_state e w s) (sec_int_get_prov_state e) w \<and>
    kept e s (sec_int_set_reprov_pend e w s) (sec_int_get_reprov_pend e) w \<and>
    kept e s (sec_int_set_cld_host_port e w s) (sec_int_get_cld_host_port e) w \<and>
    kept e s (sec_int_set_pxy_host_port e w s) (sec_int_get_pxy_host_port e) w"
  using assms
    put_fetch_kept [OF own_pub_key.guarded_member_axioms, of e s k] put_fetch_kept [OF cld_host_url.guarded_member_axioms, of e s u]
    put_fetch_kept [OF pxy_host_url.guarded_member_axioms, of e s u] put_fetch_kept [OF tok_id.guarded_member_axioms, of e s t]
    put_fetch_kept [OF dev_id.guarded_member_axioms, of e s t] put_fetch_kept [OF cld_adapter.guarded_member_axioms, of e s t]
    put_fetch_kept [OF mqtt_client_id.guarded_member_axioms, of e s t] put_fetch_kept [OF prov_state.guarded_member_axioms, of e s w]
    put_fetch_kept [OF reprov_pend.guarded_member_axioms, of e s w] put_fetch_kept [OF cld_host_port.guarded_member_axioms, of e s w]
    put_fetch_kept [OF pxy_host_port.guarded_member_axioms, of e s w]
  by simp

theorem context_members_kept_witness:
  "kept sample_sec_env sample_sec (sec_int_set_tok_id sample_sec_env ([65, 66] @ [0]) sample_sec)
     (sec_int_get_tok_id sample_sec_env) [65, 66]"
proof -
  have "0 \<notin> set [65, 66 :: u8]" "length [65, 66 :: u8] < SEC_TOK_ID_LEN" by (simp_all add: sec_len_defs)
  then show ?thesis
    using context_members_kept [OF sample_sec_laws(1) sample_sec_ok, of "[]" "[]" "[65, 66]" 0] by blast
qed

text \<open>C20. The length of a token identifier is not checked: bytes beyond the member and its length become the
  name of the cloud adapter, and the hash is renewed over them.\<close>

theorem long_token_rewrites_adapter:
  assumes "sha_len e" "ctx_ok e s" "length pad = SEC_TOK_ID_LEN + 4" "0 \<notin> set t" "length t < SEC_CLD_LEN"
  shows "ok (sec_int_set_tok_id e (pad @ t @ [0]) s)
           (\<lambda>(r, s'). r = SEC_SUCCESS \<and> sec_int_get_cld_adapter e s' = Some (SEC_SUCCESS, Some t, s'))"
  using assms by (rule long_token_sets_adapter)

theorem long_token_rewrites_adapter_witness:
  "ok (sec_int_set_tok_id sample_sec_env (replicate 196 1 @ [65, 66] @ [0]) sample_sec)
     (\<lambda>(r, s'). r = SEC_SUCCESS \<and> sec_int_get_cld_adapter sample_sec_env s' = Some (SEC_SUCCESS, Some [65, 66], s'))"
  by (rule long_token_rewrites_adapter) (simp_all add: sec_len_defs)

section \<open>Data items\<close>

text \<open>C21. On a message whose items are complete, not empty and fit their members, the loop over the items ends
  without undefined behaviour, leaves the context consistent and the mutex balanced.\<close>

theorem items_end_safely:
  assumes "items_ok buf off len" "sec_safe e k s"
  shows "ok (sec_hc_process_cmd_data e buf off len s) (\<lambda>(r, s'). sec_safe e k s')"
  using assms by (rule process_cmd_data_safe)

theorem items_end_safely_witness:
  "ok (sec_hc_process_cmd_data sample_sec_env sample_items 4 7 sample_sec) (\<lambda>(r, s'). sec_safe sample_sec_env 0 s')"
proof (rule items_end_safely)
  have "item_ok sample_items 4 \<and> item_size sample_items 4 = 7"
    by code_simp
  then show "items_ok sample_items 4 7" by (simp add: items_ok.simps)
qed simp

text \<open>C22. An item of length 0 in the received message makes the loop run forever, whatever follows.\<close>

theorem empty_item_never_ends:
  assumes "off + 4 \<le> length buf" "item_size buf off = 0" "0 < len"
  shows "item_run e buf off len s = None"
  unfolding item_run_def using assms by (rule empty_item_loops)

theorem empty_item_never_ends_witness:
  "item_run sample_sec_env empty_items 4 4 sample_sec = None"
  by (rule empty_item_never_ends) (simp add: empty_items_def, code_simp, simp)

section \<open>Credentials\<close>

text \<open>C23. A credential that was encrypted is restored by decryption in any later state that has the same cipher
  text, vector, tag, seed and salt, as after the firmware has sent them back.\<close>

theorem credentials_restored:
  assumes "crypt_env e" "sha_len e" "ctx_ok e s" "holds_cred c t s" "c \<noteq> CRED_CLD_HASH"
    and "sec_hc_encrypt_data e c (cred_size c) s = Some (HC_SUCCESS, s1)"
    and "ctx_ok e s2" "same_cipher c s2 s1" "heap_alloc_ok e (io s2) (cred_size c)"
  shows "ok (sec_hc_decrypt_data e c (cred_size c) s2)
           (\<lambda>(r, s3). r = HC_SUCCESS \<and> ctx_ok e s3 \<and> cred_get c e s3 = Some (SEC_SUCCESS, Some t, s3))"
  using assms by (rule decrypt_restores)

theorem credentials_restored_witness:
  "\<exists>s1. sec_hc_encrypt_data sample_sec_env CRED_TOK 192 sample_sec = Some (HC_SUCCESS, s1) \<and>
     ok (sec_hc_decrypt_data sample_sec_env CRED_TOK 192 s1) (\<lambda>(r, s3). r = HC_SUCCESS \<and>
       sec_int_get_tok_id sample_sec_env s3 = Some (SEC_SUCCESS, Some [], s3))"
proof -
  have held: "holds_cred CRED_TOK [] sample_sec"
    by (simp add: holds_cred_def sec_read_def sec_len_defs)
  have key: "sec_int ''a_pse_32b_fuse_len'' sample_sec = of_nat SEC_FUSE_LEN"
    by (simp add: sec_int_def get32_def nth_append sec_len_defs)
  obtain s1 where s1: "sec_hc_encrypt_data sample_sec_env CRED_TOK (cred_size CRED_TOK) sample_sec = Some (HC_SUCCESS, s1)"
    using encrypt_data_succeeds [OF sample_sec_laws(2,1) sample_sec_ok held _ key]
    by (auto simp: derived_def sample_sec_env_def HC_SUCCESS_def)
  have "ctx_ok sample_sec_env s1"
    using encrypt_data_result(1) [OF sample_sec_laws(2,1) sample_sec_ok held _ s1] by simp
  from credentials_restored [OF sample_sec_laws(2,1) sample_sec_ok held _ s1 this] s1 show ?thesis
    by (auto simp: same_cipher_def sample_sec_env_def SEC_TOK_ID_LEN_def elim!: okE)
qed

text \<open>A token identifier that fills its member is read together with the length behind it: the copy is one
  byte longer than the buffer of the encryption.\<close>

theorem full_token_overruns_buffer:
  assumes "crypt_env e" "sha_len e" "ctx_ok e s" "length d = SEC_TOK_ID_LEN" "0 \<notin> set d"
    and "sec_int_set_tok_id e d s = Some (r, s1)"
    and "sec_int ''a_pse_32b_fuse_len'' s1 = of_nat SEC_FUSE_LEN" "fst (derived e (cred_label CRED_TOK) s1) = HC_SUCCESS"
    and "heap_alloc_ok e (io s1) SEC_TOK_ID_LEN"
  shows "sec_hc_encrypt_data e CRED_TOK SEC_TOK_ID_LEN s1 = None"
  using assms by (rule full_token_overruns)

theorem full_token_overruns_buffer_witness:
  "\<exists>s1. sec_int_set_tok_id sample_sec_env (replicate 192 1) sample_sec = Some (SEC_SUCCESS, s1) \<and>
     sec_hc_encrypt_data sample_sec_env CRED_TOK 192 s1 = None"
proof -
  have m: "sized_member ''a_tok_id'' SEC_TOK_ID_LEN ''tok_id_len''" by simp
  let ?d = "replicate 192 1 :: u8 list"
  obtain s1 where s1: "sec_int_set_tok_id sample_sec_env ?d sample_sec = Some (SEC_SUCCESS, s1)" "ctx_ok sample_sec_env s1"
    "s1 = sample_sec\<lparr>sec_mem := rehash sample_sec_env (memcpy_at (memcpy_at (sec_mem sample_sec) (sec_off ''a_tok_id'') ?d)
       (sec_off ''tok_id_len'') (le32 (of_nat (length ?d))))\<rparr>"
    using set_param_updated [OF sample_sec_laws(1) sample_sec_ok m, of ?d]
    by (auto simp: sec_int_set_tok_id_def sec_len_defs elim!: okE)
  have "sec_int ''a_pse_32b_fuse_len'' s1 = of_nat SEC_FUSE_LEN"
    by (simp add: s1(3) sec_int_def get32_def rehash_def memcpy_at_def nth_append sample_sec_env_def sec_len_defs)
  from full_token_overruns_buffer [OF sample_sec_laws(2,1) sample_sec_ok _ _ s1(1) this] s1(1) show ?thesis
    by (auto simp: derived_def sample_sec_env_def sec_len_defs HC_SUCCESS_def)
qed

section \<open>Entropy and the wait for the handshake\<close>

text \<open>C24. The entropy source succeeds exactly if every word it needs is read and differs from the one before it, and
  then delivers the bytes of the words in order.  Otherwise it never reports success: it fails or does
  not return, so the retry it has is without effect.\<close>

theorem entropy_source_exact:
  assumes "len \<le> length out"
  shows "if \<forall>k < words_for len. drng_good e s k
     then mbedtls_hardware_poll e out len s = Some (SEC_SUCCESS, map (drng_byte e (io s)) [0..<len] @ drop len out, Some len,
       (drng_after e s (words_for len))\<lparr>entropy_state := True, is_1st_drng_rd := False, is_not_1st_hw_poll := True\<rparr>)
     else \<forall>y. mbedtls_hardware_poll e out len s = Some y \<longrightarrow> fst y = SEC_FAILED"
  using hardware_poll_good [OF assms] hardware_poll_bad [OF assms] by auto

theorem entropy_source_exact_witness:
  "mbedtls_hardware_poll sample_sec_env [0, 0, 0, 0] 4 sample_sec =
     Some (SEC_SUCCESS, map (drng_byte sample_sec_env []) [0..<4], Some 4,
       (drng_after sample_sec_env sample_sec 2)\<lparr>entropy_state := True, is_1st_drng_rd := False, is_not_1st_hw_poll := True\<rparr>)"
proof -
  have "\<forall>k < words_for 4. drng_good sample_sec_env sample_sec k"
    by (auto simp: words_for_def less_Suc_eq numeral_2_eq_2 drng_good_def drng_alive_def drng_fresh_def drng_word_def
        drng_log_def sample_sec_env_def SEC_BYTE012_SET_MSK_def)
  then show ?thesis
    using entropy_source_exact [of 4 "[0, 0, 0, 0]" sample_sec_env sample_sec] by (simp add: words_for_def)
qed

text \<open>C25. If the clock passes the limit, the wait for the handshake returns.  When it has seen the flag of the
  handshake it reports success; otherwise the limit is reached, and it reports failure, except
  that it reports success when exactly the limit has passed.\<close>

theorem handshake_wait_ends:
  assumes "\<And>l. N \<le> length l \<Longrightarrow> timeout \<le> uptime e l - uptime e (io s @ [UptimeGet])"
  shows "ok (sec_int_start e timeout s) (\<lambda>(r, s').
     let elapsed = uptime e (io s') - uptime e (io s @ [UptimeGet])
     in if sec_int_start_init_flag s' \<noteq> 0 then r = SEC_SUCCESS
        else timeout \<le> elapsed \<and> r = (if elapsed = timeout then SEC_SUCCESS else SEC_FAILED))"
proof -
  let ?s = "emit UptimeGet (sec_hc_reset_drng_state s)" and ?p = "uptime e (io s @ [UptimeGet])"
  have io: "io ?s = io s @ [UptimeGet]" by (simp add: sec_hc_reset_drng_state_def)
  obtain t s1 where run: "start_loop e timeout ?p ?p 0 ?s = Some (t, s1)"
    using start_loop_returns [of N timeout e ?p ?p 0 ?s] assms by auto
  then have "sec_int_start e timeout s = Some (if timeout < t - ?p then SEC_FAILED else SEC_SUCCESS, s1)"
    using io by (simp add: sec_int_start_def sec_int_get_time_def Let_def)
  moreover have "loop_ended e timeout ?p (t, s1)"
    using start_loop_result [OF run] io by (simp add: loop_head_def)
  ultimately show ?thesis by (auto simp: loop_ended_def Let_def split: if_splits)
qed

text \<open>With a handshake that is made the wait succeeds, and without one it fails.\<close>

theorem handshake_wait_ends_witness:
  "ok (sec_int_start greeted_sec_env 3 sample_sec) (\<lambda>(r, s'). sec_int_start_init_flag s' = 1 \<and> r = SEC_SUCCESS) \<and>
   ok (sec_int_start fast_sec_env 3 sample_sec) (\<lambda>(r, s'). sec_int_start_init_flag s' = 0 \<and> r = SEC_FAILED)"
proof -
  have clock: "3 \<le> (of_nat (min (2 * n) 1000) :: u32) - 2" if "4 \<le> n" for n
  proof -
    let ?m = "min (2 * n) 1000"
    have "of_nat ?m - 2 = (of_nat (?m - 2) :: u32)" using that by (simp add: of_nat_diff)
    moreover have "unat (of_nat (?m - 2) :: u32) = ?m - 2" by (simp only: unat_of_nat) (simp add: take_bit_nat_eq_self)
    ultimately have "unat (of_nat ?m - 2 :: u32) = ?m - 2" by (simp only:)
    then show ?thesis using that by (simp add: word_le_nat_alt)
  qed
  have g: "ok (sec_int_start greeted_sec_env 3 sample_sec) (\<lambda>(r, s'). sec_int_start_init_flag s' = 1)"
    and f: "ok (sec_int_start fast_sec_env 3 sample_sec) (\<lambda>(r, s'). sec_int_start_init_flag s' = 0 \<and>
      uptime fast_sec_env (io s') = 6)"
    by (simp_all add: sec_int_start_def start_loop.simps sec_int_get_time_def sec_hc_reset_drng_state_def greeted_sec_env_def
        fast_sec_env_def sample_sec_env_def Let_def emit_def)
  show ?thesis
    using handshake_wait_ends [of 4 3 greeted_sec_env sample_sec] handshake_wait_ends [of 4 3 fast_sec_env sample_sec] clock g f
    by (auto simp: greeted_sec_env_def fast_sec_env_def sample_sec_env_def Let_def elim!: okE)
qed

end
