(* ===== verification/C_String.thy ===== *)
theory C_String
  imports Pse_Prelude
begin

text \<open>
  The functions of \<^verbatim>\<open>string.h\<close> and \<^verbatim>\<open>stdio.h\<close> that the out-of-band agent uses.  A pointer into a
  character array is the list of the characters from there to the end of the array; a string ends
  at the first null character, and a function that does not find one before the end of the array
  reads outside it (\<open>None\<close>).
\<close>

definition NUL :: char where "NUL = CHR 0x00"

text \<open>A string literal as an array.\<close>

definition cz :: "string \<Rightarrow> string" where "cz t = t @ [NUL]"

definition terminated :: "string \<Rightarrow> bool" where "terminated b \<longleftrightarrow> NUL \<in> set b"

definition cstr :: "string \<Rightarrow> string option" where
  "cstr b = (if NUL \<in> set b then Some (takeWhile (\<lambda>c. c \<noteq> NUL) b) else None)"

definition strlen :: "string \<Rightarrow> nat option" where
  "strlen b = map_option length (cstr b)"

text \<open>Whether \<^verbatim>\<open>strncmp\<close> returns 0.\<close>

fun strncmp_eq :: "string \<Rightarrow> string \<Rightarrow> nat \<Rightarrow> bool option" where
  "strncmp_eq a b 0 = Some True"
| "strncmp_eq (x # a) (y # b) (Suc n) =
     (if x \<noteq> y then Some False else if x = NUL then Some True else strncmp_eq a b n)"
| "strncmp_eq _ _ (Suc n) = None"

text \<open>The first suffix of a text that begins with the pattern.\<close>

fun find_sub :: "string \<Rightarrow> string \<Rightarrow> string option" where
  "find_sub [] pat = (if pat = [] then Some [] else None)"
| "find_sub (x # xs) pat = (if prefix pat (x # xs) then Some (x # xs) else find_sub xs pat)"

text \<open>The result of \<^verbatim>\<open>strstr\<close> points into the array; inside, \<open>None\<close> is a null pointer.\<close>

definition strstr :: "string \<Rightarrow> string \<Rightarrow> string option option" where
  "strstr b pat =
     do { t \<leftarrow> cstr b; p \<leftarrow> cstr pat;
          Some (map_option (\<lambda>u. drop (length t - length u) b) (find_sub t p)) }"

definition strchr :: "string \<Rightarrow> char \<Rightarrow> string option option" where
  "strchr b c =
     do { t \<leftarrow> cstr b;
          Some (if c \<in> set t then Some (dropWhile (\<lambda>x. x \<noteq> c) b) else None) }"

text \<open>\<^verbatim>\<open>memset\<close> and \<^verbatim>\<open>memcpy\<close> to the beginning of an array; \<open>None\<close> when it is too short.\<close>

definition c_memset :: "string \<Rightarrow> nat \<Rightarrow> string option" where
  "c_memset b n = (if n \<le> length b then Some (replicate n NUL @ drop n b) else None)"

definition c_memcpy :: "string \<Rightarrow> string \<Rightarrow> nat \<Rightarrow> string option" where
  "c_memcpy b src n = (if n \<le> length b \<and> n \<le> length src then Some (take n src @ drop n b) else None)"

text \<open>\<^verbatim>\<open>strncpy(b, t, n)\<close> with a literal.\<close>

definition c_strncpy :: "string \<Rightarrow> string \<Rightarrow> nat \<Rightarrow> string option" where
  "c_strncpy b t n = (if n \<le> length b then Some (take n (t @ replicate n NUL) @ drop n b) else None)"

text \<open>The text a format produces: the directives \<^verbatim>\<open>%s\<close> and \<^verbatim>\<open>%d\<close> take the next argument.\<close>

fun c_format :: "string \<Rightarrow> string list \<Rightarrow> string" where
  "c_format (CHR ''%'' # c # f) (a # as) =
     (if c = CHR ''s'' \<or> c = CHR ''d'' then a @ c_format f as else CHR ''%'' # c_format (c # f) (a # as))"
| "c_format (x # f) as = x # c_format f as"
| "c_format [] as = []"

text \<open>\<^verbatim>\<open>snprintf\<close> writes at most \<open>sz - 1\<close> characters and a null character.\<close>

definition c_snprintf :: "string \<Rightarrow> nat \<Rightarrow> string \<Rightarrow> string list \<Rightarrow> string option" where
  "c_snprintf b sz fmt args =
     (let t = take (sz - 1) (c_format fmt args) @ [NUL]
      in if sz = 0 then Some b
         else if length t \<le> length b \<and> sz \<le> length b then Some (t @ drop (length t) b) else None)"

text \<open>\<^verbatim>\<open>sprintf(.., "%d", ..)\<close>.\<close>

fun dec_nat :: "nat \<Rightarrow> string" where
  "dec_nat n = (if n < 10 then [char_of (48 + n)] else dec_nat (n div 10) @ [char_of (48 + n mod 10)])"

declare dec_nat.simps [simp del]

definition dec_int :: "int \<Rightarrow> string" where
  "dec_int i = (if i < 0 then CHR ''-'' # dec_nat (nat (- i)) else dec_nat (nat i))"

section \<open>Lemmas\<close>

lemma terminated_simps [simp]:
  "terminated (a @ b) \<longleftrightarrow> terminated a \<or> terminated b" "terminated (x # b) \<longleftrightarrow> x = NUL \<or> terminated b"
  "\<not> terminated []" "terminated (cz t)"
  "terminated (replicate n NUL) \<longleftrightarrow> 0 < n"
  by (auto simp: terminated_def cz_def)

lemma cstr_terminated: "cstr b \<noteq> None \<longleftrightarrow> terminated b"
  by (simp add: cstr_def terminated_def)

lemma cstr_SomeD: "cstr b = Some t \<Longrightarrow> terminated b \<and> NUL \<notin> set t \<and> (\<exists>r. b = t @ NUL # r)"
proof -
  assume c: "cstr b = Some t"
  then have nb: "NUL \<in> set b" and t: "t = takeWhile (\<lambda>c. c \<noteq> NUL) b" by (auto simp: cstr_def split: if_splits)
  have "NUL \<notin> set t" using t by (auto dest: set_takeWhileD)
  moreover have "dropWhile (\<lambda>c. c \<noteq> NUL) b \<noteq> []" using nb by (auto simp: dropWhile_eq_Nil_conv)
  then have "\<exists>r. b = t @ NUL # r"
    using t hd_dropWhile [of "\<lambda>c. c \<noteq> NUL" b] takeWhile_dropWhile_id [of "\<lambda>c. c \<noteq> NUL" b]
    by (metis list.collapse)
  ultimately show ?thesis using nb by (simp add: terminated_def)
qed

lemma cstr_app [simp]: "NUL \<notin> set t \<Longrightarrow> cstr (t @ NUL # r) = Some t"
  by (auto simp: cstr_def takeWhile_append)

lemma cstr_cz [simp]: "NUL \<notin> set t \<Longrightarrow> cstr (cz t) = Some t"
  by (simp add: cz_def)

lemma cstr_Some_iff: "cstr b = Some t \<longleftrightarrow> NUL \<notin> set t \<and> (\<exists>r. b = t @ NUL # r)"
  using cstr_SomeD cstr_app by blast

lemma find_sub_None: "find_sub t p = None \<longleftrightarrow> \<not> sublist p t"
proof (induction t)
  case Nil
  then show ?case by auto
next
  case (Cons x xs)
  then show ?case by (auto simp: sublist_Cons_right)
qed

lemma find_sub_Some: "find_sub t p = Some u \<Longrightarrow> suffix u t \<and> prefix p u"
  by (induction t) (auto simp: suffix_Cons split: if_splits)

lemma strstr_defined: "terminated b \<Longrightarrow> terminated p \<Longrightarrow> strstr b p \<noteq> None"
  by (auto simp: strstr_def cstr_def terminated_def)

lemma strstr_null:
  assumes "NUL \<notin> set t" "NUL \<notin> set p"
  shows "strstr (t @ NUL # r) (cz p) = Some None \<longleftrightarrow> \<not> sublist p t"
  using assms by (simp add: strstr_def find_sub_None)

lemma length_c_memset: "c_memset b n = Some b' \<Longrightarrow> length b' = length b"
  by (auto simp: c_memset_def split: if_splits)

lemma length_c_memcpy: "c_memcpy b src n = Some b' \<Longrightarrow> length b' = length b"
  by (auto simp: c_memcpy_def split: if_splits)

lemma length_c_strncpy: "c_strncpy b t n = Some b' \<Longrightarrow> length b' = length b"
  by (auto simp: c_strncpy_def split: if_splits)

lemma c_snprintf_ok:
  assumes "0 < sz" "sz \<le> length b"
  shows "c_snprintf b sz f as =
           Some (take (sz - 1) (c_format f as) @ [NUL] @ drop (Suc (min (sz - 1) (length (c_format f as)))) b)"
  using assms by (simp add: c_snprintf_def Let_def min.commute)

lemma c_snprintf_keeps:
  assumes "0 < sz" "sz \<le> length b"
  shows "ok (c_snprintf b sz f as) (\<lambda>b'. length b' = length b \<and> terminated b')"
  using assms by (auto simp: c_snprintf_ok)

lemmas c_lengths = length_c_memset length_c_memcpy length_c_strncpy

end
