(* ===== verification/Oob_Adapter.thy ===== *)
theory Oob_Adapter
  imports C_String Pmc_Service
begin

text \<open>
  The cloud adapters of the out-of-band agent: \<^verbatim>\<open>adapter/telit.c\<close>, \<^verbatim>\<open>adapter/thingsboard.c\<close>,
  \<^verbatim>\<open>adapter/azure_iot.c\<close>, and the table of function pointers in \<^verbatim>\<open>adapter/adapter.c\<close>.  An adapter turns
  a message of the cloud into a command and an answer, and builds topics and payloads.
\<close>

section \<open>Types and state\<close>

datatype cloud_adapter = NOADAPTER | TELIT | AZURE | THINGSBOARD

datatype oob_messages = REBOOT | DECOMMISSION | POWERON | POWEROFF | IGNORE | RELAY | PLT_STATE_CHANGE_EVENT
  | PLT_STATE_TIMER_EVENT | TLS_SESSION_STATE_EVENT | MQTT_STATE_CHANGE_EVENT | PLT_NW_MGMT_EVENT

definition OOB_SUCCESS :: int where "OOB_SUCCESS = 0"
definition OOB_ERR_ADAPTER_SUB_TOPIC_CPY :: int where "OOB_ERR_ADAPTER_SUB_TOPIC_CPY = 19"
definition MAX_MQTT_SUBS_TOPIC_LEN :: nat where "MAX_MQTT_SUBS_TOPIC_LEN = 200"
definition MAX_MSG_BUF_LEN :: nat where "MAX_MSG_BUF_LEN = 64"

text \<open>\<^verbatim>\<open>struct cloud_credentials\<close>; the character arrays keep their size.\<close>

record cloud_credentials =
  cr_cloud_type :: string
  cr_cloud_host :: string
  cr_cloud_port :: string
  cr_token :: string
  cr_token_size :: nat
  cr_username :: string
  cr_username_size :: nat
  cr_mqtt_client_id :: string
  cr_mqtt_client_id_size :: nat
  cr_proxy_url :: string
  cr_proxy_port :: string
  cr_trusted_ca :: string
  cr_trusted_ca_size :: nat
  cr_cloud_adapter :: cloud_adapter
  cr_cloud_tls_sni :: string

text \<open>\<open>cloud_fns\<close> names the adapter whose functions the table \<^verbatim>\<open>cloud_adapter\<close> points to; \<open>NOADAPTER\<close> is the
  table of null pointers.  The credentials are a pointer, null until they are fetched.\<close>

record adapter_state = pmc_state +
  creds :: "cloud_credentials option"
  cloud_fns :: cloud_adapter
  pub_buf :: string
  tb_payload :: string
  msg_buffer :: string
  az_payload :: string

section \<open>Shared by the adapters\<close>

text \<open>The loop of \<^verbatim>\<open>.._get_mqtt_sub_topics\<close>.\<close>

fun copy_sub_topics :: "string list \<Rightarrow> nat \<Rightarrow> int \<Rightarrow> string list \<Rightarrow> (int \<times> string list) option" where
  "copy_sub_topics [] i ret st = Some (ret, st)"
| "copy_sub_topics (t # ts) i ret st =
     (if length st \<le> i then None
      else if length t < MAX_MQTT_SUBS_TOPIC_LEN
      then do { row \<leftarrow> c_memcpy (st ! i) t (length t); copy_sub_topics ts (i + 1) ret (st[i := row]) }
      else copy_sub_topics ts (i + 1) OOB_ERR_ADAPTER_SUB_TOPIC_CPY st)"

text \<open>The first command whose method name occurs in a text.\<close>

fun first_command :: "string \<Rightarrow> (string \<times> oob_messages) list \<Rightarrow> oob_messages option option" where
  "first_command txt [] = Some None"
| "first_command txt ((meth, m) # l) =
     do { p \<leftarrow> strstr txt (cz meth); (case p of Some _ \<Rightarrow> Some (Some m) | None \<Rightarrow> first_command txt l) }"

section \<open>Telit\<close>

definition TELIT_COMMANDS :: "(string \<times> oob_messages) list" where
  "TELIT_COMMANDS = [(''reboot_device'', REBOOT), (''powerup_device'', POWERON),
     (''powerdown_device'', POWEROFF), (''decommision_device'', DECOMMISSION)]"
definition TELIT_METHOD_EXEC :: string where "TELIT_METHOD_EXEC = ''method.exec''"
definition TELIT_REQUEST_ID :: string where "TELIT_REQUEST_ID = ''id''"
definition TELIT_ID_LEN :: nat where "TELIT_ID_LEN = 24"
definition TELIT_MAILBOX_ACK_RESPONSE :: string where "TELIT_MAILBOX_ACK_RESPONSE = ''Command Received''"
definition TELIT_MAILBOX_ACK_MESSAGE_TEMPLATE :: string where
  "TELIT_MAILBOX_ACK_MESSAGE_TEMPLATE =
     ''{\"cmd\":{\"command\":\"mailbox.ack\",\"params\":{\"id\":\"%s\",\"errorCode\":0,\"params\":{\"Response\":\"%s\"}}}}''"
definition TELIT_LOG_MESSAGE_TEMPLATE :: string where
  "TELIT_LOG_MESSAGE_TEMPLATE = ''{\"cmd\":{\"command\":\"log.publish\",\"params\":{\"thingKey\":\"%s\",\"msg\":\"%s\"}}}''"
definition TELIT_MAILBOX_CHECK_MESSAGE_TEMPLATE :: string where
  "TELIT_MAILBOX_CHECK_MESSAGE_TEMPLATE =
     ''{\"cmd\":{\"command\":\"mailbox.check\",\"params\":{\"autocomplete\": false,\"limit\":%d}}}''"
definition TELIT_ATTRIBUTE_MESSAGE_TEMPLATE :: string where
  "TELIT_ATTRIBUTE_MESSAGE_TEMPLATE =
     ''{\"cmd\":{\"command\":\"attribute.publish\",\"params\":{\"thingKey\":\"%s\",\"key\":\"%s\",\"value\":\"%s\"}}}''"
definition TELIT_MQTT_PUB_TOPIC :: string where "TELIT_MQTT_PUB_TOPIC = ''api''"
definition TELIT_REPLY_TOPIC :: string where "TELIT_REPLY_TOPIC = ''reply''"
definition TELIT_NOTIFY_TOPIC :: string where "TELIT_NOTIFY_TOPIC = ''notify/mailbox_activity''"
definition telit_ignore_list :: "string list" where
  "telit_ignore_list = [''{\"cmd\":{\"success\":true}}'']"
definition telit_mqtt_subs_topics :: "string list" where
  "telit_mqtt_subs_topics = [''reply/#'', ''replyz/#'', ''notify/#'']"

definition telit_get_mqtt_pub_topic ::
    "app_message_type \<Rightarrow> 'a adapter_state_scheme \<Rightarrow> (string \<times> 'a adapter_state_scheme) option" where
  "telit_get_mqtt_pub_topic ty s = Some (cz TELIT_MQTT_PUB_TOPIC, s)"

definition telit_get_mqtt_sub_topics_count :: nat where
  "telit_get_mqtt_sub_topics_count = 3"

definition telit_get_mqtt_sub_topics :: "string list \<Rightarrow> (int \<times> string list) option" where
  "telit_get_mqtt_sub_topics st = copy_sub_topics telit_mqtt_subs_topics 0 OOB_SUCCESS st"

definition telit_prepare_attrib_pub_message ::
    "string \<Rightarrow> nat \<Rightarrow> string \<Rightarrow> string \<Rightarrow> 'a adapter_state_scheme \<Rightarrow> string option" where
  "telit_prepare_attrib_pub_message buf n key val s =
     do { c \<leftarrow> creds s; u \<leftarrow> cstr (cr_username c); k \<leftarrow> cstr key; v \<leftarrow> cstr val;
          c_snprintf buf n TELIT_ATTRIBUTE_MESSAGE_TEMPLATE [u, k, v] }"

fun in_ignore_list :: "string \<Rightarrow> nat \<Rightarrow> string list \<Rightarrow> bool option" where
  "in_ignore_list msg n [] = Some False"
| "in_ignore_list msg n (t # ts) =
     do { b \<leftarrow> strncmp_eq msg (cz t) n; if b then Some True else in_ignore_list msg n ts }"

definition telit_check_exists_ignore_list :: "string \<Rightarrow> nat \<Rightarrow> bool option" where
  "telit_check_exists_ignore_list msg n = in_ignore_list msg n telit_ignore_list"

definition telit_prepare_mailbox_check :: "string \<Rightarrow> nat \<Rightarrow> string option" where
  "telit_prepare_mailbox_check buf n = c_snprintf buf n TELIT_MAILBOX_CHECK_MESSAGE_TEMPLATE [dec_int 1]"

text \<open>The identifier is copied into an array of exactly its length and then printed with \<^verbatim>\<open>%s\<close>; a null pointer
  from \<^verbatim>\<open>strchr\<close> is incremented.\<close>

definition skip_quote :: "string \<Rightarrow> string option" where
  "skip_quote b = do { p \<leftarrow> strchr b (CHR 0x22); q \<leftarrow> p; Some (tl q) }"

definition telit_prepare_mailbox_ack :: "string \<Rightarrow> string \<Rightarrow> nat \<Rightarrow> string option" where
  "telit_prepare_mailbox_ack payload buf n =
     do {
       buf1 \<leftarrow> c_memset buf n;
       p \<leftarrow> strstr payload (cz TELIT_REQUEST_ID);
       (case p of
          None \<Rightarrow> Some buf1
        | Some t \<Rightarrow>
            do {
              t1 \<leftarrow> skip_quote t;
              t2 \<leftarrow> skip_quote t1;
              bufout \<leftarrow> (if TELIT_ID_LEN \<le> length t2 then Some (take TELIT_ID_LEN t2) else None);
              ident \<leftarrow> cstr bufout;
              c_snprintf buf1 n TELIT_MAILBOX_ACK_MESSAGE_TEMPLATE [ident, TELIT_MAILBOX_ACK_RESPONSE]
            })
     }"

text \<open>A message on the reply topic: a command of the cloud names this device.\<close>

definition telit_process_reply ::
    "string \<Rightarrow> string \<Rightarrow> nat \<Rightarrow> 'a adapter_state_scheme \<Rightarrow> (oob_messages \<times> string \<times> 'a adapter_state_scheme) option" where
  "telit_process_reply payload next_msg n s =
     do {
       method_exec \<leftarrow> strstr payload (cz TELIT_METHOD_EXEC);
       c \<leftarrow> creds s;
       thing_verify \<leftarrow> strstr payload (cr_username c);
       oob_cmd \<leftarrow> first_command payload TELIT_COMMANDS;
       (case oob_cmd of
          Some m \<Rightarrow>
            if method_exec \<noteq> None \<and> thing_verify \<noteq> None
            then do { nm \<leftarrow> telit_prepare_mailbox_ack payload next_msg n; Some (m, nm, s) }
            else Some (IGNORE, next_msg, s)
        | None \<Rightarrow> Some (IGNORE, next_msg, s))
     }"

text \<open>Payload, its length, topic, its length, buffer of the answer, its size.\<close>

definition telit_process_message ::
    "string \<Rightarrow> nat \<Rightarrow> string \<Rightarrow> nat \<Rightarrow> string \<Rightarrow> nat \<Rightarrow> 'a adapter_state_scheme
     \<Rightarrow> (oob_messages \<times> string \<times> 'a adapter_state_scheme) option" where
  "telit_process_message payload payload_length topic topic_length next_msg n s =
     do {
       r \<leftarrow> strncmp_eq topic (cz TELIT_REPLY_TOPIC) topic_length;
       ign \<leftarrow> (if r then telit_check_exists_ignore_list payload payload_length else Some False);
       if ign then Some (IGNORE, next_msg, s)
       else do {
         notify \<leftarrow> strncmp_eq topic (cz TELIT_NOTIFY_TOPIC) (length TELIT_NOTIFY_TOPIC);
         if notify then do { nm \<leftarrow> telit_prepare_mailbox_check next_msg n; Some (RELAY, nm, s) }
         else do {
           reply \<leftarrow> strncmp_eq topic (cz TELIT_REPLY_TOPIC) (length TELIT_REPLY_TOPIC);
           if reply then telit_process_reply payload next_msg n s else Some (IGNORE, next_msg, s)
         }
       }
     }"

definition telit_prepare_log_message :: "string \<Rightarrow> nat \<Rightarrow> string \<Rightarrow> 'a adapter_state_scheme \<Rightarrow> string option" where
  "telit_prepare_log_message buf n message s =
     do { c \<leftarrow> creds s; u \<leftarrow> cstr (cr_username c); m \<leftarrow> cstr message;
          c_snprintf buf n TELIT_LOG_MESSAGE_TEMPLATE [u, m] }"

section \<open>ThingsBoard\<close>

definition THINGSBOARD_COMMANDS :: "(string \<times> oob_messages) list" where
  "THINGSBOARD_COMMANDS = [(''reboot_device'', REBOOT), (''powerup_device'', POWERON),
     (''powerdown_device'', POWEROFF), (''decommission_device'', DECOMMISSION)]"
definition THINGSBOARD_REQUEST_ID :: string where "THINGSBOARD_REQUEST_ID = ''requestID''"
definition THINGSBOARD_ATTRIBUTE_MESSAGE_TEMPLATE :: string where
  "THINGSBOARD_ATTRIBUTE_MESSAGE_TEMPLATE = ''{\"%s\":\"%s\"}''"
definition THINGSBOARD_EVENT_MESSAGE_TEMPLATE :: string where
  "THINGSBOARD_EVENT_MESSAGE_TEMPLATE = ''{\"event\":\"%s\"}''"
definition THINGSBOARD_MQTT_PUB_ATTRIB_TOPIC :: string where
  "THINGSBOARD_MQTT_PUB_ATTRIB_TOPIC = ''v1/devices/me/attributes''"
definition THINGSBOARD_MQTT_PUB_TELEM_TOPIC :: string where
  "THINGSBOARD_MQTT_PUB_TELEM_TOPIC = ''v1/devices/me/telemetry''"
definition THINGSBOARD_RPC_REPLY_TOPIC :: string where
  "THINGSBOARD_RPC_REPLY_TOPIC = ''v1/devices/me/rpc/response/%s''"
definition THINGSBOARD_RPC_SUB_TOPIC :: string where
  "THINGSBOARD_RPC_SUB_TOPIC = ''v1/devices/me/rpc/request/+''"

definition thingsboard_prepare_pub_ack_topic :: "string \<Rightarrow> string \<Rightarrow> nat \<Rightarrow> string option" where
  "thingsboard_prepare_pub_ack_topic payload buf n =
     do {
       buf1 \<leftarrow> c_memset buf n;
       p \<leftarrow> strstr payload (cz THINGSBOARD_REQUEST_ID);
       (case p of None \<Rightarrow> Some buf1
        | Some t \<Rightarrow> do { u \<leftarrow> cstr t; c_snprintf buf1 n THINGSBOARD_RPC_REPLY_TOPIC [u] })
     }"

definition thingsboard_get_mqtt_pub_topic ::
    "app_message_type \<Rightarrow> 'a adapter_state_scheme \<Rightarrow> (string \<times> 'a adapter_state_scheme) option" where
  "thingsboard_get_mqtt_pub_topic ty s =
     (case ty of
        STATIC \<Rightarrow> Some (cz THINGSBOARD_MQTT_PUB_ATTRIB_TOPIC, s)
      | API \<Rightarrow> do { b \<leftarrow> thingsboard_prepare_pub_ack_topic (tb_payload s) (pub_buf s) MAX_MSG_BUF_LEN;
                    Some (b, s\<lparr>pub_buf := b\<rparr>) }
      | _ \<Rightarrow> Some (cz THINGSBOARD_MQTT_PUB_TELEM_TOPIC, s))"

definition thingsboard_get_mqtt_sub_topics_count :: nat where
  "thingsboard_get_mqtt_sub_topics_count = 1"

definition thingsboard_get_mqtt_sub_topics :: "string list \<Rightarrow> (int \<times> string list) option" where
  "thingsboard_get_mqtt_sub_topics st = copy_sub_topics [THINGSBOARD_RPC_SUB_TOPIC] 0 OOB_SUCCESS st"

definition thingsboard_prepare_attrib_pub_message ::
    "string \<Rightarrow> nat \<Rightarrow> string \<Rightarrow> string \<Rightarrow> 'a adapter_state_scheme \<Rightarrow> string option" where
  "thingsboard_prepare_attrib_pub_message buf n key val s =
     do { k \<leftarrow> cstr key; v \<leftarrow> cstr val; c_snprintf buf n THINGSBOARD_ATTRIBUTE_MESSAGE_TEMPLATE [k, v] }"

definition thingsboard_process_message ::
    "string \<Rightarrow> nat \<Rightarrow> string \<Rightarrow> nat \<Rightarrow> string \<Rightarrow> nat \<Rightarrow> 'a adapter_state_scheme
     \<Rightarrow> (oob_messages \<times> string \<times> 'a adapter_state_scheme) option" where
  "thingsboard_process_message payload payload_length topic topic_length next_msg n s =
     (if MAX_MSG_BUF_LEN < topic_length then Some (IGNORE, next_msg, s)
      else do {
        b \<leftarrow> c_memset (tb_payload s) MAX_MSG_BUF_LEN;
        b1 \<leftarrow> c_memcpy b topic topic_length;
        nm \<leftarrow> c_memset next_msg n;
        rsp \<leftarrow> strstr topic (cz THINGSBOARD_RPC_REPLY_TOPIC);
        oob_cmd \<leftarrow> (if rsp = None then first_command payload THINGSBOARD_COMMANDS else Some None);
        (case oob_cmd of
           Some m \<Rightarrow> do { nm1 \<leftarrow> c_snprintf nm n THINGSBOARD_ATTRIBUTE_MESSAGE_TEMPLATE [''status'', ''200''];
                         Some (m, nm1, s\<lparr>tb_payload := b1\<rparr>) }
         | None \<Rightarrow> Some (IGNORE, nm, s\<lparr>tb_payload := b1\<rparr>))
      })"

definition thingsboard_prepare_log_message :: "string \<Rightarrow> nat \<Rightarrow> string \<Rightarrow> 'a adapter_state_scheme \<Rightarrow> string option" where
  "thingsboard_prepare_log_message buf n message s =
     do { m \<leftarrow> cstr message; c_snprintf buf n THINGSBOARD_EVENT_MESSAGE_TEMPLATE [m] }"

section \<open>Azure IoT\<close>

definition AZURE_IOT_COMMANDS :: "(string \<times> oob_messages) list" where
  "AZURE_IOT_COMMANDS = [(''reboot_device'', REBOOT), (''powerup_device'', POWERON),
     (''powerdown_device'', POWEROFF), (''decommision_device'', DECOMMISSION)]"
definition AZURE_IOT_REQUEST_ID :: string where "AZURE_IOT_REQUEST_ID = ''rid''"
definition AZURE_IOT_EVENT_GENERIC :: string where "AZURE_IOT_EVENT_GENERIC = ''event_generic''"
definition AZURE_IOT_EVENT_MESSAGE_TEMPLATE :: string where
  "AZURE_IOT_EVENT_MESSAGE_TEMPLATE = ''{\"%s\":\"%s\"}''"
definition AZURE_IOT_ATTRIBUTE_MESSAGE_TEMPLATE :: string where
  "AZURE_IOT_ATTRIBUTE_MESSAGE_TEMPLATE = ''{\"%s\":\"%s\"}''"
definition AZURE_IOT_MQTT_PUB_ATTRIB_TOPIC :: string where
  "AZURE_IOT_MQTT_PUB_ATTRIB_TOPIC = ''$iothub/twin/PATCH/properties/reported/''"
definition AZURE_IOT_MQTT_PUB_TELEM_TOPIC :: string where
  "AZURE_IOT_MQTT_PUB_TELEM_TOPIC = ''devices/%s/messages/events/''"
definition AZURE_IOT_RPC_REPLY_TOPIC :: string where
  "AZURE_IOT_RPC_REPLY_TOPIC = ''$iothub/methods/res/201/?$%s''"
definition AZURE_IOT_RPC_SUB_TOPIC :: string where
  "AZURE_IOT_RPC_SUB_TOPIC = ''$iothub/methods/POST/#''"

definition azure_iot_prepare_pub_telem_topic :: "string \<Rightarrow> nat \<Rightarrow> string \<Rightarrow> string option" where
  "azure_iot_prepare_pub_telem_topic buf n val =
     do { v \<leftarrow> cstr val; c_snprintf buf n AZURE_IOT_MQTT_PUB_TELEM_TOPIC [v] }"

definition azure_iot_prepare_pub_ack_topic :: "string \<Rightarrow> string \<Rightarrow> nat \<Rightarrow> string option" where
  "azure_iot_prepare_pub_ack_topic payload buf n =
     do {
       buf1 \<leftarrow> c_memset buf n;
       p \<leftarrow> strstr payload (cz AZURE_IOT_REQUEST_ID);
       (case p of None \<Rightarrow> Some buf1
        | Some t \<Rightarrow> do { u \<leftarrow> cstr t; c_snprintf buf1 n AZURE_IOT_RPC_REPLY_TOPIC [u] })
     }"

definition azure_iot_get_mqtt_pub_topic ::
    "app_message_type \<Rightarrow> 'a adapter_state_scheme \<Rightarrow> (string \<times> 'a adapter_state_scheme) option" where
  "azure_iot_get_mqtt_pub_topic ty s =
     (case ty of
        STATIC \<Rightarrow> Some (cz AZURE_IOT_MQTT_PUB_ATTRIB_TOPIC, s)
      | API \<Rightarrow> do { b \<leftarrow> azure_iot_prepare_pub_ack_topic (az_payload s) (msg_buffer s) MAX_MSG_BUF_LEN;
                    Some (b, s\<lparr>msg_buffer := b\<rparr>) }
      | _ \<Rightarrow> do { c \<leftarrow> creds s;
                  b \<leftarrow> azure_iot_prepare_pub_telem_topic (msg_buffer s) MAX_MSG_BUF_LEN (cr_mqtt_client_id c);
                  Some (b, s\<lparr>msg_buffer := b\<rparr>) })"

definition azure_iot_get_mqtt_sub_topics_count :: nat where
  "azure_iot_get_mqtt_sub_topics_count = 1"

definition azure_iot_get_mqtt_sub_topics :: "string list \<Rightarrow> (int \<times> string list) option" where
  "azure_iot_get_mqtt_sub_topics st = copy_sub_topics [AZURE_IOT_RPC_SUB_TOPIC] 0 OOB_SUCCESS st"

definition azure_iot_prepare_attrib_pub_message ::
    "string \<Rightarrow> nat \<Rightarrow> string \<Rightarrow> string \<Rightarrow> 'a adapter_state_scheme \<Rightarrow> string option" where
  "azure_iot_prepare_attrib_pub_message buf n key val s =
     do { k \<leftarrow> cstr key; v \<leftarrow> cstr val; c_snprintf buf n AZURE_IOT_ATTRIBUTE_MESSAGE_TEMPLATE [k, v] }"

definition azure_iot_process_message ::
    "string \<Rightarrow> nat \<Rightarrow> string \<Rightarrow> nat \<Rightarrow> string \<Rightarrow> nat \<Rightarrow> 'a adapter_state_scheme
     \<Rightarrow> (oob_messages \<times> string \<times> 'a adapter_state_scheme) option" where
  "azure_iot_process_message payload payload_length topic topic_length next_msg n s =
     (if MAX_MSG_BUF_LEN < topic_length then Some (IGNORE, next_msg, s)
      else do {
        b \<leftarrow> c_memset (az_payload s) MAX_MSG_BUF_LEN;
        b1 \<leftarrow> c_memcpy b topic topic_length;
        nm \<leftarrow> c_memset next_msg n;
        rsp \<leftarrow> strstr topic (cz AZURE_IOT_RPC_REPLY_TOPIC);
        oob_cmd \<leftarrow> (if rsp = None then first_command topic AZURE_IOT_COMMANDS else Some None);
        (case oob_cmd of
           Some m \<Rightarrow> do { nm1 \<leftarrow> c_snprintf nm n AZURE_IOT_ATTRIBUTE_MESSAGE_TEMPLATE [''status'', ''200''];
                         Some (m, nm1, s\<lparr>az_payload := b1\<rparr>) }
         | None \<Rightarrow> Some (IGNORE, nm, s\<lparr>az_payload := b1\<rparr>))
      })"

definition azure_iot_prepare_log_message :: "string \<Rightarrow> nat \<Rightarrow> string \<Rightarrow> 'a adapter_state_scheme \<Rightarrow> string option" where
  "azure_iot_prepare_log_message buf n message s =
     do { m \<leftarrow> cstr message; c_snprintf buf n AZURE_IOT_EVENT_MESSAGE_TEMPLATE [AZURE_IOT_EVENT_GENERIC, m] }"

section \<open>The table of function pointers\<close>

definition initialize_cloud_adapter :: "'a adapter_state_scheme \<Rightarrow> 'a adapter_state_scheme option" where
  "initialize_cloud_adapter s =
     do { c \<leftarrow> creds s;
          Some (if cr_cloud_adapter c = NOADAPTER then s else s\<lparr>cloud_fns := cr_cloud_adapter c\<rparr>) }"

text \<open>Calls through the table; a call through a null pointer is undefined.\<close>

definition get_mqtt_pub_topic ::
    "app_message_type \<Rightarrow> 'a adapter_state_scheme \<Rightarrow> (string \<times> 'a adapter_state_scheme) option" where
  "get_mqtt_pub_topic ty s =
     (case cloud_fns s of TELIT \<Rightarrow> telit_get_mqtt_pub_topic ty s
      | THINGSBOARD \<Rightarrow> thingsboard_get_mqtt_pub_topic ty s | AZURE \<Rightarrow> azure_iot_get_mqtt_pub_topic ty s
      | NOADAPTER \<Rightarrow> None)"

definition get_mqtt_sub_topics_count :: "'a adapter_state_scheme \<Rightarrow> nat option" where
  "get_mqtt_sub_topics_count s =
     (case cloud_fns s of TELIT \<Rightarrow> Some telit_get_mqtt_sub_topics_count
      | THINGSBOARD \<Rightarrow> Some thingsboard_get_mqtt_sub_topics_count
      | AZURE \<Rightarrow> Some azure_iot_get_mqtt_sub_topics_count | NOADAPTER \<Rightarrow> None)"

definition get_mqtt_sub_topics :: "string list \<Rightarrow> 'a adapter_state_scheme \<Rightarrow> (int \<times> string list) option" where
  "get_mqtt_sub_topics st s =
     (case cloud_fns s of TELIT \<Rightarrow> telit_get_mqtt_sub_topics st | THINGSBOARD \<Rightarrow> thingsboard_get_mqtt_sub_topics st
      | AZURE \<Rightarrow> azure_iot_get_mqtt_sub_topics st | NOADAPTER \<Rightarrow> None)"

definition prep_static_attrib_pub_msg ::
    "string \<Rightarrow> nat \<Rightarrow> string \<Rightarrow> string \<Rightarrow> 'a adapter_state_scheme \<Rightarrow> string option" where
  "prep_static_attrib_pub_msg buf n key val s =
     (case cloud_fns s of TELIT \<Rightarrow> telit_prepare_attrib_pub_message buf n key val s
      | THINGSBOARD \<Rightarrow> thingsboard_prepare_attrib_pub_message buf n key val s
      | AZURE \<Rightarrow> azure_iot_prepare_attrib_pub_message buf n key val s | NOADAPTER \<Rightarrow> None)"

definition prep_event_pub_msg :: "string \<Rightarrow> nat \<Rightarrow> string \<Rightarrow> 'a adapter_state_scheme \<Rightarrow> string option" where
  "prep_event_pub_msg buf n message s =
     (case cloud_fns s of TELIT \<Rightarrow> telit_prepare_log_message buf n message s
      | THINGSBOARD \<Rightarrow> thingsboard_prepare_log_message buf n message s
      | AZURE \<Rightarrow> azure_iot_prepare_log_message buf n message s | NOADAPTER \<Rightarrow> None)"

definition process_message ::
    "string \<Rightarrow> nat \<Rightarrow> string \<Rightarrow> nat \<Rightarrow> string \<Rightarrow> nat \<Rightarrow> 'a adapter_state_scheme
     \<Rightarrow> (oob_messages \<times> string \<times> 'a adapter_state_scheme) option" where
  "process_message payload payload_length topic topic_length next_msg n s =
     (case cloud_fns s of
        TELIT \<Rightarrow> telit_process_message payload payload_length topic topic_length next_msg n s
      | THINGSBOARD \<Rightarrow> thingsboard_process_message payload payload_length topic topic_length next_msg n s
      | AZURE \<Rightarrow> azure_iot_process_message payload payload_length topic topic_length next_msg n s
      | NOADAPTER \<Rightarrow> None)"

end
