(* ===== verification/Oob_Mqtt.thy ===== *)
theory Oob_Mqtt
  imports Oob_Adapter
begin

text \<open>
  The MQTT client of the out-of-band agent (\<^verbatim>\<open>mqtt_client/mqtt_client.c\<close>): the queue of messages for the
  agent, events of the MQTT library, publishing, and the connection to the cloud.  The library
  calls the event handler from inside its own functions, so every call of the library runs the
  handler on the events the environment delivers there.  Configuration: TLS, DNS resolver and
  certificate parsing are on, no proxy, IPv4.
\<close>

section \<open>Constants\<close>

definition BIG_GENERAL_BUF_SIZE :: nat where "BIG_GENERAL_BUF_SIZE = 1024"
definition XL_LARGE_BUFFER :: nat where "XL_LARGE_BUFFER = 1024"
definition MAX_SUBLIST_COUNT :: nat where "MAX_SUBLIST_COUNT = 3"
definition SERVER_PORT :: nat where "SERVER_PORT = 8883"
definition APP_SLEEP_MSECS :: nat where "APP_SLEEP_MSECS = 1000"
definition OOB_ERR_TLS_CREDENTIALS_ADD :: int where "OOB_ERR_TLS_CREDENTIALS_ADD = 3"
definition OOB_ERR_BUFFER_OVERFLOW :: int where "OOB_ERR_BUFFER_OVERFLOW = 6"
definition OOB_ERR_MQTT_SUBSCRIPTION_ERR :: int where "OOB_ERR_MQTT_SUBSCRIPTION_ERR = 20"
definition OOB_ERR_DNS_RESOLUTION_ERR :: int where "OOB_ERR_DNS_RESOLUTION_ERR = 21"
definition OOB_ERR_MQTT_DISCONNECT :: int where "OOB_ERR_MQTT_DISCONNECT = 24"

section \<open>Types\<close>

datatype oob_conn_state = NW_MGMT_EVENT_INIT | NW_MGMT_EVENT_RECEIVED | NW_MGMT_EVENT_STOP | TLS_SESSION_INIT
  | TLS_SESSION_RECONNECT

text \<open>The static queue entries of the program, and a node of the queue: a reference to an entry, as
  \<^verbatim>\<open>k_fifo_alloc_put\<close> allocates it, or the entry itself, linked by \<^verbatim>\<open>k_fifo_put\<close>.\<close>

datatype item = FMessage | MqttStateQ | SxTimerQ | SxStateQ | TlsStateQ | NwMgmtQ

datatype fifo_node = Alloc item | Own item

fun node_item :: "fifo_node \<Rightarrow> item" where
  "node_item (Alloc i) = i"
| "node_item (Own i) = i"

datatype mqtt_evt_type = MQTT_EVT_CONNACK | MQTT_EVT_DISCONNECT | MQTT_EVT_PUBLISH | MQTT_EVT_PUBACK
  | MQTT_EVT_PUBREC | MQTT_EVT_PUBCOMP | MQTT_EVT_OTHER

text \<open>An event of the library.  \<open>ev_chunks\<close> are the pieces that successive reads of the payload deliver until
  a read returns nothing; \<open>ev_topic\<close> is the receive buffer from the topic on.\<close>

record mqtt_evt =
  ev_type :: mqtt_evt_type
  ev_result :: int
  ev_message_id :: u16
  ev_payload_len :: nat
  ev_chunks :: "string list"
  ev_topic :: string
  ev_topic_size :: nat

text \<open>The result list of the resolver: not there, allocated, or released.\<close>

datatype addrinfo = AddrNull | AddrLive u32 | AddrFreed

record mqtt_publish_param =
  pp_topic :: string
  pp_payload :: string
  pp_message_id :: u16

record mqtt_client =
  cl_broker :: "nat \<times> u32"     \<comment> \<open>port, address\<close>
  cl_client_id :: string
  cl_password :: string
  cl_user_name :: string
  cl_hostname :: string

record mqtt_state = adapter_state +
  oob_conn_st :: oob_conn_state
  connected :: bool
  nfds :: nat
  dns_status :: bool
  haddr :: addrinfo
  client :: mqtt_client
  managability_fifo :: "fifo_node list"
  fifo_waiting :: bool             \<comment> \<open>the agent is blocked in \<^verbatim>\<open>k_fifo_get\<close>\<close>
  fifo_null :: bool                \<comment> \<open>its wait has been cancelled\<close>
  item_type :: "item \<Rightarrow> oob_messages"   \<comment> \<open>\<^verbatim>\<open>current_msg_type\<close> of the entries\<close>
  next_msg :: string
  msg_buf :: string
  pub_param :: mqtt_publish_param
  sub_topics :: "string list"
  sub_list :: "string list"
  ping_timer :: bool

record mqtt_env =
  mq_pmc :: pmc_env
  mq_ret :: "io_log \<Rightarrow> int"              \<comment> \<open>return code of the call logged last\<close>
  mq_events :: "io_log \<Rightarrow> mqtt_evt list" \<comment> \<open>events delivered inside it\<close>
  poll_ret :: "io_log \<Rightarrow> int"
  getaddrinfo :: "io_log \<Rightarrow> int \<times> u32"
  freed_addr :: "io_log \<Rightarrow> u32"          \<comment> \<open>what memory that has been released holds\<close>
  rand32 :: "io_log \<Rightarrow> u32"
  tls_add_ret :: "io_log \<Rightarrow> int"
  fifo_alloc_ret :: "io_log \<Rightarrow> int"
  fifo_relink :: "item \<Rightarrow> fifo_node list \<Rightarrow> fifo_node list option"  \<comment> \<open>an entry put while it is in the queue\<close>

section \<open>The queue\<close>

text \<open>The kernel gives data to a reader that waits, without allocating a node or linking the entry; the reader
  takes it when it runs next, so in the model it is a reference at the end of the queue, and nobody
  waits any more.  Otherwise the data is appended.\<close>

definition k_fifo_alloc_put :: "mqtt_env \<Rightarrow> item \<Rightarrow> 'a mqtt_state_scheme \<Rightarrow> 'a mqtt_state_scheme" where
  "k_fifo_alloc_put e it s =
     (if fifo_waiting s then s\<lparr>managability_fifo := managability_fifo s @ [Alloc it], fifo_waiting := False\<rparr>
      else if fifo_alloc_ret e (io s) \<noteq> 0 then s
      else s\<lparr>managability_fifo := managability_fifo s @ [Alloc it]\<rparr>)"

text \<open>An entry has room for one link.  What the kernel makes of a queue into which an entry is put that is in
  it already is not documented and comes from the environment.\<close>

definition k_fifo_put :: "mqtt_env \<Rightarrow> item \<Rightarrow> 'a mqtt_state_scheme \<Rightarrow> 'a mqtt_state_scheme option" where
  "k_fifo_put e it s =
     (if fifo_waiting s then Some (s\<lparr>managability_fifo := managability_fifo s @ [Alloc it], fifo_waiting := False\<rparr>)
      else if Own it \<in> set (managability_fifo s)
      then do { q \<leftarrow> fifo_relink e it (managability_fifo s); Some (s\<lparr>managability_fifo := q\<rparr>) }
      else Some (s\<lparr>managability_fifo := managability_fifo s @ [Own it]\<rparr>))"

datatype fifo_result = FifoBlock | FifoNull | FifoItem item

definition k_fifo_get :: "'a mqtt_state_scheme \<Rightarrow> fifo_result \<times> 'a mqtt_state_scheme" where
  "k_fifo_get s =
     (if fifo_null s then (FifoNull, s\<lparr>fifo_null := False, fifo_waiting := False\<rparr>)
      else case managability_fifo s of
             [] \<Rightarrow> (FifoBlock, s\<lparr>fifo_waiting := True\<rparr>)
           | n # ns \<Rightarrow> (FifoItem (node_item n), s\<lparr>managability_fifo := ns, fifo_waiting := False\<rparr>))"

definition k_fifo_cancel_wait :: "'a mqtt_state_scheme \<Rightarrow> 'a mqtt_state_scheme" where
  "k_fifo_cancel_wait s = (if fifo_waiting s then s\<lparr>fifo_waiting := False, fifo_null := True\<rparr> else s)"

section \<open>Events of the library\<close>

definition clear_fds :: "'a mqtt_state_scheme \<Rightarrow> 'a mqtt_state_scheme" where
  "clear_fds s = s\<lparr>nfds := 0\<rparr>"

definition prepare_fds :: "'a mqtt_state_scheme \<Rightarrow> 'a mqtt_state_scheme" where
  "prepare_fds s = s\<lparr>nfds := 1\<rparr>"

definition wait :: "mqtt_env \<Rightarrow> 'a mqtt_state_scheme \<Rightarrow> int \<times> 'a mqtt_state_scheme" where
  "wait e s = (if 0 < nfds s then let s1 = emit NetPoll s in (poll_ret e (io s1), s1) else (0, s))"

definition timer_expiry_pingreq :: "mqtt_env \<Rightarrow> 'a mqtt_state_scheme \<Rightarrow> 'a mqtt_state_scheme" where
  "timer_expiry_pingreq e s =
     k_fifo_alloc_put e MqttStateQ (s\<lparr>item_type := (item_type s)(MqttStateQ := MQTT_STATE_CHANGE_EVENT)\<rparr>)"

definition mqtt_process_receive ::
    "mqtt_env \<Rightarrow> string \<Rightarrow> nat \<Rightarrow> string \<Rightarrow> nat \<Rightarrow> 'a mqtt_state_scheme \<Rightarrow> 'a mqtt_state_scheme option" where
  "mqtt_process_receive e payload payload_size topic topic_len s =
     do {
       (ret, nm, s1) \<leftarrow> process_message payload payload_size topic topic_len
                          ((next_msg s)[BIG_GENERAL_BUF_SIZE - 1 := NUL]) BIG_GENERAL_BUF_SIZE s;
       let s2 = s1\<lparr>next_msg := nm\<rparr>;
       if ret \<noteq> IGNORE
       then Some (k_fifo_alloc_put e FMessage (s2\<lparr>item_type := (item_type s2)(FMessage := ret)\<rparr>))
       else Some s2
     }"

text \<open>Every read delivers to the beginning of the buffer.\<close>

fun read_payload :: "string list \<Rightarrow> string \<Rightarrow> string option" where
  "read_payload [] buf = Some buf"
| "read_payload (c # cs) buf =
     (if length c \<le> length buf then read_payload cs (c @ drop (length c) buf) else None)"

definition mqtt_evt_handler ::
    "mqtt_env \<Rightarrow> mqtt_evt \<Rightarrow> 'a mqtt_state_scheme \<Rightarrow> 'a mqtt_state_scheme option" where
  "mqtt_evt_handler e evt s =
     (case ev_type evt of
        MQTT_EVT_CONNACK \<Rightarrow> if ev_result evt \<noteq> 0 then Some s else Some (s\<lparr>connected := True\<rparr>)
      | MQTT_EVT_DISCONNECT \<Rightarrow> Some (clear_fds (s\<lparr>connected := False\<rparr>))
      | MQTT_EVT_PUBREC \<Rightarrow>
          if ev_result evt \<noteq> 0 then Some s else Some (emit (MqttCall (MqttRelease (ev_message_id evt))) s)
      | MQTT_EVT_PUBLISH \<Rightarrow>
          if ev_result evt \<noteq> 0 then Some s
          else do {
            buf \<leftarrow> read_payload (ev_chunks evt) (replicate XL_LARGE_BUFFER NUL);
            buf1 \<leftarrow> (if ev_payload_len evt < XL_LARGE_BUFFER then Some (buf[ev_payload_len evt := NUL]) else None);
            s1 \<leftarrow> mqtt_process_receive e buf1 (ev_payload_len evt) (ev_topic evt) (ev_topic_size evt) s;
            _ \<leftarrow> c_memset (ev_topic evt) (ev_topic_size evt);
            Some s1
          }
      | _ \<Rightarrow> Some s)"

fun run_events :: "mqtt_env \<Rightarrow> mqtt_evt list \<Rightarrow> 'a mqtt_state_scheme \<Rightarrow> 'a mqtt_state_scheme option" where
  "run_events e [] s = Some s"
| "run_events e (ev # evs) s = do { s1 \<leftarrow> mqtt_evt_handler e ev s; run_events e evs s1 }"

text \<open>A call of the library: it is logged, delivers its events and returns a code.\<close>

definition lib_call :: "mqtt_env \<Rightarrow> io_event \<Rightarrow> 'a mqtt_state_scheme \<Rightarrow> (int \<times> 'a mqtt_state_scheme) option" where
  "lib_call e c s =
     (let s1 = emit c s in do { s2 \<leftarrow> run_events e (mq_events e (io s1)) s1; Some (mq_ret e (io s1), s2) })"

section \<open>Publishing\<close>

text \<open>The arguments of which only one is used are the fields of a sum.\<close>

datatype pub_args = PubStatic string string | PubEvent string | PubApi string

fun pub_type :: "pub_args \<Rightarrow> app_message_type" where
  "pub_type (PubStatic k v) = STATIC"
| "pub_type (PubEvent m) = EVENT"
| "pub_type (PubApi m) = API"

text \<open>Result code and new content of \<^verbatim>\<open>msg_buf\<close>.\<close>

fun fill_msg_buf :: "pub_args \<Rightarrow> 'a mqtt_state_scheme \<Rightarrow> (int \<times> string) option" where
  "fill_msg_buf (PubStatic key val) s =
     do { b \<leftarrow> prep_static_attrib_pub_msg (msg_buf s) BIG_GENERAL_BUF_SIZE key val s; Some (OOB_SUCCESS, b) }"
| "fill_msg_buf (PubEvent msg) s =
     do { b \<leftarrow> prep_event_pub_msg (msg_buf s) BIG_GENERAL_BUF_SIZE msg s; Some (OOB_SUCCESS, b) }"
| "fill_msg_buf (PubApi msg) s =
     do {
       n \<leftarrow> strlen msg;
       if BIG_GENERAL_BUF_SIZE < n + 1 then Some (OOB_ERR_BUFFER_OVERFLOW, msg_buf s)
       else do { b \<leftarrow> c_memcpy (msg_buf s) msg (n + 1); Some (OOB_SUCCESS, b[BIG_GENERAL_BUF_SIZE - 1 := NUL]) }
     }"

text \<open>The topic is requested twice, once for the pointer and once for its length.\<close>

definition prepare_mqtt_pub_msg ::
    "mqtt_env \<Rightarrow> pub_args \<Rightarrow> 'a mqtt_state_scheme \<Rightarrow> (int \<times> 'a mqtt_state_scheme) option" where
  "prepare_mqtt_pub_msg e a s =
     do {
       (rc, b) \<leftarrow> fill_msg_buf a s;
       if rc \<noteq> OOB_SUCCESS then Some (rc, s)
       else do {
         (_, s1) \<leftarrow> get_mqtt_pub_topic (pub_type a) (s\<lparr>msg_buf := b\<rparr>);
         (tp, s2) \<leftarrow> get_mqtt_pub_topic (pub_type a) s1;
         t \<leftarrow> cstr tp;
         m \<leftarrow> cstr (msg_buf s2);
         let s3 = emit RandGet s2;
         Some (OOB_SUCCESS, s3\<lparr>pub_param := \<lparr>pp_topic = t, pp_payload = m, pp_message_id = ucast (rand32 e (io s3))\<rparr>\<rparr>)
       }
     }"

text \<open>The common body of the three functions that publish.\<close>

definition publish_msg ::
    "mqtt_env \<Rightarrow> pub_args \<Rightarrow> 'a mqtt_state_scheme \<Rightarrow> (int \<times> 'a mqtt_state_scheme) option" where
  "publish_msg e a s =
     do {
       (rc, s1) \<leftarrow> prepare_mqtt_pub_msg e a (s\<lparr>pub_param := \<lparr>pp_topic = [], pp_payload = [], pp_message_id = 0\<rparr>\<rparr>);
       if rc \<noteq> OOB_SUCCESS then Some (rc, s1)
       else do {
         (rc', s2) \<leftarrow> lib_call e (MqttPublish (pp_topic (pub_param s1)) (pp_payload (pub_param s1))) s1;
         if rc' \<noteq> OOB_SUCCESS then Some (rc', s2)
         else lib_call e (MqttCall MqttInput) (snd (wait e s2))
       }
     }"

definition publish_event :: "mqtt_env \<Rightarrow> string \<Rightarrow> 'a mqtt_state_scheme \<Rightarrow> (int \<times> 'a mqtt_state_scheme) option" where
  "publish_event e msg s = publish_msg e (PubEvent msg) s"

definition publish_api :: "mqtt_env \<Rightarrow> string \<Rightarrow> 'a mqtt_state_scheme \<Rightarrow> (int \<times> 'a mqtt_state_scheme) option" where
  "publish_api e msg s = publish_msg e (PubApi msg) s"

definition publish_static ::
    "mqtt_env \<Rightarrow> string \<Rightarrow> string \<Rightarrow> 'a mqtt_state_scheme \<Rightarrow> (int \<times> 'a mqtt_state_scheme) option" where
  "publish_static e key val s = publish_msg e (PubStatic key val) s"

definition post_message ::
    "mqtt_env \<Rightarrow> string \<Rightarrow> app_message_type \<Rightarrow> 'a mqtt_state_scheme \<Rightarrow> (int \<times> 'a mqtt_state_scheme) option" where
  "post_message e pl ty s =
     (if ty = EVENT then publish_event e pl s else if ty = API then publish_api e pl s else Some (- EINVAL, s))"

definition send_telemetry ::
    "mqtt_env \<Rightarrow> string \<Rightarrow> string \<Rightarrow> app_message_type \<Rightarrow> 'a mqtt_state_scheme
     \<Rightarrow> (int \<times> 'a mqtt_state_scheme) option" where
  "send_telemetry e key val ty s = (if ty = STATIC then publish_static e key val s else Some (- EINVAL, s))"

section \<open>The connection\<close>

definition tls_init :: "mqtt_env \<Rightarrow> 'a mqtt_state_scheme \<Rightarrow> (int \<times> 'a mqtt_state_scheme) option" where
  "tls_init e s =
     do { c \<leftarrow> creds s;
          let s1 = emit (TlsCredAdd (take (cr_trusted_ca_size c) (cr_trusted_ca c))) (emit TlsCredDelete s);
          Some (tls_add_ret e (io s1), s1) }"

text \<open>The address is read from the list of the resolver, which has been released by then.\<close>

definition broker_init :: "mqtt_env \<Rightarrow> 'a mqtt_state_scheme \<Rightarrow> (nat \<times> u32) option" where
  "broker_init e s =
     (case haddr s of AddrNull \<Rightarrow> None | AddrLive a \<Rightarrow> Some (SERVER_PORT, a)
      | AddrFreed \<Rightarrow> Some (SERVER_PORT, freed_addr e (io s)))"

definition set_subscription_topics :: "mqtt_env \<Rightarrow> 'a mqtt_state_scheme \<Rightarrow> 'a mqtt_state_scheme option" where
  "set_subscription_topics e s =
     do {
       n \<leftarrow> get_mqtt_sub_topics_count s;
       (status, st) \<leftarrow> get_mqtt_sub_topics (replicate MAX_SUBLIST_COUNT (replicate MAX_MQTT_SUBS_TOPIC_LEN NUL)) s;
       if status = OOB_SUCCESS
       then do { ts \<leftarrow> those (map cstr (take n st)); Some (emit RandGet (s\<lparr>sub_topics := st, sub_list := ts\<rparr>)) }
       else Some (s\<lparr>sub_topics := st, sub_list := []\<rparr>)
     }"

definition client_init :: "mqtt_env \<Rightarrow> 'a mqtt_state_scheme \<Rightarrow> 'a mqtt_state_scheme option" where
  "client_init e s =
     do {
       b \<leftarrow> broker_init e s;
       c \<leftarrow> creds s;
       Some (s\<lparr>client := \<lparr>cl_broker = b,
         cl_client_id = take (cr_mqtt_client_id_size c) (cr_mqtt_client_id c),
         cl_password = take (cr_token_size c) (cr_token c),
         cl_user_name = take (cr_username_size c) (cr_username c),
         cl_hostname = cr_cloud_tls_sni c\<rparr>\<rparr>)
     }"

text \<open>One round of the loop of \<^verbatim>\<open>try_to_connect\<close>, which ends only when the cloud accepts the connection.\<close>

definition connect_round :: "mqtt_env \<Rightarrow> 'a mqtt_state_scheme \<Rightarrow> 'a mqtt_state_scheme option" where
  "connect_round e s =
     do {
       s1 \<leftarrow> client_init e s;
       (rc, s2) \<leftarrow> lib_call e (MqttCall MqttConnect) s1;
       if rc \<noteq> OOB_SUCCESS then Some (emit (KSleep APP_SLEEP_MSECS) s2)
       else do {
         let w = wait e (prepare_fds s2);
         s4 \<leftarrow> (if fst w < 0 then do { (_, t) \<leftarrow> lib_call e (MqttCall MqttAbort) (snd w); Some (snd (wait e t)) }
                else Some (snd w));
         (_, s5) \<leftarrow> lib_call e (MqttCall MqttInput) s4;
         if \<not> connected s5 then do { (_, t) \<leftarrow> lib_call e (MqttCall MqttAbort) s5; Some (snd (wait e t)) } else Some s5
       }
     }"

partial_function (option) try_to_connect :: "mqtt_env \<Rightarrow> 'a mqtt_state_scheme \<Rightarrow> 'a mqtt_state_scheme option" where
  "try_to_connect e s =
     (if connected s then Some s else do { s1 \<leftarrow> connect_round e s; try_to_connect e s1 })"

definition zsock_freeaddrinfo :: "'a mqtt_state_scheme \<Rightarrow> 'a mqtt_state_scheme" where
  "zsock_freeaddrinfo s = emit DnsFree (s\<lparr>haddr := AddrFreed\<rparr>)"

fun resolve_loop :: "mqtt_env \<Rightarrow> string \<Rightarrow> string \<Rightarrow> nat \<Rightarrow> int \<Rightarrow> 'a mqtt_state_scheme \<Rightarrow> int \<times> 'a mqtt_state_scheme" where
  "resolve_loop e host port 0 rc s = (rc, if haddr s = AddrNull then s else zsock_freeaddrinfo s)"
| "resolve_loop e host port (Suc n) rc s =
     (let s1 = emit (DnsQuery host port) s; (rc', a) = getaddrinfo e (io s1)
      in if rc' = OOB_SUCCESS
         then (OOB_SUCCESS, zsock_freeaddrinfo (s1\<lparr>haddr := AddrLive a, dns_status := True\<rparr>))
         else resolve_loop e host port n rc' s1)"

definition get_mqtt_broker_addrinfo :: "mqtt_env \<Rightarrow> 'a mqtt_state_scheme \<Rightarrow> (int \<times> 'a mqtt_state_scheme) option" where
  "get_mqtt_broker_addrinfo e s =
     (if dns_status s then Some (OOB_SUCCESS, s)
      else do {
        c \<leftarrow> creds s; h \<leftarrow> cstr (cr_cloud_host c); p \<leftarrow> cstr (cr_cloud_port c);
        Some (resolve_loop e h p 3 (- EINVAL) s)
      })"

definition device_cloud_connect :: "mqtt_env \<Rightarrow> 'a mqtt_state_scheme \<Rightarrow> (int \<times> 'a mqtt_state_scheme) option" where
  "device_cloud_connect e s =
     do {
       (rc, s1) \<leftarrow> get_mqtt_broker_addrinfo e s;
       if rc \<noteq> OOB_SUCCESS then Some (OOB_ERR_DNS_RESOLUTION_ERR, s1)
       else do {
         s2 \<leftarrow> try_to_connect e s1;
         s3 \<leftarrow> set_subscription_topics e s2;
         (rc', s4) \<leftarrow> lib_call e (MqttCall (MqttSubscribe (sub_list s3))) s3;
         if rc' \<noteq> OOB_SUCCESS then Some (OOB_ERR_MQTT_SUBSCRIPTION_ERR, s4)
         else do {
           (_, s5) \<leftarrow> lib_call e (MqttCall MqttInput) (snd (wait e s4));
           Some (OOB_SUCCESS, emit (PingTimer True) (s5\<lparr>ping_timer := True\<rparr>))
         }
       }
     }"

definition device_cloud_abort :: "mqtt_env \<Rightarrow> 'a mqtt_state_scheme \<Rightarrow> (int \<times> 'a mqtt_state_scheme) option" where
  "device_cloud_abort e s =
     do {
       let s1 = clear_fds ((emit (PingTimer False) (s\<lparr>ping_timer := False\<rparr>))\<lparr>connected := False\<rparr>);
       (ret, s2) \<leftarrow> lib_call e (MqttCall MqttAbort) s1;
       if ret \<noteq> OOB_SUCCESS then Some (OOB_ERR_MQTT_DISCONNECT, s2)
       else Some (OOB_SUCCESS, k_fifo_cancel_wait s2)
     }"

definition device_cloud_init :: "mqtt_env \<Rightarrow> 'a mqtt_state_scheme \<Rightarrow> (int \<times> 'a mqtt_state_scheme) option" where
  "device_cloud_init e s =
     do {
       (rc, s1) \<leftarrow> tls_init e s;
       if rc \<noteq> OOB_SUCCESS then Some (OOB_ERR_TLS_CREDENTIALS_ADD, s1)
       else Some (OOB_SUCCESS, s1\<lparr>oob_conn_st := TLS_SESSION_INIT, managability_fifo := [], ping_timer := False\<rparr>)
     }"

end
