(* ===== verification/Oob_Agent.thy ===== *)
theory Oob_Agent
  imports Oob_Mqtt Oob_Entropy
begin

text \<open>
  The out-of-band agent: fetching the credentials (\<^verbatim>\<open>common/credentials.c\<close>, \<^verbatim>\<open>sec_bios_ipc/pse_oob_sec.c\<close>), the
  commands of the cloud, timers and notifications, and the two threads (\<^verbatim>\<open>ehl/ehl-oob.c\<close>).
  A thread is a program counter at the places where it waits; one step runs it to the next of them.
  Timers and notifications run between steps of the threads.
\<close>

section \<open>State and environment\<close>

datatype pm_status = ACTIVE_POWER | LOW_POWER

datatype sx_event = PM_EVENT_HOST_SX_ENTRY | PM_EVENT_HOST_SX_EXIT | PM_EVENT_OTHER

datatype main_pc = MBoot | MConnect | MWait | MEnd int

datatype cfg_pc = CStart | CLoop | CEnd

record agent_state = mqtt_state +
  oob_sec :: sec_state             \<comment> \<open>the security service and its context\<close>
  pm_sx_st :: pm_status
  pmc_reboot :: bool
  is_thread_termi_set :: bool
  nw_mgmt_event :: u32
  oob_cfg_sem :: nat
  oob_conn_sem :: nat
  power_timer :: bool              \<comment> \<open>\<^verbatim>\<open>oob_power_trans_timer\<close> is running\<close>
  tls_timer :: bool                \<comment> \<open>\<^verbatim>\<open>oob_tls_session_timer\<close> is running\<close>
  main_pc :: main_pc
  cfg_pc :: cfg_pc

record agent_env =
  ag_mqtt :: mqtt_env
  ag_sec :: sec_env
  bios_ipc_timeout :: u32
  oob_enabled :: bool              \<comment> \<open>\<^verbatim>\<open>sedi_get_config(SEDI_CONFIG_OOB_EN)\<close>\<close>
  default_iface :: bool            \<comment> \<open>there is a network interface\<close>
  iface_up :: "io_log \<Rightarrow> bool"
  dhcp_bound :: "io_log \<Rightarrow> bool"
  config_arch :: string
  config_board :: string
  config_kernel_bin_name :: string

definition MAX_ARR_LEN :: nat where "MAX_ARR_LEN = 64"
definition MAX_ID_LEN :: nat where "MAX_ID_LEN = 512"
definition MAX_CERT_LEN :: nat where "MAX_CERT_LEN = 2048"
definition NET_EVENT_IF_DOWN :: u32 where "NET_EVENT_IF_DOWN = 0xD0010001"
definition NET_EVENT_IF_UP :: u32 where "NET_EVENT_IF_UP = 0xD0010002"
definition L2_EVENT_MASK :: u32 where "L2_EVENT_MASK = NET_EVENT_IF_DOWN OR NET_EVENT_IF_UP"
definition DHCP_MAX_RETRY :: nat where "DHCP_MAX_RETRY = 40"
definition OOB_ERR_THREAD_ABORT :: int where "OOB_ERR_THREAD_ABORT = 1"
definition OOB_ERR_NO_INTERFACE_FOUND :: int where "OOB_ERR_NO_INTERFACE_FOUND = 2"
definition OOB_ERR_NO_IPV4_ADDR :: int where "OOB_ERR_NO_IPV4_ADDR = 22"

text \<open>The security service runs on its own part of the state and on the common log.\<close>

definition in_sec ::
    "(sec_state \<Rightarrow> ('r \<times> sec_state) option) \<Rightarrow> 'a agent_state_scheme \<Rightarrow> ('r \<times> 'a agent_state_scheme) option" where
  "in_sec f s = do { (r, t) \<leftarrow> f ((oob_sec s)\<lparr>io := io s\<rparr>); Some (r, s\<lparr>oob_sec := t, io := io t\<rparr>) }"

section \<open>The interface of the security service\<close>

definition sec_start :: "sec_env \<Rightarrow> u32 \<Rightarrow> sec_state \<Rightarrow> (u32 \<times> sec_state) option" where
  "sec_start e timeout t = sec_int_start e timeout t"
definition sec_get_root_ca :: "sec_env \<Rightarrow> sec_state \<Rightarrow> (u32 \<times> u8 list option \<times> sec_state) option" where
  "sec_get_root_ca e t = sec_int_get_root_ca e t"
definition sec_get_dev_id :: "sec_env \<Rightarrow> sec_state \<Rightarrow> (u32 \<times> u8 list option \<times> sec_state) option" where
  "sec_get_dev_id e t = sec_int_get_dev_id e t"
definition sec_get_mqtt_client_id :: "sec_env \<Rightarrow> sec_state \<Rightarrow> (u32 \<times> u8 list option \<times> sec_state) option" where
  "sec_get_mqtt_client_id e t = sec_int_get_mqtt_client_id e t"
definition sec_get_tok_id :: "sec_env \<Rightarrow> sec_state \<Rightarrow> (u32 \<times> u8 list option \<times> sec_state) option" where
  "sec_get_tok_id e t = sec_int_get_tok_id e t"
definition sec_get_cld_adapter :: "sec_env \<Rightarrow> sec_state \<Rightarrow> (u32 \<times> u8 list option \<times> sec_state) option" where
  "sec_get_cld_adapter e t = sec_int_get_cld_adapter e t"
definition sec_get_cld_host_url :: "sec_env \<Rightarrow> sec_state \<Rightarrow> (u32 \<times> u8 list option \<times> sec_state) option" where
  "sec_get_cld_host_url e t = sec_int_get_cld_host_url e t"
definition sec_get_cld_host_port :: "sec_env \<Rightarrow> sec_state \<Rightarrow> (u32 \<times> u32 option \<times> sec_state) option" where
  "sec_get_cld_host_port e t = sec_int_get_cld_host_port e t"
definition sec_get_pxy_host_url :: "sec_env \<Rightarrow> sec_state \<Rightarrow> (u32 \<times> u8 list option \<times> sec_state) option" where
  "sec_get_pxy_host_url e t = sec_int_get_pxy_host_url e t"
definition sec_get_pxy_host_port :: "sec_env \<Rightarrow> sec_state \<Rightarrow> (u32 \<times> u32 option \<times> sec_state) option" where
  "sec_get_pxy_host_port e t = sec_int_get_pxy_host_port e t"
definition sec_set_prov_state :: "sec_env \<Rightarrow> u32 \<Rightarrow> sec_state \<Rightarrow> (u32 \<times> sec_state) option" where
  "sec_set_prov_state e v t = sec_int_set_prov_state e v t"
definition sec_get_prov_state :: "sec_env \<Rightarrow> sec_state \<Rightarrow> (u32 \<times> u32 option \<times> sec_state) option" where
  "sec_get_prov_state e t = sec_int_get_prov_state e t"

section \<open>Credentials\<close>

definition extract_adapter :: "string \<Rightarrow> cloud_adapter option" where
  "extract_adapter cloud_type =
     do {
       n \<leftarrow> strlen cloud_type;
       a \<leftarrow> strncmp_eq cloud_type (cz ''Telit'') n;
       if a then Some TELIT
       else do {
         b \<leftarrow> strncmp_eq cloud_type (cz ''ThingsBoard'') n;
         if b then Some THINGSBOARD
         else do { c \<leftarrow> strncmp_eq cloud_type (cz ''Azure'') n; Some (if c then AZURE else NOADAPTER) }
       }
     }"

definition oob_set_provision_state ::
    "agent_env \<Rightarrow> u32 \<Rightarrow> 'a agent_state_scheme \<Rightarrow> (u32 \<times> 'a agent_state_scheme) option" where
  "oob_set_provision_state e v s = in_sec (sec_set_prov_state (ag_sec e) v) s"

text \<open>The variable is not initialised when the context is damaged.\<close>

definition oob_get_provision_state ::
    "agent_env \<Rightarrow> 'a agent_state_scheme \<Rightarrow> (bool \<times> 'a agent_state_scheme) option" where
  "oob_get_provision_state e s =
     do {
       (v, s1) \<leftarrow> in_sec (\<lambda>t. do { (r, v, t1) \<leftarrow> sec_get_prov_state (ag_sec e) t; Some (v, t1) }) s;
       Some ((case v of Some x \<Rightarrow> x | None \<Rightarrow> stack_garbage (ag_sec e) (io s1)) = SEC_DECOM, s1)
     }"

definition oob_release_credentials :: "'a agent_state_scheme \<Rightarrow> 'a agent_state_scheme option" where
  "oob_release_credentials s =
     do {
       c \<leftarrow> creds s;
       a1 \<leftarrow> c_memset (cr_cloud_type c) MAX_ARR_LEN;
       a2 \<leftarrow> c_memset (cr_token c) MAX_ID_LEN;
       a3 \<leftarrow> c_memset (cr_username c) MAX_ID_LEN;
       a4 \<leftarrow> c_memset (cr_mqtt_client_id c) MAX_ID_LEN;
       a5 \<leftarrow> c_memset (cr_cloud_host c) MAX_ARR_LEN;
       a6 \<leftarrow> c_memset (cr_cloud_port c) MAX_ARR_LEN;
       a7 \<leftarrow> c_memset (cr_proxy_url c) MAX_ARR_LEN;
       a8 \<leftarrow> c_memset (cr_proxy_port c) MAX_ARR_LEN;
       a9 \<leftarrow> c_memset (cr_trusted_ca c) MAX_CERT_LEN;
       a10 \<leftarrow> c_memset (cr_cloud_tls_sni c) MAX_ARR_LEN;
       Some (s\<lparr>creds := Some (c\<lparr>cr_cloud_type := a1, cr_token := a2, cr_username := a3, cr_mqtt_client_id := a4,
         cr_cloud_host := a5, cr_cloud_port := a6, cr_proxy_url := a7, cr_proxy_port := a8,
         cr_trusted_ca := a9, cr_cloud_tls_sni := a10\<rparr>)\<rparr>)
     }"

text \<open>\<^verbatim>\<open>memset(&cred_var, 0, ..)\<close>\<close>

definition cred_var :: cloud_credentials where
  "cred_var = \<lparr>cr_cloud_type = replicate MAX_ARR_LEN NUL, cr_cloud_host = replicate MAX_ARR_LEN NUL,
     cr_cloud_port = replicate MAX_ARR_LEN NUL, cr_token = replicate MAX_ID_LEN NUL, cr_token_size = 0,
     cr_username = replicate MAX_ID_LEN NUL, cr_username_size = 0, cr_mqtt_client_id = replicate MAX_ID_LEN NUL,
     cr_mqtt_client_id_size = 0, cr_proxy_url = replicate MAX_ARR_LEN NUL, cr_proxy_port = replicate MAX_ARR_LEN NUL,
     cr_trusted_ca = replicate MAX_CERT_LEN NUL, cr_trusted_ca_size = 0, cr_cloud_adapter = TELIT,
     cr_cloud_tls_sni = replicate MAX_ARR_LEN NUL\<rparr>"

text \<open>\<^verbatim>\<open>memset(member, 0, size + 1); memcpy(member, buffer, size)\<close>: the size is not compared with that of the member.\<close>

definition store_text :: "string \<Rightarrow> string \<Rightarrow> string option" where
  "store_text member txt = do { b \<leftarrow> c_memset member (length txt + 1); c_memcpy b txt (length txt) }"

text \<open>A fetched item as text; \<open>Inl\<close> is the error code returned when the security service refuses.\<close>

definition fetch ::
    "(sec_state \<Rightarrow> (u32 \<times> 'v option \<times> sec_state) option) \<Rightarrow> int \<Rightarrow> 'a agent_state_scheme
     \<Rightarrow> ((int + 'v) \<times> 'a agent_state_scheme) option" where
  "fetch get err s =
     in_sec (\<lambda>t. do { (r, v, t1) \<leftarrow> get t;
                      Some (if r \<noteq> SEC_SUCCESS then Inl err else (case v of Some x \<Rightarrow> Inr x | None \<Rightarrow> Inl err), t1) }) s"

definition text_of :: "u8 list \<Rightarrow> string" where
  "text_of bs = map (\<lambda>b. char_of (unat b)) bs"

definition port_text :: "u32 \<Rightarrow> string" where
  "port_text p = dec_int (sint p)"

text \<open>One item: fetch it and, if it is there, store it; otherwise leave \<^verbatim>\<open>populate_credentials\<close>.\<close>

definition fetch_member ::
    "(sec_state \<Rightarrow> (u32 \<times> 'v option \<times> sec_state) option) \<Rightarrow> int
     \<Rightarrow> ('v \<Rightarrow> cloud_credentials \<Rightarrow> cloud_credentials option)
     \<Rightarrow> ('a agent_state_scheme \<Rightarrow> (int \<times> 'a agent_state_scheme) option)
     \<Rightarrow> 'a agent_state_scheme \<Rightarrow> (int \<times> 'a agent_state_scheme) option" where
  "fetch_member get err store rest s =
     do {
       (r, s1) \<leftarrow> fetch get err s;
       (case r of
          Inl er \<Rightarrow> Some (er, s1)
        | Inr v \<Rightarrow> do { c \<leftarrow> creds s1; c1 \<leftarrow> store v c; rest (s1\<lparr>creds := Some c1\<rparr>) })
     }"

definition store_cloud_type :: "u8 list \<Rightarrow> cloud_credentials \<Rightarrow> cloud_credentials option" where
  "store_cloud_type v c =
     do { b \<leftarrow> store_text (cr_cloud_type c) (text_of v); a \<leftarrow> extract_adapter b;
          Some (c\<lparr>cr_cloud_type := b, cr_cloud_adapter := a\<rparr>) }"
definition store_token :: "u8 list \<Rightarrow> cloud_credentials \<Rightarrow> cloud_credentials option" where
  "store_token v c = do { b \<leftarrow> store_text (cr_token c) (text_of v); Some (c\<lparr>cr_token := b, cr_token_size := length v\<rparr>) }"
definition store_username :: "u8 list \<Rightarrow> cloud_credentials \<Rightarrow> cloud_credentials option" where
  "store_username v c =
     do { b \<leftarrow> store_text (cr_username c) (text_of v); Some (c\<lparr>cr_username := b, cr_username_size := length v\<rparr>) }"
definition store_client_id :: "u8 list \<Rightarrow> cloud_credentials \<Rightarrow> cloud_credentials option" where
  "store_client_id v c =
     do { b \<leftarrow> store_text (cr_mqtt_client_id c) (text_of v);
          Some (c\<lparr>cr_mqtt_client_id := b, cr_mqtt_client_id_size := length v\<rparr>) }"
definition store_host :: "u8 list \<Rightarrow> cloud_credentials \<Rightarrow> cloud_credentials option" where
  "store_host v c = do { b \<leftarrow> store_text (cr_cloud_host c) (text_of v); Some (c\<lparr>cr_cloud_host := b\<rparr>) }"
definition store_port :: "u32 \<Rightarrow> cloud_credentials \<Rightarrow> cloud_credentials option" where
  "store_port v c = do { b \<leftarrow> store_text (cr_cloud_port c) (port_text v); Some (c\<lparr>cr_cloud_port := b\<rparr>) }"
definition store_proxy :: "u8 list \<Rightarrow> cloud_credentials \<Rightarrow> cloud_credentials option" where
  "store_proxy v c = do { b \<leftarrow> store_text (cr_proxy_url c) (text_of v); Some (c\<lparr>cr_proxy_url := b\<rparr>) }"

fun tls_sni :: "cloud_adapter \<Rightarrow> string option" where
  "tls_sni TELIT = Some ''*.devicewise.com''"
| "tls_sni THINGSBOARD = Some ''portal.thingsboard.com''"
| "tls_sni AZURE = Some ''*.azure-devices.net''"
| "tls_sni NOADAPTER = None"

text \<open>The certificate is copied with one byte more than its size; the rest of the buffer is zero.\<close>

definition store_root_ca :: "u8 list \<Rightarrow> cloud_credentials \<Rightarrow> cloud_credentials option" where
  "store_root_ca v c =
     do {
       sni \<leftarrow> (case tls_sni (cr_cloud_adapter c) of
                 Some t \<Rightarrow> c_strncpy (cr_cloud_tls_sni c) t MAX_ARR_LEN | None \<Rightarrow> Some (cr_cloud_tls_sni c));
       b \<leftarrow> c_memset (cr_trusted_ca c) (length v + 1);
       b1 \<leftarrow> c_memcpy b (text_of v @ replicate (2 * SEC_URL_LEN - length v) NUL) (length v + 1);
       Some (c\<lparr>cr_cloud_tls_sni := sni, cr_trusted_ca := b1, cr_trusted_ca_size := length v + 1\<rparr>)
     }"

text \<open>The result of fetching the port of the proxy is not looked at; the port stays 0 when it fails.\<close>

definition fetch_proxy_port :: "agent_env \<Rightarrow> 'a agent_state_scheme \<Rightarrow> 'a agent_state_scheme option" where
  "fetch_proxy_port e s =
     do {
       (v, s1) \<leftarrow> in_sec (\<lambda>t. do { (r, v, t1) \<leftarrow> sec_get_pxy_host_port (ag_sec e) t; Some (v, t1) }) s;
       c \<leftarrow> creds s1;
       b \<leftarrow> store_text (cr_proxy_port c) (port_text (case v of Some x \<Rightarrow> x | None \<Rightarrow> 0));
       Some (s1\<lparr>creds := Some (c\<lparr>cr_proxy_port := b\<rparr>)\<rparr>)
     }"

definition populate_credentials :: "agent_env \<Rightarrow> 'a agent_state_scheme \<Rightarrow> (int \<times> 'a agent_state_scheme) option" where
  "populate_credentials e s =
     (let x = ag_sec e in
      fetch_member (sec_get_cld_adapter x) 9 store_cloud_type
     (fetch_member (sec_get_tok_id x) 11 store_token
     (fetch_member (sec_get_dev_id x) 10 store_username
     (fetch_member (sec_get_mqtt_client_id x) 17 store_client_id
     (fetch_member (sec_get_cld_host_url x) 12 store_host
     (fetch_member (sec_get_cld_host_port x) 13 store_port
     (fetch_member (sec_get_pxy_host_url x) 14 store_proxy
     (\<lambda>s1. do { s2 \<leftarrow> fetch_proxy_port e s1;
                fetch_member (sec_get_root_ca x) 16 store_root_ca (\<lambda>s3. Some (OOB_SUCCESS, s3)) s2 }))))))) s)"

definition get_oob_credential :: "agent_env \<Rightarrow> 'a agent_state_scheme \<Rightarrow> (int \<times> 'a agent_state_scheme) option" where
  "get_oob_credential e s =
     do {
       (r, s1) \<leftarrow> in_sec (sec_start (ag_sec e) (bios_ipc_timeout e)) s;
       if r = SEC_FAILED then Some (uint SEC_FAILED, s1)
       else populate_credentials e (s1\<lparr>creds := Some cred_var\<rparr>)
     }"

end
