(* ===== verification/Oob_Threads.thy ===== *)
theory Oob_Threads
  imports Oob_Agent
begin

text \<open>
  The threads of the out-of-band agent (\<^verbatim>\<open>ehl/ehl-oob.c\<close>): the commands of the cloud, timers and
  notifications, and sequences of operations of the whole system.  A round of a thread is one
  operation, also where the code waits or can be interrupted inside it.
\<close>

section \<open>Messages\<close>

definition OOB_REBOOT_CMD :: string where "OOB_REBOOT_CMD = ''Reboot command Triggered''"
definition OOB_POWER_ON_TRIGGER :: string where "OOB_POWER_ON_TRIGGER = ''Poweron command Triggered''"
definition OOB_POWER_OFF_TRIGGER :: string where "OOB_POWER_OFF_TRIGGER = ''Poweroff command Triggered''"
definition OOB_DECOMMISSION_TRIGGER :: string where "OOB_DECOMMISSION_TRIGGER = ''Decomission command Triggered''"
definition OOB_REBOOT_SUCCESS :: string where "OOB_REBOOT_SUCCESS = ''Platform Reboot Initiated''"
definition OOB_REBOOT_FAILED :: string where "OOB_REBOOT_FAILED = ''Platform Reboot Failed''"
definition OOB_PMC_POWERON_SUCCESS :: string where "OOB_PMC_POWERON_SUCCESS = ''Platform Power On Initiated''"
definition OOB_PMC_POWERON_FAILED :: string where "OOB_PMC_POWERON_FAILED = ''Platform Power On Failed''"
definition OOB_PMC_POWEROFF_SUCCESS :: string where "OOB_PMC_POWEROFF_SUCCESS = ''Platform Power Off Initiated''"
definition OOB_PMC_POWEROFF_FAILED :: string where "OOB_PMC_POWEROFF_FAILED = ''Platform Power Off Failed''"
definition OOB_DECOMMISSION_SUCCESS :: string where "OOB_DECOMMISSION_SUCCESS = ''Platform Decommission Successful''"
definition OOB_DECOMMISSION_FAILED :: string where "OOB_DECOMMISSION_FAILED = ''Platform Decommission Failed''"
definition OOB_DECOMMISSION_EN_SUCCESS :: string where "OOB_DECOMMISSION_EN_SUCCESS = ''Platform Decommission Initiated''"
definition OOB_DECOMMISSION_EN_FAILED :: string where
  "OOB_DECOMMISSION_EN_FAILED = ''Platform Decommission Initiate Failed''"
definition OOB_REBOOT_IGNORE :: string where
  "OOB_REBOOT_IGNORE = ''Platform in Low Power state - '' @ ''Ignoring REBOOT command. Please Retry with POWER-ON.''"
definition OOB_DECOMMISSION_IGNORE :: string where
  "OOB_DECOMMISSION_IGNORE = ''Platform in Low Power state - '' @ ''Decommission not supported in Low Power state.''
     @ ''Ignoring Decommission. Please Retry with POWER-ON.''"
definition OOB_PM_SX_ENTRY :: string where "OOB_PM_SX_ENTRY = ''Platform in Low Power state''"
definition OOB_PM_SX_EXIT :: string where "OOB_PM_SX_EXIT = ''Platform in Active Power state''"
definition OOB_PM_LOW_PWR_STATE :: string where "OOB_PM_LOW_PWR_STATE = ''Platform already in Low power state''"
definition OOB_PM_ACTIVE_PWR_STATE :: string where "OOB_PM_ACTIVE_PWR_STATE = ''Platform already in Active power state''"
definition OOB_PM_SX_TRANSITION_FAILED :: string where
  "OOB_PM_SX_TRANSITION_FAILED = ''Platform power state transition '' @ ''taking longer than expected. Please retry''"

text \<open>A message of the agent itself; the result is only logged.\<close>

definition post_event :: "agent_env \<Rightarrow> string \<Rightarrow> 'a agent_state_scheme \<Rightarrow> 'a agent_state_scheme option" where
  "post_event e m s = do { (_, s1) \<leftarrow> post_message (ag_mqtt e) (cz m) EVENT s; Some s1 }"

text \<open>\<^verbatim>\<open>data_item->next_msg\<close>: only the entry for messages of the cloud has one.\<close>

definition item_next_msg :: "item \<Rightarrow> 'a agent_state_scheme \<Rightarrow> string option" where
  "item_next_msg it s = (if it = FMessage then Some (next_msg s) else None)"

definition post_answer :: "agent_env \<Rightarrow> item \<Rightarrow> 'a agent_state_scheme \<Rightarrow> 'a agent_state_scheme option" where
  "post_answer e it s =
     do { m \<leftarrow> item_next_msg it s; (_, s1) \<leftarrow> post_message (ag_mqtt e) m API s; Some s1 }"

definition send_platform_info :: "agent_env \<Rightarrow> 'a agent_state_scheme \<Rightarrow> 'a agent_state_scheme option" where
  "send_platform_info e s =
     do {
       s1 \<leftarrow> post_event e ''Elkhart Lake Out-of-band App - Start'' s;
       (_, s2) \<leftarrow> send_telemetry (ag_mqtt e) (cz ''CONFIG_ARCH'') (cz (config_arch e)) STATIC s1;
       (_, s3) \<leftarrow> send_telemetry (ag_mqtt e) (cz ''CONFIG_SOC_SERIES'') (cz ''Elkhart_Lake'') STATIC s2;
       (_, s4) \<leftarrow> send_telemetry (ag_mqtt e) (cz ''CONFIG_BOARD'') (cz (config_board e)) STATIC s3;
       (_, s5) \<leftarrow> send_telemetry (ag_mqtt e) (cz ''CONFIG_KERNEL_BIN_NAME'') (cz (config_kernel_bin_name e)) STATIC s4;
       post_event e ''Static Telemetry published...'' s5
     }"

section \<open>Connection and decommissioning\<close>

definition device_conn_recover :: "agent_env \<Rightarrow> 'a agent_state_scheme \<Rightarrow> 'a agent_state_scheme option" where
  "device_conn_recover e s = do { (_, s1) \<leftarrow> device_cloud_init (ag_mqtt e) s; Some s1 }"

definition device_conn_teardown :: "agent_env \<Rightarrow> 'a agent_state_scheme \<Rightarrow> 'a agent_state_scheme option" where
  "device_conn_teardown e s = do { (_, s1) \<leftarrow> device_cloud_abort (ag_mqtt e) s; Some s1 }"

definition give_sec_sem :: "agent_env \<Rightarrow> 'a agent_state_scheme \<Rightarrow> 'a agent_state_scheme" where
  "give_sec_sem e s =
     s\<lparr>oob_sec := (oob_sec s)\<lparr>sec_hc_oob_sem := k_sem_give (sec_kern (ag_sec e)) 1 (sec_hc_oob_sem (oob_sec s))\<rparr>\<rparr>"

definition take_sec_sem :: "agent_env \<Rightarrow> 'a agent_state_scheme \<Rightarrow> 'a agent_state_scheme" where
  "take_sec_sem e s =
     s\<lparr>oob_sec := (oob_sec s)\<lparr>sec_hc_oob_sem :=
         snd (k_sem_take (sec_kern (ag_sec e)) (sec_hc_oob_sem (oob_sec s)) (sem_given (sec_kern (ag_sec e)) (io s)))\<rparr>\<rparr>"

definition give_conn_sem :: "agent_env \<Rightarrow> 'a agent_state_scheme \<Rightarrow> 'a agent_state_scheme" where
  "give_conn_sem e s = s\<lparr>oob_conn_sem := k_sem_give (sec_kern (ag_sec e)) 1 (oob_conn_sem s)\<rparr>"

definition oob_service_decommission :: "agent_env \<Rightarrow> 'a agent_state_scheme \<Rightarrow> 'a agent_state_scheme option" where
  "oob_service_decommission e s =
     do {
       s1 \<leftarrow> device_conn_teardown e (emit (KSleep APP_MINI_LOOP_TIME) (emit KYield s));
       s2 \<leftarrow> oob_release_credentials s1;
       Some (give_sec_sem e s2)
     }"

section \<open>Timers and notifications\<close>

definition oob_tls_session_expiry :: "agent_env \<Rightarrow> 'a agent_state_scheme \<Rightarrow> 'a agent_state_scheme" where
  "oob_tls_session_expiry e s =
     k_fifo_alloc_put (ag_mqtt e) TlsStateQ (s\<lparr>item_type := (item_type s)(TlsStateQ := TLS_SESSION_STATE_EVENT)\<rparr>)"

definition oob_power_trans_expiry :: "agent_env \<Rightarrow> 'a agent_state_scheme \<Rightarrow> 'a agent_state_scheme" where
  "oob_power_trans_expiry e s =
     (k_fifo_alloc_put (ag_mqtt e) SxTimerQ (s\<lparr>item_type := (item_type s)(SxTimerQ := PLT_STATE_TIMER_EVENT)\<rparr>))
       \<lparr>pmc_reboot := False\<rparr>"

definition oob_sx_trans_expiry :: "agent_env \<Rightarrow> 'a agent_state_scheme \<Rightarrow> 'a agent_state_scheme" where
  "oob_sx_trans_expiry e s =
     k_fifo_alloc_put (ag_mqtt e) SxStateQ (s\<lparr>item_type := (item_type s)(SxStateQ := PLT_STATE_CHANGE_EVENT)\<rparr>)"

definition oob_post_sx_state :: "agent_env \<Rightarrow> 'a agent_state_scheme \<Rightarrow> 'a agent_state_scheme option" where
  "oob_post_sx_state e s =
     k_fifo_put (ag_mqtt e) SxStateQ (s\<lparr>item_type := (item_type s)(SxStateQ := PLT_STATE_CHANGE_EVENT)\<rparr>)"

definition oob_sx_handler :: "agent_env \<Rightarrow> sx_event \<Rightarrow> 'a agent_state_scheme \<Rightarrow> 'a agent_state_scheme option" where
  "oob_sx_handler e ev s =
     do {
       let s1 = (case ev of PM_EVENT_HOST_SX_ENTRY \<Rightarrow> s\<lparr>pm_sx_st := LOW_POWER\<rparr>
                 | PM_EVENT_HOST_SX_EXIT \<Rightarrow> s\<lparr>pm_sx_st := ACTIVE_POWER, pmc_reboot := False\<rparr>
                 | PM_EVENT_OTHER \<Rightarrow> s);
       s2 \<leftarrow> oob_post_sx_state e s1;
       Some (if \<not> pmc_reboot s2 then emit (PowerTimer False) (s2\<lparr>power_timer := False\<rparr>) else s2)
     }"

definition oob_l2_event_handler :: "agent_env \<Rightarrow> u32 \<Rightarrow> 'a agent_state_scheme \<Rightarrow> 'a agent_state_scheme option" where
  "oob_l2_event_handler e ev s =
     (if ev AND L2_EVENT_MASK \<noteq> ev then Some s
      else let s1 = s\<lparr>nw_mgmt_event := ev\<rparr>
           in if nw_mgmt_event s1 = NET_EVENT_IF_UP then Some (s1\<lparr>oob_conn_st := NW_MGMT_EVENT_INIT\<rparr>)
              else k_fifo_put (ag_mqtt e) NwMgmtQ (s1\<lparr>item_type := (item_type s1)(NwMgmtQ := PLT_NW_MGMT_EVENT)\<rparr>))"

section \<open>Commands\<close>

definition start_power_timer :: "'a agent_state_scheme \<Rightarrow> 'a agent_state_scheme" where
  "start_power_timer s = emit (PowerTimer True) (s\<lparr>power_timer := True\<rparr>)"

text \<open>The part of \<^verbatim>\<open>wait_for_events\<close> that asks for a power action and reports.\<close>

definition power_command ::
    "agent_env \<Rightarrow> pmc_messages \<Rightarrow> bool \<Rightarrow> string \<Rightarrow> string \<Rightarrow> 'a agent_state_scheme \<Rightarrow> 'a agent_state_scheme option" where
  "power_command e act reboot good bad s =
     do {
       (r, s1) \<leftarrow> pmc_action (mq_pmc (ag_mqtt e)) act s;
       if r = 0
       then let s2 = start_power_timer s1 in post_event e good (if reboot then s2\<lparr>pmc_reboot := True\<rparr> else s2)
       else post_event e bad s1
     }"

definition handle_reboot :: "agent_env \<Rightarrow> item \<Rightarrow> 'a agent_state_scheme \<Rightarrow> 'a agent_state_scheme option" where
  "handle_reboot e it s =
     do {
       s1 \<leftarrow> post_answer e it s;
       s2 \<leftarrow> post_event e OOB_REBOOT_CMD s1;
       if pm_sx_st s2 = ACTIVE_POWER
       then power_command e PMC_ACTION_REBOOT_HOST True OOB_REBOOT_SUCCESS OOB_REBOOT_FAILED s2
       else post_event e OOB_REBOOT_IGNORE s2
     }"

definition handle_poweron :: "agent_env \<Rightarrow> item \<Rightarrow> 'a agent_state_scheme \<Rightarrow> 'a agent_state_scheme option" where
  "handle_poweron e it s =
     do {
       s1 \<leftarrow> post_answer e it s;
       s2 \<leftarrow> post_event e OOB_POWER_ON_TRIGGER s1;
       if pm_sx_st s2 = LOW_POWER
       then power_command e PMC_ACTION_POWERON False OOB_PMC_POWERON_SUCCESS OOB_PMC_POWERON_FAILED s2
       else post_event e OOB_PM_ACTIVE_PWR_STATE s2
     }"

definition handle_poweroff :: "agent_env \<Rightarrow> item \<Rightarrow> 'a agent_state_scheme \<Rightarrow> 'a agent_state_scheme option" where
  "handle_poweroff e it s =
     do {
       s1 \<leftarrow> post_answer e it s;
       s2 \<leftarrow> post_event e OOB_POWER_OFF_TRIGGER s1;
       if pm_sx_st s2 = ACTIVE_POWER
       then power_command e PMC_ACTION_POWEROFF False OOB_PMC_POWEROFF_SUCCESS OOB_PMC_POWEROFF_FAILED s2
       else post_event e OOB_PM_LOW_PWR_STATE s2
     }"

text \<open>Whether the loop is left, and the state.  The handler runs as a whole: what an interrupt does while it
  waits for the semaphore is not part of it.\<close>

definition handle_decommission ::
    "agent_env \<Rightarrow> item \<Rightarrow> 'a agent_state_scheme \<Rightarrow> (bool \<times> 'a agent_state_scheme) option" where
  "handle_decommission e it s =
     do {
       s1 \<leftarrow> post_answer e it s;
       if pm_sx_st s1 \<noteq> ACTIVE_POWER then do { s2 \<leftarrow> post_event e OOB_DECOMMISSION_IGNORE s1; Some (False, s2) }
       else do {
         s2 \<leftarrow> post_event e OOB_DECOMMISSION_TRIGGER s1;
         (r, s3) \<leftarrow> oob_set_provision_state e SEC_DECOM s2;
         if r \<noteq> 0 then do { s4 \<leftarrow> post_event e OOB_DECOMMISSION_EN_FAILED s3; Some (False, s4) }
         else do {
           s4 \<leftarrow> post_event e OOB_DECOMMISSION_EN_SUCCESS s3;
           (p, s5) \<leftarrow> pmc_action (mq_pmc (ag_mqtt e)) PMC_ACTION_REBOOT_HOST s4;
           if p = 0
           then do { s6 \<leftarrow> post_event e OOB_DECOMMISSION_SUCCESS ((take_sec_sem e s5)\<lparr>is_thread_termi_set := True\<rparr>);
                     Some (True, s6) }
           else do { s6 \<leftarrow> post_event e OOB_DECOMMISSION_FAILED s5; Some (False, s6) }
         }
       }
     }"

definition handle_mqtt_state :: "agent_env \<Rightarrow> 'a agent_state_scheme \<Rightarrow> 'a agent_state_scheme option" where
  "handle_mqtt_state e s =
     do {
       (_, s1) \<leftarrow> lib_call (ag_mqtt e) (MqttCall MqttLive) s;
       (_, s2) \<leftarrow> lib_call (ag_mqtt e) (MqttCall MqttInput) (emit (KSleep APP_MINI_LOOP_TIME) (emit KYield s1));
       if connected s2 then Some s2
       else do {
         (_, s3) \<leftarrow> device_cloud_abort (ag_mqtt e) s2;
         (_, s4) \<leftarrow> device_cloud_connect (ag_mqtt e) s3;
         Some s4
       }
     }"

text \<open>The body of the loop of \<^verbatim>\<open>wait_for_events\<close> for one entry.\<close>

definition handle_item ::
    "agent_env \<Rightarrow> item \<Rightarrow> 'a agent_state_scheme \<Rightarrow> (bool \<times> 'a agent_state_scheme) option" where
  "handle_item e it s =
     (case item_type s it of
        RELAY \<Rightarrow> map_option (Pair False) (post_answer e it s)
      | REBOOT \<Rightarrow> map_option (Pair False) (handle_reboot e it s)
      | POWERON \<Rightarrow> map_option (Pair False) (handle_poweron e it s)
      | POWEROFF \<Rightarrow> map_option (Pair False) (handle_poweroff e it s)
      | DECOMMISSION \<Rightarrow> handle_decommission e it s
      | PLT_STATE_CHANGE_EVENT \<Rightarrow>
          map_option (Pair False)
            (if pm_sx_st s = LOW_POWER then post_event e OOB_PM_SX_ENTRY s else post_event e OOB_PM_SX_EXIT s)
      | PLT_STATE_TIMER_EVENT \<Rightarrow> map_option (Pair False) (post_event e OOB_PM_SX_TRANSITION_FAILED s)
      | TLS_SESSION_STATE_EVENT \<Rightarrow> Some (False, give_conn_sem e (s\<lparr>oob_conn_st := TLS_SESSION_RECONNECT\<rparr>))
      | MQTT_STATE_CHANGE_EVENT \<Rightarrow> map_option (Pair False) (handle_mqtt_state e s)
      | PLT_NW_MGMT_EVENT \<Rightarrow> Some (False, give_conn_sem e (s\<lparr>oob_conn_st := NW_MGMT_EVENT_RECEIVED\<rparr>))
      | IGNORE \<Rightarrow> Some (False, s))"

text \<open>One round of the loop: the loop is left when the connection is gone or the device decommissioned.\<close>

datatype round_end = Left | Again | Blocked

definition wait_round :: "agent_env \<Rightarrow> 'a agent_state_scheme \<Rightarrow> (round_end \<times> 'a agent_state_scheme) option" where
  "wait_round e s =
     (if \<not> connected s then Some (Left, s)
      else case k_fifo_get s of
             (FifoBlock, s1) \<Rightarrow> Some (Blocked, s1)
           | (FifoNull, s1) \<Rightarrow> Some (Again, s1)
           | (FifoItem it, s1) \<Rightarrow> do { (ex, s2) \<leftarrow> handle_item e it s1; Some (if ex then Left else Again, s2) })"

section \<open>The main thread\<close>

definition stop_tls_timer :: "'a agent_state_scheme \<Rightarrow> 'a agent_state_scheme" where
  "stop_tls_timer s = emit (TlsTimer False) (s\<lparr>tls_timer := False\<rparr>)"

text \<open>The steps of \<^verbatim>\<open>ehl_oob_bootstrap\<close>.\<close>

definition main_boot :: "agent_env \<Rightarrow> 'a agent_state_scheme \<Rightarrow> 'a agent_state_scheme" where
  "main_boot e s =
     (if oob_cfg_sem s = 0 then s
      else emit (TlsTimer True) (s\<lparr>oob_cfg_sem := snd (k_sem_take (sec_kern (ag_sec e)) (oob_cfg_sem s) False),
                                   tls_timer := True, main_pc := MConnect\<rparr>))"

definition main_connect :: "agent_env \<Rightarrow> 'a agent_state_scheme \<Rightarrow> 'a agent_state_scheme option" where
  "main_connect e s =
     (if oob_conn_st s = NW_MGMT_EVENT_STOP then Some (emit (KSleep APP_MINI_LOOP_TIME) (emit KYield s))
      else do {
        (r, s1) \<leftarrow> device_cloud_connect (ag_mqtt e) s;
        if r \<noteq> OOB_SUCCESS then Some ((stop_tls_timer s1)\<lparr>main_pc := MEnd OOB_ERR_THREAD_ABORT\<rparr>)
        else do { s2 \<leftarrow> send_platform_info e s1; Some (s2\<lparr>main_pc := MWait\<rparr>) }
      })"

definition main_wait :: "agent_env \<Rightarrow> 'a agent_state_scheme \<Rightarrow> 'a agent_state_scheme option" where
  "main_wait e s =
     do {
       (r, s1) \<leftarrow> wait_round e s;
       if r \<noteq> Left then Some s1
       else if is_thread_termi_set s1
       then do { s2 \<leftarrow> oob_service_decommission e s1;
                 Some ((give_conn_sem e (stop_tls_timer s2))\<lparr>main_pc := MEnd OOB_ERR_THREAD_ABORT\<rparr>) }
       else Some (s1\<lparr>main_pc := MConnect\<rparr>)
     }"

text \<open>One round of the thread, from one wait for the queue to the next.\<close>

definition main_step :: "agent_env \<Rightarrow> 'a agent_state_scheme \<Rightarrow> 'a agent_state_scheme option" where
  "main_step e s =
     (case main_pc s of MBoot \<Rightarrow> Some (main_boot e s) | MConnect \<Rightarrow> main_connect e s | MWait \<Rightarrow> main_wait e s
      | MEnd r \<Rightarrow> Some s)"

section \<open>The configuration thread\<close>

fun dhcp_loop :: "agent_env \<Rightarrow> nat \<Rightarrow> 'a agent_state_scheme \<Rightarrow> int \<times> 'a agent_state_scheme" where
  "dhcp_loop e 0 s = (OOB_ERR_NO_IPV4_ADDR, s)"
| "dhcp_loop e (Suc n) s =
     (if dhcp_bound e (io s) then (OOB_SUCCESS, s) else dhcp_loop e n (emit (KSleep APP_MINI_LOOP_TIME) s))"

definition oob_setup_dhcpv4 :: "agent_env \<Rightarrow> 'a agent_state_scheme \<Rightarrow> int \<times> 'a agent_state_scheme" where
  "oob_setup_dhcpv4 e s = dhcp_loop e DHCP_MAX_RETRY (emit DhcpStart (emit NetCallback s))"

partial_function (option) iface_loop :: "agent_env \<Rightarrow> 'a agent_state_scheme \<Rightarrow> 'a agent_state_scheme option" where
  "iface_loop e s = (if iface_up e (io s) then Some s else iface_loop e (emit (KSleep APP_MINI_LOOP_TIME) s))"

definition wait_for_nw_iface_ip :: "agent_env \<Rightarrow> 'a agent_state_scheme \<Rightarrow> (int \<times> 'a agent_state_scheme) option" where
  "wait_for_nw_iface_ip e s =
     (if \<not> default_iface e then Some (OOB_ERR_NO_INTERFACE_FOUND, s)
      else do { s1 \<leftarrow> iface_loop e s; Some (OOB_SUCCESS, snd (oob_setup_dhcpv4 e s1)) })"

definition oob_register_nw_mgmt_events :: "'a agent_state_scheme \<Rightarrow> 'a agent_state_scheme" where
  "oob_register_nw_mgmt_events s = (emit NetCallback s)\<lparr>oob_conn_st := NW_MGMT_EVENT_INIT\<rparr>"

definition oob_register_sx_notification :: "'a agent_state_scheme \<Rightarrow> 'a agent_state_scheme" where
  "oob_register_sx_notification s = emit PmRegister s"

definition oob_set_pm_control :: "bool \<Rightarrow> 'a agent_state_scheme \<Rightarrow> 'a agent_state_scheme" where
  "oob_set_pm_control on s = emit (OobPmControl on) s"

text \<open>\<^verbatim>\<open>oob_cfg_task\<close> up to its loop.\<close>

definition cfg_start :: "agent_env \<Rightarrow> 'a agent_state_scheme \<Rightarrow> 'a agent_state_scheme option" where
  "cfg_start e s =
     (if \<not> oob_enabled e then Some (s\<lparr>cfg_pc := CEnd\<rparr>)
      else do {
        (r, s1) \<leftarrow> get_oob_credential e (oob_register_sx_notification s);
        if r \<noteq> OOB_SUCCESS then Some (s1\<lparr>cfg_pc := CEnd\<rparr>)
        else do {
          s2 \<leftarrow> initialize_cloud_adapter s1;
          (r2, s3) \<leftarrow> wait_for_nw_iface_ip e s2;
          if r2 \<noteq> OOB_SUCCESS then Some (s3\<lparr>cfg_pc := CEnd\<rparr>)
          else do {
            (r3, s4) \<leftarrow> device_cloud_init (ag_mqtt e) (oob_register_nw_mgmt_events s3);
            if r3 = OOB_ERR_TLS_CREDENTIALS_ADD then Some (s4\<lparr>cfg_pc := CEnd\<rparr>)
            else let s5 = oob_set_pm_control True s4
                 in Some (s5\<lparr>oob_cfg_sem := k_sem_give (sec_kern (ag_sec e)) 1 (oob_cfg_sem s5), cfg_pc := CLoop\<rparr>)
          }
        }
      })"

text \<open>One round of its loop; it waits while the semaphore is 0.\<close>

definition cfg_loop :: "agent_env \<Rightarrow> 'a agent_state_scheme \<Rightarrow> 'a agent_state_scheme option" where
  "cfg_loop e s =
     (if oob_conn_sem s = 0 then Some s
      else do {
        let s1 = s\<lparr>oob_conn_sem := snd (k_sem_take (sec_kern (ag_sec e)) (oob_conn_sem s) False)\<rparr>;
        s2 \<leftarrow> (if connected s1 \<and> oob_conn_st s1 = NW_MGMT_EVENT_RECEIVED \<and> nw_mgmt_event s1 = NET_EVENT_IF_DOWN
               then device_conn_teardown e (s1\<lparr>oob_conn_st := NW_MGMT_EVENT_STOP\<rparr>) else Some s1);
        s3 \<leftarrow> (if oob_conn_st s2 = TLS_SESSION_RECONNECT
               then do { t \<leftarrow> device_conn_teardown e s2; device_conn_recover e t } else Some s2);
        Some (if is_thread_termi_set s3 then s3\<lparr>cfg_pc := CEnd\<rparr> else s3)
      })"

definition cfg_step :: "agent_env \<Rightarrow> 'a agent_state_scheme \<Rightarrow> 'a agent_state_scheme option" where
  "cfg_step e s = (case cfg_pc s of CStart \<Rightarrow> cfg_start e s | CLoop \<Rightarrow> cfg_loop e s | CEnd \<Rightarrow> Some s)"

section \<open>Operations of the system\<close>

text \<open>A round of one of the threads, the expiry of a timer, or a notification.  An operation runs to its
  end before the next one starts: interruptions at the waits inside an operation, such as the
  sleep before the connection is torn down, are not modelled.\<close>

datatype agent_op = MainThread | ConfigThread | PowerTimerExpires | TlsTimerExpires | PingTimerExpires
  | SxNotify sx_event | L2Notify u32

text \<open>A timer that is not running does not expire.  A one-shot timer no longer runs when it expires; the others
  restart.\<close>

fun agent_exec :: "agent_env \<Rightarrow> agent_op \<Rightarrow> agent_state \<Rightarrow> agent_state option" where
  "agent_exec e MainThread s = main_step e s"
| "agent_exec e ConfigThread s = cfg_step e s"
| "agent_exec e PowerTimerExpires s =
     Some (if power_timer s then oob_power_trans_expiry e (s\<lparr>power_timer := False\<rparr>) else s)"
| "agent_exec e TlsTimerExpires s = Some (if tls_timer s then oob_tls_session_expiry e s else s)"
| "agent_exec e PingTimerExpires s = Some (if ping_timer s then timer_expiry_pingreq (ag_mqtt e) s else s)"
| "agent_exec e (SxNotify ev) s = oob_sx_handler e ev s"
| "agent_exec e (L2Notify ev) s = oob_l2_event_handler e ev s"

fun agent_ops :: "agent_env \<Rightarrow> agent_op list \<Rightarrow> agent_state \<Rightarrow> agent_state option" where
  "agent_ops e [] s = Some s"
| "agent_ops e (x # xs) s = agent_exec e x s \<bind> agent_ops e xs"

text \<open>The state after loading: static data is zero, so the types of the entries are the first of the enumeration.\<close>

definition agent_boot :: "sec_state \<Rightarrow> agent_state" where
  "agent_boot sec =
     \<lparr>io = [], ipc_alert = 0, pmc_msg_alert = 0, pmc_msg_mutex = 0, creds = None, cloud_fns = NOADAPTER,
      pub_buf = replicate MAX_MSG_BUF_LEN NUL, tb_payload = replicate MAX_MSG_BUF_LEN NUL,
      msg_buffer = replicate MAX_MSG_BUF_LEN NUL, az_payload = replicate MAX_MSG_BUF_LEN NUL,
      oob_conn_st = NW_MGMT_EVENT_INIT, connected = False, nfds = 0, dns_status = False, haddr = AddrNull,
      client = \<lparr>cl_broker = (0, 0), cl_client_id = [], cl_password = [], cl_user_name = [], cl_hostname = []\<rparr>,
      managability_fifo = [], fifo_waiting = False, fifo_null = False, item_type = (\<lambda>_. REBOOT),
      next_msg = replicate BIG_GENERAL_BUF_SIZE NUL, msg_buf = replicate BIG_GENERAL_BUF_SIZE NUL,
      pub_param = \<lparr>pp_topic = [], pp_payload = [], pp_message_id = 0\<rparr>,
      sub_topics = [], sub_list = [], ping_timer = False, oob_sec = sec, pm_sx_st = ACTIVE_POWER,
      pmc_reboot = False, is_thread_termi_set = False, nw_mgmt_event = 0, oob_cfg_sem = 0, oob_conn_sem = 0,
      power_timer = False, tls_timer = False, main_pc = MBoot, cfg_pc = CStart\<rparr>"

end
