(* ===== verification/Agent_Facts.thy ===== *)
theory Agent_Facts
  imports Oob_Threads
begin

text \<open>
  Lemmas of the out-of-band agent.  What every operation of the MQTT client leaves alone, whatever
  the cloud sends; the contract of a cloud adapter as a locale, interpreted on the three adapters
  and on the table of function pointers; and, for adapters that are defined on every message, that
  the whole client is.
\<close>

section \<open>Results of computations that may be undefined\<close>

definition pok :: "'a option \<Rightarrow> ('a \<Rightarrow> bool) \<Rightarrow> bool" where
  "pok m P = (case m of None \<Rightarrow> True | Some x \<Rightarrow> P x)"

named_theorems pok_rules \<open>decomposition of \<open>pok\<close> over the program combinators\<close>

lemma pok_Some [simp]: "pok (Some x) P = P x"
  by (simp add: pok_def)

lemma pok_None [simp]: "pok None P"
  by (simp add: pok_def)

lemma pok_bind [pok_rules]: "pok (m \<bind> f) P = pok m (\<lambda>x. pok (f x) P)"
  by (cases m) auto

lemma pok_if [pok_rules]: "pok (if b then m else n) P = ((b \<longrightarrow> pok m P) \<and> (\<not> b \<longrightarrow> pok n P))"
  by simp

lemma pok_map [pok_rules]: "pok (map_option f m) P = pok m (\<lambda>x. P (f x))"
  by (cases m) auto

lemma pok_mono: "pok m P \<Longrightarrow> (\<And>x. P x \<Longrightarrow> Q x) \<Longrightarrow> pok m Q"
  by (cases m) auto

lemma pokD: "pok m P \<Longrightarrow> m = Some x \<Longrightarrow> P x"
  by simp

lemma pokI: "(\<And>x. m = Some x \<Longrightarrow> P x) \<Longrightarrow> pok m P"
  by (cases m) auto

lemma ok_pok: "ok m P \<Longrightarrow> pok m P"
  by (cases m) auto

lemma pok_True [simp]: "pok m (\<lambda>x. True)"
  by (cases m) auto

lemma pok_bindI: "pok m Q \<Longrightarrow> (\<And>x. Q x \<Longrightarrow> pok (f x) P) \<Longrightarrow> pok (m \<bind> f) P"
  by (cases m) auto

lemma pok_bindP: "pok m (\<lambda>(r, t). Q r t) \<Longrightarrow> (\<And>r t. Q r t \<Longrightarrow> pok (f r t) P) \<Longrightarrow> pok (m \<bind> (\<lambda>(r, t). f r t)) P"
  by (cases m) auto

lemma pok_bindT: "(\<And>x. pok (f x) P) \<Longrightarrow> pok (m \<bind> f) P"
  by (cases m) auto

lemma pok_ifI: "(b \<Longrightarrow> pok m P) \<Longrightarrow> (\<not> b \<Longrightarrow> pok n P) \<Longrightarrow> pok (if b then m else n) P"
  by simp

lemma pok_optI: "(c = None \<Longrightarrow> pok m P) \<Longrightarrow> (\<And>x. c = Some x \<Longrightarrow> pok (f x) P) \<Longrightarrow> pok (case_option m f c) P"
  by (cases c) auto

lemma ok_map_option: "ok (map_option f m) P = ok m (\<lambda>x. P (f x))"
  by (cases m) auto

section \<open>The contract of an adapter\<close>

definition bufs_ok :: "'a adapter_state_scheme \<Rightarrow> bool" where
  "bufs_ok s \<longleftrightarrow> length (pub_buf s) = MAX_MSG_BUF_LEN \<and> length (tb_payload s) = MAX_MSG_BUF_LEN
     \<and> length (msg_buffer s) = MAX_MSG_BUF_LEN \<and> length (az_payload s) = MAX_MSG_BUF_LEN"

definition only_buffers :: "'a adapter_state_scheme \<Rightarrow> 'a adapter_state_scheme \<Rightarrow> bool" where
  "only_buffers s s' \<longleftrightarrow>
     (\<exists>a b c d. s' = s\<lparr>pub_buf := a, tb_payload := b, msg_buffer := c, az_payload := d\<rparr>) \<and> (bufs_ok s \<longrightarrow> bufs_ok s')"

definition cloud_msgs :: "oob_messages set" where
  "cloud_msgs = {REBOOT, DECOMMISSION, POWERON, POWEROFF, IGNORE, RELAY}"

lemma only_buffers_refl [simp]: "only_buffers s s"
  unfolding only_buffers_def by (intro conjI exI [of _ "pub_buf s"] exI [of _ "tb_payload s"] exI [of _ "msg_buffer s"] exI [of _ "az_payload s"]) simp_all

lemma only_buffers_trans:
  assumes "only_buffers s t" "only_buffers t u"
  shows "only_buffers s u"
proof -
  obtain a b c d a' b' c' d' where "t = s\<lparr>pub_buf := a, tb_payload := b, msg_buffer := c, az_payload := d\<rparr>"
    and "u = t\<lparr>pub_buf := a', tb_payload := b', msg_buffer := c', az_payload := d'\<rparr>"
    using assms unfolding only_buffers_def by blast
  then have "u = s\<lparr>pub_buf := a', tb_payload := b', msg_buffer := c', az_payload := d'\<rparr>" by simp
  with assms show ?thesis unfolding only_buffers_def by blast
qed

lemma only_buffers_pub: "length b = length (pub_buf s) \<Longrightarrow> only_buffers s (s\<lparr>pub_buf := b\<rparr>)"
  unfolding only_buffers_def
  by (intro conjI exI [of _ b] exI [of _ "tb_payload s"] exI [of _ "msg_buffer s"] exI [of _ "az_payload s"]) (simp_all add: bufs_ok_def)

lemma only_buffers_tb: "length b = length (tb_payload s) \<Longrightarrow> only_buffers s (s\<lparr>tb_payload := b\<rparr>)"
  unfolding only_buffers_def
  by (intro conjI exI [of _ "pub_buf s"] exI [of _ b] exI [of _ "msg_buffer s"] exI [of _ "az_payload s"]) (simp_all add: bufs_ok_def)

lemma only_buffers_msg: "length b = length (msg_buffer s) \<Longrightarrow> only_buffers s (s\<lparr>msg_buffer := b\<rparr>)"
  unfolding only_buffers_def
  by (intro conjI exI [of _ "pub_buf s"] exI [of _ "tb_payload s"] exI [of _ b] exI [of _ "az_payload s"]) (simp_all add: bufs_ok_def)

lemma only_buffers_az: "length b = length (az_payload s) \<Longrightarrow> only_buffers s (s\<lparr>az_payload := b\<rparr>)"
  unfolding only_buffers_def
  by (intro conjI exI [of _ "pub_buf s"] exI [of _ "tb_payload s"] exI [of _ "msg_buffer s"] exI [of _ b]) (simp_all add: bufs_ok_def)

lemmas only_buffers_intros = only_buffers_refl only_buffers_pub only_buffers_tb only_buffers_msg only_buffers_az

lemma only_buffersD:
  "only_buffers s s' \<Longrightarrow> io s' = io s \<and> creds s' = creds s \<and> cloud_fns s' = cloud_fns s
     \<and> adapter_state.more s' = adapter_state.more s"
  by (auto simp: only_buffers_def)

text \<open>What the answer of an adapter satisfies.\<close>

definition answer_ok :: "nat \<Rightarrow> 'a adapter_state_scheme \<Rightarrow> oob_messages \<times> string \<times> 'a adapter_state_scheme \<Rightarrow> bool" where
  "answer_ok n s = (\<lambda>(m, nm, s'). length nm = n \<and> terminated nm \<and> only_buffers s s' \<and> m \<in> cloud_msgs)"

lemma answer_okI:
  "length nm = n \<Longrightarrow> terminated nm \<Longrightarrow> only_buffers s s' \<Longrightarrow> m \<in> cloud_msgs \<Longrightarrow> pok (Some (m, nm, s')) (answer_ok n s)"
  by (simp add: answer_ok_def)

lemma cloud_msgs_in [simp]:
  "IGNORE \<in> cloud_msgs" "RELAY \<in> cloud_msgs" "m \<in> snd ` set TELIT_COMMANDS \<Longrightarrow> m \<in> cloud_msgs"
  "m \<in> snd ` set THINGSBOARD_COMMANDS \<Longrightarrow> m \<in> cloud_msgs" "m \<in> snd ` set AZURE_IOT_COMMANDS \<Longrightarrow> m \<in> cloud_msgs"
  by (auto simp: cloud_msgs_def TELIT_COMMANDS_def THINGSBOARD_COMMANDS_def AZURE_IOT_COMMANDS_def)

text \<open>The first locale holds of every adapter: whatever the answer, it fits its buffer, ends with a null
  character and touches only the buffers of the adapters.\<close>

locale cloud_adapter_ops =
  fixes process :: "string \<Rightarrow> nat \<Rightarrow> string \<Rightarrow> nat \<Rightarrow> string \<Rightarrow> nat \<Rightarrow> 'a adapter_state_scheme
          \<Rightarrow> (oob_messages \<times> string \<times> 'a adapter_state_scheme) option"
    and pub_topic :: "app_message_type \<Rightarrow> 'a adapter_state_scheme \<Rightarrow> (string \<times> 'a adapter_state_scheme) option"
    and attrib :: "string \<Rightarrow> nat \<Rightarrow> string \<Rightarrow> string \<Rightarrow> 'a adapter_state_scheme \<Rightarrow> string option"
    and event :: "string \<Rightarrow> nat \<Rightarrow> string \<Rightarrow> 'a adapter_state_scheme \<Rightarrow> string option"
  assumes process_law: "\<lbrakk>n = length nm; 0 < n; terminated nm\<rbrakk> \<Longrightarrow>
            pok (process pl k tp j nm n s) (answer_ok n s)"
    and topic_law: "pok (pub_topic ty s) (\<lambda>(t, s'). only_buffers s s')"
    and attrib_law: "0 < n \<Longrightarrow> pok (attrib b n key val s) (\<lambda>b'. length b' = length b \<and> terminated b')"
    and event_law: "0 < n \<Longrightarrow> pok (event b n m s) (\<lambda>b'. length b' = length b \<and> terminated b')"
begin

lemma topic_twice:
  "pok (do { (_, s1) \<leftarrow> pub_topic ty s; (tp, s2) \<leftarrow> pub_topic ty s1; Some (tp, s2) })
     (\<lambda>(tp, s2). only_buffers s s2)"
  unfolding pok_bind
  by (rule pok_mono [OF topic_law], clarsimp simp: pok_rules, rule pok_mono [OF topic_law])
    (auto dest: only_buffers_trans)

lemma process_frame:
  assumes "n = length nm" "0 < n" "terminated nm" "process pl k tp j nm n s = Some (m, nm', s')"
  shows "length nm' = n" "terminated nm'" "io s' = io s" "creds s' = creds s"
    "adapter_state.more s' = adapter_state.more s" "m \<in> cloud_msgs"
  using process_law [OF assms(1-3), of pl k tp j s] assms(4) by (auto simp: answer_ok_def dest: only_buffersD)

end

lemma snprintf_law: "0 < n \<Longrightarrow> pok (c_snprintf b n f as) (\<lambda>b'. length b' = length b \<and> terminated b')"
  by (auto simp: c_snprintf_def Let_def pok_def split: if_splits)

lemma memset_law: "pok (c_memset b n) (\<lambda>b'. length b' = length b \<and> (0 < n \<longrightarrow> terminated b'))"
  by (auto simp: c_memset_def pok_def)

lemma memcpy_law: "pok (c_memcpy b t n) (\<lambda>b'. length b' = length b)"
  by (auto simp: c_memcpy_def pok_def)

lemma first_command_law: "pok (first_command t l) (\<lambda>c. \<forall>m. c = Some m \<longrightarrow> m \<in> snd ` set l)"
proof (induction t l rule: first_command.induct)
  case (1 t)
  show ?case by simp
next
  case (2 t meth m l)
  show ?case
  proof (cases "strstr t (cz meth)")
    case (Some p)
    then show ?thesis using 2 by (cases p) (auto elim: pok_mono)
  qed simp
qed

lemma telit_ack_law: "0 < n \<Longrightarrow> pok (telit_prepare_mailbox_ack pl b n) (\<lambda>b'. length b' = length b \<and> terminated b')"
  unfolding telit_prepare_mailbox_ack_def
  by (rule pok_bindI [OF memset_law], rule pok_bindT, rule pok_optI, simp, (rule pok_bindT)+,
      rule pok_mono [OF snprintf_law]) simp_all

lemma telit_reply_law:
  assumes n: "n = length nm" "0 < n" "terminated nm"
  shows "pok (telit_process_reply pl nm n s) (answer_ok n s)"
  unfolding telit_process_reply_def
  by (intro pok_bindI [OF first_command_law] pok_bindI [OF telit_ack_law] pok_bindT [of _ _ "strstr _ _"]
      pok_bindT [of _ _ "creds s"] pok_optI pok_ifI answer_okI) (use n in auto)

lemma telit_process_law:
  assumes n: "n = length nm" "0 < n" "terminated nm"
  shows "pok (telit_process_message pl k tp j nm n s) (answer_ok n s)"
  unfolding telit_process_message_def telit_prepare_mailbox_check_def
  by (intro pok_bindT pok_ifI telit_reply_law n pok_bindI [OF snprintf_law] answer_okI) (use n in auto)

lemma thingsboard_process_law:
  assumes n: "n = length nm" "0 < n" "terminated nm"
  shows "pok (thingsboard_process_message pl k tp j nm n s) (answer_ok n s)"
  unfolding thingsboard_process_message_def
proof (intro pok_ifI pok_bindI [OF memset_law] pok_bindI [OF memcpy_law] pok_bindT [of _ _ "strstr _ _"])
  fix b b1 b2 :: string and rsp :: "string option"
  assume b: "length b = length (tb_payload s) \<and> (0 < MAX_MSG_BUF_LEN \<longrightarrow> terminated b)" "length b1 = length b"
    and b2: "length b2 = length nm \<and> (0 < n \<longrightarrow> terminated b2)"
  have law: "pok (if rsp = None then first_command pl THINGSBOARD_COMMANDS else Some None)
      (\<lambda>c. \<forall>m. c = Some m \<longrightarrow> m \<in> snd ` set THINGSBOARD_COMMANDS)"
    using first_command_law by simp
  show "pok ((if rsp = None then first_command pl THINGSBOARD_COMMANDS else Some None) \<bind>
      case_option (Some (IGNORE, b2, s\<lparr>tb_payload := b1\<rparr>))
        (\<lambda>m. c_snprintf b2 n THINGSBOARD_ATTRIBUTE_MESSAGE_TEMPLATE [''status'', ''200''] \<bind>
           (\<lambda>nm1. Some (m, nm1, s\<lparr>tb_payload := b1\<rparr>)))) (answer_ok n s)"
    by (intro pok_bindI [OF law] pok_optI pok_bindI [OF snprintf_law] answer_okI) (use n b b2 in \<open>auto intro: only_buffers_tb\<close>)
qed (use n in \<open>auto simp: answer_ok_def\<close>)

lemma azure_process_law:
  assumes n: "n = length nm" "0 < n" "terminated nm"
  shows "pok (azure_iot_process_message pl k tp j nm n s) (answer_ok n s)"
  unfolding azure_iot_process_message_def
proof (intro pok_ifI pok_bindI [OF memset_law] pok_bindI [OF memcpy_law] pok_bindT [of _ _ "strstr _ _"])
  fix b b1 b2 :: string and rsp :: "string option"
  assume b: "length b = length (az_payload s) \<and> (0 < MAX_MSG_BUF_LEN \<longrightarrow> terminated b)" "length b1 = length b"
    and b2: "length b2 = length nm \<and> (0 < n \<longrightarrow> terminated b2)"
  have law: "pok (if rsp = None then first_command tp AZURE_IOT_COMMANDS else Some None)
      (\<lambda>c. \<forall>m. c = Some m \<longrightarrow> m \<in> snd ` set AZURE_IOT_COMMANDS)"
    using first_command_law by simp
  show "pok ((if rsp = None then first_command tp AZURE_IOT_COMMANDS else Some None) \<bind>
      case_option (Some (IGNORE, b2, s\<lparr>az_payload := b1\<rparr>))
        (\<lambda>m. c_snprintf b2 n AZURE_IOT_ATTRIBUTE_MESSAGE_TEMPLATE [''status'', ''200''] \<bind>
           (\<lambda>nm1. Some (m, nm1, s\<lparr>az_payload := b1\<rparr>)))) (answer_ok n s)"
    by (intro pok_bindI [OF law] pok_optI pok_bindI [OF snprintf_law] answer_okI) (use n b b2 in \<open>auto intro: only_buffers_az\<close>)
qed (use n in \<open>auto simp: answer_ok_def\<close>)

lemma ack_topic_laws:
  assumes n: "0 < n"
  shows "pok (thingsboard_prepare_pub_ack_topic pl b n) (\<lambda>b'. length b' = length b)"
    and "pok (azure_iot_prepare_pub_ack_topic pl b n) (\<lambda>b'. length b' = length b)"
    and "pok (azure_iot_prepare_pub_telem_topic b n v) (\<lambda>b'. length b' = length b)"
  unfolding thingsboard_prepare_pub_ack_topic_def azure_iot_prepare_pub_ack_topic_def
    azure_iot_prepare_pub_telem_topic_def
  by (rule pok_bindI [OF memset_law] pok_bindT pok_optI pok_mono [OF snprintf_law] | simp add: n)+

lemma thingsboard_topic_law: "pok (thingsboard_get_mqtt_pub_topic ty s) (\<lambda>(t, s'). only_buffers s s')"
  unfolding thingsboard_get_mqtt_pub_topic_def
  by (cases ty) (auto simp: MAX_MSG_BUF_LEN_def intro!: pok_bindI [OF ack_topic_laws(1)] only_buffers_pub)

lemma azure_topic_law: "pok (azure_iot_get_mqtt_pub_topic ty s) (\<lambda>(t, s'). only_buffers s s')"
  unfolding azure_iot_get_mqtt_pub_topic_def
  by (cases ty) (auto simp: MAX_MSG_BUF_LEN_def intro!: pok_bindI [OF ack_topic_laws(2)] pok_bindI [OF ack_topic_laws(3)]
      pok_bindT [of _ _ "creds s"] only_buffers_msg)

lemma prepare_laws:
  assumes n: "0 < n"
  shows "pok (telit_prepare_attrib_pub_message b n key val s) (\<lambda>b'. length b' = length b \<and> terminated b')"
    and "pok (thingsboard_prepare_attrib_pub_message b n key val s) (\<lambda>b'. length b' = length b \<and> terminated b')"
    and "pok (azure_iot_prepare_attrib_pub_message b n key val s) (\<lambda>b'. length b' = length b \<and> terminated b')"
    and "pok (telit_prepare_log_message b n msg s) (\<lambda>b'. length b' = length b \<and> terminated b')"
    and "pok (thingsboard_prepare_log_message b n msg s) (\<lambda>b'. length b' = length b \<and> terminated b')"
    and "pok (azure_iot_prepare_log_message b n msg s) (\<lambda>b'. length b' = length b \<and> terminated b')"
  unfolding telit_prepare_attrib_pub_message_def thingsboard_prepare_attrib_pub_message_def
    azure_iot_prepare_attrib_pub_message_def telit_prepare_log_message_def thingsboard_prepare_log_message_def
    azure_iot_prepare_log_message_def
  by ((rule pok_bindT)+, rule snprintf_law [OF n])+

interpretation telit: cloud_adapter_ops telit_process_message telit_get_mqtt_pub_topic
  telit_prepare_attrib_pub_message telit_prepare_log_message
  by unfold_locales (rule telit_process_law prepare_laws | assumption | simp add: telit_get_mqtt_pub_topic_def)+

interpretation thingsboard: cloud_adapter_ops thingsboard_process_message thingsboard_get_mqtt_pub_topic
  thingsboard_prepare_attrib_pub_message thingsboard_prepare_log_message
  by unfold_locales (rule thingsboard_process_law prepare_laws thingsboard_topic_law | assumption)+

interpretation azure: cloud_adapter_ops azure_iot_process_message azure_iot_get_mqtt_pub_topic
  azure_iot_prepare_attrib_pub_message azure_iot_prepare_log_message
  by unfold_locales (rule azure_process_law prepare_laws azure_topic_law | assumption)+

text \<open>The table of function pointers is an adapter, whatever it points to.\<close>

interpretation cloud: cloud_adapter_ops process_message get_mqtt_pub_topic
  prep_static_attrib_pub_msg prep_event_pub_msg
  by unfold_locales (auto simp: process_message_def get_mqtt_pub_topic_def prep_static_attrib_pub_msg_def
      prep_event_pub_msg_def telit_process_law thingsboard_process_law azure_process_law prepare_laws telit.topic_law
      thingsboard_topic_law azure_topic_law split: cloud_adapter.split)

section \<open>What the client leaves alone\<close>

text \<open>Actions that concern the network only.\<close>

fun net_event :: "io_event \<Rightarrow> bool" where
  "net_event (MqttPublish t m) = True"
| "net_event (MqttCall c) = True"
| "net_event NetPoll = True"
| "net_event RandGet = True"
| "net_event (DnsQuery h p) = True"
| "net_event DnsFree = True"
| "net_event (PingTimer b) = True"
| "net_event TlsCredDelete = True"
| "net_event (TlsCredAdd c) = True"
| "net_event KYield = True"
| "net_event (KSleep n) = True"
| "net_event _ = False"

definition msg_bufs_ok :: "'a mqtt_state_scheme \<Rightarrow> bool" where
  "msg_bufs_ok s \<longleftrightarrow> bufs_ok s \<and> length (next_msg s) = BIG_GENERAL_BUF_SIZE \<and> terminated (next_msg s)
     \<and> length (msg_buf s) = BIG_GENERAL_BUF_SIZE"

text \<open>The rest of the state is kept, the buffers keep their shape, and only the network is used.\<close>

definition net_only :: "'a mqtt_state_scheme \<Rightarrow> 'a mqtt_state_scheme \<Rightarrow> bool" where
  "net_only s s' \<longleftrightarrow> mqtt_state.more s' = mqtt_state.more s \<and> creds s' = creds s \<and> cloud_fns s' = cloud_fns s
     \<and> (\<exists>l. io s' = io s @ l \<and> list_all net_event l) \<and> msg_bufs_ok s'"

lemma net_only_refl: "msg_bufs_ok s \<Longrightarrow> net_only s s"
  by (simp add: net_only_def)

lemma net_only_bufs: "net_only s s' \<Longrightarrow> msg_bufs_ok s'"
  by (simp add: net_only_def)

lemma net_only_trans [trans]: "net_only s t \<Longrightarrow> net_only t u \<Longrightarrow> net_only s u"
  by (fastforce simp: net_only_def)

lemma net_only_emit: "net_only s t \<Longrightarrow> net_event ev \<Longrightarrow> net_only s (emit ev t)"
  by (auto simp: net_only_def msg_bufs_ok_def bufs_ok_def emit_def)

text \<open>Updates of fields that the relation does not speak of.\<close>

lemma net_only_upd:
  "net_only s t \<Longrightarrow> mqtt_state.more t' = mqtt_state.more t \<Longrightarrow> creds t' = creds t \<Longrightarrow> cloud_fns t' = cloud_fns t
   \<Longrightarrow> io t' = io t \<Longrightarrow> (msg_bufs_ok t \<Longrightarrow> msg_bufs_ok t') \<Longrightarrow> net_only s t'"
  by (simp add: net_only_def)

lemma msg_bufs_ok_upds [simp]:
  "msg_bufs_ok (s\<lparr>connected := a\<rparr>) = msg_bufs_ok s" "msg_bufs_ok (s\<lparr>nfds := b\<rparr>) = msg_bufs_ok s"
  "msg_bufs_ok (s\<lparr>item_type := c\<rparr>) = msg_bufs_ok s" "msg_bufs_ok (s\<lparr>managability_fifo := d\<rparr>) = msg_bufs_ok s"
  "msg_bufs_ok (s\<lparr>pub_param := f\<rparr>) = msg_bufs_ok s" "msg_bufs_ok (s\<lparr>client := g\<rparr>) = msg_bufs_ok s"
  "msg_bufs_ok (s\<lparr>haddr := h\<rparr>) = msg_bufs_ok s" "msg_bufs_ok (s\<lparr>dns_status := i\<rparr>) = msg_bufs_ok s"
  "msg_bufs_ok (s\<lparr>sub_topics := j\<rparr>) = msg_bufs_ok s" "msg_bufs_ok (s\<lparr>sub_list := k\<rparr>) = msg_bufs_ok s"
  "msg_bufs_ok (s\<lparr>ping_timer := l\<rparr>) = msg_bufs_ok s" "msg_bufs_ok (s\<lparr>fifo_waiting := m\<rparr>) = msg_bufs_ok s"
  "msg_bufs_ok (s\<lparr>fifo_null := n\<rparr>) = msg_bufs_ok s" "msg_bufs_ok (s\<lparr>oob_conn_st := p\<rparr>) = msg_bufs_ok s"
  "msg_bufs_ok (s\<lparr>io := q\<rparr>) = msg_bufs_ok s" "msg_bufs_ok (emit ev s) = msg_bufs_ok s"
  by (simp_all add: msg_bufs_ok_def bufs_ok_def emit_def)

lemma net_only_upds:
  assumes "net_only s t"
  shows "net_only s (t\<lparr>connected := a\<rparr>)" "net_only s (t\<lparr>nfds := b\<rparr>)" "net_only s (t\<lparr>item_type := c\<rparr>)"
    "net_only s (t\<lparr>managability_fifo := d\<rparr>)" "net_only s (t\<lparr>pub_param := f\<rparr>)" "net_only s (t\<lparr>client := g\<rparr>)"
    "net_only s (t\<lparr>haddr := h\<rparr>)" "net_only s (t\<lparr>dns_status := i\<rparr>)" "net_only s (t\<lparr>sub_topics := j\<rparr>)"
    "net_only s (t\<lparr>sub_list := k\<rparr>)" "net_only s (t\<lparr>ping_timer := l\<rparr>)" "net_only s (t\<lparr>fifo_waiting := m\<rparr>)"
    "net_only s (t\<lparr>fifo_null := n\<rparr>)" "net_only s (t\<lparr>oob_conn_st := p\<rparr>)"
  by (rule net_only_upd [OF assms]; simp)+

lemmas net_intros = net_only_refl net_only_emit net_only_upds

lemma only_buffers_net:
  assumes "net_only r s" "only_buffers s s'"
  shows "net_only r s'"
  using assms by (intro net_only_upd [OF assms(1)]) (auto simp: only_buffers_def msg_bufs_ok_def)

lemma fifo_alloc_put_net: "net_only r s \<Longrightarrow> net_only r (k_fifo_alloc_put e it s)"
  by (simp add: k_fifo_alloc_put_def net_only_upds)

lemma next_msg_terminated:
  "length (next_msg s) = BIG_GENERAL_BUF_SIZE \<Longrightarrow> terminated ((next_msg s)[BIG_GENERAL_BUF_SIZE - 1 := NUL])"
  by (simp add: terminated_def BIG_GENERAL_BUF_SIZE_def set_update_memI)

lemma process_receive_net: 
  assumes s: "net_only r s"
  shows "pok (mqtt_process_receive e pl n tp j s) (net_only r)"
  unfolding mqtt_process_receive_def Let_def
proof (rule pok_bindI [OF cloud.process_law], goal_cases)
  case (4 x)
  obtain m nm s1 where x: "x = (m, nm, s1)" by (cases x)
  with 4 have *: "only_buffers s s1" "length nm = BIG_GENERAL_BUF_SIZE" "terminated nm" by (simp_all add: answer_ok_def)
  then have "net_only r (s1\<lparr>next_msg := nm\<rparr>)"
    by (intro net_only_upd [OF only_buffers_net [OF s *(1)]]) (simp_all add: msg_bufs_ok_def bufs_ok_def)
  then show ?case by (simp add: x fifo_alloc_put_net net_only_upds)
qed (use net_only_bufs [OF s] next_msg_terminated in \<open>auto simp: msg_bufs_ok_def BIG_GENERAL_BUF_SIZE_def\<close>)

lemma evt_handler_net: "net_only r s \<Longrightarrow> pok (mqtt_evt_handler e ev s) (net_only r)"
  unfolding mqtt_evt_handler_def clear_fds_def
  by (cases "ev_type ev") (auto intro!: net_intros pok_bindT [of _ _ "read_payload _ _"] pok_bindT [of _ _ "if _ then _ else _"]
      pok_bindI [OF process_receive_net] pok_bindT [of _ _ "c_memset _ _"])

lemma run_events_net: "net_only r s \<Longrightarrow> pok (run_events e evs s) (net_only r)"
  by (induction evs arbitrary: s) (auto intro: pok_bindI [OF evt_handler_net])

lemma lib_call_net: "net_only r s \<Longrightarrow> net_event c \<Longrightarrow> pok (lib_call e c s) (\<lambda>(_, s'). net_only r s')"
  unfolding lib_call_def Let_def by (rule pok_bindI [OF run_events_net [OF net_only_emit]]) simp_all

lemma wait_net: "net_only r s \<Longrightarrow> net_only r (snd (wait e s))"
  by (simp add: wait_def Let_def net_only_emit)

lemma fill_msg_buf_law:
  "msg_bufs_ok s \<Longrightarrow> pok (fill_msg_buf a s) (\<lambda>(_, b). length b = BIG_GENERAL_BUF_SIZE)"
  by (cases a) (auto simp: msg_bufs_ok_def BIG_GENERAL_BUF_SIZE_def intro!: pok_bindI [OF cloud.attrib_law]
      pok_bindI [OF cloud.event_law] pok_bindT [of _ _ "strlen _"] pok_bindI [OF memcpy_law])

lemma prepare_net:
  assumes s: "net_only r s"
  shows "pok (prepare_mqtt_pub_msg e a s) (\<lambda>(_, s'). net_only r s')"
  unfolding prepare_mqtt_pub_msg_def Let_def
proof (rule pok_bindI [OF fill_msg_buf_law [OF net_only_bufs [OF s]]], clarify, rule pok_ifI)
  fix rc and b :: string
  assume "length b = BIG_GENERAL_BUF_SIZE"
  then have b: "net_only r (s\<lparr>msg_buf := b\<rparr>)"
    using net_only_bufs [OF s] by (intro net_only_upd [OF s]) (simp_all add: msg_bufs_ok_def bufs_ok_def)
  show "pok (get_mqtt_pub_topic (pub_type a) (s\<lparr>msg_buf := b\<rparr>) \<bind>
      (\<lambda>(_, s1). get_mqtt_pub_topic (pub_type a) s1 \<bind>
        (\<lambda>(tp, s2). cstr tp \<bind> (\<lambda>t. cstr (msg_buf s2) \<bind> (\<lambda>m.
          Some (OOB_SUCCESS, (emit RandGet s2)\<lparr>pub_param :=
            \<lparr>pp_topic = t, pp_payload = m, pp_message_id = ucast (rand32 e (io (emit RandGet s2)))\<rparr>\<rparr>))))))
      (\<lambda>(_, s'). net_only r s')"
    by (rule pok_bindI [OF cloud.topic_law], clarify, rule pok_bindI [OF cloud.topic_law], clarify,
        rule pok_bindT, rule pok_bindT)
      (auto intro!: net_intros dest: only_buffers_net [OF b] only_buffers_net)
qed (simp add: s)

lemma publish_net:
  assumes s: "net_only r s"
  shows "pok (publish_msg e a s) (\<lambda>(_, s'). net_only r s')"
  unfolding publish_msg_def
  by (rule pok_bindP [OF prepare_net [OF net_only_upds(5) [OF s]]], rule pok_ifI, simp,
      rule pok_bindP [OF lib_call_net], assumption, simp, rule pok_ifI, simp, rule lib_call_net [OF wait_net]) simp_all

lemma post_message_net: "net_only r s \<Longrightarrow> pok (post_message e m ty s) (\<lambda>(_, s'). net_only r s')"
  by (simp add: post_message_def publish_event_def publish_api_def publish_net)

lemma send_telemetry_net: "net_only r s \<Longrightarrow> pok (send_telemetry e k v ty s) (\<lambda>(_, s'). net_only r s')"
  by (simp add: send_telemetry_def publish_static_def publish_net)

lemma client_init_net: "net_only r s \<Longrightarrow> pok (client_init e s) (net_only r)"
  unfolding client_init_def by (intro pok_bindT) (simp add: net_only_upds)

lemma retry_net:
  "net_only r s \<Longrightarrow> pok (do { (_, t) \<leftarrow> lib_call e (MqttCall MqttAbort) s; Some (snd (wait e t)) }) (net_only r)"
  by (rule pok_bindP [OF lib_call_net]) (auto intro: wait_net)

lemma connect_round_net: "net_only r s \<Longrightarrow> pok (connect_round e s) (net_only r)"
  unfolding connect_round_def Let_def
  by (rule pok_bindI [OF client_init_net], assumption, rule pok_bindP [OF lib_call_net], assumption, simp, rule pok_ifI,
      simp add: net_only_emit, rule pok_bindI [where Q = "net_only r"])
    (auto intro!: pok_ifI retry_net pok_bindP [OF lib_call_net] wait_net net_only_upds simp: prepare_fds_def)

lemma try_to_connect_result:
  assumes "try_to_connect e s = Some s'"
  shows "net_only r s \<longrightarrow> net_only r s' \<and> connected s'"
proof (rule try_to_connect.raw_induct [OF _ assms])
  fix f :: "mqtt_env \<Rightarrow> 'a mqtt_state_scheme \<Rightarrow> 'a mqtt_state_scheme option" and e s s'
  assume IH: "\<And>e s s'. f e s = Some s' \<Longrightarrow> net_only r s \<longrightarrow> net_only r s' \<and> connected s'"
    and body: "(if connected s then Some s else connect_round e s \<bind> f e) = Some s'"
  show "net_only r s \<longrightarrow> net_only r s' \<and> connected s'"
    using body IH connect_round_net [of r s e] by (auto simp: bind_eq_Some_conv split: if_splits)
qed

lemma resolve_net: "net_only r s \<Longrightarrow> net_only r (snd (resolve_loop e h p n rc s))"
  by (induction n arbitrary: rc s) (auto simp: Let_def zsock_freeaddrinfo_def net_only_emit split: prod.splits intro!: net_intros)

lemma addrinfo_net: "net_only r s \<Longrightarrow> pok (get_mqtt_broker_addrinfo e s) (\<lambda>(_, t). net_only r t)"
  unfolding get_mqtt_broker_addrinfo_def
  by (rule pok_ifI, simp, intro pok_bindT) (simp add: resolve_net case_prod_unfold)

lemma subscription_net: "net_only r s \<Longrightarrow> pok (set_subscription_topics e s) (net_only r)"
  unfolding set_subscription_topics_def
  by (rule pok_bindT, rule pok_bindP [where Q = "\<lambda>_ _. True"], simp add: case_prod_unfold, rule pok_ifI, rule pok_bindT)
    (auto intro!: net_intros)

lemma device_cloud_connect_net: "net_only r s \<Longrightarrow> pok (device_cloud_connect e s) (\<lambda>(_, t). net_only r t)"
  unfolding device_cloud_connect_def
proof (rule pok_bindP [OF addrinfo_net], assumption, rule pok_ifI, simp)
  fix rc s1
  assume s1: "net_only r s1"
  have conn: "pok (try_to_connect e s1) (net_only r)"
    using try_to_connect_result [of e s1] s1 by (auto intro!: pokI)
  show "pok (do {
         s2 \<leftarrow> try_to_connect e s1;
         s3 \<leftarrow> set_subscription_topics e s2;
         (rc', s4) \<leftarrow> lib_call e (MqttCall (MqttSubscribe (sub_list s3))) s3;
         if rc' \<noteq> OOB_SUCCESS then Some (OOB_ERR_MQTT_SUBSCRIPTION_ERR, s4)
         else do {
           (_, s5) \<leftarrow> lib_call e (MqttCall MqttInput) (snd (wait e s4));
           Some (OOB_SUCCESS, emit (PingTimer True) (s5\<lparr>ping_timer := True\<rparr>))
         } }) (\<lambda>(_, t). net_only r t)"
    by (rule pok_bindI [OF conn], rule pok_bindI [OF subscription_net], assumption, rule pok_bindP [OF lib_call_net],
        assumption, simp, rule pok_ifI, simp, rule pok_bindP [OF lib_call_net [OF wait_net]], assumption, simp)
      (simp add: net_intros)
qed

lemma cancel_wait_net: "net_only r s \<Longrightarrow> net_only r (k_fifo_cancel_wait s)"
  by (simp add: k_fifo_cancel_wait_def net_only_upds)

lemma device_cloud_abort_net: "net_only r s \<Longrightarrow> pok (device_cloud_abort e s) (\<lambda>(_, t). net_only r t)"
  unfolding device_cloud_abort_def Let_def clear_fds_def
  by (rule pok_bindP [OF lib_call_net], (intro net_intros; simp?), simp, rule pok_ifI) (simp_all add: cancel_wait_net)

lemma device_cloud_init_net: "net_only r s \<Longrightarrow> pok (device_cloud_init e s) (\<lambda>(_, t). net_only r t)"
  unfolding device_cloud_init_def tls_init_def Let_def
  by (auto simp: pok_rules intro!: pokI net_intros)

end
