(* ===== verification/Agent_Inv.thy ===== *)
theory Agent_Inv
  imports Agent_Facts
begin

text \<open>
  The invariant of the out-of-band agent over sequences of operations of its threads, timers and
  notifications, and what a command of the cloud does.
\<close>

section \<open>Frames\<close>

lemma net_only_agent:
  fixes s s' :: "'a agent_state_scheme"
  assumes "net_only s s'"
  shows "oob_sec s' = oob_sec s" "pm_sx_st s' = pm_sx_st s" "pmc_reboot s' = pmc_reboot s"
    "is_thread_termi_set s' = is_thread_termi_set s" "oob_cfg_sem s' = oob_cfg_sem s" "oob_conn_sem s' = oob_conn_sem s"
    "power_timer s' = power_timer s" "tls_timer s' = tls_timer s" "main_pc s' = main_pc s" "cfg_pc s' = cfg_pc s"
    "nw_mgmt_event s' = nw_mgmt_event s"
proof -
  have "mqtt_state.more s' = mqtt_state.more s" using assms by (simp add: net_only_def)
  then show "oob_sec s' = oob_sec s" "pm_sx_st s' = pm_sx_st s" "pmc_reboot s' = pmc_reboot s"
    "is_thread_termi_set s' = is_thread_termi_set s" "oob_cfg_sem s' = oob_cfg_sem s" "oob_conn_sem s' = oob_conn_sem s"
    "power_timer s' = power_timer s" "tls_timer s' = tls_timer s" "main_pc s' = main_pc s" "cfg_pc s' = cfg_pc s"
    "nw_mgmt_event s' = nw_mgmt_event s"
    by (cases s; cases s'; simp)+
qed

lemma send_pmc_frame: "pok (send_pmc_ipc_msg e m s) (\<lambda>(_, _, s'). pmc_state.more s' = pmc_state.more s)"
  unfolding send_pmc_ipc_msg_def Let_def by (simp add: emit_def)

lemma rcv_pmc_frame: "pmc_state.more (snd (snd (rcv_pmc_ipc_msg e m s))) = pmc_state.more s"
  by (simp add: rcv_pmc_ipc_msg_def Let_def emit_def split: prod.splits)

lemma pmc_round_frame: "pok (pmc_msg_thread_round e m s) (\<lambda>(_, _, s'). pmc_state.more s' = pmc_state.more s)"
  unfolding pmc_msg_thread_round_def Let_def
  by (rule pok_bindI [OF send_pmc_frame])
    (auto split: prod.splits if_splits, metis rcv_pmc_frame snd_conv)

lemma pmc_sync_frame: "pok (pmc_sync_send_msg e m s) (\<lambda>(_, _, s'). pmc_state.more s' = pmc_state.more s)"
  unfolding pmc_sync_send_msg_def Let_def
  by (rule pok_optI, simp, rule pok_ifI, simp, rule pok_ifI, simp, rule pok_bindI [OF pmc_round_frame]) auto

lemma pmc_action_frame: "pok (pmc_action e a s) (\<lambda>(_, s'). pmc_state.more s' = pmc_state.more s)"
  unfolding pmc_action_def Let_def
  by (rule pok_bindI [OF pmc_sync_frame], clarify, rule pok_ifI, rule pok_bindI [OF pmc_sync_frame]) auto

lemma pmc_frame_agent:
  fixes s s' :: "'a agent_state_scheme"
  assumes "pmc_state.more s' = pmc_state.more s"
  shows "creds s' = creds s" "cloud_fns s' = cloud_fns s" "msg_bufs_ok s' = msg_bufs_ok s" "pm_sx_st s' = pm_sx_st s"
    "oob_sec s' = oob_sec s" "pmc_reboot s' = pmc_reboot s" "is_thread_termi_set s' = is_thread_termi_set s"
    "oob_cfg_sem s' = oob_cfg_sem s" "power_timer s' = power_timer s" "main_pc s' = main_pc s" "cfg_pc s' = cfg_pc s"
  using assms by (cases s; cases s'; simp add: msg_bufs_ok_def bufs_ok_def)+

section \<open>Messages of the agent\<close>

lemma post_event_net: "net_only r s \<Longrightarrow> pok (post_event e m s) (net_only r)"
  unfolding post_event_def by (rule pok_bindP [OF post_message_net]) simp_all

lemma post_answer_net: "net_only r s \<Longrightarrow> pok (post_answer e it s) (net_only r)"
  unfolding post_answer_def by (rule pok_bindT, rule pok_bindP [OF post_message_net]) simp_all

lemma platform_info_net: "net_only r s \<Longrightarrow> pok (send_platform_info e s) (net_only r)"
  unfolding send_platform_info_def
  by (rule pok_bindI [OF post_event_net], assumption, (rule pok_bindP [OF send_telemetry_net], assumption)+,
      rule post_event_net)

lemma teardown_net: "net_only r s \<Longrightarrow> pok (device_conn_teardown e s) (net_only r)"
  unfolding device_conn_teardown_def by (rule pok_bindP [OF device_cloud_abort_net]) simp_all

lemma recover_net: "net_only r s \<Longrightarrow> pok (device_conn_recover e s) (net_only r)"
  unfolding device_conn_recover_def by (rule pok_bindP [OF device_cloud_init_net]) simp_all

lemma mqtt_state_net: "net_only r s \<Longrightarrow> pok (handle_mqtt_state e s) (net_only r)"
  unfolding handle_mqtt_state_def
  by (rule pok_bindP [OF lib_call_net], assumption, simp, rule pok_bindP [OF lib_call_net], (intro net_only_emit; simp),
      simp, rule pok_ifI, simp, rule pok_bindP [OF device_cloud_abort_net], assumption,
      rule pok_bindP [OF device_cloud_connect_net], assumption) simp

section \<open>Power commands\<close>

text \<open>The specification: which power state a command needs and which action it asks for.\<close>

fun command_spec :: "oob_messages \<Rightarrow> (pm_status \<times> pmc_messages) option" where
  "command_spec REBOOT = Some (ACTIVE_POWER, PMC_ACTION_REBOOT_HOST)"
| "command_spec POWERON = Some (LOW_POWER, PMC_ACTION_POWERON)"
| "command_spec POWEROFF = Some (ACTIVE_POWER, PMC_ACTION_POWEROFF)"
| "command_spec _ = None"

text \<open>The state after the power management controller has accepted it: the timer runs.\<close>

definition armed :: "oob_messages \<Rightarrow> 'a agent_state_scheme \<Rightarrow> 'a agent_state_scheme" where
  "armed m s = (let t = start_power_timer s in if m = REBOOT then t\<lparr>pmc_reboot := True\<rparr> else t)"

definition acted :: "agent_env \<Rightarrow> oob_messages \<Rightarrow> pmc_messages \<Rightarrow> 'a agent_state_scheme \<Rightarrow> 'a agent_state_scheme \<Rightarrow> bool" where
  "acted e m act s s' \<longleftrightarrow>
     (\<exists>s1 r s2. net_only s s1 \<and> pmc_action (mq_pmc (ag_mqtt e)) act s1 = Some (r, s2)
        \<and> net_only (if r = 0 then armed m s2 else s2) s')"

lemma msg_bufs_ok_agent [simp]:
  "msg_bufs_ok (s\<lparr>pmc_reboot := a\<rparr>) = msg_bufs_ok s" "msg_bufs_ok (s\<lparr>power_timer := b\<rparr>) = msg_bufs_ok s"
  "msg_bufs_ok (s\<lparr>main_pc := c\<rparr>) = msg_bufs_ok s" "msg_bufs_ok (s\<lparr>cfg_pc := d\<rparr>) = msg_bufs_ok s"
  "msg_bufs_ok (s\<lparr>oob_conn_sem := f\<rparr>) = msg_bufs_ok s" "msg_bufs_ok (s\<lparr>oob_cfg_sem := g\<rparr>) = msg_bufs_ok s"
  "msg_bufs_ok (s\<lparr>oob_sec := h\<rparr>) = msg_bufs_ok s" "msg_bufs_ok (s\<lparr>is_thread_termi_set := i\<rparr>) = msg_bufs_ok s"
  "msg_bufs_ok (s\<lparr>tls_timer := j\<rparr>) = msg_bufs_ok s" "msg_bufs_ok (s\<lparr>pm_sx_st := k\<rparr>) = msg_bufs_ok s"
  "msg_bufs_ok (s\<lparr>nw_mgmt_event := l\<rparr>) = msg_bufs_ok s" "msg_bufs_ok (s\<lparr>creds := n\<rparr>) = msg_bufs_ok s"
  "msg_bufs_ok (s\<lparr>cloud_fns := p\<rparr>) = msg_bufs_ok s"
  by (simp_all add: msg_bufs_ok_def bufs_ok_def)

lemma armed_bufs [simp]: "msg_bufs_ok (armed m s) = msg_bufs_ok s"
  by (simp add: armed_def start_power_timer_def Let_def)

lemma power_command_acted:
  assumes s: "net_only s s1"
  shows "pok (power_command e act (m = REBOOT) good bad s1) (acted e m act s)"
  unfolding power_command_def Let_def
proof (rule pok_bindI [where Q = "\<lambda>(r, s2). pmc_action (mq_pmc (ag_mqtt e)) act s1 = Some (r, s2)
      \<and> pmc_state.more s2 = pmc_state.more s1"], goal_cases)
  case 1
  show ?case using pmc_action_frame [of "mq_pmc (ag_mqtt e)" act s1] by (auto intro!: pokI)
next
  case (2 x)
  then obtain r s2 where x: "x = (r, s2)" "pmc_action (mq_pmc (ag_mqtt e)) act s1 = Some (r, s2)"
    and f: "pmc_state.more s2 = pmc_state.more s1" by (cases x) auto
  have ok: "msg_bufs_ok s2" using pmc_frame_agent(3) [OF f] net_only_bufs [OF s] by simp
  have posts: "pok (post_event e good (armed m s2)) (net_only (armed m s2))" "pok (post_event e bad s2) (net_only s2)"
    using ok by (auto intro!: post_event_net net_only_refl)
  have actedI: "acted e m act s s'" if "net_only (if r = 0 then armed m s2 else s2) s'" for s'
    using s x(2) that unfolding acted_def by blast
  have "pok (if r = 0 then post_event e good (armed m s2) else post_event e bad s2) (acted e m act s)"
    using posts actedI by (cases "r = 0") (auto elim!: pok_mono)
  then show ?case by (auto simp: x armed_def Let_def)
qed

section \<open>The steps of the agent\<close>

text \<open>What handling an entry may change of the state of the agent.\<close>

definition agent_keep :: "'a agent_state_scheme \<Rightarrow> 'a agent_state_scheme \<Rightarrow> bool" where
  "agent_keep s s' \<longleftrightarrow> creds s' = creds s \<and> main_pc s' = main_pc s \<and> cfg_pc s' = cfg_pc s \<and> oob_cfg_sem s' = oob_cfg_sem s
     \<and> msg_bufs_ok s' \<and> ((pmc_reboot s \<longrightarrow> power_timer s) \<longrightarrow> (pmc_reboot s' \<longrightarrow> power_timer s'))"

lemma agent_keep_refl: "msg_bufs_ok s \<Longrightarrow> agent_keep s s"
  by (simp add: agent_keep_def)

lemma agent_keep_trans: "agent_keep s t \<Longrightarrow> agent_keep t u \<Longrightarrow> agent_keep s u"
  by (simp add: agent_keep_def)

lemma agent_keep_bufs: "agent_keep s t \<Longrightarrow> msg_bufs_ok t"
  by (simp add: agent_keep_def)

lemma net_only_keep: "net_only s t \<Longrightarrow> agent_keep s t"
  using net_only_agent [of s t] net_only_bufs [of s t] by (simp add: agent_keep_def net_only_def)

lemma keep_net: "agent_keep r s \<Longrightarrow> net_only s t \<Longrightarrow> agent_keep r t"
  using agent_keep_trans net_only_keep by blast

lemma pmc_keep: "msg_bufs_ok s \<Longrightarrow> pmc_state.more t = pmc_state.more s \<Longrightarrow> agent_keep s t"
  using pmc_frame_agent [of t s] by (simp add: agent_keep_def)

lemma armed_keep: "msg_bufs_ok s \<Longrightarrow> agent_keep s (armed m s)"
  by (simp add: agent_keep_def armed_def start_power_timer_def emit_def Let_def)

lemma acted_keep:
  assumes "acted e m act s s'" "msg_bufs_ok s"
  shows "agent_keep s s' \<and> is_thread_termi_set s' = is_thread_termi_set s"
proof -
  obtain s1 r s2 where 1: "net_only s s1" and 2: "pmc_action (mq_pmc (ag_mqtt e)) act s1 = Some (r, s2)"
    and 3: "net_only (if r = 0 then armed m s2 else s2) s'" using assms(1) by (auto simp: acted_def)
  have f: "pmc_state.more s2 = pmc_state.more s1" using pmc_action_frame [of "mq_pmc (ag_mqtt e)" act s1] 2 by simp
  have k: "agent_keep s s2"
    using agent_keep_trans [OF net_only_keep [OF 1] pmc_keep [OF net_only_bufs [OF 1] f]] .
  have "agent_keep s s'"
    using agent_keep_trans [OF agent_keep_trans [OF k armed_keep [OF agent_keep_bufs [OF k]]] net_only_keep] keep_net [OF k] 3
    by (cases "r = 0") auto
  moreover have "is_thread_termi_set (armed m s2) = is_thread_termi_set s2"
    by (simp add: armed_def start_power_timer_def emit_def Let_def)
  then have "is_thread_termi_set s' = is_thread_termi_set s"
    using 3 net_only_agent(4) [OF 1] pmc_frame_agent(7) [OF f] by (cases "r = 0") (auto dest: net_only_agent(4))
  ultimately show ?thesis by simp
qed

lemma power_handlers:
  assumes s: "msg_bufs_ok s"
  shows "pok (handle_reboot e it s)
           (\<lambda>s'. if pm_sx_st s = ACTIVE_POWER then acted e REBOOT PMC_ACTION_REBOOT_HOST s s' else net_only s s')" (is ?A)
    and "pok (handle_poweron e it s)
           (\<lambda>s'. if pm_sx_st s = LOW_POWER then acted e POWERON PMC_ACTION_POWERON s s' else net_only s s')" (is ?B)
    and "pok (handle_poweroff e it s)
           (\<lambda>s'. if pm_sx_st s = ACTIVE_POWER then acted e POWEROFF PMC_ACTION_POWEROFF s s' else net_only s s')" (is ?C)
proof -
  have 1: "pok (post_answer e it s) (net_only s)" by (rule post_answer_net [OF net_only_refl [OF s]])
  have two: "pok (post_answer e it s \<bind> (\<lambda>s1. post_event e m s1 \<bind> f)) P"
    if "\<And>s2. net_only s s2 \<Longrightarrow> pok (f s2) P" for m f P
    by (rule pok_bindI [OF 1], rule pok_bindI [OF post_event_net], assumption, rule that)
  show ?A unfolding handle_reboot_def
    by (rule two, rule pok_ifI, rule pok_mono [OF power_command_acted [where m = REBOOT, simplified]], assumption,
        simp add: net_only_agent(2), rule pok_mono [OF post_event_net], assumption) (auto simp: net_only_agent(2))
  show ?B unfolding handle_poweron_def
    by (rule two, rule pok_ifI, rule pok_mono [OF power_command_acted [where m = POWERON, simplified]], assumption,
        simp add: net_only_agent(2), rule pok_mono [OF post_event_net], assumption) (auto simp: net_only_agent(2))
  show ?C unfolding handle_poweroff_def
    by (rule two, rule pok_ifI, rule pok_mono [OF power_command_acted [where m = POWEROFF, simplified]], assumption,
        simp add: net_only_agent(2), rule pok_mono [OF post_event_net], assumption) (auto simp: net_only_agent(2))
qed

text \<open>The same with the flag for the end of the threads.\<close>

definition keep_flag :: "'a agent_state_scheme \<Rightarrow> 'a agent_state_scheme \<Rightarrow> bool" where
  "keep_flag s s' \<longleftrightarrow> agent_keep s s' \<and> is_thread_termi_set s' = is_thread_termi_set s"

lemma keep_flag_refl: "msg_bufs_ok s \<Longrightarrow> keep_flag s s"
  by (simp add: keep_flag_def agent_keep_refl)

lemma keep_flag_net: "keep_flag r s \<Longrightarrow> net_only s t \<Longrightarrow> keep_flag r t"
  using keep_net net_only_agent(4) unfolding keep_flag_def by metis

lemma net_only_flag: "net_only s t \<Longrightarrow> keep_flag s t"
  using net_only_keep [of s t] net_only_agent(4) [of s t] unfolding keep_flag_def by simp

lemma keep_flag_bufs: "keep_flag r s \<Longrightarrow> msg_bufs_ok s"
  by (simp add: keep_flag_def agent_keep_def)

lemma keep_flag_pmc: "keep_flag r s \<Longrightarrow> pmc_state.more t = pmc_state.more s \<Longrightarrow> keep_flag r t"
  using agent_keep_trans [of r s t] pmc_keep [of s t] pmc_frame_agent(7) [of t s] agent_keep_bufs [of r s]
  unfolding keep_flag_def by simp

lemma acted_flag: "acted e m act s s' \<Longrightarrow> msg_bufs_ok s \<Longrightarrow> keep_flag s s'"
  using acted_keep unfolding keep_flag_def by blast

lemma post_event_flag: "keep_flag r s \<Longrightarrow> pok (post_event e m s) (keep_flag r)"
  by (rule pok_mono [OF post_event_net [OF net_only_refl]]) (auto intro: keep_flag_net keep_flag_bufs)

lemma provision_flag:
  assumes "keep_flag r s"
  shows "pok (oob_set_provision_state e v s) (\<lambda>(_, s'). keep_flag r s')"
  unfolding oob_set_provision_state_def in_sec_def
  by (intro pok_bindT) (use assms in \<open>auto simp: keep_flag_def agent_keep_def\<close>)

lemma decommission_keep:
  assumes s: "msg_bufs_ok s"
  shows "pok (handle_decommission e it s)
           (\<lambda>(ex, s'). agent_keep s s' \<and> (is_thread_termi_set s' \<longrightarrow> is_thread_termi_set s \<or> ex))"
  unfolding handle_decommission_def
proof (rule pok_bindI [OF post_answer_net [OF net_only_refl [OF s]]], rule pok_ifI)
  fix s1
  assume "net_only s s1"
  then have s1: "keep_flag s s1" by (rule net_only_flag)
  show "pok (post_event e OOB_DECOMMISSION_IGNORE s1 \<bind> (\<lambda>s2. Some (False, s2)))
      (\<lambda>(ex, s'). agent_keep s s' \<and> (is_thread_termi_set s' \<longrightarrow> is_thread_termi_set s \<or> ex))"
    by (rule pok_bindI [OF post_event_flag [OF s1]]) (simp add: keep_flag_def)
  have reboot: "pok (do {
           (p, s5) \<leftarrow> pmc_action (mq_pmc (ag_mqtt e)) PMC_ACTION_REBOOT_HOST s4;
           if p = 0
           then do { s6 \<leftarrow> post_event e OOB_DECOMMISSION_SUCCESS ((take_sec_sem e s5)\<lparr>is_thread_termi_set := True\<rparr>);
                     Some (True, s6) }
           else do { s6 \<leftarrow> post_event e OOB_DECOMMISSION_FAILED s5; Some (False, s6) } })
      (\<lambda>(ex, s'). agent_keep s s' \<and> (is_thread_termi_set s' \<longrightarrow> is_thread_termi_set s \<or> ex))"
    if s4: "keep_flag s s4" for s4
  proof (rule pok_bindP [OF pmc_action_frame], rule pok_ifI)
    fix p s5
    assume "pmc_state.more s5 = pmc_state.more s4"
    then have s5: "keep_flag s s5" by (rule keep_flag_pmc [OF s4])
    then have t: "agent_keep s ((take_sec_sem e s5)\<lparr>is_thread_termi_set := True\<rparr>)"
      by (simp add: keep_flag_def agent_keep_def take_sec_sem_def)
    show "pok (post_event e OOB_DECOMMISSION_SUCCESS ((take_sec_sem e s5)\<lparr>is_thread_termi_set := True\<rparr>) \<bind> (\<lambda>s6. Some (True, s6)))
        (\<lambda>(ex, s'). agent_keep s s' \<and> (is_thread_termi_set s' \<longrightarrow> is_thread_termi_set s \<or> ex))"
      by (rule pok_bindI [OF post_event_net [OF net_only_refl [OF agent_keep_bufs [OF t]]]]) (auto intro: keep_net [OF t])
    show "pok (post_event e OOB_DECOMMISSION_FAILED s5 \<bind> (\<lambda>s6. Some (False, s6)))
        (\<lambda>(ex, s'). agent_keep s s' \<and> (is_thread_termi_set s' \<longrightarrow> is_thread_termi_set s \<or> ex))"
      by (rule pok_bindI [OF post_event_flag [OF s5]]) (simp add: keep_flag_def)
  qed
  show "pok (do {
         s2 \<leftarrow> post_event e OOB_DECOMMISSION_TRIGGER s1;
         (r, s3) \<leftarrow> oob_set_provision_state e SEC_DECOM s2;
         if r \<noteq> 0 then do { s4 \<leftarrow> post_event e OOB_DECOMMISSION_EN_FAILED s3; Some (False, s4) }
         else do {
           s4 \<leftarrow> post_event e OOB_DECOMMISSION_EN_SUCCESS s3;
           (p, s5) \<leftarrow> pmc_action (mq_pmc (ag_mqtt e)) PMC_ACTION_REBOOT_HOST s4;
           if p = 0
           then do { s6 \<leftarrow> post_event e OOB_DECOMMISSION_SUCCESS ((take_sec_sem e s5)\<lparr>is_thread_termi_set := True\<rparr>);
                     Some (True, s6) }
           else do { s6 \<leftarrow> post_event e OOB_DECOMMISSION_FAILED s5; Some (False, s6) }
         } })
      (\<lambda>(ex, s'). agent_keep s s' \<and> (is_thread_termi_set s' \<longrightarrow> is_thread_termi_set s \<or> ex))"
    by (rule pok_bindI [OF post_event_flag [OF s1]], rule pok_bindP [OF provision_flag], assumption, rule pok_ifI,
        rule pok_bindI [OF post_event_flag], assumption, simp add: keep_flag_def,
        rule pok_bindI [OF post_event_flag], assumption, rule reboot)
qed

lemma handle_item_keep:
  assumes s: "msg_bufs_ok s"
  shows "pok (handle_item e it s)
           (\<lambda>(ex, s'). agent_keep s s' \<and> (is_thread_termi_set s' \<longrightarrow> is_thread_termi_set s \<or> ex))"
proof -
  have mono: "pok m (keep_flag s) \<Longrightarrow> pok (map_option (Pair False) m)
      (\<lambda>(ex, s'). agent_keep s s' \<and> (is_thread_termi_set s' \<longrightarrow> is_thread_termi_set s \<or> ex))" for m
    unfolding pok_map by (erule pok_mono) (simp add: keep_flag_def)
  have net: "pok m (net_only s) \<Longrightarrow> pok m (keep_flag s)" for m
    by (erule pok_mono) (rule net_only_flag)
  note refl = net_only_refl [OF s]
  have "pok (handle_reboot e it s) (keep_flag s)" "pok (handle_poweron e it s) (keep_flag s)"
    "pok (handle_poweroff e it s) (keep_flag s)"
    by (rule pok_mono [OF power_handlers(1) [OF s]] pok_mono [OF power_handlers(2) [OF s]]
        pok_mono [OF power_handlers(3) [OF s]], auto split: if_splits intro: acted_flag net_only_flag s)+
  moreover have "pok (post_answer e it s) (keep_flag s)" "pok (handle_mqtt_state e s) (keep_flag s)"
    "pok (post_event e m s) (keep_flag s)" for m
    by (rule net, rule post_answer_net mqtt_state_net post_event_net, rule refl)+
  moreover have "agent_keep s (give_conn_sem e (s\<lparr>oob_conn_st := x\<rparr>))"
    "is_thread_termi_set (give_conn_sem e (s\<lparr>oob_conn_st := x\<rparr>)) = is_thread_termi_set s" for x
    using s by (simp_all add: agent_keep_def give_conn_sem_def)
  ultimately show ?thesis
    using s by (cases "item_type s it")
      (simp_all add: handle_item_def mono decommission_keep agent_keep_refl)
qed

section \<open>Credentials\<close>

definition creds_len :: "cloud_credentials \<Rightarrow> bool" where
  "creds_len c \<longleftrightarrow> length (cr_cloud_type c) = MAX_ARR_LEN \<and> length (cr_cloud_host c) = MAX_ARR_LEN
     \<and> length (cr_cloud_port c) = MAX_ARR_LEN \<and> length (cr_token c) = MAX_ID_LEN \<and> length (cr_username c) = MAX_ID_LEN
     \<and> length (cr_mqtt_client_id c) = MAX_ID_LEN \<and> length (cr_proxy_url c) = MAX_ARR_LEN
     \<and> length (cr_proxy_port c) = MAX_ARR_LEN \<and> length (cr_trusted_ca c) = MAX_CERT_LEN
     \<and> length (cr_cloud_tls_sni c) = MAX_ARR_LEN"

definition erased :: "cloud_credentials \<Rightarrow> bool" where
  "erased c \<longleftrightarrow> cr_cloud_type c = replicate MAX_ARR_LEN NUL \<and> cr_cloud_host c = replicate MAX_ARR_LEN NUL
     \<and> cr_cloud_port c = replicate MAX_ARR_LEN NUL \<and> cr_token c = replicate MAX_ID_LEN NUL
     \<and> cr_username c = replicate MAX_ID_LEN NUL \<and> cr_mqtt_client_id c = replicate MAX_ID_LEN NUL
     \<and> cr_proxy_url c = replicate MAX_ARR_LEN NUL \<and> cr_proxy_port c = replicate MAX_ARR_LEN NUL
     \<and> cr_trusted_ca c = replicate MAX_CERT_LEN NUL \<and> cr_cloud_tls_sni c = replicate MAX_ARR_LEN NUL"

lemma cred_var_len: "creds_len cred_var"
  by (simp add: creds_len_def cred_var_def)

lemma store_text_len: "pok (store_text m t) (\<lambda>b. length b = length m)"
  unfolding store_text_def by (rule pok_bindI [OF memset_law], rule pok_mono [OF memcpy_law]) simp

lemma stores_len:
  assumes "creds_len c"
  shows "pok (store_cloud_type v c) creds_len" "pok (store_token v c) creds_len" "pok (store_username v c) creds_len"
    "pok (store_client_id v c) creds_len" "pok (store_host v c) creds_len" "pok (store_port w c) creds_len"
    "pok (store_proxy v c) creds_len" "pok (store_root_ca v c) creds_len"
proof -
  show "pok (store_cloud_type v c) creds_len" "pok (store_token v c) creds_len" "pok (store_username v c) creds_len"
    "pok (store_client_id v c) creds_len" "pok (store_host v c) creds_len" "pok (store_port w c) creds_len"
    "pok (store_proxy v c) creds_len"
    unfolding store_cloud_type_def store_token_def store_username_def store_client_id_def store_host_def store_port_def
      store_proxy_def
    by (rule pok_bindI [OF store_text_len], use assms in \<open>auto simp: creds_len_def intro: pok_bindT\<close>)+
  have sni: "pok (case tls_sni (cr_cloud_adapter c) of Some t \<Rightarrow> c_strncpy (cr_cloud_tls_sni c) t MAX_ARR_LEN
      | None \<Rightarrow> Some (cr_cloud_tls_sni c)) (\<lambda>b. length b = length (cr_cloud_tls_sni c))"
    by (auto split: option.splits intro!: pokI dest: length_c_strncpy)
  show "pok (store_root_ca v c) creds_len"
    unfolding store_root_ca_def
    by (rule pok_bindI [OF sni], rule pok_bindI [OF memset_law], rule pok_bindI [OF memcpy_law])
      (use assms in \<open>auto simp: creds_len_def\<close>)
qed

text \<open>What the configuration thread leaves alone while it fetches the credentials.\<close>

definition cfg_keep :: "'a agent_state_scheme \<Rightarrow> 'a agent_state_scheme \<Rightarrow> bool" where
  "cfg_keep s s' \<longleftrightarrow> main_pc s' = main_pc s \<and> pmc_reboot s' = pmc_reboot s \<and> power_timer s' = power_timer s
     \<and> is_thread_termi_set s' = is_thread_termi_set s \<and> msg_bufs_ok s' \<and> (\<forall>c. creds s' = Some c \<longrightarrow> creds_len c)"

lemma in_sec_keep: "cfg_keep r s \<Longrightarrow> pok (in_sec f s) (\<lambda>(_, s'). cfg_keep r s')"
  unfolding in_sec_def by (rule pok_bindT) (auto simp: cfg_keep_def)

lemma fetch_member_keep:
  assumes s: "cfg_keep r s" and store: "\<And>v c. creds_len c \<Longrightarrow> pok (st v c) creds_len"
    and rest: "\<And>t. cfg_keep r t \<Longrightarrow> pok (rest t) (\<lambda>(_, s'). cfg_keep r s')"
  shows "pok (fetch_member get err st rest s) (\<lambda>(_, s'). cfg_keep r s')"
  unfolding fetch_member_def fetch_def
proof (rule pok_bindP [OF in_sec_keep [OF s]], goal_cases)
  case (1 x t)
  show ?case
  proof (cases x)
    case (Inl er)
    with 1 show ?thesis by simp
  next
    case (Inr v)
    show ?thesis
    proof (cases "creds t")
      case None
      with Inr show ?thesis by simp
    next
      case (Some c)
      with 1 have "creds_len c" by (simp add: cfg_keep_def)
      then have "pok (st v c \<bind> (\<lambda>c1. rest (t\<lparr>creds := Some c1\<rparr>))) (\<lambda>(_, s'). cfg_keep r s')"
        by (intro pok_bindI [OF store] rest) (use 1 in \<open>auto simp: cfg_keep_def\<close>)
      with Inr Some show ?thesis by simp
    qed
  qed
qed

lemma proxy_port_keep: "cfg_keep r s \<Longrightarrow> pok (fetch_proxy_port e s) (cfg_keep r)"
  unfolding fetch_proxy_port_def
proof (rule pok_bindP [OF in_sec_keep], assumption, goal_cases)
  case (1 v t)
  show ?case
  proof (cases "creds t")
    case (Some c)
    show ?thesis
      unfolding Some bind.bind_lunit
      by (rule pok_bindI [OF store_text_len]) (use 1 Some in \<open>auto simp: cfg_keep_def creds_len_def\<close>)
  qed simp
qed

lemma populate_keep: "cfg_keep r s \<Longrightarrow> pok (populate_credentials e s) (\<lambda>(_, s'). cfg_keep r s')"
  unfolding populate_credentials_def Let_def
  by (intro fetch_member_keep stores_len pok_bindI [OF proxy_port_keep]; assumption?) simp

section \<open>The invariant\<close>

definition agent_inv :: "'a agent_state_scheme \<Rightarrow> bool" where
  "agent_inv s \<longleftrightarrow> msg_bufs_ok s \<and> (\<forall>c. creds s = Some c \<longrightarrow> creds_len c)
     \<and> (is_thread_termi_set s \<longrightarrow> main_pc s = MEnd OOB_ERR_THREAD_ABORT \<and> (\<exists>c. creds s = Some c \<and> erased c))
     \<and> (main_pc s \<noteq> MBoot \<or> 0 < oob_cfg_sem s \<longrightarrow> cfg_pc s \<noteq> CStart)"

lemma agent_inv_keep: "agent_inv s \<Longrightarrow> keep_flag s s' \<Longrightarrow> agent_inv s'"
  by (auto simp: agent_inv_def keep_flag_def agent_keep_def)

lemma agent_inv_net: "agent_inv s \<Longrightarrow> net_only s s' \<Longrightarrow> agent_inv s'"
  by (erule agent_inv_keep) (rule net_only_flag)

lemma agent_inv_bufs: "agent_inv s \<Longrightarrow> msg_bufs_ok s"
  by (simp add: agent_inv_def)

lemma agent_inv_netI: "agent_inv s \<Longrightarrow> pok m (net_only s) \<Longrightarrow> pok m agent_inv"
  by (erule pok_mono) (rule agent_inv_net)

lemma memset_all: "length b = n \<Longrightarrow> c_memset b n = Some (replicate n NUL)"
  by (simp add: c_memset_def)

lemma release_erases:
  assumes "\<And>c. creds s = Some c \<Longrightarrow> creds_len c"
  shows "pok (oob_release_credentials s) (\<lambda>s'. s' = s\<lparr>creds := creds s'\<rparr> \<and> (\<exists>c. creds s' = Some c \<and> erased c \<and> creds_len c))"
proof (cases "creds s")
  case (Some c)
  then have "creds_len c" using assms by simp
  then show ?thesis
    unfolding oob_release_credentials_def Some bind.bind_lunit
    by (simp add: creds_len_def memset_all erased_def)
qed (simp add: oob_release_credentials_def)

lemma main_boot_inv: "agent_inv s \<Longrightarrow> main_pc s = MBoot \<Longrightarrow> agent_inv (main_boot e s)"
  by (auto simp: main_boot_def agent_inv_def emit_def)

lemma main_connect_inv:
  assumes s: "agent_inv s" and pc: "main_pc s = MConnect"
  shows "pok (main_connect e s) agent_inv"
proof -
  have end_inv: "agent_inv ((stop_tls_timer t)\<lparr>main_pc := MEnd OOB_ERR_THREAD_ABORT\<rparr>)" if "agent_inv t" "main_pc t = MConnect" for t
    using that by (auto simp: agent_inv_def stop_tls_timer_def emit_def)
  have wait_inv: "agent_inv (t\<lparr>main_pc := MWait\<rparr>)" if "agent_inv t" "main_pc t = MConnect" for t
    using that by (auto simp: agent_inv_def)
  note n = net_only_refl [OF agent_inv_bufs [OF s]]
  have pcs: "main_pc t = MConnect" if "net_only s t" for t using net_only_agent(9) [OF that] pc by simp
  show ?thesis
    unfolding main_connect_def
    by (rule pok_ifI, simp, rule agent_inv_net [OF s], (intro net_only_emit n; simp), rule pok_bindP [OF device_cloud_connect_net [OF n]],
        rule pok_ifI, simp, rule end_inv, erule agent_inv_net [OF s], erule pcs, rule pok_bindI [OF platform_info_net], assumption)
      (auto intro: wait_inv agent_inv_net [OF s] pcs)
qed

lemma fifo_get_inv: "agent_inv s \<Longrightarrow> k_fifo_get s = (r, s1) \<Longrightarrow> agent_inv s1 \<and> main_pc s1 = main_pc s"
  by (auto simp: k_fifo_get_def agent_inv_def split: if_splits list.splits)

text \<open>After a round of the loop the flag is set only if the loop is left.\<close>

lemma wait_round_inv:
  assumes s: "agent_inv s" and pc: "main_pc s = MWait"
  shows "pok (wait_round e s) (\<lambda>(r, t). agent_keep s t \<and> (is_thread_termi_set t \<longrightarrow> r = Left))"
proof (cases "connected s")
  case True
  obtain r s1 where g: "k_fifo_get s = (r, s1)" by fastforce
  have f: "agent_keep s s1 \<and> \<not> is_thread_termi_set s1"
    using g s pc by (auto simp: k_fifo_get_def agent_inv_def agent_keep_def split: if_splits list.splits)
  show ?thesis
  proof (cases r)
    case (FifoItem it)
    have "pok (handle_item e it s1 \<bind> (\<lambda>(ex, s2). Some (if ex then Left else Again, s2)))
        (\<lambda>(r, t). agent_keep s t \<and> (is_thread_termi_set t \<longrightarrow> r = Left))"
      by (rule pok_bindP [OF handle_item_keep]) (use f agent_keep_bufs agent_keep_trans in \<open>auto\<close>)
    with True g FifoItem show ?thesis by (simp add: wait_round_def)
  qed (use True g f in \<open>simp_all add: wait_round_def\<close>)
qed (use s pc in \<open>simp add: wait_round_def agent_keep_refl agent_inv_bufs\<close>)

lemma main_wait_inv:
  assumes s: "agent_inv s" and pc: "main_pc s = MWait"
  shows "pok (main_wait e s) agent_inv"
  unfolding main_wait_def
proof (rule pok_bindP [OF wait_round_inv [OF s pc]], goal_cases)
  case (1 r t)
  then have t: "agent_keep s t" and flag: "is_thread_termi_set t \<longrightarrow> r = Left" by auto
  have inv: "agent_inv t" if "\<not> is_thread_termi_set t" using s t that by (auto simp: agent_inv_def agent_keep_def)
  have len: "\<And>c. creds t = Some c \<Longrightarrow> creds_len c" using s t by (simp add: agent_inv_def agent_keep_def)
  have n: "net_only t (emit (KSleep APP_MINI_LOOP_TIME) (emit KYield t))"
    using agent_keep_bufs [OF t] by (intro net_only_emit net_only_refl) simp_all
  have dec: "pok (oob_service_decommission e t)
      (\<lambda>u. agent_keep t (u\<lparr>creds := creds t\<rparr>) \<and> (\<exists>c. creds u = Some c \<and> erased c \<and> creds_len c))"
    unfolding oob_service_decommission_def
  proof (rule pok_bindI [OF teardown_net [OF n]])
    fix u
    assume u: "net_only t u"
    have "\<And>c. creds u = Some c \<Longrightarrow> creds_len c" using u len by (simp add: net_only_def)
    from release_erases [of u, OF this]
    show "pok (oob_release_credentials u \<bind> (\<lambda>s2. Some (give_sec_sem e s2)))
        (\<lambda>u. agent_keep t (u\<lparr>creds := creds t\<rparr>) \<and> (\<exists>c. creds u = Some c \<and> erased c \<and> creds_len c))"
      by (rule pok_bindI) (use net_only_keep [OF u] in \<open>auto simp: agent_keep_def give_sec_sem_def\<close>)
  qed
  show ?case
  proof (rule pok_ifI)
    assume "r \<noteq> Left"
    then show "pok (Some t) agent_inv" using flag inv by auto
  next
    show "pok (if is_thread_termi_set t
        then oob_service_decommission e t \<bind>
          (\<lambda>s2. Some ((give_conn_sem e (stop_tls_timer s2))\<lparr>main_pc := MEnd OOB_ERR_THREAD_ABORT\<rparr>))
        else Some (t\<lparr>main_pc := MConnect\<rparr>)) agent_inv"
    proof (rule pok_ifI)
      show "pok (oob_service_decommission e t \<bind>
          (\<lambda>s2. Some ((give_conn_sem e (stop_tls_timer s2))\<lparr>main_pc := MEnd OOB_ERR_THREAD_ABORT\<rparr>))) agent_inv"
        by (rule pok_bindI [OF dec])
          (use s t pc in \<open>auto simp: agent_inv_def agent_keep_def give_conn_sem_def stop_tls_timer_def emit_def\<close>)
    next
      assume "\<not> is_thread_termi_set t"
      then show "pok (Some (t\<lparr>main_pc := MConnect\<rparr>)) agent_inv"
        using inv s t pc by (auto simp: agent_inv_def agent_keep_def)
    qed
  qed
qed

lemma main_step_inv: "agent_inv s \<Longrightarrow> pok (main_step e s) agent_inv"
  by (cases "main_pc s") (simp_all add: main_step_def main_boot_inv main_connect_inv main_wait_inv)

lemma cfg_keep_net: "cfg_keep r s \<Longrightarrow> net_only s t \<Longrightarrow> cfg_keep r t"
  using net_only_agent [of s t] by (simp add: cfg_keep_def net_only_def)

lemma cfg_keep_refl: "agent_inv s \<Longrightarrow> cfg_keep s s"
  by (simp add: cfg_keep_def agent_inv_def)

lemma cfg_keep_emit [simp]: "cfg_keep r (emit ev s) = cfg_keep r s"
  by (simp add: cfg_keep_def emit_def)

lemma get_credential_keep: "cfg_keep r s \<Longrightarrow> pok (get_oob_credential e s) (\<lambda>(_, t). cfg_keep r t)"
  unfolding get_oob_credential_def
  by (rule pok_bindP [OF in_sec_keep], assumption, rule pok_ifI, simp, rule populate_keep)
    (simp add: cfg_keep_def cred_var_len)

lemma dhcp_loop_keep: "cfg_keep r s \<Longrightarrow> cfg_keep r (snd (dhcp_loop e n s))"
  by (induction n arbitrary: s) auto

lemma iface_loop_keep:
  assumes "iface_loop e s = Some s'"
  shows "cfg_keep r s \<longrightarrow> cfg_keep r s'"
proof (rule iface_loop.raw_induct [OF _ assms])
  fix f :: "agent_env \<Rightarrow> 'a agent_state_scheme \<Rightarrow> 'a agent_state_scheme option" and e s s'
  assume IH: "\<And>e s s'. f e s = Some s' \<Longrightarrow> cfg_keep r s \<longrightarrow> cfg_keep r s'"
    and body: "(if iface_up e (io s) then Some s else f e (emit (KSleep APP_MINI_LOOP_TIME) s)) = Some s'"
  show "cfg_keep r s \<longrightarrow> cfg_keep r s'"
    using body IH [of e "emit (KSleep APP_MINI_LOOP_TIME) s"] by (auto split: if_splits)
qed

lemma nw_iface_keep: "cfg_keep r s \<Longrightarrow> pok (wait_for_nw_iface_ip e s) (\<lambda>(_, t). cfg_keep r t)"
proof -
  assume s: "cfg_keep r s"
  have "pok (iface_loop e s) (cfg_keep r)" using iface_loop_keep s by (auto intro!: pokI)
  moreover have "cfg_keep r (snd (oob_setup_dhcpv4 e t))" if "cfg_keep r t" for t
    unfolding oob_setup_dhcpv4_def using that by (intro dhcp_loop_keep) simp
  ultimately show ?thesis
    unfolding wait_for_nw_iface_ip_def by (intro pok_ifI pok_bindI [where Q = "cfg_keep r"]) (use s in auto)
qed

lemma cfg_start_inv:
  assumes s: "agent_inv s" and pc: "cfg_pc s = CStart"
  shows "pok (cfg_start e s) agent_inv"
proof -
  have fin: "agent_inv (t\<lparr>cfg_pc := x\<rparr>)" if "cfg_keep s t" "x \<noteq> CStart" for t x
    using that s pc by (auto simp: agent_inv_def cfg_keep_def)
  have sem: "agent_inv (t\<lparr>oob_cfg_sem := n, cfg_pc := CLoop\<rparr>)" if "cfg_keep s t" for t n
    using that s pc by (auto simp: agent_inv_def cfg_keep_def)
  have reg: "cfg_keep s (oob_register_sx_notification s)"
    using s by (simp add: cfg_keep_def oob_register_sx_notification_def agent_inv_def emit_def)
  have ad: "pok (initialize_cloud_adapter t) (cfg_keep s)" if "cfg_keep s t" for t
    unfolding initialize_cloud_adapter_def using that by (intro pok_bindT) (simp add: cfg_keep_def)
  have nw: "cfg_keep s (oob_register_nw_mgmt_events t)" if "cfg_keep s t" for t
    using that by (simp add: cfg_keep_def oob_register_nw_mgmt_events_def emit_def)
  have init: "pok (device_cloud_init (ag_mqtt e) t) (\<lambda>(_, u). cfg_keep s u)" if "cfg_keep s t" for t
    using device_cloud_init_net [OF net_only_refl, of t "ag_mqtt e"] that cfg_keep_net [OF that]
    by (auto elim!: pok_mono simp: cfg_keep_def)
  have pm: "cfg_keep s (oob_set_pm_control True t)" if "cfg_keep s t" for t
    using that by (simp add: cfg_keep_def oob_set_pm_control_def emit_def)
  show ?thesis
    unfolding cfg_start_def Let_def
    by (rule pok_ifI, simp add: fin cfg_keep_refl [OF s], rule pok_bindP [OF get_credential_keep [OF reg]], rule pok_ifI,
        simp add: fin, rule pok_bindI [OF ad], assumption, rule pok_bindP [OF nw_iface_keep], assumption, rule pok_ifI,
        simp add: fin, rule pok_bindP [OF init [OF nw]], assumption, rule pok_ifI) (simp_all add: fin sem pm)
qed

lemma cfg_loop_inv:
  assumes s: "agent_inv s" and pc: "cfg_pc s = CLoop"
  shows "pok (cfg_loop e s) agent_inv"
  unfolding cfg_loop_def Let_def
proof (rule pok_ifI, simp add: s, goal_cases)
  case 1
  let ?s1 = "s\<lparr>oob_conn_sem := snd (k_sem_take (sec_kern (ag_sec e)) (oob_conn_sem s) False)\<rparr>"
  have s1: "agent_inv ?s1" using s by (simp add: agent_inv_def)
  have recon: "pok (do { u \<leftarrow> device_conn_teardown e t; device_conn_recover e u }) (\<lambda>u. agent_inv u \<and> cfg_pc u = CLoop)"
    if t: "agent_inv t" "cfg_pc t = CLoop" for t
    by (rule pok_bindI [OF teardown_net [OF net_only_refl [OF agent_inv_bufs [OF t(1)]]]], rule pok_mono [OF recover_net],
        assumption) (use t net_only_agent(10) [of t] in \<open>auto intro: agent_inv_net\<close>)
  have stop: "pok (device_conn_teardown e u) (\<lambda>v. agent_inv v \<and> cfg_pc v = CLoop)" if "agent_inv u" "cfg_pc u = CLoop" for u
    by (rule pok_mono [OF teardown_net [OF net_only_refl [OF agent_inv_bufs [OF that(1)]]]])
      (use that net_only_agent(10) [of u] in \<open>auto intro: agent_inv_net\<close>)
  have "agent_inv (?s1\<lparr>oob_conn_st := NW_MGMT_EVENT_STOP\<rparr>)" using s by (simp add: agent_inv_def)
  note stop' = stop [OF this]
  have last: "agent_inv (if is_thread_termi_set t then t\<lparr>cfg_pc := CEnd\<rparr> else t)" if "agent_inv t" for t
    using that by (auto simp: agent_inv_def)
  show ?case
    by (rule pok_bindI [where Q = "\<lambda>u. agent_inv u \<and> cfg_pc u = CLoop"], rule pok_ifI, (use stop' pc in simp),
        (use s1 pc in simp), rule pok_bindI [where Q = "\<lambda>u. agent_inv u \<and> cfg_pc u = CLoop"], rule pok_ifI,
        (rule recon; simp), simp, unfold pok_Some, rule last, simp)
qed

lemma cfg_step_inv: "agent_inv s \<Longrightarrow> pok (cfg_step e s) agent_inv"
  by (cases "cfg_pc s") (simp_all add: cfg_step_def cfg_start_inv cfg_loop_inv)

lemma fifo_put_inv: "agent_inv s \<Longrightarrow> pok (k_fifo_put e it (s\<lparr>item_type := f\<rparr>)) (\<lambda>t. agent_inv t \<and> pmc_reboot t = pmc_reboot s)"
  by (auto simp: k_fifo_put_def agent_inv_def intro!: pok_bindT)

lemma sx_handler_inv: "agent_inv s \<Longrightarrow> pok (oob_sx_handler e ev s) agent_inv"
proof -
  assume s: "agent_inv s"
  have s1: "agent_inv (case ev of PM_EVENT_HOST_SX_ENTRY \<Rightarrow> s\<lparr>pm_sx_st := LOW_POWER\<rparr>
      | PM_EVENT_HOST_SX_EXIT \<Rightarrow> s\<lparr>pm_sx_st := ACTIVE_POWER, pmc_reboot := False\<rparr> | PM_EVENT_OTHER \<Rightarrow> s)"
    using s by (cases ev) (simp_all add: agent_inv_def)
  show ?thesis
    unfolding oob_sx_handler_def oob_post_sx_state_def Let_def
    by (rule pok_bindI [OF fifo_put_inv [OF s1]]) (auto simp: agent_inv_def emit_def)
qed

lemma l2_handler_inv: "agent_inv s \<Longrightarrow> pok (oob_l2_event_handler e ev s) agent_inv"
  unfolding oob_l2_event_handler_def Let_def
  by (intro pok_ifI pok_mono [OF fifo_put_inv]) (auto simp: agent_inv_def)

lemma agent_exec_inv: "agent_inv s \<Longrightarrow> pok (agent_exec e x s) agent_inv"
  by (cases x) (auto simp: main_step_inv cfg_step_inv sx_handler_inv l2_handler_inv oob_power_trans_expiry_def
      oob_tls_session_expiry_def timer_expiry_pingreq_def k_fifo_alloc_put_def agent_inv_def)

lemma agent_boot_inv: "agent_inv (agent_boot sec)"
  by (simp add: agent_inv_def agent_boot_def msg_bufs_ok_def bufs_ok_def terminated_def BIG_GENERAL_BUF_SIZE_def)

lemma agent_ops_inv: "agent_inv s \<Longrightarrow> pok (agent_ops e xs s) agent_inv"
proof (induction xs arbitrary: s)
  case (Cons x xs)
  then show ?case by (auto intro: pok_bindI [OF agent_exec_inv])
qed simp

end
