(* ===== verification/Agent_Safe.thy ===== *)
theory Agent_Safe
  imports Agent_Inv
begin

text \<open>
  With the ThingsBoard or the Azure adapter the agent is defined on every message that is shorter
  than its buffers: no access outside an array, no null pointer.  (The Telit adapter is not, see
  the properties.)
\<close>

section \<open>Adapters that are defined on every message\<close>

definition adapter_ready :: "'a adapter_state_scheme \<Rightarrow> bool" where
  "adapter_ready s \<longleftrightarrow> bufs_ok s \<and> terminated (tb_payload s) \<and> terminated (az_payload s)
     \<and> (\<exists>c. creds s = Some c \<and> terminated (cr_mqtt_client_id c))"

definition good_topic :: "string \<Rightarrow> nat \<Rightarrow> bool" where
  "good_topic tp j \<longleftrightarrow> terminated tp \<and> j < MAX_MSG_BUF_LEN \<and> j \<le> length tp"

locale safe_adapter = cloud_adapter_ops process pub_topic attrib event
  for process :: "string \<Rightarrow> nat \<Rightarrow> string \<Rightarrow> nat \<Rightarrow> string \<Rightarrow> nat \<Rightarrow> 'a adapter_state_scheme
          \<Rightarrow> (oob_messages \<times> string \<times> 'a adapter_state_scheme) option"
    and pub_topic :: "app_message_type \<Rightarrow> 'a adapter_state_scheme \<Rightarrow> (string \<times> 'a adapter_state_scheme) option"
    and attrib :: "string \<Rightarrow> nat \<Rightarrow> string \<Rightarrow> string \<Rightarrow> 'a adapter_state_scheme \<Rightarrow> string option"
    and event :: "string \<Rightarrow> nat \<Rightarrow> string \<Rightarrow> 'a adapter_state_scheme \<Rightarrow> string option" +
  fixes ready :: "'a adapter_state_scheme \<Rightarrow> bool"
  assumes process_safe: "\<lbrakk>ready s; good_topic tp j; terminated pl; n = length nm; 0 < n; terminated nm\<rbrakk>
            \<Longrightarrow> ok (process pl k tp j nm n s) (\<lambda>(m, nm', s'). ready s')"
    and topic_safe: "ready s \<Longrightarrow> ok (pub_topic ty s) (\<lambda>(t, s'). terminated t \<and> ready s')"
    and attrib_safe: "\<lbrakk>ready s; n = length b; 0 < n; terminated key; terminated val\<rbrakk> \<Longrightarrow> ok (attrib b n key val s) (\<lambda>_. True)"
    and event_safe: "\<lbrakk>ready s; n = length b; 0 < n; terminated msg\<rbrakk> \<Longrightarrow> ok (event b n msg s) (\<lambda>_. True)"
begin

lemma process_total:
  assumes "ready s" "good_topic tp j" "terminated pl" "n = length nm" "0 < n" "terminated nm"
  shows "ok (process pl k tp j nm n s) (\<lambda>r. answer_ok n s r \<and> ready (snd (snd r)))"
  using process_safe [OF assms, of k] process_law [OF assms(4-6), of pl k tp j s] by (auto simp: ok_iff)

lemma topics_total:
  assumes "ready s"
  shows "ok (do { (_, s1) \<leftarrow> pub_topic ty s; pub_topic ty s1 }) (\<lambda>(t, s2). terminated t \<and> ready s2 \<and> only_buffers s s2)"
proof -
  obtain t1 s1 where 1: "pub_topic ty s = Some (t1, s1)" "ready s1"
    using topic_safe [OF assms, of ty] by (auto simp: ok_iff)
  obtain t2 s2 where 2: "pub_topic ty s1 = Some (t2, s2)" "ready s2" "terminated t2"
    using topic_safe [OF 1(2), of ty] by (auto simp: ok_iff)
  have "only_buffers s s2" using topic_law [of ty s] topic_law [of ty s1] 1 2 by (auto intro: only_buffers_trans)
  with 1 2 show ?thesis by simp
qed

end

lemma strstr_cz: "terminated b \<Longrightarrow> \<exists>p. strstr b (cz t) = Some p"
  using strstr_defined [of b "cz t"] by auto

lemma strstr_suffix_terminated: "strstr b p = Some (Some u) \<Longrightarrow> terminated u"
proof -
  assume "strstr b p = Some (Some u)"
  then obtain t q v where t: "cstr b = Some t" and u: "u = drop (length t - length v) b" and v: "find_sub t q = Some v"
    by (auto simp: strstr_def bind_eq_Some_conv)
  obtain r where "b = t @ NUL # r" using cstr_SomeD [OF t] by blast
  moreover have "length v \<le> length t" using find_sub_Some [OF v] by (auto simp: suffix_def)
  ultimately show ?thesis using u by simp
qed

lemma first_command_total: "terminated b \<Longrightarrow> \<exists>c. first_command b l = Some c"
proof (induction b l rule: first_command.induct)
  case (2 b meth m l)
  obtain p where "strstr b (cz meth) = Some p" using strstr_cz [OF 2(2)] by blast
  with 2 show ?case by (cases p) auto
qed simp

lemma copied_topic:
  assumes "length b = MAX_MSG_BUF_LEN" "good_topic tp j"
  shows "\<exists>b1. do { b0 \<leftarrow> c_memset b MAX_MSG_BUF_LEN; c_memcpy b0 tp j } = Some b1 \<and> length b1 = MAX_MSG_BUF_LEN \<and> terminated b1"
  using assms by (auto simp: c_memset_def c_memcpy_def good_topic_def)

lemma ack_topic_total:
  assumes "length b = MAX_MSG_BUF_LEN" "terminated pl"
  shows "ok (thingsboard_prepare_pub_ack_topic pl b MAX_MSG_BUF_LEN) (\<lambda>b'. length b' = MAX_MSG_BUF_LEN \<and> terminated b')"
    and "ok (azure_iot_prepare_pub_ack_topic pl b MAX_MSG_BUF_LEN) (\<lambda>b'. length b' = MAX_MSG_BUF_LEN \<and> terminated b')"
proof -
  have pos: "0 < MAX_MSG_BUF_LEN" by (simp add: MAX_MSG_BUF_LEN_def)
  have z: "c_memset b MAX_MSG_BUF_LEN = Some (replicate MAX_MSG_BUF_LEN NUL)" using assms by (simp add: memset_all)
  have *: "\<exists>v. cstr u = Some v" if "terminated u" for u using that by (auto simp: cstr_def terminated_def)
  show "ok (thingsboard_prepare_pub_ack_topic pl b MAX_MSG_BUF_LEN) (\<lambda>b'. length b' = MAX_MSG_BUF_LEN \<and> terminated b')"
    using strstr_cz [OF assms(2), of THINGSBOARD_REQUEST_ID] pos
    by (auto simp: thingsboard_prepare_pub_ack_topic_def z c_snprintf_ok split: option.splits
        dest!: strstr_suffix_terminated *)
  show "ok (azure_iot_prepare_pub_ack_topic pl b MAX_MSG_BUF_LEN) (\<lambda>b'. length b' = MAX_MSG_BUF_LEN \<and> terminated b')"
    using strstr_cz [OF assms(2), of AZURE_IOT_REQUEST_ID] pos
    by (auto simp: azure_iot_prepare_pub_ack_topic_def z c_snprintf_ok split: option.splits
        dest!: strstr_suffix_terminated *)
qed

lemma thingsboard_process_safe:
  assumes s: "adapter_ready s" and tp: "good_topic tp j" and pl: "terminated pl"
    and n: "n = length nm" "0 < n" "terminated nm"
  shows "ok (thingsboard_process_message pl k tp j nm n s) (\<lambda>(m, nm', s'). adapter_ready s')"
proof -
  obtain b1 where b1: "do { b0 \<leftarrow> c_memset (tb_payload s) MAX_MSG_BUF_LEN; c_memcpy b0 tp j } = Some b1"
    and l: "length b1 = MAX_MSG_BUF_LEN" "terminated b1"
    using copied_topic [OF _ tp] s by (auto simp: adapter_ready_def bufs_ok_def)
  obtain p where p: "strstr tp (cz THINGSBOARD_RPC_REPLY_TOPIC) = Some p" using strstr_cz tp by (auto simp: good_topic_def)
  obtain c where c: "first_command pl THINGSBOARD_COMMANDS = Some c" using first_command_total [OF pl] by blast
  have r: "adapter_ready (s\<lparr>tb_payload := b1\<rparr>)" using s l by (simp add: adapter_ready_def bufs_ok_def)
  have m: "c_memset nm n = Some (replicate n NUL)" using n by (simp add: memset_all)
  show ?thesis
    using b1 tp n r p c m
    by (cases c) (auto simp: thingsboard_process_message_def good_topic_def bind_eq_Some_conv c_snprintf_ok)
qed

lemma azure_process_safe:
  assumes s: "adapter_ready s" and tp: "good_topic tp j" and pl: "terminated pl"
    and n: "n = length nm" "0 < n" "terminated nm"
  shows "ok (azure_iot_process_message pl k tp j nm n s) (\<lambda>(m, nm', s'). adapter_ready s')"
proof -
  obtain b1 where b1: "do { b0 \<leftarrow> c_memset (az_payload s) MAX_MSG_BUF_LEN; c_memcpy b0 tp j } = Some b1"
    and l: "length b1 = MAX_MSG_BUF_LEN" "terminated b1"
    using copied_topic [OF _ tp] s by (auto simp: adapter_ready_def bufs_ok_def)
  have ttp: "terminated tp" using tp by (simp add: good_topic_def)
  obtain p where p: "strstr tp (cz AZURE_IOT_RPC_REPLY_TOPIC) = Some p" using strstr_cz [OF ttp] by blast
  obtain c where c: "first_command tp AZURE_IOT_COMMANDS = Some c" using first_command_total [OF ttp] by blast
  have r: "adapter_ready (s\<lparr>az_payload := b1\<rparr>)" using s l by (simp add: adapter_ready_def bufs_ok_def)
  have m: "c_memset nm n = Some (replicate n NUL)" using n by (simp add: memset_all)
  show ?thesis
    using b1 tp n r p c m
    by (cases c) (auto simp: azure_iot_process_message_def good_topic_def bind_eq_Some_conv c_snprintf_ok)
qed

lemma cstr_total: "terminated u \<Longrightarrow> \<exists>v. cstr u = Some v"
  by (auto simp: cstr_def terminated_def)

lemma thingsboard_topic_safe:
  assumes s: "adapter_ready s"
  shows "ok (thingsboard_get_mqtt_pub_topic ty s) (\<lambda>(t, s'). terminated t \<and> adapter_ready s')"
  using ack_topic_total(1) [of "pub_buf s" "tb_payload s"] s
  by (cases ty) (auto simp: thingsboard_get_mqtt_pub_topic_def adapter_ready_def bufs_ok_def ok_iff)

lemma azure_topic_safe:
  assumes s: "adapter_ready s"
  shows "ok (azure_iot_get_mqtt_pub_topic ty s) (\<lambda>(t, s'). terminated t \<and> adapter_ready s')"
proof -
  obtain c where c: "creds s = Some c" "terminated (cr_mqtt_client_id c)" using s by (auto simp: adapter_ready_def)
  obtain v where v: "cstr (cr_mqtt_client_id c) = Some v" using cstr_total [OF c(2)] by blast
  have tel: "ok (azure_iot_prepare_pub_telem_topic (msg_buffer s) MAX_MSG_BUF_LEN (cr_mqtt_client_id c))
      (\<lambda>b. length b = MAX_MSG_BUF_LEN \<and> terminated b)"
    using s v by (auto simp: azure_iot_prepare_pub_telem_topic_def c_snprintf_ok adapter_ready_def bufs_ok_def MAX_MSG_BUF_LEN_def)
  show ?thesis
    using ack_topic_total(2) [of "msg_buffer s" "az_payload s"] tel c s
    by (cases ty) (auto simp: azure_iot_get_mqtt_pub_topic_def adapter_ready_def bufs_ok_def ok_iff)
qed

lemma prepare_safe:
  assumes "n = length b" "0 < n" "terminated key" "terminated val"
  shows "ok (thingsboard_prepare_attrib_pub_message b n key val s) (\<lambda>_. True)"
    and "ok (azure_iot_prepare_attrib_pub_message b n key val s) (\<lambda>_. True)"
    and "ok (thingsboard_prepare_log_message b n key s) (\<lambda>_. True)"
    and "ok (azure_iot_prepare_log_message b n key s) (\<lambda>_. True)"
  using assms cstr_total [OF assms(3)] cstr_total [OF assms(4)]
  by (auto simp: thingsboard_prepare_attrib_pub_message_def azure_iot_prepare_attrib_pub_message_def
      thingsboard_prepare_log_message_def azure_iot_prepare_log_message_def c_snprintf_ok)

interpretation safe_thingsboard: safe_adapter thingsboard_process_message thingsboard_get_mqtt_pub_topic
  thingsboard_prepare_attrib_pub_message thingsboard_prepare_log_message adapter_ready
  by unfold_locales (rule thingsboard_process_safe thingsboard_topic_safe prepare_safe | assumption)+

interpretation safe_azure: safe_adapter azure_iot_process_message azure_iot_get_mqtt_pub_topic
  azure_iot_prepare_attrib_pub_message azure_iot_prepare_log_message adapter_ready
  by unfold_locales (rule azure_process_safe azure_topic_safe prepare_safe | assumption)+

definition table_ready :: "'a adapter_state_scheme \<Rightarrow> bool" where
  "table_ready s \<longleftrightarrow> adapter_ready s \<and> (cloud_fns s = THINGSBOARD \<or> cloud_fns s = AZURE)"

interpretation safe_cloud: safe_adapter process_message get_mqtt_pub_topic
  prep_static_attrib_pub_msg prep_event_pub_msg table_ready
proof unfold_locales
  fix s :: "'a adapter_state_scheme" and tp pl nm :: string and n j k :: nat
  assume s: "table_ready s" and a: "good_topic tp j" "terminated pl" "n = length nm" "0 < n" "terminated nm"
  have ar: "adapter_ready s" using s by (simp add: table_ready_def)
  have "ok (process_message pl k tp j nm n s) (\<lambda>(m, nm', s'). adapter_ready s')"
    using s thingsboard_process_safe [OF ar a] azure_process_safe [OF ar a] by (auto simp: process_message_def table_ready_def)
  then show "ok (process_message pl k tp j nm n s) (\<lambda>(m, nm', s'). table_ready s')"
    using cloud.process_law [OF a(3-5), of pl k tp j s] s
    by (auto simp: ok_iff table_ready_def answer_ok_def dest!: only_buffersD)
next
  fix s :: "'a adapter_state_scheme" and ty
  assume s: "table_ready s"
  then have ar: "adapter_ready s" by (simp add: table_ready_def)
  have "ok (get_mqtt_pub_topic ty s) (\<lambda>(t, s'). terminated t \<and> adapter_ready s')"
    using s thingsboard_topic_safe [OF ar] azure_topic_safe [OF ar] by (auto simp: get_mqtt_pub_topic_def table_ready_def)
  then show "ok (get_mqtt_pub_topic ty s) (\<lambda>(t, s'). terminated t \<and> table_ready s')"
    using cloud.topic_law [of ty s] s by (auto simp: ok_iff table_ready_def dest!: only_buffersD)
qed (auto simp: table_ready_def prep_static_attrib_pub_msg_def prep_event_pub_msg_def prepare_safe)

section \<open>The client\<close>

text \<open>An entry that does not hold a message of the cloud is not a command.\<close>

definition queue_ok :: "'a mqtt_state_scheme \<Rightarrow> bool" where
  "queue_ok s \<longleftrightarrow> (\<forall>n \<in> set (managability_fifo s). node_item n \<noteq> FMessage \<longrightarrow> item_type s (node_item n) \<notin> cloud_msgs - {IGNORE})"

definition client_ready :: "'a mqtt_state_scheme \<Rightarrow> bool" where
  "client_ready s \<longleftrightarrow> table_ready s \<and> msg_bufs_ok s \<and> queue_ok s"

definition good_evt :: "mqtt_evt \<Rightarrow> bool" where
  "good_evt ev \<longleftrightarrow> ev_payload_len ev < XL_LARGE_BUFFER \<and> (\<forall>c \<in> set (ev_chunks ev). length c \<le> ev_payload_len ev)
     \<and> good_topic (ev_topic ev) (ev_topic_size ev)"

definition good_broker :: "mqtt_env \<Rightarrow> bool" where
  "good_broker e \<longleftrightarrow> (\<forall>l. \<forall>ev \<in> set (mq_events e l). good_evt ev)"

lemma client_ready_upds [simp]:
  "client_ready (s\<lparr>connected := a\<rparr>) = client_ready s" "client_ready (s\<lparr>nfds := b\<rparr>) = client_ready s"
  "client_ready (s\<lparr>pub_param := c\<rparr>) = client_ready s" "client_ready (emit ev s) = client_ready s"
  "client_ready (s\<lparr>oob_conn_st := d\<rparr>) = client_ready s" "client_ready (s\<lparr>fifo_waiting := f\<rparr>) = client_ready s"
  "client_ready (s\<lparr>fifo_null := g\<rparr>) = client_ready s"
  by (simp_all add: client_ready_def table_ready_def adapter_ready_def bufs_ok_def queue_ok_def msg_bufs_ok_def emit_def)

lemma read_payload_total:
  "(\<forall>c \<in> set cs. length c \<le> length b) \<Longrightarrow> \<exists>b'. read_payload cs b = Some b' \<and> length b' = length b"
proof (induction cs arbitrary: b)
  case (Cons a cs)
  then show ?case using Cons.IH [of "a @ drop (length a) b"] by simp
qed simp

lemma receive_safe:
  assumes s: "client_ready s" and pl: "terminated pl" and tp: "good_topic tp j"
  shows "ok (mqtt_process_receive e pl n tp j s) client_ready"
proof -
  let ?nm = "(next_msg s)[BIG_GENERAL_BUF_SIZE - 1 := NUL]"
  have l: "length (next_msg s) = BIG_GENERAL_BUF_SIZE" using s by (simp add: client_ready_def msg_bufs_ok_def)
  have "ok (process_message pl n tp j ?nm BIG_GENERAL_BUF_SIZE s)
      (\<lambda>r. answer_ok BIG_GENERAL_BUF_SIZE s r \<and> table_ready (snd (snd r)))"
    using s pl tp l next_msg_terminated [OF l]
    by (intro safe_cloud.process_total) (simp_all add: client_ready_def BIG_GENERAL_BUF_SIZE_def)
  then obtain m nm s1 where p: "process_message pl n tp j ?nm BIG_GENERAL_BUF_SIZE s = Some (m, nm, s1)"
    and a: "only_buffers s s1" "length nm = BIG_GENERAL_BUF_SIZE" "terminated nm" "table_ready s1"
    by (auto simp: ok_iff answer_ok_def)
  have r: "client_ready (s1\<lparr>next_msg := nm\<rparr>)"
    using s a unfolding client_ready_def table_ready_def adapter_ready_def queue_ok_def msg_bufs_ok_def
    by (auto simp: only_buffers_def bufs_ok_def)
  then have "client_ready (k_fifo_alloc_put e FMessage
      (s1\<lparr>next_msg := nm, item_type := (item_type (s1\<lparr>next_msg := nm\<rparr>))(FMessage := m)\<rparr>))"
    by (auto simp: k_fifo_alloc_put_def client_ready_def table_ready_def adapter_ready_def bufs_ok_def queue_ok_def msg_bufs_ok_def)
  with r show ?thesis using p by (simp add: mqtt_process_receive_def Let_def)
qed

lemma evt_handler_safe:
  assumes s: "client_ready s" and ev: "good_evt ev"
  shows "ok (mqtt_evt_handler e ev s) client_ready"
proof (cases "ev_type ev = MQTT_EVT_PUBLISH \<and> ev_result ev = 0")
  case True
  have "\<forall>c \<in> set (ev_chunks ev). length c \<le> length (replicate XL_LARGE_BUFFER NUL)"
    using ev by (auto simp: good_evt_def)
  then obtain buf where buf: "read_payload (ev_chunks ev) (replicate XL_LARGE_BUFFER NUL) = Some buf"
    "length buf = XL_LARGE_BUFFER" using read_payload_total [of "ev_chunks ev" "replicate XL_LARGE_BUFFER NUL"] by auto
  have t: "terminated (buf[ev_payload_len ev := NUL])"
    using ev buf(2) by (simp add: terminated_def good_evt_def set_update_memI)
  have "good_topic (ev_topic ev) (ev_topic_size ev)" using ev by (simp add: good_evt_def)
  note rs = receive_safe [OF s t this, of e "ev_payload_len ev"]
  show ?thesis
    using True buf ev rs by (auto simp: mqtt_evt_handler_def good_evt_def good_topic_def c_memset_def ok_iff)
qed (use s in \<open>auto simp: mqtt_evt_handler_def clear_fds_def split: mqtt_evt_type.splits\<close>)

lemma run_events_safe: "client_ready s \<Longrightarrow> \<forall>ev \<in> set evs. good_evt ev \<Longrightarrow> ok (run_events e evs s) client_ready"
proof (induction evs arbitrary: s)
  case (Cons ev evs)
  then show ?case using evt_handler_safe [of s ev e] by (auto simp: ok_bind elim!: ok_mono)
qed simp

lemma lib_call_safe: "client_ready s \<Longrightarrow> good_broker e \<Longrightarrow> ok (lib_call e c s) (\<lambda>(_, s'). client_ready s')"
  unfolding lib_call_def Let_def ok_bind
  by (rule ok_mono [OF run_events_safe]) (auto simp: good_broker_def)

fun args_ok :: "pub_args \<Rightarrow> bool" where
  "args_ok (PubStatic k v) \<longleftrightarrow> terminated k \<and> terminated v"
| "args_ok (PubEvent m) \<longleftrightarrow> terminated m"
| "args_ok (PubApi m) \<longleftrightarrow> terminated m"

lemma fill_msg_buf_safe:
  assumes s: "client_ready s" and a: "args_ok a"
  shows "ok (fill_msg_buf a s) (\<lambda>(rc, b). length b = BIG_GENERAL_BUF_SIZE \<and> (rc = OOB_SUCCESS \<longrightarrow> terminated b))"
proof -
  have pos: "0 < BIG_GENERAL_BUF_SIZE" by (simp add: BIG_GENERAL_BUF_SIZE_def)
  have l: "length (msg_buf s) = BIG_GENERAL_BUF_SIZE" and r: "table_ready s"
    using s by (auto simp: client_ready_def msg_bufs_ok_def)
  show ?thesis
  proof (cases a)
    case (PubStatic k v)
    then show ?thesis
      using a l pos safe_cloud.attrib_safe [OF r l [symmetric] pos, of k v]
        cloud.attrib_law [OF pos, of "msg_buf s" k v s] by (auto simp: ok_iff)
  next
    case (PubEvent m)
    then show ?thesis
      using a l pos safe_cloud.event_safe [OF r l [symmetric] pos, of m]
        cloud.event_law [OF pos, of "msg_buf s" m s] by (auto simp: ok_iff)
  next
    case (PubApi m)
    then obtain v where v: "cstr m = Some v" using a cstr_total by auto
    obtain w where "m = v @ NUL # w" using cstr_SomeD [OF v] by blast
    then have "length v + 1 \<le> length m" by simp
    then show ?thesis
      using PubApi v l pos by (auto simp: strlen_def c_memcpy_def OOB_ERR_BUFFER_OVERFLOW_def OOB_SUCCESS_def
          terminated_def set_update_memI not_less)
  qed
qed

lemma prepare_msg_safe:
  assumes s: "client_ready s" and a: "args_ok a"
  shows "ok (prepare_mqtt_pub_msg e a s) (\<lambda>(_, s'). client_ready s')"
proof -
  obtain rc b where f: "fill_msg_buf a s = Some (rc, b)" "length b = BIG_GENERAL_BUF_SIZE" "rc = OOB_SUCCESS \<longrightarrow> terminated b"
    using fill_msg_buf_safe [OF s a] by (auto simp: ok_iff)
  have r: "table_ready (s\<lparr>msg_buf := b\<rparr>)"
    using s by (simp add: client_ready_def table_ready_def adapter_ready_def bufs_ok_def)
  obtain t1 s1 tp s2 where g: "get_mqtt_pub_topic (pub_type a) (s\<lparr>msg_buf := b\<rparr>) = Some (t1, s1)"
    "get_mqtt_pub_topic (pub_type a) s1 = Some (tp, s2)"
    and t: "terminated tp" "table_ready s2" "only_buffers (s\<lparr>msg_buf := b\<rparr>) s2"
    using safe_cloud.topics_total [OF r, of "pub_type a"] by (auto simp: ok_iff bind_eq_Some_conv)
  obtain tt where tt: "cstr tp = Some tt" using cstr_total [OF t(1)] by blast
  have m: "msg_buf s2 = b" using t(3) by (auto simp: only_buffers_def)
  have "client_ready s2"
    using s t f(2) unfolding client_ready_def queue_ok_def msg_bufs_ok_def by (auto simp: only_buffers_def bufs_ok_def)
  then show ?thesis
    using f g tt m s cstr_total [of b] by (auto simp: prepare_mqtt_pub_msg_def Let_def)
qed

lemma publish_safe:
  assumes s: "client_ready s" and a: "args_ok a" and e: "good_broker e"
  shows "ok (publish_msg e a s) (\<lambda>(_, s'). client_ready s')"
proof -
  obtain rc s1 where 1: "prepare_mqtt_pub_msg e a (s\<lparr>pub_param := \<lparr>pp_topic = [], pp_payload = [], pp_message_id = 0\<rparr>\<rparr>) = Some (rc, s1)"
    "client_ready s1" using prepare_msg_safe [OF _ a, of "s\<lparr>pub_param := \<lparr>pp_topic = [], pp_payload = [], pp_message_id = 0\<rparr>\<rparr>" e] s
    by (auto simp: ok_iff)
  obtain rc' s2 where 2: "lib_call e (MqttPublish (pp_topic (pub_param s1)) (pp_payload (pub_param s1))) s1 = Some (rc', s2)"
    "client_ready s2"
    using lib_call_safe [OF 1(2) e, of "MqttPublish (pp_topic (pub_param s1)) (pp_payload (pub_param s1))"] by (auto simp: ok_iff)
  have "client_ready (snd (wait e s2))" using 2 by (simp add: wait_def Let_def)
  from lib_call_safe [OF this e] 1 2 show ?thesis by (auto simp: publish_msg_def ok_iff)
qed

lemma post_event_safe: "client_ready s \<Longrightarrow> good_broker (ag_mqtt e) \<Longrightarrow> ok (post_event e m s) client_ready"
  using publish_safe [of s "PubEvent (cz m)" "ag_mqtt e"]
  by (auto simp: post_event_def post_message_def publish_event_def ok_iff)

lemma post_answer_safe: "client_ready s \<Longrightarrow> good_broker (ag_mqtt e) \<Longrightarrow> ok (post_answer e FMessage s) client_ready"
  using publish_safe [of s "PubApi (next_msg s)" "ag_mqtt e"]
  by (auto simp: post_answer_def item_next_msg_def post_message_def publish_api_def ok_iff client_ready_def msg_bufs_ok_def)

section \<open>The agent\<close>

lemma pmc_sync_short:
  assumes "pm_format m = FORMAT_SHORT \<or> pm_format m = FORMAT_WIRE_GLOBAL_RESET"
  shows "\<exists>r s' m'. pmc_sync_send_msg e (Some m) s = Some (r, Some m', s')"
  using assms by (auto simp: pmc_sync_send_msg_def pmc_msg_thread_round_def send_pmc_ipc_msg_def Let_def pmc_format_defs
      split: prod.splits)

lemma pmc_action_total: "\<exists>r s'. pmc_action e a s = Some (r, s')"
proof -
  let ?m = "(pmc_zero MAX_PECI_MSG_SIZE)\<lparr>pm_client_id := PMC_CLIENT_OOB, pm_format := FORMAT_SHORT,
      pm_u := (pm_u (pmc_zero MAX_PECI_MSG_SIZE))[0 := PMC_CMD, 1 := pmc_action_code a]\<rparr>"
  obtain r s1 m1 where 1: "pmc_sync_send_msg e (Some ?m) s = Some (r, Some m1, s1)"
    using pmc_sync_short [of ?m e s] by auto
  obtain r' s2 m2 where 2: "pmc_sync_send_msg e (Some (m1\<lparr>pm_format := FORMAT_WIRE_GLOBAL_RESET\<rparr>)) s1 = Some (r', Some m2, s2)"
    using pmc_sync_short [of "m1\<lparr>pm_format := FORMAT_WIRE_GLOBAL_RESET\<rparr>" e s1] by auto
  show ?thesis using 1 2 by (auto simp: pmc_action_def Let_def)
qed

definition agent_ready :: "'a agent_state_scheme \<Rightarrow> bool" where
  "agent_ready s \<longleftrightarrow> client_ready s \<and> length (sec_mem (oob_sec s)) = SIZEOF_SEC_WRAPPER"

lemma agent_ready_net: "ok m client_ready \<Longrightarrow> pok m (net_only s) \<Longrightarrow> agent_ready s \<Longrightarrow> ok m agent_ready"
  by (auto simp: ok_iff agent_ready_def dest!: net_only_agent(1))

lemma agent_ready_bufs: "agent_ready s \<Longrightarrow> net_only s s"
  by (simp add: agent_ready_def client_ready_def net_only_refl)

lemma post_event_ready:
  assumes "agent_ready s" "good_broker (ag_mqtt e)"
  shows "ok (post_event e m s) agent_ready"
  using assms post_event_safe [of s e m] post_event_net [OF agent_ready_bufs, of s e m]
  by (intro agent_ready_net [of _ s]) (auto simp: agent_ready_def)

lemma post_answer_ready:
  assumes "agent_ready s" "good_broker (ag_mqtt e)"
  shows "ok (post_answer e FMessage s) agent_ready"
  using assms post_answer_safe [of s e] post_answer_net [OF agent_ready_bufs, of s e FMessage]
  by (intro agent_ready_net [of _ s]) (auto simp: agent_ready_def)

lemma pmc_action_ready:
  fixes s :: "'a agent_state_scheme"
  assumes "agent_ready s"
  shows "ok (pmc_action e a s) (\<lambda>(_, s'). agent_ready s')"
proof -
  obtain r s' where p: "pmc_action e a s = Some (r, s')" using pmc_action_total by blast
  then have "pmc_state.more s' = pmc_state.more s" using pmc_action_frame [of e a s] by simp
  then have "agent_ready s' = agent_ready s"
    by (cases s; cases s'; simp add: agent_ready_def client_ready_def table_ready_def adapter_ready_def bufs_ok_def
        queue_ok_def msg_bufs_ok_def)
  with p assms show ?thesis by simp
qed

lemma oob_sec_emit [simp]: "oob_sec (emit ev s) = oob_sec s"
  by (cases s) (simp add: emit_def)

lemma agent_ready_emit [simp]: "agent_ready (emit ev s) = agent_ready s"
  by (simp add: agent_ready_def)

lemma agent_ready_upds [simp]:
  "agent_ready (s\<lparr>pmc_reboot := a\<rparr>) = agent_ready s" "agent_ready (s\<lparr>power_timer := b\<rparr>) = agent_ready s"
  "agent_ready (s\<lparr>oob_conn_st := c\<rparr>) = agent_ready s"
  "agent_ready (s\<lparr>oob_conn_sem := d\<rparr>) = agent_ready s" "agent_ready (s\<lparr>is_thread_termi_set := f\<rparr>) = agent_ready s"
  "agent_ready (s\<lparr>fifo_waiting := g\<rparr>) = agent_ready s" "agent_ready (s\<lparr>fifo_null := h\<rparr>) = agent_ready s"
  by (simp_all add: agent_ready_def client_ready_def table_ready_def adapter_ready_def bufs_ok_def
      queue_ok_def msg_bufs_ok_def emit_def)

lemma sec_sem_ready [simp]: "agent_ready (take_sec_sem e s) = agent_ready s"
  by (simp add: take_sec_sem_def agent_ready_def client_ready_def table_ready_def adapter_ready_def bufs_ok_def
      queue_ok_def msg_bufs_ok_def)

lemma power_command_ready:
  assumes "agent_ready s" "good_broker (ag_mqtt e)"
  shows "ok (power_command e act b good bad s) agent_ready"
  unfolding power_command_def Let_def ok_bind
  by (rule ok_mono [OF pmc_action_ready [OF assms(1)]])
    (use assms(2) in \<open>auto simp: start_power_timer_def intro!: post_event_ready\<close>)

lemma two_posts_ready:
  assumes "agent_ready s" "good_broker (ag_mqtt e)" "\<And>s2. agent_ready s2 \<Longrightarrow> ok (f s2) P"
  shows "ok (post_answer e FMessage s \<bind> (\<lambda>s1. post_event e m s1 \<bind> f)) P"
  unfolding ok_bind using assms post_event_ready
  by (intro ok_mono [OF post_answer_ready [OF assms(1,2)]] ok_mono [OF post_event_ready]) auto

lemma power_handlers_ready:
  assumes "agent_ready s" "good_broker (ag_mqtt e)"
  shows "ok (handle_reboot e FMessage s) agent_ready" "ok (handle_poweron e FMessage s) agent_ready"
    "ok (handle_poweroff e FMessage s) agent_ready"
  unfolding handle_reboot_def handle_poweron_def handle_poweroff_def
  by (rule two_posts_ready [OF assms], auto intro: power_command_ready post_event_ready assms(2))+

lemma set_prov_state_total:
  assumes "sha_len e" "length (sec_mem t) = SIZEOF_SEC_WRAPPER"
  shows "\<exists>r t'. sec_int_set_prov_state e v t = Some (r, t') \<and> length (sec_mem t') = SIZEOF_SEC_WRAPPER"
  using assms
  by (auto simp: sec_int_set_prov_state_def updated_def sec_int_set_context_param_simple_def sec_int_update_context_hash_def
      sec_write_def Let_def sec_int_lock_ctx_mutex_def sec_int_unlock_ctx_mutex_def sha_len_def SEC_HASH_LEN_def
      SIZEOF_SEC_WRAPPER_def)

lemma provision_ready:
  assumes "agent_ready s" "sha_len (ag_sec e)"
  shows "ok (oob_set_provision_state e v s) (\<lambda>(_, s'). agent_ready s')"
proof -
  obtain r t' where p: "sec_int_set_prov_state (ag_sec e) v ((oob_sec s)\<lparr>io := io s\<rparr>) = Some (r, t')"
    and l: "length (sec_mem t') = SIZEOF_SEC_WRAPPER"
    using set_prov_state_total [OF assms(2), of "(oob_sec s)\<lparr>io := io s\<rparr>" v] assms(1) by (auto simp: agent_ready_def)
  have "client_ready (s\<lparr>oob_sec := t', io := io t'\<rparr>) = client_ready s"
    by (simp add: client_ready_def table_ready_def adapter_ready_def bufs_ok_def queue_ok_def msg_bufs_ok_def)
  moreover have "oob_sec (s\<lparr>oob_sec := t', io := io t'\<rparr>) = t'" by (cases s) simp
  ultimately have "agent_ready (s\<lparr>oob_sec := t', io := io t'\<rparr>)" using assms(1) l by (simp add: agent_ready_def)
  with p show ?thesis by (simp add: oob_set_provision_state_def in_sec_def sec_set_prov_state_def)
qed

lemma decommission_ready:
  assumes s: "agent_ready s" and e: "good_broker (ag_mqtt e)" "sha_len (ag_sec e)"
  shows "ok (handle_decommission e FMessage s) (\<lambda>(_, s'). agent_ready s')"
proof -
  note ev = post_event_ready [OF _ e(1)]
  have last: "ok (do { t \<leftarrow> post_event e m s'; Some (x, t) }) (\<lambda>(_, s'). agent_ready s')" if "agent_ready s'" for m x s'
    unfolding ok_bind by (rule ok_mono [OF ev [OF that]]) simp
  have reboot: "ok (do {
           (p, s5) \<leftarrow> pmc_action (mq_pmc (ag_mqtt e)) PMC_ACTION_REBOOT_HOST s4;
           if p = 0
           then do { s6 \<leftarrow> post_event e OOB_DECOMMISSION_SUCCESS ((take_sec_sem e s5)\<lparr>is_thread_termi_set := True\<rparr>);
                     Some (True, s6) }
           else do { s6 \<leftarrow> post_event e OOB_DECOMMISSION_FAILED s5; Some (False, s6) } }) (\<lambda>(_, s'). agent_ready s')"
    if "agent_ready s4" for s4
    unfolding ok_bind [of "pmc_action _ _ _"] by (rule ok_mono [OF pmc_action_ready [OF that]]) (auto intro!: last)
  have prov: "ok (do {
         (r, s3) \<leftarrow> oob_set_provision_state e SEC_DECOM s2;
         if r \<noteq> 0 then do { s4 \<leftarrow> post_event e OOB_DECOMMISSION_EN_FAILED s3; Some (False, s4) }
         else do {
           s4 \<leftarrow> post_event e OOB_DECOMMISSION_EN_SUCCESS s3;
           (p, s5) \<leftarrow> pmc_action (mq_pmc (ag_mqtt e)) PMC_ACTION_REBOOT_HOST s4;
           if p = 0
           then do { s6 \<leftarrow> post_event e OOB_DECOMMISSION_SUCCESS ((take_sec_sem e s5)\<lparr>is_thread_termi_set := True\<rparr>);
                     Some (True, s6) }
           else do { s6 \<leftarrow> post_event e OOB_DECOMMISSION_FAILED s5; Some (False, s6) }
         } }) (\<lambda>(_, s'). agent_ready s')"
    if "agent_ready s2" for s2
    unfolding ok_bind [of "oob_set_provision_state _ _ _"]
  proof (rule ok_mono [OF provision_ready [OF that e(2)]], clarify, unfold ok_if, intro conjI impI)
    fix r s3
    assume s3: "agent_ready s3"
    show "ok (post_event e OOB_DECOMMISSION_EN_FAILED s3 \<bind> (\<lambda>s4. Some (False, s4))) (\<lambda>(_, s'). agent_ready s')"
      by (rule last [OF s3])
    show "ok (do {
           s4 \<leftarrow> post_event e OOB_DECOMMISSION_EN_SUCCESS s3;
           (p, s5) \<leftarrow> pmc_action (mq_pmc (ag_mqtt e)) PMC_ACTION_REBOOT_HOST s4;
           if p = 0
           then do { s6 \<leftarrow> post_event e OOB_DECOMMISSION_SUCCESS ((take_sec_sem e s5)\<lparr>is_thread_termi_set := True\<rparr>);
                     Some (True, s6) }
           else do { s6 \<leftarrow> post_event e OOB_DECOMMISSION_FAILED s5; Some (False, s6) } }) (\<lambda>(_, s'). agent_ready s')"
      unfolding ok_bind [of "post_event _ _ s3"] by (rule ok_mono [OF ev [OF s3]]) (rule reboot)
  qed
  show ?thesis
    unfolding handle_decommission_def ok_bind [of "post_answer _ _ _"]
    by (rule ok_mono [OF post_answer_ready [OF s e(1)]], unfold ok_if, intro conjI impI last, assumption,
        unfold ok_bind [of "post_event _ OOB_DECOMMISSION_TRIGGER _"], rule ok_mono [OF ev], assumption, rule prov)
qed

lemma handle_item_ready:
  assumes s: "agent_ready s" and e: "good_broker (ag_mqtt e)" "sha_len (ag_sec e)"
    and it: "it \<noteq> FMessage \<longrightarrow> item_type s it \<notin> cloud_msgs - {IGNORE}" and m: "item_type s it \<noteq> MQTT_STATE_CHANGE_EVENT"
  shows "ok (handle_item e it s) (\<lambda>(_, s'). agent_ready s')"
proof -
  have ev: "ok (map_option (Pair False) (post_event e t s)) (\<lambda>(_, s'). agent_ready s')" for t
    using post_event_ready [OF s e(1), of t] by (simp add: ok_map_option)
  show ?thesis
    using it m ev s post_answer_ready [OF s e(1)] power_handlers_ready [OF s e(1)] decommission_ready [OF s e]
    by (cases "item_type s it") (auto simp: handle_item_def cloud_msgs_def ok_map_option give_conn_sem_def)
qed

lemma wait_round_ready:
  assumes s: "agent_ready s" and e: "good_broker (ag_mqtt e)" "sha_len (ag_sec e)"
    and m: "\<forall>n \<in> set (managability_fifo s). item_type s (node_item n) \<noteq> MQTT_STATE_CHANGE_EVENT"
  shows "ok (wait_round e s) (\<lambda>(_, s'). agent_ready s')"
proof (cases "connected s \<and> \<not> fifo_null s \<and> managability_fifo s \<noteq> []")
  case True
  then obtain n ns where q: "managability_fifo s = n # ns" by (cases "managability_fifo s") auto
  let ?s1 = "s\<lparr>managability_fifo := ns, fifo_waiting := False\<rparr>"
  have r: "agent_ready ?s1"
    using s q by (simp add: agent_ready_def client_ready_def table_ready_def adapter_ready_def bufs_ok_def
        queue_ok_def msg_bufs_ok_def)
  have it: "node_item n \<noteq> FMessage \<longrightarrow> item_type ?s1 (node_item n) \<notin> cloud_msgs - {IGNORE}"
    using s q by (simp add: agent_ready_def client_ready_def queue_ok_def)
  have "ok (handle_item e (node_item n) ?s1) (\<lambda>(_, s'). agent_ready s')"
    by (rule handle_item_ready [OF r e it]) (use m q in simp)
  then show ?thesis using True q by (auto simp: wait_round_def k_fifo_get_def ok_iff)
qed (use s in \<open>auto simp: wait_round_def k_fifo_get_def split: list.splits\<close>)

end
