(* ===== verification/Agent_Decommission.thy ===== *)
theory Agent_Decommission
  imports Agent_Safe Oob_Guard
begin

text \<open>
  A decommission command of the cloud from its queue entry to the end of the agent, and what a
  broker does to the agent whose messages exceed the receive buffer.
\<close>

section \<open>Decommissioning\<close>

text \<open>The power management controller takes the messages of the agent.\<close>

definition pmc_takes :: "pmc_env \<Rightarrow> bool" where
  "pmc_takes e \<longleftrightarrow> (\<forall>l. fifo_put_ret e l = 0 \<and> pmc_write_ret e l = 0) \<and> 1 < CONFIG_PMC_MAX_CLIENT e"

lemma pmc_action_taken: "pmc_takes e \<Longrightarrow> \<exists>s'. pmc_action e a s = Some (0, s')"
  by (simp add: pmc_takes_def pmc_action_def pmc_sync_send_msg_def pmc_msg_thread_round_def send_pmc_ipc_msg_def pmc_format_defs
      pmc_zero_def PMC_CLIENT_OOB_def MAX_PECI_MSG_SIZE_def Let_def)

text \<open>The provisioning state that the security service delivers.\<close>

definition provisioned :: "sec_env \<Rightarrow> u32 \<Rightarrow> sec_state \<Rightarrow> bool" where
  "provisioned e v t \<longleftrightarrow> sec_int_get_prov_state e t = Some (SEC_SUCCESS, Some v, t)"

lemma provisioned_upds [simp]:
  "provisioned e v (t\<lparr>sec_hc_oob_sem := n\<rparr>) = provisioned e v t"
  by (auto simp: provisioned_def sec_int_get_prov_state_def verified_def sec_int_get_context_param_simple_def
      sec_int_verify_context_hash_def sec_int_lock_ctx_mutex_def sec_int_unlock_ctx_mutex_def sec_read_def sec_int_def Let_def)

lemma provision_stored:
  assumes "agent_ready s" "sha_len (ag_sec e)" "ctx_ok (ag_sec e) (oob_sec s)"
  shows "ok (oob_set_provision_state e v s) (\<lambda>(r, s'). r = SEC_SUCCESS \<and> agent_ready s' \<and> creds s' = creds s \<and>
     provisioned (ag_sec e) v (oob_sec s'))"
proof -
  let ?t = "(oob_sec s)\<lparr>io := io s\<rparr>"
  have "ctx_ok (ag_sec e) ?t" using assms(3) by (simp add: ctx_ok_def sec_read_def)
  then obtain t' where t': "sec_int_set_prov_state (ag_sec e) v ?t = Some (SEC_SUCCESS, t')" "provisioned (ag_sec e) v t'"
    using prov_state.put_fetch [of "ag_sec e" ?t _ v] assms(2) by (auto simp: provisioned_def elim!: okE)
  have "oob_sec (s\<lparr>oob_sec := t', io := io t'\<rparr>) = t'" "creds (s\<lparr>oob_sec := t', io := io t'\<rparr>) = creds s"
    by (cases s, simp)+
  with t' show ?thesis
    using provision_ready [OF assms(1,2), of v]
    by (simp add: oob_set_provision_state_def in_sec_def sec_set_prov_state_def)
qed

lemma post_event_step:
  assumes "agent_ready s" "good_broker (ag_mqtt e)"
  shows "ok (post_event e m s) (\<lambda>t. agent_ready t \<and> net_only s t)"
  using post_event_ready [OF assms, of m] post_event_net [OF agent_ready_bufs [OF assms(1)], of e m]
  by (auto simp: ok_iff)

lemma post_answer_step:
  assumes "agent_ready s" "good_broker (ag_mqtt e)"
  shows "ok (post_answer e FMessage s) (\<lambda>t. agent_ready t \<and> net_only s t)"
  using post_answer_ready [OF assms] post_answer_net [OF agent_ready_bufs [OF assms(1)], of e FMessage]
  by (auto simp: ok_iff)

lemma oob_sec_io [simp]: "oob_sec (s\<lparr>io := l\<rparr>) = oob_sec s"
  by (cases s) simp

lemma net_only_creds: "net_only s t \<Longrightarrow> creds t = creds s"
  by (simp add: net_only_def)

text \<open>The command in the active power state, with a context that matches its hash.\<close>

lemma decommission_accepted:
  assumes s: "agent_ready s" "pm_sx_st s = ACTIVE_POWER" "ctx_ok (ag_sec e) (oob_sec s)"
    and e: "good_broker (ag_mqtt e)" "sha_len (ag_sec e)" "pmc_takes (mq_pmc (ag_mqtt e))"
  shows "ok (handle_decommission e FMessage s) (\<lambda>(ex, t). ex \<and> agent_ready t \<and> is_thread_termi_set t \<and> creds t = creds s \<and>
     provisioned (ag_sec e) SEC_DECOM (oob_sec t))"
proof -
  obtain s1 where s1: "post_answer e FMessage s = Some s1" "agent_ready s1" "net_only s s1"
    using post_answer_step [OF s(1) e(1)] by (auto elim!: okE)
  obtain s2 where s2: "post_event e OOB_DECOMMISSION_TRIGGER s1 = Some s2" "agent_ready s2" "net_only s1 s2"
    using post_event_step [OF s1(2) e(1)] by (auto elim!: okE)
  have "oob_sec s2 = oob_sec s" using net_only_agent(1) [OF s1(3)] net_only_agent(1) [OF s2(3)] by simp
  then obtain s3 where s3: "oob_set_provision_state e SEC_DECOM s2 = Some (SEC_SUCCESS, s3)" "agent_ready s3"
    "creds s3 = creds s2" "provisioned (ag_sec e) SEC_DECOM (oob_sec s3)"
    using provision_stored [OF s2(2) e(2), of SEC_DECOM] s(3) by (auto elim!: okE)
  obtain s4 where s4: "post_event e OOB_DECOMMISSION_EN_SUCCESS s3 = Some s4" "agent_ready s4" "net_only s3 s4"
    using post_event_step [OF s3(2) e(1)] by (auto elim!: okE)
  obtain s5 where s5: "pmc_action (mq_pmc (ag_mqtt e)) PMC_ACTION_REBOOT_HOST s4 = Some (0, s5)"
    using pmc_action_taken [OF e(3)] by blast
  have r5: "agent_ready s5" using pmc_action_ready [OF s4(2), of "mq_pmc (ag_mqtt e)" PMC_ACTION_REBOOT_HOST] s5 by simp
  have f5: "pmc_state.more s5 = pmc_state.more s4"
    using pmc_action_frame [of "mq_pmc (ag_mqtt e)" PMC_ACTION_REBOOT_HOST s4] s5 by simp
  let ?s = "(take_sec_sem e s5)\<lparr>is_thread_termi_set := True\<rparr>"
  have "oob_sec ?s = (oob_sec s5)\<lparr>sec_hc_oob_sem := sec_hc_oob_sem (oob_sec ?s)\<rparr>" "creds ?s = creds s5"
    by (simp_all add: take_sec_sem_def)
  moreover have "agent_ready ?s" using r5 by simp
  moreover obtain s6 where s6: "post_event e OOB_DECOMMISSION_SUCCESS ?s = Some s6" "agent_ready s6" "net_only ?s s6"
    using post_event_step [OF calculation(3) e(1)] by (auto elim!: okE)
  moreover have "oob_sec s5 = oob_sec s4" "creds s5 = creds s4" using f5 by (cases s4; cases s5; simp)+
  moreover have "oob_sec s4 = oob_sec s3" using net_only_agent(1) [OF s4(3)] .
  ultimately have "provisioned (ag_sec e) SEC_DECOM (oob_sec s6)"
    using s3(4) net_only_agent(1) [OF s6(3)] by (metis provisioned_upds)
  then show ?thesis
    using s s1 s2 s3(1,3) s4 s5 s6 \<open>creds ?s = creds s5\<close> \<open>creds s5 = creds s4\<close> net_only_creds [OF s1(3)] net_only_creds [OF s2(3)]
      net_only_creds [OF s4(3)] net_only_creds [OF s6(3)] net_only_agent(2) [OF s1(3)] net_only_agent(4) [OF s6(3)]
    by (simp add: handle_decommission_def SEC_SUCCESS_def)
qed

lemma teardown_ready:
  assumes "agent_ready s" "good_broker (ag_mqtt e)"
  shows "ok (device_conn_teardown e s) (\<lambda>t. net_only s t)"
proof -
  let ?s = "clear_fds ((emit (PingTimer False) (s\<lparr>ping_timer := False\<rparr>))\<lparr>connected := False\<rparr>)"
  have "client_ready ?s"
    using assms(1) by (simp add: agent_ready_def clear_fds_def client_ready_def table_ready_def adapter_ready_def bufs_ok_def
        queue_ok_def msg_bufs_ok_def emit_def)
  then have "\<exists>t. device_conn_teardown e s = Some t"
    using lib_call_safe [OF _ assms(2), of ?s "MqttCall MqttAbort"]
    by (auto simp: device_conn_teardown_def device_cloud_abort_def ok_iff)
  then show ?thesis using teardown_net [OF agent_ready_bufs [OF assms(1)], of e] by (auto simp: ok_iff)
qed

lemma decommission_erases:
  assumes s: "agent_ready s" "creds s = Some c" "creds_len c" and e: "good_broker (ag_mqtt e)"
  shows "ok (oob_service_decommission e s) (\<lambda>t. (\<exists>c'. creds t = Some c' \<and> erased c') \<and>
     is_thread_termi_set t = is_thread_termi_set s \<and> oob_sec t = (oob_sec s)\<lparr>sec_hc_oob_sem := sec_hc_oob_sem (oob_sec t)\<rparr>)"
proof -
  let ?s = "emit (KSleep APP_MINI_LOOP_TIME) (emit KYield s)"
  have "agent_ready ?s" using s(1) by simp
  then obtain t where t: "device_conn_teardown e ?s = Some t" "net_only ?s t"
    using teardown_ready [of ?s, OF _ e] by (auto elim!: okE)
  have c: "creds t = Some c" "is_thread_termi_set t = is_thread_termi_set s" "oob_sec t = oob_sec s"
    using net_only_creds [OF t(2)] net_only_agent(1,4) [OF t(2)] s(2) by (simp_all add: emit_def)
  then obtain u where u: "oob_release_credentials t = Some u" using s(3)
    unfolding oob_release_credentials_def c bind.bind_lunit by (simp add: creds_len_def memset_all)
  have "u = t\<lparr>creds := creds u\<rparr> \<and> (\<exists>c'. creds u = Some c' \<and> erased c')"
    using release_erases [of t] c s(3) u by auto
  moreover have "is_thread_termi_set (t\<lparr>creds := x\<rparr>) = is_thread_termi_set t" "oob_sec (t\<lparr>creds := x\<rparr>) = oob_sec t" for x
    by (cases t, simp)+
  ultimately show ?thesis
    using t u c by (auto simp: oob_service_decommission_def give_sec_sem_def)
qed

text \<open>The round of the main thread that takes the entry of a decommission command.\<close>

definition decommission_next :: "'a agent_state_scheme \<Rightarrow> bool" where
  "decommission_next s \<longleftrightarrow> main_pc s = MWait \<and> connected s \<and> \<not> fifo_null s \<and> pm_sx_st s = ACTIVE_POWER \<and>
     (\<exists>n ns. managability_fifo s = n # ns \<and> node_item n = FMessage) \<and> item_type s FMessage = DECOMMISSION"

lemma main_step_decommission:
  assumes s: "agent_ready s" "creds s = Some c" "creds_len c" "ctx_ok (ag_sec e) (oob_sec s)" "decommission_next s"
    and e: "good_broker (ag_mqtt e)" "sha_len (ag_sec e)" "pmc_takes (mq_pmc (ag_mqtt e))"
  shows "ok (main_step e s) (\<lambda>t. main_pc t = MEnd OOB_ERR_THREAD_ABORT \<and> is_thread_termi_set t \<and>
     (\<exists>c'. creds t = Some c' \<and> erased c') \<and> provisioned (ag_sec e) SEC_DECOM (oob_sec t))"
proof -
  obtain n ns where q: "managability_fifo s = n # ns" "node_item n = FMessage"
    and d: "main_pc s = MWait" "connected s" "\<not> fifo_null s" "pm_sx_st s = ACTIVE_POWER" "item_type s FMessage = DECOMMISSION"
    using s(5) by (auto simp: decommission_next_def)
  let ?s1 = "s\<lparr>managability_fifo := ns, fifo_waiting := False\<rparr>"
  have r: "agent_ready ?s1"
    using s(1) q by (simp add: agent_ready_def client_ready_def table_ready_def adapter_ready_def bufs_ok_def
        queue_ok_def msg_bufs_ok_def)
  have v: "pm_sx_st ?s1 = ACTIVE_POWER" "oob_sec ?s1 = oob_sec s" "creds ?s1 = creds s" "item_type ?s1 FMessage = DECOMMISSION"
    using d by (cases s, simp)+
  obtain t where t: "handle_decommission e FMessage ?s1 = Some (True, t)" "agent_ready t" "is_thread_termi_set t" "creds t = Some c"
    "provisioned (ag_sec e) SEC_DECOM (oob_sec t)"
    using decommission_accepted [OF r v(1) _ e] s(2,4) v by (auto elim!: okE)
  then have w: "wait_round e s = Some (Left, t)"
    using q d v by (simp add: wait_round_def k_fifo_get_def handle_item_def)
  obtain u where u: "oob_service_decommission e t = Some u" "\<exists>c'. creds u = Some c' \<and> erased c'"
    "is_thread_termi_set u" "oob_sec u = (oob_sec t)\<lparr>sec_hc_oob_sem := sec_hc_oob_sem (oob_sec u)\<rparr>"
    using decommission_erases [OF t(2,4) s(3) e(1)] t(3) by (auto elim!: okE)
  have "provisioned (ag_sec e) SEC_DECOM (oob_sec u)" by (subst u(4)) (simp add: t(5))
  with u show ?thesis
    using d w t(3) by (auto simp: main_step_def main_wait_def give_conn_sem_def stop_tls_timer_def emit_def)
qed

section \<open>Messages beyond the buffer\<close>

text \<open>The broker answers every publication with a message whose payload has the size of the buffer or more.\<close>

definition oversized_broker :: "mqtt_env \<Rightarrow> bool" where
  "oversized_broker e \<longleftrightarrow> (\<forall>l t p. \<exists>ev evs. mq_events e (l @ [MqttPublish t p]) = ev # evs \<and>
     ev_type ev = MQTT_EVT_PUBLISH \<and> ev_result ev = 0 \<and> XL_LARGE_BUFFER \<le> ev_payload_len ev)"

lemma oversized_event: "ev_type ev = MQTT_EVT_PUBLISH \<Longrightarrow> ev_result ev = 0 \<Longrightarrow> XL_LARGE_BUFFER \<le> ev_payload_len ev
   \<Longrightarrow> mqtt_evt_handler e ev s = None"
  by (cases "read_payload (ev_chunks ev) (replicate XL_LARGE_BUFFER NUL)") (simp_all add: mqtt_evt_handler_def)

lemma takeWhile_shorter: "NUL \<in> set b \<Longrightarrow> length (takeWhile (\<lambda>c. c \<noteq> NUL) b) < length b"
  by (induction b) auto

lemma oversized_answer:
  assumes s: "client_ready s" and e: "oversized_broker (ag_mqtt e)"
  shows "post_answer e FMessage s = None"
proof -
  let ?s = "s\<lparr>pub_param := \<lparr>pp_topic = [], pp_payload = [], pp_message_id = 0\<rparr>\<rparr>"
  have m: "length (next_msg s) = BIG_GENERAL_BUF_SIZE" "terminated (next_msg s)"
    using s by (simp_all add: client_ready_def msg_bufs_ok_def)
  obtain t where t: "cstr (next_msg s) = Some t" using cstr_total [OF m(2)] by blast
  have "length t < BIG_GENERAL_BUF_SIZE"
    using t m takeWhile_shorter [of "next_msg s"] by (auto simp: cstr_def terminated_def)
  then have f: "\<exists>b. fill_msg_buf (PubApi (next_msg s)) ?s = Some (OOB_SUCCESS, b)"
    using t m s by (simp add: strlen_def c_memcpy_def client_ready_def msg_bufs_ok_def)
  obtain rc s1 where p: "prepare_mqtt_pub_msg (ag_mqtt e) (PubApi (next_msg s)) ?s = Some (rc, s1)"
    using prepare_msg_safe [of ?s "PubApi (next_msg s)" "ag_mqtt e"] s m by (auto simp: ok_iff)
  with f have rc: "rc = OOB_SUCCESS"
    by (auto simp: prepare_mqtt_pub_msg_def bind_eq_Some_conv Let_def)
  have "lib_call (ag_mqtt e) (MqttPublish (pp_topic (pub_param s1)) (pp_payload (pub_param s1))) s1 = None"
  proof -
    let ?c = "MqttPublish (pp_topic (pub_param s1)) (pp_payload (pub_param s1))"
    obtain ev evs where "mq_events (ag_mqtt e) (io (emit ?c s1)) = ev # evs"
      "ev_type ev = MQTT_EVT_PUBLISH" "ev_result ev = 0" "XL_LARGE_BUFFER \<le> ev_payload_len ev"
      using e unfolding oversized_broker_def io_emit by blast
    then show ?thesis by (simp add: lib_call_def oversized_event)
  qed
  with p rc show ?thesis
    by (simp add: post_answer_def item_next_msg_def post_message_def publish_api_def publish_msg_def)
qed

end
