(* ===== verification/Agent_Samples.thy ===== *)
theory Agent_Samples
  imports Agent_Decommission Oob_Samples Driver_Samples
begin

text \<open>Concrete states of the out-of-band agent for the witnesses: a cloud that accepts everything.\<close>

definition sample_mqtt_env :: mqtt_env where
  "sample_mqtt_env = \<lparr>mq_pmc = sample_pmc True, mq_ret = (\<lambda>_. 0), mq_events = (\<lambda>_. []), poll_ret = (\<lambda>_. 0),
     getaddrinfo = (\<lambda>_. (0, 0x0A000001)), freed_addr = (\<lambda>_. 0xDEADBEEF), rand32 = (\<lambda>_. 4), tls_add_ret = (\<lambda>_. 0),
     fifo_alloc_ret = (\<lambda>_. 0), fifo_relink = (\<lambda>_. Some)\<rparr>"

definition sample_agent_env :: agent_env where
  "sample_agent_env = \<lparr>ag_mqtt = sample_mqtt_env, ag_sec = sample_sec_env, bios_ipc_timeout = 60000, oob_enabled = True,
     default_iface = True, iface_up = (\<lambda>_. True), dhcp_bound = (\<lambda>_. True), config_arch = ''arm'', config_board = ''ehl'',
     config_kernel_bin_name = ''zephyr''\<rparr>"

lemma sample_agent_env_simps [simp]:
  "ag_mqtt sample_agent_env = sample_mqtt_env" "ag_sec sample_agent_env = sample_sec_env"
  "mq_pmc sample_mqtt_env = sample_pmc True" "mq_events sample_mqtt_env l = []" "mq_ret sample_mqtt_env l = 0"
  "fifo_alloc_ret sample_mqtt_env l = 0" "good_broker sample_mqtt_env"
  by (simp_all add: sample_agent_env_def sample_mqtt_env_def good_broker_def)

text \<open>An agent that waits for events, with an adapter and a queue of entries.\<close>

definition sample_agent :: "cloud_adapter \<Rightarrow> fifo_node list \<Rightarrow> oob_messages \<Rightarrow> agent_state" where
  "sample_agent a q m = (agent_boot sample_sec)\<lparr>creds := Some cred_var, cloud_fns := a, connected := True, nfds := 1,
     managability_fifo := q, item_type := (\<lambda>_. m), main_pc := MWait, cfg_pc := CLoop\<rparr>"

lemma sample_agent_fields [simp]:
  "creds (sample_agent a q m) = Some cred_var" "cloud_fns (sample_agent a q m) = a" "connected (sample_agent a q m)"
  "managability_fifo (sample_agent a q m) = q" "item_type (sample_agent a q m) it = m" "io (sample_agent a q m) = []"
  "pm_sx_st (sample_agent a q m) = ACTIVE_POWER" "next_msg (sample_agent a q m) = replicate BIG_GENERAL_BUF_SIZE NUL"
  "tb_payload (sample_agent a q m) = replicate MAX_MSG_BUF_LEN NUL" "az_payload (sample_agent a q m) = replicate MAX_MSG_BUF_LEN NUL"
  "msg_buffer (sample_agent a q m) = replicate MAX_MSG_BUF_LEN NUL" "pub_buf (sample_agent a q m) = replicate MAX_MSG_BUF_LEN NUL"
  by (simp_all add: sample_agent_def agent_boot_def)

lemma sample_agent_bufs [simp]: "msg_bufs_ok (sample_agent a q m)"
  by (simp add: msg_bufs_ok_def bufs_ok_def sample_agent_def agent_boot_def BIG_GENERAL_BUF_SIZE_def)

lemma sample_agent_ready:
  "a = THINGSBOARD \<or> a = AZURE \<Longrightarrow> list_all (\<lambda>n. node_item n = FMessage) q \<Longrightarrow> agent_ready (sample_agent a q m)"
  by (auto simp: agent_ready_def client_ready_def table_ready_def adapter_ready_def bufs_ok_def queue_ok_def list_all_iff
      sample_agent_def agent_boot_def cred_var_def MAX_MSG_BUF_LEN_def MAX_ID_LEN_def msg_bufs_ok_def BIG_GENERAL_BUF_SIZE_def
      SIZEOF_SEC_WRAPPER_def)

text \<open>The same agent with a broker whose messages exceed the receive buffer.\<close>

definition oversized_env :: agent_env where
  "oversized_env = sample_agent_env\<lparr>ag_mqtt := sample_mqtt_env\<lparr>mq_events := (\<lambda>_. [\<lparr>ev_type = MQTT_EVT_PUBLISH, ev_result = 0,
     ev_message_id = 1, ev_payload_len = 1024, ev_chunks = [replicate 1024 CHR ''x''], ev_topic = cz ''t'', ev_topic_size = 1\<rparr>])\<rparr>\<rparr>"

lemma oversized_env_broker: "oversized_broker (ag_mqtt oversized_env)"
  by (simp add: oversized_env_def oversized_broker_def XL_LARGE_BUFFER_def)

lemma sample_agent_decommission:
  "creds_len cred_var" "ctx_ok sample_sec_env (oob_sec (sample_agent a q DECOMMISSION))"
  "decommission_next (sample_agent a [Alloc FMessage] DECOMMISSION)" "pmc_takes (sample_pmc b)"
  "agent_inv (sample_agent a q m)"
  using sample_sec_ok sample_agent_bufs [of a q m] cred_var_len
  by (simp_all add: sample_agent_def agent_boot_def decommission_next_def pmc_takes_def sample_pmc_def agent_inv_def)

end
