(* ===== verification/Agent_Properties.thy ===== *)
theory Agent_Properties
  imports Agent_Samples
begin

text \<open>Properties of the out-of-band agent, its MQTT client and the cloud adapters.\<close>

section \<open>Lemmas\<close>

lemma strncmp_prefix:
  "NUL \<notin> set t \<Longrightarrow> NUL \<notin> set u \<Longrightarrow> strncmp_eq (t @ NUL # r) (cz u) (length t) = Some (prefix t u)"
proof (induction t arbitrary: u)
  case (Cons x t)
  then show ?case by (cases u) (auto simp: cz_def)
qed simp

lemma find_sub_absent: "c \<notin> set t \<Longrightarrow> find_sub t (c # p) = None"
  by (induction t) auto

lemma strstr_text:
  assumes "NUL \<notin> set t" "NUL \<notin> set p"
  shows "strstr (t @ NUL # r) (cz p) = Some (map_option (\<lambda>u. u @ NUL # r) (find_sub t p))"
proof -
  have "drop (length t - length u) (t @ NUL # r) = u @ NUL # r" if "find_sub t p = Some u" for u
    using find_sub_Some [OF that] by (auto simp: suffix_def)
  then show ?thesis using assms by (cases "find_sub t p") (simp_all add: strstr_def)
qed

section \<open>Credentials\<close>

text \<open>C39. \<^verbatim>\<open>extract_adapter\<close> compares only as many characters as the stored cloud type has: every prefix of an adapter
  name selects that adapter, the empty type selects Telit, and the names are tried in a fixed order.\<close>

theorem extract_adapter_prefix:
  assumes "NUL \<notin> set t"
  shows "extract_adapter (t @ NUL # r) =
    Some (if prefix t ''Telit'' then TELIT else if prefix t ''ThingsBoard'' then THINGSBOARD
          else if prefix t ''Azure'' then AZURE else NOADAPTER)"
proof -
  have "NUL \<notin> set ''Telit''" "NUL \<notin> set ''ThingsBoard''" "NUL \<notin> set ''Azure''" by (simp_all add: NUL_def)
  note cmp = strncmp_prefix [OF assms this(1), of r] strncmp_prefix [OF assms this(2), of r] strncmp_prefix [OF assms this(3), of r]
  show ?thesis using assms by (simp add: extract_adapter_def strlen_def cmp)
qed

theorem extract_adapter_prefix_witness:
  "extract_adapter (cz ''Th'') = Some THINGSBOARD \<and> extract_adapter (cz []) = Some TELIT"
  using extract_adapter_prefix [of "''Th''" "[]"] extract_adapter_prefix [of "[]" "[]"] by (simp add: cz_def NUL_def)

section \<open>The agent\<close>

text \<open>C33. Invariant of the agent over sequences of operations: rounds of its two threads, expiries of its timers and
  notifications of sleep states and of the network, in any order, each run to its end without undefined behaviour before
  the next one starts (interruptions inside an operation are not part of the model).  The invariant holds after loading.
  In every state it gives: once the agent has been decommissioned its main thread has ended and every credential is
  erased, and the buffer of the answer to the cloud has its size and its terminating null character.\<close>

theorem agent_reachable:
  "agent_inv (agent_boot sec) \<and>
   (agent_inv s \<and> agent_ops e ops s = Some s' \<longrightarrow> agent_inv s'
      \<and> (is_thread_termi_set s' \<longrightarrow> main_pc s' = MEnd OOB_ERR_THREAD_ABORT \<and> (\<exists>c. creds s' = Some c \<and> erased c))
      \<and> length (next_msg s') = BIG_GENERAL_BUF_SIZE \<and> terminated (next_msg s'))"
  using agent_ops_inv [of s e ops] agent_boot_inv by (auto simp: agent_inv_def msg_bufs_ok_def)

text \<open>A run that handles a decommission command and then a sleep notification and an expiry.\<close>

theorem agent_reachable_witness:
  "\<exists>s'. agent_ops sample_agent_env [MainThread, SxNotify PM_EVENT_HOST_SX_ENTRY, PowerTimerExpires]
       (sample_agent AZURE [Alloc FMessage] DECOMMISSION) = Some s'
     \<and> is_thread_termi_set s' \<and> (\<exists>c. creds s' = Some c \<and> erased c)"
proof -
  let ?s = "sample_agent AZURE [Alloc FMessage] DECOMMISSION"
  let ?ops = "[MainThread, SxNotify PM_EVENT_HOST_SX_ENTRY, PowerTimerExpires]"
  obtain t where t: "main_step sample_agent_env ?s = Some t" "is_thread_termi_set t"
    using main_step_decommission [of ?s cred_var sample_agent_env] sample_agent_ready [of AZURE "[Alloc FMessage]" DECOMMISSION]
      sample_agent_decommission by (auto elim!: okE)
  have "\<exists>s'. agent_ops sample_agent_env [SxNotify PM_EVENT_HOST_SX_ENTRY, PowerTimerExpires] t = Some s' \<and> is_thread_termi_set s'"
    using t(2) by (simp add: oob_sx_handler_def oob_post_sx_state_def k_fifo_put_def oob_power_trans_expiry_def k_fifo_alloc_put_def
        sample_mqtt_env_def emit_def Let_def)
  then obtain s' where "agent_ops sample_agent_env ?ops ?s = Some s'" "is_thread_termi_set s'" using t by auto
  with agent_reachable [of sample_sec ?s sample_agent_env ?ops s'] sample_agent_decommission(5) show ?thesis by blast
qed



text \<open>C34. Commands of the cloud refine the table \<open>command_spec\<close>: a reboot and switching off need the active power state,
  switching on needs the low power state.  In the right state the agent asks the power management controller for exactly
  that action and, if it is accepted, starts the timer (and marks the reboot as pending); in the wrong state it only
  talks to the cloud.  Decommissioning in the low power state only talks to the cloud and does not end the agent.\<close>

theorem commands_refine:
  assumes s: "msg_bufs_ok s" and h: "handle_item e it s = Some (ex, s')"
  shows "(\<forall>st act. command_spec (item_type s it) = Some (st, act) \<longrightarrow>
            \<not> ex \<and> (if pm_sx_st s = st then acted e (item_type s it) act s s' else net_only s s'))
    \<and> (item_type s it = DECOMMISSION \<and> pm_sx_st s = LOW_POWER \<longrightarrow> \<not> ex \<and> net_only s s')"
proof -
  have dec: "pok (handle_decommission e it s) (\<lambda>(ex, s'). pm_sx_st s = LOW_POWER \<longrightarrow> \<not> ex \<and> net_only s s')"
    unfolding handle_decommission_def
    by (rule pok_bindI [OF post_answer_net [OF net_only_refl [OF s]]], rule pok_ifI, rule pok_bindI [OF post_event_net], assumption)
      (auto intro!: pokI dest: net_only_agent(2))
  show ?thesis
    using h power_handlers [OF s, of e it] dec
    by (cases "item_type s it") (auto simp: handle_item_def split: if_splits)
qed

theorem commands_refine_witness:
  "\<exists>ex s'. handle_item sample_agent_env FMessage (sample_agent THINGSBOARD [] REBOOT) = Some (ex, s') \<and> \<not> ex
     \<and> acted sample_agent_env REBOOT PMC_ACTION_REBOOT_HOST (sample_agent THINGSBOARD [] REBOOT) s'"
proof -
  obtain ex s' where h: "handle_item sample_agent_env FMessage (sample_agent THINGSBOARD [] REBOOT) = Some (ex, s')"
    using handle_item_ready [OF sample_agent_ready [of THINGSBOARD "[]" REBOOT], of sample_agent_env FMessage]
    by (auto simp: ok_iff)
  show ?thesis using commands_refine [OF sample_agent_bufs h] h by auto
qed

text \<open>C35. With the ThingsBoard or the Azure adapter (not Telit, which can read beyond its buffers), a broker all of whose messages
  have a payload shorter than 1024 bytes and a terminated topic shorter than 64, and no keep-alive entry in the queue (its
  handling may reconnect for ever), a round of the event loop of the agent is defined: no access outside an array, no
  null pointer, and the state stays ready for the next round.\<close>

theorem agent_round_defined:
  assumes "agent_ready s" "good_broker (ag_mqtt e)" "sha_len (ag_sec e)"
    and "\<forall>n \<in> set (managability_fifo s). item_type s (node_item n) \<noteq> MQTT_STATE_CHANGE_EVENT"
  shows "\<exists>r s'. wait_round e s = Some (r, s') \<and> agent_ready s'"
  using wait_round_ready [OF assms] by (auto simp: ok_iff)

theorem agent_round_defined_witness:
  "\<exists>r s'. wait_round sample_agent_env (sample_agent AZURE [Alloc FMessage] DECOMMISSION) = Some (r, s') \<and> agent_ready s'"
  by (rule agent_round_defined) (simp_all add: sample_agent_ready)



section \<open>The queue\<close>

text \<open>C37. All messages of the cloud share one queue entry.  When a second command arrives before the first has been
  handled, the queue holds the entry twice, with the type and the answer of the second: the first command is lost and the
  second is carried out twice.\<close>

theorem second_command_replaces_first:
  assumes "mqtt_process_receive e pl1 n1 tp1 j1 s = Some s1" "mqtt_process_receive e pl2 n2 tp2 j2 s1 = Some s2"
    and "process_message pl1 n1 tp1 j1 ((next_msg s)[BIG_GENERAL_BUF_SIZE - 1 := NUL]) BIG_GENERAL_BUF_SIZE s = Some (m1, nm1, t1)"
    and "process_message pl2 n2 tp2 j2 ((next_msg s1)[BIG_GENERAL_BUF_SIZE - 1 := NUL]) BIG_GENERAL_BUF_SIZE s1 = Some (m2, nm2, t2)"
    and "m1 \<noteq> IGNORE" "m2 \<noteq> IGNORE" "\<And>l. fifo_alloc_ret e l = 0" "msg_bufs_ok s"
  shows "managability_fifo s2 = managability_fifo s @ [Alloc FMessage, Alloc FMessage]
    \<and> item_type s2 FMessage = m2 \<and> next_msg s2 = nm2"
proof -
  let ?nm = "\<lambda>s. (next_msg s)[BIG_GENERAL_BUF_SIZE - 1 := NUL]"
  have keep: "managability_fifo t = managability_fifo u"
    if p: "process_message pl n tp j (?nm u) BIG_GENERAL_BUF_SIZE u = Some (m, nm, t)" and b: "msg_bufs_ok u"
    for pl n tp j u m nm and t :: "'a mqtt_state_scheme"
  proof -
    have l: "length (next_msg u) = BIG_GENERAL_BUF_SIZE" using b by (simp add: msg_bufs_ok_def)
    have "pok (process_message pl n tp j (?nm u) BIG_GENERAL_BUF_SIZE u) (answer_ok BIG_GENERAL_BUF_SIZE u)"
      by (rule cloud.process_law) (use l next_msg_terminated [OF l] in \<open>simp_all add: BIG_GENERAL_BUF_SIZE_def\<close>)
    then show ?thesis using p by (auto simp: answer_ok_def only_buffers_def)
  qed
  have b1: "msg_bufs_ok s1"
    using process_receive_net [OF net_only_refl [OF assms(8)], of e pl1 n1 tp1 j1] assms(1) by (auto dest: net_only_bufs)
  show ?thesis
    using assms(1,2,5-7) keep [OF assms(3,8)] keep [OF assms(4) b1] assms(3,4)
    by (auto simp: mqtt_process_receive_def k_fifo_alloc_put_def Let_def)
qed

section \<open>Answers to the cloud\<close>

definition digits :: "string \<Rightarrow> bool" where
  "digits t \<longleftrightarrow> set t \<subseteq> set ''0123456789''"

lemma digits_absent: "digits t \<Longrightarrow> c \<notin> set ''0123456789'' \<Longrightarrow> c \<notin> set t"
  by (auto simp: digits_def)

lemma digits_find: "digits t \<Longrightarrow> c \<notin> set ''0123456789'' \<Longrightarrow> find_sub t (c # p) = None"
  by (rule find_sub_absent) (rule digits_absent)

text \<open>The topic of a request of Azure IoT: method and request number.\<close>

definition azure_topic :: "string \<Rightarrow> string \<Rightarrow> string" where
  "azure_topic meth rid = ''$iothub/methods/POST/'' @ meth @ ''/?$rid='' @ rid"

definition thingsboard_topic :: "string \<Rightarrow> string" where
  "thingsboard_topic rid = ''v1/devices/me/rpc/request/'' @ rid"

lemma azure_command_cases:
  assumes "(meth, m) \<in> set AZURE_IOT_COMMANDS"
  shows "meth = ''reboot_device'' \<and> m = REBOOT \<or> meth = ''powerup_device'' \<and> m = POWERON
    \<or> meth = ''powerdown_device'' \<and> m = POWEROFF \<or> meth = ''decommision_device'' \<and> m = DECOMMISSION"
  using assms by (simp only: AZURE_IOT_COMMANDS_def set_simps insert_iff empty_iff prod.inject simp_thms)

text \<open>What the searches of the code find in such a topic.\<close>

lemma azure_reply_absent:
  assumes "(meth, m) \<in> set AZURE_IOT_COMMANDS" "digits rid"
  shows "find_sub (azure_topic meth rid) AZURE_IOT_RPC_REPLY_TOPIC = None"
  using azure_command_cases [OF assms(1)]
  by (elim disjE conjE) (simp_all add: azure_topic_def AZURE_IOT_RPC_REPLY_TOPIC_def digits_find [OF assms(2)])

lemma azure_rid_found:
  assumes "(meth, m) \<in> set AZURE_IOT_COMMANDS"
  shows "find_sub (azure_topic meth rid) AZURE_IOT_REQUEST_ID = Some (''rid='' @ rid)"
  using azure_command_cases [OF assms(1)]
  by (elim disjE conjE) (simp_all add: azure_topic_def AZURE_IOT_REQUEST_ID_def)

lemma azure_topic_text:
  assumes "(meth, m) \<in> set AZURE_IOT_COMMANDS" "digits rid"
  shows "NUL \<notin> set (azure_topic meth rid)" "length rid + 41 \<le> length (azure_topic meth rid)"
proof -
  have "NUL \<notin> set rid" by (rule digits_absent [OF assms(2)]) (simp add: NUL_def)
  moreover have "NUL \<notin> set meth \<and> 13 \<le> length meth"
    using azure_command_cases [OF assms(1)] by (elim disjE conjE) (simp_all add: NUL_def)
  ultimately show "NUL \<notin> set (azure_topic meth rid)" "length rid + 41 \<le> length (azure_topic meth rid)"
    by (simp_all add: azure_topic_def) (simp add: NUL_def)
qed

lemma first_command_find:
  assumes "NUL \<notin> set t" "\<forall>c \<in> set l. NUL \<notin> set (fst c)"
  shows "first_command (t @ NUL # r) l = Some (map_option snd (find (\<lambda>c. find_sub t (fst c) \<noteq> None) l))"
  using assms(2)
proof (induction l)
  case (Cons c l)
  then show ?case using assms(1) by (cases c) (auto simp: strstr_def split: option.splits)
qed simp

lemma azure_command_found:
  assumes "(meth, m) \<in> set AZURE_IOT_COMMANDS" "digits rid"
  shows "first_command (azure_topic meth rid @ NUL # r) AZURE_IOT_COMMANDS = Some (Some m)"
proof -
  have "first_command (azure_topic meth rid @ NUL # r) AZURE_IOT_COMMANDS
      = Some (map_option snd (find (\<lambda>c. find_sub (azure_topic meth rid) (fst c) \<noteq> None) AZURE_IOT_COMMANDS))"
    by (rule first_command_find [OF azure_topic_text(1) [OF assms]]) (simp add: AZURE_IOT_COMMANDS_def NUL_def)
  moreover have "map_option snd (find (\<lambda>c. find_sub (azure_topic meth rid) (fst c) \<noteq> None) AZURE_IOT_COMMANDS) = Some m"
    using azure_command_cases [OF assms(1)]
    by (elim disjE conjE) (simp_all add: azure_topic_def AZURE_IOT_COMMANDS_def digits_find [OF assms(2)])
  ultimately show ?thesis by simp
qed

lemma azure_reply_format: "c_format AZURE_IOT_RPC_REPLY_TOPIC [u] = ''$iothub/methods/res/201/?$'' @ u"
  by (simp add: AZURE_IOT_RPC_REPLY_TOPIC_def)

lemma azure_ack_topic:
  assumes t: "find_sub t AZURE_IOT_REQUEST_ID = Some u" "NUL \<notin> set t"
    and l: "length u \<le> 37" "length b = 64"
  shows "ok (azure_iot_prepare_pub_ack_topic (t @ NUL # r) b 64) (\<lambda>b'. cstr b' = Some (''$iothub/methods/res/201/?$'' @ u))"
proof -
  have "NUL \<notin> set AZURE_IOT_REQUEST_ID" by (simp add: AZURE_IOT_REQUEST_ID_def NUL_def)
  then have "strstr (t @ NUL # r) (cz AZURE_IOT_REQUEST_ID) = Some (Some (u @ NUL # r))"
    using t by (simp add: strstr_text)
  moreover have "NUL \<notin> set u" using t find_sub_Some [OF t(1)] by (auto simp: suffix_def)
  ultimately show ?thesis using l
    by (simp add: azure_iot_prepare_pub_ack_topic_def c_memset_def c_snprintf_ok azure_reply_format)
      (auto simp: cstr_def NUL_def takeWhile_append)
qed

lemma azure_process_request:
  assumes c: "(meth, m) \<in> set AZURE_IOT_COMMANDS" and d: "digits rid" and t: "t = azure_topic meth rid"
    and l: "length t < MAX_MSG_BUF_LEN" "length (az_payload s) = MAX_MSG_BUF_LEN" "0 < n" "n \<le> length nm"
  shows "\<exists>nm'. azure_iot_process_message pl k (t @ NUL # r) (length t) nm n s
    = Some (m, nm', s\<lparr>az_payload := t @ replicate (MAX_MSG_BUF_LEN - length t) NUL\<rparr>)"
proof -
  have tx: "NUL \<notin> set t" unfolding t by (rule azure_topic_text [OF c d])
  have rt: "NUL \<notin> set AZURE_IOT_RPC_REPLY_TOPIC" by (simp add: AZURE_IOT_RPC_REPLY_TOPIC_def NUL_def)
  show ?thesis
    using l by (simp add: azure_iot_process_message_def c_memset_def c_memcpy_def strstr_text [OF tx rt]
        azure_reply_absent [OF c d, folded t] azure_command_found [OF c d, folded t] c_snprintf_ok)
qed

text \<open>C36. Round trip of a request of Azure IoT: a command method with request number \<open>rid\<close>, in a topic shorter than the
  adapter's buffer, is recognised as its command, and the topic of the answer that is published next carries the same
  request number.\<close>

theorem azure_request_answered:
  assumes c: "(meth, m) \<in> set AZURE_IOT_COMMANDS" and d: "digits rid"
    and l: "length (azure_topic meth rid) < MAX_MSG_BUF_LEN"
    and b: "length (az_payload s) = MAX_MSG_BUF_LEN" "length (msg_buffer s) = MAX_MSG_BUF_LEN" "0 < n" "n \<le> length nm"
  shows "\<exists>nm' s' b s''.
    azure_iot_process_message pl k (azure_topic meth rid @ NUL # r) (length (azure_topic meth rid)) nm n s = Some (m, nm', s')
    \<and> azure_iot_get_mqtt_pub_topic API s' = Some (b, s'')
    \<and> cstr b = Some (''$iothub/methods/res/201/?$rid='' @ rid)"
proof -
  let ?t = "azure_topic meth rid"
  let ?p = "?t @ replicate (MAX_MSG_BUF_LEN - length ?t) NUL"
  obtain q where q: "?p = ?t @ NUL # q"
    using l by (cases "MAX_MSG_BUF_LEN - length ?t") simp_all
  have "ok (azure_iot_prepare_pub_ack_topic ?p (msg_buffer s) 64)
      (\<lambda>b'. cstr b' = Some (''$iothub/methods/res/201/?$'' @ ''rid='' @ rid))"
    unfolding q by (rule azure_ack_topic [OF azure_rid_found [OF c] azure_topic_text(1) [OF c d]])
      (use l azure_topic_text(2) [OF c d] b in \<open>simp_all add: MAX_MSG_BUF_LEN_def\<close>)
  with azure_process_request [OF c d HOL.refl l b(1,3,4), of pl k r] show ?thesis
    by (auto simp: azure_iot_get_mqtt_pub_topic_def ok_iff MAX_MSG_BUF_LEN_def)
qed

theorem azure_request_answered_witness:
  "\<exists>nm' s' b s''.
    azure_iot_process_message [] 0 (azure_topic ''reboot_device'' ''17'' @ [NUL]) (length (azure_topic ''reboot_device'' ''17''))
      [NUL] 1 (sample_agent AZURE [] IGNORE) = Some (REBOOT, nm', s')
    \<and> azure_iot_get_mqtt_pub_topic API s' = Some (b, s'') \<and> cstr b = Some ''$iothub/methods/res/201/?$rid=17''"
  using azure_request_answered [of "''reboot_device''" REBOOT "''17''" "sample_agent AZURE [] IGNORE" 1 "[NUL]" "[]" 0 "[]"]
  by (simp add: AZURE_IOT_COMMANDS_def digits_def azure_topic_def MAX_MSG_BUF_LEN_def)

lemma thingsboard_keeps_topic:
  assumes "thingsboard_process_message pl k tp j nm n s = Some (m, nm', s')"
    and "j \<le> MAX_MSG_BUF_LEN" "length (tb_payload s) = MAX_MSG_BUF_LEN"
  shows "tb_payload s' = take j tp @ replicate (MAX_MSG_BUF_LEN - j) NUL \<and> pub_buf s' = pub_buf s"
proof -
  have "pok (thingsboard_process_message pl k tp j nm n s)
      (\<lambda>(m, nm', s'). tb_payload s' = take j tp @ replicate (MAX_MSG_BUF_LEN - j) NUL \<and> pub_buf s' = pub_buf s)"
    using assms(2,3) unfolding thingsboard_process_message_def c_memset_def c_memcpy_def
    by (auto intro!: pok_bindT simp: pok_None split: option.split)
  then show ?thesis by (simp add: assms(1))
qed

text \<open>C40. The answer to ThingsBoard goes nowhere: the code looks for the text \<^verbatim>\<open>requestID\<close> in the topic of the request,
  but a request topic is \<^verbatim>\<open>v1/devices/me/rpc/request/\<close> followed by the number, so the topic of the answer is always the
  empty string.\<close>

theorem thingsboard_answer_topic_empty:
  assumes d: "digits rid" and l: "length (thingsboard_topic rid) < MAX_MSG_BUF_LEN"
    and b: "length (tb_payload s) = MAX_MSG_BUF_LEN" "length (pub_buf s) = MAX_MSG_BUF_LEN"
    and p: "thingsboard_process_message pl k (thingsboard_topic rid @ NUL # r) (length (thingsboard_topic rid)) nm n s
      = Some (m, nm', s')"
  shows "\<exists>b s''. thingsboard_get_mqtt_pub_topic API s' = Some (b, s'') \<and> cstr b = Some []"
proof -
  let ?t = "thingsboard_topic rid"
  let ?p = "?t @ replicate (MAX_MSG_BUF_LEN - length ?t) NUL"
  obtain q where q: "?p = ?t @ NUL # q"
    using l by (cases "MAX_MSG_BUF_LEN - length ?t") simp_all
  have tx: "NUL \<notin> set ?t" "NUL \<notin> set THINGSBOARD_REQUEST_ID"
    using digits_absent [OF d, of NUL] by (simp_all add: thingsboard_topic_def THINGSBOARD_REQUEST_ID_def NUL_def)
  have "find_sub ?t THINGSBOARD_REQUEST_ID = None"
    by (simp add: thingsboard_topic_def THINGSBOARD_REQUEST_ID_def digits_find [OF d])
  with strstr_text [OF tx, of q] have "strstr ?p (cz THINGSBOARD_REQUEST_ID) = Some None" by (simp add: q)
  moreover have "tb_payload s' = ?p \<and> pub_buf s' = pub_buf s"
    using thingsboard_keeps_topic [OF p _ b(1)] l by simp
  ultimately show ?thesis using b
    by (simp add: thingsboard_get_mqtt_pub_topic_def thingsboard_prepare_pub_ack_topic_def c_memset_def cstr_def
        MAX_MSG_BUF_LEN_def)
qed

theorem thingsboard_answer_topic_empty_witness:
  "\<exists>m nm' s' b s''.
    thingsboard_process_message (cz ''reboot_device'') 13 (thingsboard_topic ''4'' @ [NUL]) (length (thingsboard_topic ''4''))
      [NUL] 1 (sample_agent THINGSBOARD [] IGNORE) = Some (m, nm', s')
    \<and> thingsboard_get_mqtt_pub_topic API s' = Some (b, s'') \<and> cstr b = Some []"
proof -
  have "adapter_ready (sample_agent THINGSBOARD [] IGNORE)"
    using sample_agent_ready [of THINGSBOARD "[]" IGNORE] by (simp add: agent_ready_def client_ready_def table_ready_def)
  then obtain m nm' s' where
    p: "thingsboard_process_message (cz ''reboot_device'') 13 (thingsboard_topic ''4'' @ [NUL]) (length (thingsboard_topic ''4''))
      [NUL] 1 (sample_agent THINGSBOARD [] IGNORE) = Some (m, nm', s')"
    using thingsboard_process_safe [of "sample_agent THINGSBOARD [] IGNORE" "thingsboard_topic ''4'' @ [NUL]"
        "length (thingsboard_topic ''4'')" "cz ''reboot_device''" 1 "[NUL]" 13]
    by (auto simp: ok_iff good_topic_def thingsboard_topic_def MAX_MSG_BUF_LEN_def)
  with thingsboard_answer_topic_empty [OF _ _ _ _ p] show ?thesis
    by (auto simp: digits_def thingsboard_topic_def MAX_MSG_BUF_LEN_def)
qed

theorem second_command_replaces_first_witness:
  "\<exists>s1 s2. mqtt_process_receive sample_mqtt_env [] 0 (azure_topic ''reboot_device'' ''1'' @ [NUL]) 42 (sample_agent AZURE [] IGNORE) = Some s1
    \<and> mqtt_process_receive sample_mqtt_env [] 0 (azure_topic ''powerdown_device'' ''2'' @ [NUL]) 45 s1 = Some s2
    \<and> managability_fifo s2 = [Alloc FMessage, Alloc FMessage] \<and> item_type s2 FMessage = POWEROFF"
proof -
  let ?s = "sample_agent AZURE [] IGNORE"
  let ?t1 = "azure_topic ''reboot_device'' ''1''"
  let ?t2 = "azure_topic ''powerdown_device'' ''2''"
  let ?nm = "\<lambda>s. (next_msg s)[BIG_GENERAL_BUF_SIZE - 1 := NUL]"
  have l: "length ?t1 = 42" "length ?t2 = 45" by (simp_all add: azure_topic_def)
  have c: "(''reboot_device'', REBOOT) \<in> set AZURE_IOT_COMMANDS" "(''powerdown_device'', POWEROFF) \<in> set AZURE_IOT_COMMANDS"
    by (simp_all add: AZURE_IOT_COMMANDS_def)
  have d: "digits ''1''" "digits ''2''" by (simp_all add: digits_def)
  have g: "length (next_msg s) = BIG_GENERAL_BUF_SIZE" if "msg_bufs_ok s" for s :: agent_state
    using that by (simp add: msg_bufs_ok_def)
  obtain nm1 t1 where p1: "process_message [] 0 (?t1 @ [NUL]) 42 (?nm ?s) BIG_GENERAL_BUF_SIZE ?s = Some (REBOOT, nm1, t1)"
    and t1: "cloud_fns t1 = AZURE" "length (az_payload t1) = MAX_MSG_BUF_LEN"
    using azure_process_request [OF c(1) d(1) HOL.refl, of ?s BIG_GENERAL_BUF_SIZE "?nm ?s" "[]" 0 "[]"] l
    by (auto simp: process_message_def MAX_MSG_BUF_LEN_def BIG_GENERAL_BUF_SIZE_def)
  obtain s1 where r1: "mqtt_process_receive sample_mqtt_env [] 0 (?t1 @ [NUL]) 42 ?s = Some s1"
    and s1: "cloud_fns s1 = AZURE" "length (az_payload s1) = MAX_MSG_BUF_LEN"
    using p1 t1 by (auto simp: mqtt_process_receive_def k_fifo_alloc_put_def Let_def)
  have b1: "msg_bufs_ok s1"
    using process_receive_net [OF net_only_refl [OF sample_agent_bufs]] r1 by (metis net_only_bufs pokD)
  obtain nm2 t2 where p2: "process_message [] 0 (?t2 @ [NUL]) 45 (?nm s1) BIG_GENERAL_BUF_SIZE s1 = Some (POWEROFF, nm2, t2)"
    using azure_process_request [OF c(2) d(2) HOL.refl, of s1 BIG_GENERAL_BUF_SIZE "?nm s1" "[]" 0 "[]"] l s1 g [OF b1]
    by (auto simp: process_message_def MAX_MSG_BUF_LEN_def BIG_GENERAL_BUF_SIZE_def)
  then obtain s2 where r2: "mqtt_process_receive sample_mqtt_env [] 0 (?t2 @ [NUL]) 45 s1 = Some s2"
    by (simp add: mqtt_process_receive_def)
  show ?thesis
    using second_command_replaces_first [OF r1 r2 p1 p2] r1 r2 by simp
qed

end
