(* ===== verification/Spec2Isabelle.thy ===== *)
theory Spec2Isabelle
  imports Host_Properties Eclite_Properties Driver_Properties Oob_Properties Agent_Properties
begin

text \<open>
  The firmware of the Intel Programmable Services Engine: the services that run on the engine
  beside the host processor.  This development models the path from the host to the services and,
  on top of it, the embedded controller service with its drivers, the service of the power
  management controller and the out-of-band management service.

  \<^bold>\<open>The program.\<close>  The host rings a doorbell; the interrupt handler wakes the task of the host IPC
  service (\<^verbatim>\<open>host_ipc_service.c\<close>), which hands the message to the handler of its protocol: boot,
  management (\<^verbatim>\<open>sys_mng.c\<close>) or HECI (\<^verbatim>\<open>heci/heci.c\<close>).  The HECI driver connects clients in the firmware
  with clients of the host, cuts their messages into packets, counts flow control credits and,
  for large messages, copies through a pool of host memory (\<^verbatim>\<open>heci/heci_dma.c\<close>).  Every access to the
  host is bracketed by a request and a release, because the host may be in RTD3 or Sx.  Three
  clients are modelled: system management (\<^verbatim>\<open>heci/smhi_client.c\<close>); the embedded controller service
  EC-lite (\<^verbatim>\<open>services/eclite_fw\<close>), which shares an operation region with the host, polls thermal
  sensors, fan, battery and charger, sends alerts and decides about wake-up and shutdown; and the
  security client of the out-of-band service (\<^verbatim>\<open>services/ehl-oob/sec_bios_ipc\<close>), which receives
  credentials from the system firmware as typed items, keeps them in a structure under a hash,
  encrypts them with derived keys and hands them to the agent.  The agent (\<^verbatim>\<open>ehl/ehl-oob.c\<close>) fetches
  the credentials, connects through its MQTT client to one of three clouds, each behind an adapter,
  and carries out the commands of the cloud through the power management controller.

  \<^bold>\<open>Theories.\<close>
  \<^item> \<open>Pse_Prelude\<close>: words, little-endian bytes, \<^verbatim>\<open>memcpy\<close>, the predicate \<open>ok\<close> (a computation is
    defined and its result satisfies a predicate), the codec locale.
  \<^item> \<open>Kernel_Env\<close>: the log of externally visible actions, the record \<open>kenv\<close> of what the kernel, the
    drivers and the host do (functions of the log), with the documented laws of semaphores and
    \<^verbatim>\<open>find_lsb_set\<close> as named predicates, and the doorbell macros of \<^verbatim>\<open>ipc_helper.h\<close>.
  \<^item> \<open>Host_Access\<close>, \<open>Sys_Mng\<close>: \<^verbatim>\<open>sys_mng.c\<close>, the request map with its handles, the access function that
    changes with the power state, management messages, reset notification, time update.
  \<^item> \<open>Heci_Types\<close>, \<open>Heci_Msgs\<close>: \<^verbatim>\<open>heci.h\<close> and \<^verbatim>\<open>heci_internal.h\<close>, the state of the driver as a record that
    extends the one of the management layer, and the packed messages as records with codecs.
  \<^item> \<open>Heci_Proto\<close>: bus and client packets; the fragmentation loop and its specification.
  \<^item> \<open>Heci_Dma\<close>: the page bitmap and DMA sending, with the locale of a block pool.
  \<^item> \<open>Heci_Core\<close>: every other function of \<^verbatim>\<open>heci.c\<close>.
  \<^item> \<open>Heci_Inv\<close>, \<open>Heci_Safe\<close>, \<open>Heci_Run\<close>, \<open>Heci_Delivery\<close>: the invariant \<open>dev_ok\<close> of the driver, its
    preservation by every function, runs of operations, receiving, and what the host sees.
  \<^item> \<open>Host_Ipc\<close>: \<^verbatim>\<open>host_ipc_service.c\<close>.  \<open>Smhi\<close>: \<^verbatim>\<open>smhi_client.c\<close>.
  \<^item> \<open>Eclite_Opregion\<close>, \<open>Eclite_Device\<close>, \<open>Eclite_Frameworks\<close>, \<open>Eclite_Host\<close>, \<open>Eclite_Dispatcher\<close>: layout of the
    operation region and message header, device framework and region updates, thermal and
    charger framework, host communication, dispatcher.  \<open>Eclite_Facts\<close>: their lemmas.
  \<^item> \<open>Pmc_Service\<close>: the service in front of the power management controller and the power actions of the
    out-of-band service.
  \<^item> \<open>Eclite_Bus\<close>, \<open>Eclite_Pmc\<close>: the platform abstraction (\<^verbatim>\<open>ext/pal\<close>), transfers as entries of the log.
  \<^item> \<open>Eclite_Drivers\<close>, \<open>Eclite_Battery\<close>, \<open>Eclite_Ccg\<close>: the device drivers.  \<open>Eclite_Platform\<close>: set-up, pins and
    sleep states.  \<open>Driver_Facts\<close>: their lemmas, with the locale of a bus operation.
  \<^item> \<open>Oob_Context\<close>, \<open>Oob_Entropy\<close>: \<^verbatim>\<open>pse_oob_sec_internal.c\<close>, the context as a block of bytes with its
    layout, hash, getters and setters; the handshake wait, nonce and entropy source.
  \<^item> \<open>Oob_Guard\<close>: the locale of a guarded member, interpreted on eleven members of the context.
  \<^item> \<open>Oob_Client\<close>, \<open>Oob_Handshake\<close>: \<^verbatim>\<open>pse_oob_sec_heci_client.c\<close>, data items, encryption and responses,
    commands and the task.  \<open>Oob_Facts\<close>, \<open>Oob_Crypt\<close>: their lemmas.
  \<^item> \<open>C_String\<close>: the string functions of C on arrays of characters.
  \<^item> \<open>Oob_Adapter\<close>, \<open>Oob_Mqtt\<close>: the cloud adapters and \<^verbatim>\<open>mqtt_client.c\<close>.  \<open>Oob_Agent\<close>, \<open>Oob_Threads\<close>: credentials
    (\<^verbatim>\<open>credentials.c\<close>, \<^verbatim>\<open>pse_oob_sec.c\<close>); events, timers and the two threads of the agent; a round
    of a thread, an expiry and a notification are the operations \<open>agent_op\<close> of its runs.
  \<^item> \<open>Agent_Facts\<close>, \<open>Agent_Inv\<close>, \<open>Agent_Safe\<close>: the contracts of an adapter as locales, interpreted on the
    three adapters and on the table of function pointers; the invariant; states from which a round
    is defined.  \<open>Agent_Decommission\<close>: the decommission command from end to end.
  \<^item> \<open>Sample_States\<close>, \<open>Eclite_Samples\<close>, \<open>Driver_Samples\<close>, \<open>Oob_Samples\<close>, \<open>Agent_Samples\<close>: concrete states for the
    witnesses.
  \<^item> \<open>Host_Properties\<close>, \<open>Eclite_Properties\<close>, \<open>Driver_Properties\<close>, \<open>Oob_Properties\<close>, \<open>Agent_Properties\<close>: the
    properties.

  \<^bold>\<open>Conventions.\<close>  A function of the source is a function of the state record that returns the new
  state, paired with the result.  \<open>None\<close> stands for undefined behaviour: a null dereference, an
  access outside an array, a division by zero, a failed assertion.  Integers keep their width.
  Calls that only log are dropped.  Code outside the repository (kernel, drivers of the SoC
  library, the host) is a field of the environment; it sees the log, so its answers may depend
  on everything that happened.  Configuration: \<^verbatim>\<open>CONFIG_SYS_MNG\<close> and \<^verbatim>\<open>CONFIG_HECI\<close> are on,
  \<^verbatim>\<open>CONFIG_HECI_USE_DMA\<close> and \<^verbatim>\<open>CONFIG_USERSPACE\<close> are fields of the environment.

  \<^bold>\<open>Interleaving and bounds.\<close>  A function that gives up the driver lock is parameterised by what other
  threads do at that point; \<open>sched_ok\<close> says they keep the invariant and the connection open (what
  happens to a sender otherwise is a property of its own).  The wait for flow control is a loop over
  the list of wake-ups the schedule provides, then over the wake-ups pending in the semaphore, and
  ends with the time-out of the source.  An operation of the agent runs to its end before the next
  one starts: what interrupts do at the waits inside a round of a thread is not modelled.  The
  properties of sending and of doorbells are for the configuration without DMA where they say so.  Five loops of the out-of-band service need not end: the loop over data items is a
  \<open>while_option\<close>; the wait for the handshake, the retry of the entropy source, the attempts to connect
  to the cloud and the wait for the network interface are partial functions; \<open>None\<close> then also stands for a loop that does not end, and the properties say when they return.
  All other loops terminate by structural recursion or a measure; there is no fuel.

  \<^bold>\<open>What the properties show.\<close>  Safety of the driver under arbitrary input of the host and of clients
  that keep their contract; delivery of messages in both directions; the connection protocol
  against its specification; the DMA pool and host access protocols; the dispatch of doorbells;
  protection and consistency of the operation region; alerts and power decisions; integrity of
  the security context, termination and safety of the item loop, restoring of encrypted
  credentials, the exact outcome of the entropy source; the values the drivers hand on, from the
  register to the framework, and requests to the power management controller; for the agent an
  invariant over sequences of operations, the decommission command from end to end, its commands
  against a table of power actions, definedness of a round of its event loop for messages that fit
  the buffers and the round trip of a request and its answer.  Some properties pin down behaviour that
  looks unintended (aliased host access handles, unchecked acknowledgements, early flow control,
  shifted sensor slots, wrapping thresholds, a division by zero, empty items, unchecked lengths,
  a retry without effect, unsigned temperatures, late answers, shared queue entries, prefixes that
  select an adapter, a sender that does not look at its connection after waiting, messages beyond
  the receive buffer).

  \<^bold>\<open>Not modelled.\<close>  Board tables, the debug dump of HECI messages, creation of threads and memory
  domains, credentials built into test images, sample applications and unit tests: they contain no
  protocol logic or only call the kernel.  The wake-on-LAN, power management and time-sensitive
  network services and the framework for user applications are left for an extension.
\<close>

end
